(* ===== verification/Panel_Prelude.thy ===== *)
theory Panel_Prelude
  imports Complex_Main "HOL-Library.AList" "HOL-Library.List_Lexorder" "HOL-Library.Char_ord"
    "HOL-Library.Sublist" "HOL-Library.Multiset"
begin

text \<open>
  Shared vocabulary of the development.

  \<^item> JavaScript values as they travel between the panel's modules: \<open>json\<close>, with
    \<open>undefined\<close> as a value of its own (a missing key reads as \<open>undefined\<close>), truthiness and
    property reads. Numbers are exact rationals: the code computes with IEEE doubles, and the
    development does not model rounding of the arithmetic itself.
  \<^item> JavaScript \<open>Map\<close>s as association lists in insertion order (\<open>mget\<close>, \<open>mset\<close>, \<open>mdel\<close>),
    with the laws of a map collected in the locale \<open>map_store\<close>.
  \<^item> Runs of a deterministic machine (\<open>run\<close>) and the two locales every stateful component
    instantiates: \<open>step_system\<close> (an invariant kept by each step holds along every run) and
    \<open>growing_system\<close> (a measure no step decreases never decreases along a run).
  \<^item> Lists: JavaScript \<open>slice\<close> on the tail of an array and string \<open>join\<close>.
\<close>

named_theorems js_map_simps "reading a JavaScript Map after an update"

subsection \<open>JavaScript values\<close>

type_synonym number = rat

datatype json =
    JUndef
  | JNull
  | JBool bool
  | JNum number
  | JStr string
  | JArr "json list"
  | JObj "(string \<times> json) list"

text \<open>Truthiness (\<open>Boolean(v)\<close>): \<open>undefined\<close>, \<open>null\<close>, \<open>false\<close>, \<open>0\<close> and the empty string are
  falsy, every object is truthy.\<close>

fun truthy :: "json \<Rightarrow> bool" where
  "truthy JUndef = False"
| "truthy JNull = False"
| "truthy (JBool b) = b"
| "truthy (JNum n) = (n \<noteq> 0)"
| "truthy (JStr s) = (s \<noteq> [])"
| "truthy (JArr _) = True"
| "truthy (JObj _) = True"

text \<open>Property read \<open>o[k]\<close> on own keys.\<close>

definition okey :: "(string \<times> json) list \<Rightarrow> string \<Rightarrow> json" where
  "okey kvs k = (case map_of kvs k of None \<Rightarrow> JUndef | Some v \<Rightarrow> v)"

fun jprop :: "json \<Rightarrow> string \<Rightarrow> json" where
  "jprop (JObj kvs) k = okey kvs k"
| "jprop _ k = JUndef"

lemma okey_Nil [simp]: "okey [] k = JUndef"
  by (simp add: okey_def)

lemma okey_Cons [simp]: "okey ((k', v) # kvs) k = (if k = k' then v else okey kvs k)"
  by (simp add: okey_def)

lemma okey_notin: "k \<notin> fst ` set kvs \<Longrightarrow> okey kvs k = JUndef"
  by (auto simp: okey_def map_of_eq_None_iff [symmetric])

lemma okey_mem: "distinct (map fst kvs) \<Longrightarrow> (k, v) \<in> set kvs \<Longrightarrow> okey kvs k = v"
  by (simp add: okey_def)

subsection \<open>JavaScript maps\<close>

type_synonym ('k, 'v) js_map = "('k \<times> 'v) list"

abbreviation mget :: "('k, 'v) js_map \<Rightarrow> 'k \<Rightarrow> 'v option" where
  "mget m k \<equiv> map_of m k"

abbreviation mset_key :: "('k, 'v) js_map \<Rightarrow> 'k \<Rightarrow> 'v \<Rightarrow> ('k, 'v) js_map" where
  "mset_key m k v \<equiv> AList.update k v m"

abbreviation mdel :: "('k, 'v) js_map \<Rightarrow> 'k \<Rightarrow> ('k, 'v) js_map" where
  "mdel m k \<equiv> AList.delete k m"

abbreviation mhas :: "('k, 'v) js_map \<Rightarrow> 'k \<Rightarrow> bool" where
  "mhas m k \<equiv> map_of m k \<noteq> None"

locale map_store =
  fixes get :: "'m \<Rightarrow> 'k \<Rightarrow> 'v option"
    and put :: "'m \<Rightarrow> 'k \<Rightarrow> 'v \<Rightarrow> 'm"
    and del :: "'m \<Rightarrow> 'k \<Rightarrow> 'm"
  assumes get_put: "get (put m k v) k' = (if k' = k then Some v else get m k')"
    and get_del: "get (del m k) k' = (if k' = k then None else get m k')"
begin

lemma get_put_put: "get (put (put m k v) k w) = get (put m k w)"
  by (rule ext) (simp add: get_put)

lemma get_put_comm: "k \<noteq> l \<Longrightarrow> get (put (put m k v) l w) = get (put (put m l w) k v)"
  by (rule ext) (simp add: get_put)

lemma get_del_put: "get (del (put m k v) k) = get (del m k)"
  by (rule ext) (simp add: get_put get_del)

end

interpretation jsm: map_store "mget" "mset_key" "mdel"
  by unfold_locales (simp_all add: update_conv' delete_conv' fun_upd_def)

lemmas mget_simps [js_map_simps] = jsm.get_put jsm.get_del

lemma mget_map_values:
  "mget (map (\<lambda>(k, v). (k, f k v)) m) k = map_option (f k) (mget m k)"
  by (induction m) auto

subsection \<open>Runs of a deterministic machine\<close>

primrec run :: "('s \<Rightarrow> 'e \<Rightarrow> 's) \<Rightarrow> 's \<Rightarrow> 'e list \<Rightarrow> 's" where
  "run step s [] = s"
| "run step s (e # es) = run step (step s e) es"

lemma run_append [simp]: "run step s (es @ fs) = run step (run step s es) fs"
  by (induction es arbitrary: s) simp_all

locale step_system =
  fixes step :: "'s \<Rightarrow> 'e \<Rightarrow> 's" and inv :: "'s \<Rightarrow> bool"
  assumes step_inv: "inv s \<Longrightarrow> inv (step s e)"
begin

lemma run_inv: "inv s \<Longrightarrow> inv (run step s es)"
  by (induction es arbitrary: s) (simp_all add: step_inv)

end

locale growing_system = step_system step inv
  for step :: "'s \<Rightarrow> 'e \<Rightarrow> 's" and inv :: "'s \<Rightarrow> bool" +
  fixes rel :: "'s \<Rightarrow> 's \<Rightarrow> bool"
  assumes rel_refl: "rel s s"
    and rel_trans: "rel s t \<Longrightarrow> rel t u \<Longrightarrow> rel s u"
    and step_rel: "inv s \<Longrightarrow> rel s (step s e)"
begin

lemma run_rel: "inv s \<Longrightarrow> rel s (run step s es)"
proof (induction es arbitrary: s)
  case Nil
  show ?case by (simp add: rel_refl)
next
  case (Cons e es)
  from Cons.prems have "rel s (step s e)" by (rule step_rel)
  moreover from Cons.prems have "rel (step s e) (run step (step s e) es)"
    by (intro Cons.IH step_inv)
  ultimately show ?case by (auto intro: rel_trans)
qed

end

subsection \<open>Arrays and strings\<close>

text \<open>\<open>xs.slice(xs.length - n)\<close> for \<open>n \<le> xs.length\<close>: the last \<open>n\<close> elements.\<close>

definition last_n :: "nat \<Rightarrow> 'a list \<Rightarrow> 'a list" where
  "last_n n xs = drop (length xs - n) xs"

lemma length_last_n [simp]: "length (last_n n xs) = min n (length xs)"
  by (simp add: last_n_def)

lemma last_n_id [simp]: "length xs \<le> n \<Longrightarrow> last_n n xs = xs"
  by (simp add: last_n_def)

lemma suffix_last_n: "suffix (last_n n xs) xs"
  by (simp add: last_n_def suffix_drop)

lemma last_n_append_one: "0 < n \<Longrightarrow> last_n n (xs @ [x]) = last_n (n - 1) xs @ [x]"
  by (cases n) (auto simp: last_n_def Suc_diff_le)

lemma last_n_last_n:
  assumes "m \<le> n + length ys"
  shows "last_n m (last_n n xs @ ys) = last_n m (xs @ ys)"
proof -
  have "length xs + length ys - (length xs - n + m) + (length xs - n) = length xs + length ys - m"
    if "n \<le> length xs"
    using assms that by arith
  then show ?thesis
    using assms by (cases "n \<le> length xs") (auto simp: last_n_def)
qed

lemma find_mem: "find P xs = Some x \<Longrightarrow> x \<in> set xs \<and> P x"
  by (auto simp: find_Some_iff)

fun join :: "string \<Rightarrow> string list \<Rightarrow> string" where
  "join sep [] = []"
| "join sep [x] = x"
| "join sep (x # y # xs) = x @ sep @ join sep (y # xs)"

text \<open>Joining with a one-character separator no part contains loses nothing.\<close>

lemma append_sep_inj:
  assumes "c \<notin> set x" "c \<notin> set y"
  shows "x @ c # r = y @ c # r' \<longleftrightarrow> x = y \<and> r = r'"
  using assms
proof (induction x arbitrary: y)
  case Nil
  then show ?case by (cases y) auto
next
  case (Cons a x)
  then show ?case by (cases y) auto
qed

lemma join_sep_mem: "c \<in> set (join [c] (x # y # xs))"
  by simp

lemma join_inj:
  assumes "\<forall>x\<in>set xs. c \<notin> set x" "\<forall>y\<in>set ys. c \<notin> set y" "xs \<noteq> []" "ys \<noteq> []"
    and "join [c] xs = join [c] ys"
  shows "xs = ys"
  using assms
proof (induction xs arbitrary: ys rule: induct_list012)
  case 1
  then show ?case by simp
next
  case (2 x)
  then show ?case by (cases ys rule: remdups_adj.cases) auto
next
  case (3 x x' xs)
  then obtain y y' zs where ys: "ys = y # y' # zs"
    by (cases ys rule: remdups_adj.cases) auto
  have eq: "x @ c # join [c] (x' # xs) = y @ c # join [c] (y' # zs)"
    using "3.prems"(5) by (simp only: ys join.simps append_Cons append_Nil)
  have "c \<notin> set x" "c \<notin> set y"
    using "3.prems"(1,2) ys by auto
  from append_sep_inj [OF this] eq
  have xy: "x = y" and tl: "join [c] (x' # xs) = join [c] (y' # zs)" by auto
  have "x' # xs = y' # zs"
    using "3.prems"(1,2) ys by (intro "3.IH"(2) tl) auto
  with xy ys show ?case by simp
qed

subsection \<open>Sorting with a comparator\<close>

text \<open>\<open>Array.prototype.sort\<close> is stable; on a comparator that is a total preorder every stable sort
  gives the same array, and insertion is the one written here.\<close>

fun insert_by :: "('a \<Rightarrow> 'a \<Rightarrow> number) \<Rightarrow> 'a \<Rightarrow> 'a list \<Rightarrow> 'a list" where
  "insert_by cmp x [] = [x]"
| "insert_by cmp x (y # ys) = (if cmp x y \<le> 0 then x # y # ys else y # insert_by cmp x ys)"

definition sortBy :: "('a \<Rightarrow> 'a \<Rightarrow> number) \<Rightarrow> 'a list \<Rightarrow> 'a list" where
  "sortBy cmp xs = foldr (insert_by cmp) xs []"

lemma mset_insert_by [simp]: "mset (insert_by cmp x ys) = add_mset x (mset ys)"
  by (induction ys) auto

lemma mset_sortBy [simp]: "mset (sortBy cmp xs) = mset xs"
  by (induction xs) (simp_all add: sortBy_def)

lemma set_sortBy [simp]: "set (sortBy cmp xs) = set xs"
  by (metis mset_sortBy set_mset_mset)

lemma length_sortBy [simp]: "length (sortBy cmp xs) = length xs"
  by (metis mset_sortBy size_mset)

lemma set_insert_by [simp]: "set (insert_by cmp x ys) = insert x (set ys)"
  by (induction ys) auto

lemma sortBy_Nil_iff [simp]: "sortBy cmp xs = [] \<longleftrightarrow> xs = []"
  by (metis length_0_conv length_sortBy)

text \<open>A comparator that orders the elements of a domain: total and transitive there.\<close>

locale comparator =
  fixes cmp :: "'a \<Rightarrow> 'a \<Rightarrow> number" and dm :: "'a \<Rightarrow> bool"
  assumes total: "dm x \<Longrightarrow> dm y \<Longrightarrow> \<not> cmp x y \<le> 0 \<Longrightarrow> cmp y x \<le> 0"
    and trans: "dm x \<Longrightarrow> dm y \<Longrightarrow> dm z \<Longrightarrow> cmp x y \<le> 0 \<Longrightarrow> cmp y z \<le> 0 \<Longrightarrow> cmp x z \<le> 0"
begin

lemma sorted_insert:
  "sorted_wrt (\<lambda>x y. cmp x y \<le> 0) ys \<Longrightarrow> dm x \<Longrightarrow> \<forall>y\<in>set ys. dm y \<Longrightarrow> sorted_wrt (\<lambda>x y. cmp x y \<le> 0) (insert_by cmp x ys)"
  by (induction ys) (auto intro: total trans)

lemma sorted: "\<forall>x\<in>set xs. dm x \<Longrightarrow> sorted_wrt (\<lambda>x y. cmp x y \<le> 0) (sortBy cmp xs)"
proof (induction xs)
  case (Cons x xs)
  then show ?case
    using sorted_insert [of "sortBy cmp xs" x] by (simp add: sortBy_def [symmetric] sortBy_def [of cmp "x # xs"])
qed (simp add: sortBy_def)

lemma hd_first: "\<forall>x\<in>set xs. dm x \<Longrightarrow> y \<in> set xs \<Longrightarrow> y = hd (sortBy cmp xs) \<or> cmp (hd (sortBy cmp xs)) y \<le> 0"
  using sorted [of xs] set_sortBy [of cmp xs] by (cases "sortBy cmp xs") auto

end

end
