(* ===== verification/Sse_Client.thy ===== *)
theory Sse_Client
  imports Panel_Prelude
begin

text \<open>
  The realtime client, \<open>web/src/realtime/sseClient.ts\<close> (with the types of \<open>types.ts\<close>).

  \<open>createSSEClient\<close> closes over a set of mutable variables; they are the fields of the record
  \<open>sse\<close>, under the source's names, followed by the parts of the browser the client drives: the
  pending timers, the \<open>EventSource\<close> objects it created, the \<open>GET /api/snapshot\<close> requests in
  flight and the listener callbacks invoked so far. Every inner function of the source is one
  definition; \<open>sse_step\<close> is the whole client as a machine whose events are the calls of the
  public interface and the callbacks the browser may make in any order.

  Object identity matters twice in the source: a request keeps a reference to its topic's
  version object, and an \<open>EventSource\<close> listener compares its own source with the current one.
  Both are modelled by fresh numbers (\<open>vid\<close>, the keys of \<open>sources\<close>). A listener callback is
  an identifier: that it is called is recorded, what React does in it is outside the model.
\<close>

subsection \<open>Data\<close>

datatype topicName = TUsers | TStats | TRuntime | TUpstreams | TSecurity | TWeb | TUpdate

fun topicStr :: "topicName \<Rightarrow> string" where
  "topicStr TUsers = ''users''"
| "topicStr TStats = ''stats''"
| "topicStr TRuntime = ''runtime''"
| "topicStr TUpstreams = ''upstreams''"
| "topicStr TSecurity = ''security''"
| "topicStr TWeb = ''web''"
| "topicStr TUpdate = ''update''"

definition topicNames :: "topicName list" where
  "topicNames = [TUsers, TStats, TRuntime, TUpstreams, TSecurity, TWeb, TUpdate]"

lemma topicStr_inj: "topicStr a = topicStr b \<Longrightarrow> a = b"
  by (cases a; cases b) simp_all

lemma topicStr_no_comma: "CHR '','' \<notin> set (topicStr t)"
  by (cases t) simp_all

text \<open>\<open>Array.prototype.sort\<close> on topic names compares the strings.\<close>

instantiation topicName :: linorder
begin

definition less_eq_topicName :: "topicName \<Rightarrow> topicName \<Rightarrow> bool" where
  "less_eq_topicName a b \<longleftrightarrow> topicStr a \<le> topicStr b"

definition less_topicName :: "topicName \<Rightarrow> topicName \<Rightarrow> bool" where
  "less_topicName a b \<longleftrightarrow> topicStr a < topicStr b"

instance
  by standard (auto simp: less_eq_topicName_def less_topicName_def intro: topicStr_inj)

end

text \<open>A topic name read off the wire; an unknown string is in none of the client's maps.\<close>

definition topic_of_string :: "string \<Rightarrow> topicName option" where
  "topic_of_string str = find (\<lambda>t. topicStr t = str) topicNames"

record topicSnapshot =
  snap_data :: json
  snap_ts :: json
  snap_stale :: bool
  snap_error :: json

datatype connectionStatus = Connecting | Open | Reconnecting | Polling | Closed

record connectionSnapshot =
  conn_status :: connectionStatus
  conn_stale :: bool

definition EMPTY_TOPIC_SNAPSHOT :: topicSnapshot where
  "EMPTY_TOPIC_SNAPSHOT = \<lparr>snap_data = JNull, snap_ts = JNull, snap_stale = False, snap_error = JNull\<rparr>"

record sseOptions =
  debounceMs :: nat
  staleMs :: nat
  pollIntervalMs :: nat
  failureThreshold :: nat

definition default_options :: sseOptions where
  "default_options = \<lparr>debounceMs = 150, staleMs = 40000, pollIntervalMs = 10000, failureThreshold = 3\<rparr>"

record topicVersion =
  vid :: nat
  revision :: nat
  requestTicket :: nat

datatype timerKind = DebounceTimer | BackoffTimer | StaleTimer | PollTimer

record timer =
  tm_handle :: nat
  tm_kind :: timerKind
  tm_delay :: nat

record eventSource =
  src_topics :: "topicName list"
  src_opened :: bool
  src_closed :: bool

record fetchRequest =
  req_topic :: topicName
  req_vid :: nat
  req_revision :: nat
  req_ticket :: nat

record snapshotFetch =
  fetch_id :: nat
  fetch_gen :: nat
  fetch_requests :: "fetchRequest list"

record sse =
  options :: sseOptions
  refCounts :: "(topicName, nat) js_map"
  topicVersions :: "(topicName, topicVersion) js_map"
  snapshots :: "(topicName, topicSnapshot) js_map"
  topicListeners :: "(topicName, nat list) js_map"
  connectionListeners :: "nat list"
  es :: "nat option"
  debounceTimer :: "nat option"
  backoffTimer :: "nat option"
  staleTimer :: "nat option"
  pollTimer :: "nat option"
  pollInFlight :: "nat option"
  consecutiveFailures :: nat
  connection :: connectionSnapshot
  disposed :: bool
  generation :: nat
  lastTopicsKey :: "string option"
  pending :: "timer list"
  sources :: "(nat, eventSource) js_map"
  inflight :: "snapshotFetch list"
  next_id :: nat
  called :: "nat list"

definition createSSEClient :: "sseOptions \<Rightarrow> sse" where
  "createSSEClient opts = \<lparr>
     options = opts, refCounts = [], topicVersions = [], snapshots = [], topicListeners = [],
     connectionListeners = [], es = None, debounceTimer = None, backoffTimer = None,
     staleTimer = None, pollTimer = None, pollInFlight = None, consecutiveFailures = 0,
     connection = \<lparr>conn_status = Closed, conn_stale = False\<rparr>, disposed = False, generation = 0,
     lastTopicsKey = None, pending = [], sources = [], inflight = [], next_id = 0, called = []\<rparr>"

subsection \<open>The browser's timers\<close>

definition setTimer :: "timerKind \<Rightarrow> nat \<Rightarrow> sse \<Rightarrow> sse" where
  "setTimer k d s = s\<lparr>pending := pending s @ [\<lparr>tm_handle = next_id s, tm_kind = k, tm_delay = d\<rparr>],
     next_id := Suc (next_id s)\<rparr>"

definition clearTimer :: "nat option \<Rightarrow> sse \<Rightarrow> sse" where
  "clearTimer h s = (case h of None \<Rightarrow> s
     | Some n \<Rightarrow> s\<lparr>pending := filter (\<lambda>t. tm_handle t \<noteq> n) (pending s)\<rparr>)"

subsection \<open>Snapshots, listeners and the connection state\<close>

definition notifyTopic :: "topicName \<Rightarrow> sse \<Rightarrow> sse" where
  "notifyTopic topic s = (case mget (topicListeners s) topic of
     None \<Rightarrow> s | Some cbs \<Rightarrow> s\<lparr>called := called s @ cbs\<rparr>)"

definition notifyConnection :: "sse \<Rightarrow> sse" where
  "notifyConnection s = s\<lparr>called := called s @ connectionListeners s\<rparr>"

definition bumpRevision :: "topicVersion \<Rightarrow> topicVersion" where
  "bumpRevision v = v\<lparr>revision := Suc (revision v)\<rparr>"

text \<open>A patch of the connection snapshot gives either field or leaves it.\<close>

definition setConnection :: "connectionStatus option \<Rightarrow> bool option \<Rightarrow> sse \<Rightarrow> sse" where
  "setConnection st sta s =
    (let cur = connection s;
         nxt = \<lparr>conn_status = (case st of None \<Rightarrow> conn_status cur | Some x \<Rightarrow> x),
                conn_stale = (case sta of None \<Rightarrow> conn_stale cur | Some b \<Rightarrow> b)\<rparr>
     in if conn_status nxt = conn_status cur \<and> conn_stale nxt = conn_stale cur then s
        else let s1 = (if \<not> conn_stale cur \<and> conn_stale nxt
                       then s\<lparr>topicVersions := map (\<lambda>(t, v). (t, bumpRevision v)) (topicVersions s)\<rparr>
                       else s)
             in notifyConnection (s1\<lparr>connection := nxt\<rparr>))"

definition activeTopics :: "sse \<Rightarrow> topicName list" where
  "activeTopics s = sort (map fst (filter (\<lambda>(t, c). 0 < c) (refCounts s)))"

definition resetStaleWatchdog :: "sse \<Rightarrow> sse" where
  "resetStaleWatchdog s =
    (let s1 = clearTimer (staleTimer s) s;
         s2 = setTimer StaleTimer (staleMs (options s1)) s1
     in s2\<lparr>staleTimer := Some (next_id s1)\<rparr>)"

definition onFrame :: "sse \<Rightarrow> sse" where
  "onFrame s = setConnection None (Some False) (resetStaleWatchdog s)"

definition applyTopicData :: "topicName \<Rightarrow> json \<Rightarrow> json \<Rightarrow> sse \<Rightarrow> sse" where
  "applyTopicData topic data ts s =
    (case mget (topicVersions s) topic of
       None \<Rightarrow> s
     | Some version \<Rightarrow>
         if \<not> mhas (refCounts s) topic then s
         else notifyTopic topic (s\<lparr>
           topicVersions := mset_key (topicVersions s) topic (bumpRevision version),
           snapshots := mset_key (snapshots s) topic
             \<lparr>snap_data = data, snap_ts = ts, snap_stale = False, snap_error = JNull\<rparr>\<rparr>))"

definition applyTopicError :: "topicName \<Rightarrow> json \<Rightarrow> sse \<Rightarrow> sse" where
  "applyTopicError topic code s =
    (case mget (topicVersions s) topic of
       None \<Rightarrow> s
     | Some version \<Rightarrow>
         if \<not> mhas (refCounts s) topic then s
         else let prev = (case mget (snapshots s) topic of None \<Rightarrow> EMPTY_TOPIC_SNAPSHOT | Some p \<Rightarrow> p)
              in notifyTopic topic (s\<lparr>
                topicVersions := mset_key (topicVersions s) topic (bumpRevision version),
                snapshots := mset_key (snapshots s) topic
                  (prev\<lparr>snap_stale := True, snap_error := code\<rparr>)\<rparr>))"

subsection \<open>Snapshot requests and the polling fallback\<close>

text \<open>The request list \<open>fetchAndInstall\<close> builds before it awaits: each subscribed topic takes the
  next ticket of its version object and remembers the revision it saw.\<close>

fun issueRequests :: "topicName list \<Rightarrow> sse \<Rightarrow> fetchRequest list \<times> sse" where
  "issueRequests [] s = ([], s)"
| "issueRequests (topic # topics) s =
    (case mget (topicVersions s) topic of
       Some version \<Rightarrow>
         if mhas (refCounts s) topic then
           let v = version\<lparr>requestTicket := Suc (requestTicket version)\<rparr>;
               (rs, s') = issueRequests topics (s\<lparr>topicVersions := mset_key (topicVersions s) topic v\<rparr>)
           in (\<lparr>req_topic = topic, req_vid = vid v, req_revision = revision v,
                req_ticket = requestTicket v\<rparr> # rs, s')
         else issueRequests topics s
     | None \<Rightarrow> issueRequests topics s)"

text \<open>\<open>fetchAndInstall\<close> up to its \<open>await\<close>. A call that returns early is a fetch with no
  requests: its promise still settles, and settling it installs nothing.\<close>

definition fetchAndInstall :: "topicName list \<Rightarrow> sse \<Rightarrow> sse" where
  "fetchAndInstall topics s =
    (let (requests, s1) = (if topics = [] \<or> disposed s then ([], s) else issueRequests topics s)
     in s1\<lparr>inflight := inflight s1 @
             [\<lparr>fetch_id = next_id s1, fetch_gen = generation s1, fetch_requests = requests\<rparr>],
           next_id := Suc (next_id s1)\<rparr>)"

text \<open>\<open>defaultFetchSnapshot\<close> on the body of \<open>GET /api/snapshot\<close>: the payloads come without the
  \<open>{v, ts}\<close> wrapper, so the client's own clock stands in for the timestamp, and anything that
  is not an object is left out.\<close>

definition defaultFetchSnapshot :: "topicName list \<Rightarrow> json \<Rightarrow> number \<Rightarrow> (topicName, json \<times> json) js_map" where
  "defaultFetchSnapshot topics body nowSecs =
    fold (\<lambda>topic out.
      (case jprop body (topicStr topic) of
         JObj o' \<Rightarrow> mset_key out topic (JObj o', JNum nowSecs)
       | JArr xs \<Rightarrow> mset_key out topic (JArr xs, JNum nowSecs)
       | _ \<Rightarrow> out)) topics []"

definition requestCurrent :: "sse \<Rightarrow> fetchRequest \<Rightarrow> bool" where
  "requestCurrent s r \<longleftrightarrow> mhas (refCounts s) (req_topic r) \<and>
     (case mget (topicVersions s) (req_topic r) of
        None \<Rightarrow> False
      | Some v \<Rightarrow> vid v = req_vid r \<and> requestTicket v = req_ticket r \<and> revision v = req_revision r)"

text \<open>The loop after the \<open>await\<close>; the result is a partial record of \<open>{v, ts}\<close> entries and the
  flag is \<open>applied\<close>.\<close>

fun installResults ::
  "nat \<Rightarrow> (topicName, json \<times> json) js_map \<Rightarrow> fetchRequest list \<Rightarrow> bool \<Rightarrow> sse \<Rightarrow> bool \<times> sse" where
  "installResults gen result [] applied s = (applied, s)"
| "installResults gen result (r # rs) applied s =
    (if disposed s \<or> gen \<noteq> generation s then (False, s)
     else if \<not> requestCurrent s r then installResults gen result rs applied s
     else case mget result (req_topic r) of
            None \<Rightarrow> installResults gen result rs applied s
          | Some (v, ts) \<Rightarrow> installResults gen result rs True (applyTopicData (req_topic r) v ts s))"

text \<open>The promise of a fetch settles: \<open>None\<close> is a rejection. The \<open>finally\<close> of \<open>pollOnce\<close>
  clears \<open>pollInFlight\<close> only when it is still this fetch's own promise.\<close>

definition fetchSettled :: "nat \<Rightarrow> (topicName, json \<times> json) js_map option \<Rightarrow> sse \<Rightarrow> sse" where
  "fetchSettled fid res s =
    (case find (\<lambda>f. fetch_id f = fid) (inflight s) of
       None \<Rightarrow> s
     | Some f \<Rightarrow>
         let s1 = s\<lparr>inflight := filter (\<lambda>g. fetch_id g \<noteq> fid) (inflight s)\<rparr>;
             s2 = (case res of
                     None \<Rightarrow> s1
                   | Some result \<Rightarrow>
                       if fetch_requests f = [] \<or> disposed s1 \<or> fetch_gen f \<noteq> generation s1 then s1
                       else let (applied, s') = installResults (fetch_gen f) result (fetch_requests f) False s1
                            in if applied \<and> \<not> disposed s' \<and> fetch_gen f = generation s'
                               then onFrame s' else s')
         in if pollInFlight s2 = Some fid then s2\<lparr>pollInFlight := None\<rparr> else s2)"

definition pollOnce :: "sse \<Rightarrow> sse" where
  "pollOnce s = (if pollInFlight s \<noteq> None then s
     else let s1 = fetchAndInstall (activeTopics s) s
          in s1\<lparr>pollInFlight := Some (next_id s1 - 1)\<rparr>)"

definition stopPolling :: "sse \<Rightarrow> sse" where
  "stopPolling s = (let s1 = s\<lparr>pollInFlight := None\<rparr>
     in if pollTimer s1 \<noteq> None then (clearTimer (pollTimer s1) s1)\<lparr>pollTimer := None\<rparr> else s1)"

definition startPollingIfNeeded :: "sse \<Rightarrow> sse" where
  "startPollingIfNeeded s = (if pollTimer s \<noteq> None then s
     else let s1 = setConnection (Some Polling) None s;
              s2 = (setTimer PollTimer (pollIntervalMs (options s1)) s1)\<lparr>pollTimer := Some (next_id s1)\<rparr>
          in pollOnce s2)"

definition markConnected :: "sse \<Rightarrow> sse" where
  "markConnected s = setConnection (Some Open) None (stopPolling (s\<lparr>consecutiveFailures := 0\<rparr>))"

subsection \<open>The one EventSource\<close>

definition closeEventSource :: "sse \<Rightarrow> sse" where
  "closeEventSource s = (case es s of
     None \<Rightarrow> s
   | Some n \<Rightarrow> s\<lparr>sources := map (\<lambda>(k, src). (k, if k = n then src\<lparr>src_closed := True\<rparr> else src)) (sources s),
                 es := None\<rparr>)"

definition scheduleRebuild :: "sse \<Rightarrow> sse" where
  "scheduleRebuild s =
    (let s1 = clearTimer (debounceTimer s) s
     in (setTimer DebounceTimer (debounceMs (options s1)) s1)\<lparr>debounceTimer := Some (next_id s1)\<rparr>)"

definition topicsKeyOf :: "topicName list \<Rightarrow> string" where
  "topicsKeyOf topics = join '','' (map topicStr topics)"

text \<open>\<open>eventSourceFactory(url)\<close> together with the listeners added to the new source: one per topic
  of \<open>topics\<close> beside the fixed ones.\<close>

definition openEventSource :: "topicName list \<Rightarrow> sse \<Rightarrow> sse" where
  "openEventSource topics s = s\<lparr>
     sources := mset_key (sources s) (next_id s)
       \<lparr>src_topics = topics, src_opened = False, src_closed = False\<rparr>,
     es := Some (next_id s), next_id := Suc (next_id s)\<rparr>"

definition clearBackoff :: "sse \<Rightarrow> sse" where
  "clearBackoff s = (if backoffTimer s \<noteq> None
     then (clearTimer (backoffTimer s) s)\<lparr>backoffTimer := None\<rparr> else s)"

definition clearStale :: "sse \<Rightarrow> sse" where
  "clearStale s = (if staleTimer s \<noteq> None
     then (clearTimer (staleTimer s) s)\<lparr>staleTimer := None\<rparr> else s)"

definition rebuildEmpty :: "sse \<Rightarrow> sse" where
  "rebuildEmpty s = setConnection (Some Closed) (Some False)
     (clearStale (stopPolling ((closeEventSource s)\<lparr>lastTopicsKey := None\<rparr>)))"

definition newTransport :: "bool \<Rightarrow> sse \<Rightarrow> sse" where
  "newTransport force s = (if force \<or> lastTopicsKey s \<noteq> None
     then s\<lparr>generation := Suc (generation s), pollInFlight := None\<rparr> else s)"

definition attemptStatus :: "sse \<Rightarrow> sse" where
  "attemptStatus s = (if conn_status (connection s) \<noteq> Polling
     then setConnection (Some (if conn_status (connection s) = Open then Reconnecting else Connecting)) None s
     else s)"

definition rebuildNow :: "bool \<Rightarrow> sse \<Rightarrow> sse" where
  "rebuildNow force s0 =
    (if disposed s0 then s0
     else let s = clearBackoff s0; topics = activeTopics s; topicsKey = topicsKeyOf topics
          in if topics = [] then rebuildEmpty s
             else if \<not> force \<and> lastTopicsKey s = Some topicsKey \<and> es s \<noteq> None then s
             else openEventSource topics
                    (attemptStatus ((closeEventSource (newTransport force s))\<lparr>lastTopicsKey := Some topicsKey\<rparr>)))"

subsection \<open>EventSource listeners\<close>

definition onOpen :: "nat \<Rightarrow> sse \<Rightarrow> sse" where
  "onOpen n s =
    (if es s \<noteq> Some n then s
     else case mget (sources s) n of
            None \<Rightarrow> s
          | Some src \<Rightarrow>
              let s1 = (if src_opened src \<or> 0 < consecutiveFailures s
                        then s\<lparr>generation := Suc (generation s)\<rparr> else s);
                  s2 = s1\<lparr>sources := mset_key (sources s1) n (src\<lparr>src_opened := True\<rparr>)\<rparr>
              in onFrame (markConnected s2))"

definition onHeartbeat :: "nat \<Rightarrow> sse \<Rightarrow> sse" where
  "onHeartbeat n s = (if es s \<noteq> Some n then s else onFrame s)"

text \<open>A frame's payload is what \<open>parseJSON\<close> returns: \<open>None\<close> where \<open>JSON.parse\<close> throws.\<close>

definition onSourceError :: "nat \<Rightarrow> json option \<Rightarrow> sse \<Rightarrow> sse" where
  "onSourceError n parsed s =
    (if es s \<noteq> Some n then s
     else let s1 = onFrame s
          in case parsed of
               None \<Rightarrow> s1
             | Some p \<Rightarrow>
                 (case jprop p ''topic'' of
                    JStr str \<Rightarrow>
                      if str \<noteq> [] \<and> truthy (jprop p ''code'')
                      then (case topic_of_string str of
                              None \<Rightarrow> s1
                            | Some topic \<Rightarrow> applyTopicError topic (jprop p ''code'') s1)
                      else s1
                  | _ \<Rightarrow> s1))"

definition onTopicFrame :: "nat \<Rightarrow> topicName \<Rightarrow> json option \<Rightarrow> sse \<Rightarrow> sse" where
  "onTopicFrame n topic parsed s =
    (case mget (sources s) n of
       None \<Rightarrow> s
     | Some src \<Rightarrow>
         if topic \<notin> set (src_topics src) then s
         else if es s \<noteq> Some n \<or> \<not> mhas (refCounts s) topic then s
         else case parsed of
                None \<Rightarrow> s
              | Some p \<Rightarrow>
                  if \<not> truthy p then s
                  else onFrame (applyTopicData topic (jprop p ''v'') (jprop p ''ts'') (markConnected s)))"

definition backoffDelay :: "nat \<Rightarrow> nat" where
  "backoffDelay failures = min (1000 * 2 ^ failures) 30000"

text \<open>The branch of the error listener for \<open>readyState === CLOSED\<close>: the browser gave the source
  up, so it is dead without a \<open>close()\<close> of the client's own.\<close>

definition onErrorClosed :: "nat \<Rightarrow> sse \<Rightarrow> sse" where
  "onErrorClosed n s =
    (let s1 = s\<lparr>sources := map (\<lambda>(k, src). (k, if k = n then src\<lparr>src_closed := True\<rparr> else src)) (sources s),
               es := None, generation := Suc (generation s), pollInFlight := None\<rparr>;
         s2 = (if consecutiveFailures s1 = 1 then pollOnce s1 else s1)
     in (setTimer BackoffTimer (backoffDelay (consecutiveFailures s2)) s2)\<lparr>backoffTimer := Some (next_id s2)\<rparr>)"

definition onError :: "nat \<Rightarrow> bool \<Rightarrow> sse \<Rightarrow> sse" where
  "onError n readyStateClosed s =
    (if es s \<noteq> Some n then s
     else let s1 = s\<lparr>consecutiveFailures := Suc (consecutiveFailures s)\<rparr>;
              s2 = (if conn_status (connection s1) \<noteq> Polling
                    then setConnection (Some Reconnecting) None s1 else s1);
              s3 = (if readyStateClosed then onErrorClosed n s2 else s2)
          in if failureThreshold (options s3) < consecutiveFailures s3
             then startPollingIfNeeded s3 else s3)"

subsection \<open>The public interface\<close>

definition freshVersion :: "topicName \<Rightarrow> sse \<Rightarrow> sse" where
  "freshVersion topic s = s\<lparr>
     topicVersions := mset_key (topicVersions s) topic
       \<lparr>vid = next_id s, revision = 0, requestTicket = 0\<rparr>, next_id := Suc (next_id s)\<rparr>"

definition subscribeTopic :: "topicName \<Rightarrow> sse \<Rightarrow> sse" where
  "subscribeTopic topic s =
    (if disposed s then s
     else let s1 = (if mhas (refCounts s) topic then s else freshVersion topic s);
              s2 = s1\<lparr>refCounts := mset_key (refCounts s1) topic
                      ((case mget (refCounts s1) topic of None \<Rightarrow> 0 | Some c \<Rightarrow> c) + 1)\<rparr>;
              s3 = (if mhas (snapshots s2) topic then s2
                    else s2\<lparr>snapshots := mset_key (snapshots s2) topic EMPTY_TOPIC_SNAPSHOT\<rparr>)
          in scheduleRebuild s3)"

text \<open>The function \<open>subscribeTopic\<close> returns.\<close>

definition unsubscribeTopic :: "topicName \<Rightarrow> sse \<Rightarrow> sse" where
  "unsubscribeTopic topic s =
    (let count = (case mget (refCounts s) topic of None \<Rightarrow> 1 | Some c \<Rightarrow> c) - 1;
         s1 = (if count = 0
               then s\<lparr>refCounts := mdel (refCounts s) topic, topicVersions := mdel (topicVersions s) topic\<rparr>
               else s\<lparr>refCounts := mset_key (refCounts s) topic count\<rparr>)
     in scheduleRebuild s1)"

definition getTopicSnapshot :: "sse \<Rightarrow> topicName \<Rightarrow> topicSnapshot" where
  "getTopicSnapshot s topic =
    (case mget (snapshots s) topic of None \<Rightarrow> EMPTY_TOPIC_SNAPSHOT | Some p \<Rightarrow> p)"

text \<open>\<open>Set.add\<close>: a callback already in the set keeps its place.\<close>

definition addListener :: "nat \<Rightarrow> nat list \<Rightarrow> nat list" where
  "addListener cb cbs = (if cb \<in> set cbs then cbs else cbs @ [cb])"

definition subscribeTopicListener :: "topicName \<Rightarrow> nat \<Rightarrow> sse \<Rightarrow> sse" where
  "subscribeTopicListener topic cb s = s\<lparr>topicListeners := mset_key (topicListeners s) topic
     (addListener cb (case mget (topicListeners s) topic of None \<Rightarrow> [] | Some cbs \<Rightarrow> cbs))\<rparr>"

definition unsubscribeTopicListener :: "topicName \<Rightarrow> nat \<Rightarrow> sse \<Rightarrow> sse" where
  "unsubscribeTopicListener topic cb s = (case mget (topicListeners s) topic of
     None \<Rightarrow> s
   | Some cbs \<Rightarrow> s\<lparr>topicListeners := mset_key (topicListeners s) topic (removeAll cb cbs)\<rparr>)"

definition retry :: "sse \<Rightarrow> sse" where
  "retry s = rebuildNow True (s\<lparr>consecutiveFailures := 0\<rparr>)"

definition clearAllTimers :: "sse \<Rightarrow> sse" where
  "clearAllTimers s = clearTimer (staleTimer s) (clearTimer (backoffTimer s) (clearTimer (debounceTimer s) s))"

definition reset :: "sse \<Rightarrow> sse" where
  "reset s =
    (let s1 = stopPolling (closeEventSource (s\<lparr>generation := Suc (generation s)\<rparr>));
         s2 = (clearAllTimers s1)\<lparr>debounceTimer := None, backoffTimer := None, staleTimer := None,
                consecutiveFailures := 0, lastTopicsKey := None, snapshots := [], topicVersions := []\<rparr>;
         s3 = fold freshVersion (activeTopics s2) s2;
         s4 = fold notifyTopic (map fst (topicListeners s3)) s3;
         s5 = notifyConnection (s4\<lparr>connection := \<lparr>conn_status = Closed, conn_stale = False\<rparr>\<rparr>)
     in if activeTopics s5 \<noteq> [] then scheduleRebuild s5 else s5)"

definition dispose :: "sse \<Rightarrow> sse" where
  "dispose s = clearAllTimers (stopPolling (closeEventSource
     (s\<lparr>disposed := True, generation := Suc (generation s), topicVersions := []\<rparr>)))"

subsection \<open>The client as a machine\<close>

text \<open>A timeout fires once and leaves the pending list, an interval stays. The callbacks:
  debounce forgets its handle and rebuilds, backoff rebuilds, the watchdog marks the connection
  stale, the poll interval polls.\<close>

definition timerFires :: "nat \<Rightarrow> sse \<Rightarrow> sse" where
  "timerFires h s =
    (case find (\<lambda>t. tm_handle t = h) (pending s) of
       None \<Rightarrow> s
     | Some t \<Rightarrow>
         (let once = s\<lparr>pending := filter (\<lambda>u. tm_handle u \<noteq> h) (pending s)\<rparr>
          in case tm_kind t of
               DebounceTimer \<Rightarrow> rebuildNow False (once\<lparr>debounceTimer := None\<rparr>)
             | BackoffTimer \<Rightarrow> rebuildNow False once
             | StaleTimer \<Rightarrow> setConnection None (Some True) once
             | PollTimer \<Rightarrow> pollOnce s))"

datatype sseEvent =
    Subscribe topicName
  | Unsubscribe topicName
  | AddTopicListener topicName nat
  | RemoveTopicListener topicName nat
  | AddConnectionListener nat
  | RemoveConnectionListener nat
  | Retry
  | RefreshTopic topicName
  | Reset
  | Dispose
  | TimerFires nat
  | EsOpen nat
  | EsHeartbeat nat
  | EsSourceError nat "json option"
  | EsTopicFrame nat topicName "json option"
  | EsError nat bool
  | FetchSettled nat "(topicName, json \<times> json) js_map option"

fun sse_step :: "sse \<Rightarrow> sseEvent \<Rightarrow> sse" where
  "sse_step s (Subscribe t) = subscribeTopic t s"
| "sse_step s (Unsubscribe t) = unsubscribeTopic t s"
| "sse_step s (AddTopicListener t cb) = subscribeTopicListener t cb s"
| "sse_step s (RemoveTopicListener t cb) = unsubscribeTopicListener t cb s"
| "sse_step s (AddConnectionListener cb) = s\<lparr>connectionListeners := addListener cb (connectionListeners s)\<rparr>"
| "sse_step s (RemoveConnectionListener cb) = s\<lparr>connectionListeners := removeAll cb (connectionListeners s)\<rparr>"
| "sse_step s Retry = retry s"
| "sse_step s (RefreshTopic t) = fetchAndInstall [t] s"
| "sse_step s Reset = reset s"
| "sse_step s Dispose = dispose s"
| "sse_step s (TimerFires h) = timerFires h s"
| "sse_step s (EsOpen n) = onOpen n s"
| "sse_step s (EsHeartbeat n) = onHeartbeat n s"
| "sse_step s (EsSourceError n p) = onSourceError n p s"
| "sse_step s (EsTopicFrame n t p) = onTopicFrame n t p s"
| "sse_step s (EsError n c) = onError n c s"
| "sse_step s (FetchSettled f r) = fetchSettled f r s"

text \<open>The defining equations, for evaluating a concrete run.\<close>

lemmas sse_defs = createSSEClient_def default_options_def setTimer_def clearTimer_def notifyTopic_def
  notifyConnection_def bumpRevision_def setConnection_def activeTopics_def resetStaleWatchdog_def
  onFrame_def applyTopicData_def applyTopicError_def fetchAndInstall_def requestCurrent_def
  fetchSettled_def pollOnce_def stopPolling_def startPollingIfNeeded_def markConnected_def
  closeEventSource_def scheduleRebuild_def topicsKeyOf_def openEventSource_def clearBackoff_def
  clearStale_def rebuildEmpty_def newTransport_def attemptStatus_def rebuildNow_def onOpen_def
  onHeartbeat_def onSourceError_def onTopicFrame_def backoffDelay_def onErrorClosed_def onError_def
  freshVersion_def subscribeTopic_def unsubscribeTopic_def getTopicSnapshot_def retry_def
  clearAllTimers_def reset_def dispose_def timerFires_def

end
