(* ===== verification/Sse_Client_Frame.thy ===== *)
theory Sse_Client_Frame
  imports Sse_Client
begin

text \<open>
  Frame lemmas of the realtime client: which fields of the client's state each inner function
  leaves alone. They are simplification rules, so that a proof about a whole event sees through
  the calls the event makes.
\<close>

lemma setTimer_frame [simp]:
  "options (setTimer k d s) = options s"
  "refCounts (setTimer k d s) = refCounts s"
  "topicVersions (setTimer k d s) = topicVersions s"
  "snapshots (setTimer k d s) = snapshots s"
  "topicListeners (setTimer k d s) = topicListeners s"
  "connectionListeners (setTimer k d s) = connectionListeners s"
  "es (setTimer k d s) = es s"
  "debounceTimer (setTimer k d s) = debounceTimer s"
  "backoffTimer (setTimer k d s) = backoffTimer s"
  "staleTimer (setTimer k d s) = staleTimer s"
  "pollTimer (setTimer k d s) = pollTimer s"
  "pollInFlight (setTimer k d s) = pollInFlight s"
  "consecutiveFailures (setTimer k d s) = consecutiveFailures s"
  "connection (setTimer k d s) = connection s"
  "disposed (setTimer k d s) = disposed s"
  "generation (setTimer k d s) = generation s"
  "lastTopicsKey (setTimer k d s) = lastTopicsKey s"
  "sources (setTimer k d s) = sources s"
  "inflight (setTimer k d s) = inflight s"
  "called (setTimer k d s) = called s"
  by (simp_all add: setTimer_def)

lemma clearTimer_frame [simp]:
  "options (clearTimer h s) = options s"
  "refCounts (clearTimer h s) = refCounts s"
  "topicVersions (clearTimer h s) = topicVersions s"
  "snapshots (clearTimer h s) = snapshots s"
  "topicListeners (clearTimer h s) = topicListeners s"
  "connectionListeners (clearTimer h s) = connectionListeners s"
  "es (clearTimer h s) = es s"
  "debounceTimer (clearTimer h s) = debounceTimer s"
  "backoffTimer (clearTimer h s) = backoffTimer s"
  "staleTimer (clearTimer h s) = staleTimer s"
  "pollTimer (clearTimer h s) = pollTimer s"
  "pollInFlight (clearTimer h s) = pollInFlight s"
  "consecutiveFailures (clearTimer h s) = consecutiveFailures s"
  "connection (clearTimer h s) = connection s"
  "disposed (clearTimer h s) = disposed s"
  "generation (clearTimer h s) = generation s"
  "lastTopicsKey (clearTimer h s) = lastTopicsKey s"
  "sources (clearTimer h s) = sources s"
  "inflight (clearTimer h s) = inflight s"
  "next_id (clearTimer h s) = next_id s"
  "called (clearTimer h s) = called s"
  by (simp_all add: clearTimer_def split: option.split)

lemma notifyTopic_frame [simp]:
  "options (notifyTopic t s) = options s"
  "refCounts (notifyTopic t s) = refCounts s"
  "topicVersions (notifyTopic t s) = topicVersions s"
  "snapshots (notifyTopic t s) = snapshots s"
  "topicListeners (notifyTopic t s) = topicListeners s"
  "connectionListeners (notifyTopic t s) = connectionListeners s"
  "es (notifyTopic t s) = es s"
  "debounceTimer (notifyTopic t s) = debounceTimer s"
  "backoffTimer (notifyTopic t s) = backoffTimer s"
  "staleTimer (notifyTopic t s) = staleTimer s"
  "pollTimer (notifyTopic t s) = pollTimer s"
  "pollInFlight (notifyTopic t s) = pollInFlight s"
  "consecutiveFailures (notifyTopic t s) = consecutiveFailures s"
  "connection (notifyTopic t s) = connection s"
  "disposed (notifyTopic t s) = disposed s"
  "generation (notifyTopic t s) = generation s"
  "lastTopicsKey (notifyTopic t s) = lastTopicsKey s"
  "pending (notifyTopic t s) = pending s"
  "sources (notifyTopic t s) = sources s"
  "inflight (notifyTopic t s) = inflight s"
  "next_id (notifyTopic t s) = next_id s"
  by (simp_all add: notifyTopic_def split: option.split)

lemma notifyConnection_frame [simp]:
  "options (notifyConnection s) = options s"
  "refCounts (notifyConnection s) = refCounts s"
  "topicVersions (notifyConnection s) = topicVersions s"
  "snapshots (notifyConnection s) = snapshots s"
  "topicListeners (notifyConnection s) = topicListeners s"
  "connectionListeners (notifyConnection s) = connectionListeners s"
  "es (notifyConnection s) = es s"
  "debounceTimer (notifyConnection s) = debounceTimer s"
  "backoffTimer (notifyConnection s) = backoffTimer s"
  "staleTimer (notifyConnection s) = staleTimer s"
  "pollTimer (notifyConnection s) = pollTimer s"
  "pollInFlight (notifyConnection s) = pollInFlight s"
  "consecutiveFailures (notifyConnection s) = consecutiveFailures s"
  "connection (notifyConnection s) = connection s"
  "disposed (notifyConnection s) = disposed s"
  "generation (notifyConnection s) = generation s"
  "lastTopicsKey (notifyConnection s) = lastTopicsKey s"
  "pending (notifyConnection s) = pending s"
  "sources (notifyConnection s) = sources s"
  "inflight (notifyConnection s) = inflight s"
  "next_id (notifyConnection s) = next_id s"
  by (simp_all add: notifyConnection_def)

lemma setConnection_frame [simp]:
  "options (setConnection st sta s) = options s"
  "refCounts (setConnection st sta s) = refCounts s"
  "snapshots (setConnection st sta s) = snapshots s"
  "topicListeners (setConnection st sta s) = topicListeners s"
  "connectionListeners (setConnection st sta s) = connectionListeners s"
  "es (setConnection st sta s) = es s"
  "debounceTimer (setConnection st sta s) = debounceTimer s"
  "backoffTimer (setConnection st sta s) = backoffTimer s"
  "staleTimer (setConnection st sta s) = staleTimer s"
  "pollTimer (setConnection st sta s) = pollTimer s"
  "pollInFlight (setConnection st sta s) = pollInFlight s"
  "consecutiveFailures (setConnection st sta s) = consecutiveFailures s"
  "disposed (setConnection st sta s) = disposed s"
  "generation (setConnection st sta s) = generation s"
  "lastTopicsKey (setConnection st sta s) = lastTopicsKey s"
  "pending (setConnection st sta s) = pending s"
  "sources (setConnection st sta s) = sources s"
  "inflight (setConnection st sta s) = inflight s"
  "next_id (setConnection st sta s) = next_id s"
  by (simp_all add: setConnection_def Let_def)

lemma resetStaleWatchdog_frame [simp]:
  "options (resetStaleWatchdog s) = options s"
  "refCounts (resetStaleWatchdog s) = refCounts s"
  "topicVersions (resetStaleWatchdog s) = topicVersions s"
  "snapshots (resetStaleWatchdog s) = snapshots s"
  "topicListeners (resetStaleWatchdog s) = topicListeners s"
  "connectionListeners (resetStaleWatchdog s) = connectionListeners s"
  "es (resetStaleWatchdog s) = es s"
  "debounceTimer (resetStaleWatchdog s) = debounceTimer s"
  "backoffTimer (resetStaleWatchdog s) = backoffTimer s"
  "pollTimer (resetStaleWatchdog s) = pollTimer s"
  "pollInFlight (resetStaleWatchdog s) = pollInFlight s"
  "consecutiveFailures (resetStaleWatchdog s) = consecutiveFailures s"
  "connection (resetStaleWatchdog s) = connection s"
  "disposed (resetStaleWatchdog s) = disposed s"
  "generation (resetStaleWatchdog s) = generation s"
  "lastTopicsKey (resetStaleWatchdog s) = lastTopicsKey s"
  "sources (resetStaleWatchdog s) = sources s"
  "inflight (resetStaleWatchdog s) = inflight s"
  "called (resetStaleWatchdog s) = called s"
  by (simp_all add: resetStaleWatchdog_def Let_def)

lemma onFrame_frame [simp]:
  "options (onFrame s) = options s"
  "refCounts (onFrame s) = refCounts s"
  "snapshots (onFrame s) = snapshots s"
  "topicListeners (onFrame s) = topicListeners s"
  "connectionListeners (onFrame s) = connectionListeners s"
  "es (onFrame s) = es s"
  "debounceTimer (onFrame s) = debounceTimer s"
  "backoffTimer (onFrame s) = backoffTimer s"
  "pollTimer (onFrame s) = pollTimer s"
  "pollInFlight (onFrame s) = pollInFlight s"
  "consecutiveFailures (onFrame s) = consecutiveFailures s"
  "disposed (onFrame s) = disposed s"
  "generation (onFrame s) = generation s"
  "lastTopicsKey (onFrame s) = lastTopicsKey s"
  "sources (onFrame s) = sources s"
  "inflight (onFrame s) = inflight s"
  by (simp_all add: onFrame_def)

lemma applyTopicData_frame [simp]:
  "options (applyTopicData t d ts s) = options s"
  "refCounts (applyTopicData t d ts s) = refCounts s"
  "topicListeners (applyTopicData t d ts s) = topicListeners s"
  "connectionListeners (applyTopicData t d ts s) = connectionListeners s"
  "es (applyTopicData t d ts s) = es s"
  "debounceTimer (applyTopicData t d ts s) = debounceTimer s"
  "backoffTimer (applyTopicData t d ts s) = backoffTimer s"
  "staleTimer (applyTopicData t d ts s) = staleTimer s"
  "pollTimer (applyTopicData t d ts s) = pollTimer s"
  "pollInFlight (applyTopicData t d ts s) = pollInFlight s"
  "consecutiveFailures (applyTopicData t d ts s) = consecutiveFailures s"
  "connection (applyTopicData t d ts s) = connection s"
  "disposed (applyTopicData t d ts s) = disposed s"
  "generation (applyTopicData t d ts s) = generation s"
  "lastTopicsKey (applyTopicData t d ts s) = lastTopicsKey s"
  "pending (applyTopicData t d ts s) = pending s"
  "sources (applyTopicData t d ts s) = sources s"
  "inflight (applyTopicData t d ts s) = inflight s"
  "next_id (applyTopicData t d ts s) = next_id s"
  by (simp_all add: applyTopicData_def split: option.split)

lemma applyTopicError_frame [simp]:
  "options (applyTopicError t c s) = options s"
  "refCounts (applyTopicError t c s) = refCounts s"
  "topicListeners (applyTopicError t c s) = topicListeners s"
  "connectionListeners (applyTopicError t c s) = connectionListeners s"
  "es (applyTopicError t c s) = es s"
  "debounceTimer (applyTopicError t c s) = debounceTimer s"
  "backoffTimer (applyTopicError t c s) = backoffTimer s"
  "staleTimer (applyTopicError t c s) = staleTimer s"
  "pollTimer (applyTopicError t c s) = pollTimer s"
  "pollInFlight (applyTopicError t c s) = pollInFlight s"
  "consecutiveFailures (applyTopicError t c s) = consecutiveFailures s"
  "connection (applyTopicError t c s) = connection s"
  "disposed (applyTopicError t c s) = disposed s"
  "generation (applyTopicError t c s) = generation s"
  "lastTopicsKey (applyTopicError t c s) = lastTopicsKey s"
  "pending (applyTopicError t c s) = pending s"
  "sources (applyTopicError t c s) = sources s"
  "inflight (applyTopicError t c s) = inflight s"
  "next_id (applyTopicError t c s) = next_id s"
  by (simp_all add: applyTopicError_def Let_def split: option.split)

lemma stopPolling_frame [simp]:
  "options (stopPolling s) = options s"
  "refCounts (stopPolling s) = refCounts s"
  "topicVersions (stopPolling s) = topicVersions s"
  "snapshots (stopPolling s) = snapshots s"
  "topicListeners (stopPolling s) = topicListeners s"
  "connectionListeners (stopPolling s) = connectionListeners s"
  "es (stopPolling s) = es s"
  "debounceTimer (stopPolling s) = debounceTimer s"
  "backoffTimer (stopPolling s) = backoffTimer s"
  "staleTimer (stopPolling s) = staleTimer s"
  "consecutiveFailures (stopPolling s) = consecutiveFailures s"
  "connection (stopPolling s) = connection s"
  "disposed (stopPolling s) = disposed s"
  "generation (stopPolling s) = generation s"
  "lastTopicsKey (stopPolling s) = lastTopicsKey s"
  "sources (stopPolling s) = sources s"
  "inflight (stopPolling s) = inflight s"
  "next_id (stopPolling s) = next_id s"
  "called (stopPolling s) = called s"
  by (simp_all add: stopPolling_def Let_def)

lemma markConnected_frame [simp]:
  "options (markConnected s) = options s"
  "refCounts (markConnected s) = refCounts s"
  "snapshots (markConnected s) = snapshots s"
  "topicListeners (markConnected s) = topicListeners s"
  "connectionListeners (markConnected s) = connectionListeners s"
  "es (markConnected s) = es s"
  "debounceTimer (markConnected s) = debounceTimer s"
  "backoffTimer (markConnected s) = backoffTimer s"
  "staleTimer (markConnected s) = staleTimer s"
  "disposed (markConnected s) = disposed s"
  "generation (markConnected s) = generation s"
  "lastTopicsKey (markConnected s) = lastTopicsKey s"
  "sources (markConnected s) = sources s"
  "inflight (markConnected s) = inflight s"
  "next_id (markConnected s) = next_id s"
  by (simp_all add: markConnected_def)

lemma closeEventSource_frame [simp]:
  "options (closeEventSource s) = options s"
  "refCounts (closeEventSource s) = refCounts s"
  "topicVersions (closeEventSource s) = topicVersions s"
  "snapshots (closeEventSource s) = snapshots s"
  "topicListeners (closeEventSource s) = topicListeners s"
  "connectionListeners (closeEventSource s) = connectionListeners s"
  "debounceTimer (closeEventSource s) = debounceTimer s"
  "backoffTimer (closeEventSource s) = backoffTimer s"
  "staleTimer (closeEventSource s) = staleTimer s"
  "pollTimer (closeEventSource s) = pollTimer s"
  "pollInFlight (closeEventSource s) = pollInFlight s"
  "consecutiveFailures (closeEventSource s) = consecutiveFailures s"
  "connection (closeEventSource s) = connection s"
  "disposed (closeEventSource s) = disposed s"
  "generation (closeEventSource s) = generation s"
  "lastTopicsKey (closeEventSource s) = lastTopicsKey s"
  "pending (closeEventSource s) = pending s"
  "inflight (closeEventSource s) = inflight s"
  "next_id (closeEventSource s) = next_id s"
  "called (closeEventSource s) = called s"
  by (simp_all add: closeEventSource_def split: option.split)

lemma scheduleRebuild_frame [simp]:
  "options (scheduleRebuild s) = options s"
  "refCounts (scheduleRebuild s) = refCounts s"
  "topicVersions (scheduleRebuild s) = topicVersions s"
  "snapshots (scheduleRebuild s) = snapshots s"
  "topicListeners (scheduleRebuild s) = topicListeners s"
  "connectionListeners (scheduleRebuild s) = connectionListeners s"
  "es (scheduleRebuild s) = es s"
  "backoffTimer (scheduleRebuild s) = backoffTimer s"
  "staleTimer (scheduleRebuild s) = staleTimer s"
  "pollTimer (scheduleRebuild s) = pollTimer s"
  "pollInFlight (scheduleRebuild s) = pollInFlight s"
  "consecutiveFailures (scheduleRebuild s) = consecutiveFailures s"
  "connection (scheduleRebuild s) = connection s"
  "disposed (scheduleRebuild s) = disposed s"
  "generation (scheduleRebuild s) = generation s"
  "lastTopicsKey (scheduleRebuild s) = lastTopicsKey s"
  "sources (scheduleRebuild s) = sources s"
  "inflight (scheduleRebuild s) = inflight s"
  "called (scheduleRebuild s) = called s"
  by (simp_all add: scheduleRebuild_def Let_def)

lemma openEventSource_frame [simp]:
  "options (openEventSource ts s) = options s"
  "refCounts (openEventSource ts s) = refCounts s"
  "topicVersions (openEventSource ts s) = topicVersions s"
  "snapshots (openEventSource ts s) = snapshots s"
  "topicListeners (openEventSource ts s) = topicListeners s"
  "connectionListeners (openEventSource ts s) = connectionListeners s"
  "debounceTimer (openEventSource ts s) = debounceTimer s"
  "backoffTimer (openEventSource ts s) = backoffTimer s"
  "staleTimer (openEventSource ts s) = staleTimer s"
  "pollTimer (openEventSource ts s) = pollTimer s"
  "pollInFlight (openEventSource ts s) = pollInFlight s"
  "consecutiveFailures (openEventSource ts s) = consecutiveFailures s"
  "connection (openEventSource ts s) = connection s"
  "disposed (openEventSource ts s) = disposed s"
  "generation (openEventSource ts s) = generation s"
  "lastTopicsKey (openEventSource ts s) = lastTopicsKey s"
  "pending (openEventSource ts s) = pending s"
  "inflight (openEventSource ts s) = inflight s"
  "called (openEventSource ts s) = called s"
  by (simp_all add: openEventSource_def)

lemma clearBackoff_frame [simp]:
  "options (clearBackoff s) = options s"
  "refCounts (clearBackoff s) = refCounts s"
  "topicVersions (clearBackoff s) = topicVersions s"
  "snapshots (clearBackoff s) = snapshots s"
  "topicListeners (clearBackoff s) = topicListeners s"
  "connectionListeners (clearBackoff s) = connectionListeners s"
  "es (clearBackoff s) = es s"
  "debounceTimer (clearBackoff s) = debounceTimer s"
  "staleTimer (clearBackoff s) = staleTimer s"
  "pollTimer (clearBackoff s) = pollTimer s"
  "pollInFlight (clearBackoff s) = pollInFlight s"
  "consecutiveFailures (clearBackoff s) = consecutiveFailures s"
  "connection (clearBackoff s) = connection s"
  "disposed (clearBackoff s) = disposed s"
  "generation (clearBackoff s) = generation s"
  "lastTopicsKey (clearBackoff s) = lastTopicsKey s"
  "sources (clearBackoff s) = sources s"
  "inflight (clearBackoff s) = inflight s"
  "next_id (clearBackoff s) = next_id s"
  "called (clearBackoff s) = called s"
  by (simp_all add: clearBackoff_def)

lemma clearStale_frame [simp]:
  "options (clearStale s) = options s"
  "refCounts (clearStale s) = refCounts s"
  "topicVersions (clearStale s) = topicVersions s"
  "snapshots (clearStale s) = snapshots s"
  "topicListeners (clearStale s) = topicListeners s"
  "connectionListeners (clearStale s) = connectionListeners s"
  "es (clearStale s) = es s"
  "debounceTimer (clearStale s) = debounceTimer s"
  "backoffTimer (clearStale s) = backoffTimer s"
  "pollTimer (clearStale s) = pollTimer s"
  "pollInFlight (clearStale s) = pollInFlight s"
  "consecutiveFailures (clearStale s) = consecutiveFailures s"
  "connection (clearStale s) = connection s"
  "disposed (clearStale s) = disposed s"
  "generation (clearStale s) = generation s"
  "lastTopicsKey (clearStale s) = lastTopicsKey s"
  "sources (clearStale s) = sources s"
  "inflight (clearStale s) = inflight s"
  "next_id (clearStale s) = next_id s"
  "called (clearStale s) = called s"
  by (simp_all add: clearStale_def)

lemma newTransport_frame [simp]:
  "options (newTransport b s) = options s"
  "refCounts (newTransport b s) = refCounts s"
  "topicVersions (newTransport b s) = topicVersions s"
  "snapshots (newTransport b s) = snapshots s"
  "topicListeners (newTransport b s) = topicListeners s"
  "connectionListeners (newTransport b s) = connectionListeners s"
  "es (newTransport b s) = es s"
  "debounceTimer (newTransport b s) = debounceTimer s"
  "backoffTimer (newTransport b s) = backoffTimer s"
  "staleTimer (newTransport b s) = staleTimer s"
  "pollTimer (newTransport b s) = pollTimer s"
  "consecutiveFailures (newTransport b s) = consecutiveFailures s"
  "connection (newTransport b s) = connection s"
  "disposed (newTransport b s) = disposed s"
  "lastTopicsKey (newTransport b s) = lastTopicsKey s"
  "pending (newTransport b s) = pending s"
  "sources (newTransport b s) = sources s"
  "inflight (newTransport b s) = inflight s"
  "next_id (newTransport b s) = next_id s"
  "called (newTransport b s) = called s"
  by (simp_all add: newTransport_def)

lemma attemptStatus_frame [simp]:
  "options (attemptStatus s) = options s"
  "refCounts (attemptStatus s) = refCounts s"
  "snapshots (attemptStatus s) = snapshots s"
  "topicListeners (attemptStatus s) = topicListeners s"
  "connectionListeners (attemptStatus s) = connectionListeners s"
  "es (attemptStatus s) = es s"
  "debounceTimer (attemptStatus s) = debounceTimer s"
  "backoffTimer (attemptStatus s) = backoffTimer s"
  "staleTimer (attemptStatus s) = staleTimer s"
  "pollTimer (attemptStatus s) = pollTimer s"
  "pollInFlight (attemptStatus s) = pollInFlight s"
  "consecutiveFailures (attemptStatus s) = consecutiveFailures s"
  "disposed (attemptStatus s) = disposed s"
  "generation (attemptStatus s) = generation s"
  "lastTopicsKey (attemptStatus s) = lastTopicsKey s"
  "pending (attemptStatus s) = pending s"
  "sources (attemptStatus s) = sources s"
  "inflight (attemptStatus s) = inflight s"
  "next_id (attemptStatus s) = next_id s"
  by (simp_all add: attemptStatus_def)

lemma freshVersion_frame [simp]:
  "options (freshVersion t s) = options s"
  "refCounts (freshVersion t s) = refCounts s"
  "snapshots (freshVersion t s) = snapshots s"
  "topicListeners (freshVersion t s) = topicListeners s"
  "connectionListeners (freshVersion t s) = connectionListeners s"
  "es (freshVersion t s) = es s"
  "debounceTimer (freshVersion t s) = debounceTimer s"
  "backoffTimer (freshVersion t s) = backoffTimer s"
  "staleTimer (freshVersion t s) = staleTimer s"
  "pollTimer (freshVersion t s) = pollTimer s"
  "pollInFlight (freshVersion t s) = pollInFlight s"
  "consecutiveFailures (freshVersion t s) = consecutiveFailures s"
  "connection (freshVersion t s) = connection s"
  "disposed (freshVersion t s) = disposed s"
  "generation (freshVersion t s) = generation s"
  "lastTopicsKey (freshVersion t s) = lastTopicsKey s"
  "pending (freshVersion t s) = pending s"
  "sources (freshVersion t s) = sources s"
  "inflight (freshVersion t s) = inflight s"
  "called (freshVersion t s) = called s"
  by (simp_all add: freshVersion_def)

lemma clearAllTimers_frame [simp]:
  "options (clearAllTimers s) = options s"
  "refCounts (clearAllTimers s) = refCounts s"
  "topicVersions (clearAllTimers s) = topicVersions s"
  "snapshots (clearAllTimers s) = snapshots s"
  "topicListeners (clearAllTimers s) = topicListeners s"
  "connectionListeners (clearAllTimers s) = connectionListeners s"
  "es (clearAllTimers s) = es s"
  "debounceTimer (clearAllTimers s) = debounceTimer s"
  "backoffTimer (clearAllTimers s) = backoffTimer s"
  "staleTimer (clearAllTimers s) = staleTimer s"
  "pollTimer (clearAllTimers s) = pollTimer s"
  "pollInFlight (clearAllTimers s) = pollInFlight s"
  "consecutiveFailures (clearAllTimers s) = consecutiveFailures s"
  "connection (clearAllTimers s) = connection s"
  "disposed (clearAllTimers s) = disposed s"
  "generation (clearAllTimers s) = generation s"
  "lastTopicsKey (clearAllTimers s) = lastTopicsKey s"
  "sources (clearAllTimers s) = sources s"
  "inflight (clearAllTimers s) = inflight s"
  "next_id (clearAllTimers s) = next_id s"
  "called (clearAllTimers s) = called s"
  by (simp_all add: clearAllTimers_def)

lemma fold_freshVersion_frame [simp]:
  "options (fold freshVersion xs s) = options s"
  "refCounts (fold freshVersion xs s) = refCounts s"
  "snapshots (fold freshVersion xs s) = snapshots s"
  "topicListeners (fold freshVersion xs s) = topicListeners s"
  "connectionListeners (fold freshVersion xs s) = connectionListeners s"
  "es (fold freshVersion xs s) = es s"
  "debounceTimer (fold freshVersion xs s) = debounceTimer s"
  "backoffTimer (fold freshVersion xs s) = backoffTimer s"
  "staleTimer (fold freshVersion xs s) = staleTimer s"
  "pollTimer (fold freshVersion xs s) = pollTimer s"
  "pollInFlight (fold freshVersion xs s) = pollInFlight s"
  "consecutiveFailures (fold freshVersion xs s) = consecutiveFailures s"
  "connection (fold freshVersion xs s) = connection s"
  "disposed (fold freshVersion xs s) = disposed s"
  "generation (fold freshVersion xs s) = generation s"
  "lastTopicsKey (fold freshVersion xs s) = lastTopicsKey s"
  "pending (fold freshVersion xs s) = pending s"
  "sources (fold freshVersion xs s) = sources s"
  "inflight (fold freshVersion xs s) = inflight s"
  "called (fold freshVersion xs s) = called s"
  by (induction xs arbitrary: s) simp_all

lemma fold_notifyTopic_frame [simp]:
  "options (fold notifyTopic xs s) = options s"
  "refCounts (fold notifyTopic xs s) = refCounts s"
  "topicVersions (fold notifyTopic xs s) = topicVersions s"
  "snapshots (fold notifyTopic xs s) = snapshots s"
  "topicListeners (fold notifyTopic xs s) = topicListeners s"
  "connectionListeners (fold notifyTopic xs s) = connectionListeners s"
  "es (fold notifyTopic xs s) = es s"
  "debounceTimer (fold notifyTopic xs s) = debounceTimer s"
  "backoffTimer (fold notifyTopic xs s) = backoffTimer s"
  "staleTimer (fold notifyTopic xs s) = staleTimer s"
  "pollTimer (fold notifyTopic xs s) = pollTimer s"
  "pollInFlight (fold notifyTopic xs s) = pollInFlight s"
  "consecutiveFailures (fold notifyTopic xs s) = consecutiveFailures s"
  "connection (fold notifyTopic xs s) = connection s"
  "disposed (fold notifyTopic xs s) = disposed s"
  "generation (fold notifyTopic xs s) = generation s"
  "lastTopicsKey (fold notifyTopic xs s) = lastTopicsKey s"
  "pending (fold notifyTopic xs s) = pending s"
  "sources (fold notifyTopic xs s) = sources s"
  "inflight (fold notifyTopic xs s) = inflight s"
  "next_id (fold notifyTopic xs s) = next_id s"
  by (induction xs arbitrary: s) simp_all

lemma issueRequests_update: "\<exists>vs. snd (issueRequests ts s) = s\<lparr>topicVersions := vs\<rparr>"
proof (induction ts arbitrary: s)
  case Nil
  have "s = s\<lparr>topicVersions := topicVersions s\<rparr>" by simp
  then show ?case by (metis issueRequests.simps(1) snd_conv)
next
  case (Cons t ts)
  have upd: "\<exists>vs. snd (issueRequests ts (s\<lparr>topicVersions := ws\<rparr>)) = s\<lparr>topicVersions := vs\<rparr>" for ws
    using Cons [of "s\<lparr>topicVersions := ws\<rparr>"] by auto
  show ?case
    using upd Cons [of s] by (simp add: Let_def split_beta split: option.split)
qed

lemma issueRequests_frame [simp]:
  "options (snd (issueRequests ts s)) = options s"
  "refCounts (snd (issueRequests ts s)) = refCounts s"
  "snapshots (snd (issueRequests ts s)) = snapshots s"
  "topicListeners (snd (issueRequests ts s)) = topicListeners s"
  "connectionListeners (snd (issueRequests ts s)) = connectionListeners s"
  "es (snd (issueRequests ts s)) = es s"
  "debounceTimer (snd (issueRequests ts s)) = debounceTimer s"
  "backoffTimer (snd (issueRequests ts s)) = backoffTimer s"
  "staleTimer (snd (issueRequests ts s)) = staleTimer s"
  "pollTimer (snd (issueRequests ts s)) = pollTimer s"
  "pollInFlight (snd (issueRequests ts s)) = pollInFlight s"
  "consecutiveFailures (snd (issueRequests ts s)) = consecutiveFailures s"
  "connection (snd (issueRequests ts s)) = connection s"
  "disposed (snd (issueRequests ts s)) = disposed s"
  "generation (snd (issueRequests ts s)) = generation s"
  "lastTopicsKey (snd (issueRequests ts s)) = lastTopicsKey s"
  "pending (snd (issueRequests ts s)) = pending s"
  "sources (snd (issueRequests ts s)) = sources s"
  "inflight (snd (issueRequests ts s)) = inflight s"
  "next_id (snd (issueRequests ts s)) = next_id s"
  "called (snd (issueRequests ts s)) = called s"
proof -
  obtain vs where "snd (issueRequests ts s) = s\<lparr>topicVersions := vs\<rparr>"
    using issueRequests_update by blast
  then show "options (snd (issueRequests ts s)) = options s"
    and "refCounts (snd (issueRequests ts s)) = refCounts s"
    and "snapshots (snd (issueRequests ts s)) = snapshots s"
    and "topicListeners (snd (issueRequests ts s)) = topicListeners s"
    and "connectionListeners (snd (issueRequests ts s)) = connectionListeners s"
    and "es (snd (issueRequests ts s)) = es s"
    and "debounceTimer (snd (issueRequests ts s)) = debounceTimer s"
    and "backoffTimer (snd (issueRequests ts s)) = backoffTimer s"
    and "staleTimer (snd (issueRequests ts s)) = staleTimer s"
    and "pollTimer (snd (issueRequests ts s)) = pollTimer s"
    and "pollInFlight (snd (issueRequests ts s)) = pollInFlight s"
    and "consecutiveFailures (snd (issueRequests ts s)) = consecutiveFailures s"
    and "connection (snd (issueRequests ts s)) = connection s"
    and "disposed (snd (issueRequests ts s)) = disposed s"
    and "generation (snd (issueRequests ts s)) = generation s"
    and "lastTopicsKey (snd (issueRequests ts s)) = lastTopicsKey s"
    and "pending (snd (issueRequests ts s)) = pending s"
    and "sources (snd (issueRequests ts s)) = sources s"
    and "inflight (snd (issueRequests ts s)) = inflight s"
    and "next_id (snd (issueRequests ts s)) = next_id s"
    and "called (snd (issueRequests ts s)) = called s"
    by simp_all
qed

lemma fetchAndInstall_frame [simp]:
  "options (fetchAndInstall ts s) = options s"
  "refCounts (fetchAndInstall ts s) = refCounts s"
  "snapshots (fetchAndInstall ts s) = snapshots s"
  "topicListeners (fetchAndInstall ts s) = topicListeners s"
  "connectionListeners (fetchAndInstall ts s) = connectionListeners s"
  "es (fetchAndInstall ts s) = es s"
  "debounceTimer (fetchAndInstall ts s) = debounceTimer s"
  "backoffTimer (fetchAndInstall ts s) = backoffTimer s"
  "staleTimer (fetchAndInstall ts s) = staleTimer s"
  "pollTimer (fetchAndInstall ts s) = pollTimer s"
  "pollInFlight (fetchAndInstall ts s) = pollInFlight s"
  "consecutiveFailures (fetchAndInstall ts s) = consecutiveFailures s"
  "connection (fetchAndInstall ts s) = connection s"
  "disposed (fetchAndInstall ts s) = disposed s"
  "generation (fetchAndInstall ts s) = generation s"
  "lastTopicsKey (fetchAndInstall ts s) = lastTopicsKey s"
  "pending (fetchAndInstall ts s) = pending s"
  "sources (fetchAndInstall ts s) = sources s"
  "called (fetchAndInstall ts s) = called s"
  by (simp_all add: fetchAndInstall_def Let_def split_beta)

lemma pollOnce_frame [simp]:
  "options (pollOnce s) = options s"
  "refCounts (pollOnce s) = refCounts s"
  "snapshots (pollOnce s) = snapshots s"
  "topicListeners (pollOnce s) = topicListeners s"
  "connectionListeners (pollOnce s) = connectionListeners s"
  "es (pollOnce s) = es s"
  "debounceTimer (pollOnce s) = debounceTimer s"
  "backoffTimer (pollOnce s) = backoffTimer s"
  "staleTimer (pollOnce s) = staleTimer s"
  "pollTimer (pollOnce s) = pollTimer s"
  "consecutiveFailures (pollOnce s) = consecutiveFailures s"
  "connection (pollOnce s) = connection s"
  "disposed (pollOnce s) = disposed s"
  "generation (pollOnce s) = generation s"
  "lastTopicsKey (pollOnce s) = lastTopicsKey s"
  "pending (pollOnce s) = pending s"
  "sources (pollOnce s) = sources s"
  "called (pollOnce s) = called s"
  by (simp_all add: pollOnce_def Let_def)

lemma startPollingIfNeeded_frame [simp]:
  "options (startPollingIfNeeded s) = options s"
  "refCounts (startPollingIfNeeded s) = refCounts s"
  "snapshots (startPollingIfNeeded s) = snapshots s"
  "topicListeners (startPollingIfNeeded s) = topicListeners s"
  "connectionListeners (startPollingIfNeeded s) = connectionListeners s"
  "es (startPollingIfNeeded s) = es s"
  "debounceTimer (startPollingIfNeeded s) = debounceTimer s"
  "backoffTimer (startPollingIfNeeded s) = backoffTimer s"
  "staleTimer (startPollingIfNeeded s) = staleTimer s"
  "consecutiveFailures (startPollingIfNeeded s) = consecutiveFailures s"
  "disposed (startPollingIfNeeded s) = disposed s"
  "generation (startPollingIfNeeded s) = generation s"
  "lastTopicsKey (startPollingIfNeeded s) = lastTopicsKey s"
  "sources (startPollingIfNeeded s) = sources s"
  by (simp_all add: startPollingIfNeeded_def Let_def)

text \<open>Two states that differ at most in versions, snapshots and the call log.\<close>

definition same_transport :: "sse \<Rightarrow> sse \<Rightarrow> bool" where
  "same_transport s s' \<longleftrightarrow>
    s' = s\<lparr>topicVersions := topicVersions s', snapshots := snapshots s', called := called s'\<rparr>"

lemma same_transport_refl: "same_transport s s"
  by (simp add: same_transport_def)

lemma same_transport_trans:
  assumes "same_transport s s'" and "same_transport s' s''"
  shows "same_transport s s''"
proof -
  have "s'' = (s\<lparr>topicVersions := topicVersions s', snapshots := snapshots s', called := called s'\<rparr>)
      \<lparr>topicVersions := topicVersions s'', snapshots := snapshots s'', called := called s''\<rparr>"
    using assms by (metis same_transport_def)
  then show ?thesis
    by (simp add: same_transport_def)
qed

lemma same_transport_applyTopicData: "same_transport s (applyTopicData t d ts s)"
  by (simp add: same_transport_def applyTopicData_def notifyTopic_def split: option.split)

lemma same_transport_installResults: "same_transport s (snd (installResults g res rs a s))"
proof (induction rs arbitrary: a s)
  case Nil
  show ?case by (simp add: same_transport_refl)
next
  case (Cons r rs)
  have "same_transport s (snd (installResults g res rs True (applyTopicData t v w s)))" for t v w
    using same_transport_applyTopicData Cons.IH by (rule same_transport_trans)
  then show ?case
    using Cons.IH by (auto simp: same_transport_refl split: option.split prod.split)
qed

lemma installResults_frame [simp]:
  "options (snd (installResults g res rs a s)) = options s"
  "refCounts (snd (installResults g res rs a s)) = refCounts s"
  "topicListeners (snd (installResults g res rs a s)) = topicListeners s"
  "connectionListeners (snd (installResults g res rs a s)) = connectionListeners s"
  "es (snd (installResults g res rs a s)) = es s"
  "debounceTimer (snd (installResults g res rs a s)) = debounceTimer s"
  "backoffTimer (snd (installResults g res rs a s)) = backoffTimer s"
  "staleTimer (snd (installResults g res rs a s)) = staleTimer s"
  "pollTimer (snd (installResults g res rs a s)) = pollTimer s"
  "pollInFlight (snd (installResults g res rs a s)) = pollInFlight s"
  "consecutiveFailures (snd (installResults g res rs a s)) = consecutiveFailures s"
  "connection (snd (installResults g res rs a s)) = connection s"
  "disposed (snd (installResults g res rs a s)) = disposed s"
  "generation (snd (installResults g res rs a s)) = generation s"
  "lastTopicsKey (snd (installResults g res rs a s)) = lastTopicsKey s"
  "pending (snd (installResults g res rs a s)) = pending s"
  "sources (snd (installResults g res rs a s)) = sources s"
  "inflight (snd (installResults g res rs a s)) = inflight s"
  "next_id (snd (installResults g res rs a s)) = next_id s"
proof -
  have "snd (installResults g res rs a s) = s\<lparr>topicVersions := topicVersions (snd (installResults g res rs a s)),
      snapshots := snapshots (snd (installResults g res rs a s)),
      called := called (snd (installResults g res rs a s))\<rparr>"
    using same_transport_installResults by (simp only: same_transport_def [symmetric])
  then obtain vs ss cs where "snd (installResults g res rs a s) =
      s\<lparr>topicVersions := vs, snapshots := ss, called := cs\<rparr>"
    by blast
  then show "options (snd (installResults g res rs a s)) = options s"
    and "refCounts (snd (installResults g res rs a s)) = refCounts s"
    and "topicListeners (snd (installResults g res rs a s)) = topicListeners s"
    and "connectionListeners (snd (installResults g res rs a s)) = connectionListeners s"
    and "es (snd (installResults g res rs a s)) = es s"
    and "debounceTimer (snd (installResults g res rs a s)) = debounceTimer s"
    and "backoffTimer (snd (installResults g res rs a s)) = backoffTimer s"
    and "staleTimer (snd (installResults g res rs a s)) = staleTimer s"
    and "pollTimer (snd (installResults g res rs a s)) = pollTimer s"
    and "pollInFlight (snd (installResults g res rs a s)) = pollInFlight s"
    and "consecutiveFailures (snd (installResults g res rs a s)) = consecutiveFailures s"
    and "connection (snd (installResults g res rs a s)) = connection s"
    and "disposed (snd (installResults g res rs a s)) = disposed s"
    and "generation (snd (installResults g res rs a s)) = generation s"
    and "lastTopicsKey (snd (installResults g res rs a s)) = lastTopicsKey s"
    and "pending (snd (installResults g res rs a s)) = pending s"
    and "sources (snd (installResults g res rs a s)) = sources s"
    and "inflight (snd (installResults g res rs a s)) = inflight s"
    and "next_id (snd (installResults g res rs a s)) = next_id s"
    by simp_all
qed

end
