(* ===== verification/Sse_Freshness.thy ===== *)
theory Sse_Freshness
  imports Sse_Client_Frame
begin

text \<open>
  Freshness of topic snapshots. A snapshot request that was answered late must not replace what
  the client learnt in the meantime, and nothing of a finished session may reach the next one.

  The relation \<open>evolves\<close> between two states collects what every inner function of the client
  guarantees: version objects only advance and are never resurrected, generations and identifiers
  only grow, a topic's snapshot changes only together with its revision or the generation, and a
  fetch in flight is old or was issued under the current versions. It is transitive, so each event
  is a chain of such steps; the run lemmas come from the locale \<open>growing_system\<close>.
\<close>

subsection \<open>What every step of the client guarantees\<close>

abbreviation version_of :: "sse \<Rightarrow> topicName \<Rightarrow> topicVersion option" where
  "version_of s t \<equiv> mget (topicVersions s) t"

definition vids_ok :: "sse \<Rightarrow> bool" where
  "vids_ok s \<longleftrightarrow> (\<forall>t v. version_of s t = Some v \<longrightarrow> vid v < next_id s)"

definition request_bounded :: "sse \<Rightarrow> fetchRequest \<Rightarrow> bool" where
  "request_bounded s r \<longleftrightarrow> req_vid r < next_id s \<and>
     (\<forall>v. version_of s (req_topic r) = Some v \<and> vid v = req_vid r \<longrightarrow>
        req_revision r \<le> revision v \<and> req_ticket r \<le> requestTicket v)"

definition fetch_bounded :: "sse \<Rightarrow> snapshotFetch \<Rightarrow> bool" where
  "fetch_bounded s f \<longleftrightarrow> fetch_id f < next_id s \<and> fetch_gen f \<le> generation s \<and>
     (\<forall>r\<in>set (fetch_requests f). request_bounded s r)"

definition versions_advance :: "sse \<Rightarrow> sse \<Rightarrow> bool" where
  "versions_advance s s' \<longleftrightarrow> next_id s \<le> next_id s' \<and> generation s \<le> generation s' \<and>
     (\<forall>t v'. version_of s' t = Some v' \<and> vid v' < next_id s \<longrightarrow>
        (\<exists>v. version_of s t = Some v \<and> vid v = vid v' \<and> revision v \<le> revision v' \<and>
             requestTicket v \<le> requestTicket v'))"

definition superseded :: "sse \<Rightarrow> sse \<Rightarrow> topicName \<Rightarrow> bool" where
  "superseded s s' t \<longleftrightarrow> (\<forall>v'. version_of s' t = Some v' \<and> vid v' < next_id s \<longrightarrow>
     (\<exists>v. version_of s t = Some v \<and> vid v = vid v' \<and> revision v < revision v'))"

definition evolves :: "sse \<Rightarrow> sse \<Rightarrow> bool" where
  "evolves s s' \<longleftrightarrow> versions_advance s s' \<and>
     (\<forall>t. getTopicSnapshot s' t = getTopicSnapshot s t \<or> generation s < generation s' \<or> superseded s s' t) \<and>
     (vids_ok s \<longrightarrow> vids_ok s' \<and>
        (\<forall>f\<in>set (inflight s'). f \<in> set (inflight s) \<or> (next_id s \<le> fetch_id f \<and> fetch_bounded s' f)))"

lemma versions_advance_refl [simp]: "versions_advance s s"
  by (simp add: versions_advance_def)

lemma versions_advance_trans:
  assumes "versions_advance s s'" and "versions_advance s' s''"
  shows "versions_advance s s''"
  unfolding versions_advance_def
proof (intro conjI allI impI)
  show "next_id s \<le> next_id s''" "generation s \<le> generation s''"
    using assms by (auto simp: versions_advance_def)
  fix t v'' assume v'': "version_of s'' t = Some v'' \<and> vid v'' < next_id s"
  then have "vid v'' < next_id s'"
    using assms(1) by (auto simp: versions_advance_def)
  with assms(2) v'' obtain v' where v': "version_of s' t = Some v'" "vid v' = vid v''"
    "revision v' \<le> revision v''" "requestTicket v' \<le> requestTicket v''"
    unfolding versions_advance_def by blast
  with assms(1) v'' obtain v where "version_of s t = Some v" "vid v = vid v'"
    "revision v \<le> revision v'" "requestTicket v \<le> requestTicket v'"
    unfolding versions_advance_def by metis
  with v' show "\<exists>v. version_of s t = Some v \<and> vid v = vid v'' \<and> revision v \<le> revision v'' \<and>
      requestTicket v \<le> requestTicket v''"
    by (intro exI [of _ v]) auto
qed

lemma superseded_then_advance:
  assumes "superseded s s' t" and "versions_advance s s'" and "versions_advance s' s''"
  shows "superseded s s'' t"
  unfolding superseded_def
proof (intro allI impI)
  fix v'' assume v'': "version_of s'' t = Some v'' \<and> vid v'' < next_id s"
  then have "vid v'' < next_id s'"
    using assms(2) by (auto simp: versions_advance_def)
  with assms(3) v'' obtain v' where v': "version_of s' t = Some v'" "vid v' = vid v''"
    "revision v' \<le> revision v''"
    unfolding versions_advance_def by blast
  with assms(1) v'' show "\<exists>v. version_of s t = Some v \<and> vid v = vid v'' \<and> revision v < revision v''"
    unfolding superseded_def by (metis order_less_le_trans)
qed

lemma advance_then_superseded:
  assumes "versions_advance s s'" and "superseded s' s'' t"
  shows "superseded s s'' t"
  unfolding superseded_def
proof (intro allI impI)
  fix v'' assume v'': "version_of s'' t = Some v'' \<and> vid v'' < next_id s"
  then have "vid v'' < next_id s'"
    using assms(1) by (auto simp: versions_advance_def)
  with assms(2) v'' obtain v' where v': "version_of s' t = Some v'" "vid v' = vid v''"
    "revision v' < revision v''"
    unfolding superseded_def by blast
  with assms(1) v'' show "\<exists>v. version_of s t = Some v \<and> vid v = vid v'' \<and> revision v < revision v''"
    unfolding versions_advance_def by (metis order_le_less_trans)
qed

lemma request_bounded_mono:
  assumes "request_bounded s r" and "versions_advance s s'"
  shows "request_bounded s' r"
  unfolding request_bounded_def
proof (intro conjI allI impI)
  have id: "req_vid r < next_id s" using assms(1) by (simp add: request_bounded_def)
  then show "req_vid r < next_id s'" using assms(2) by (auto simp: versions_advance_def)
  fix v' assume v': "version_of s' (req_topic r) = Some v' \<and> vid v' = req_vid r"
  with id assms(2) obtain v where "version_of s (req_topic r) = Some v" "vid v = req_vid r"
    "revision v \<le> revision v'" "requestTicket v \<le> requestTicket v'"
    unfolding versions_advance_def by metis
  then show "req_revision r \<le> revision v'" "req_ticket r \<le> requestTicket v'"
    using assms(1) by (auto simp: request_bounded_def)
qed

lemma fetch_bounded_mono:
  assumes "fetch_bounded s f" and adv: "versions_advance s s'"
  shows "fetch_bounded s' f"
proof -
  have "next_id s \<le> next_id s'" "generation s \<le> generation s'"
    using adv by (simp_all add: versions_advance_def)
  then show ?thesis
    using assms request_bounded_mono [OF _ adv] by (auto simp: fetch_bounded_def)
qed

lemma evolves_refl [simp]: "evolves s s"
  by (simp add: evolves_def)

lemma evolves_trans:
  assumes 1: "evolves s s'" and 2: "evolves s' s''"
  shows "evolves s s''"
proof -
  have adv: "versions_advance s s'" "versions_advance s' s''"
    using 1 2 by (simp_all add: evolves_def)
  have "getTopicSnapshot s'' t = getTopicSnapshot s t \<or> generation s < generation s'' \<or> superseded s s'' t" for t
  proof -
    have gen: "generation s \<le> generation s'" "generation s' \<le> generation s''"
      using adv by (auto simp: versions_advance_def)
    from 1 consider "getTopicSnapshot s' t = getTopicSnapshot s t" | "generation s < generation s'"
      | "superseded s s' t"
      by (auto simp: evolves_def)
    then show ?thesis
    proof cases
      case 1
      from 2 consider "getTopicSnapshot s'' t = getTopicSnapshot s' t" | "generation s' < generation s''"
        | "superseded s' s'' t"
        by (auto simp: evolves_def)
      then show ?thesis
        using 1 gen adv by cases (auto intro: advance_then_superseded)
    qed (use gen adv in \<open>auto intro: superseded_then_advance\<close>)
  qed
  moreover have "vids_ok s'' \<and>
      (\<forall>f\<in>set (inflight s''). f \<in> set (inflight s) \<or> (next_id s \<le> fetch_id f \<and> fetch_bounded s'' f))"
    if "vids_ok s"
  proof -
    have nid: "next_id s \<le> next_id s'" using adv(1) by (simp add: versions_advance_def)
    from that 1 have ok': "vids_ok s'" and old: "\<And>f. f \<in> set (inflight s') \<Longrightarrow>
        f \<in> set (inflight s) \<or> (next_id s \<le> fetch_id f \<and> fetch_bounded s' f)"
      by (auto simp: evolves_def)
    from ok' 2 have "vids_ok s''" and new: "\<And>f. f \<in> set (inflight s'') \<Longrightarrow>
        f \<in> set (inflight s') \<or> (next_id s' \<le> fetch_id f \<and> fetch_bounded s'' f)"
      by (auto simp: evolves_def)
    then show ?thesis
      using old fetch_bounded_mono [OF _ adv(2)] nid by (meson order_trans)
  qed
  ultimately show ?thesis
    using versions_advance_trans [OF adv] by (simp add: evolves_def)
qed

text \<open>A step that touches neither versions nor snapshots and starts no fetch.\<close>

lemma evolves_frame:
  assumes "topicVersions s' = topicVersions s" "snapshots s' = snapshots s"
    "set (inflight s') \<subseteq> set (inflight s)" "next_id s \<le> next_id s'" "generation s \<le> generation s'"
  shows "evolves s s'"
  using assms
  by (auto simp: evolves_def versions_advance_def vids_ok_def getTopicSnapshot_def
      intro: order_less_le_trans)

subsection \<open>Each inner function evolves the state\<close>

lemma bumpRevision_simps [simp]:
  "vid (bumpRevision v) = vid v" "revision (bumpRevision v) = Suc (revision v)"
  "requestTicket (bumpRevision v) = requestTicket v"
  by (simp_all add: bumpRevision_def)

lemmas version_laws = evolves_def versions_advance_def superseded_def vids_ok_def getTopicSnapshot_def

text \<open>A topic's snapshot and revision move together.\<close>

lemma evolves_bump:
  assumes v: "version_of s t = Some v"
    and s': "topicVersions s' = mset_key (topicVersions s) t (bumpRevision v)"
    "snapshots s' = mset_key (snapshots s) t p" "inflight s' = inflight s" "next_id s' = next_id s"
    "generation s' = generation s"
  shows "evolves s s'"
  using assms by (auto simp: version_laws js_map_simps split: if_splits)

lemma evolves_applyTopicData: "evolves s (applyTopicData t d ts s)"
  by (auto simp: applyTopicData_def split: option.split intro: evolves_bump)

lemma evolves_applyTopicError: "evolves s (applyTopicError t c s)"
  by (auto simp: applyTopicError_def Let_def split: option.split intro: evolves_bump)

lemma evolves_setConnection: "evolves s (setConnection st sta s)"
proof (cases "\<not> conn_stale (connection s) \<and> conn_stale (connection (setConnection st sta s))")
  case True
  then have "topicVersions (setConnection st sta s) = map (\<lambda>(t, v). (t, bumpRevision v)) (topicVersions s)"
    by (auto simp: setConnection_def Let_def notifyConnection_def split: if_splits)
  then show ?thesis
    by (auto simp: version_laws mget_map_values [where f = "\<lambda>k v. bumpRevision v"])
next
  case False
  then show ?thesis
    by (intro evolves_frame) (auto simp: setConnection_def Let_def notifyConnection_def split: if_splits)
qed

lemma evolves_chain: "evolves s t \<Longrightarrow> evolves t (f t) \<Longrightarrow> evolves s (f t)"
  by (rule evolves_trans)

lemma evolves_issueRequests:
  "evolves s (snd (issueRequests ts s)) \<and>
   (\<forall>r\<in>set (fst (issueRequests ts s)). vids_ok s \<longrightarrow> request_bounded (snd (issueRequests ts s)) r)"
proof (induction ts arbitrary: s)
  case Nil
  show ?case by simp
next
  case (Cons t ts)
  show ?case
  proof (cases "mhas (refCounts s) t \<and> mhas (topicVersions s) t")
    case False
    then show ?thesis using Cons.IH [of s] by (auto split: option.split)
  next
    case True
    then obtain v where v: "version_of s t = Some v" by auto
    define s1 where "s1 = s\<lparr>topicVersions := mset_key (topicVersions s) t (v\<lparr>requestTicket := Suc (requestTicket v)\<rparr>)\<rparr>"
    define r where "r = \<lparr>req_topic = t, req_vid = vid v, req_revision = revision v, req_ticket = Suc (requestTicket v)\<rparr>"
    have eq: "issueRequests (t # ts) s = (r # fst (issueRequests ts s1), snd (issueRequests ts s1))"
      using True v by (simp add: s1_def r_def split_beta Let_def)
    have s1: "evolves s s1"
      using v by (auto simp: version_laws s1_def js_map_simps split: if_splits)
    have "vids_ok s \<Longrightarrow> request_bounded s1 r"
      using v by (auto simp: request_bounded_def s1_def r_def js_map_simps vids_ok_def)
    moreover have "versions_advance s1 (snd (issueRequests ts s1))"
      using Cons.IH by (simp add: evolves_def)
    moreover have "vids_ok s \<Longrightarrow> vids_ok s1" using s1 by (simp add: evolves_def)
    ultimately show ?thesis
      unfolding eq using Cons.IH [of s1] evolves_trans [OF s1] by (auto intro: request_bounded_mono)
  qed
qed

lemma evolves_start_fetch:
  assumes "vids_ok s \<Longrightarrow> \<forall>r\<in>set rs. request_bounded s r"
    and s': "s' = s\<lparr>inflight := inflight s @
      [\<lparr>fetch_id = next_id s, fetch_gen = generation s, fetch_requests = rs\<rparr>], next_id := Suc (next_id s)\<rparr>"
  shows "evolves s s'"
  using assms(1) unfolding s'
  by (auto simp: version_laws fetch_bounded_def request_bounded_def intro: less_SucI)

lemma evolves_fetchAndInstall: "evolves s (fetchAndInstall ts s)"
proof (cases "ts = [] \<or> disposed s")
  case True
  then show ?thesis
    by (intro evolves_start_fetch [of s "[]"]) (auto simp: fetchAndInstall_def)
next
  case False
  let ?i = "issueRequests ts s"
  have ev: "evolves s (snd ?i)" using evolves_issueRequests by blast
  have *: "evolves (snd ?i) (fetchAndInstall ts s)" if "vids_ok s"
    using False evolves_issueRequests [of s ts] that
    by (intro evolves_start_fetch [of _ "fst ?i"]) (auto simp: fetchAndInstall_def split_beta Let_def)
  show ?thesis
  proof (cases "vids_ok s")
    case True
    with ev * show ?thesis by (blast intro: evolves_trans)
  next
    case no: False
    with False ev show ?thesis
      by (auto simp: version_laws fetchAndInstall_def split_beta Let_def le_SucI)
  qed
qed

text \<open>The same facts in composable form: a chain of inner functions that starts in \<open>s\<close> is peeled
  off call by call.\<close>

named_theorems evolves_intro "composition rules of evolves"

lemma evolves_update [evolves_intro]:
  assumes "evolves s0 s"
  shows "evolves s0 (s\<lparr>pollInFlight := a\<rparr>)" "evolves s0 (s\<lparr>pollTimer := b\<rparr>)"
    "evolves s0 (s\<lparr>consecutiveFailures := c\<rparr>)" "evolves s0 (s\<lparr>connection := d\<rparr>)"
    "evolves s0 (s\<lparr>lastTopicsKey := e\<rparr>)" "evolves s0 (s\<lparr>debounceTimer := f\<rparr>)"
    "evolves s0 (s\<lparr>backoffTimer := g\<rparr>)" "evolves s0 (s\<lparr>staleTimer := h\<rparr>)"
    "evolves s0 (s\<lparr>disposed := i\<rparr>)" "generation s \<le> gen \<Longrightarrow> evolves s0 (s\<lparr>generation := gen\<rparr>)"
    "evolves s0 (s\<lparr>pending := j\<rparr>)" "evolves s0 (s\<lparr>sources := k\<rparr>)" "evolves s0 (s\<lparr>es := l\<rparr>)"
    "evolves s0 (s\<lparr>refCounts := m\<rparr>)" "evolves s0 (s\<lparr>topicListeners := n\<rparr>)"
    "evolves s0 (s\<lparr>connectionListeners := q\<rparr>)" "evolves s0 (s\<lparr>inflight := filter P (inflight s)\<rparr>)"
  by (rule evolves_trans [OF assms]; rule evolves_frame; auto)+

lemma evolves_if [evolves_intro]:
  "(b \<Longrightarrow> evolves s x) \<Longrightarrow> (\<not> b \<Longrightarrow> evolves s y) \<Longrightarrow> evolves s (if b then x else y)"
  by simp

lemma evolves_quiet [evolves_intro]:
  assumes "evolves s0 s"
  shows "evolves s0 (setTimer k d s)" "evolves s0 (clearTimer h s)" "evolves s0 (notifyTopic t s)"
    "evolves s0 (notifyConnection s)" "evolves s0 (resetStaleWatchdog s)" "evolves s0 (stopPolling s)"
    "evolves s0 (closeEventSource s)" "evolves s0 (scheduleRebuild s)" "evolves s0 (openEventSource ts s)"
    "evolves s0 (clearBackoff s)" "evolves s0 (clearStale s)" "evolves s0 (clearAllTimers s)"
    "evolves s0 (fold notifyTopic us s)"
  by (rule evolves_trans [OF assms]; rule evolves_frame;
      simp add: setTimer_def resetStaleWatchdog_def scheduleRebuild_def openEventSource_def Let_def)+

lemma evolves_calls [evolves_intro]:
  assumes "evolves s0 s"
  shows "evolves s0 (setConnection st sta s)" "evolves s0 (applyTopicData t d ts s)"
    "evolves s0 (applyTopicError t c s)" "evolves s0 (fetchAndInstall us s)"
  using assms evolves_setConnection evolves_applyTopicData evolves_applyTopicError evolves_fetchAndInstall
  by (blast intro: evolves_trans)+

lemma evolves_newTransport [evolves_intro]: "evolves s0 s \<Longrightarrow> evolves s0 (newTransport force s)"
  by (rule evolves_trans, assumption, rule evolves_frame) (auto simp: newTransport_def)

lemma evolves_onFrame [evolves_intro]: "evolves s0 s \<Longrightarrow> evolves s0 (onFrame s)"
  unfolding onFrame_def by (intro evolves_intro)

lemma evolves_markConnected [evolves_intro]: "evolves s0 s \<Longrightarrow> evolves s0 (markConnected s)"
  unfolding markConnected_def by (intro evolves_intro)

lemma evolves_pollOnce [evolves_intro]: "evolves s0 s \<Longrightarrow> evolves s0 (pollOnce s)"
  unfolding pollOnce_def Let_def by (intro evolves_intro)

lemma evolves_startPolling [evolves_intro]: "evolves s0 s \<Longrightarrow> evolves s0 (startPollingIfNeeded s)"
  unfolding startPollingIfNeeded_def Let_def by (intro evolves_intro)

lemma evolves_rebuildNow [evolves_intro]: "evolves s0 s \<Longrightarrow> evolves s0 (rebuildNow force s)"
  unfolding rebuildNow_def rebuildEmpty_def attemptStatus_def Let_def by (intro evolves_intro)

lemma evolves_installResults [evolves_intro]:
  "evolves s0 s \<Longrightarrow> evolves s0 (snd (installResults g res rs a s))"
proof (induction rs arbitrary: s a)
  case Nil
  then show ?case by simp
next
  case (Cons r rs)
  then show ?case by (auto intro: evolves_calls split: option.split)
qed

lemma evolves_freshVersion [evolves_intro]:
  assumes "evolves s0 s"
  shows "evolves s0 (freshVersion t s)"
  by (rule evolves_trans [OF assms])
    (auto simp: version_laws freshVersion_def js_map_simps less_SucI split: if_splits)

lemma evolves_fold_freshVersion [evolves_intro]: "evolves s0 s \<Longrightarrow> evolves s0 (fold freshVersion ts s)"
  by (induction ts arbitrary: s) (simp_all add: evolves_freshVersion)

text \<open>Dropping version objects, as unsubscribing, \<open>reset\<close> and \<open>dispose\<close> do.\<close>

lemma evolves_drop_version [evolves_intro]:
  assumes "evolves s0 s" and "\<And>t v. mget vs t = Some v \<Longrightarrow> version_of s t = Some v"
  shows "evolves s0 (s\<lparr>topicVersions := vs\<rparr>)"
proof (rule evolves_trans [OF assms(1)])
  show "evolves s (s\<lparr>topicVersions := vs\<rparr>)"
    using assms(2) by (auto simp: version_laws)
qed

text \<open>Forgetting snapshots: a new session (a later generation), or a topic that had none.\<close>

lemma evolves_new_session:
  assumes "evolves s0 s" and "generation s0 < generation s"
  shows "evolves s0 (s\<lparr>snapshots := ss\<rparr>)"
  using assms by (auto simp: version_laws fetch_bounded_def request_bounded_def)

lemma evolves_first_snapshot [evolves_intro]:
  assumes "evolves s0 s" and "mget (snapshots s) t = None"
  shows "evolves s0 (s\<lparr>snapshots := mset_key (snapshots s) t EMPTY_TOPIC_SNAPSHOT\<rparr>)"
  by (rule evolves_trans [OF assms(1)])
    (use assms(2) in \<open>auto simp: version_laws js_map_simps split: if_splits option.splits\<close>)

lemma evolves_reset: "evolves s (reset s)"
proof -
  let ?s1 = "stopPolling (closeEventSource (s\<lparr>generation := Suc (generation s)\<rparr>))"
  let ?s2 = "(clearAllTimers ?s1)\<lparr>debounceTimer := None, backoffTimer := None, staleTimer := None,
      consecutiveFailures := 0, lastTopicsKey := None, snapshots := [], topicVersions := []\<rparr>"
  have "evolves s ?s2"
    by (rule evolves_drop_version, rule evolves_new_session, intro evolves_intro) simp_all
  then show ?thesis
    unfolding reset_def Let_def by - ((assumption | rule evolves_intro)+)
qed

lemma evolves_step: "evolves s (sse_step s e)"
proof (cases e)
  case (Subscribe t)
  then show ?thesis
    by (simp only: sse_step.simps subscribeTopic_def Let_def) (intro evolves_intro evolves_refl; simp)
next
  case (Unsubscribe t)
  then show ?thesis
    by (simp only: sse_step.simps unsubscribeTopic_def Let_def)
      (intro evolves_intro evolves_refl; simp add: js_map_simps split: if_splits)
next
  case (TimerFires h)
  then show ?thesis
    by (auto simp only: sse_step.simps timerFires_def Let_def split: option.split timerKind.split
        intro: evolves_intro evolves_refl)
next
  case (EsOpen n)
  then show ?thesis
    by (auto simp: onOpen_def Let_def split: option.split intro!: evolves_intro)
next
  case (EsSourceError n p)
  then show ?thesis
    by (auto simp: onSourceError_def Let_def split: option.split json.split intro!: evolves_intro)
next
  case (EsTopicFrame n t p)
  then show ?thesis
    by (auto simp: onTopicFrame_def Let_def split: option.split intro!: evolves_intro)
next
  case (EsError n c)
  then show ?thesis
    by (simp only: sse_step.simps onError_def onErrorClosed_def Let_def)
      (intro evolves_intro evolves_refl; simp)
next
  case (FetchSettled f r)
  then show ?thesis
    by (auto simp: fetchSettled_def Let_def split_beta split: option.split intro!: evolves_intro)
next
  case Dispose
  then show ?thesis
    by (simp only: sse_step.simps dispose_def) (intro evolves_intro evolves_refl; simp)
qed (auto simp: subscribeTopicListener_def unsubscribeTopicListener_def retry_def onHeartbeat_def
    evolves_reset split: option.split intro!: evolves_intro)


subsection \<open>Late answers\<close>

definition fetches_ok :: "sse \<Rightarrow> bool" where
  "fetches_ok s \<longleftrightarrow> vids_ok s \<and> (\<forall>f\<in>set (inflight s). fetch_bounded s f)"

lemma fetches_ok_evolves:
  assumes "fetches_ok s" "evolves s s'"
  shows "fetches_ok s'"
proof -
  have adv: "versions_advance s s'" using assms(2) by (simp add: evolves_def)
  show ?thesis
    using assms fetch_bounded_mono [OF _ adv] by (auto simp: fetches_ok_def evolves_def)
qed

interpretation fetching: growing_system sse_step fetches_ok evolves
  by unfold_locales (auto intro: fetches_ok_evolves evolves_step evolves_trans)

lemma fetches_ok_init: "fetches_ok (createSSEClient opts)"
  by (simp add: fetches_ok_def vids_ok_def createSSEClient_def)

definition outdated :: "sse \<Rightarrow> sse \<Rightarrow> topicName \<Rightarrow> bool" where
  "outdated s s' t \<longleftrightarrow> versions_advance s s' \<and> (generation s < generation s' \<or> superseded s s' t)"

lemma outdated_evolves:
  assumes "outdated s s' t" "evolves s' s''"
  shows "outdated s s'' t"
proof -
  have adv: "versions_advance s s'" "versions_advance s' s''"
    using assms by (simp_all add: outdated_def evolves_def)
  have "generation s' \<le> generation s''" using adv(2) by (simp add: versions_advance_def)
  then show ?thesis
    using assms adv versions_advance_trans [OF adv] superseded_then_advance [OF _ adv]
    by (auto simp: outdated_def)
qed

lemma outdated_request:
  assumes "superseded s s' t" "request_bounded s r" "req_topic r = t"
  shows "\<not> requestCurrent s' r"
  using assms by (auto simp: requestCurrent_def superseded_def request_bounded_def split: option.splits)

lemma installResults_outdated:
  assumes "\<forall>r\<in>set rs. request_bounded s0 r" "outdated s0 s t" "superseded s0 s t"
  shows "getTopicSnapshot (snd (installResults g res rs a s)) t = getTopicSnapshot s t"
  using assms
proof (induction rs arbitrary: s a)
  case Nil
  then show ?case by simp
next
  case (Cons r rs)
  have rest: "getTopicSnapshot (snd (installResults g res rs a s)) t = getTopicSnapshot s t" for a
    using Cons by simp
  show ?case
  proof (cases "requestCurrent s r")
    case False
    then show ?thesis using rest by auto
  next
    case True
    then have other: "req_topic r \<noteq> t"
      using Cons.prems outdated_request by auto
    have ev: "evolves s (applyTopicData (req_topic r) v w s)" for v w
      by (rule evolves_applyTopicData)
    have "getTopicSnapshot (snd (installResults g res rs True (applyTopicData (req_topic r) v w s))) t =
        getTopicSnapshot (applyTopicData (req_topic r) v w s) t" for v w
    proof (rule Cons.IH)
      show "outdated s0 (applyTopicData (req_topic r) v w s) t"
        using Cons.prems(2) ev by (rule outdated_evolves)
      show "superseded s0 (applyTopicData (req_topic r) v w s) t"
        using Cons.prems(2,3) ev by (auto simp: outdated_def evolves_def intro: superseded_then_advance)
    qed (use Cons.prems in simp)
    moreover have "getTopicSnapshot (applyTopicData (req_topic r) v w s) t = getTopicSnapshot s t" for v w
      using other by (simp add: getTopicSnapshot_def applyTopicData_def js_map_simps split: option.split)
    ultimately show ?thesis using rest by (auto split: option.split)
  qed
qed

lemma getTopicSnapshot_frame [simp]:
  "getTopicSnapshot (s\<lparr>inflight := i\<rparr>) t = getTopicSnapshot s t"
  "getTopicSnapshot (s\<lparr>pollInFlight := p\<rparr>) t = getTopicSnapshot s t"
  "getTopicSnapshot (onFrame s) t = getTopicSnapshot s t"
  by (simp_all add: getTopicSnapshot_def)

lemma settle_outdated:
  assumes "fetch_bounded s0 f" "outdated s0 s t"
    and only: "\<And>g. g \<in> set (inflight s) \<Longrightarrow> fetch_id g = fetch_id f \<Longrightarrow> fetch_bounded s0 g"
  shows "getTopicSnapshot (fetchSettled (fetch_id f) res s) t = getTopicSnapshot s t"
proof (cases "find (\<lambda>g. fetch_id g = fetch_id f) (inflight s)")
  case None
  then show ?thesis by (simp add: fetchSettled_def)
next
  case (Some g)
  then have g: "fetch_bounded s0 g"
    using only by (auto simp: find_Some_iff)
  let ?s1 = "s\<lparr>inflight := filter (\<lambda>g. fetch_id g \<noteq> fetch_id f) (inflight s)\<rparr>"
  have ev: "evolves s ?s1"
    by (intro evolves_intro evolves_refl)
  have "getTopicSnapshot (snd (installResults (fetch_gen g) r (fetch_requests g) False ?s1)) t =
      getTopicSnapshot ?s1 t" if "fetch_gen g = generation s" for r
  proof (rule installResults_outdated)
    show "\<forall>r\<in>set (fetch_requests g). request_bounded s0 r" using g by (simp add: fetch_bounded_def)
    show "outdated s0 ?s1 t" using assms(2) ev by (rule outdated_evolves)
    show "superseded s0 ?s1 t"
      using assms(2) g that by (auto simp: outdated_def superseded_def fetch_bounded_def)
  qed
  then show ?thesis
    using Some by (auto simp: fetchSettled_def Let_def split_beta split: option.split)
qed

text \<open>C1. A request answered late never overwrites newer data. Let a snapshot fetch be in flight
  at some point of any history, and let any later event change what the client holds for a topic
  (a live frame, a source error, another answer, a reset). Then, whatever happens next, settling
  that fetch -- with any result -- leaves the topic's snapshot as it is.\<close>

theorem late_answer_never_overwrites:
  assumes s0: "s0 = run sse_step (createSSEClient opts) before"
    and f: "f \<in> set (inflight s0)"
    and s1: "s1 = run sse_step s0 mid"
    and changed: "getTopicSnapshot (sse_step s1 e) t \<noteq> getTopicSnapshot s1 t"
    and s2: "s2 = run sse_step (sse_step s1 e) later"
  shows "getTopicSnapshot (sse_step s2 (FetchSettled (fetch_id f) res)) t = getTopicSnapshot s2 t"
proof -
  have ok: "fetches_ok s0"
    unfolding s0 by (rule fetching.run_inv) (rule fetches_ok_init)
  then have ok1: "fetches_ok s1"
    unfolding s1 by (rule fetching.run_inv)
  have ev: "evolves s0 s1" "evolves s1 (sse_step s1 e)" "evolves (sse_step s1 e) s2"
    using ok ok1 fetching.run_rel fetching.step_inv unfolding s1 s2 by (auto intro: evolves_step)
  have "outdated s1 (sse_step s1 e) t"
    using ev(2) changed by (auto simp: outdated_def evolves_def)
  then have "outdated s1 s2 t" using ev(3) by (rule outdated_evolves)
  moreover have "versions_advance s0 s1" using ev(1) by (simp add: evolves_def)
  ultimately have out: "outdated s0 s2 t"
    by (auto simp: outdated_def intro: versions_advance_trans advance_then_superseded)
      (auto simp: versions_advance_def)
  have "evolves s0 s2" using ev by (blast intro: evolves_trans)
  moreover have fb: "fetch_bounded s0 f" using ok f by (simp add: fetches_ok_def)
  ultimately have "fetch_bounded s0 g" if "g \<in> set (inflight s2)" "fetch_id g = fetch_id f" for g
    using that ok by (fastforce simp: evolves_def fetches_ok_def fetch_bounded_def)
  then show ?thesis
    using settle_outdated [OF fb out] by simp
qed

text \<open>The witness: a refresh is in flight, a live frame arrives, the refresh answers with old data.\<close>

theorem late_answer_never_overwrites_witness:
  "let s0 = run sse_step (createSSEClient default_options) [Subscribe TUsers, RefreshTopic TUsers];
       s1 = run sse_step s0 [TimerFires 1, EsOpen 3];
       s2 = run sse_step (sse_step s1 (EsTopicFrame 3 TUsers (Some (JObj [(''v'', JStr ''new''), (''ts'', JNum 7)])))) [];
       s3 = sse_step s2 (FetchSettled 2 (Some [(TUsers, JStr ''old'', JNum 6)]))
   in getTopicSnapshot s3 TUsers = getTopicSnapshot s2 TUsers \<and>
      snap_data (getTopicSnapshot s3 TUsers) = JStr ''new''"
proof -
  let ?f = "\<lparr>fetch_id = 2, fetch_gen = 0,
    fetch_requests = [\<lparr>req_topic = TUsers, req_vid = 0, req_revision = 0, req_ticket = 1\<rparr>]\<rparr>"
  let ?s0 = "run sse_step (createSSEClient default_options) [Subscribe TUsers, RefreshTopic TUsers]"
  let ?s1 = "run sse_step ?s0 [TimerFires 1, EsOpen 3]"
  let ?e = "EsTopicFrame 3 TUsers (Some (JObj [(''v'', JStr ''new''), (''ts'', JNum 7)]))"
  have f: "?f \<in> set (inflight ?s0)" by (simp add: sse_defs)
  have "getTopicSnapshot (sse_step ?s1 ?e) TUsers \<noteq> getTopicSnapshot ?s1 TUsers"
    by (simp add: sse_defs EMPTY_TOPIC_SNAPSHOT_def)
  note late_answer_never_overwrites [OF refl f refl this refl,
    where later = "[]" and res = "Some [(TUsers, JStr ''old'', JNum 6)]"]
  moreover have "snap_data (getTopicSnapshot (run sse_step (sse_step ?s1 ?e) []) TUsers) = JStr ''new''"
    by (simp add: sse_defs)
  ultimately show ?thesis by (simp del: run.simps sse_step.simps add: Let_def)
qed

end
