(* ===== verification/Sse_Transport.thy ===== *)
theory Sse_Transport
  imports Sse_Freshness
begin

text \<open>
  The transport of the realtime client: reference counts, the one multiplexed EventSource, the
  debounce and backoff that rebuild it, the polling fallback, and what \<open>reset\<close> and \<open>dispose\<close>
  leave behind. Each invariant below names the fields it depends on in a frame lemma, is shown for
  the inner functions that change those fields, and becomes a property of every history through
  the locale \<open>step_system\<close>.
\<close>

subsection \<open>Reference counts and version objects\<close>

definition tracked :: "sse \<Rightarrow> topicName set" where
  "tracked s = dom (mget (topicVersions s))"

definition subscribed :: "sse \<Rightarrow> topicName set" where
  "subscribed s = dom (mget (refCounts s))"

definition refs_ok :: "sse \<Rightarrow> bool" where
  "refs_ok s \<longleftrightarrow> distinct (map fst (refCounts s)) \<and> (\<forall>t c. mget (refCounts s) t = Some c \<longrightarrow> 0 < c) \<and>
     (\<not> disposed s \<longrightarrow> tracked s = subscribed s)"

subsection \<open>The EventSource\<close>

definition source_of :: "sse \<Rightarrow> eventSource option" where
  "source_of s = (case es s of None \<Rightarrow> None | Some n \<Rightarrow> mget (sources s) n)"

definition sources_ok :: "sse \<Rightarrow> bool" where
  "sources_ok s \<longleftrightarrow> (\<forall>n. mhas (sources s) n \<longrightarrow> n < next_id s) \<and>
     (\<forall>n src. mget (sources s) n = Some src \<longrightarrow> (\<not> src_closed src \<longleftrightarrow> es s = Some n)) \<and>
     (\<forall>n. es s = Some n \<longrightarrow> (\<exists>src. mget (sources s) n = Some src \<and> src_topics src \<noteq> [] \<and>
        lastTopicsKey s = Some (topicsKeyOf (src_topics src)))) \<and>
     (disposed s \<longrightarrow> es s = None)"

definition synced :: "sse \<Rightarrow> bool" where
  "synced s \<longleftrightarrow> (disposed s \<or> debounceTimer s \<noteq> None \<or>
     (case source_of s of None \<Rightarrow> activeTopics s = [] \<or> backoffTimer s \<noteq> None
      | Some src \<Rightarrow> src_topics src = activeTopics s))"

subsection \<open>Timers\<close>

definition timerVar :: "sse \<Rightarrow> timerKind \<Rightarrow> nat option" where
  "timerVar s k = (case k of DebounceTimer \<Rightarrow> debounceTimer s | BackoffTimer \<Rightarrow> backoffTimer s
     | StaleTimer \<Rightarrow> staleTimer s | PollTimer \<Rightarrow> pollTimer s)"

definition timer_table :: "timer list \<Rightarrow> (timerKind \<Rightarrow> nat option) \<Rightarrow> nat \<Rightarrow> bool" where
  "timer_table ps var n \<longleftrightarrow>
     (\<forall>k h. var k = Some h \<longrightarrow> h < n) \<and>
     (\<forall>k k' h. var k = Some h \<and> var k' = Some h \<longrightarrow> k = k') \<and>
     distinct (map tm_handle ps) \<and> (\<forall>u\<in>set ps. var (tm_kind u) = Some (tm_handle u))"

definition armed :: "timer list \<Rightarrow> (timerKind \<Rightarrow> nat option) \<Rightarrow> timerKind \<Rightarrow> bool" where
  "armed ps var k \<longleftrightarrow> (\<forall>h. var k = Some h \<longrightarrow> (\<exists>u\<in>set ps. tm_kind u = k \<and> tm_handle u = h))"

definition timers_ok :: "sse \<Rightarrow> bool" where
  "timers_ok s \<longleftrightarrow> timer_table (pending s) (timerVar s) (next_id s) \<and>
     (\<not> disposed s \<longrightarrow> (\<forall>k. k \<noteq> StaleTimer \<longrightarrow> armed (pending s) (timerVar s) k)) \<and>
     (es s \<noteq> None \<longrightarrow> timerVar s BackoffTimer = None) \<and>
     (\<forall>u\<in>set (pending s). tm_kind u = BackoffTimer \<longrightarrow> 2000 \<le> tm_delay u \<and> tm_delay u \<le> 30000)"

definition polling_ok :: "sse \<Rightarrow> bool" where
  "polling_ok s \<longleftrightarrow> (if disposed s then pollTimer s = None
     else pollTimer s \<noteq> None \<longleftrightarrow> conn_status (connection s) = Polling)"

text \<open>After \<open>dispose\<close>: what the client shows is frozen, no source is open and none will be, and
  only the debounce of a late unsubscribe may still be pending.\<close>

definition frozen :: "sse \<Rightarrow> sse \<Rightarrow> bool" where
  "frozen s0 s \<longleftrightarrow> disposed s \<and> es s = None \<and> sources s = sources s0 \<and> snapshots s = snapshots s0 \<and>
     connection s = connection s0 \<and> (\<forall>u\<in>set (pending s). tm_kind u = DebounceTimer)"

subsection \<open>Reference counts: preservation\<close>

lemma refs_ok_frame:
  assumes "refs_ok s" "refCounts s' = refCounts s" "disposed s' = disposed s" "tracked s' = tracked s"
  shows "refs_ok s'"
  using assms by (simp add: refs_ok_def subscribed_def)

lemma tracked_same: "topicVersions s' = topicVersions s \<Longrightarrow> tracked s' = tracked s"
  by (simp add: tracked_def)

lemma tracked_quiet [simp]:
  "tracked (setTimer k d s) = tracked s" "tracked (clearTimer h s) = tracked s"
  "tracked (resetStaleWatchdog s) = tracked s" "tracked (stopPolling s) = tracked s"
  "tracked (closeEventSource s) = tracked s" "tracked (scheduleRebuild s) = tracked s"
  "tracked (openEventSource ts s) = tracked s" "tracked (clearBackoff s) = tracked s"
  "tracked (clearStale s) = tracked s" "tracked (newTransport force s) = tracked s"
  by (rule tracked_same, simp)+

lemma tracked_update [simp]:
  "tracked (s\<lparr>pollInFlight := a\<rparr>) = tracked s" "tracked (s\<lparr>pollTimer := b\<rparr>) = tracked s"
  "tracked (s\<lparr>consecutiveFailures := c\<rparr>) = tracked s" "tracked (s\<lparr>lastTopicsKey := e\<rparr>) = tracked s"
  "tracked (s\<lparr>debounceTimer := f\<rparr>) = tracked s" "tracked (s\<lparr>backoffTimer := g\<rparr>) = tracked s"
  "tracked (s\<lparr>generation := gen\<rparr>) = tracked s" "tracked (s\<lparr>pending := j\<rparr>) = tracked s"
  "tracked (s\<lparr>sources := k\<rparr>) = tracked s" "tracked (s\<lparr>es := l\<rparr>) = tracked s"
  "tracked (s\<lparr>inflight := i\<rparr>) = tracked s" "tracked (s\<lparr>next_id := n\<rparr>) = tracked s"
  "tracked (s\<lparr>refCounts := r\<rparr>) = tracked s" "tracked (s\<lparr>snapshots := p\<rparr>) = tracked s"
  "tracked (s\<lparr>topicListeners := q\<rparr>) = tracked s" "tracked (s\<lparr>connectionListeners := u\<rparr>) = tracked s"
  by (rule tracked_same, simp)+

lemma tracked_put [simp]:
  "tracked (s\<lparr>topicVersions := []\<rparr>) = {}"
  "tracked (s\<lparr>topicVersions := mset_key (topicVersions s) t v\<rparr>) = insert t (tracked s)"
  by (auto simp: tracked_def js_map_simps split: if_splits)

lemma tracked_setConnection [simp]: "tracked (setConnection st sta s) = tracked s"
  by (auto simp: tracked_def setConnection_def Let_def notifyConnection_def
      mget_map_values [where f = "\<lambda>k v. bumpRevision v"])

lemma tracked_apply [simp]:
  "tracked (applyTopicData t d ts s) = tracked s" "tracked (applyTopicError t c s) = tracked s"
  by (auto simp: tracked_def applyTopicData_def applyTopicError_def Let_def js_map_simps
      split: option.splits if_splits)

lemma tracked_issueRequests [simp]: "tracked (snd (issueRequests ts s)) = tracked s"
proof (induction ts arbitrary: s)
  case (Cons t ts)
  then show ?case by (auto simp: split_beta Let_def tracked_def js_map_simps split: option.split if_splits)
qed simp

lemma tracked_calls [simp]:
  "tracked (onFrame s) = tracked s" "tracked (markConnected s) = tracked s"
  "tracked (fetchAndInstall ts s) = tracked s"
  by (simp_all add: onFrame_def markConnected_def fetchAndInstall_def split_beta Let_def)

lemma tracked_poll [simp]: "tracked (pollOnce s) = tracked s" "tracked (startPollingIfNeeded s) = tracked s"
  by (simp_all add: pollOnce_def startPollingIfNeeded_def Let_def)

lemma tracked_installResults [simp]: "tracked (snd (installResults g res rs a s)) = tracked s"
proof (induction rs arbitrary: s a)
  case (Cons r rs)
  then show ?case by (auto split: option.split)
qed simp

lemma rebuildNow_refs [simp]:
  "tracked (rebuildNow force s) = tracked s" "refCounts (rebuildNow force s) = refCounts s"
  "disposed (rebuildNow force s) = disposed s"
  by (simp_all add: rebuildNow_def rebuildEmpty_def attemptStatus_def Let_def)

lemma dom_mdel: "dom (mget (mdel m k)) = dom (mget m) - {k}"
  by (auto simp: js_map_simps split: if_splits)

lemma refs_ok_subscribe: "refs_ok s \<Longrightarrow> refs_ok (subscribeTopic t s)"
  unfolding subscribeTopic_def
  by (auto simp: refs_ok_def subscribed_def freshVersion_def Let_def js_map_simps distinct_update
      simp del: map_of_eq_Some_iff split: if_splits)

lemma refs_ok_unsubscribe: "refs_ok s \<Longrightarrow> refs_ok (unsubscribeTopic t s)"
  unfolding unsubscribeTopic_def
  by (auto simp: refs_ok_def subscribed_def tracked_def Let_def js_map_simps dom_mdel distinct_update
      distinct_delete simp del: map_of_eq_Some_iff split: if_splits option.splits)
    (metis domD domI)+

lemma tracked_fold_freshVersion: "tracked (fold freshVersion ts s) = set ts \<union> tracked s"
proof (induction ts arbitrary: s)
  case (Cons t ts)
  have "tracked (freshVersion t s) = insert t (tracked s)" by (simp add: freshVersion_def)
  then show ?case using Cons.IH by auto
qed simp

lemma set_activeTopics: "refs_ok s \<Longrightarrow> set (activeTopics s) = subscribed s"
  by (force simp: activeTopics_def refs_ok_def subscribed_def dom_map_of_conv_image_fst)

lemma activeTopics_cong: "refCounts s' = refCounts s \<Longrightarrow> activeTopics s' = activeTopics s"
  by (simp add: activeTopics_def)

lemma refs_ok_reset:
  assumes "refs_ok s"
  shows "refs_ok (reset s)"
proof -
  have act: "activeTopics (s'\<lparr>debounceTimer := a, backoffTimer := b, staleTimer := c, consecutiveFailures := d,
      lastTopicsKey := e, snapshots := f, topicVersions := g\<rparr>) = activeTopics s"
    if "refCounts s' = refCounts s" for s' a b c d e f g
    using that by (simp add: activeTopics_def)
  have "tracked (reset s) = subscribed s"
    using assms
    by (auto simp: reset_def Let_def tracked_def [of "notifyConnection _"] tracked_def [symmetric]
        tracked_fold_freshVersion act set_activeTopics)
  then show ?thesis
    using assms by (simp add: refs_ok_def subscribed_def reset_def Let_def)
qed


lemma refs_ok_step: "refs_ok s \<Longrightarrow> refs_ok (sse_step s e)"
proof (cases e)
  case (Subscribe t)
  then show "refs_ok s \<Longrightarrow> ?thesis" by (simp add: refs_ok_subscribe)
next
  case (Unsubscribe t)
  then show "refs_ok s \<Longrightarrow> ?thesis" by (simp add: refs_ok_unsubscribe)
next
  case Reset
  then show "refs_ok s \<Longrightarrow> ?thesis" by (simp add: refs_ok_reset)
next
  case Dispose
  then show "refs_ok s \<Longrightarrow> ?thesis" by (simp add: refs_ok_def dispose_def)
qed (erule refs_ok_frame;
    simp add: subscribeTopicListener_def unsubscribeTopicListener_def retry_def onHeartbeat_def timerFires_def
      onOpen_def onSourceError_def onTopicFrame_def onError_def onErrorClosed_def fetchSettled_def Let_def
      split_beta split: option.split json.split timerKind.split)+

interpretation counting: step_system sse_step refs_ok
  by unfold_locales (rule refs_ok_step)

lemma refs_ok_init: "refs_ok (createSSEClient opts)"
  by (simp add: refs_ok_def tracked_def subscribed_def createSSEClient_def)

subsection \<open>Identifiers\<close>

lemma next_id_fresh [simp]:
  "next_id (setTimer k d s) = Suc (next_id s)" "next_id (scheduleRebuild s) = Suc (next_id s)"
  "next_id (resetStaleWatchdog s) = Suc (next_id s)" "next_id (onFrame s) = Suc (next_id s)"
  "next_id (openEventSource ts s) = Suc (next_id s)" "next_id (fetchAndInstall ts s) = Suc (next_id s)"
  "next_id (freshVersion t s) = Suc (next_id s)"
  by (simp_all add: setTimer_def scheduleRebuild_def resetStaleWatchdog_def onFrame_def openEventSource_def
      fetchAndInstall_def split_beta freshVersion_def Let_def)

lemma next_id_fold_freshVersion [simp]: "next_id (fold freshVersion ts s) = length ts + next_id s"
  by (induction ts arbitrary: s) simp_all

lemma next_id_pollOnce [simp]:
  "next_id (pollOnce s) = (if pollInFlight s = None then Suc (next_id s) else next_id s)"
  by (simp add: pollOnce_def Let_def)

subsection \<open>The EventSource: preservation\<close>

lemma sources_ok_frame:
  assumes "sources_ok s" "sources s' = sources s" "es s' = es s" "next_id s \<le> next_id s'"
    "lastTopicsKey s' = lastTopicsKey s" "disposed s' = disposed s"
  shows "sources_ok s'"
  using assms by (auto simp: sources_ok_def intro: order_less_le_trans)

lemma mget_close:
  "mget (map (\<lambda>(k, src). (k, if k = n then src\<lparr>src_closed := True\<rparr> else src)) m) i =
   map_option (\<lambda>src. if i = n then src\<lparr>src_closed := True\<rparr> else src) (mget m i)"
  by (rule mget_map_values)

text \<open>Whichever way the current source ends -- \<open>close()\<close> or the browser giving up --, no source is
  left open.\<close>

definition all_closed :: "sse \<Rightarrow> bool" where
  "all_closed s \<longleftrightarrow> es s = None \<and> (\<forall>n src. mget (sources s) n = Some src \<longrightarrow> n < next_id s \<and> src_closed src)"

lemma all_closed_frame:
  assumes "all_closed s" "sources s' = sources s" "es s' = es s" "next_id s \<le> next_id s'"
  shows "all_closed s'"
  using assms by (auto simp: all_closed_def intro: order_less_le_trans)

lemma all_closed_ok: "all_closed s \<Longrightarrow> sources_ok s"
  by (auto simp: all_closed_def sources_ok_def)

lemma all_closed_mark:
  assumes "sources_ok s" "es s = Some n"
    and s': "es s' = None" "next_id s' = next_id s"
    "sources s' = map (\<lambda>(k, src). (k, if k = n then src\<lparr>src_closed := True\<rparr> else src)) (sources s)"
  shows "all_closed s'"
  unfolding all_closed_def
proof (intro conjI allI impI)
  fix m src assume "mget (sources s') m = Some src"
  then obtain src0 where src0: "mget (sources s) m = Some src0"
    and src: "src = (if m = n then src0\<lparr>src_closed := True\<rparr> else src0)"
    by (auto simp: s' mget_close)
  have "m < next_id s" "\<not> src_closed src0 \<longleftrightarrow> m = n"
    using assms(1,2) src0 by (auto simp: sources_ok_def)
  then show "m < next_id s'" "src_closed src" by (auto simp: src s')
qed (rule s')

lemma all_closed_closeEventSource:
  assumes "sources_ok s"
  shows "all_closed (closeEventSource s)"
proof (cases "es s")
  case None
  with assms show ?thesis by (auto simp: sources_ok_def all_closed_def closeEventSource_def)
next
  case (Some n)
  with assms show ?thesis by (intro all_closed_mark [OF assms Some]) (simp_all add: closeEventSource_def)
qed

lemma sources_ok_open:
  assumes "all_closed s" "topics \<noteq> []" "lastTopicsKey s = Some (topicsKeyOf topics)" "\<not> disposed s"
  shows "sources_ok (openEventSource topics s)"
  using assms by (auto simp: all_closed_def sources_ok_def openEventSource_def js_map_simps less_SucI split: if_splits)

lemma sources_ok_rebuildNow:
  assumes "sources_ok s"
  shows "sources_ok (rebuildNow force s)"
proof -
  have ok: "sources_ok (clearBackoff s)" "sources_ok (newTransport force (clearBackoff s))"
    by (rule sources_ok_frame [OF assms]; simp)+
  have closed: "all_closed (closeEventSource (clearBackoff s))"
    "all_closed (closeEventSource (newTransport force (clearBackoff s)))"
    using ok by (simp_all add: all_closed_closeEventSource)
  have "sources_ok (rebuildEmpty (clearBackoff s))"
    unfolding rebuildEmpty_def by (rule all_closed_ok, rule all_closed_frame [OF closed(1)]) simp_all
  moreover have "sources_ok (openEventSource topics (attemptStatus
      ((closeEventSource (newTransport force (clearBackoff s)))\<lparr>lastTopicsKey := Some (topicsKeyOf topics)\<rparr>)))"
    if "topics \<noteq> []" "\<not> disposed s" for topics
    using that by (intro sources_ok_open all_closed_frame [OF closed(2)]) simp_all
  ultimately show ?thesis
    using ok(1) assms by (simp add: rebuildNow_def Let_def)
qed

lemma all_closed_reset:
  assumes "sources_ok s"
  shows "all_closed (reset s)"
proof -
  have "all_closed (closeEventSource (s\<lparr>generation := Suc (generation s)\<rparr>))"
    by (intro all_closed_closeEventSource sources_ok_frame [OF assms]) simp_all
  then show ?thesis
    by (rule all_closed_frame) (simp_all add: reset_def Let_def)
qed

lemma sources_ok_error:
  assumes "sources_ok s" "es s = Some n"
  shows "all_closed (onErrorClosed n s)"
proof -
  let ?s1 = "s\<lparr>sources := map (\<lambda>(k, src). (k, if k = n then src\<lparr>src_closed := True\<rparr> else src)) (sources s),
    es := None, generation := Suc (generation s), pollInFlight := None\<rparr>"
  have "all_closed ?s1" by (rule all_closed_mark [OF assms]) simp_all
  then show ?thesis
    by (rule all_closed_frame) (simp_all add: onErrorClosed_def Let_def)
qed

lemma sources_ok_onOpen:
  assumes "sources_ok s"
  shows "sources_ok (onOpen n s)"
proof (cases "es s = Some n \<and> mhas (sources s) n")
  case False
  then show ?thesis using assms by (auto simp: onOpen_def split: option.split)
next
  case True
  then obtain src where src: "mget (sources s) n = Some src" by auto
  let ?s1 = "s\<lparr>sources := mset_key (sources s) n (src\<lparr>src_opened := True\<rparr>)\<rparr>"
  have "sources_ok ?s1"
    using assms src True by (auto simp: sources_ok_def js_map_simps)
  then show ?thesis
    by (rule sources_ok_frame) (use True src in \<open>auto simp: onOpen_def Let_def\<close>)
qed

lemma sources_ok_onError:
  assumes "sources_ok s"
  shows "sources_ok (onError n c s)"
proof (cases "es s = Some n")
  case False
  then show ?thesis using assms by (simp add: onError_def)
next
  case True
  let ?s1 = "s\<lparr>consecutiveFailures := Suc (consecutiveFailures s)\<rparr>"
  let ?s2 = "if conn_status (connection ?s1) \<noteq> Polling then setConnection (Some Reconnecting) None ?s1 else ?s1"
  have s2: "sources_ok ?s2" "es ?s2 = Some n"
    using True by (auto intro: sources_ok_frame [OF assms])
  then have "sources_ok (if c then onErrorClosed n ?s2 else ?s2)"
    using all_closed_ok [OF sources_ok_error [OF s2]] by simp
  then have "sources_ok (startPollingIfNeeded (if c then onErrorClosed n ?s2 else ?s2))"
    by (rule sources_ok_frame) (simp_all add: startPollingIfNeeded_def Let_def)
  then show ?thesis
    using True \<open>sources_ok (if c then _ else _)\<close> unfolding onError_def Let_def by auto
qed

lemma sources_ok_timerFires:
  assumes "sources_ok s"
  shows "sources_ok (timerFires h s)"
proof -
  have "sources_ok (rebuildNow False (s\<lparr>pending := p, debounceTimer := d\<rparr>))"
    "sources_ok (rebuildNow False (s\<lparr>pending := p\<rparr>))" for p d
    by (rule sources_ok_rebuildNow, rule sources_ok_frame [OF assms]; simp)+
  moreover have "sources_ok (setConnection None (Some True) (s\<lparr>pending := p\<rparr>))" "sources_ok (pollOnce s)" for p
    by (rule sources_ok_frame [OF assms]; simp)+
  ultimately show ?thesis
    using assms by (simp add: timerFires_def Let_def split: option.split timerKind.split)
qed

lemma sources_ok_step: "sources_ok s \<Longrightarrow> sources_ok (sse_step s e)"
proof (cases e)
  case Retry
  assume "sources_ok s"
  then have "sources_ok (s\<lparr>consecutiveFailures := 0\<rparr>)" by (rule sources_ok_frame) simp_all
  with Retry show ?thesis by (simp add: retry_def sources_ok_rebuildNow)
next
  case Dispose
  assume s: "sources_ok s"
  have "all_closed (closeEventSource (s\<lparr>disposed := True, generation := Suc (generation s), topicVersions := []\<rparr>))"
    using all_closed_closeEventSource [OF s]
    by (rule all_closed_frame) (simp_all add: closeEventSource_def split: option.split)
  then have "all_closed (dispose s)"
    by (rule all_closed_frame) (simp_all add: dispose_def)
  with Dispose show ?thesis by (simp add: all_closed_ok)
qed (simp_all add: sources_ok_timerFires sources_ok_onOpen sources_ok_onError all_closed_ok all_closed_reset,
    (erule sources_ok_frame;
     simp add: subscribeTopic_def unsubscribeTopic_def subscribeTopicListener_def unsubscribeTopicListener_def
       onHeartbeat_def onSourceError_def onTopicFrame_def fetchSettled_def Let_def split_beta
       split: option.split json.split)+)


interpretation wiring: step_system sse_step sources_ok
  by unfold_locales (rule sources_ok_step)

lemma sources_ok_init: "sources_ok (createSSEClient opts)"
  by (simp add: sources_ok_def createSSEClient_def)

subsection \<open>The source follows the subscriptions\<close>

lemma topicsKeyOf_inj:
  assumes "topicsKeyOf xs = topicsKeyOf ys" "xs \<noteq> []" "ys \<noteq> []"
  shows "xs = ys"
proof -
  have "map topicStr xs = map topicStr ys"
    using assms topicStr_no_comma by (intro join_inj [of _ "CHR '','' "]) (auto simp: topicsKeyOf_def)
  then show ?thesis by (rule map_injective) (auto simp: inj_def topicStr_inj)
qed

lemma activeTopics_frame [simp]:
  "activeTopics (clearBackoff s) = activeTopics s" "activeTopics (rebuildNow force s) = activeTopics s"
  "activeTopics (s\<lparr>consecutiveFailures := c\<rparr>) = activeTopics s"
  "activeTopics (s\<lparr>debounceTimer := d\<rparr>) = activeTopics s" "activeTopics (s\<lparr>pending := p\<rparr>) = activeTopics s"
  by (simp_all add: activeTopics_def)

lemma es_closeEventSource [simp]: "es (closeEventSource s) = None"
  by (simp add: closeEventSource_def split: option.split)

lemma synced_frame:
  assumes "synced s" "disposed s' = disposed s" "debounceTimer s' = debounceTimer s" "es s' = es s"
    "sources s' = sources s" "backoffTimer s' = backoffTimer s" "refCounts s' = refCounts s"
  shows "synced s'"
proof -
  have "source_of s' = source_of s" using assms by (simp only: source_of_def)
  then show ?thesis using assms activeTopics_cong [of s' s] by (simp only: synced_def)
qed

lemma synced_rebuildNow:
  assumes "sources_ok s"
  shows "synced (rebuildNow force s)"
proof (cases "disposed s \<or> activeTopics s = []")
  case True
  moreover have "source_of (rebuildNow force s) = None" if "\<not> disposed s" "activeTopics s = []"
    using that by (simp add: rebuildNow_def rebuildEmpty_def source_of_def Let_def)
  ultimately show ?thesis by (auto simp: synced_def)
next
  case False
  have src: "source_of (rebuildNow force s) \<noteq> None \<and>
      src_topics (the (source_of (rebuildNow force s))) = activeTopics s"
  proof (cases "\<not> force \<and> lastTopicsKey s = Some (topicsKeyOf (activeTopics s)) \<and> es s \<noteq> None")
    case True
    with assms obtain n src where "es s = Some n" "mget (sources s) n = Some src" "src_topics src \<noteq> []"
      "topicsKeyOf (src_topics src) = topicsKeyOf (activeTopics s)"
      by (auto simp: sources_ok_def)
    with False True show ?thesis
      by (auto simp: rebuildNow_def Let_def source_of_def intro: topicsKeyOf_inj)
  next
    case other: False
    with False show ?thesis
      by (auto simp: rebuildNow_def Let_def source_of_def openEventSource_def js_map_simps)
  qed
  then show ?thesis by (auto simp: synced_def)
qed


lemma synced_timerFires:
  assumes "sources_ok s" "synced s"
  shows "synced (timerFires h s)"
proof -
  have "synced (rebuildNow False (s\<lparr>pending := p, debounceTimer := d\<rparr>))"
    "synced (rebuildNow False (s\<lparr>pending := p\<rparr>))" for p d
    by (rule synced_rebuildNow, rule sources_ok_frame [OF assms(1)]; simp)+
  moreover have "synced (setConnection None (Some True) (s\<lparr>pending := p\<rparr>))" "synced (pollOnce s)" for p
    by (rule synced_frame [OF assms(2)]; simp)+
  ultimately show ?thesis
    using assms by (simp add: timerFires_def Let_def split: option.split timerKind.split)
qed

lemma synced_onOpen:
  assumes "synced s"
  shows "synced (onOpen n s)"
proof (cases "es s = Some n \<and> mhas (sources s) n")
  case False
  then show ?thesis using assms by (auto simp: onOpen_def split: option.split)
next
  case True
  then obtain src where src: "mget (sources s) n = Some src" by auto
  have "synced (s\<lparr>sources := mset_key (sources s) n (src\<lparr>src_opened := True\<rparr>)\<rparr>)"
    using assms src True by (auto simp: synced_def source_of_def js_map_simps activeTopics_def)
  then show ?thesis
    by (rule synced_frame) (use True src in \<open>auto simp: onOpen_def Let_def\<close>)
qed

lemma synced_onError:
  assumes "synced s"
  shows "synced (onError n c s)"
proof (cases "es s = Some n \<and> c")
  case False
  then show ?thesis
    by (intro synced_frame [OF assms]) (auto simp: onError_def Let_def)
next
  case True
  then have "source_of (onError n c s) = None" "backoffTimer (onError n c s) \<noteq> None"
    by (simp_all add: onError_def onErrorClosed_def source_of_def Let_def)
  then show ?thesis by (simp add: synced_def)
qed

lemma if_cases: "(b \<Longrightarrow> P x) \<Longrightarrow> (\<not> b \<Longrightarrow> P y) \<Longrightarrow> P (if b then x else y)"
  by simp

lemma synced_step:
  assumes "sources_ok s" "synced s"
  shows "synced (sse_step s e)"
proof (cases e)
  case Retry
  have "sources_ok (s\<lparr>consecutiveFailures := 0\<rparr>)" by (rule sources_ok_frame [OF assms(1)]) simp_all
  with Retry show ?thesis by (simp add: retry_def synced_rebuildNow)
next
  case Reset
  have "activeTopics (reset s) = [] \<or> debounceTimer (reset s) \<noteq> None"
    unfolding reset_def Let_def by (rule if_cases) (simp_all add: scheduleRebuild_def Let_def)
  moreover have "source_of (reset s) = None"
    using all_closed_reset [OF assms(1)] by (simp add: all_closed_def source_of_def)
  ultimately show ?thesis using Reset by (auto simp: synced_def)
next
  case (Subscribe t)
  then show ?thesis
    using assms(2) by (auto simp: synced_def subscribeTopic_def scheduleRebuild_def Let_def)
next
  case (Unsubscribe t)
  then show ?thesis by (auto simp: synced_def unsubscribeTopic_def scheduleRebuild_def Let_def)
next
  case Dispose
  then show ?thesis by (auto simp: synced_def dispose_def)
qed (use assms in \<open>simp_all add: synced_timerFires synced_onOpen synced_onError\<close>,
    (rule synced_frame [OF assms(2)];
     simp add: subscribeTopicListener_def unsubscribeTopicListener_def
       onHeartbeat_def onSourceError_def onTopicFrame_def fetchSettled_def Let_def split_beta
       split: option.split json.split)+)

interpretation multiplexing: step_system sse_step "\<lambda>s. sources_ok s \<and> synced s"
  by unfold_locales (simp add: sources_ok_step synced_step)

lemma synced_init: "synced (createSSEClient opts)"
  by (simp add: synced_def source_of_def createSSEClient_def activeTopics_def)

subsection \<open>Timers: preservation\<close>

lemma timer_table_mono: "timer_table ps var n \<Longrightarrow> n \<le> m \<Longrightarrow> timer_table ps var m"
  by (fastforce simp: timer_table_def)

lemma timer_table_clear:
  assumes "timer_table ps var n" "var k = Some h"
  shows "timer_table (filter (\<lambda>u. tm_handle u \<noteq> h) ps) (var(k := None)) n"
  unfolding timer_table_def
proof (intro conjI allI impI ballI)
  show "distinct (map tm_handle (filter (\<lambda>u. tm_handle u \<noteq> h) ps))"
    using assms by (simp add: timer_table_def distinct_map_filter)
  fix u assume u: "u \<in> set (filter (\<lambda>u. tm_handle u \<noteq> h) ps)"
  then have "var (tm_kind u) = Some (tm_handle u)" using assms by (simp add: timer_table_def)
  with u assms(2) show "(var(k := None)) (tm_kind u) = Some (tm_handle u)" by auto
next
  fix k1 h1 assume "(var(k := None)) k1 = Some h1"
  then show "h1 < n" using assms by (auto simp: timer_table_def split: if_splits)
next
  fix k1 k2 h1 assume "(var(k := None)) k1 = Some h1 \<and> (var(k := None)) k2 = Some h1"
  then show "k1 = k2" using assms unfolding timer_table_def by (metis fun_upd_apply option.distinct(1))
qed

lemma timer_table_set:
  assumes "timer_table ps var n" "var k = None"
  shows "timer_table (ps @ [\<lparr>tm_handle = n, tm_kind = k, tm_delay = d\<rparr>]) (var(k := Some n)) (Suc n)"
proof -
  have lt: "h < n" if "var k' = Some h" for k' h
    using assms that by (simp add: timer_table_def)
  then have "tm_handle u < n" if "u \<in> set ps" for u
    using assms that unfolding timer_table_def by blast
  then have "n \<notin> tm_handle ` set ps" by blast
  with assms show ?thesis
    unfolding timer_table_def by (auto simp: less_SucI dest: lt)
qed

lemma armed_clear:
  assumes "timer_table ps var n" "armed ps var k'" "var k = Some h"
  shows "armed (filter (\<lambda>u. tm_handle u \<noteq> h) ps) (var(k := None)) k'"
  using assms by (auto simp: timer_table_def armed_def) metis

lemma armed_set:
  assumes "armed ps var k'"
  shows "armed (ps @ [\<lparr>tm_handle = n, tm_kind = k, tm_delay = d\<rparr>]) (var(k := Some n)) k'"
  using assms by (auto simp: armed_def)

text \<open>A state after \<open>clearTimeout\<close> of the timer of one kind, and after arming one.\<close>

definition clears :: "timerKind \<Rightarrow> sse \<Rightarrow> sse \<Rightarrow> bool" where
  "clears k s s' \<longleftrightarrow> next_id s' = next_id s \<and> es s' = es s \<and> disposed s' = disposed s \<and>
     timerVar s' = (timerVar s)(k := None) \<and>
     pending s' = (case timerVar s k of None \<Rightarrow> pending s | Some h \<Rightarrow> filter (\<lambda>u. tm_handle u \<noteq> h) (pending s))"

definition arms :: "timerKind \<Rightarrow> nat \<Rightarrow> sse \<Rightarrow> sse \<Rightarrow> bool" where
  "arms k d s s' \<longleftrightarrow> next_id s' = Suc (next_id s) \<and> es s' = es s \<and> disposed s' = disposed s \<and>
     timerVar s' = (timerVar s)(k := Some (next_id s)) \<and>
     pending s' = pending s @ [\<lparr>tm_handle = next_id s, tm_kind = k, tm_delay = d\<rparr>]"

lemma timers_ok_clears:
  assumes "timers_ok s" "clears k s s'"
  shows "timers_ok s'"
proof (cases "timerVar s k")
  case None
  then have "timerVar s' = timerVar s" using assms by (auto simp: clears_def)
  then show ?thesis using assms None by (simp add: clears_def timers_ok_def)
next
  case (Some h)
  then show ?thesis
    using assms timer_table_clear [of "pending s" "timerVar s" "next_id s" k h]
      armed_clear [of "pending s" "timerVar s" "next_id s" _ k h]
    by (auto simp: clears_def timers_ok_def)
qed

lemma timers_ok_arms:
  assumes "timers_ok s" "arms k d s s'" "timerVar s k = None"
    and "k = BackoffTimer \<Longrightarrow> es s = None \<and> 2000 \<le> d \<and> d \<le> 30000"
  shows "timers_ok s'"
  using assms timer_table_set [of "pending s" "timerVar s" "next_id s" k d]
    armed_set [of "pending s" "timerVar s" _ "next_id s" k d]
  by (auto simp: arms_def timers_ok_def)

lemma timers_ok_frame:
  assumes "timers_ok s" "pending s' = pending s" "timerVar s' = timerVar s" "next_id s \<le> next_id s'"
    "es s' = es s \<or> es s' = None" "disposed s' = disposed s"
  shows "timers_ok s'"
  using assms timer_table_mono [of "pending s" "timerVar s" "next_id s"] by (auto simp: timers_ok_def)

lemma timerVar_eqI:
  assumes "debounceTimer s' = debounceTimer s" "backoffTimer s' = backoffTimer s"
    "staleTimer s' = staleTimer s" "pollTimer s' = pollTimer s"
  shows "timerVar s' = timerVar s"
  by (rule ext) (simp add: assms timerVar_def split: timerKind.split)


lemma timerVar_upd [simp]:
  "timerVar (s\<lparr>debounceTimer := x\<rparr>) = (timerVar s)(DebounceTimer := x)"
  "timerVar (s\<lparr>backoffTimer := x\<rparr>) = (timerVar s)(BackoffTimer := x)"
  "timerVar (s\<lparr>staleTimer := x\<rparr>) = (timerVar s)(StaleTimer := x)"
  "timerVar (s\<lparr>pollTimer := x\<rparr>) = (timerVar s)(PollTimer := x)"
  by (rule ext, simp add: timerVar_def split: timerKind.split)+

lemma timerVar_quiet [simp]:
  "timerVar (setTimer k d s) = timerVar s" "timerVar (clearTimer h s) = timerVar s"
  "timerVar (setConnection st sta s) = timerVar s" "timerVar (applyTopicData t j ts s) = timerVar s"
  "timerVar (applyTopicError t j s) = timerVar s" "timerVar (fetchAndInstall us s) = timerVar s"
  "timerVar (pollOnce s) = timerVar s" "timerVar (s\<lparr>pending := p\<rparr>) = timerVar s"
  "timerVar (s\<lparr>consecutiveFailures := c\<rparr>) = timerVar s" "timerVar (s\<lparr>pollInFlight := i\<rparr>) = timerVar s"
  "timerVar (closeEventSource s) = timerVar s" "timerVar (s\<lparr>lastTopicsKey := e\<rparr>) = timerVar s"
  "timerVar (newTransport force s) = timerVar s" "timerVar (attemptStatus s) = timerVar s"
  "timerVar (openEventSource us s) = timerVar s" "timerVar (freshVersion t s) = timerVar s"
  "timerVar (s\<lparr>sources := r\<rparr>) = timerVar s" "timerVar (s\<lparr>es := q\<rparr>) = timerVar s"
  "timerVar (s\<lparr>generation := g\<rparr>) = timerVar s"
  "timerVar (snd (installResults gg res rs a s)) = timerVar s"
  by (rule timerVar_eqI; simp)+

lemma timerVar_of: "debounceTimer s = timerVar s DebounceTimer" "backoffTimer s = timerVar s BackoffTimer"
  "staleTimer s = timerVar s StaleTimer" "pollTimer s = timerVar s PollTimer"
  by (simp_all add: timerVar_def)

lemma pending_clearTimer: "pending (clearTimer h s) =
    (case h of None \<Rightarrow> pending s | Some n \<Rightarrow> filter (\<lambda>u. tm_handle u \<noteq> n) (pending s))"
  by (simp add: clearTimer_def split: option.split)

lemma pending_setTimer: "pending (setTimer k d s) =
    pending s @ [\<lparr>tm_handle = next_id s, tm_kind = k, tm_delay = d\<rparr>]"
  by (simp add: setTimer_def)

text \<open>\<open>if (timer) clearTimeout(timer); timer = null\<close>, in any of its spellings, then a new timer.\<close>

lemma timers_ok_rearm:
  assumes "timers_ok s"
    and "arms k d (s\<lparr>pending := pending (clearTimer (timerVar s k) s)\<rparr>) s'"
    and "k = BackoffTimer \<Longrightarrow> es s = None \<and> 2000 \<le> d \<and> d \<le> 30000"
  shows "timers_ok s'"
proof -
  let ?s0 = "s\<lparr>pending := pending (clearTimer (timerVar s k) s)\<rparr>"
  obtain s1 where s1: "clears k s s1" "arms k d s1 s'"
  proof
    let ?s1 = "case k of DebounceTimer \<Rightarrow> ?s0\<lparr>debounceTimer := None\<rparr> | BackoffTimer \<Rightarrow> ?s0\<lparr>backoffTimer := None\<rparr>
      | StaleTimer \<Rightarrow> ?s0\<lparr>staleTimer := None\<rparr> | PollTimer \<Rightarrow> ?s0\<lparr>pollTimer := None\<rparr>"
    show "clears k s ?s1"
      by (simp add: clears_def pending_clearTimer split: timerKind.split option.split)
    show "arms k d ?s1 s'"
      using assms(2) by (simp add: arms_def split: timerKind.split)
  qed
  show ?thesis
    using timers_ok_clears [OF assms(1) s1(1)] s1 assms(3)
    by (intro timers_ok_arms [OF _ s1(2)]) (auto simp: clears_def)
qed

lemma timers_ok_scheduleRebuild: "timers_ok s \<Longrightarrow> timers_ok (scheduleRebuild s)"
  by (erule timers_ok_rearm [of _ DebounceTimer "debounceMs (options s)"])
    (simp_all add: arms_def scheduleRebuild_def Let_def pending_setTimer timerVar_of)

lemma timers_ok_watchdog: "timers_ok s \<Longrightarrow> timers_ok (resetStaleWatchdog s)"
  by (erule timers_ok_rearm [of _ StaleTimer "staleMs (options s)"])
    (simp_all add: arms_def resetStaleWatchdog_def Let_def pending_setTimer timerVar_of)

lemma timers_ok_clearBackoff: "timers_ok s \<Longrightarrow> timers_ok (clearBackoff s)"
  by (erule timers_ok_clears [of _ BackoffTimer])
    (simp add: clears_def clearBackoff_def pending_clearTimer timerVar_of fun_upd_idem split: option.split)

lemma timers_ok_clearStale: "timers_ok s \<Longrightarrow> timers_ok (clearStale s)"
  by (erule timers_ok_clears [of _ StaleTimer])
    (simp add: clears_def clearStale_def pending_clearTimer timerVar_of fun_upd_idem split: option.split)

lemma timers_ok_stopPolling: "timers_ok s \<Longrightarrow> timers_ok (stopPolling s)"
  by (erule timers_ok_clears [of _ PollTimer])
    (simp add: clears_def stopPolling_def Let_def pending_clearTimer timerVar_of fun_upd_idem split: option.split)

lemma pending_pollOnce [simp]: "pending (pollOnce s) = pending s"
  by (simp add: pollOnce_def fetchAndInstall_def split_beta Let_def)

lemma timers_ok_quiet:
  assumes "timers_ok s"
  shows "timers_ok (setConnection st sta s)" "timers_ok (pollOnce s)"
    "timers_ok (s\<lparr>consecutiveFailures := c\<rparr>)" "timers_ok (fetchAndInstall ts s)" "timers_ok (closeEventSource s)"
    "timers_ok (s\<lparr>lastTopicsKey := e\<rparr>)" "timers_ok (newTransport force s)" "timers_ok (attemptStatus s)"
    "timers_ok (s\<lparr>generation := g\<rparr>)" "timers_ok (applyTopicData t d w s)" "timers_ok (applyTopicError t d s)"
    "timers_ok (s\<lparr>pollInFlight := p\<rparr>)" "timers_ok (s\<lparr>sources := r\<rparr>)" "timers_ok (freshVersion t s)"
    "timers_ok (s\<lparr>es := None\<rparr>)" "timers_ok (snd (installResults gg res rs a s))"
  by (rule timers_ok_frame [OF assms]; simp)+

lemma timers_ok_same:
  assumes "timers_ok s"
  shows "timers_ok (s\<lparr>refCounts := m\<rparr>)" "timers_ok (s\<lparr>topicVersions := v\<rparr>)" "timers_ok (s\<lparr>snapshots := n\<rparr>)"
    "timers_ok (s\<lparr>topicListeners := l\<rparr>)" "timers_ok (s\<lparr>connectionListeners := q\<rparr>)" "timers_ok (s\<lparr>inflight := i\<rparr>)"
    "timers_ok (s\<lparr>connection := c\<rparr>)" "timers_ok (notifyTopic t s)" "timers_ok (notifyConnection s)"
  by (rule timers_ok_frame [OF assms]; (rule timerVar_eqI)?; simp)+

lemma timers_ok_calls:
  "timers_ok s \<Longrightarrow> timers_ok (onFrame s)" "timers_ok s \<Longrightarrow> timers_ok (markConnected s)"
  by (simp_all add: onFrame_def markConnected_def timers_ok_quiet timers_ok_watchdog timers_ok_stopPolling)

lemma timers_ok_open:
  assumes "timers_ok s" "backoffTimer s = None"
  shows "timers_ok (openEventSource ts s)"
proof -
  have "pending (openEventSource ts s) = pending s" "disposed (openEventSource ts s) = disposed s" by simp_all
  then show ?thesis
    using assms timer_table_mono [of "pending s" "timerVar s" "next_id s" "Suc (next_id s)"]
    by (simp add: timers_ok_def timerVar_of)
qed

lemma timers_ok_rebuildNow:
  assumes "if disposed s then timers_ok s else timers_ok (clearBackoff s)"
  shows "timers_ok (rebuildNow force s)"
proof (cases "disposed s")
  case True
  then show ?thesis using assms by (simp add: rebuildNow_def)
next
  case False
  then have cb: "timers_ok (clearBackoff s)" using assms by simp
  have "backoffTimer (clearBackoff s) = None" by (simp add: clearBackoff_def)
  then have "timers_ok (openEventSource ts (attemptStatus
      ((closeEventSource (newTransport force (clearBackoff s)))\<lparr>lastTopicsKey := k\<rparr>)))" for ts k
    using cb by (intro timers_ok_open) (simp_all add: timers_ok_quiet)
  moreover have "timers_ok (rebuildEmpty (clearBackoff s))"
    using cb by (simp add: rebuildEmpty_def timers_ok_quiet timers_ok_clearStale timers_ok_stopPolling)
  ultimately show ?thesis using cb False by (simp add: rebuildNow_def Let_def)
qed

lemma timers_ok_startPolling:
  assumes "timers_ok s"
  shows "timers_ok (startPollingIfNeeded s)"
proof (cases "pollTimer s")
  case (Some h)
  then show ?thesis using assms by (simp add: startPollingIfNeeded_def)
next
  case None
  let ?s1 = "setConnection (Some Polling) None s"
  let ?s2 = "(setTimer PollTimer (pollIntervalMs (options ?s1)) ?s1)\<lparr>pollTimer := Some (next_id ?s1)\<rparr>"
  have "timers_ok ?s2"
  proof (rule timers_ok_arms [of ?s1 PollTimer])
    show "timers_ok ?s1" using assms by (rule timers_ok_quiet)
    show "arms PollTimer (pollIntervalMs (options ?s1)) ?s1 ?s2" by (simp add: arms_def pending_setTimer)
    show "timerVar ?s1 PollTimer = None" using None by (simp add: timerVar_def)
  qed simp
  then show ?thesis using None by (simp add: startPollingIfNeeded_def Let_def timers_ok_quiet)
qed

lemma backoffDelay_bounds: "0 < f \<Longrightarrow> 2000 \<le> backoffDelay f" "backoffDelay f \<le> 30000"
proof -
  assume "0 < f"
  then have "2 ^ 1 \<le> (2 :: nat) ^ f" by (intro power_increasing) auto
  then show "2000 \<le> backoffDelay f" by (simp add: backoffDelay_def)
qed (simp add: backoffDelay_def)

lemma timers_ok_onErrorClosed:
  assumes "timers_ok s" "es s = Some n" "0 < consecutiveFailures s"
  shows "timers_ok (onErrorClosed n s)"
proof -
  let ?s1 = "s\<lparr>sources := map (\<lambda>(k, src). (k, if k = n then src\<lparr>src_closed := True\<rparr> else src)) (sources s),
    es := None, generation := Suc (generation s), pollInFlight := None\<rparr>"
  let ?s2 = "if consecutiveFailures ?s1 = 1 then pollOnce ?s1 else ?s1"
  have "timers_ok ?s2" using assms(1) by (simp add: timers_ok_quiet)
  moreover have "timerVar ?s2 BackoffTimer = None" using assms(1,2) by (simp add: timers_ok_def)
  moreover have "arms BackoffTimer (backoffDelay (consecutiveFailures ?s2)) ?s2 (onErrorClosed n s)"
    by (simp add: arms_def onErrorClosed_def Let_def pending_setTimer)
  ultimately show ?thesis
    using assms(3) backoffDelay_bounds by (auto intro: timers_ok_arms)
qed

lemma pending_all_cleared:
  assumes "timers_ok s"
  shows "pending (clearAllTimers (stopPolling s)) = []"
proof -
  have "timer_table (pending s) (timerVar s) (next_id s)" using assms by (simp add: timers_ok_def)
  then have var: "timerVar s (tm_kind u) = Some (tm_handle u)" if "u \<in> set (pending s)" for u
    using that by (simp add: timer_table_def)
  have "u \<notin> set (pending (clearAllTimers (stopPolling s)))" for u
  proof (cases "u \<in> set (pending s)")
    case True
    from var [OF True] show ?thesis
      by (cases "tm_kind u")
        (auto simp: clearAllTimers_def stopPolling_def Let_def pending_clearTimer timerVar_def split: option.splits)
  qed (auto simp: clearAllTimers_def stopPolling_def Let_def pending_clearTimer split: option.splits)
  then show ?thesis by (metis list.set_intros(1) neq_Nil_conv)
qed

lemma timers_ok_empty:
  assumes "pending s = []" "timer_table [] (timerVar s) (next_id s)" "es s = None"
    "disposed s \<or> (\<forall>k. k \<noteq> StaleTimer \<longrightarrow> timerVar s k = None)"
  shows "timers_ok s"
  using assms by (auto simp: timers_ok_def armed_def)

lemma timers_ok_fold_freshVersion: "timers_ok s \<Longrightarrow> timers_ok (fold freshVersion ts s)"
  by (induction ts arbitrary: s) (simp_all add: timers_ok_quiet)

lemma timers_ok_fold_notifyTopic: "timers_ok s \<Longrightarrow> timers_ok (fold notifyTopic ts s)"
  by (induction ts arbitrary: s) (simp_all add: timers_ok_same)

lemma timers_ok_reset:
  assumes "timers_ok s"
  shows "timers_ok (reset s)"
proof -
  let ?s0 = "closeEventSource (s\<lparr>generation := Suc (generation s)\<rparr>)"
  let ?s2 = "(clearAllTimers (stopPolling ?s0))\<lparr>debounceTimer := None, backoffTimer := None, staleTimer := None,
    consecutiveFailures := 0, lastTopicsKey := None, snapshots := [], topicVersions := []\<rparr>"
  have "timerVar ?s2 = (\<lambda>_. None)"
    by (rule ext) (simp add: timerVar_def stopPolling_def Let_def split: timerKind.split)
  moreover have "pending (clearAllTimers (stopPolling ?s0)) = []"
    using assms by (intro pending_all_cleared timers_ok_quiet)
  ultimately have "timers_ok ?s2"
    by (intro timers_ok_empty) (simp_all add: timer_table_def)
  then have fin: "timers_ok (fold notifyTopic us (fold freshVersion ts ?s2))" for us ts
    by (intro timers_ok_fold_notifyTopic timers_ok_fold_freshVersion)
  show ?thesis
    by (simp only: reset_def Let_def, rule if_cases)
      (intro timers_ok_scheduleRebuild timers_ok_same fin)+
qed

lemma pending_dispose:
  assumes "timers_ok s"
  shows "pending (dispose s) = []"
proof -
  let ?s0 = "closeEventSource (s\<lparr>disposed := True, generation := Suc (generation s), topicVersions := []\<rparr>)"
  have "timerVar ?s0 = timerVar s" "pending ?s0 = pending s" "next_id ?s0 = next_id s"
    by (auto intro!: timerVar_eqI)
  then have "timers_ok ?s0"
    using assms by (simp add: timers_ok_def)
  then show ?thesis unfolding dispose_def by (rule pending_all_cleared)
qed

lemma timers_ok_dispose:
  assumes "timers_ok s"
  shows "timers_ok (dispose s)"
proof -
  have "timerVar (dispose s) = (timerVar s)(PollTimer := None)"
    by (rule ext) (simp add: timerVar_def dispose_def stopPolling_def Let_def split: timerKind.split)
  moreover have "timer_table [] ((timerVar s)(PollTimer := None)) (next_id s)"
    using assms unfolding timers_ok_def timer_table_def by (auto split: if_splits)
  ultimately show ?thesis
    using pending_dispose [OF assms] by (intro timers_ok_empty) (simp_all add: dispose_def)
qed

lemma timer_table_filter: "timer_table ps var n \<Longrightarrow> timer_table (filter P ps) var n"
  by (simp add: timer_table_def distinct_map_filter)

lemma timers_ok_timerFires:
  assumes "timers_ok s"
  shows "timers_ok (timerFires h s)"
proof (cases "find (\<lambda>t. tm_handle t = h) (pending s)")
  case None
  then show ?thesis using assms by (simp add: timerFires_def)
next
  case (Some u)
  let ?ps = "filter (\<lambda>u. tm_handle u \<noteq> h) (pending s)"
  have table: "timer_table (pending s) (timerVar s) (next_id s)" using assms by (simp add: timers_ok_def)
  with Some have var: "timerVar s (tm_kind u) = Some h"
    by (auto simp: find_Some_iff timer_table_def)
  show ?thesis
  proof (cases "tm_kind u")
    case DebounceTimer
    with var have "clears DebounceTimer s (s\<lparr>pending := ?ps, debounceTimer := None\<rparr>)"
      by (simp add: clears_def)
    then have "timers_ok (s\<lparr>pending := ?ps, debounceTimer := None\<rparr>)"
      using assms by (blast intro: timers_ok_clears)
    then show ?thesis
      using Some DebounceTimer
      by (simp add: timerFires_def timers_ok_rebuildNow timers_ok_clearBackoff)
  next
    case BackoffTimer
    have "clears BackoffTimer s (clearBackoff (s\<lparr>pending := ?ps\<rparr>))"
      using var BackoffTimer by (simp add: clears_def clearBackoff_def pending_clearTimer timerVar_of)
    then have "timers_ok (clearBackoff (s\<lparr>pending := ?ps\<rparr>))"
      using assms by (blast intro: timers_ok_clears)
    moreover have "disposed s \<Longrightarrow> timers_ok (s\<lparr>pending := ?ps\<rparr>)"
      using assms timer_table_filter [OF table] by (simp add: timers_ok_def)
    ultimately show ?thesis
      using Some BackoffTimer by (simp add: timerFires_def timers_ok_rebuildNow)
  next
    case StaleTimer
    have "armed ?ps (timerVar s) k" if "k \<noteq> StaleTimer" "armed (pending s) (timerVar s) k" for k
      using that var StaleTimer table unfolding armed_def timer_table_def by fastforce
    then have "timers_ok (s\<lparr>pending := ?ps\<rparr>)"
      using assms timer_table_filter [OF table] by (simp add: timers_ok_def)
    then show ?thesis
      using Some StaleTimer by (simp add: timerFires_def timers_ok_quiet)
  next
    case PollTimer
    then show ?thesis using Some assms by (simp add: timerFires_def timers_ok_quiet)
  qed
qed


lemma timers_ok_onError:
  assumes "timers_ok s"
  shows "timers_ok (onError n c s)"
proof (cases "es s = Some n")
  case False
  then show ?thesis using assms by (simp add: onError_def)
next
  case True
  let ?s1 = "s\<lparr>consecutiveFailures := Suc (consecutiveFailures s)\<rparr>"
  let ?s2 = "if conn_status (connection ?s1) \<noteq> Polling then setConnection (Some Reconnecting) None ?s1 else ?s1"
  have s2: "timers_ok ?s2" "es ?s2 = Some n" "0 < consecutiveFailures ?s2"
    using True assms by (simp_all add: timers_ok_quiet)
  then have "timers_ok (if c then onErrorClosed n ?s2 else ?s2)"
    using timers_ok_onErrorClosed [OF s2] by simp
  then show ?thesis
    using True unfolding onError_def Let_def by (simp add: timers_ok_startPolling)
qed

lemma timers_ok_step: "timers_ok s \<Longrightarrow> timers_ok (sse_step s e)"
proof (cases e)
  case (Subscribe t)
  then show "timers_ok s \<Longrightarrow> ?thesis"
    by (simp add: subscribeTopic_def Let_def timers_ok_scheduleRebuild timers_ok_same timers_ok_quiet)
next
  case (Unsubscribe t)
  then show "timers_ok s \<Longrightarrow> ?thesis"
    by (simp add: unsubscribeTopic_def Let_def timers_ok_scheduleRebuild timers_ok_same)
next
  case (EsSourceError n p)
  then show "timers_ok s \<Longrightarrow> ?thesis"
    by (simp add: onSourceError_def Let_def timers_ok_calls timers_ok_quiet split: option.split json.split)
next
  case (EsTopicFrame n t p)
  then show "timers_ok s \<Longrightarrow> ?thesis"
    by (simp add: onTopicFrame_def timers_ok_calls timers_ok_quiet split: option.split)
next
  case (EsOpen n)
  then show "timers_ok s \<Longrightarrow> ?thesis"
    by (simp add: onOpen_def Let_def timers_ok_calls timers_ok_quiet split: option.split)
next
  case (FetchSettled f r)
  then show "timers_ok s \<Longrightarrow> ?thesis"
    by (simp add: fetchSettled_def Let_def split_beta timers_ok_calls timers_ok_quiet timers_ok_same split: option.split)
next
  case Retry
  then show "timers_ok s \<Longrightarrow> ?thesis"
    by (simp add: retry_def timers_ok_rebuildNow timers_ok_clearBackoff timers_ok_quiet)
qed (simp_all add: subscribeTopicListener_def unsubscribeTopicListener_def onHeartbeat_def timers_ok_calls
    timers_ok_quiet timers_ok_same timers_ok_reset timers_ok_dispose timers_ok_timerFires timers_ok_onError
    split: option.split)

interpretation timing: step_system sse_step timers_ok
  by unfold_locales (rule timers_ok_step)

lemma timers_ok_init: "timers_ok (createSSEClient opts)"
proof -
  have "timerVar (createSSEClient opts) = (\<lambda>_. None)"
    by (rule ext) (simp add: timerVar_def createSSEClient_def split: timerKind.split)
  then show ?thesis by (intro timers_ok_empty) (simp_all add: timer_table_def createSSEClient_def)
qed

subsection \<open>Polling: preservation\<close>

lemma connection_setConnection [simp]:
  "connection (setConnection st sta s) =
    \<lparr>conn_status = (case st of None \<Rightarrow> conn_status (connection s) | Some x \<Rightarrow> x),
     conn_stale = (case sta of None \<Rightarrow> conn_stale (connection s) | Some b \<Rightarrow> b)\<rparr>"
  by (auto simp: setConnection_def Let_def notifyConnection_def)

lemma polling_ok_frame:
  assumes "polling_ok s" "pollTimer s' = pollTimer s" "disposed s' = disposed s"
    "conn_status (connection s') = conn_status (connection s)"
  shows "polling_ok s'"
  using assms by (auto simp: polling_ok_def)

lemma status_quiet [simp]:
  "connection (clearBackoff s) = connection s" "connection (newTransport force s) = connection s"
  "connection (closeEventSource s) = connection s" "connection (openEventSource ts s) = connection s"
  "conn_status (connection (onFrame s)) = conn_status (connection s)"
  "connection (pollOnce s) = connection s" "connection (scheduleRebuild s) = connection s"
  by (simp_all add: onFrame_def)

lemma pollTimer_stopPolling [simp]: "pollTimer (stopPolling s) = None"
  by (simp add: stopPolling_def Let_def)

lemma polling_ok_markConnected: "polling_ok s \<Longrightarrow> polling_ok (markConnected s)"
  by (auto simp: polling_ok_def markConnected_def)

lemma polling_ok_rebuildNow:
  assumes "polling_ok s"
  shows "polling_ok (rebuildNow force s)"
  using assms by (auto simp: polling_ok_def rebuildNow_def rebuildEmpty_def attemptStatus_def Let_def)

lemma polling_ok_startPolling: "polling_ok s \<Longrightarrow> \<not> disposed s \<Longrightarrow> polling_ok (startPollingIfNeeded s)"
  by (auto simp: polling_ok_def startPollingIfNeeded_def Let_def)

lemma polling_ok_onError:
  assumes "sources_ok s" "polling_ok s"
  shows "polling_ok (onError n c s)"
proof (cases "es s = Some n")
  case False
  then show ?thesis using assms by (simp add: onError_def)
next
  case True
  then have nd: "\<not> disposed s" using assms(1) by (auto simp: sources_ok_def)
  let ?s1 = "s\<lparr>consecutiveFailures := Suc (consecutiveFailures s)\<rparr>"
  let ?s2 = "if conn_status (connection ?s1) \<noteq> Polling then setConnection (Some Reconnecting) None ?s1 else ?s1"
  have "polling_ok ?s2"
    using assms(2) nd by (auto simp: polling_ok_def)
  then have "polling_ok (if c then onErrorClosed n ?s2 else ?s2)"
    by (rule polling_ok_frame) (simp_all add: onErrorClosed_def Let_def)
  then show ?thesis
    using True nd unfolding onError_def Let_def
    by (auto simp: onErrorClosed_def Let_def intro!: polling_ok_startPolling)
qed

lemma polling_ok_step:
  assumes "sources_ok s" "polling_ok s"
  shows "polling_ok (sse_step s e)"
proof (cases e)
  case (EsError n c)
  then show ?thesis using assms by (simp add: polling_ok_onError)
next
  case (EsTopicFrame n t p)
  have "polling_ok (onFrame (applyTopicData t v w (markConnected s)))" for v w
    by (rule polling_ok_frame [OF polling_ok_markConnected [OF assms(2)]]) simp_all
  then show ?thesis
    using assms(2) EsTopicFrame by (simp add: onTopicFrame_def split: option.split)
next
  case (EsOpen n)
  have "polling_ok (onFrame (markConnected s'))"
    if "pollTimer s' = pollTimer s" "disposed s' = disposed s" "connection s' = connection s" for s'
  proof (rule polling_ok_frame [OF polling_ok_markConnected])
    show "polling_ok s'" using assms(2) that by (intro polling_ok_frame [of s s']) simp_all
  qed simp_all
  then show ?thesis
    using assms(2) EsOpen by (simp add: onOpen_def Let_def split: option.split)
next
  case Reset
  then show ?thesis
    by (simp add: polling_ok_def reset_def Let_def)
next
  case Dispose
  then show ?thesis by (simp add: polling_ok_def dispose_def)
next
  case (TimerFires h)
  have "polling_ok (rebuildNow False s')"
    if "pollTimer s' = pollTimer s" "disposed s' = disposed s" "connection s' = connection s" for s'
    using that assms(2) by (intro polling_ok_rebuildNow polling_ok_frame [of s s']) simp_all
  moreover have "polling_ok (setConnection None (Some True) (s\<lparr>pending := p\<rparr>))" "polling_ok (pollOnce s)" for p
    by (rule polling_ok_frame [OF assms(2)]; simp)+
  ultimately show ?thesis
    using assms(2) TimerFires by (simp add: timerFires_def Let_def split: option.split timerKind.split)
next
  case Retry
  then show ?thesis
    using assms(2) by (simp add: retry_def polling_ok_rebuildNow polling_ok_frame)
qed ((rule polling_ok_frame [OF assms(2)];
    simp add: subscribeTopic_def unsubscribeTopic_def subscribeTopicListener_def unsubscribeTopicListener_def
       onHeartbeat_def onSourceError_def fetchSettled_def Let_def split_beta
       split: option.split json.split)+)

interpretation polling: step_system sse_step "\<lambda>s. sources_ok s \<and> polling_ok s"
  by unfold_locales (simp add: sources_ok_step polling_ok_step)

lemma polling_ok_init: "polling_ok (createSSEClient opts)"
  by (simp add: polling_ok_def createSSEClient_def)

subsection \<open>Reset and dispose\<close>

lemma es_rebuildNow: "es (rebuildNow force s) \<in> {es s, None, Some (next_id s)}"
  by (simp add: rebuildNow_def rebuildEmpty_def openEventSource_def Let_def)

text \<open>The current source is the old one, none, or a new one.\<close>

lemma es_step: "es (sse_step s e) = Some n \<Longrightarrow> es s = Some n \<or> next_id s \<le> n"
proof (cases e)
  case (TimerFires h)
  then show "es (sse_step s e) = Some n \<Longrightarrow> ?thesis"
    using es_rebuildNow [of False "s\<lparr>pending := filter (\<lambda>u. tm_handle u \<noteq> h) (pending s), debounceTimer := None\<rparr>"]
      es_rebuildNow [of False "s\<lparr>pending := filter (\<lambda>u. tm_handle u \<noteq> h) (pending s)\<rparr>"]
    by (auto simp: timerFires_def Let_def split: option.splits timerKind.splits)
next
  case Retry
  then show "es (sse_step s e) = Some n \<Longrightarrow> ?thesis"
    using es_rebuildNow [of True "s\<lparr>consecutiveFailures := 0\<rparr>"] by (auto simp: retry_def)
qed (auto simp: subscribeTopic_def unsubscribeTopic_def subscribeTopicListener_def unsubscribeTopicListener_def
    onHeartbeat_def onSourceError_def onTopicFrame_def onOpen_def onError_def onErrorClosed_def reset_def
    dispose_def fetchSettled_def Let_def split_beta split: option.splits json.splits if_splits)

lemma next_id_step: "next_id s \<le> next_id (sse_step s e)"
  using evolves_step [of s e] by (simp add: evolves_def versions_advance_def)

text \<open>Sources from a number on: once every older source is gone, none of them comes back.\<close>

interpretation later_sources: step_system sse_step "\<lambda>s. k \<le> next_id s \<and> (\<forall>n. es s = Some n \<longrightarrow> k \<le> n)"
  by unfold_locales (use es_step next_id_step order_trans in blast)

lemma es_reset [simp]: "es (reset s) = None"
  by (simp add: reset_def Let_def)

lemma snapshots_reset [simp]: "snapshots (reset s) = []"
  by (simp add: reset_def Let_def)

lemma generation_reset [simp]: "generation (reset s) = Suc (generation s)"
  by (simp add: reset_def Let_def)

lemma pending_scheduleRebuild_subset:
  "set (pending (scheduleRebuild s)) \<subseteq> insert \<lparr>tm_handle = next_id s, tm_kind = DebounceTimer, tm_delay = debounceMs (options s)\<rparr> (set (pending s))"
  by (auto simp: scheduleRebuild_def Let_def pending_setTimer pending_clearTimer split: option.splits)

lemma frozen_step:
  assumes "frozen s0 s" "e \<noteq> Reset"
  shows "frozen s0 (sse_step s e)"
proof (cases e)
  case (Unsubscribe t)
  let ?s = "if (case mget (refCounts s) t of None \<Rightarrow> 1 | Some c \<Rightarrow> c) - 1 = 0
    then s\<lparr>refCounts := mdel (refCounts s) t, topicVersions := mdel (topicVersions s) t\<rparr>
    else s\<lparr>refCounts := mset_key (refCounts s) t ((case mget (refCounts s) t of None \<Rightarrow> 1 | Some c \<Rightarrow> c) - 1)\<rparr>"
  have "frozen s0 (scheduleRebuild ?s)"
    using assms(1) pending_scheduleRebuild_subset [of ?s] by (auto simp: frozen_def)
  then show ?thesis using Unsubscribe by (simp only: sse_step.simps unsubscribeTopic_def Let_def)
next
  case Dispose
  have "set (pending (dispose s)) \<subseteq> set (pending s)"
    by (auto simp: dispose_def clearAllTimers_def stopPolling_def Let_def pending_clearTimer split: option.splits)
  then show ?thesis using assms Dispose by (auto simp: frozen_def dispose_def closeEventSource_def)
next
  case (TimerFires h)
  then show ?thesis
    using assms by (auto simp: frozen_def timerFires_def rebuildNow_def Let_def find_Some_iff split: option.split timerKind.split)
qed (use assms in \<open>simp_all add: frozen_def subscribeTopic_def subscribeTopicListener_def unsubscribeTopicListener_def
    retry_def rebuildNow_def onHeartbeat_def onSourceError_def onTopicFrame_def onOpen_def onError_def
    fetchSettled_def Let_def split: option.split\<close>)

lemma frozen_run: "frozen s0 s \<Longrightarrow> Reset \<notin> set es1 \<Longrightarrow> frozen s0 (run sse_step s es1)"
  by (induction es1 arbitrary: s) (auto simp: frozen_step)

end
