(* ===== verification/Sse_Properties.thy ===== *)
theory Sse_Properties
  imports Sse_Transport
begin

text \<open>
  What the realtime client guarantees in every history of calls and browser callbacks, stated over
  \<open>run sse_step (createSSEClient opts)\<close>. The proofs only combine the invariants of
  \<open>Sse_Freshness\<close> and \<open>Sse_Transport\<close>.
\<close>

text \<open>C2. One connection, multiplexed. In every history at most one EventSource has not been closed,
  it is the one the client holds, and, once no debounce is pending, its topic list is exactly the
  sorted list of the topics somebody is subscribed to -- or there is no source because nobody is
  subscribed or a reconnect is scheduled.\<close>

theorem one_multiplexed_source:
  fixes opts hist
  defines "s \<equiv> run sse_step (createSSEClient opts) hist"
  shows "(\<forall>n src. mget (sources s) n = Some src \<longrightarrow> (\<not> src_closed src \<longleftrightarrow> es s = Some n)) \<and>
    set (activeTopics s) = {t. mhas (refCounts s) t} \<and> sorted (activeTopics s) \<and> distinct (activeTopics s) \<and>
    (\<not> disposed s \<and> (\<forall>u\<in>set (pending s). tm_kind u \<noteq> DebounceTimer) \<longrightarrow>
       (case es s of
          None \<Rightarrow> activeTopics s = [] \<or> (\<exists>u\<in>set (pending s). tm_kind u = BackoffTimer)
        | Some n \<Rightarrow> \<exists>src. mget (sources s) n = Some src \<and> src_topics src = activeTopics s))"
proof -
  have ok: "sources_ok s" "synced s" "refs_ok s" "timers_ok s"
    using multiplexing.run_inv [of "createSSEClient opts" hist] counting.run_inv [of "createSSEClient opts" hist]
      timing.run_inv [of "createSSEClient opts" hist]
    by (auto simp: s_def sources_ok_init synced_init refs_ok_init timers_ok_init)
  have "armed (pending s) (timerVar s) DebounceTimer" "armed (pending s) (timerVar s) BackoffTimer" if "\<not> disposed s"
    using ok(4) that by (auto simp: timers_ok_def)
  then have timers: "(\<exists>u\<in>set (pending s). tm_kind u = DebounceTimer) \<or> debounceTimer s = None"
    "backoffTimer s \<noteq> None \<Longrightarrow> (\<exists>u\<in>set (pending s). tm_kind u = BackoffTimer)" if "\<not> disposed s"
    using that by (auto simp: armed_def timerVar_def)
  have "\<not> disposed s \<and> (\<forall>u\<in>set (pending s). tm_kind u \<noteq> DebounceTimer) \<longrightarrow>
       (case es s of
          None \<Rightarrow> activeTopics s = [] \<or> (\<exists>u\<in>set (pending s). tm_kind u = BackoffTimer)
        | Some n \<Rightarrow> \<exists>src. mget (sources s) n = Some src \<and> src_topics src = activeTopics s)"
  proof (intro impI, elim conjE)
    assume "\<not> disposed s" "\<forall>u\<in>set (pending s). tm_kind u \<noteq> DebounceTimer"
    with ok(1,2) timers show "case es s of
          None \<Rightarrow> activeTopics s = [] \<or> (\<exists>u\<in>set (pending s). tm_kind u = BackoffTimer)
        | Some n \<Rightarrow> \<exists>src. mget (sources s) n = Some src \<and> src_topics src = activeTopics s"
      by (auto simp: synced_def source_of_def sources_ok_def split: option.splits)
  qed
  moreover have "distinct (activeTopics s)"
    using ok(3) by (simp add: refs_ok_def activeTopics_def distinct_map_filter)
  ultimately show ?thesis
    using ok(1) set_activeTopics [OF ok(3)]
    by (auto simp: sources_ok_def subscribed_def activeTopics_def dom_def)
qed

theorem one_multiplexed_source_witness:
  "let s = run sse_step (createSSEClient default_options) [Subscribe TUsers, TimerFires 1]
   in es s = Some 2 \<and> activeTopics s = [TUsers] \<and>
      (\<exists>src. mget (sources s) 2 = Some src \<and> src_topics src = activeTopics s)"
proof -
  let ?s = "run sse_step (createSSEClient default_options) [Subscribe TUsers, TimerFires 1]"
  have "es ?s = Some 2" "\<not> disposed ?s" "\<forall>u\<in>set (pending ?s). tm_kind u \<noteq> DebounceTimer"
    "activeTopics ?s = [TUsers]"
    by (simp_all add: sse_defs)
  with one_multiplexed_source [of default_options "[Subscribe TUsers, TimerFires 1]"]
  show ?thesis by (simp only: Let_def option.case simp_thms)
qed

text \<open>C3. The stream is never stranded. While the client is not disposed and somebody is subscribed,
  an EventSource is open or a rebuild is scheduled (a debounce or a reconnect backoff).\<close>

theorem never_stranded:
  assumes s: "s = run sse_step (createSSEClient opts) hist"
    and "\<not> disposed s" "mhas (refCounts s) t"
  shows "es s \<noteq> None \<or> (\<exists>u\<in>set (pending s). tm_kind u \<in> {DebounceTimer, BackoffTimer})"
proof -
  have ok: "sources_ok s" "synced s" "refs_ok s" "timers_ok s"
    using multiplexing.run_inv [of "createSSEClient opts" hist] counting.run_inv [of "createSSEClient opts" hist]
      timing.run_inv [of "createSSEClient opts" hist]
    by (auto simp: s sources_ok_init synced_init refs_ok_init timers_ok_init)
  have "activeTopics s \<noteq> []"
    using set_activeTopics [OF ok(3)] assms(3) by (auto simp: subscribed_def)
  with ok(2) assms(2) have "es s \<noteq> None \<or> timerVar s DebounceTimer \<noteq> None \<or> timerVar s BackoffTimer \<noteq> None"
    by (auto simp: synced_def source_of_def timerVar_def split: option.splits)
  with ok(4) assms(2) show ?thesis
    by (auto simp: timers_ok_def armed_def)
qed

theorem never_stranded_witness:
  "let s = run sse_step (createSSEClient default_options) [Subscribe TWeb]
   in es s = None \<and> (\<exists>u\<in>set (pending s). tm_kind u \<in> {DebounceTimer, BackoffTimer})"
proof -
  let ?s = "run sse_step (createSSEClient default_options) [Subscribe TWeb]"
  have "es ?s = None" "\<not> disposed ?s" "mhas (refCounts ?s) TWeb" by (simp_all add: sse_defs)
  with never_stranded [OF refl, of default_options "[Subscribe TWeb]" TWeb]
  show ?thesis by (simp only: Let_def simp_thms)
qed

text \<open>C5. Timers do not pile up. In every history each kind of timer is pending at most once and is
  then the one the client's variable holds, so it can be cancelled; no reconnect backoff is pending
  while a source is open; and every backoff waits between 2 and 30 seconds.\<close>

theorem timers_do_not_pile_up:
  fixes opts hist
  defines "s \<equiv> run sse_step (createSSEClient opts) hist"
  shows "distinct (map tm_kind (pending s)) \<and> (\<forall>u\<in>set (pending s). timerVar s (tm_kind u) = Some (tm_handle u)) \<and>
    (\<forall>u\<in>set (pending s). tm_kind u = BackoffTimer \<longrightarrow> es s = None \<and> 2000 \<le> tm_delay u \<and> tm_delay u \<le> 30000)"
proof -
  have ok: "timers_ok s"
    unfolding s_def by (rule timing.run_inv) (rule timers_ok_init)
  then have table: "timer_table (pending s) (timerVar s) (next_id s)" by (simp add: timers_ok_def)
  then have var: "timerVar s (tm_kind u) = Some (tm_handle u)" if "u \<in> set (pending s)" for u
    using that by (simp add: timer_table_def)
  have "inj_on tm_kind (set (pending s))"
  proof (rule inj_onI)
    fix u v assume uv: "u \<in> set (pending s)" "v \<in> set (pending s)" "tm_kind u = tm_kind v"
    with var [OF uv(1)] var [OF uv(2)] have "tm_handle u = tm_handle v" by simp
    moreover have "inj_on tm_handle (set (pending s))" using table by (simp add: timer_table_def distinct_map)
    ultimately show "u = v" using uv by (auto dest: inj_onD)
  qed
  moreover have "distinct (pending s)" using table by (auto simp: timer_table_def distinct_map)
  ultimately have "distinct (map tm_kind (pending s))" by (simp add: distinct_map)
  moreover have "es s = None" if "u \<in> set (pending s)" "tm_kind u = BackoffTimer" for u
    using ok var [OF that(1)] that(2) by (auto simp: timers_ok_def)
  ultimately show ?thesis
    using ok var by (auto simp: timers_ok_def)
qed

theorem timers_do_not_pile_up_witness:
  "let s = run sse_step (createSSEClient default_options) [Subscribe TUsers, TimerFires 1, EsError 2 True]
   in map tm_kind (pending s) = [BackoffTimer] \<and> map tm_delay (pending s) = [2000] \<and>
      distinct (map tm_kind (pending s)) \<and> es s = None"
proof -
  let ?s = "run sse_step (createSSEClient default_options) [Subscribe TUsers, TimerFires 1, EsError 2 True]"
  let ?t = "\<lparr>options = default_options, refCounts = [(TUsers, 1)], topicVersions = [(TUsers, \<lparr>vid = 0, revision = 0, requestTicket = 0\<rparr>)],
    snapshots = [(TUsers, EMPTY_TOPIC_SNAPSHOT)], topicListeners = [], connectionListeners = [], es = Some 2,
    debounceTimer = None, backoffTimer = None, staleTimer = None, pollTimer = None, pollInFlight = None, consecutiveFailures = 0,
    connection = \<lparr>conn_status = Connecting, conn_stale = False\<rparr>, disposed = False, generation = 0, lastTopicsKey = Some ''users'',
    pending = [], sources = [(2, \<lparr>src_topics = [TUsers], src_opened = False, src_closed = False\<rparr>)],
    inflight = [], next_id = 3, called = []\<rparr>"
  have "run sse_step (createSSEClient default_options) [Subscribe TUsers, TimerFires 1] = ?t"
    by (simp add: sse_defs EMPTY_TOPIC_SNAPSHOT_def)
  moreover have "pending (sse_step ?t (EsError 2 True)) = [\<lparr>tm_handle = 4, tm_kind = BackoffTimer, tm_delay = 2000\<rparr>]"
    by (simp add: sse_defs EMPTY_TOPIC_SNAPSHOT_def)
  ultimately have "pending ?s = [\<lparr>tm_handle = 4, tm_kind = BackoffTimer, tm_delay = 2000\<rparr>]" by simp
  with timers_do_not_pile_up [of default_options "[Subscribe TUsers, TimerFires 1, EsError 2 True]"]
  show ?thesis by (simp del: run.simps)
qed

text \<open>C4. The polling fallback. In every history of a client that is not disposed, the poll interval
  runs exactly while the connection status is \<open>polling\<close>; and an error on the current source that
  takes the failure count over the threshold brings the client there.\<close>

theorem polling_exactly_when_shown:
  assumes s: "s = run sse_step (createSSEClient opts) hist" and "\<not> disposed s"
  shows "((\<exists>u\<in>set (pending s). tm_kind u = PollTimer) \<longleftrightarrow> conn_status (connection s) = Polling) \<and>
    (es s = Some n \<and> failureThreshold (options s) \<le> consecutiveFailures s \<longrightarrow>
       conn_status (connection (sse_step s (EsError n c))) = Polling)"
proof
  have ok: "sources_ok s" "polling_ok s" "timers_ok s"
    using polling.run_inv [of "createSSEClient opts" hist] timing.run_inv [of "createSSEClient opts" hist]
    by (auto simp: s sources_ok_init polling_ok_init timers_ok_init)
  have "(\<exists>u\<in>set (pending s). tm_kind u = PollTimer) \<longleftrightarrow> timerVar s PollTimer \<noteq> None"
    using ok(3) assms(2) unfolding timers_ok_def timer_table_def armed_def
    by (metis option.distinct(1) not_None_eq timerKind.distinct(11))
  then show "(\<exists>u\<in>set (pending s). tm_kind u = PollTimer) \<longleftrightarrow> conn_status (connection s) = Polling"
    using ok(2) assms(2) by (simp add: polling_ok_def timerVar_def)
  have ok': "polling_ok (onError n c s)" using ok by (simp add: polling_ok_onError)
  show "es s = Some n \<and> failureThreshold (options s) \<le> consecutiveFailures s \<longrightarrow>
       conn_status (connection (sse_step s (EsError n c))) = Polling"
  proof
    assume "es s = Some n \<and> failureThreshold (options s) \<le> consecutiveFailures s"
    then have "pollTimer (onError n c s) \<noteq> None" "disposed (onError n c s) = disposed s"
      by (auto simp: onError_def onErrorClosed_def startPollingIfNeeded_def Let_def)
    with ok' assms(2) show "conn_status (connection (sse_step s (EsError n c))) = Polling"
      by (simp add: polling_ok_def)
  qed
qed

theorem polling_exactly_when_shown_witness:
  "conn_status (connection (sse_step (run sse_step (createSSEClient (default_options\<lparr>failureThreshold := 1\<rparr>))
     [Subscribe TUsers, TimerFires 1, EsError 2 False]) (EsError 2 True))) = Polling"
proof -
  let ?s = "run sse_step (createSSEClient (default_options\<lparr>failureThreshold := 1\<rparr>))
     [Subscribe TUsers, TimerFires 1, EsError 2 False]"
  have "\<not> disposed ?s" "es ?s = Some 2" "failureThreshold (options ?s) \<le> consecutiveFailures ?s"
    by (simp_all add: sse_defs)
  with polling_exactly_when_shown [OF refl, of "default_options\<lparr>failureThreshold := 1\<rparr>"
      "[Subscribe TUsers, TimerFires 1, EsError 2 False]" 2 True]
  show ?thesis by blast
qed



text \<open>\<open>dispose\<close> is final. Whatever is called or fires afterwards (short of \<open>reset\<close>, which also
  clears a disposed client), no EventSource is opened, no snapshot and no connection state changes,
  and the only timer that can still be pending is the debounce of a late unsubscribe.\<close>

theorem dispose_is_final:
  assumes s: "s = run sse_step (createSSEClient opts) hist" and "Reset \<notin> set later"
  shows "frozen (sse_step s Dispose) (run sse_step (sse_step s Dispose) later)"
proof (rule frozen_run)
  have "timers_ok s"
    unfolding s by (rule timing.run_inv) (rule timers_ok_init)
  then have "pending (dispose s) = []" by (rule pending_dispose)
  then show "frozen (sse_step s Dispose) (sse_step s Dispose)"
    by (simp add: frozen_def) (simp add: dispose_def)
qed (rule assms)

theorem dispose_is_final_witness:
  "let s = run sse_step (createSSEClient default_options) [Subscribe TUsers, TimerFires 1]
   in frozen (sse_step s Dispose) (run sse_step (sse_step s Dispose) [Unsubscribe TUsers, EsOpen 2, TimerFires 3, Retry])"
  unfolding Let_def by (rule dispose_is_final [OF refl]) simp

text \<open>A live frame is delivered. When the current source brings a frame for a topic it was opened
  with and somebody is subscribed to, the topic's snapshot is the frame's payload, fresh and without
  error; every other topic keeps its snapshot; the connection is open and not stale, the failure
  count is reset and polling has stopped; and the topic's listeners have been called.\<close>

theorem live_frame_delivered:
  assumes s: "s = run sse_step (createSSEClient opts) hist"
    and "\<not> disposed s" "es s = Some n" "mget (sources s) n = Some src" "t \<in> set (src_topics src)"
    "mhas (refCounts s) t" "truthy p"
  shows "let s' = sse_step s (EsTopicFrame n t (Some p))
    in getTopicSnapshot s' t =
         \<lparr>snap_data = jprop p ''v'', snap_ts = jprop p ''ts'', snap_stale = False, snap_error = JNull\<rparr> \<and>
       (\<forall>u. u \<noteq> t \<longrightarrow> getTopicSnapshot s' u = getTopicSnapshot s u) \<and>
       connection s' = \<lparr>conn_status = Open, conn_stale = False\<rparr> \<and> consecutiveFailures s' = 0 \<and>
       (\<forall>cbs. mget (topicListeners s) t = Some cbs \<longrightarrow> set cbs \<subseteq> set (called s')) \<and>
       pollTimer s' = None"
proof -
  let ?s' = "sse_step s (EsTopicFrame n t (Some p))"
  have ok: "refs_ok s"
    unfolding s by (rule counting.run_inv) (rule refs_ok_init)
  have eq: "?s' = onFrame (applyTopicData t (jprop p ''v'') (jprop p ''ts'') (markConnected s))"
    using assms by (simp add: onTopicFrame_def)
  have "t \<in> tracked (markConnected s)"
    using ok assms(2,6) by (auto simp: refs_ok_def subscribed_def)
  then obtain v where v: "version_of (markConnected s) t = Some v" by (auto simp: tracked_def)
  have "called (onFrame x) = called x \<or> called (onFrame x) = called x @ connectionListeners x" for x
    by (auto simp: onFrame_def setConnection_def notifyConnection_def Let_def)
  then have called: "set (called x) \<subseteq> set (called (onFrame x))" for x
    by (metis Un_upper1 order_refl set_append)
  have "snapshots ?s' = mset_key (snapshots s) t
      \<lparr>snap_data = jprop p ''v'', snap_ts = jprop p ''ts'', snap_stale = False, snap_error = JNull\<rparr>"
    using v assms(6) unfolding eq by (simp add: applyTopicData_def)
  moreover have "set cbs \<subseteq> set (called ?s')" if "mget (topicListeners s) t = Some cbs" for cbs
    using that v assms(6) called unfolding eq by (force simp: applyTopicData_def notifyTopic_def)
  moreover have "connection ?s' = \<lparr>conn_status = Open, conn_stale = False\<rparr>" "consecutiveFailures ?s' = 0"
    "pollTimer ?s' = None"
    unfolding eq by (simp_all add: onFrame_def markConnected_def)
  ultimately show ?thesis
    by (simp add: Let_def getTopicSnapshot_def js_map_simps)
qed

theorem live_frame_delivered_witness:
  "let s = run sse_step (createSSEClient default_options) [Subscribe TStats, AddTopicListener TStats 9, TimerFires 1];
       s' = sse_step s (EsTopicFrame 2 TStats (Some (JObj [(''v'', JNum 5), (''ts'', JNum 1)])))
   in getTopicSnapshot s' TStats = \<lparr>snap_data = JNum 5, snap_ts = JNum 1, snap_stale = False, snap_error = JNull\<rparr>"
proof -
  let ?h = "[Subscribe TStats, AddTopicListener TStats 9, TimerFires 1]"
  let ?s = "run sse_step (createSSEClient default_options) ?h"
  have "\<not> disposed ?s" "es ?s = Some 2" "mget (sources ?s) 2 = Some \<lparr>src_topics = [TStats], src_opened = False, src_closed = False\<rparr>"
    "mhas (refCounts ?s) TStats"
    by (simp_all add: sse_defs subscribeTopicListener_def addListener_def Let_def)
  from live_frame_delivered [OF refl this(1-3) _ this(4), of "JObj [(''v'', JNum 5), (''ts'', JNum 1)]"]
  show ?thesis by (simp add: Let_def del: run.simps sse_step.simps)
qed

end
