(* ===== verification/Topic_Window.thy ===== *)
theory Topic_Window
  imports Panel_Prelude
begin

text \<open>
  The tab-local sliding window over a topic's snapshots, \<open>web/src/realtime/topicWindow.ts\<close>: the
  ring of timestamped entries, its reduction to the oldest and newest entry, and the external store
  that records each distinct snapshot. The store reads the client through \<open>getTopicSnapshot\<close>; its
  \<open>ts\<close> and \<open>data\<close> are \<open>None\<close> where the source has \<open>null\<close>.
\<close>

record 'a windowEntry =
  we_ts :: number
  we_data :: 'a

record 'a topicWindow =
  tw_oldest :: "'a windowEntry option"
  tw_newest :: "'a windowEntry option"
  tw_size :: nat

definition MAX_ENTRIES :: nat where
  "MAX_ENTRIES = 256"

text \<open>The source returns the same array reference for a duplicate; the store compares references,
  so the model returns \<open>None\<close> there and \<open>Some\<close> of the new array otherwise.\<close>

definition pushWindowEntry :: "'a windowEntry list \<Rightarrow> 'a windowEntry \<Rightarrow> number \<Rightarrow> 'a windowEntry list option" where
  "pushWindowEntry entries entry windowMs =
    (if entries \<noteq> [] \<and> we_ts (last entries) = we_ts entry then None
     else let cutoff = we_ts entry - windowMs;
              kept = filter (\<lambda>e. cutoff \<le> we_ts e) entries @ [entry]
          in Some (if MAX_ENTRIES < length kept then drop (length kept - MAX_ENTRIES) kept else kept))"

definition readWindow :: "'a windowEntry list \<Rightarrow> 'a topicWindow" where
  "readWindow entries =
    (if entries = [] then \<lparr>tw_oldest = None, tw_newest = None, tw_size = 0\<rparr>
     else \<lparr>tw_oldest = (if length entries < 2 then None else Some (hd entries)),
           tw_newest = Some (last entries), tw_size = length entries\<rparr>)"

record 'a windowStore =
  ws_entries :: "'a windowEntry list"
  ws_view :: "'a topicWindow"
  ws_listeners :: "nat list"
  ws_called :: "nat list"

definition createTopicWindowStore :: "'a windowStore" where
  "createTopicWindowStore = \<lparr>ws_entries = [], ws_view = \<lparr>tw_oldest = None, tw_newest = None, tw_size = 0\<rparr>,
     ws_listeners = [], ws_called = []\<rparr>"

definition recordSnapshot :: "number \<Rightarrow> number option \<Rightarrow> 'a option \<Rightarrow> 'a windowStore \<Rightarrow> 'a windowStore" where
  "recordSnapshot windowMs ts dat st =
    (case (ts, dat) of
       (Some t, Some d) \<Rightarrow>
         (case pushWindowEntry (ws_entries st) \<lparr>we_ts = t, we_data = d\<rparr> windowMs of
            None \<Rightarrow> st
          | Some nxt \<Rightarrow> st\<lparr>ws_entries := nxt, ws_view := readWindow nxt,
                           ws_called := ws_called st @ ws_listeners st\<rparr>)
     | _ \<Rightarrow> st)"

text \<open>\<open>subscribe\<close>: the listener joins the set and the store seeds itself from the cached snapshot.\<close>

definition subscribeStore :: "number \<Rightarrow> nat \<Rightarrow> number option \<Rightarrow> 'a option \<Rightarrow> 'a windowStore \<Rightarrow> 'a windowStore" where
  "subscribeStore windowMs cb ts dat st =
    recordSnapshot windowMs ts dat (st\<lparr>ws_listeners := (if cb \<in> set (ws_listeners st) then ws_listeners st
      else ws_listeners st @ [cb])\<rparr>)"

definition unsubscribeStore :: "nat \<Rightarrow> 'a windowStore \<Rightarrow> 'a windowStore" where
  "unsubscribeStore cb st = st\<lparr>ws_listeners := removeAll cb (ws_listeners st)\<rparr>"

datatype 'a storeEvent =
    StoreFrame "number option" "'a option"
  | StoreSubscribe nat "number option" "'a option"
  | StoreUnsubscribe nat

fun store_step :: "number \<Rightarrow> 'a windowStore \<Rightarrow> 'a storeEvent \<Rightarrow> 'a windowStore" where
  "store_step w st (StoreFrame ts dat) = recordSnapshot w ts dat st"
| "store_step w st (StoreSubscribe cb ts dat) = subscribeStore w cb ts dat st"
| "store_step w st (StoreUnsubscribe cb) = unsubscribeStore cb st"

subsection \<open>The window's invariant\<close>

definition window_ok :: "number \<Rightarrow> 'a windowEntry list \<Rightarrow> bool" where
  "window_ok w es \<longleftrightarrow> length es \<le> MAX_ENTRIES \<and> (\<forall>e\<in>set es. we_ts (last es) - w \<le> we_ts e)"

lemma pushWindowEntry_ok:
  assumes "window_ok w es" "0 \<le> w" "pushWindowEntry es e w = Some es'"
  shows "window_ok w es' \<and> es' \<noteq> [] \<and> last es' = e"
proof -
  let ?kept = "filter (\<lambda>x. we_ts e - w \<le> we_ts x) es @ [e]"
  have es': "es' = (if MAX_ENTRIES < length ?kept then drop (length ?kept - MAX_ENTRIES) ?kept else ?kept)"
    using assms(3) by (auto simp: pushWindowEntry_def Let_def split: if_splits)
  have "length es' \<le> MAX_ENTRIES" "set es' \<subseteq> set ?kept"
    unfolding es' by (auto dest: in_set_dropD)
  moreover have "last es' = e" "es' \<noteq> []"
    unfolding es' by (auto simp: MAX_ENTRIES_def)
  ultimately show ?thesis
    using assms(2) by (auto simp: window_ok_def)
qed

definition store_ok :: "number \<Rightarrow> 'a windowStore \<Rightarrow> bool" where
  "store_ok w st \<longleftrightarrow> window_ok w (ws_entries st) \<and> ws_view st = readWindow (ws_entries st)"

lemma store_ok_record: "store_ok w st \<Longrightarrow> 0 \<le> w \<Longrightarrow> store_ok w (recordSnapshot w ts dat st)"
  by (auto simp: store_ok_def recordSnapshot_def dest: pushWindowEntry_ok split: option.splits)

lemma store_ok_listeners [simp]: "store_ok w (st\<lparr>ws_listeners := l\<rparr>) = store_ok w st"
  by (simp add: store_ok_def)

lemma store_ok_step: "0 \<le> w \<and> store_ok w st \<Longrightarrow> 0 \<le> w \<and> store_ok w (store_step w st e)"
  by (cases e) (simp_all add: store_ok_record subscribeStore_def unsubscribeStore_def)

interpretation storing: step_system "store_step w" "\<lambda>st. 0 \<le> w \<and> store_ok w st"
  by unfold_locales (rule store_ok_step)

text \<open>The sliding window is bounded and honest. Whatever the topic delivers and whoever
  subscribes, the window keeps at most 256 snapshots, none older than the window before the newest,
  the published view always belongs to the kept entries, and the view has an oldest entry exactly
  when a second snapshot has arrived -- so that a rate is only ever computed over two.\<close>

theorem topic_window_bounded:
  assumes "0 \<le> w"
  shows "let st = run (store_step w) createTopicWindowStore evs; v = ws_view st
    in tw_size v = length (ws_entries st) \<and> tw_size v \<le> 256 \<and>
       (tw_oldest v \<noteq> None \<longleftrightarrow> 2 \<le> tw_size v) \<and> (tw_newest v = None \<longleftrightarrow> tw_size v = 0) \<and>
       (\<forall>o' n. tw_oldest v = Some o' \<and> tw_newest v = Some n \<longrightarrow>
          o' \<in> set (ws_entries st) \<and> we_ts n - w \<le> we_ts o')"
proof -
  have "store_ok w (run (store_step w) createTopicWindowStore evs)"
    using assms storing.run_inv [of w createTopicWindowStore evs]
    by (simp add: store_ok_def window_ok_def createTopicWindowStore_def readWindow_def)
  then show ?thesis
    by (auto simp: Let_def store_ok_def window_ok_def readWindow_def MAX_ENTRIES_def)
qed

theorem topic_window_bounded_witness:
  "let st = run (store_step 10) createTopicWindowStore
         [StoreFrame (Some 1) (Some True), StoreFrame (Some 1) (Some False), StoreFrame (Some 5) (Some True),
          StoreFrame (Some 12) (Some False)]
   in tw_size (ws_view st) = 2 \<and> tw_oldest (ws_view st) \<noteq> None"
proof -
  let ?evs = "[StoreFrame (Some 1) (Some True), StoreFrame (Some 1) (Some False), StoreFrame (Some 5) (Some True),
          StoreFrame (Some 12) (Some False)]"
  have "tw_size (ws_view (run (store_step 10) createTopicWindowStore ?evs)) = 2"
    by (simp add: recordSnapshot_def pushWindowEntry_def createTopicWindowStore_def readWindow_def Let_def MAX_ENTRIES_def)
  with topic_window_bounded [of 10 ?evs] show ?thesis by (auto simp: Let_def simp del: run.simps)
qed

end
