(* ===== verification/Js_String.thy ===== *)
theory Js_String
  imports Panel_Prelude
begin

text \<open>
  The string operations of JavaScript's library that the panel's code uses, on strings of 8-bit
  characters: case folding of the ASCII letters, trimming of white space, substring search,
  prefixes, splitting at a character and decimal numerals.
\<close>

definition to_lower :: "string \<Rightarrow> string" where
  "to_lower s = map (\<lambda>c. if 65 \<le> (of_char c :: nat) \<and> (of_char c :: nat) \<le> 90 then char_of ((of_char c :: nat) + 32) else c) s"

definition is_space :: "char \<Rightarrow> bool" where
  "is_space c \<longleftrightarrow> (of_char c :: nat) \<in> {9, 10, 11, 12, 13, 32, 160}"

definition trim :: "string \<Rightarrow> string" where
  "trim s = rev (dropWhile is_space (rev (dropWhile is_space s)))"

text \<open>\<open>s.startsWith(p)\<close> and \<open>s.includes(q)\<close>.\<close>

definition startsWith :: "string \<Rightarrow> string \<Rightarrow> bool" where
  "startsWith s p = (take (length p) s = p)"

fun str_includes :: "string \<Rightarrow> string \<Rightarrow> bool" where
  "str_includes [] q = (q = [])"
| "str_includes (c # s) q = (startsWith (c # s) q \<or> str_includes s q)"

lemma startsWith_prefix: "startsWith s p \<longleftrightarrow> prefix p s"
  by (auto simp: startsWith_def prefix_def) (metis append_take_drop_id)

lemma includes_sublist: "str_includes s q \<longleftrightarrow> sublist q s"
  by (induction s) (auto simp: sublist_Cons_right startsWith_prefix)

lemma startsWith_append [simp]: "startsWith (p @ s) p"
  by (simp add: startsWith_def)

text \<open>\<open>s.split(c)\<close> at a single character.\<close>

fun split_at :: "char \<Rightarrow> string \<Rightarrow> string list" where
  "split_at c [] = [[]]"
| "split_at c (x # s) = (if x = c then [] # split_at c s
     else case split_at c s of p # ps \<Rightarrow> (x # p) # ps | [] \<Rightarrow> [[x]])"

lemma split_at_not_Nil [simp]: "split_at c s \<noteq> []"
  by (induction s) (auto split: list.split)

lemma split_at_no_sep: "c \<notin> set s \<Longrightarrow> split_at c s = [s]"
  by (induction s) auto

lemma split_at_append: "c \<notin> set p \<Longrightarrow> split_at c (p @ c # s) = p # split_at c s"
  by (induction p) (auto simp: split_at_no_sep)

lemma join_split_at: "join [c] (split_at c s) = s"
proof (induction s)
  case (Cons x s)
  obtain p ps where "split_at c s = p # ps" by (cases "split_at c s") auto
  then show ?case using Cons by (cases ps) auto
qed simp

lemma split_at_join:
  "xs \<noteq> [] \<Longrightarrow> \<forall>x\<in>set xs. c \<notin> set x \<Longrightarrow> split_at c (join [c] xs) = xs"
  by (induction xs rule: induct_list012) (simp_all add: split_at_no_sep split_at_append)

text \<open>The prefix before the first character of a kind, and what follows it.\<close>

definition is_digit :: "char \<Rightarrow> bool" where
  "is_digit c \<longleftrightarrow> 48 \<le> (of_char c :: nat) \<and> (of_char c :: nat) \<le> 57"

definition digit_val :: "char \<Rightarrow> nat" where
  "digit_val c = of_char c - 48"

text \<open>\<open>Number(s)\<close> on a string of digits.\<close>

definition nat_of_digits :: "string \<Rightarrow> nat" where
  "nat_of_digits s = foldl (\<lambda>a c. 10 * a + digit_val c) 0 s"

text \<open>\<open>String(n)\<close> for a non-negative integer.\<close>

fun show_nat :: "nat \<Rightarrow> string" where
  "show_nat n = (if n < 10 then [char_of (48 + n)] else show_nat (n div 10) @ [char_of (48 + n mod 10)])"

declare show_nat.simps [simp del]

lemma digit_char: "n < 10 \<Longrightarrow> is_digit (char_of (48 + n)) \<and> digit_val (char_of (48 + n)) = n"
  by (simp add: is_digit_def digit_val_def of_char_of)

lemma nat_of_digits_snoc: "nat_of_digits (s @ [c]) = 10 * nat_of_digits s + digit_val c"
  by (simp add: nat_of_digits_def)

lemma show_nat_digits: "list_all is_digit (show_nat n) \<and> show_nat n \<noteq> [] \<and> nat_of_digits (show_nat n) = n"
proof (induction n rule: show_nat.induct)
  case (1 n)
  show ?case
  proof (cases "n < 10")
    case True
    then show ?thesis using digit_char [of n] by (simp add: show_nat.simps [of n] nat_of_digits_def)
  next
    case False
    then show ?thesis
      using 1 digit_char [of "n mod 10"] by (simp add: show_nat.simps [of n] nat_of_digits_snoc)
  qed
qed

lemma show_nat_inj: "show_nat a = show_nat b \<longleftrightarrow> a = b"
  using show_nat_digits [of a] show_nat_digits [of b] by metis

lemma show_nat_not_in: "\<not> is_digit c \<Longrightarrow> c \<notin> set (show_nat n)"
  using show_nat_digits [of n] by (auto simp: list_all_iff)

text \<open>\<open>String(n)\<close> for a number: the digits of the integral part with the sign, and the decimals of
  a fraction up to the seventeen significant ones a double can carry.\<close>

definition show_int :: "int \<Rightarrow> string" where
  "show_int i = (if i < 0 then CHR ''-'' # show_nat (nat (- i)) else show_nat (nat i))"

primrec decimals :: "nat \<Rightarrow> number \<Rightarrow> string" where
  "decimals 0 x = []"
| "decimals (Suc n) x = (if x = 0 then [] else show_nat (nat \<lfloor>10 * x\<rfloor>) @ decimals n (10 * x - of_int \<lfloor>10 * x\<rfloor>))"

definition num_str :: "number \<Rightarrow> string" where
  "num_str x = (let a = \<bar>x\<bar>; i = \<lfloor>a\<rfloor>; f = a - of_int i
     in (if x < 0 then ''-'' else []) @ show_nat (nat i) @ (if f = 0 then [] else ''.'' @ decimals 17 f))"

lemma is_digit_minus: "\<not> is_digit CHR ''-''"
  by (simp add: is_digit_def)

lemma show_int_inj: "show_int a = show_int b \<longleftrightarrow> a = b"
proof -
  have m: "\<And>n s. show_nat n \<noteq> CHR ''-'' # s"
    using show_nat_not_in [OF is_digit_minus] by (metis list.set_intros(1))
  show ?thesis
    using m m [symmetric] by (auto simp: show_int_def show_nat_inj)
qed

lemma num_str_of_int: "num_str (of_int i) = show_int i"
  by (simp add: num_str_def show_int_def Let_def of_int_abs [symmetric] del: of_int_abs)

text \<open>\<open>Math.round\<close>.\<close>

definition js_round :: "number \<Rightarrow> int" where
  "js_round x = \<lfloor>x + 1 / 2\<rfloor>"

lemma js_round_of_int [simp]: "js_round (of_int i) = i"
  by (simp add: js_round_def) linarith

text \<open>\<open>String(n).padStart(w, "0")\<close> and \<open>x.toFixed(d)\<close> of a non-negative number.\<close>

definition padded :: "nat \<Rightarrow> nat \<Rightarrow> string" where
  "padded w n = (let s = show_nat n in replicate (w - length s) CHR ''0'' @ s)"

definition to_fixed :: "nat \<Rightarrow> number \<Rightarrow> string" where
  "to_fixed d x = (let n = nat (js_round (x * 10 ^ d))
     in if d = 0 then show_nat n else show_nat (n div 10 ^ d) @ ''.'' @ padded d (n mod 10 ^ d))"

text \<open>\<open>String(v)\<close>.\<close>

fun jsString :: "json \<Rightarrow> string" where
  "jsString JUndef = ''undefined''"
| "jsString JNull = ''null''"
| "jsString (JBool b) = (if b then ''true'' else ''false'')"
| "jsString (JNum n) = num_str n"
| "jsString (JStr s) = s"
| "jsString (JArr xs) = join '','' (map (\<lambda>x. case x of JUndef \<Rightarrow> [] | JNull \<Rightarrow> [] | _ \<Rightarrow> jsString x) xs)"
| "jsString (JObj kvs) = ''[object Object]''"

end
