(* ===== verification/Log_Ring.thy ===== *)
theory Log_Ring
  imports Js_String
begin

text \<open>
  The journal's log buffer and what the log list shows of it: \<open>web/src/journal/logRing.ts\<close> and
  \<open>web/src/journal/logFilter.helpers.ts\<close>. The reducer is specified against the plain history of
  received lines (\<open>journalSpec\<close>); the locale \<open>bounded_log\<close> states what the reducer relies on of
  its ring buffer.
\<close>

subsection \<open>The ring buffer\<close>

definition LOG_RING_CAP :: nat where
  "LOG_RING_CAP = 2000"

record logLine =
  ll_ts :: string
  ll_level :: "string option"
  ll_msg :: "string option"
  ll_unit :: "string option"

record ringLine = logLine +
  rl_id :: nat

record journalState =
  js_lines :: "ringLine list"
  js_paused :: bool
  js_pending :: "ringLine list"
  js_nextId :: nat

datatype journalAction = ALine logLine | APause | AResume | AClear

definition createJournalState :: journalState where
  "createJournalState = \<lparr>js_lines = [], js_paused = False, js_pending = [], js_nextId = 1\<rparr>"

definition capPush :: "nat \<Rightarrow> 'a list \<Rightarrow> 'a \<Rightarrow> 'a list" where
  "capPush cap arr item =
    (let nxt = (if cap \<le> length arr then drop (length arr - cap + 1) arr else arr) in nxt @ [item])"

definition withId :: "logLine \<Rightarrow> nat \<Rightarrow> ringLine" where
  "withId l i = logLine.extend l (ringLine.fields i)"

fun journalReducer :: "journalState \<Rightarrow> journalAction \<Rightarrow> journalState" where
  "journalReducer st (ALine l) =
    (let line = withId l (js_nextId st); nextId = js_nextId st + 1
     in if js_paused st
        then st\<lparr>js_pending := capPush LOG_RING_CAP (js_pending st) line, js_nextId := nextId\<rparr>
        else st\<lparr>js_lines := capPush LOG_RING_CAP (js_lines st) line, js_nextId := nextId\<rparr>)"
| "journalReducer st APause = (if js_paused st then st else st\<lparr>js_paused := True\<rparr>)"
| "journalReducer st AResume =
    (if \<not> js_paused st then st
     else if js_pending st = [] then st\<lparr>js_paused := False\<rparr>
     else st\<lparr>js_paused := False, js_lines := foldl (capPush LOG_RING_CAP) (js_lines st) (js_pending st),
            js_pending := []\<rparr>)"
| "journalReducer st AClear = st\<lparr>js_lines := [], js_pending := []\<rparr>"

definition pendingCount :: "journalState \<Rightarrow> nat" where
  "pendingCount st = length (js_pending st)"

subsection \<open>Filtering and windowing\<close>

datatype logLevel = LvError | LvWarn | LvInfo | LvDebug
datatype displayMode = Critical | Basic | Extended

fun levelStr :: "logLevel \<Rightarrow> string" where
  "levelStr LvError = ''error''"
| "levelStr LvWarn = ''warn''"
| "levelStr LvInfo = ''info''"
| "levelStr LvDebug = ''debug''"

definition ALL_LEVELS :: "logLevel list" where
  "ALL_LEVELS = [LvError, LvWarn, LvInfo, LvDebug]"

definition defaultLevelsForMode :: "displayMode \<Rightarrow> logLevel list" where
  "defaultLevelsForMode mode = (if mode = Critical then [LvError, LvWarn]
     else if mode = Basic then [LvError, LvWarn, LvInfo] else ALL_LEVELS)"

definition visibleLevelChips :: "displayMode \<Rightarrow> logLevel list" where
  "visibleLevelChips mode = (if mode = Critical then [LvError, LvWarn, LvInfo] else ALL_LEVELS)"

definition normalizedLevel :: "'a logLine_scheme \<Rightarrow> string" where
  "normalizedLevel line = (case ll_level line of None \<Rightarrow> ''unknown'' | Some l \<Rightarrow> l)"

definition matchesLogFilter :: "'a logLine_scheme \<Rightarrow> logLevel list \<Rightarrow> string \<Rightarrow> bool" where
  "matchesLogFilter line levels query =
    (let level = normalizedLevel line
     in if level \<noteq> ''unknown'' \<and> level \<notin> levelStr ` set levels then False
        else let q = to_lower (trim query)
             in if q = '''' then True
                else let msg = (case ll_msg line of None \<Rightarrow> '''' | Some m \<Rightarrow> to_lower m);
                         unit = (case ll_unit line of None \<Rightarrow> '''' | Some u \<Rightarrow> to_lower u)
                     in str_includes msg q \<or> str_includes unit q)"

definition filterLogLines :: "'a logLine_scheme list \<Rightarrow> logLevel list \<Rightarrow> string \<Rightarrow> 'a logLine_scheme list" where
  "filterLogLines lines levels query = filter (\<lambda>l. matchesLogFilter l levels query) lines"

definition windowLogLines :: "ringLine list \<Rightarrow> nat \<Rightarrow> ringLine list \<times> nat" where
  "windowLogLines filtered windowSize =
    (if length filtered \<le> windowSize then (filtered, 0)
     else (drop (length filtered - windowSize) filtered, length filtered - windowSize))"

subsection \<open>The interface of a bounded log\<close>

locale bounded_log =
  fixes push :: "'a list \<Rightarrow> 'a \<Rightarrow> 'a list" and cap :: nat
  assumes push_last: "push xs x = last_n cap (xs @ [x])"
    and cap_pos: "0 < cap"
begin

lemma length_push: "length (push xs x) \<le> cap"
  by (simp add: push_last)

lemma push_window: "push (last_n cap xs) x = last_n cap (xs @ [x])"
  by (simp add: push_last last_n_last_n)

lemma foldl_push: "foldl push (last_n cap xs) ys = last_n cap (xs @ ys)"
proof (induction ys rule: rev_induct)
  case (snoc y ys)
  then show ?case by (simp add: push_window)
qed simp

text \<open>Pushing the window of a log onto the window of another is the window of both.\<close>

lemma foldl_push_windows: "foldl push (last_n cap xs) (last_n cap ys) = last_n cap (xs @ ys)"
proof -
  have "foldl push (last_n cap xs) (last_n cap ys) = last_n cap (xs @ last_n cap ys)"
    by (rule foldl_push)
  also have "\<dots> = last_n cap (xs @ ys)"
    by (cases "cap \<le> length ys") (auto simp: last_n_def)
  finally show ?thesis .
qed

end

lemma capPush_last_n: "0 < cap \<Longrightarrow> capPush cap arr item = last_n cap (arr @ [item])"
  by (auto simp: capPush_def last_n_def Let_def Suc_diff_le)

interpretation ring: bounded_log "capPush LOG_RING_CAP" LOG_RING_CAP
  by unfold_locales (simp_all add: capPush_last_n LOG_RING_CAP_def)

subsection \<open>The reducer against the plain history\<close>

text \<open>The specification keeps everything received since the last clear: the lines up to the pause
  and, while paused, those after it.\<close>

record journalHistory =
  jh_shown :: "ringLine list"
  jh_held :: "ringLine list"
  jh_paused :: bool
  jh_nextId :: nat

fun journalSpec :: "journalHistory \<Rightarrow> journalAction \<Rightarrow> journalHistory" where
  "journalSpec h (ALine l) =
    (if jh_paused h
     then h\<lparr>jh_held := jh_held h @ [withId l (jh_nextId h)], jh_nextId := Suc (jh_nextId h)\<rparr>
     else h\<lparr>jh_shown := jh_shown h @ [withId l (jh_nextId h)], jh_nextId := Suc (jh_nextId h)\<rparr>)"
| "journalSpec h APause = h\<lparr>jh_paused := True\<rparr>"
| "journalSpec h AResume = h\<lparr>jh_paused := False, jh_shown := jh_shown h @ jh_held h, jh_held := []\<rparr>"
| "journalSpec h AClear = h\<lparr>jh_shown := [], jh_held := []\<rparr>"

definition emptyHistory :: journalHistory where
  "emptyHistory = \<lparr>jh_shown = [], jh_held = [], jh_paused = False, jh_nextId = 1\<rparr>"

definition history_ok :: "journalHistory \<Rightarrow> bool" where
  "history_ok h \<longleftrightarrow> (jh_paused h \<or> jh_held h = []) \<and>
     sorted_wrt (<) (map rl_id (jh_shown h @ jh_held h)) \<and>
     (\<forall>l\<in>set (jh_shown h @ jh_held h). rl_id l < jh_nextId h)"

definition window_of :: "journalHistory \<Rightarrow> journalState" where
  "window_of h = \<lparr>js_lines = last_n LOG_RING_CAP (jh_shown h), js_paused = jh_paused h,
     js_pending = last_n LOG_RING_CAP (jh_held h), js_nextId = jh_nextId h\<rparr>"

lemma rl_id_withId [simp]: "rl_id (withId l i) = i"
  by (simp add: withId_def logLine.extend_def ringLine.fields_def)

lemma history_ok_step: "history_ok h \<Longrightarrow> history_ok (journalSpec h a)"
  by (cases a) (auto simp: history_ok_def sorted_wrt_append less_SucI)

lemma last_n_eq_Nil: "0 < n \<Longrightarrow> last_n n xs = [] \<longleftrightarrow> xs = []"
  by (cases xs) (auto simp: last_n_def)

lemma window_of_step:
  assumes "history_ok h"
  shows "journalReducer (window_of h) a = window_of (journalSpec h a)"
  using assms
  by (cases a) (auto simp: window_of_def Let_def ring.push_window ring.foldl_push_windows last_n_eq_Nil
      ring.cap_pos history_ok_def)

lemma journal_simulation:
  assumes "history_ok h"
  shows "run journalReducer (window_of h) acts = window_of (run journalSpec h acts) \<and>
    history_ok (run journalSpec h acts)"
  using assms
  by (induction acts arbitrary: h) (simp_all add: window_of_step history_ok_step)

lemma emptyHistory_window: "createJournalState = window_of emptyHistory" "history_ok emptyHistory"
  by (simp_all add: createJournalState_def window_of_def emptyHistory_def history_ok_def)

text \<open>C21. The journal loses nothing but the oldest lines. For every sequence of received lines,
  pauses, resumes and clears, the visible list is the newest 2000 of the lines received before the
  pause (of all lines when not paused) since the last clear, the pause buffer is the newest 2000
  received since; both are in the order of arrival with strictly increasing identifiers, and the
  visible list does not move while paused.\<close>

theorem journal_refines_history:
  fixes acts
  defines "st \<equiv> run journalReducer createJournalState acts"
  defines "h \<equiv> run journalSpec emptyHistory acts"
  shows "js_lines st = last_n 2000 (jh_shown h) \<and> js_pending st = last_n 2000 (jh_held h) \<and>
    js_paused st = jh_paused h \<and> (jh_paused h \<or> jh_held h = []) \<and>
    sorted_wrt (<) (map rl_id (js_lines st @ js_pending st)) \<and>
    length (js_lines st) \<le> 2000 \<and> pendingCount st \<le> 2000"
proof -
  have st: "st = window_of h" and ok: "history_ok h"
    using journal_simulation [OF emptyHistory_window(2), of acts]
    by (simp_all add: st_def h_def emptyHistory_window(1))
  have sorted: "sorted_wrt (<) (map rl_id (last_n n (jh_shown h) @ last_n m (jh_held h)))" for n m
    using ok set_mono_suffix [OF suffix_last_n [of n "jh_shown h"]] set_mono_suffix [OF suffix_last_n [of m "jh_held h"]]
    by (auto simp: history_ok_def sorted_wrt_append last_n_def drop_map [symmetric] sorted_wrt_drop
        dest!: in_set_dropD)
  show ?thesis
    using ok sorted [of LOG_RING_CAP LOG_RING_CAP]
    by (simp add: st window_of_def LOG_RING_CAP_def history_ok_def pendingCount_def)
qed

text \<open>What the log list shows. The list renders the newest lines that pass the filter, at most
  the window size of them, and the count of hidden ones makes up the rest; a line without a level
  (or an unclassified one) is never hidden by the level chips; and every level selected by default
  in a display mode has a chip in that mode.\<close>

theorem log_list_shows_newest_matches:
  "(let filtered = filterLogLines lines levels query; (visible, hidden) = windowLogLines filtered n
    in suffix visible filtered \<and> length visible \<le> n \<and> hidden + length visible = length filtered \<and>
       set visible \<subseteq> {l \<in> set lines. matchesLogFilter l levels query} \<and> (length filtered \<le> n \<longrightarrow> visible = filtered)) \<and>
   (ll_level l = None \<or> ll_level l = Some ''unknown'' \<longrightarrow>
      matchesLogFilter l levels query = matchesLogFilter l [] query) \<and>
   set (defaultLevelsForMode mode) \<subseteq> set (visibleLevelChips mode)"
proof (intro conjI)
  show "let filtered = filterLogLines lines levels query; (visible, hidden) = windowLogLines filtered n
    in suffix visible filtered \<and> length visible \<le> n \<and> hidden + length visible = length filtered \<and>
       set visible \<subseteq> {l \<in> set lines. matchesLogFilter l levels query} \<and> (length filtered \<le> n \<longrightarrow> visible = filtered)"
    by (auto simp: windowLogLines_def filterLogLines_def suffix_drop Let_def dest: in_set_dropD)
  show "ll_level l = None \<or> ll_level l = Some ''unknown'' \<longrightarrow> matchesLogFilter l levels query = matchesLogFilter l [] query"
    by (auto simp: matchesLogFilter_def normalizedLevel_def Let_def)
  show "set (defaultLevelsForMode mode) \<subseteq> set (visibleLevelChips mode)"
    by (cases mode) (simp_all add: defaultLevelsForMode_def visibleLevelChips_def ALL_LEVELS_def)
qed

theorem log_list_shows_newest_matches_witness:
  "let l = \<lparr>ll_ts = ''12:00'', ll_level = None, ll_msg = Some ''Boot'', ll_unit = None, rl_id = 1\<rparr>
   in fst (windowLogLines (filterLogLines [l] [LvError] ''BOOT'') 5) = filterLogLines [l] [LvError] ''BOOT'' \<and>
      matchesLogFilter l [LvError] ''BOOT'' = matchesLogFilter l [] ''BOOT''"
proof -
  let ?l = "\<lparr>ll_ts = ''12:00'', ll_level = None, ll_msg = Some ''Boot'', ll_unit = None, rl_id = 1\<rparr>"
  have "length (filterLogLines [?l] [LvError] ''BOOT'') \<le> 5" by (simp add: filterLogLines_def)
  with log_list_shows_newest_matches [of "[?l]" "[LvError]" "''BOOT''" 5 ?l Basic]
  show ?thesis by (auto simp: Let_def split: prod.splits)
qed

end
