(* ===== verification/Log_Stream.thy ===== *)
theory Log_Stream
  imports Panel_Prelude
begin

text \<open>
  The log stream client, \<open>web/src/journal/logStream.ts\<close> with \<open>logSourceDiagnostic.ts\<close>. As for the
  realtime client, the closure's variables are the fields of a record, followed by the browser the
  client drives: the clock, the page's visibility, the pending timers, the EventSource objects with
  their \<open>readyState\<close> and the capacity probes in flight. \<open>log_step\<close> is the client as a machine over
  calls and callbacks in any order; time only moves forward (\<open>LsTick\<close>).

  The readings of a \<open>Retry-After\<close> header by \<open>Number\<close> and \<open>Date.parse\<close> are the parameters \<open>num\<close> and
  \<open>parseDate\<close>, with \<open>None\<close> where the reading is not a finite number.
\<close>

subsection \<open>Source diagnostics\<close>

definition REASONS :: "string list" where
  "REASONS = [''file_missing'', ''permission_denied'', ''command_missing'', ''target_missing'',
     ''daemon_unavailable'', ''source_timeout'', ''read_failed'', ''command_failed'']"

definition TRANSIENT_SOURCE_REASONS :: "string list" where
  "TRANSIENT_SOURCE_REASONS = [''source_timeout'', ''read_failed'', ''command_failed'',
     ''daemon_unavailable'', ''target_missing'', ''file_missing'']"

fun is_str :: "json \<Rightarrow> bool" where
  "is_str (JStr _) = True"
| "is_str _ = False"

fun is_integer :: "json \<Rightarrow> bool" where
  "is_integer (JNum n) = (snd (quotient_of n) = 1)"
| "is_integer _ = False"

fun logSourceDiagnostic :: "json \<Rightarrow> json option" where
  "logSourceDiagnostic (JObj kvs) =
    (let d = okey kvs
     in if d ''code'' \<noteq> JStr ''log_source_error'' \<or> \<not> is_str (d ''message'') \<or> \<not> is_str (d ''source'') \<or>
           (d ''service'' \<noteq> JStr ''telemt'' \<and> d ''service'' \<noteq> JStr ''panel'') \<or>
           d ''reason'' \<notin> JStr ` set REASONS \<or>
           (d ''target'' \<noteq> JUndef \<and> \<not> is_str (d ''target'')) \<or>
           (d ''exit_code'' \<noteq> JUndef \<and> \<not> is_integer (d ''exit_code''))
        then None else Some (JObj kvs))"
| "logSourceDiagnostic _ = None"

subsection \<open>State\<close>

datatype logStatus = LConnecting | LOpen | LReconnecting | LClosed | LError | LEnded

text \<open>The diagnostic in a snapshot is an object: it carries a number for its identity.\<close>

record logSnapshot =
  lsn_status :: logStatus
  lsn_stale :: bool
  lsn_error :: "(nat \<times> json) option"
  lsn_errorCode :: "string option"

datatype readyState = RConnecting | ROpen | RClosed

datatype logTimerKind = LStale | LReconnect

record logTimer =
  lt_handle :: nat
  lt_kind :: logTimerKind
  lt_delay :: number

record probe =
  pr_id :: nat
  pr_ticket :: nat
  pr_aborted :: bool

record probeResult =
  pb_status :: nat
  pb_retryAfter :: "string option"
  pb_code :: "string option"

record logStream =
  ls_service :: string
  ls_staleMs :: number
  ls_listeners :: "nat list"
  ls_lineListeners :: "nat list"
  ls_snapshot :: logSnapshot
  ls_staleTimer :: "nat option"
  ls_reconnectTimer :: "nat option"
  ls_reconnectPending :: bool
  ls_reconnectStep :: nat
  ls_closed :: bool
  ls_es :: "nat option"
  ls_generation :: nat
  ls_probeAbort :: "nat option"
  ls_retryNotBefore :: number
  ls_listening :: bool
  ls_now :: number
  ls_hidden :: bool
  ls_timers :: "logTimer list"
  ls_sources :: "(nat, readyState) js_map"
  ls_probes :: "probe list"
  ls_next :: nat
  ls_called :: "nat list"
  ls_lines :: "(nat \<times> json) list"

definition RECONNECT_DELAYS_MS :: "number list" where
  "RECONNECT_DELAYS_MS = [1000, 2000, 5000, 10000, 30000]"

subsection \<open>The inner functions\<close>

definition lsNotify :: "logStream \<Rightarrow> logStream" where
  "lsNotify s = s\<lparr>ls_called := ls_called s @ ls_listeners s\<rparr>"

definition setSnapshot :: "(logSnapshot \<Rightarrow> logSnapshot) \<Rightarrow> logStream \<Rightarrow> logStream" where
  "setSnapshot patch s =
    (let nxt = patch (ls_snapshot s)
     in if nxt = ls_snapshot s then s else lsNotify (s\<lparr>ls_snapshot := nxt\<rparr>))"

definition lsSetTimer :: "logTimerKind \<Rightarrow> number \<Rightarrow> logStream \<Rightarrow> logStream" where
  "lsSetTimer k d s = s\<lparr>ls_timers := ls_timers s @ [\<lparr>lt_handle = ls_next s, lt_kind = k, lt_delay = d\<rparr>],
     ls_next := Suc (ls_next s)\<rparr>"

definition lsClearTimer :: "nat option \<Rightarrow> logStream \<Rightarrow> logStream" where
  "lsClearTimer h s = (case h of None \<Rightarrow> s
     | Some n \<Rightarrow> s\<lparr>ls_timers := filter (\<lambda>t. lt_handle t \<noteq> n) (ls_timers s)\<rparr>)"

definition lsResetStaleWatchdog :: "logStream \<Rightarrow> logStream" where
  "lsResetStaleWatchdog s =
    (let s1 = lsClearTimer (ls_staleTimer s) s
     in (lsSetTimer LStale (ls_staleMs s1) s1)\<lparr>ls_staleTimer := Some (ls_next s1)\<rparr>)"

definition lsOnFrame :: "logStream \<Rightarrow> logStream" where
  "lsOnFrame s =
    setSnapshot (\<lambda>p. p\<lparr>lsn_stale := False, lsn_error := None, lsn_errorCode := None\<rparr>)
      ((lsResetStaleWatchdog (s\<lparr>ls_reconnectStep := 0\<rparr>))\<lparr>ls_retryNotBefore := 0\<rparr>)"

definition abortProbe :: "logStream \<Rightarrow> logStream" where
  "abortProbe s = s\<lparr>ls_probes := map (\<lambda>p. if ls_probeAbort s = Some (pr_id p) then p\<lparr>pr_aborted := True\<rparr> else p) (ls_probes s),
     ls_probeAbort := None\<rparr>"

definition lsCloseSource :: "logStream \<Rightarrow> logStream" where
  "lsCloseSource s = (case ls_es s of None \<Rightarrow> s
     | Some n \<Rightarrow> s\<lparr>ls_sources := mset_key (ls_sources s) n RClosed, ls_es := None\<rparr>)"

definition stopConnection :: "logStream \<Rightarrow> logStream" where
  "stopConnection s =
    (let s1 = abortProbe (s\<lparr>ls_generation := Suc (ls_generation s)\<rparr>);
         s2 = (lsClearTimer (ls_staleTimer s1) s1)\<lparr>ls_staleTimer := None\<rparr>
     in lsCloseSource s2)"

definition clearReconnectTimer :: "logStream \<Rightarrow> logStream" where
  "clearReconnectTimer s = (lsClearTimer (ls_reconnectTimer s) s)\<lparr>ls_reconnectTimer := None\<rparr>"

definition armReconnect :: "number \<Rightarrow> logStream \<Rightarrow> logStream" where
  "armReconnect d s = (lsSetTimer LReconnect d s)\<lparr>ls_reconnectTimer := Some (ls_next s)\<rparr>"

definition pauseConnecting :: "logStream \<Rightarrow> logStream" where
  "pauseConnecting s =
    (case ls_es s of
       None \<Rightarrow> s
     | Some n \<Rightarrow>
         if mget (ls_sources s) n \<noteq> Some RConnecting then s
         else setSnapshot (\<lambda>p. p\<lparr>lsn_status := LReconnecting, lsn_stale := False\<rparr>)
                ((stopConnection s)\<lparr>ls_reconnectPending := True\<rparr>))"

definition lsOpenSource :: "logStream \<Rightarrow> logStream" where
  "lsOpenSource s =
    (if ls_closed s then s
     else let s1 = s\<lparr>ls_sources := mset_key (ls_sources s) (ls_next s) RConnecting,
                      ls_es := Some (ls_next s), ls_next := Suc (ls_next s)\<rparr>
          in if ls_hidden s1 then pauseConnecting s1 else s1)"

definition reconnect :: "logStream \<Rightarrow> logStream" where
  "reconnect s0 =
    (let s = clearReconnectTimer s0
     in if ls_closed s \<or> \<not> ls_reconnectPending s \<or> ls_hidden s then s
        else let remaining = ls_retryNotBefore s - ls_now s
             in if 0 < remaining then armReconnect remaining s
                else lsOpenSource (s\<lparr>ls_reconnectPending := False\<rparr>))"

definition scheduleReconnect :: "logStream \<Rightarrow> logStream" where
  "scheduleReconnect s0 =
    (let s = s0\<lparr>ls_reconnectPending := True\<rparr>;
         delay = max (RECONNECT_DELAYS_MS ! min (ls_reconnectStep s) (length RECONNECT_DELAYS_MS - 1))
                     (ls_retryNotBefore s - ls_now s);
         s1 = setSnapshot (\<lambda>p. p\<lparr>lsn_status := LReconnecting, lsn_stale := False\<rparr>)
                (s\<lparr>ls_reconnectStep := min (ls_reconnectStep s + 1) (length RECONNECT_DELAYS_MS - 1)\<rparr>)
     in if \<not> ls_hidden s1 then armReconnect delay s1 else s1)"

definition onVisibilityChange :: "logStream \<Rightarrow> logStream" where
  "onVisibilityChange s =
    (if ls_hidden s then pauseConnecting (clearReconnectTimer s)
     else if ls_reconnectPending s then reconnect s else s)"

subsection \<open>EventSource listeners\<close>

definition lsOnOpen :: "nat \<Rightarrow> logStream \<Rightarrow> logStream" where
  "lsOnOpen n s0 =
    (let s = (if mhas (ls_sources s0) n \<and> mget (ls_sources s0) n \<noteq> Some RClosed
              then s0\<lparr>ls_sources := mset_key (ls_sources s0) n ROpen\<rparr> else s0)
     in if ls_es s \<noteq> Some n then s
        else lsResetStaleWatchdog (setSnapshot (\<lambda>p. p\<lparr>lsn_status := LOpen, lsn_stale := False, lsn_errorCode := None\<rparr>)
               (s\<lparr>ls_retryNotBefore := 0\<rparr>)))"

definition lsOnLog :: "nat \<Rightarrow> json option \<Rightarrow> logStream \<Rightarrow> logStream" where
  "lsOnLog n parsed s =
    (if ls_es s \<noteq> Some n then s
     else let s1 = lsOnFrame s
          in case parsed of
               None \<Rightarrow> s1
             | Some p \<Rightarrow> if \<not> truthy p then s1
                         else s1\<lparr>ls_lines := ls_lines s1 @ map (\<lambda>cb. (cb, p)) (ls_lineListeners s1)\<rparr>)"

definition lsOnHeartbeat :: "nat \<Rightarrow> logStream \<Rightarrow> logStream" where
  "lsOnHeartbeat n s = (if ls_es s \<noteq> Some n then s else lsOnFrame s)"

definition lsOnSourceError :: "nat \<Rightarrow> json option \<Rightarrow> logStream \<Rightarrow> logStream" where
  "lsOnSourceError n parsed s =
    (if ls_es s \<noteq> Some n then s
     else case parsed of
            None \<Rightarrow> s
          | Some p \<Rightarrow>
              (case logSourceDiagnostic p of
                 None \<Rightarrow> s
               | Some diagnostic \<Rightarrow>
                   if jprop diagnostic ''service'' \<noteq> JStr (ls_service s) then s
                   else let s1 = stopConnection s;
                            s2 = setSnapshot (\<lambda>q. q\<lparr>lsn_status := LError, lsn_stale := False,
                                                    lsn_error := Some (ls_next s1, diagnostic)\<rparr>)
                                   (s1\<lparr>ls_next := Suc (ls_next s1)\<rparr>)
                        in if jprop diagnostic ''reason'' \<in> JStr ` set TRANSIENT_SOURCE_REASONS
                           then scheduleReconnect s2 else s2))"

definition lsOnEnd :: "nat \<Rightarrow> logStream \<Rightarrow> logStream" where
  "lsOnEnd n s = (if ls_es s \<noteq> Some n then s else scheduleReconnect (stopConnection s))"

definition startProbe :: "logStream \<Rightarrow> logStream" where
  "startProbe s = s\<lparr>ls_probes := ls_probes s @ [\<lparr>pr_id = ls_next s, pr_ticket = ls_generation s, pr_aborted = False\<rparr>],
     ls_probeAbort := Some (ls_next s), ls_next := Suc (ls_next s)\<rparr>"

text \<open>The browser sets \<open>readyState\<close> before it dispatches \<open>error\<close>.\<close>

definition lsOnError :: "nat \<Rightarrow> bool \<Rightarrow> logStream \<Rightarrow> logStream" where
  "lsOnError n gaveUp s0 =
    (let s = (if mhas (ls_sources s0) n \<and> mget (ls_sources s0) n \<noteq> Some RClosed
              then s0\<lparr>ls_sources := mset_key (ls_sources s0) n (if gaveUp then RClosed else RConnecting)\<rparr> else s0)
     in if ls_es s \<noteq> Some n then s
        else if mget (ls_sources s) n = Some RClosed
        then startProbe (setSnapshot (\<lambda>p. p\<lparr>lsn_status := LClosed\<rparr>) (stopConnection s))
        else let s1 = setSnapshot (\<lambda>p. p\<lparr>lsn_status := LReconnecting\<rparr>) s
             in if ls_hidden s1 then pauseConnecting s1 else s1)"

subsection \<open>The capacity probe\<close>

definition probeCode :: "nat \<Rightarrow> string option" where
  "probeCode status = map_of [(400, ''bad_request''), (401, ''session_expired''), (403, ''forbidden''),
     (429, ''logs_stream_limit''), (501, ''log_stream_unavailable''), (503, ''capability_unavailable'')] status"

definition defaultCapacityProbe :: "(nat \<times> string option) option \<Rightarrow> probeResult option" where
  "defaultCapacityProbe response = (case response of
     None \<Rightarrow> None
   | Some (status, retryAfter) \<Rightarrow>
       Some \<lparr>pb_status = status, pb_retryAfter = retryAfter, pb_code = probeCode status\<rparr>)"

definition retryAfterMilliseconds ::
  "(string \<Rightarrow> number option) \<Rightarrow> (string \<Rightarrow> number option) \<Rightarrow> number \<Rightarrow> string option \<Rightarrow> number" where
  "retryAfterMilliseconds num parseDate now value' =
    (case value' of
       None \<Rightarrow> 5000
     | Some v \<Rightarrow>
         if v = '''' then 5000
         else case (case num v of Some seconds \<Rightarrow> Some (seconds * 1000)
                    | None \<Rightarrow> map_option (\<lambda>d. d - now) (parseDate v)) of
                Some milliseconds \<Rightarrow> max 5000 milliseconds
              | None \<Rightarrow> 5000)"

definition probeSettled ::
  "(string \<Rightarrow> number option) \<Rightarrow> (string \<Rightarrow> number option) \<Rightarrow> nat \<Rightarrow> probeResult option \<Rightarrow> logStream \<Rightarrow> logStream" where
  "probeSettled num parseDate pid res s0 =
    (case find (\<lambda>p. pr_id p = pid) (ls_probes s0) of
       None \<Rightarrow> s0
     | Some p \<Rightarrow>
         let s = s0\<lparr>ls_probes := filter (\<lambda>q. pr_id q \<noteq> pid) (ls_probes s0)\<rparr>
         in case res of
              None \<Rightarrow> if ls_generation s = pr_ticket p then s\<lparr>ls_probeAbort := None\<rparr> else s
            | Some result \<Rightarrow>
                if ls_closed s \<or> ls_generation s \<noteq> pr_ticket p \<or> pr_aborted p then s
                else let s1 = s\<lparr>ls_probeAbort := None\<rparr>
                     in if pb_status result = 429
                        then scheduleReconnect (setSnapshot (\<lambda>q. q\<lparr>lsn_errorCode := Some ''logs_stream_limit''\<rparr>)
                               (s1\<lparr>ls_retryNotBefore := ls_now s1 +
                                     retryAfterMilliseconds num parseDate (ls_now s1) (pb_retryAfter result)\<rparr>))
                        else if pb_status result = 204 then scheduleReconnect s1
                        else case pb_code result of
                               None \<Rightarrow> s1
                             | Some c \<Rightarrow> if c = '''' then s1 else setSnapshot (\<lambda>q. q\<lparr>lsn_errorCode := Some c\<rparr>) s1)"

subsection \<open>The public interface\<close>

definition lsRetry :: "logStream \<Rightarrow> logStream" where
  "lsRetry s =
    (if ls_closed s then s
     else if ls_now s < ls_retryNotBefore s
     then let s1 = (clearReconnectTimer s)\<lparr>ls_reconnectPending := True\<rparr>
          in if \<not> ls_hidden s1 then armReconnect (ls_retryNotBefore s1 - ls_now s1) s1 else s1
     else lsOpenSource (setSnapshot (\<lambda>_. \<lparr>lsn_status = LConnecting, lsn_stale = False, lsn_error = None, lsn_errorCode = None\<rparr>)
            (stopConnection ((clearReconnectTimer s)\<lparr>ls_reconnectPending := False, ls_reconnectStep := 0\<rparr>))))"

definition lsClose :: "logStream \<Rightarrow> logStream" where
  "lsClose s = (stopConnection ((clearReconnectTimer (s\<lparr>ls_closed := True\<rparr>))\<lparr>ls_reconnectPending := False\<rparr>))
     \<lparr>ls_listening := False\<rparr>"

definition createLogStream :: "string \<Rightarrow> number \<Rightarrow> number \<Rightarrow> bool \<Rightarrow> logStream" where
  "createLogStream service staleMs now hidden = lsOpenSource \<lparr>
     ls_service = service, ls_staleMs = staleMs, ls_listeners = [], ls_lineListeners = [],
     ls_snapshot = \<lparr>lsn_status = LConnecting, lsn_stale = False, lsn_error = None, lsn_errorCode = None\<rparr>,
     ls_staleTimer = None, ls_reconnectTimer = None, ls_reconnectPending = False, ls_reconnectStep = 0,
     ls_closed = False, ls_es = None, ls_generation = 0, ls_probeAbort = None, ls_retryNotBefore = 0,
     ls_listening = True, ls_now = now, ls_hidden = hidden, ls_timers = [], ls_sources = [], ls_probes = [],
     ls_next = 0, ls_called = [], ls_lines = []\<rparr>"

definition lsTimerFires :: "nat \<Rightarrow> logStream \<Rightarrow> logStream" where
  "lsTimerFires h s =
    (case find (\<lambda>t. lt_handle t = h) (ls_timers s) of
       None \<Rightarrow> s
     | Some t \<Rightarrow>
         (let once = s\<lparr>ls_timers := filter (\<lambda>u. lt_handle u \<noteq> h) (ls_timers s)\<rparr>
          in case lt_kind t of
               LStale \<Rightarrow> setSnapshot (\<lambda>p. p\<lparr>lsn_stale := True\<rparr>) once
             | LReconnect \<Rightarrow> reconnect once))"

datatype logEvent =
    LsTick nat
  | LsVisibility bool
  | LsTimer nat
  | LsOpen nat
  | LsLog nat "json option"
  | LsHeartbeat nat
  | LsSourceError nat "json option"
  | LsEnd nat
  | LsError nat bool
  | LsProbe nat "probeResult option"
  | LsSubscribe nat
  | LsUnsubscribe nat
  | LsOnLine nat
  | LsOffLine nat
  | LsRetryCall
  | LsCloseCall

fun log_step :: "(string \<Rightarrow> number option) \<Rightarrow> (string \<Rightarrow> number option) \<Rightarrow> logStream \<Rightarrow> logEvent \<Rightarrow> logStream" where
  "log_step num pd s (LsTick d) = s\<lparr>ls_now := ls_now s + of_nat d\<rparr>"
| "log_step num pd s (LsVisibility hidden) =
    (let s1 = s\<lparr>ls_hidden := hidden\<rparr>
     in if ls_listening s1 \<and> hidden \<noteq> ls_hidden s then onVisibilityChange s1 else s1)"
| "log_step num pd s (LsTimer h) = lsTimerFires h s"
| "log_step num pd s (LsOpen n) = lsOnOpen n s"
| "log_step num pd s (LsLog n p) = lsOnLog n p s"
| "log_step num pd s (LsHeartbeat n) = lsOnHeartbeat n s"
| "log_step num pd s (LsSourceError n p) = lsOnSourceError n p s"
| "log_step num pd s (LsEnd n) = lsOnEnd n s"
| "log_step num pd s (LsError n g) = lsOnError n g s"
| "log_step num pd s (LsProbe p r) = probeSettled num pd p r s"
| "log_step num pd s (LsSubscribe cb) = s\<lparr>ls_listeners := (if cb \<in> set (ls_listeners s) then ls_listeners s else ls_listeners s @ [cb])\<rparr>"
| "log_step num pd s (LsUnsubscribe cb) = s\<lparr>ls_listeners := removeAll cb (ls_listeners s)\<rparr>"
| "log_step num pd s (LsOnLine cb) = s\<lparr>ls_lineListeners := (if cb \<in> set (ls_lineListeners s) then ls_lineListeners s else ls_lineListeners s @ [cb])\<rparr>"
| "log_step num pd s (LsOffLine cb) = s\<lparr>ls_lineListeners := removeAll cb (ls_lineListeners s)\<rparr>"
| "log_step num pd s LsRetryCall = lsRetry s"
| "log_step num pd s LsCloseCall = lsClose s"

end
