(* ===== verification/Log_Stream_Safety.thy ===== *)
theory Log_Stream_Safety
  imports Log_Stream
begin

text \<open>
  Invariants of the log stream client along every history: one EventSource, one reconnect timer that
  runs exactly while a reconnect is due on a visible page, capacity probes that can only act while
  nothing else is under way, and a \<open>Retry-After\<close> that is respected by every way of reconnecting.
\<close>

subsection \<open>The invariant\<close>

definition live_probe :: "logStream \<Rightarrow> probe \<Rightarrow> bool" where
  "live_probe s p \<longleftrightarrow> p \<in> set (ls_probes s) \<and> pr_ticket p = ls_generation s"

definition timers_wf :: "logStream \<Rightarrow> bool" where
  "timers_wf s \<longleftrightarrow>
     (\<forall>t\<in>set (ls_timers s). (if lt_kind t = LReconnect then ls_reconnectTimer s else ls_staleTimer s) = Some (lt_handle t)) \<and>
     (\<forall>h. ls_reconnectTimer s = Some h \<longrightarrow> h < ls_next s \<and> ls_staleTimer s \<noteq> Some h \<and>
        (\<exists>t\<in>set (ls_timers s). lt_kind t = LReconnect \<and> lt_handle t = h)) \<and>
     (\<forall>h. ls_staleTimer s = Some h \<longrightarrow> h < ls_next s)"

definition sources_wf :: "logStream \<Rightarrow> bool" where
  "sources_wf s \<longleftrightarrow> (\<forall>n r. mget (ls_sources s) n = Some r \<longrightarrow> n < ls_next s \<and> (r \<noteq> RClosed \<longleftrightarrow> ls_es s = Some n)) \<and>
     (\<forall>n. ls_es s = Some n \<longrightarrow> mhas (ls_sources s) n)"

definition probes_wf :: "logStream \<Rightarrow> bool" where
  "probes_wf s \<longleftrightarrow> (\<forall>p\<in>set (ls_probes s). pr_ticket p \<le> ls_generation s)"

definition base_ok :: "logStream \<Rightarrow> bool" where
  "base_ok s \<longleftrightarrow> timers_wf s \<and> sources_wf s \<and> probes_wf s \<and> 0 \<le> ls_now s \<and> ls_listening s = (\<not> ls_closed s)"

text \<open>Nothing is connected, scheduled or being probed.\<close>

definition quiescent :: "logStream \<Rightarrow> bool" where
  "quiescent s \<longleftrightarrow> ls_es s = None \<and> ls_reconnectTimer s = None \<and> (\<forall>p. \<not> live_probe s p) \<and>
     (\<forall>t\<in>set (ls_timers s). lt_kind t = LReconnect)"

definition log_ok :: "logStream \<Rightarrow> bool" where
  "log_ok s \<longleftrightarrow> base_ok s \<and>
     (ls_es s \<noteq> None \<or> (\<exists>p. live_probe s p) \<longrightarrow>
        \<not> ls_reconnectPending s \<and> ls_retryNotBefore s \<le> ls_now s \<and> \<not> ls_closed s) \<and>
     (ls_es s \<noteq> None \<longrightarrow> (\<forall>p. \<not> live_probe s p)) \<and>
     (\<forall>p q. live_probe s p \<and> live_probe s q \<longrightarrow> pr_id p = pr_id q) \<and>
     (ls_reconnectTimer s \<noteq> None \<longleftrightarrow> ls_reconnectPending s \<and> \<not> ls_hidden s \<and> \<not> ls_closed s) \<and>
     (ls_es s = None \<longrightarrow> (\<forall>t\<in>set (ls_timers s). lt_kind t = LReconnect)) \<and>
     (ls_closed s \<longrightarrow> \<not> ls_reconnectPending s)"

subsection \<open>Frames\<close>

lemma setSnapshot_frame [simp]:
  "ls_service (setSnapshot f s) = ls_service s" "ls_listeners (setSnapshot f s) = ls_listeners s"
  "ls_lineListeners (setSnapshot f s) = ls_lineListeners s" "ls_staleTimer (setSnapshot f s) = ls_staleTimer s"
  "ls_reconnectTimer (setSnapshot f s) = ls_reconnectTimer s" "ls_reconnectPending (setSnapshot f s) = ls_reconnectPending s"
  "ls_reconnectStep (setSnapshot f s) = ls_reconnectStep s" "ls_closed (setSnapshot f s) = ls_closed s"
  "ls_es (setSnapshot f s) = ls_es s" "ls_generation (setSnapshot f s) = ls_generation s"
  "ls_probeAbort (setSnapshot f s) = ls_probeAbort s" "ls_retryNotBefore (setSnapshot f s) = ls_retryNotBefore s"
  "ls_listening (setSnapshot f s) = ls_listening s" "ls_now (setSnapshot f s) = ls_now s"
  "ls_hidden (setSnapshot f s) = ls_hidden s" "ls_timers (setSnapshot f s) = ls_timers s"
  "ls_sources (setSnapshot f s) = ls_sources s" "ls_probes (setSnapshot f s) = ls_probes s"
  "ls_next (setSnapshot f s) = ls_next s" "ls_lines (setSnapshot f s) = ls_lines s"
  "ls_staleMs (setSnapshot f s) = ls_staleMs s"
  by (simp_all add: setSnapshot_def lsNotify_def Let_def)

lemmas log_ok_defs = log_ok_def base_ok_def timers_wf_def sources_wf_def probes_wf_def live_probe_def

lemma log_ok_setSnapshot [simp]: "log_ok (setSnapshot f s) = log_ok s"
  by (simp add: log_ok_defs)

lemma base_ok_setSnapshot [simp]: "base_ok (setSnapshot f s) = base_ok s"
  by (simp add: log_ok_defs)

lemma quiescent_setSnapshot [simp]: "quiescent (setSnapshot f s) = quiescent s"
  by (simp add: quiescent_def live_probe_def)

lemma stopConnection_frame [simp]:
  "ls_service (stopConnection s) = ls_service s" "ls_reconnectTimer (stopConnection s) = ls_reconnectTimer s"
  "ls_reconnectPending (stopConnection s) = ls_reconnectPending s" "ls_closed (stopConnection s) = ls_closed s"
  "ls_reconnectStep (stopConnection s) = ls_reconnectStep s" "ls_retryNotBefore (stopConnection s) = ls_retryNotBefore s"
  "ls_listening (stopConnection s) = ls_listening s" "ls_now (stopConnection s) = ls_now s"
  "ls_hidden (stopConnection s) = ls_hidden s" "ls_next (stopConnection s) = ls_next s"
  "ls_es (stopConnection s) = None" "ls_generation (stopConnection s) = Suc (ls_generation s)"
  "ls_snapshot (stopConnection s) = ls_snapshot s" "ls_lines (stopConnection s) = ls_lines s"
  "ls_staleTimer (stopConnection s) = None"
  by (simp_all add: stopConnection_def lsCloseSource_def lsClearTimer_def abortProbe_def Let_def split: option.split)

lemma stopConnection_probes: "map pr_ticket (ls_probes (stopConnection s)) = map pr_ticket (ls_probes s)"
  by (simp add: stopConnection_def lsCloseSource_def lsClearTimer_def abortProbe_def Let_def split: option.split)

lemma stopConnection_timers: "ls_timers (stopConnection s) =
    (case ls_staleTimer s of None \<Rightarrow> ls_timers s | Some n \<Rightarrow> filter (\<lambda>t. lt_handle t \<noteq> n) (ls_timers s))"
  by (simp add: stopConnection_def lsCloseSource_def lsClearTimer_def abortProbe_def Let_def split: option.split)

lemma stopConnection_sources: "ls_sources (stopConnection s) =
    (case ls_es s of None \<Rightarrow> ls_sources s | Some n \<Rightarrow> mset_key (ls_sources s) n RClosed)"
  by (simp add: stopConnection_def lsCloseSource_def lsClearTimer_def abortProbe_def Let_def split: option.split)

subsection \<open>Disconnecting\<close>

lemma stopConnection_tickets:
  assumes "probes_wf s" "p \<in> set (ls_probes (stopConnection s))"
  shows "pr_ticket p < Suc (ls_generation s)"
proof -
  have "pr_ticket p \<in> pr_ticket ` set (ls_probes (stopConnection s))" using assms(2) by (rule imageI)
  also have "\<dots> = pr_ticket ` set (ls_probes s)"
    using arg_cong [OF stopConnection_probes, of set] by simp
  finally show ?thesis using assms(1) unfolding probes_wf_def by force
qed

lemma stopConnection_ok:
  assumes "timers_wf s" "probes_wf s" "0 \<le> ls_now s" "ls_listening s = (\<not> ls_closed s)"
    "\<forall>n r. mget (ls_sources s) n = Some r \<longrightarrow> n < ls_next s \<and> (r \<noteq> RClosed \<longrightarrow> ls_es s = Some n)"
    "\<forall>n. ls_es s = Some n \<longrightarrow> n < ls_next s"
  shows "base_ok (stopConnection s) \<and> (\<forall>p. \<not> live_probe (stopConnection s) p) \<and>
    (\<forall>t\<in>set (ls_timers (stopConnection s)). lt_kind t = LReconnect)"
proof -
  have "timers_wf (stopConnection s)"
    using assms(1) unfolding timers_wf_def stopConnection_timers
    by (auto split: option.splits if_splits)
  moreover have "sources_wf (stopConnection s)"
    using assms(5,6) unfolding sources_wf_def stopConnection_sources
    by (auto simp: js_map_simps split: option.splits if_splits) (metis)
  moreover have "probes_wf (stopConnection s)"
    using stopConnection_tickets [OF assms(2)] by (auto simp: probes_wf_def intro: less_imp_le)
  moreover have "\<not> live_probe (stopConnection s) p" for p
    using stopConnection_tickets [OF assms(2), of p] by (auto simp: live_probe_def)
  moreover have "\<forall>t\<in>set (ls_timers (stopConnection s)). lt_kind t = LReconnect"
    using assms(1) unfolding timers_wf_def stopConnection_timers
    by (auto split: option.splits if_splits)
  ultimately show ?thesis using assms(3,4) by (simp add: base_ok_def)
qed

lemma stopConnection_base:
  assumes "base_ok s"
  shows "base_ok (stopConnection s)" "\<not> live_probe (stopConnection s) p"
    "\<forall>t\<in>set (ls_timers (stopConnection s)). lt_kind t = LReconnect"
proof -
  have "sources_wf s" using assms by (simp add: base_ok_def)
  then have "\<forall>n. ls_es s = Some n \<longrightarrow> n < ls_next s" unfolding sources_wf_def by blast
  then have "base_ok (stopConnection s) \<and> (\<forall>p. \<not> live_probe (stopConnection s) p) \<and>
      (\<forall>t\<in>set (ls_timers (stopConnection s)). lt_kind t = LReconnect)"
    using assms by (intro stopConnection_ok) (simp_all add: base_ok_def sources_wf_def)
  then show "base_ok (stopConnection s)" "\<not> live_probe (stopConnection s) p"
    "\<forall>t\<in>set (ls_timers (stopConnection s)). lt_kind t = LReconnect"
    by blast+
qed

subsection \<open>Reconnecting\<close>

lemma base_ok_flags [simp]:
  "base_ok (s\<lparr>ls_reconnectPending := b\<rparr>) = base_ok s" "base_ok (s\<lparr>ls_reconnectStep := k\<rparr>) = base_ok s"
  "base_ok (s\<lparr>ls_retryNotBefore := r\<rparr>) = base_ok s" "base_ok (s\<lparr>ls_probeAbort := a\<rparr>) = base_ok s"
  "base_ok (s\<lparr>ls_hidden := h\<rparr>) = base_ok s"
  by (simp_all add: base_ok_def timers_wf_def sources_wf_def probes_wf_def)

lemma quiescent_flags [simp]:
  "quiescent (s\<lparr>ls_reconnectPending := b\<rparr>) = quiescent s" "quiescent (s\<lparr>ls_reconnectStep := k\<rparr>) = quiescent s"
  "quiescent (s\<lparr>ls_retryNotBefore := r\<rparr>) = quiescent s" "quiescent (s\<lparr>ls_probeAbort := a\<rparr>) = quiescent s"
  "quiescent (s\<lparr>ls_hidden := h\<rparr>) = quiescent s"
  by (simp_all add: quiescent_def live_probe_def)

lemma quiescent_stop: "base_ok s \<Longrightarrow> ls_reconnectTimer s = None \<Longrightarrow> quiescent (stopConnection s)"
  using stopConnection_base by (simp add: quiescent_def)

lemma log_ok_quiescent:
  assumes "base_ok s" "quiescent s" "\<not> (ls_reconnectPending s \<and> \<not> ls_hidden s)" "ls_closed s \<Longrightarrow> \<not> ls_reconnectPending s"
  shows "log_ok s"
  using assms by (auto simp: log_ok_def quiescent_def)

lemma log_ok_armReconnect:
  assumes "base_ok s" "quiescent s" "ls_reconnectPending s" "\<not> ls_hidden s" "\<not> ls_closed s"
  shows "log_ok (armReconnect d s)"
proof -
  have "ls_timers s = []"
    using assms(1,2) by (cases "ls_timers s") (auto simp: base_ok_def timers_wf_def quiescent_def)
  then show ?thesis
    using assms by (auto simp: log_ok_def base_ok_def timers_wf_def sources_wf_def probes_wf_def live_probe_def
        quiescent_def armReconnect_def lsSetTimer_def less_SucI)
qed

lemma log_ok_schedule:
  assumes "base_ok s" "quiescent s" "\<not> ls_closed s"
  shows "log_ok (scheduleReconnect s)"
proof (cases "ls_hidden s")
  case True
  then show ?thesis
    using assms by (simp add: scheduleReconnect_def Let_def) (rule log_ok_quiescent; simp)
next
  case False
  then show ?thesis using assms by (simp add: scheduleReconnect_def Let_def log_ok_armReconnect)
qed

lemma base_ok_open:
  assumes "base_ok s" "quiescent s" "\<not> ls_closed s"
  shows "base_ok (s\<lparr>ls_sources := mset_key (ls_sources s) (ls_next s) RConnecting,
    ls_es := Some (ls_next s), ls_next := Suc (ls_next s)\<rparr>)"
proof -
  have "sources_wf (s\<lparr>ls_sources := mset_key (ls_sources s) (ls_next s) RConnecting,
      ls_es := Some (ls_next s), ls_next := Suc (ls_next s)\<rparr>)"
    using assms unfolding base_ok_def sources_wf_def quiescent_def
    by (auto simp: js_map_simps less_SucI split: if_splits)
  moreover have "timers_wf (s\<lparr>ls_sources := mset_key (ls_sources s) (ls_next s) RConnecting,
      ls_es := Some (ls_next s), ls_next := Suc (ls_next s)\<rparr>)"
    using assms unfolding base_ok_def timers_wf_def by (auto intro: less_SucI)
  ultimately show ?thesis using assms by (simp add: base_ok_def probes_wf_def)
qed

lemma log_ok_pauseConnecting:
  assumes "base_ok s" "ls_reconnectTimer s = None" "ls_hidden s" "\<not> ls_closed s" "ls_es s = Some n"
    "mget (ls_sources s) n = Some RConnecting"
  shows "log_ok (pauseConnecting s)"
proof -
  have "log_ok ((stopConnection s)\<lparr>ls_reconnectPending := True\<rparr>)"
    using assms quiescent_stop [OF assms(1,2)] stopConnection_base(1) [OF assms(1)]
    by (intro log_ok_quiescent) simp_all
  with assms show ?thesis by (simp add: pauseConnecting_def)
qed

lemma log_ok_open:
  assumes "base_ok s" "quiescent s" "\<not> ls_closed s" "\<not> ls_reconnectPending s" "ls_retryNotBefore s \<le> ls_now s"
  shows "log_ok (lsOpenSource s)"
proof (cases "ls_hidden s")
  case True
  have "log_ok (pauseConnecting (s\<lparr>ls_sources := mset_key (ls_sources s) (ls_next s) RConnecting,
    ls_es := Some (ls_next s), ls_next := Suc (ls_next s)\<rparr>))"
    using assms True
    by (intro log_ok_pauseConnecting [of _ "ls_next s"] base_ok_open) (auto simp: quiescent_def js_map_simps)
  with True assms(3) show ?thesis by (simp add: lsOpenSource_def)
next
  case False
  then show ?thesis
    using assms base_ok_open [OF assms(1-3)]
    by (auto simp: lsOpenSource_def log_ok_def quiescent_def live_probe_def)
qed

lemma clearReconnectTimer_frame [simp]:
  "ls_reconnectTimer (clearReconnectTimer s) = None" "ls_es (clearReconnectTimer s) = ls_es s"
  "ls_reconnectPending (clearReconnectTimer s) = ls_reconnectPending s" "ls_closed (clearReconnectTimer s) = ls_closed s"
  "ls_retryNotBefore (clearReconnectTimer s) = ls_retryNotBefore s" "ls_now (clearReconnectTimer s) = ls_now s"
  "ls_hidden (clearReconnectTimer s) = ls_hidden s" "ls_probes (clearReconnectTimer s) = ls_probes s"
  "ls_generation (clearReconnectTimer s) = ls_generation s" "ls_sources (clearReconnectTimer s) = ls_sources s"
  "ls_staleTimer (clearReconnectTimer s) = ls_staleTimer s" "ls_next (clearReconnectTimer s) = ls_next s"
  "ls_listening (clearReconnectTimer s) = ls_listening s" "ls_lines (clearReconnectTimer s) = ls_lines s"
  "ls_snapshot (clearReconnectTimer s) = ls_snapshot s"
  by (simp_all add: clearReconnectTimer_def lsClearTimer_def split: option.split)

lemma timers_clearReconnect:
  assumes "timers_wf s"
  shows "ls_timers (clearReconnectTimer s) = filter (\<lambda>t. lt_kind t \<noteq> LReconnect) (ls_timers s)"
proof -
  have "ls_timers (clearReconnectTimer s) = filter (\<lambda>t. ls_reconnectTimer s \<noteq> Some (lt_handle t)) (ls_timers s)"
    by (auto simp: clearReconnectTimer_def lsClearTimer_def split: option.split intro: filter_cong)
  also have "\<dots> = filter (\<lambda>t. lt_kind t \<noteq> LReconnect) (ls_timers s)"
    using assms unfolding timers_wf_def by (intro filter_cong refl) (metis option.inject)
  finally show ?thesis .
qed

lemma base_ok_clearReconnect: "base_ok s \<Longrightarrow> base_ok (clearReconnectTimer s)"
  using timers_clearReconnect [of s]
  by (auto simp: base_ok_def timers_wf_def sources_wf_def probes_wf_def)

lemma quiescent_clearReconnect:
  assumes "log_ok s" "ls_es s = None" "\<forall>p. \<not> live_probe s p"
  shows "quiescent (clearReconnectTimer s)"
  using assms timers_clearReconnect [of s]
  by (auto simp: quiescent_def log_ok_def base_ok_def live_probe_def)

lemma log_ok_reconnecting: "log_ok s \<Longrightarrow> ls_reconnectPending s \<Longrightarrow> ls_es s = None \<and> (\<forall>p. \<not> live_probe s p)"
  by (auto simp: log_ok_def)

lemma log_ok_reconnect:
  assumes "base_ok s" "quiescent (clearReconnectTimer s)" "ls_closed s \<Longrightarrow> \<not> ls_reconnectPending s"
  shows "log_ok (reconnect s)"
proof -
  have base: "base_ok (clearReconnectTimer s)" using assms(1) by (rule base_ok_clearReconnect)
  have "log_ok (lsOpenSource ((clearReconnectTimer s)\<lparr>ls_reconnectPending := False\<rparr>))"
    if "\<not> ls_closed s" "ls_retryNotBefore s \<le> ls_now s"
    using base assms(2) that by (intro log_ok_open) simp_all
  moreover have "log_ok (armReconnect d (clearReconnectTimer s))"
    if "\<not> ls_closed s" "ls_reconnectPending s" "\<not> ls_hidden s" for d
    using base assms(2) that by (intro log_ok_armReconnect) simp_all
  moreover have "log_ok (clearReconnectTimer s)" if "ls_closed s \<or> \<not> ls_reconnectPending s \<or> ls_hidden s"
    using base assms(2,3) that by (intro log_ok_quiescent) auto
  ultimately show ?thesis by (simp add: reconnect_def Let_def)
qed

subsection \<open>Every event keeps the invariant\<close>

lemma log_okD:
  assumes "log_ok s"
  shows "base_ok s" "0 \<le> ls_now s"
    "ls_es s \<noteq> None \<Longrightarrow> \<not> ls_closed s \<and> \<not> ls_reconnectPending s \<and> ls_reconnectTimer s = None \<and>
       ls_retryNotBefore s \<le> ls_now s \<and> (\<forall>p. \<not> live_probe s p)"
  using assms by (auto simp: log_ok_def base_ok_def)

lemma log_ok_flags [simp]:
  "log_ok (s\<lparr>ls_reconnectStep := k\<rparr>) = log_ok s" "log_ok (s\<lparr>ls_probeAbort := a\<rparr>) = log_ok s"
  "log_ok (s\<lparr>ls_lines := l\<rparr>) = log_ok s" "log_ok (s\<lparr>ls_listeners := ll\<rparr>) = log_ok s"
  "log_ok (s\<lparr>ls_lineListeners := lll\<rparr>) = log_ok s"
  by (simp_all add: log_ok_defs)

lemma log_ok_retry_zero: "log_ok s \<Longrightarrow> log_ok (s\<lparr>ls_retryNotBefore := 0\<rparr>)"
  using log_okD(2) [of s] by (auto simp: log_ok_def live_probe_def)

lemma timers_wf_watchdog: "timers_wf s \<Longrightarrow> timers_wf (lsResetStaleWatchdog s)"
  unfolding timers_wf_def lsResetStaleWatchdog_def lsSetTimer_def lsClearTimer_def Let_def
  by (auto split: option.splits if_splits)

lemma log_ok_watchdog:
  assumes "log_ok s" "ls_es s \<noteq> None"
  shows "log_ok (lsResetStaleWatchdog s)"
proof -
  have "timers_wf (lsResetStaleWatchdog s)"
    using assms by (intro timers_wf_watchdog) (simp add: log_ok_def base_ok_def)
  moreover have "sources_wf (lsResetStaleWatchdog s)"
    using assms unfolding log_ok_def base_ok_def sources_wf_def
    by (auto simp: lsResetStaleWatchdog_def lsSetTimer_def lsClearTimer_def Let_def less_SucI split: option.split)
  ultimately show ?thesis
    using assms unfolding log_ok_def base_ok_def probes_wf_def live_probe_def
    by (auto simp: lsResetStaleWatchdog_def lsSetTimer_def lsClearTimer_def Let_def split: option.split)
qed

lemma log_ok_onFrame: "log_ok s \<Longrightarrow> ls_es s \<noteq> None \<Longrightarrow> log_ok (lsOnFrame s)"
  by (simp add: lsOnFrame_def log_ok_retry_zero log_ok_watchdog)

lemma log_ok_readyState:
  assumes "log_ok s" "ls_es s = Some n" "r \<noteq> RClosed"
  shows "log_ok (s\<lparr>ls_sources := mset_key (ls_sources s) n r\<rparr>)"
proof -
  have "sources_wf (s\<lparr>ls_sources := mset_key (ls_sources s) n r\<rparr>)"
    using assms unfolding log_ok_def base_ok_def sources_wf_def by (auto simp: js_map_simps)
  then show ?thesis
    using assms unfolding log_ok_def base_ok_def probes_wf_def live_probe_def timers_wf_def by auto
qed

lemma stale_source: "log_ok s \<Longrightarrow> ls_es s \<noteq> Some n \<Longrightarrow> mget (ls_sources s) n = None \<or> mget (ls_sources s) n = Some RClosed"
  unfolding log_ok_def base_ok_def sources_wf_def by (cases "mget (ls_sources s) n") auto

lemma log_ok_onOpen:
  assumes "log_ok s"
  shows "log_ok (lsOnOpen n s)"
proof (cases "ls_es s = Some n")
  case True
  then have "mhas (ls_sources s) n \<and> mget (ls_sources s) n \<noteq> Some RClosed"
    using assms by (auto simp: log_ok_def base_ok_def sources_wf_def)
  with True assms log_ok_readyState [OF assms True, of ROpen] show ?thesis
    by (simp add: lsOnOpen_def Let_def log_ok_watchdog log_ok_retry_zero)
next
  case False
  with stale_source [OF assms False] assms show ?thesis by (auto simp: lsOnOpen_def Let_def)
qed

lemma stopped_ok:
  assumes "log_ok s" "ls_es s \<noteq> None"
  shows "base_ok (stopConnection s)" "quiescent (stopConnection s)" "\<not> ls_closed (stopConnection s)"
    "\<not> ls_reconnectPending (stopConnection s)"
  using log_okD [OF assms(1)] assms(2) by (simp_all add: stopConnection_base quiescent_stop)

lemma log_ok_next [simp]:
  "base_ok s \<Longrightarrow> base_ok (s\<lparr>ls_next := Suc (ls_next s)\<rparr>)" "quiescent (s\<lparr>ls_next := m\<rparr>) = quiescent s"
  unfolding base_ok_def timers_wf_def sources_wf_def probes_wf_def quiescent_def live_probe_def by (auto intro: less_SucI)

lemma log_ok_onEnd: "log_ok s \<Longrightarrow> log_ok (lsOnEnd n s)"
  using stopped_ok [of s] by (simp add: lsOnEnd_def log_ok_schedule)

lemma log_ok_onSourceError:
  assumes "log_ok s"
  shows "log_ok (lsOnSourceError n p s)"
proof (cases "ls_es s = Some n")
  case True
  then have *: "base_ok (stopConnection s)" "quiescent (stopConnection s)" "\<not> ls_closed s" "\<not> ls_reconnectPending s"
    using stopped_ok [OF assms] by simp_all
  let ?s2 = "\<lambda>f. setSnapshot f ((stopConnection s)\<lparr>ls_next := Suc (ls_next s)\<rparr>)"
  have b: "base_ok ((stopConnection s)\<lparr>ls_next := Suc (ls_next s)\<rparr>)"
    using log_ok_next(1) [OF *(1)] by simp
  have "log_ok (scheduleReconnect (?s2 f))" "log_ok (?s2 f)" for f
    using * b by (auto intro: log_ok_schedule log_ok_quiescent)
  then show ?thesis
    using True assms by (simp add: lsOnSourceError_def Let_def split: option.split)
next
  case False
  then show ?thesis using assms by (simp add: lsOnSourceError_def)
qed

lemma log_ok_startProbe:
  assumes "base_ok s" "quiescent s" "\<not> ls_reconnectPending s" "ls_retryNotBefore s \<le> ls_now s" "\<not> ls_closed s"
  shows "log_ok (startProbe s)"
proof -
  have "base_ok (startProbe s)"
    using log_ok_next(1) [OF assms(1)] unfolding base_ok_def timers_wf_def sources_wf_def probes_wf_def startProbe_def
    by auto
  then show ?thesis
    using assms unfolding log_ok_def quiescent_def live_probe_def startProbe_def by auto
qed

lemma log_ok_onError:
  assumes "log_ok s"
  shows "log_ok (lsOnError n g s)"
proof (cases "ls_es s = Some n")
  case False
  with stale_source [OF assms False] assms show ?thesis by (auto simp: lsOnError_def Let_def)
next
  case True
  note d = log_okD [OF assms]
  have live: "mhas (ls_sources s) n \<and> mget (ls_sources s) n \<noteq> Some RClosed"
    using assms True by (auto simp: log_ok_def base_ok_def sources_wf_def)
  show ?thesis
  proof (cases g)
    case False
    let ?s = "s\<lparr>ls_sources := mset_key (ls_sources s) n RConnecting\<rparr>"
    have ok: "log_ok ?s" using log_ok_readyState [OF assms True] by simp
    have "log_ok (pauseConnecting (setSnapshot f ?s))" if "ls_hidden s" for f
      using log_okD [OF ok] d True that by (intro log_ok_pauseConnecting [of _ n]) (auto simp: js_map_simps)
    with ok True live False show ?thesis by (auto simp: lsOnError_def Let_def js_map_simps)
  next
    case True': True
    let ?s = "s\<lparr>ls_sources := mset_key (ls_sources s) n RClosed\<rparr>"
    have "n < ls_next s" using live d(1) by (auto simp: base_ok_def sources_wf_def)
    then have "base_ok (stopConnection ?s) \<and> (\<forall>p. \<not> live_probe (stopConnection ?s) p) \<and>
        (\<forall>t\<in>set (ls_timers (stopConnection ?s)). lt_kind t = LReconnect)"
      using d(1) True
      by (intro stopConnection_ok) (auto simp: base_ok_def sources_wf_def timers_wf_def probes_wf_def js_map_simps split: if_splits)
    then have "log_ok (startProbe (setSnapshot f (stopConnection ?s)))" for f
      using d(3) True by (intro log_ok_startProbe) (auto simp: quiescent_def live_probe_def)
    then show ?thesis using True True' live by (simp add: lsOnError_def Let_def js_map_simps)
  qed
qed

lemma log_ok_drop_probe:
  assumes "log_ok s"
  shows "log_ok (s\<lparr>ls_probes := filter P (ls_probes s)\<rparr>)"
proof -
  have "base_ok (s\<lparr>ls_probes := filter P (ls_probes s)\<rparr>)"
    using assms unfolding log_ok_def base_ok_def timers_wf_def sources_wf_def probes_wf_def by auto
  then show ?thesis using assms unfolding log_ok_def live_probe_def by auto
qed

lemma log_ok_probe:
  assumes "log_ok s"
  shows "log_ok (probeSettled num pd pid res s)"
proof (cases "find (\<lambda>p. pr_id p = pid) (ls_probes s)")
  case None
  then show ?thesis using assms by (simp add: probeSettled_def)
next
  case (Some p)
  let ?s = "s\<lparr>ls_probes := filter (\<lambda>q. pr_id q \<noteq> pid) (ls_probes s)\<rparr>"
  have ok: "log_ok ?s" using assms by (rule log_ok_drop_probe)
  have p: "p \<in> set (ls_probes s)" "pr_id p = pid" using Some by (auto simp: find_Some_iff)
  show ?thesis
  proof (cases "ls_closed s \<or> ls_generation s \<noteq> pr_ticket p")
    case True
    then show ?thesis
      using ok Some by (auto simp: probeSettled_def Let_def split: option.split)
  next
    case False
    then have "live_probe s p" using p by (simp add: live_probe_def)
    then have "ls_es s = None" "\<not> ls_reconnectPending s" and only: "\<And>q. live_probe s q \<Longrightarrow> pr_id q = pid"
      using assms p(2) unfolding log_ok_def by blast+
    moreover have "\<not> live_probe ?s r" for r
      using only [of r] by (auto simp: live_probe_def)
    moreover have "ls_reconnectTimer s = None" "\<forall>t\<in>set (ls_timers s). lt_kind t = LReconnect"
      using assms calculation(1,2) by (auto simp: log_ok_def)
    ultimately have q: "quiescent ?s"
      unfolding quiescent_def by simp
    have "log_ok (scheduleReconnect (setSnapshot f (?s\<lparr>ls_probeAbort := a, ls_retryNotBefore := r\<rparr>)))"
      "log_ok (scheduleReconnect (?s\<lparr>ls_probeAbort := a\<rparr>))" for f a r
      using q False log_okD(1) [OF ok] by (auto intro!: log_ok_schedule)
    then show ?thesis
      using ok Some by (auto simp: probeSettled_def Let_def split: option.split)
  qed
qed

lemma log_ok_retry:
  assumes "log_ok s"
  shows "log_ok (lsRetry s)"
proof (cases "ls_closed s")
  case True
  then show ?thesis using assms by (simp add: lsRetry_def)
next
  case open': False
  note d = log_okD [OF assms]
  have base: "base_ok (clearReconnectTimer s)" using d(1) by (rule base_ok_clearReconnect)
  show ?thesis
  proof (cases "ls_now s < ls_retryNotBefore s")
    case True
    moreover have "ls_es s \<noteq> None \<or> (\<exists>p. live_probe s p) \<longrightarrow> ls_retryNotBefore s \<le> ls_now s"
      using assms unfolding log_ok_def by blast
    ultimately have "ls_es s = None" "\<forall>p. \<not> live_probe s p" by auto
    then have q: "quiescent (clearReconnectTimer s)" using assms by (simp add: quiescent_clearReconnect)
    have "log_ok (armReconnect d ((clearReconnectTimer s)\<lparr>ls_reconnectPending := True\<rparr>))" if "\<not> ls_hidden s" for d
      using base q open' that by (intro log_ok_armReconnect) simp_all
    moreover have "log_ok ((clearReconnectTimer s)\<lparr>ls_reconnectPending := True\<rparr>)" if "ls_hidden s"
      using base q open' that by (intro log_ok_quiescent) simp_all
    ultimately show ?thesis using True open' by (simp add: lsRetry_def Let_def)
  next
    case False
    let ?s = "stopConnection ((clearReconnectTimer s)\<lparr>ls_reconnectPending := False, ls_reconnectStep := 0\<rparr>)"
    have "base_ok ?s" "quiescent ?s"
      using base by (simp_all add: stopConnection_base quiescent_stop)
    then have "log_ok (lsOpenSource (setSnapshot f ?s))" for f
      using open' False by (intro log_ok_open) simp_all
    then show ?thesis using False open' by (simp add: lsRetry_def)
  qed
qed

lemma log_ok_close:
  assumes "log_ok s"
  shows "log_ok (lsClose s) \<and> ls_closed (lsClose s) \<and> quiescent (lsClose s) \<and> ls_timers (lsClose s) = []"
proof -
  let ?x = "(clearReconnectTimer s)\<lparr>ls_closed := True, ls_reconnectPending := False, ls_listening := False\<rparr>"
  have eq: "lsClose s = stopConnection ?x"
    by (cases "ls_reconnectTimer s"; cases "ls_staleTimer s"; cases "ls_es s")
      (simp_all add: lsClose_def stopConnection_def clearReconnectTimer_def lsClearTimer_def lsCloseSource_def abortProbe_def Let_def)
  have x: "base_ok ?x"
    using base_ok_clearReconnect [OF log_okD(1) [OF assms]]
    unfolding base_ok_def timers_wf_def sources_wf_def probes_wf_def by auto
  then have "base_ok (lsClose s)" "quiescent (lsClose s)"
    unfolding eq by (simp_all add: stopConnection_base quiescent_stop)
  moreover from this have "ls_timers (lsClose s) = []"
    by (cases "ls_timers (lsClose s)") (auto simp: base_ok_def timers_wf_def quiescent_def)
  ultimately show ?thesis
    using log_ok_quiescent [of "lsClose s"] by (simp add: eq)
qed

lemma log_ok_visibility:
  assumes "log_ok s"
  shows "log_ok (log_step num pd s (LsVisibility hidden))"
proof (cases "ls_listening s \<and> hidden \<noteq> ls_hidden s")
  case False
  moreover have "log_ok (s\<lparr>ls_hidden := hidden\<rparr>)" if "\<not> ls_listening s"
    using assms that by (auto simp: log_ok_def base_ok_def live_probe_def timers_wf_def sources_wf_def probes_wf_def)
  ultimately show ?thesis using assms by (cases "ls_listening s") auto
next
  case True
  note d = log_okD [OF assms]
  have nc: "\<not> ls_closed s" using True d(1) by (simp add: base_ok_def)
  show ?thesis
  proof (cases hidden)
    case True': True
    let ?s = "clearReconnectTimer (s\<lparr>ls_hidden := True\<rparr>)"
    have base: "base_ok ?s" using d(1) by (intro base_ok_clearReconnect) simp
    have "log_ok ?s"
      using assms base timers_clearReconnect [of "s\<lparr>ls_hidden := True\<rparr>"] nc
      by (auto simp: log_ok_def live_probe_def base_ok_def timers_wf_def)
    moreover have "log_ok (pauseConnecting ?s)" if "ls_es s = Some n" "mget (ls_sources s) n = Some RConnecting" for n
      using that base nc by (intro log_ok_pauseConnecting [of _ n]) simp_all
    ultimately have "log_ok (pauseConnecting ?s)"
      by (cases "ls_es s") (auto simp: pauseConnecting_def)
    with True True' show ?thesis by (simp add: onVisibilityChange_def)
  next
    case vis: False
    have "log_ok (reconnect (s\<lparr>ls_hidden := False\<rparr>))" if "ls_reconnectPending s"
    proof (rule log_ok_reconnect)
      show "quiescent (clearReconnectTimer (s\<lparr>ls_hidden := False\<rparr>))"
        using quiescent_clearReconnect [OF assms] log_ok_reconnecting [OF assms that]
        by (simp add: quiescent_def live_probe_def clearReconnectTimer_def lsClearTimer_def split: option.splits)
    qed (use d(1) nc in simp_all)
    moreover have "log_ok (s\<lparr>ls_hidden := False\<rparr>)" if "\<not> ls_reconnectPending s"
      using assms that True vis unfolding log_ok_def live_probe_def by auto
    ultimately show ?thesis using True vis by (auto simp: onVisibilityChange_def Let_def)
  qed
qed

lemma log_ok_timer:
  assumes "log_ok s"
  shows "log_ok (lsTimerFires h s)"
proof (cases "find (\<lambda>t. lt_handle t = h) (ls_timers s)")
  case None
  then show ?thesis using assms by (simp add: lsTimerFires_def)
next
  case (Some t)
  let ?s = "s\<lparr>ls_timers := filter (\<lambda>u. lt_handle u \<noteq> h) (ls_timers s)\<rparr>"
  have t: "t \<in> set (ls_timers s)" "lt_handle t = h" using Some by (auto simp: find_Some_iff)
  have tw: "timers_wf s" using assms by (simp add: log_ok_def base_ok_def)
  show ?thesis
  proof (cases "lt_kind t")
    case LStale
    with t tw have st: "ls_staleTimer s = Some h" by (fastforce simp: timers_wf_def)
    then have "timers_wf ?s" using tw unfolding timers_wf_def by auto
    then have "log_ok ?s"
      using assms unfolding log_ok_def base_ok_def sources_wf_def probes_wf_def live_probe_def by auto
    then show ?thesis using Some LStale by (simp add: lsTimerFires_def)
  next
    case LReconnect
    with t tw have rt: "ls_reconnectTimer s = Some h" by (fastforce simp: timers_wf_def)
    then have "clearReconnectTimer ?s = clearReconnectTimer s"
      by (simp add: clearReconnectTimer_def lsClearTimer_def)
    then have eq: "reconnect ?s = reconnect s" by (simp only: reconnect_def)
    have "ls_reconnectPending s" "\<not> ls_closed s" using assms rt by (auto simp: log_ok_def)
    with log_ok_reconnecting [OF assms] have "log_ok (reconnect s)"
      using assms by (intro log_ok_reconnect quiescent_clearReconnect) (auto simp: log_okD)
    then show ?thesis using Some LReconnect eq by (simp add: lsTimerFires_def)
  qed
qed

lemma log_ok_step: "log_ok s \<Longrightarrow> log_ok (log_step num pd s e)"
proof (cases e)
  case (LsTick d)
  have frame: "timers_wf (s\<lparr>ls_now := t\<rparr>) = timers_wf s" "sources_wf (s\<lparr>ls_now := t\<rparr>) = sources_wf s"
    "probes_wf (s\<lparr>ls_now := t\<rparr>) = probes_wf s" "live_probe (s\<lparr>ls_now := t\<rparr>) p = live_probe s p" for t p
    by (simp_all add: timers_wf_def sources_wf_def probes_wf_def live_probe_def)
  have later: "x \<le> ls_now s \<Longrightarrow> x \<le> ls_now s + of_nat d" for x by (simp add: add_increasing2)
  from LsTick show "log_ok s \<Longrightarrow> ?thesis" by (simp add: log_ok_def base_ok_def frame) (blast intro: later)
next
  case (LsVisibility b)
  then show "log_ok s \<Longrightarrow> ?thesis" using log_ok_visibility by blast
qed (auto simp: log_ok_timer log_ok_onOpen log_ok_onFrame lsOnLog_def lsOnHeartbeat_def log_ok_onSourceError
    log_ok_onEnd log_ok_onError log_ok_probe log_ok_retry log_ok_close Let_def split: option.split)

interpretation streaming: step_system "log_step num pd" log_ok
  by unfold_locales (rule log_ok_step)

lemma log_ok_init: "0 \<le> now \<Longrightarrow> log_ok (createLogStream service staleMs now hidden)"
  unfolding createLogStream_def
  by (rule log_ok_open) (auto simp: base_ok_def timers_wf_def sources_wf_def probes_wf_def quiescent_def live_probe_def)

subsection \<open>Clock and retry time\<close>

lemma retry_frame [simp]:
  "ls_retryNotBefore (armReconnect d s) = ls_retryNotBefore s" "ls_now (armReconnect d s) = ls_now s"
  "ls_retryNotBefore (pauseConnecting s) = ls_retryNotBefore s" "ls_now (pauseConnecting s) = ls_now s"
  "ls_retryNotBefore (startProbe s) = ls_retryNotBefore s" "ls_now (startProbe s) = ls_now s"
  "ls_now (lsResetStaleWatchdog s) = ls_now s" "ls_now (lsOnFrame s) = ls_now s"
  by (simp_all add: armReconnect_def lsSetTimer_def pauseConnecting_def startProbe_def lsResetStaleWatchdog_def
      lsOnFrame_def lsClearTimer_def Let_def split: option.split)

lemma retry_frame2 [simp]:
  "ls_retryNotBefore (lsOpenSource s) = ls_retryNotBefore s" "ls_now (lsOpenSource s) = ls_now s"
  "ls_retryNotBefore (scheduleReconnect s) = ls_retryNotBefore s" "ls_now (scheduleReconnect s) = ls_now s"
  by (simp_all add: lsOpenSource_def scheduleReconnect_def Let_def)

lemma retry_frame3 [simp]: "ls_retryNotBefore (reconnect s) = ls_retryNotBefore s" "ls_now (reconnect s) = ls_now s"
  by (simp_all add: reconnect_def Let_def)







subsection \<open>Properties\<close>

text \<open>C22. One log source, one reconnect. In every history the log client holds at most one open
  EventSource (every other one has been closed), and a reconnect timer is pending exactly when a
  reconnect is due, the page is visible and the client is not closed -- so a hidden page opens no
  connection and a visible one is never left without its retry.\<close>

theorem log_source_and_reconnect:
  assumes "0 \<le> now" and s: "s = run (log_step num pd) (createLogStream service staleMs now hidden) hist"
  shows "(\<forall>n r. mget (ls_sources s) n = Some r \<longrightarrow> (r \<noteq> RClosed \<longleftrightarrow> ls_es s = Some n)) \<and>
    ((\<exists>t\<in>set (ls_timers s). lt_kind t = LReconnect) \<longleftrightarrow>
       ls_reconnectPending s \<and> \<not> ls_hidden s \<and> \<not> ls_closed s) \<and>
    (ls_reconnectPending s \<longrightarrow> ls_es s = None)"
proof -
  have ok: "log_ok s"
    unfolding s by (rule streaming.run_inv) (rule log_ok_init [OF assms(1)])
  then have "sources_wf s" "timers_wf s" by (simp_all add: log_ok_def base_ok_def)
  moreover from this(2) have "(\<exists>t\<in>set (ls_timers s). lt_kind t = LReconnect) \<longleftrightarrow> ls_reconnectTimer s \<noteq> None"
    unfolding timers_wf_def by (metis not_None_eq option.distinct(1))
  moreover have "ls_reconnectTimer s \<noteq> None \<longleftrightarrow> ls_reconnectPending s \<and> \<not> ls_hidden s \<and> \<not> ls_closed s"
    using ok by (simp add: log_ok_def)
  ultimately show ?thesis
    using log_ok_reconnecting [OF ok] unfolding sources_wf_def by blast
qed

theorem log_source_and_reconnect_witness:
  "let s = run (log_step (\<lambda>_. None) (\<lambda>_. None)) (createLogStream ''panel'' 40000 0 False) [LsOpen 0, LsEnd 0]
   in ls_reconnectPending s \<and> (\<exists>t\<in>set (ls_timers s). lt_kind t = LReconnect) \<and> ls_es s = None"
proof -
  let ?s = "run (log_step (\<lambda>_. None) (\<lambda>_. None)) (createLogStream ''panel'' 40000 0 False) [LsOpen 0, LsEnd 0]"
  have "ls_reconnectPending ?s" "\<not> ls_hidden ?s" "\<not> ls_closed ?s"
    by (simp_all add: createLogStream_def lsOpenSource_def lsOnOpen_def lsOnEnd_def scheduleReconnect_def
        lsResetStaleWatchdog_def lsSetTimer_def lsClearTimer_def armReconnect_def Let_def)
  with log_source_and_reconnect [of 0 ?s "\<lambda>_. None" "\<lambda>_. None" "''panel''" 40000 False "[LsOpen 0, LsEnd 0]"]
  show ?thesis by (simp only: Let_def simp_thms order_refl)
qed



text \<open>A late capacity probe is harmless. While the client holds an EventSource -- the user
  retried, or a reconnect succeeded -- the answer of any probe still in flight changes nothing but
  the list of probes in flight.\<close>

theorem late_probe_harmless:
  assumes "0 \<le> now" and s: "s = run (log_step num pd) (createLogStream service staleMs now hidden) hist"
    and "ls_es s \<noteq> None"
  shows "log_step num pd s (LsProbe pid res) = s\<lparr>ls_probes := filter (\<lambda>q. pr_id q \<noteq> pid) (ls_probes s)\<rparr>"
proof -
  have ok: "log_ok s"
    unfolding s by (rule streaming.run_inv) (rule log_ok_init [OF assms(1)])
  have none: "pr_ticket p \<noteq> ls_generation s" if "p \<in> set (ls_probes s)" for p
    using log_okD(3) [OF ok assms(3)] that by (auto simp: live_probe_def)
  show ?thesis
  proof (cases "find (\<lambda>p. pr_id p = pid) (ls_probes s)")
    case None
    then have "filter (\<lambda>q. pr_id q \<noteq> pid) (ls_probes s) = ls_probes s"
      by (simp add: find_None_iff filter_id_conv)
    with None show ?thesis by (simp add: probeSettled_def)
  next
    case (Some p)
    with none [of p] show ?thesis
      by (auto simp: probeSettled_def Let_def dest!: find_mem split: option.split)
  qed
qed

theorem late_probe_harmless_witness:
  "let num = (\<lambda>_. None); pd = (\<lambda>_. None);
       s = run (log_step num pd) (createLogStream ''panel'' 40000 0 False) [LsError 0 True, LsRetryCall]
   in ls_es s = Some 2 \<and> ls_snapshot (log_step num pd s (LsProbe 1 (Some \<lparr>pb_status = 429, pb_retryAfter = None, pb_code = None\<rparr>))) =
      ls_snapshot s"
proof -
  let ?s = "run (log_step (\<lambda>_. None) (\<lambda>_. None)) (createLogStream ''panel'' 40000 0 False) [LsError 0 True, LsRetryCall]"
  have "ls_es ?s = Some 2"
    by (simp add: createLogStream_def lsOpenSource_def lsOnError_def stopConnection_def startProbe_def abortProbe_def
      lsClearTimer_def lsCloseSource_def Let_def lsRetry_def clearReconnectTimer_def setSnapshot_def lsNotify_def)
  with late_probe_harmless [of 0 ?s "\<lambda>_. None" "\<lambda>_. None" "''panel''" 40000 False "[LsError 0 True, LsRetryCall]"]
  show ?thesis by (simp add: Let_def del: run.simps log_step.simps)
qed

end
