(* ===== verification/Config_Diff.thy ===== *)
theory Config_Diff
  imports Js_String
begin

text \<open>
  The plain-object algebra of the configuration page, \<open>web/src/server/config\<close>:
  \<open>configObjectDiff.ts\<close>, \<open>configPatch.helpers.ts\<close>, \<open>rebaseEdits.ts\<close>, \<open>configConflict.helpers.ts\<close> and
  \<open>configChangePreview.helpers.ts\<close>. A table of the configuration is a JSON object with distinct keys
  and no \<open>undefined\<close> value (\<open>wf_json\<close>), as \<open>JSON.parse\<close> produces it. Keys are enumerated in insertion
  order.
\<close>

type_synonym jobject = "(string \<times> json) list"

subsection \<open>Objects and equality\<close>

fun isPlainObject :: "json \<Rightarrow> bool" where
  "isPlainObject (JObj _) = True"
| "isPlainObject _ = False"

fun as_object :: "json \<Rightarrow> jobject" where
  "as_object (JObj kvs) = kvs"
| "as_object _ = []"

lemma size_okey: "size (okey kvs k) < Suc (size_list (size_prod (\<lambda>_. 0) size) kvs)"
  by (induction kvs) auto

function valuesEqual :: "json \<Rightarrow> json \<Rightarrow> bool" where
  "valuesEqual a b =
    (case (a, b) of
       (JArr xs, JArr ys) \<Rightarrow> length xs = length ys \<and> list_all (\<lambda>p. valuesEqual (fst p) (snd p)) (zip xs ys)
     | (JObj ao, JObj bo) \<Rightarrow> (\<forall>k\<in>set (map fst ao @ map fst bo). valuesEqual (okey ao k) (okey bo k))
     | _ \<Rightarrow> a = b)"
  by pat_completeness auto

termination
proof (relation "measure (\<lambda>(a, b). size a + size b)", goal_cases)
  case 1
  show ?case by simp
next
  case (2 a b x y xs ys p)
  then have p: "p \<in> set (zip xs ys)" "a = JArr xs" "b = JArr ys" by auto
  then have "fst p \<in> set xs" "snd p \<in> set ys"
    by (metis prod.collapse set_zip_leftD, metis prod.collapse set_zip_rightD)
  then have "size (fst p) \<le> size_list size xs" "size (snd p) \<le> size_list size ys"
    by (auto intro: size_list_estimation')
  with p show ?case by (auto simp: split_beta)
next
  case (3 a b x y ao bo k)
  then show ?case using size_okey [of ao k] size_okey [of bo k] by auto
qed

declare valuesEqual.simps [simp del]

lemma valuesEqual_obj [simp]:
  "valuesEqual (JObj ao) (JObj bo) \<longleftrightarrow> (\<forall>k\<in>set (map fst ao @ map fst bo). valuesEqual (okey ao k) (okey bo k))"
  by (subst valuesEqual.simps) simp

lemma valuesEqual_arr [simp]:
  "valuesEqual (JArr xs) (JArr ys) \<longleftrightarrow> list_all2 valuesEqual xs ys"
  by (subst valuesEqual.simps) (auto simp: list_all2_iff list_all_iff)

lemma valuesEqual_undef [simp]: "valuesEqual JUndef b \<longleftrightarrow> b = JUndef" "valuesEqual a JUndef \<longleftrightarrow> a = JUndef"
  by (auto simp: valuesEqual.simps [of JUndef] valuesEqual.simps [of _ JUndef] split: json.splits)

lemma valuesEqual_kind: "valuesEqual a b \<Longrightarrow> isPlainObject a = isPlainObject b"
  by (subst (asm) valuesEqual.simps) (auto split: json.splits)

lemma valuesEqual_scalar: "\<not> isPlainObject a \<Longrightarrow> \<not> (\<exists>xs. a = JArr xs) \<Longrightarrow> valuesEqual a b \<longleftrightarrow> a = b"
  by (subst valuesEqual.simps) (auto split: json.splits)

lemma size_prod_snd: "size (snd kv) \<le> size_prod (\<lambda>_. 0) size kv"
  by (cases kv) simp

text \<open>Values as \<open>JSON.parse\<close> makes them.\<close>

function wf_json :: "json \<Rightarrow> bool" where
  "wf_json v = (case v of JUndef \<Rightarrow> False | JArr xs \<Rightarrow> list_all wf_json xs
     | JObj kvs \<Rightarrow> distinct (map fst kvs) \<and> list_all (\<lambda>kv. wf_json (snd kv)) kvs | _ \<Rightarrow> True)"
  by pat_completeness auto
termination
proof (relation "measure size", goal_cases)
  case (2 v xs x)
  then show ?case by (auto simp: less_Suc_eq_le intro: size_list_estimation')
next
  case (3 v kvs kv)
  then have "size (snd kv) \<le> size_list (size_prod (\<lambda>_. 0) size) kvs"
    by (intro size_list_estimation' [of kv]) (auto simp: size_prod_snd)
  with 3 show ?case by simp
qed simp

declare wf_json.simps [simp del]

lemma wf_json_simps [simp]:
  "\<not> wf_json JUndef" "wf_json JNull" "wf_json (JBool b)" "wf_json (JNum n)" "wf_json (JStr s)"
  "wf_json (JArr xs) \<longleftrightarrow> (\<forall>x\<in>set xs. wf_json x)"
  "wf_json (JObj kvs) \<longleftrightarrow> distinct (map fst kvs) \<and> (\<forall>(k, v)\<in>set kvs. wf_json v)"
  by (auto simp: wf_json.simps [of JUndef] wf_json.simps [of JNull] wf_json.simps [of "JBool _"]
      wf_json.simps [of "JNum _"] wf_json.simps [of "JStr _"] wf_json.simps [of "JArr _"]
      wf_json.simps [of "JObj _"] list_all_iff)

lemma wf_okey: "wf_json (JObj kvs) \<Longrightarrow> k \<in> fst ` set kvs \<Longrightarrow> wf_json (okey kvs k)"
  by (auto simp: okey_def split: option.split dest: map_of_SomeD)

lemma valuesEqual_refl [simp]: "valuesEqual a a"
proof (induction a)
  case (JArr xs)
  then show ?case by (simp add: list.rel_refl_strong)
next
  case (JObj kvs)
  then have "valuesEqual (okey kvs k) (okey kvs k)" for k
    by (auto simp: okey_def split: option.split dest: map_of_SomeD)
  then show ?case by simp
qed (simp_all add: valuesEqual_scalar)


subsection \<open>Building the PATCH body\<close>

function diffObject :: "jobject \<Rightarrow> json \<Rightarrow> jobject option" where
  "diffObject original edited =
    (case edited of
       JObj ed \<Rightarrow>
         (let out = concat (map (\<lambda>kv.
                let key = fst kv; editedValue = snd kv; originalValue = okey original key
                in if isPlainObject editedValue \<and> isPlainObject originalValue
                   then (case diffObject (as_object originalValue) editedValue of
                           None \<Rightarrow> [] | Some nested \<Rightarrow> [(key, JObj nested)])
                   else if \<not> valuesEqual originalValue editedValue then [(key, editedValue)] else []) ed)
          in if out = [] then None else Some out)
     | _ \<Rightarrow> None)"
  by pat_completeness auto
termination
proof (relation "measure (size \<circ> snd)", goal_cases)
  case (2 original edited ed kv)
  then have "size (snd kv) \<le> size_list (size_prod (\<lambda>_. 0) size) ed"
    by (intro size_list_estimation' [of kv]) (auto simp: size_prod_snd)
  with 2 show ?case by simp
qed simp

declare diffObject.simps [simp del]

definition buildConfigPatch :: "jobject \<Rightarrow> jobject \<Rightarrow> jobject" where
  "buildConfigPatch original edited = concat (map (\<lambda>(section, editedSection).
     let originalSection = okey original section
     in if isPlainObject editedSection
        then (case diffObject (if isPlainObject originalSection then as_object originalSection else []) editedSection of
                None \<Rightarrow> [] | Some sectionPatch \<Rightarrow> [(section, JObj sectionPatch)])
        else if \<not> valuesEqual originalSection editedSection then [(section, editedSection)] else []) edited)"

definition getSectionField :: "jobject \<Rightarrow> string \<Rightarrow> string \<Rightarrow> json" where
  "getSectionField sections section key =
    (let s = okey sections section in if isPlainObject s then jprop s key else JUndef)"

definition setSectionField :: "jobject \<Rightarrow> string \<Rightarrow> string \<Rightarrow> json \<Rightarrow> jobject" where
  "setSectionField sections section key val =
    (let current = okey sections section;
         base = (if isPlainObject current then as_object current else [])
     in mset_key sections section (JObj (mset_key base key val)))"

subsection \<open>Merging and rebasing\<close>

function deepMerge :: "jobject \<Rightarrow> jobject \<Rightarrow> jobject" where
  "deepMerge base patch = fold (\<lambda>kv result.
     mset_key result (fst kv)
       (if isPlainObject (snd kv) \<and> isPlainObject (okey base (fst kv))
        then JObj (deepMerge (as_object (okey base (fst kv))) (as_object (snd kv)))
        else snd kv)) patch base"
  by pat_completeness auto
termination
proof (relation "measure (size_list (size_prod (\<lambda>_. 0) size) \<circ> snd)", goal_cases)
  case (2 base patch kv)
  then have "size (snd kv) \<le> size_list (size_prod (\<lambda>_. 0) size) patch"
    by (intro size_list_estimation' [of kv]) (auto simp: size_prod_snd)
  with 2 show ?case by (cases "snd kv") auto
qed simp

declare deepMerge.simps [simp del]

text \<open>The dotted leaf paths of a patch.\<close>

definition path_sep :: "string \<Rightarrow> string \<Rightarrow> string" where
  "path_sep prefix' k = (if prefix' \<noteq> [] then prefix' @ ''.'' @ k else k)"

function flattenPatchPaths :: "json \<Rightarrow> string \<Rightarrow> string list" where
  "flattenPatchPaths v prefix' =
    (case v of
       JObj kvs \<Rightarrow> concat (map (\<lambda>kv. flattenPatchPaths (snd kv) (path_sep prefix' (fst kv))) kvs)
     | _ \<Rightarrow> if prefix' \<noteq> [] then [prefix'] else [])"
  by pat_completeness auto
termination
proof (relation "measure (size \<circ> fst)", goal_cases)
  case (2 v prefix' kvs kv)
  then have "size (snd kv) \<le> size_list (size_prod (\<lambda>_. 0) size) kvs"
    by (intro size_list_estimation' [of kv]) (auto simp: size_prod_snd)
  with 2 show ?case by simp
qed simp

declare flattenPatchPaths.simps [simp del]

record rebaseResult =
  rb_edited :: jobject
  rb_overlapping :: "string list"

definition rebaseEdits :: "jobject \<Rightarrow> jobject \<Rightarrow> string list \<Rightarrow> rebaseResult" where
  "rebaseEdits freshBase pendingPatch serverChangedKeys =
    (let pendingKeys = flattenPatchPaths (JObj pendingPatch) [];
         overlapping = sort (filter (\<lambda>k. k \<in> set serverChangedKeys) pendingKeys)
     in \<lparr>rb_edited = deepMerge freshBase pendingPatch, rb_overlapping = overlapping\<rparr>)"

subsection \<open>What changed on the server\<close>

function collectDiffPaths :: "json \<Rightarrow> json \<Rightarrow> string \<Rightarrow> string list" where
  "collectDiffPaths a b prefix' =
    (if isPlainObject a \<or> isPlainObject b
     then let ao = as_object a; bo = as_object b
          in concat (map (\<lambda>k. collectDiffPaths (okey ao k) (okey bo k) (prefix' @ ''.'' @ k))
               (remdups (map fst ao @ map fst bo)))
     else if \<not> valuesEqual a b then [prefix'] else [])"
  by pat_completeness auto
termination
proof (relation "measure (\<lambda>(a, b, p). size a + size b)", goal_cases)
  case (2 a b p ao bo k)
  then have "size (okey ao k) + size (okey bo k) < size a + size b"
    using size_okey [of ao k] size_okey [of bo k] by (cases a; cases b) auto
  then show ?case by simp
qed simp

declare collectDiffPaths.simps [simp del]

definition diffChangedSectionKeys :: "jobject \<Rightarrow> jobject \<Rightarrow> string list" where
  "diffChangedSectionKeys before after =
    sort (concat (map (\<lambda>section. collectDiffPaths (okey before section) (okey after section) section)
      (remdups (map fst before @ map fst after))))"

subsection \<open>The save preview\<close>

record configField =
  cf_path :: string
  cf_data_type :: string
  cf_default_value :: string

record configChangeEntry =
  ce_path :: string
  ce_before :: json
  ce_after :: json
  ce_arrayReplacement :: bool
  ce_field :: "configField option"

text \<open>The replacement of every bracketed decimal index by an empty pair of brackets.\<close>

function concreteToCatalogPath :: "string \<Rightarrow> string" where
  "concreteToCatalogPath [] = []"
| "concreteToCatalogPath (c # s) =
    (let digits = takeWhile is_digit s; rest = dropWhile is_digit s
     in if c = CHR ''['' \<and> digits \<noteq> [] \<and> rest \<noteq> [] \<and> hd rest = CHR '']''
        then ''[]'' @ concreteToCatalogPath (tl rest)
        else c # concreteToCatalogPath s)"
  by pat_completeness auto
termination
proof (relation "measure length", goal_cases)
  case (2 c s digits rest)
  then have "length rest \<le> length s" by (simp add: length_dropWhile_le)
  with 2 show ?case by auto
qed simp_all

definition changeEntry :: "string \<Rightarrow> json \<Rightarrow> json \<Rightarrow> bool \<Rightarrow> configField list \<Rightarrow> configChangeEntry" where
  "changeEntry path before after arrayReplacement catalog =
    (let catalogPath = concreteToCatalogPath path;
         field = find (\<lambda>candidate.
           if arrayReplacement
           then cf_path candidate = catalogPath \<or> startsWith (cf_path candidate) (catalogPath @ ''[].'') \<or>
                startsWith (cf_path candidate) (catalogPath @ ''.'')
           else cf_path candidate = catalogPath) catalog
     in \<lparr>ce_path = path, ce_before = before, ce_after = after, ce_arrayReplacement = arrayReplacement, ce_field = field\<rparr>)"

fun isArray :: "json \<Rightarrow> bool" where
  "isArray (JArr _) = True"
| "isArray _ = False"

function deepEqual :: "json \<Rightarrow> json \<Rightarrow> bool" where
  "deepEqual a b =
    (case (a, b) of
       (JArr xs, JArr ys) \<Rightarrow> length xs = length ys \<and> list_all (\<lambda>p. deepEqual (fst p) (snd p)) (zip xs ys)
     | (JObj ao, JObj bo) \<Rightarrow> length ao = length bo \<and>
         (\<forall>k\<in>set (map fst ao). k \<in> set (map fst bo) \<and> deepEqual (okey ao k) (okey bo k))
     | _ \<Rightarrow> a = b)"
  by pat_completeness auto
termination
proof (relation "measure (\<lambda>(a, b). size a)", goal_cases)
  case (2 a b x y xs ys p)
  then have p: "p \<in> set (zip xs ys)" "a = JArr xs" by auto
  then have "fst p \<in> set xs" by (metis prod.collapse set_zip_leftD)
  then have "size (fst p) \<le> size_list size xs" by (auto intro: size_list_estimation')
  with p show ?case by (auto simp: split_beta)
next
  case (3 a b x y ao bo k)
  then show ?case using size_okey [of ao k] by auto
qed simp

declare deepEqual.simps [simp del]

text \<open>\<open>Object.is\<close> on objects compares references; a reference shared by both sides holds equal values,
  and equal values produce no entry in either branch, so the model needs it on primitives only.\<close>

function collectChanges :: "json \<Rightarrow> json \<Rightarrow> string \<Rightarrow> configField list \<Rightarrow> configChangeEntry list" where
  "collectChanges before after path catalog =
    (if isArray before \<or> isArray after
     then if deepEqual before after then [] else [changeEntry path before after True catalog]
     else if isPlainObject before \<and> isPlainObject after
     then let ao = as_object before; bo = as_object after
          in concat (map (\<lambda>k. collectChanges (okey ao k) (okey bo k) (path_sep path k) catalog)
               (sort (remdups (map fst ao @ map fst bo))))
     else if before = after then [] else [changeEntry path before after False catalog])"
  by pat_completeness auto
termination
proof (relation "measure (\<lambda>(a, b, p, f). size a + size b)", goal_cases)
  case (2 a b p f ao bo k)
  then have "size (okey ao k) + size (okey bo k) < size a + size b"
    using size_okey [of ao k] size_okey [of bo k] by (cases a; cases b) auto
  then show ?case by simp
qed simp

declare collectChanges.simps [simp del]

text \<open>\<open>localeCompare\<close> orders the paths; the order is a parameter, given by a key of a linear order.\<close>

definition configChangeEntries ::
  "(string \<Rightarrow> 'o::linorder) \<Rightarrow> jobject \<Rightarrow> jobject \<Rightarrow> configField list \<Rightarrow> configChangeEntry list" where
  "configChangeEntries collate before after catalog =
    sort_key (\<lambda>e. collate (ce_path e)) (collectChanges (JObj before) (JObj after) [] catalog)"

end
