(* ===== verification/Config_Props.thy ===== *)
theory Config_Props
  imports Config_Diff
begin

text \<open>
  What the configuration page's object algebra guarantees: the PATCH body carries exactly the edit,
  rebasing keeps both the admin's and the server's changes, and the two lists of changes shown to the
  admin (the conflict banner and the save preview) are complete.
\<close>

subsection \<open>Reading merged objects\<close>

lemma okey_mset_key [simp]: "okey (mset_key kvs k v) k' = (if k' = k then v else okey kvs k')"
  by (simp add: okey_def js_map_simps)

lemma okey_fold_put:
  assumes "distinct (map fst xs)"
  shows "okey (fold (\<lambda>kv m. mset_key m (fst kv) (f kv)) xs m) k =
    (case map_of xs k of None \<Rightarrow> okey m k | Some v \<Rightarrow> f (k, v))"
  using assms
proof (induction xs arbitrary: m)
  case (Cons kv xs)
  obtain k0 v0 where kv: "kv = (k0, v0)" by (cases kv)
  with Cons have "map_of xs k0 = None" by (simp add: map_of_eq_None_iff)
  with Cons kv show ?case by (auto split: option.split)
qed simp

lemma keys_fold_put: "fst ` set (fold (\<lambda>kv m. mset_key m (fst kv) (f kv)) xs m) = fst ` set m \<union> fst ` set xs"
proof (induction xs arbitrary: m)
  case (Cons kv xs)
  show ?case by (simp add: Cons dom_update)
qed simp

definition mergeValue :: "json \<Rightarrow> json \<Rightarrow> json" where
  "mergeValue b p = (if isPlainObject p \<and> isPlainObject b then JObj (deepMerge (as_object b) (as_object p)) else p)"

lemma okey_deepMerge:
  "distinct (map fst patch) \<Longrightarrow> okey (deepMerge base patch) k =
    (case map_of patch k of None \<Rightarrow> okey base k | Some pv \<Rightarrow> mergeValue (okey base k) pv)"
  by (subst deepMerge.simps) (simp add: okey_fold_put mergeValue_def split: option.split)

lemma keys_deepMerge: "fst ` set (deepMerge base patch) = fst ` set base \<union> fst ` set patch"
  by (subst deepMerge.simps) (rule keys_fold_put)

lemma deepMerge_Nil [simp]: "deepMerge base [] = base"
  by (subst deepMerge.simps) simp

lemma map_of_okey: "distinct (map fst kvs) \<Longrightarrow> k \<in> fst ` set kvs \<Longrightarrow> map_of kvs k = Some (okey kvs k)"
  by (auto simp: okey_def)

lemma valuesEqual_objI:
  assumes "\<And>k. valuesEqual (okey ao k) (okey bo k)"
  shows "valuesEqual (JObj ao) (JObj bo)"
  using assms by simp

text \<open>Keys outside both objects read as \<open>undefined\<close>, so equality may range over all keys.\<close>

lemma valuesEqual_objD: "valuesEqual (JObj ao) (JObj bo) \<Longrightarrow> valuesEqual (okey ao k) (okey bo k)"
  by (cases "k \<in> set (map fst ao @ map fst bo)") (auto simp: okey_notin)

lemma valuesEqual_obj_iff: "valuesEqual (JObj ao) (JObj bo) \<longleftrightarrow> (\<forall>k. valuesEqual (okey ao k) (okey bo k))"
  using valuesEqual_objI valuesEqual_objD by blast

lemma merge_into_empty: "distinct (map fst xs) \<Longrightarrow> okey (deepMerge [] xs) k = okey xs k"
  by (cases "map_of xs k") (simp_all add: okey_deepMerge mergeValue_def okey_def [of xs])

lemma is_object_cases: "isPlainObject v \<Longrightarrow> \<exists>kvs. v = JObj kvs"
  by (cases v) auto

subsection \<open>Entry-wise constructions\<close>

lemma map_of_concat_entries:
  assumes "\<And>kv. g kv = [] \<or> (\<exists>v. g kv = [(fst kv, v)])" "distinct (map fst xs)"
  shows "map_of (concat (map g xs)) k = (case map_of xs k of None \<Rightarrow> None | Some v \<Rightarrow> map_of (g (k, v)) k)"
  using assms(2)
proof (induction xs)
  case (Cons kv xs)
  obtain k0 v0 where kv: "kv = (k0, v0)" by (cases kv)
  from Cons.prems kv have no: "map_of xs k0 = None" by (simp add: map_of_eq_None_iff)
  from assms(1) [of kv] kv have "g kv = [] \<or> (\<exists>v. g kv = [(k0, v)])" by simp
  with Cons kv no show ?case by (auto simp: map_add_def split: option.split)
qed simp

lemma keys_concat_entries:
  assumes "\<And>kv. g kv = [] \<or> (\<exists>v. g kv = [(fst kv, v)])" "distinct (map fst xs)"
  shows "distinct (map fst (concat (map g xs)))"
  using assms(2)
proof (induction xs)
  case (Cons kv xs)
  have sub: "fst ` set (concat (map g xs)) \<subseteq> fst ` set xs"
  proof
    fix k assume "k \<in> fst ` set (concat (map g xs))"
    then obtain x where x: "x \<in> set xs" "k \<in> fst ` set (g x)" by auto
    with assms(1) [of x] show "k \<in> fst ` set xs" by auto
  qed
  from assms(1) [of kv] show ?case
  proof (elim disjE exE)
    fix v assume "g kv = [(fst kv, v)]"
    with Cons sub show ?thesis by (simp add: subset_iff) blast
  qed (use Cons in simp)
qed simp

definition diffEntry :: "jobject \<Rightarrow> string \<times> json \<Rightarrow> jobject" where
  "diffEntry original kv =
    (if isPlainObject (snd kv) \<and> isPlainObject (okey original (fst kv))
     then (case diffObject (as_object (okey original (fst kv))) (snd kv) of None \<Rightarrow> [] | Some n \<Rightarrow> [(fst kv, JObj n)])
     else if \<not> valuesEqual (okey original (fst kv)) (snd kv) then [kv] else [])"

definition diffList :: "jobject \<Rightarrow> jobject \<Rightarrow> jobject" where
  "diffList original ed = concat (map (diffEntry original) ed)"

lemma diffObject_list: "diffObject original (JObj ed) = (if diffList original ed = [] then None else Some (diffList original ed))"
proof -
  have "diffEntry original = (\<lambda>kv. let key = fst kv; editedValue = snd kv; originalValue = okey original key
      in if isPlainObject editedValue \<and> isPlainObject originalValue
         then (case diffObject (as_object originalValue) editedValue of
                 None \<Rightarrow> [] | Some nested \<Rightarrow> [(key, JObj nested)])
         else if \<not> valuesEqual originalValue editedValue then [(key, editedValue)] else [])"
    by (rule ext) (simp add: diffEntry_def Let_def)
  then show ?thesis by (subst diffObject.simps) (simp only: json.case Let_def diffList_def)
qed

lemma diffEntry_shape: "diffEntry original kv = [] \<or> (\<exists>v. diffEntry original kv = [(fst kv, v)])"
  by (cases kv) (auto simp: diffEntry_def split: option.split)

lemmas map_of_diffList = map_of_concat_entries [where g = "diffEntry original" for original, OF diffEntry_shape, folded diffList_def]
lemmas keys_diffList = keys_concat_entries [where g = "diffEntry original" for original, OF diffEntry_shape, folded diffList_def]

subsection \<open>The patch carries the edit\<close>

lemma apply_diffList:
  "wf_json (JObj ed) \<Longrightarrow> valuesEqual (JObj (deepMerge o' (diffList o' ed))) (JObj (deepMerge o' ed))"
proof (induction "JObj ed" arbitrary: ed o' rule: measure_induct_rule [of size])
  case (less ed o')
  have dist: "distinct (map fst ed)" using less.prems by simp
  note rd = okey_deepMerge [OF keys_diffList [OF dist]] okey_deepMerge [OF dist] map_of_diffList [OF dist]
  show ?case
  proof (rule valuesEqual_objI)
    fix k
    show "valuesEqual (okey (deepMerge o' (diffList o' ed)) k) (okey (deepMerge o' ed) k)"
    proof (cases "map_of ed k")
      case None
      then show ?thesis
        by (simp add: rd)
    next
      case (Some v)
      have mem: "(k, v) \<in> set ed" using Some by (rule map_of_SomeD)
      show ?thesis
      proof (cases "isPlainObject v \<and> isPlainObject (okey o' k)")
        case True
        then obtain vo ov where ob: "v = JObj vo" "okey o' k = JObj ov" by (auto dest!: is_object_cases)
        have "size v \<le> size_list (size_prod (\<lambda>_. 0) size) ed"
          using mem by (intro size_list_estimation' [of "(k, v)"]) auto
        moreover have "wf_json v" using less.prems mem by auto
        ultimately have IH: "valuesEqual (JObj (deepMerge ov (diffList ov vo))) (JObj (deepMerge ov vo))"
          using less.hyps [of vo ov] ob by simp
        have "diffEntry o' (k, v) = (if diffList ov vo = [] then [] else [(k, JObj (diffList ov vo))])"
          using ob by (simp add: diffEntry_def diffObject_list)
        then show ?thesis
          using Some ob IH by (cases "diffList ov vo = []") (simp_all add: rd mergeValue_def del: valuesEqual_obj)
      next
        case False
        then have "diffEntry o' (k, v) = (if valuesEqual (okey o' k) v then [] else [(k, v)])"
          by (auto simp: diffEntry_def)
        with False Some show ?thesis
          by (auto simp: rd mergeValue_def simp del: valuesEqual_obj)
      qed
    qed
  qed
qed

definition patchEntry :: "jobject \<Rightarrow> string \<times> json \<Rightarrow> jobject" where
  "patchEntry original kv =
    (if isPlainObject (snd kv)
     then (case diffObject (as_object (okey original (fst kv))) (snd kv) of None \<Rightarrow> [] | Some n \<Rightarrow> [(fst kv, JObj n)])
     else if \<not> valuesEqual (okey original (fst kv)) (snd kv) then [kv] else [])"

lemma buildConfigPatch_entries: "buildConfigPatch original ed = concat (map (patchEntry original) ed)"
proof -
  have "patchEntry original = (\<lambda>(section, editedSection).
     let originalSection = okey original section
     in if isPlainObject editedSection
        then (case diffObject (if isPlainObject originalSection then as_object originalSection else []) editedSection of
                None \<Rightarrow> [] | Some sectionPatch \<Rightarrow> [(section, JObj sectionPatch)])
        else if \<not> valuesEqual originalSection editedSection then [(section, editedSection)] else [])"
    by (rule ext, rename_tac kv, case_tac "okey original (fst kv)") (auto simp: patchEntry_def Let_def split_beta)
  then show ?thesis by (simp only: buildConfigPatch_def)
qed

lemma patchEntry_shape: "patchEntry original kv = [] \<or> (\<exists>v. patchEntry original kv = [(fst kv, v)])"
  by (cases kv) (auto simp: patchEntry_def split: option.split)

lemmas map_of_patch = map_of_concat_entries [where g = "patchEntry original" for original, OF patchEntry_shape, folded buildConfigPatch_entries]
lemmas keys_patch = keys_concat_entries [where g = "patchEntry original" for original, OF patchEntry_shape, folded buildConfigPatch_entries]

text \<open>A section can only be sent when it has something in it: an empty table that replaces a missing
  section or another kind of value is not part of a patch.\<close>

definition sendable :: "jobject \<Rightarrow> jobject \<Rightarrow> bool" where
  "sendable original ed \<longleftrightarrow> (\<forall>(k, v)\<in>set ed. v = JObj [] \<longrightarrow> isPlainObject (okey original k))"

lemma diffList_Nil_empty:
  assumes "wf_json (JObj ed)" "diffList [] ed = []"
  shows "ed = []"
proof (rule ccontr)
  assume "ed \<noteq> []"
  then obtain k v r where "ed = (k, v) # r" by (metis list.exhaust prod.exhaust)
  with assms show False by (auto simp: diffList_def diffEntry_def split: if_splits)
qed

lemma mergeValue_patchEntry:
  assumes "wf_json v" "v = JObj [] \<longrightarrow> isPlainObject (okey o' k)"
  shows "valuesEqual (case map_of (patchEntry o' (k, v)) k of None \<Rightarrow> okey o' k | Some p \<Rightarrow> mergeValue (okey o' k) p)
    (mergeValue (okey o' k) v)"
proof (cases "isPlainObject v")
  case False
  then show ?thesis by (simp add: patchEntry_def mergeValue_def del: valuesEqual_obj)
next
  case True
  then obtain vo where v: "v = JObj vo" by (auto dest: is_object_cases)
  let ?oo = "as_object (okey o' k)"
  have pe: "patchEntry o' (k, v) = (if diffList ?oo vo = [] then [] else [(k, JObj (diffList ?oo vo))])"
    using v by (simp add: patchEntry_def diffObject_list)
  have eq: "valuesEqual (JObj (deepMerge ?oo (diffList ?oo vo))) (JObj (deepMerge ?oo vo))"
    using assms(1) v by (intro apply_diffList) simp
  show ?thesis
  proof (cases "isPlainObject (okey o' k)")
    case True
    then obtain ov where "okey o' k = JObj ov" by (auto dest: is_object_cases)
    with pe eq v show ?thesis
      by (cases "diffList ?oo vo = []") (simp_all add: mergeValue_def del: valuesEqual_obj)
  next
    case False
    then have oo: "?oo = []" by (cases "okey o' k") auto
    have "diffList [] vo \<noteq> []" using diffList_Nil_empty [of vo] assms v False by auto
    moreover have "valuesEqual (JObj (diffList [] vo)) (JObj vo)"
      using eq assms(1) v keys_diffList [of vo "[]"] unfolding oo valuesEqual_obj_iff by (simp add: merge_into_empty)
    ultimately show ?thesis
      using pe oo v False by (simp add: mergeValue_def del: valuesEqual_obj)
  qed
qed

lemma diffList_equal:
  "wf_json (JObj ed) \<Longrightarrow> valuesEqual (JObj o') (JObj ed) \<Longrightarrow> diffList o' ed = []"
proof (induction "JObj ed" arbitrary: ed o' rule: measure_induct_rule [of size])
  case (less ed o')
  have "diffEntry o' (k, v) = []" if kv: "(k, v) \<in> set ed" for k v
  proof -
    have "okey ed k = v" using less.prems(1) kv by (intro okey_mem) simp_all
    then have eq: "valuesEqual (okey o' k) v" using valuesEqual_objD [OF less.prems(2), of k] by simp
    show ?thesis
    proof (cases "isPlainObject v \<and> isPlainObject (okey o' k)")
      case True
      then obtain vo ov where ob: "v = JObj vo" "okey o' k = JObj ov" by (auto dest!: is_object_cases)
      have "size v \<le> size_list (size_prod (\<lambda>_. 0) size) ed"
        using kv by (intro size_list_estimation' [of "(k, v)"]) auto
      moreover have "wf_json v" using less.prems kv by auto
      ultimately have "diffList ov vo = []" using less.hyps [of vo ov] ob eq by simp
      with ob show ?thesis by (simp add: diffEntry_def diffObject_list)
    next
      case False
      then show ?thesis using eq by (auto simp: diffEntry_def)
    qed
  qed
  then show ?case by (auto simp: diffList_def)
qed

lemma patch_equal_empty:
  assumes "wf_json (JObj ed)" "valuesEqual (JObj o') (JObj ed)"
  shows "buildConfigPatch o' ed = []"
proof -
  have "patchEntry o' (k, v) = []" if kv: "(k, v) \<in> set ed" for k v
  proof -
    have "okey ed k = v" using assms(1) kv by (intro okey_mem) simp_all
    then have eq: "valuesEqual (okey o' k) v" using valuesEqual_objD [OF assms(2), of k] by simp
    show ?thesis
    proof (cases "isPlainObject v")
      case True
      then obtain vo ov where ob: "v = JObj vo" "okey o' k = JObj ov"
        using valuesEqual_kind [OF eq] by (auto dest!: is_object_cases)
      have wf: "wf_json v" using assms(1) kv by auto
      have "diffList ov vo = []"
        using wf eq ob by (intro diffList_equal) auto
      with ob show ?thesis by (simp add: patchEntry_def diffObject_list)
    next
      case False
      then show ?thesis using eq by (simp add: patchEntry_def)
    qed
  qed
  then show ?thesis by (auto simp: buildConfigPatch_entries)
qed

subsection \<open>Equality and changes, written without the code's comparison\<close>

text \<open>Two values are the same up to the order of the keys of their tables.\<close>

inductive sameJson :: "json \<Rightarrow> json \<Rightarrow> bool" where
  same_refl: "sameJson a a"
| same_arr: "list_all2 sameJson xs ys \<Longrightarrow> sameJson (JArr xs) (JArr ys)"
| same_obj: "(\<And>k. sameJson (okey ao k) (okey bo k)) \<Longrightarrow> sameJson (JObj ao) (JObj bo)"
monos list.rel_mono

lemma valuesEqual_same: "valuesEqual a b \<longleftrightarrow> sameJson a b"
proof
  show "valuesEqual a b" if "sameJson a b"
    using that
  proof (induction rule: sameJson.induct)
    case (same_arr xs ys)
    then show ?case by (auto elim: list.rel_mono_strong)
  next
    case (same_obj ao bo)
    then show ?case by (intro valuesEqual_objI) blast
  qed simp
next
  show "sameJson a b" if "valuesEqual a b"
    using that
  proof (induction a arbitrary: b rule: measure_induct_rule [of size])
    case (less a)
    show ?case
    proof (cases a)
      case (JArr xs)
      show ?thesis
      proof (cases "\<exists>ys. b = JArr ys")
        case True
        then obtain ys where b: "b = JArr ys" by blast
        have "list_all2 valuesEqual xs ys" using less.prems JArr b by simp
        moreover have "size x < size a" if "x \<in> set xs" for x
          using size_list_estimation' [OF that, of "size x" size] JArr by simp
        ultimately have "list_all2 sameJson xs ys" using less.IH by (auto elim!: list.rel_mono_strong)
        then show ?thesis using JArr b by (simp add: same_arr)
      next
        case False
        then have "a = b" using less.prems JArr by (subst (asm) valuesEqual.simps) (auto split: json.splits)
        then show ?thesis by (simp add: same_refl)
      qed
    next
      case (JObj ao)
      with less.prems obtain bo where b: "b = JObj bo" using valuesEqual_kind [of a b] by (auto dest: is_object_cases)
      have "sameJson (okey ao k) (okey bo k)" for k
        using less.IH [of "okey ao k"] size_okey [of ao k] valuesEqual_objD [of ao bo k] less.prems JObj b by simp
      then show ?thesis using JObj b by (simp add: same_obj)
    qed (use less.prems in \<open>simp_all add: valuesEqual_scalar same_refl\<close>)
  qed
qed

lemma same_undef [simp]: "sameJson JUndef b \<longleftrightarrow> b = JUndef" "sameJson a JUndef \<longleftrightarrow> a = JUndef"
  unfolding valuesEqual_same [symmetric] by simp_all

fun getPath :: "json \<Rightarrow> string list \<Rightarrow> json" where
  "getPath v [] = v"
| "getPath v (k # ks) = getPath (jprop v k) ks"

function leafPaths :: "json \<Rightarrow> string list list" where
  "leafPaths v = (case v of
       JObj kvs \<Rightarrow> concat (map (\<lambda>kv. map (Cons (fst kv)) (leafPaths (snd kv))) kvs)
     | _ \<Rightarrow> [[]])"
  by pat_completeness auto
termination
proof (relation "measure size", goal_cases)
  case (2 v kvs kv)
  then have "size (snd kv) \<le> size_list (size_prod (\<lambda>_. 0) size) kvs"
    by (intro size_list_estimation' [of kv]) (auto simp: size_prod_snd)
  with 2 show ?case by simp
qed simp

declare leafPaths.simps [simp del]

lemma leafPaths_obj: "leafPaths (JObj kvs) = concat (map (\<lambda>kv. map (Cons (fst kv)) (leafPaths (snd kv))) kvs)"
  by (subst leafPaths.simps) simp

lemma leafPaths_leaf: "\<not> isPlainObject v \<Longrightarrow> leafPaths v = [[]]"
  by (subst leafPaths.simps) (cases v; simp)

lemma leafPaths_empty [simp]: "leafPaths (JObj []) = []"
  by (simp add: leafPaths_obj)

lemma leaf_Nil [simp]: "[] \<in> set (leafPaths v) \<longleftrightarrow> \<not> isPlainObject v"
  by (cases v) (auto simp: leafPaths_obj leafPaths_leaf)

lemma leaf_Cons:
  assumes "distinct (map fst kvs)"
  shows "k # ks \<in> set (leafPaths (JObj kvs)) \<longleftrightarrow> (\<exists>v. map_of kvs k = Some v \<and> ks \<in> set (leafPaths v))"
  using assms by (auto simp: leafPaths_obj) (force dest: map_of_SomeD)+

lemma getPath_undef [simp]: "getPath JUndef ks = JUndef"
  by (induction ks) simp_all

lemma getPath_as_object: "ks \<noteq> [] \<Longrightarrow> getPath (JObj (as_object v)) ks = getPath v ks"
  by (cases ks; cases v) simp_all

lemma leaf_value: "wf_json v \<Longrightarrow> p \<in> set (leafPaths v) \<Longrightarrow> getPath v p \<noteq> JUndef \<and> \<not> isPlainObject (getPath v p)"
proof (induction p arbitrary: v)
  case Nil
  then show ?case by auto
next
  case (Cons k ks)
  then obtain kvs where v: "v = JObj kvs" by (cases v) (simp_all add: leafPaths_leaf)
  have dist: "distinct (map fst kvs)" using Cons.prems(1) v by simp
  with Cons.prems v obtain w where w: "map_of kvs k = Some w" "ks \<in> set (leafPaths w)" by (auto simp: leaf_Cons)
  then have "wf_json w" using Cons.prems(1) v by (auto dest: map_of_SomeD)
  with Cons.IH [OF this w(2)] w(1) v show ?case by (simp add: okey_def)
qed

text \<open>The fields whose value in a document is not the one in another.\<close>

definition changedLeaves :: "jobject \<Rightarrow> jobject \<Rightarrow> string list set" where
  "changedLeaves before after =
    {p \<in> set (leafPaths (JObj after)). \<not> sameJson (getPath (JObj before) p) (getPath (JObj after) p)}"

lemma changed_Cons:
  assumes "distinct (map fst after)"
  shows "k # ks \<in> changedLeaves before after \<longleftrightarrow>
    (\<exists>v. map_of after k = Some v \<and> ks \<in> set (leafPaths v) \<and> \<not> sameJson (getPath (okey before k) ks) (getPath v ks))"
  using assms by (auto simp: changedLeaves_def leaf_Cons okey_def)

text \<open>A value that is not a table, or that replaces something that is not one, is changed as a whole.\<close>

lemma whole_value_changed:
  assumes "wf_json v" "\<not> (isPlainObject v \<and> isPlainObject old)" "ks \<in> set (leafPaths v)"
  shows "sameJson (getPath old ks) (getPath v ks) \<longleftrightarrow> valuesEqual old v"
proof (cases "isPlainObject v")
  case True
  then obtain c cs where ks: "ks = c # cs" using assms(3) by (cases ks) auto
  have "getPath old ks = JUndef" using assms(2) True ks by (cases old) auto
  moreover have "getPath v ks \<noteq> JUndef" using leaf_value [OF assms(1,3)] by blast
  ultimately show ?thesis using assms(2) True valuesEqual_kind [of old v] by auto
next
  case False
  then show ?thesis using assms(3) by (simp add: leafPaths_leaf valuesEqual_same)
qed

lemma diffList_leaves:
  "wf_json (JObj ed) \<Longrightarrow>
    (p \<in> set (leafPaths (JObj (diffList o' ed))) \<longleftrightarrow> p \<in> changedLeaves o' ed) \<and>
    (p \<in> changedLeaves o' ed \<longrightarrow> getPath (JObj (diffList o' ed)) p = getPath (JObj ed) p)"
proof (induction p arbitrary: o' ed)
  case Nil
  show ?case by (auto simp: changedLeaves_def)
next
  case (Cons k ks)
  have dist: "distinct (map fst ed)" using Cons.prems by simp
  show ?case
  proof (cases "map_of ed k")
    case None
    then show ?thesis by (simp add: leaf_Cons [OF keys_diffList [OF dist]] changed_Cons [OF dist] map_of_diffList [OF dist])
  next
    case (Some v)
    then have wf: "wf_json v" using Cons.prems by (auto dest: map_of_SomeD)
    note ch = changed_Cons [OF dist, of k ks o'] and lf = leaf_Cons [OF keys_diffList [OF dist], of k ks o']
    have rd: "map_of (diffList o' ed) k = map_of (diffEntry o' (k, v)) k" using Some by (simp add: map_of_diffList [OF dist])
    show ?thesis
    proof (cases "isPlainObject v \<and> isPlainObject (okey o' k)")
      case True
      then obtain vo ov where ob: "v = JObj vo" "okey o' k = JObj ov" by (auto dest!: is_object_cases)
      have entry: "map_of (diffEntry o' (k, v)) k = (if diffList ov vo = [] then None else Some (JObj (diffList ov vo)))"
        using ob by (simp add: diffEntry_def diffObject_list)
      have IH: "ks \<in> set (leafPaths (JObj (diffList ov vo))) \<longleftrightarrow> ks \<in> changedLeaves ov vo"
        "ks \<in> changedLeaves ov vo \<Longrightarrow> getPath (JObj (diffList ov vo)) ks = getPath v ks"
        using Cons.IH [of vo ov] wf ob by auto
      have "k # ks \<in> changedLeaves o' ed \<longleftrightarrow> ks \<in> changedLeaves ov vo"
        unfolding ch using Some ob by (simp add: changedLeaves_def)
      moreover have "k # ks \<in> set (leafPaths (JObj (diffList o' ed))) \<longleftrightarrow> ks \<in> set (leafPaths (JObj (diffList ov vo)))"
        unfolding lf rd entry by auto
      moreover have "getPath (JObj (diffList o' ed)) (k # ks) = getPath v ks" if "ks \<in> changedLeaves ov vo"
      proof -
        have "diffList ov vo \<noteq> []" using that IH(1) by (auto simp: leafPaths_obj)
        then show ?thesis using IH(2) [OF that] by (simp add: okey_def rd entry)
      qed
      ultimately show ?thesis using IH(1) Some by (auto simp: okey_def)
    next
      case False
      then have entry: "map_of (diffEntry o' (k, v)) k = (if valuesEqual (okey o' k) v then None else Some v)"
        by (auto simp: diffEntry_def)
      show ?thesis
        using Some whole_value_changed [OF wf False, of ks] by (auto simp: ch lf rd entry okey_def)
    qed
  qed
qed

lemma patch_leaves:
  assumes "wf_json (JObj ed)"
  shows "set (leafPaths (JObj (buildConfigPatch o' ed))) = changedLeaves o' ed"
    and "p \<in> changedLeaves o' ed \<Longrightarrow> getPath (JObj (buildConfigPatch o' ed)) p = getPath (JObj ed) p"
proof -
  have dist: "distinct (map fst ed)" using assms by simp
  have both: "(p \<in> set (leafPaths (JObj (buildConfigPatch o' ed))) \<longleftrightarrow> p \<in> changedLeaves o' ed) \<and>
    (p \<in> changedLeaves o' ed \<longrightarrow> getPath (JObj (buildConfigPatch o' ed)) p = getPath (JObj ed) p)" for p
  proof (cases p)
    case Nil
    then show ?thesis by (auto simp: changedLeaves_def)
  next
    case (Cons k ks)
    show ?thesis
    proof (cases "map_of ed k")
      case None
      then show ?thesis using Cons
        by (simp add: leaf_Cons [OF keys_patch [OF dist]] changed_Cons [OF dist] map_of_patch [OF dist])
    next
      case (Some v)
      then have wf: "wf_json v" using assms by (auto dest: map_of_SomeD)
      note ch = changed_Cons [OF dist, of k ks o'] and lf = leaf_Cons [OF keys_patch [OF dist], of k ks o']
      have rd: "map_of (buildConfigPatch o' ed) k = map_of (patchEntry o' (k, v)) k" using Some by (simp add: map_of_patch [OF dist])
      show ?thesis
      proof (cases "isPlainObject v")
        case True
        then obtain vo where v: "v = JObj vo" by (auto dest: is_object_cases)
        let ?oo = "as_object (okey o' k)"
        have entry: "map_of (patchEntry o' (k, v)) k = (if diffList ?oo vo = [] then None else Some (JObj (diffList ?oo vo)))"
          using v by (simp add: patchEntry_def diffObject_list)
        note sub = diffList_leaves [of vo ks ?oo]
        have "ks \<noteq> []" if "ks \<in> set (leafPaths v)" using that v by auto
        then have c: "k # ks \<in> changedLeaves o' ed \<longleftrightarrow> ks \<in> changedLeaves ?oo vo"
          unfolding ch using Some v by (auto simp: changedLeaves_def getPath_as_object)
        have l: "k # ks \<in> set (leafPaths (JObj (buildConfigPatch o' ed))) \<longleftrightarrow> ks \<in> set (leafPaths (JObj (diffList ?oo vo)))"
          unfolding lf rd entry by auto
        have "diffList ?oo vo \<noteq> []" if "ks \<in> set (leafPaths (JObj (diffList ?oo vo)))" using that by (auto simp: leafPaths_obj)
        then have "okey (buildConfigPatch o' ed) k = JObj (diffList ?oo vo)" if "ks \<in> set (leafPaths (JObj (diffList ?oo vo)))"
          using that by (simp add: okey_def [of "buildConfigPatch o' ed"] rd entry)
        moreover have "okey ed k = JObj vo" using Some v by (simp add: okey_def [of ed])
        ultimately show ?thesis using sub c l wf v Cons by auto
      next
        case False
        then have entry: "map_of (patchEntry o' (k, v)) k = (if valuesEqual (okey o' k) v then None else Some v)"
          by (auto simp: patchEntry_def)
        show ?thesis
          using Some Cons False whole_value_changed [OF wf, of "okey o' k" ks] by (auto simp: ch lf rd entry okey_def)
      qed
    qed
  qed
  then show "set (leafPaths (JObj (buildConfigPatch o' ed))) = changedLeaves o' ed"
    and "p \<in> changedLeaves o' ed \<Longrightarrow> getPath (JObj (buildConfigPatch o' ed)) p = getPath (JObj ed) p" by blast+
qed

text \<open>An edit that removes nothing: every key of a table is still in the table of the other document.\<close>

function keeps_keys :: "json \<Rightarrow> json \<Rightarrow> bool" where
  "keeps_keys a b =
    (case (a, b) of
       (JObj ao, JObj bo) \<Rightarrow> (\<forall>k\<in>set (map fst ao). k \<in> fst ` set bo \<and> keeps_keys (okey ao k) (okey bo k))
     | _ \<Rightarrow> True)"
  by pat_completeness auto
termination
proof (relation "measure (\<lambda>(a, b). size a)", goal_cases)
  case (2 a b x y ao bo k)
  then show ?case using size_okey [of ao k] by auto
qed simp

declare keeps_keys.simps [simp del]

lemma keeps_keys_obj [simp]:
  "keeps_keys (JObj ao) (JObj bo) \<longleftrightarrow> (\<forall>k\<in>fst ` set ao. k \<in> fst ` set bo \<and> keeps_keys (okey ao k) (okey bo k))"
  by (subst keeps_keys.simps) simp

lemma merge_whole:
  "wf_json (JObj ed) \<Longrightarrow> keeps_keys (JObj o') (JObj ed) \<Longrightarrow> valuesEqual (JObj (deepMerge o' ed)) (JObj ed)"
proof (induction "JObj ed" arbitrary: ed o' rule: measure_induct_rule [of size])
  case (less ed o')
  have dist: "distinct (map fst ed)" using less.prems by simp
  show ?case
  proof (rule valuesEqual_objI)
    fix k
    show "valuesEqual (okey (deepMerge o' ed) k) (okey ed k)"
    proof (cases "map_of ed k")
      case None
      then have "k \<notin> fst ` set ed" by (simp add: map_of_eq_None_iff)
      then have "k \<notin> fst ` set o'" using less.prems(2) by auto
      then have "okey o' k = JUndef" by (rule okey_notin)
      moreover have "okey ed k = JUndef" using None by (simp add: okey_def)
      ultimately show ?thesis using None by (simp add: okey_deepMerge [OF dist])
    next
      case (Some v)
      then have v: "okey ed k = v" "(k, v) \<in> set ed" by (auto simp: okey_def dest: map_of_SomeD)
      show ?thesis
      proof (cases "isPlainObject v \<and> isPlainObject (okey o' k)")
        case True
        then obtain vo ov where ob: "v = JObj vo" "okey o' k = JObj ov" by (auto dest!: is_object_cases)
        have "size v < size (JObj ed)" using size_okey [of ed k] v(1) by simp
        moreover have "wf_json v" using less.prems(1) v(2) by auto
        moreover have "keeps_keys (okey o' k) v"
          using less.prems(2) v(1) ob(2) okey_notin [of k o'] by (cases "k \<in> fst ` set o'") auto
        ultimately have "valuesEqual (JObj (deepMerge ov vo)) (JObj vo)" using less.hyps [of vo ov] ob by simp
        then show ?thesis using Some ob v(1) by (simp add: okey_deepMerge [OF dist] mergeValue_def del: valuesEqual_obj)
      next
        case False
        then show ?thesis using Some v(1) by (auto simp: okey_deepMerge [OF dist] mergeValue_def)
      qed
    qed
  qed
qed

lemma valuesEqual_scalar': "\<not> isPlainObject b \<Longrightarrow> \<not> (\<exists>xs. b = JArr xs) \<Longrightarrow> valuesEqual a b \<longleftrightarrow> a = b"
  by (subst valuesEqual.simps) (auto split: json.splits)

lemma valuesEqual_trans: "valuesEqual a b \<Longrightarrow> valuesEqual b c \<Longrightarrow> valuesEqual a c"
proof (induction b arbitrary: a c rule: measure_induct_rule [of size])
  case (less b)
  show ?case
  proof (cases b)
    case (JArr ys)
    from less.prems obtain xs zs where ac: "a = JArr xs" "c = JArr zs"
      using JArr by (subst (asm) valuesEqual.simps, subst (asm) (2) valuesEqual.simps) (auto split: json.splits)
    have sz: "size y < size b" if "y \<in> set ys" for y using size_list_estimation' [OF that, of "size y" size] JArr by simp
    have l: "length xs = length ys" "length ys = length zs" "\<And>i. i < length ys \<Longrightarrow> valuesEqual (xs ! i) (ys ! i) \<and> valuesEqual (ys ! i) (zs ! i)"
      using less.prems ac JArr by (auto simp: list_all2_conv_all_nth)
    have "valuesEqual (xs ! i) (zs ! i)" if "i < length ys" for i
      using less.IH [OF sz, of "ys ! i"] l(3) [OF that] that by auto
    then show ?thesis using ac l(1,2) by (simp add: list_all2_conv_all_nth)
  next
    case (JObj bo)
    from less.prems obtain ao co where ac: "a = JObj ao" "c = JObj co"
      using JObj valuesEqual_kind by (metis is_object_cases isPlainObject.simps(1))
    have "valuesEqual (okey ao k) (okey co k)" for k
      using less.IH [of "okey bo k"] size_okey [of bo k] less.prems valuesEqual_objD ac JObj by fastforce
    then show ?thesis unfolding ac by (rule valuesEqual_objI)
  qed (use less.prems in \<open>auto simp: valuesEqual_scalar valuesEqual_scalar'\<close>)
qed

lemma patch_merges:
  assumes "wf_json (JObj edited)" "sendable original edited"
  shows "valuesEqual (JObj (deepMerge original (buildConfigPatch original edited))) (JObj (deepMerge original edited))"
proof (rule valuesEqual_objI)
  fix k
  have dist: "distinct (map fst edited)" using assms(1) by simp
  show "valuesEqual (okey (deepMerge original (buildConfigPatch original edited)) k) (okey (deepMerge original edited) k)"
  proof (cases "map_of edited k")
    case None
    then show ?thesis
      by (simp add: okey_deepMerge [OF keys_patch [OF dist]] okey_deepMerge [OF dist] map_of_patch [OF dist])
  next
    case (Some v)
    then have "(k, v) \<in> set edited" by (rule map_of_SomeD)
    then have "wf_json v" "v = JObj [] \<longrightarrow> isPlainObject (okey original k)"
      using assms by (auto simp: sendable_def)
    from mergeValue_patchEntry [OF this] Some show ?thesis
      by (simp add: okey_deepMerge [OF keys_patch [OF dist]] okey_deepMerge [OF dist] map_of_patch [OF dist])
  qed
qed

text \<open>C7. The PATCH body carries exactly the edit. Telemt deep-merges the body into its tables; merging
  the body the panel builds gives the same configuration as merging the whole edited document -- which is the
  edited document itself when the edit removed no key, a merge never removing one. The fields of the body are exactly the
  fields whose value was edited, each with its edited value, and the body is empty when nothing was edited.
  (An edited section that is an empty table replacing something else is the one edit that is not sent, hence \<open>sendable\<close>.)\<close>

theorem patch_carries_the_edit:
  fixes original edited :: jobject
  defines "body \<equiv> buildConfigPatch original edited"
  assumes "wf_json (JObj edited)" "sendable original edited"
  shows "sameJson (JObj (deepMerge original body)) (JObj (deepMerge original edited)) \<and>
    (keeps_keys (JObj original) (JObj edited) \<longrightarrow> sameJson (JObj (deepMerge original body)) (JObj edited)) \<and>
    set (leafPaths (JObj body)) = changedLeaves original edited \<and>
    (\<forall>p\<in>set (leafPaths (JObj body)). getPath (JObj body) p = getPath (JObj edited) p) \<and>
    (sameJson (JObj original) (JObj edited) \<longrightarrow> body = [])"
proof -
  have merged: "valuesEqual (JObj (deepMerge original body)) (JObj (deepMerge original edited))"
    unfolding body_def by (rule patch_merges [OF assms(2,3)])
  moreover have "valuesEqual (JObj (deepMerge original body)) (JObj edited)" if "keeps_keys (JObj original) (JObj edited)"
    using merged merge_whole [OF assms(2) that] by (rule valuesEqual_trans)
  ultimately show ?thesis
    using patch_leaves [OF assms(2), where o' = original] patch_equal_empty [OF assms(2), of original]
    unfolding body_def valuesEqual_same by blast
qed

theorem patch_carries_the_edit_witness:
  "let original = [(''general'', JObj [(''port'', JNum 443), (''host'', JStr ''a'')])];
       edited = [(''general'', JObj [(''port'', JNum 8443), (''host'', JStr ''a'')]), (''list'', JArr [JNum 1])]
   in sameJson (JObj (deepMerge original (buildConfigPatch original edited))) (JObj edited)"
proof -
  let ?o = "[(''general'', JObj [(''port'', JNum 443), (''host'', JStr ''a'')])]"
  let ?e = "[(''general'', JObj [(''port'', JNum 8443), (''host'', JStr ''a'')]), (''list'', JArr [JNum 1])]"
  have "wf_json (JObj ?e)" "sendable ?o ?e" by (simp_all add: sendable_def)
  moreover have "keeps_keys (JObj ?o) (JObj ?e)" by (simp add: keeps_keys.simps [of "JNum _"] keeps_keys.simps [of "JStr _"])
  ultimately show ?thesis using patch_carries_the_edit [of ?e ?o] by (simp only: Let_def simp_thms)
qed

subsection \<open>Rebasing\<close>

text \<open>A path leaves an object when some key along it is missing; then a merge with the object does
  not concern it.\<close>

fun leaves :: "json \<Rightarrow> string list \<Rightarrow> bool" where
  "leaves (JObj kvs) (k # ks) = (if k \<in> fst ` set kvs then leaves (okey kvs k) ks else True)"
| "leaves _ _ = False"

text \<open>Tables that are not empty and whose keys contain no dot, all the way down.\<close>

function plain_tables :: "json \<Rightarrow> bool" where
  "plain_tables v = (case v of
       JObj kvs \<Rightarrow> kvs \<noteq> [] \<and> list_all (\<lambda>kv. fst kv \<noteq> [] \<and> CHR ''.'' \<notin> set (fst kv) \<and> plain_tables (snd kv)) kvs
     | _ \<Rightarrow> True)"
  by pat_completeness auto
termination
proof (relation "measure size", goal_cases)
  case (2 v kvs kv)
  then have "size (snd kv) \<le> size_list (size_prod (\<lambda>_. 0) size) kvs"
    by (intro size_list_estimation' [of kv]) (auto simp: size_prod_snd)
  with 2 show ?case by simp
qed simp

declare plain_tables.simps [simp del]

lemma plain_tables_obj [simp]: "plain_tables (JObj kvs) \<longleftrightarrow> kvs \<noteq> [] \<and>
    (\<forall>(k, v)\<in>set kvs. k \<noteq> [] \<and> CHR ''.'' \<notin> set k \<and> plain_tables v)"
  by (subst plain_tables.simps) (auto simp: list_all_iff split_beta)

lemma plain_tables_scalar [simp]: "plain_tables JUndef" "plain_tables JNull" "plain_tables (JBool b)"
  "plain_tables (JNum n)" "plain_tables (JStr s)" "plain_tables (JArr xs)"
  by (simp_all add: plain_tables.simps [of JUndef] plain_tables.simps [of JNull] plain_tables.simps [of "JBool _"]
      plain_tables.simps [of "JNum _"] plain_tables.simps [of "JStr _"] plain_tables.simps [of "JArr _"])

lemma jprop_merged:
  assumes "distinct (map fst patch)"
  shows "jprop (JObj (deepMerge base patch)) k =
    (if k \<in> fst ` set patch then mergeValue (okey base k) (okey patch k) else okey base k)"
proof (cases "k \<in> fst ` set patch")
  case True
  with map_of_okey [OF assms] show ?thesis by (simp add: okey_deepMerge [OF assms])
next
  case False
  then have "map_of patch k = None" by (simp add: map_of_eq_None_iff)
  with False show ?thesis by (simp add: okey_deepMerge [OF assms])
qed

lemma merge_keeps_others:
  "leaves (JObj patch) p \<Longrightarrow> wf_json (JObj patch) \<Longrightarrow> getPath (JObj (deepMerge base patch)) p = getPath (JObj base) p"
proof (induction p arbitrary: base patch)
  case (Cons k ks)
  have dist: "distinct (map fst patch)" using Cons.prems by simp
  show ?case
  proof (cases "k \<in> fst ` set patch")
    case False
    then show ?thesis by (simp add: jprop_merged [OF dist] del: jprop.simps) simp
  next
    case True
    with Cons.prems have lv: "leaves (okey patch k) ks" by simp
    then obtain po where po: "okey patch k = JObj po" by (cases "okey patch k") auto
    have wf: "wf_json (JObj po)" using wf_okey [OF Cons.prems(2) True] po by simp
    have "getPath (mergeValue (okey base k) (JObj po)) ks = getPath (okey base k) ks"
    proof (cases "isPlainObject (okey base k)")
      case True
      then obtain bo where "okey base k = JObj bo" by (auto dest: is_object_cases)
      with Cons.IH [of po bo] lv po wf show ?thesis by (simp add: mergeValue_def)
    next
      case False
      obtain k' ks' where ks: "ks = k' # ks'" using lv po by (cases ks) auto
      have undef: "jprop (okey base k) k' = JUndef" using False by (cases "okey base k") auto
      have "getPath (JObj (deepMerge [] po)) ks = getPath (JObj []) ks"
        using Cons.IH [of po "[]"] lv po wf by simp
      then have "getPath (JObj po) ks = getPath JUndef ks'"
        using wf ks by (simp add: merge_into_empty)
      with False undef ks show ?thesis by (simp add: mergeValue_def)
    qed
    with True po show ?thesis by (simp add: jprop_merged [OF dist] del: jprop.simps) simp
  qed
qed simp

lemma merge_sets_leaves:
  "p \<in> set (leafPaths (JObj patch)) \<Longrightarrow> wf_json (JObj patch) \<Longrightarrow>
    getPath (JObj (deepMerge base patch)) p = getPath (JObj patch) p"
proof (induction p arbitrary: base patch)
  case (Cons k ks)
  have dist: "distinct (map fst patch)" using Cons.prems by simp
  obtain v where kv: "(k, v) \<in> set patch" "ks \<in> set (leafPaths v)"
    using Cons.prems(1) by (auto simp: leafPaths_obj)
  have v: "okey patch k = v" "k \<in> fst ` set patch" using okey_mem [OF dist kv(1)] kv(1) by force+
  have wf: "wf_json v" using Cons.prems(2) kv(1) by auto
  have "getPath (mergeValue (okey base k) v) ks = getPath v ks"
  proof (cases "isPlainObject v \<and> isPlainObject (okey base k)")
    case True
    then obtain vo bo where "v = JObj vo" "okey base k = JObj bo" by (auto dest!: is_object_cases)
    with Cons.IH [of vo bo] kv wf show ?thesis by (simp add: mergeValue_def)
  qed (auto simp: mergeValue_def)
  with v show ?case by (simp add: jprop_merged [OF dist] del: jprop.simps) simp
qed (auto simp: leafPaths_obj)

lemma path_cases:
  "plain_tables v \<Longrightarrow> wf_json v \<Longrightarrow> leaves v p \<or> (\<exists>q\<in>set (leafPaths v). prefix q p \<or> prefix p q)"
proof (induction p arbitrary: v)
  case Nil
  have "leafPaths v \<noteq> []" if "plain_tables v" "wf_json v" for v
    using that
  proof (induction v rule: measure_induct_rule [of size])
    case (less v)
    show ?case
    proof (cases v)
      case (JObj kvs)
      with less.prems obtain k w r where kvs: "kvs = (k, w) # r" by (cases kvs) auto
      then have "leafPaths w \<noteq> []" using less JObj by simp
      then show ?thesis using JObj kvs by (simp add: leafPaths_obj)
    qed (simp_all add: leafPaths_leaf)
  qed
  with Nil have "leafPaths v \<noteq> []" by blast
  then show ?case by (metis list.set_sel(1) prefix_bot.extremum)
next
  case (Cons k ks)
  show ?case
  proof (cases "isPlainObject v")
    case False
    then show ?thesis by (simp add: leafPaths_leaf)
  next
    case True
    then obtain kvs where v: "v = JObj kvs" by (auto dest: is_object_cases)
    show ?thesis
    proof (cases "k \<in> fst ` set kvs")
      case True
      then have kv: "(k, okey kvs k) \<in> set kvs" using Cons.prems v by (auto simp: okey_mem)
      then have "plain_tables (okey kvs k)" "wf_json (okey kvs k)" using Cons.prems v by auto
      from Cons.IH [OF this] consider "leaves (okey kvs k) ks"
        | q where "q \<in> set (leafPaths (okey kvs k))" "prefix q ks \<or> prefix ks q"
        by auto
      then show ?thesis
      proof cases
        case 1
        then show ?thesis using v True by simp
      next
        case 2
        then have "k # q \<in> set (leafPaths v)" using kv v by (force simp: leafPaths_obj)
        with 2(2) show ?thesis by (metis Cons_prefix_Cons)
      qed
    next
      case False
      then show ?thesis using v by simp
    qed
  qed
qed

definition dotted :: "string list \<Rightarrow> string" where
  "dotted p = join ''.'' p"

lemma dotted_Cons: "ks \<noteq> [] \<Longrightarrow> dotted (k # ks) = k @ ''.'' @ dotted ks"
  by (cases ks) (simp_all add: dotted_def)

lemma flatten_dotted:
  "plain_tables v \<Longrightarrow> pre \<noteq> [] \<Longrightarrow>
    flattenPatchPaths v pre = map (\<lambda>q. if q = [] then pre else pre @ ''.'' @ dotted q) (leafPaths v)"
proof (induction v arbitrary: pre rule: measure_induct_rule [of size])
  case (less v)
  show ?case
  proof (cases v)
    case (JObj kvs)
    have step: "flattenPatchPaths w (path_sep pre k) =
        map ((\<lambda>q. if q = [] then pre else pre @ ''.'' @ dotted q) \<circ> Cons k) (leafPaths w)"
      if kw: "(k, w) \<in> set kvs" for k w
    proof -
      have "size w \<le> size_list (size_prod (\<lambda>_. 0) size) kvs"
        using kw by (intro size_list_estimation' [of "(k, w)"]) auto
      then have "flattenPatchPaths w (path_sep pre k) =
          map (\<lambda>q. if q = [] then path_sep pre k else path_sep pre k @ ''.'' @ dotted q) (leafPaths w)"
        using less kw JObj by (intro less.IH) (auto simp: path_sep_def)
      also have "\<dots> = map ((\<lambda>q. if q = [] then pre else pre @ ''.'' @ dotted q) \<circ> Cons k) (leafPaths w)"
        using less.prems(2) by (intro map_cong refl) (auto simp: path_sep_def dotted_Cons, simp add: dotted_def)
      finally show ?thesis .
    qed
    have "flattenPatchPaths v pre = concat (map (\<lambda>kv. flattenPatchPaths (snd kv) (path_sep pre (fst kv))) kvs)"
      by (subst flattenPatchPaths.simps) (simp add: JObj)
    also have "\<dots> = concat (map (\<lambda>kv. map ((\<lambda>q. if q = [] then pre else pre @ ''.'' @ dotted q) \<circ> Cons (fst kv)) (leafPaths (snd kv))) kvs)"
      using step by (intro arg_cong [of _ _ concat] map_cong refl) auto
    finally show ?thesis by (simp add: JObj leafPaths_obj map_concat comp_def)
  qed (use less.prems(2) in \<open>subst flattenPatchPaths.simps; simp add: leafPaths_leaf\<close>)+
qed

lemma flatten_patch:
  assumes "plain_tables (JObj patch)"
  shows "flattenPatchPaths (JObj patch) [] = map dotted (leafPaths (JObj patch))"
proof -
  have step: "flattenPatchPaths w k = map (dotted \<circ> Cons k) (leafPaths w)" if "(k, w) \<in> set patch" for k w
  proof -
    have "flattenPatchPaths w k = map (\<lambda>q. if q = [] then k else k @ ''.'' @ dotted q) (leafPaths w)"
      using assms that by (intro flatten_dotted) auto
    also have "\<dots> = map (dotted \<circ> Cons k) (leafPaths w)"
      by (intro map_cong refl) (auto simp: dotted_Cons, simp add: dotted_def)
    finally show ?thesis .
  qed
  have "flattenPatchPaths (JObj patch) [] = concat (map (\<lambda>kv. flattenPatchPaths (snd kv) (fst kv)) patch)"
    by (subst flattenPatchPaths.simps) (simp add: path_sep_def)
  also have "\<dots> = concat (map (\<lambda>kv. map (dotted \<circ> Cons (fst kv)) (leafPaths (snd kv))) patch)"
    using step by (intro arg_cong [of _ _ concat] map_cong refl) auto
  finally show ?thesis by (simp add: leafPaths_obj map_concat comp_def)
qed

text \<open>C24. Rebasing keeps both sides. After a revision conflict the rebased document holds the admin's
  value at every leaf of the pending patch, and the server's fresh value at every path the patch does
  not reach; the overlaps reported are exactly the pending leaves that are in the list of server-side changes; and if
  there is none, then every changed server path -- one that is not above or below a pending leaf -- keeps the
  server's value. (That side condition is needed: the comment in the code says that without overlap nothing of the
  server can be lost, which \<open>rebase_misses_table_replacement\<close> below shows to be too much.)\<close>

theorem rebase_keeps_both_sides:
  fixes fresh patch serverKeys
  defines "r \<equiv> rebaseEdits fresh patch serverKeys"
  assumes "wf_json (JObj patch)" "plain_tables (JObj patch)"
  shows "(\<forall>q\<in>set (leafPaths (JObj patch)). getPath (JObj (rb_edited r)) q = getPath (JObj patch) q) \<and>
    (\<forall>p. leaves (JObj patch) p \<longrightarrow> getPath (JObj (rb_edited r)) p = getPath (JObj fresh) p) \<and>
    set (rb_overlapping r) = {k \<in> set serverKeys. \<exists>q\<in>set (leafPaths (JObj patch)). dotted q = k} \<and>
    (\<forall>p. rb_overlapping r = [] \<and> dotted p \<in> set serverKeys \<and>
       (\<forall>q\<in>set (leafPaths (JObj patch)). \<not> strict_prefix q p \<and> \<not> strict_prefix p q) \<longrightarrow>
       getPath (JObj (rb_edited r)) p = getPath (JObj fresh) p)"
proof -
  have edited: "rb_edited r = deepMerge fresh patch" by (simp add: r_def rebaseEdits_def)
  have off: "getPath (JObj (rb_edited r)) p = getPath (JObj fresh) p" if "leaves (JObj patch) p" for p
    using merge_keeps_others [OF that assms(2)] by (simp add: edited)
  have "leaves (JObj patch) p"
    if "rb_overlapping r = []" "dotted p \<in> set serverKeys"
      "\<forall>q\<in>set (leafPaths (JObj patch)). \<not> strict_prefix q p \<and> \<not> strict_prefix p q" for p
  proof (rule ccontr)
    assume "\<not> leaves (JObj patch) p"
    with path_cases [OF assms(3,2), of p] that(3) have "p \<in> set (leafPaths (JObj patch))"
      by (auto simp: strict_prefix_def)
    then have "dotted p \<in> set (rb_overlapping r)"
      using that(2) by (simp add: r_def rebaseEdits_def flatten_patch [OF assms(3)])
    with that(1) show False by simp
  qed
  moreover have "set (rb_overlapping r) = {k \<in> set serverKeys. \<exists>q\<in>set (leafPaths (JObj patch)). dotted q = k}"
    by (auto simp: r_def rebaseEdits_def flatten_patch [OF assms(3)])
  ultimately show ?thesis using off merge_sets_leaves [OF _ assms(2)] unfolding edited by blast
qed

theorem rebase_keeps_both_sides_witness:
  "let fresh = [(''general'', JObj [(''port'', JNum 443), (''host'', JStr ''new'')])];
       patch = [(''general'', JObj [(''port'', JNum 8443)])]; r = rebaseEdits fresh patch [''general.host'']
   in getPath (JObj (rb_edited r)) [''general'', ''port''] = getPath (JObj patch) [''general'', ''port''] \<and>
      getPath (JObj (rb_edited r)) [''general'', ''host''] = JStr ''new''"
proof -
  let ?patch = "[(''general'', JObj [(''port'', JNum 8443)])]"
  have "leafPaths (JObj ?patch) = [[''general'', ''port'']]" by (simp add: leafPaths_obj leafPaths_leaf)
  moreover have "leaves (JObj ?patch) [''general'', ''host'']" by simp
  note facts = this calculation
  let ?fresh = "[(''general'', JObj [(''port'', JNum 443), (''host'', JStr ''new'')])]"
  let ?r = "rebaseEdits ?fresh ?patch [''general.host'']"
  have both: "wf_json (JObj ?patch)" "plain_tables (JObj ?patch)" by simp_all
  note keeps = rebase_keeps_both_sides [OF both, of ?fresh "[''general.host'']"]
  have "getPath (JObj (rb_edited ?r)) [''general'', ''port''] = getPath (JObj ?patch) [''general'', ''port'']"
    by (rule keeps [THEN conjunct1, THEN bspec]) (simp add: facts)
  moreover have "getPath (JObj (rb_edited ?r)) [''general'', ''host''] = getPath (JObj ?fresh) [''general'', ''host'']"
    by (rule keeps [THEN conjunct2, THEN conjunct1, THEN spec, THEN mp]) simp
  ultimately show ?thesis by (simp add: Let_def)
qed

text \<open>The list of overlaps compares leaf paths as strings, so it does not see a pending edit that
  replaces a table as a whole: here the admin turned \<open>g.b\<close> into a number while the server changed
  \<open>g.b.c\<close>. No overlap is reported and the rebased document drops the server's change.\<close>

lemma rebase_misses_table_replacement:
  "let base = [(''g'', JObj [(''b'', JObj [(''c'', JNum 1)])])];
       fresh = [(''g'', JObj [(''b'', JObj [(''c'', JNum 2)])])];
       patch = buildConfigPatch base [(''g'', JObj [(''b'', JNum 5)])];
       r = rebaseEdits fresh patch (diffChangedSectionKeys base fresh)
   in diffChangedSectionKeys base fresh = [''g.b.c''] \<and> rb_overlapping r = [] \<and>
      getPath (JObj fresh) [''g'', ''b'', ''c''] = JNum 2 \<and> getPath (JObj (rb_edited r)) [''g'', ''b'', ''c''] = JUndef"
proof -
  have patch: "buildConfigPatch [(''g'', JObj [(''b'', JObj [(''c'', JNum 1)])])] [(''g'', JObj [(''b'', JNum 5)])] =
      [(''g'', JObj [(''b'', JNum 5)])]"
    by (simp add: buildConfigPatch_entries patchEntry_def diffObject_list diffList_def diffEntry_def valuesEqual.simps)
  have keys: "diffChangedSectionKeys [(''g'', JObj [(''b'', JObj [(''c'', JNum 1)])])]
      [(''g'', JObj [(''b'', JObj [(''c'', JNum 2)])])] = [''g.b.c'']"
    by (simp add: diffChangedSectionKeys_def collectDiffPaths.simps valuesEqual_scalar)
  show ?thesis
    unfolding Let_def patch keys
    by (simp add: rebaseEdits_def flattenPatchPaths.simps path_sep_def deepMerge.simps)
qed

subsection \<open>Completeness of the lists of changes\<close>

lemma concat_map_Nil: "concat (map f xs) = [] \<longleftrightarrow> (\<forall>x\<in>set xs. f x = [])"
  by auto

lemma collectDiffPaths_complete:
  assumes "wf_json a \<or> a = JUndef" "wf_json b \<or> b = JUndef" "plain_tables a" "plain_tables b"
  shows "collectDiffPaths a b pre = [] \<longleftrightarrow> valuesEqual a b"
  using assms
proof (induction "size a + size b" arbitrary: a b pre rule: less_induct)
  case less
  show ?case
  proof (cases "isPlainObject a \<or> isPlainObject b")
    case False
    then show ?thesis by (subst collectDiffPaths.simps) simp
  next
    case True
    let ?ao = "as_object a" and ?bo = "as_object b"
    have parts: "size (okey ?ao k) + size (okey ?bo k) < size a + size b"
      "wf_json (okey ?ao k) \<or> okey ?ao k = JUndef" "wf_json (okey ?bo k) \<or> okey ?bo k = JUndef"
      "plain_tables (okey ?ao k)" "plain_tables (okey ?bo k)" for k
    proof -
      show "size (okey ?ao k) + size (okey ?bo k) < size a + size b"
        using True size_okey [of ?ao k] size_okey [of ?bo k] by (cases a; cases b) auto
      have "(wf_json (okey (as_object v) k) \<or> okey (as_object v) k = JUndef) \<and> plain_tables (okey (as_object v) k)"
        if "wf_json v \<or> v = JUndef" "plain_tables v" for v
        using that by (cases v) (auto simp: okey_def split: option.split dest: map_of_SomeD)
      then show "wf_json (okey ?ao k) \<or> okey ?ao k = JUndef" "wf_json (okey ?bo k) \<or> okey ?bo k = JUndef"
        "plain_tables (okey ?ao k)" "plain_tables (okey ?bo k)"
        using less.prems by blast+
    qed
    have "collectDiffPaths a b pre = [] \<longleftrightarrow> (\<forall>k\<in>set (map fst ?ao @ map fst ?bo). valuesEqual (okey ?ao k) (okey ?bo k))"
      using True by (subst collectDiffPaths.simps) (simp add: Let_def concat_map_Nil less.hyps [OF parts] del: concat_eq_Nil_conv)
    also have "\<dots> \<longleftrightarrow> valuesEqual a b"
    proof (cases "isPlainObject a \<and> isPlainObject b")
      case True
      then obtain ao bo where "a = JObj ao" "b = JObj bo" by (auto dest!: is_object_cases)
      then show ?thesis by (simp only: valuesEqual_obj as_object.simps)
    next
      case False
      have "\<not> (\<forall>k\<in>set (map fst ?ao @ map fst ?bo). valuesEqual (okey ?ao k) (okey ?bo k))"
      proof -
        have some: "\<exists>k\<in>fst ` set kvs. okey kvs k \<noteq> JUndef" if "wf_json (JObj kvs)" "plain_tables (JObj kvs)" for kvs
          using that by (cases kvs) auto
        show ?thesis
        proof (cases "isPlainObject a")
          case True
          then obtain ao where a: "a = JObj ao" by (auto dest: is_object_cases)
          have b: "?bo = []" using False True by (cases b) auto
          from some [of ao] less.prems a show ?thesis by (auto simp: b)
        next
          case False
          then obtain bo where b: "b = JObj bo" using True by (auto dest: is_object_cases)
          have a: "?ao = []" using False by (cases a) auto
          from some [of bo] less.prems b show ?thesis by (auto simp: a)
        qed
      qed
      moreover have "\<not> valuesEqual a b" using True False valuesEqual_kind by blast
      ultimately show ?thesis by blast
    qed
    finally show ?thesis .
  qed
qed

lemma sort_key_empty: "sort_key f xs = [] \<longleftrightarrow> xs = []"
  by (metis length_0_conv length_sort)

lemma deepEqual_valuesEqual:
  "wf_json a \<Longrightarrow> wf_json b \<Longrightarrow> deepEqual a b = valuesEqual a b"
proof (induction a arbitrary: b rule: measure_induct_rule [of size])
  case (less a)
  show ?case
  proof (cases a)
    case (JArr xs)
    show ?thesis
    proof (cases b)
      case b: (JArr ys)
      have "deepEqual (fst p) (snd p) = valuesEqual (fst p) (snd p)" if p: "p \<in> set (zip xs ys)" for p
      proof -
        have mem: "fst p \<in> set xs" "snd p \<in> set ys" using p by (metis prod.collapse set_zip_leftD set_zip_rightD)+
        then have "size (fst p) \<le> size_list size xs" by (auto intro: size_list_estimation')
        then show ?thesis using less mem JArr b by simp
      qed
      then show ?thesis
        using JArr b by (subst deepEqual.simps) (auto simp: list_all_iff list_all2_iff)
    qed (subst deepEqual.simps, subst valuesEqual.simps, simp add: JArr)+
  next
    case (JObj ao)
    show ?thesis
    proof (cases b)
      case b: (JObj bo)
      have da: "distinct (map fst ao)" "distinct (map fst bo)" using less.prems JObj b by simp_all
      have IH: "deepEqual (okey ao k) (okey bo k) = valuesEqual (okey ao k) (okey bo k)"
        if "k \<in> fst ` set ao" "k \<in> fst ` set bo" for k
        using less that JObj b size_okey [of ao k] wf_okey by simp
      have undef: "okey kvs k \<noteq> JUndef" if "wf_json (JObj kvs)" "k \<in> fst ` set kvs" for kvs k
        using wf_okey [OF that] by auto
      have keys: "fst ` set ao = fst ` set bo"
        if "length ao = length bo" "fst ` set ao \<subseteq> fst ` set bo"
      proof (rule card_subset_eq)
        show "card (fst ` set ao) = card (fst ` set bo)"
          using that(1) distinct_card [OF da(1)] distinct_card [OF da(2)] by simp
      qed (use that in simp_all)
      have len: "length ao = length bo" if "fst ` set ao = fst ` set bo"
        using that da by (metis distinct_card length_map set_map)
      have "valuesEqual a b \<longleftrightarrow> fst ` set ao = fst ` set bo \<and>
          (\<forall>k\<in>fst ` set ao. valuesEqual (okey ao k) (okey bo k))"
      proof (intro iffI conjI)
        assume eq: "valuesEqual a b"
        show "fst ` set ao = fst ` set bo"
        proof (rule set_eqI)
          fix k
          have "valuesEqual (okey ao k) (okey bo k)" using eq JObj b valuesEqual_objD by blast
          then show "k \<in> fst ` set ao \<longleftrightarrow> k \<in> fst ` set bo"
            using undef [of ao k] undef [of bo k] less.prems JObj b okey_notin [of k] valuesEqual_undef by metis
        qed
        show "\<forall>k\<in>fst ` set ao. valuesEqual (okey ao k) (okey bo k)"
          using eq JObj b valuesEqual_objD by blast
      next
        assume h: "fst ` set ao = fst ` set bo \<and> (\<forall>k\<in>fst ` set ao. valuesEqual (okey ao k) (okey bo k))"
        show "valuesEqual a b"
          unfolding JObj b valuesEqual_obj set_append set_map using h by (metis Un_iff)
      qed
      moreover have "deepEqual a b \<longleftrightarrow> length ao = length bo \<and>
          (\<forall>k\<in>fst ` set ao. k \<in> fst ` set bo \<and> deepEqual (okey ao k) (okey bo k))"
        by (subst deepEqual.simps) (simp add: JObj b)
      ultimately show ?thesis using IH keys len by blast
    qed (subst deepEqual.simps, subst valuesEqual.simps, simp add: JObj)+
  qed (subst deepEqual.simps, subst valuesEqual.simps, simp split: json.split)+
qed

lemma collectChanges_complete:
  assumes "wf_json a \<or> a = JUndef" "wf_json b \<or> b = JUndef"
  shows "collectChanges a b path cat = [] \<longleftrightarrow> valuesEqual a b"
  using assms
proof (induction "size a + size b" arbitrary: a b path rule: less_induct)
  case less
  consider "isArray a \<or> isArray b" | "\<not> isArray a" "\<not> isArray b" "isPlainObject a \<and> isPlainObject b"
    | "\<not> isArray a" "\<not> isArray b" "\<not> (isPlainObject a \<and> isPlainObject b)" by blast
  then show ?case
  proof cases
    case 1
    then have "deepEqual a b = valuesEqual a b"
      using less.prems deepEqual_valuesEqual [of a b]
      by (auto simp: deepEqual.simps [of JUndef] deepEqual.simps [of _ JUndef] split: json.splits)
    with 1 show ?thesis by (subst collectChanges.simps) simp
  next
    case 2
    then obtain ao bo where ob: "a = JObj ao" "b = JObj bo" by (auto dest!: is_object_cases)
    have parts: "size (okey ao k) + size (okey bo k) < size a + size b"
      "wf_json (okey ao k) \<or> okey ao k = JUndef" "wf_json (okey bo k) \<or> okey bo k = JUndef" for k
      using ob less.prems size_okey [of ao k] size_okey [of bo k] wf_okey [of ao k] wf_okey [of bo k] okey_notin [of k]
      by auto
    show ?thesis
      using 2 ob by (subst collectChanges.simps) (auto simp: less.hyps [OF parts] Let_def)
  next
    case 3
    have "a = b \<longleftrightarrow> valuesEqual a b"
      using 3 valuesEqual_kind [of a b] by (cases a) (auto simp: valuesEqual_scalar)
    with 3 show ?thesis by (subst collectChanges.simps) auto
  qed
qed

text \<open>The lists, path by path. \<open>diffAt\<close> are the fields of either document that are a table in neither and differ;
  \<open>previewAt\<close> are the places where two documents, tables up to there, part.\<close>

definition diffAt :: "json \<Rightarrow> json \<Rightarrow> string list set" where
  "diffAt a b = {p \<in> set (leafPaths a) \<union> set (leafPaths b).
     \<not> isPlainObject (getPath a p) \<and> \<not> isPlainObject (getPath b p) \<and> \<not> sameJson (getPath a p) (getPath b p)}"

definition previewAt :: "json \<Rightarrow> json \<Rightarrow> string list set" where
  "previewAt a b = {p. (\<forall>q. strict_prefix q p \<longrightarrow> isPlainObject (getPath a q) \<and> isPlainObject (getPath b q)) \<and>
     \<not> (isPlainObject (getPath a p) \<and> isPlainObject (getPath b p)) \<and> \<not> sameJson (getPath a p) (getPath b p)}"

lemma getPath_Cons: "getPath v (k # ks) = getPath (okey (as_object v) k) ks"
  by (cases v) simp_all

lemma leaf_below:
  assumes "wf_json v \<or> v = JUndef"
  shows "k # ks \<in> set (leafPaths v) \<longleftrightarrow> k \<in> fst ` set (as_object v) \<and> ks \<in> set (leafPaths (okey (as_object v) k))"
proof (cases "isPlainObject v")
  case True
  then obtain kvs where v: "v = JObj kvs" by (auto dest: is_object_cases)
  with assms have dist: "distinct (map fst kvs)" by auto
  show ?thesis
  proof (cases "k \<in> fst ` set kvs")
    case True
    then show ?thesis unfolding v leaf_Cons [OF dist] map_of_okey [OF dist True] by simp
  next
    case False
    then have "map_of kvs k = None" by (simp add: map_of_eq_None_iff)
    with False show ?thesis unfolding v leaf_Cons [OF dist] by simp
  qed
next
  case False
  then show ?thesis by (cases v) (simp_all add: leafPaths_leaf)
qed

lemma object_part: "wf_json v \<or> v = JUndef \<Longrightarrow> wf_json (okey (as_object v) k) \<or> okey (as_object v) k = JUndef"
  by (cases v) (auto simp: okey_def split: option.split dest: map_of_SomeD)

lemma diffAt_below:
  assumes "wf_json a \<or> a = JUndef" "wf_json b \<or> b = JUndef" "isPlainObject a \<or> isPlainObject b"
  shows "diffAt a b = (\<Union>k\<in>set (map fst (as_object a) @ map fst (as_object b)).
    Cons k ` diffAt (okey (as_object a) k) (okey (as_object b) k))"
proof (rule set_eqI)
  fix p
  show "p \<in> diffAt a b \<longleftrightarrow> p \<in> (\<Union>k\<in>set (map fst (as_object a) @ map fst (as_object b)).
    Cons k ` diffAt (okey (as_object a) k) (okey (as_object b) k))"
  proof (cases p)
    case Nil
    then show ?thesis using assms(3) by (auto simp: diffAt_def)
  next
    case (Cons k ks)
    have no: "ks = [] \<and> k \<in> fst ` set (as_object b)"
      if "k \<notin> fst ` set (as_object a)" "k \<in> fst ` set (as_object a) \<union> fst ` set (as_object b)" "ks \<in> set (leafPaths (okey (as_object a) k))"
      for a b :: json
      using that okey_notin [of k "as_object a"] by (simp add: leafPaths_leaf)
    have "(k # ks \<in> set (leafPaths a) \<union> set (leafPaths b) \<and> \<not> isPlainObject (getPath a (k # ks)) \<and> \<not> isPlainObject (getPath b (k # ks))) \<longleftrightarrow>
      k \<in> fst ` set (as_object a) \<union> fst ` set (as_object b) \<and>
      ks \<in> set (leafPaths (okey (as_object a) k)) \<union> set (leafPaths (okey (as_object b) k)) \<and>
      \<not> isPlainObject (getPath (okey (as_object a) k) ks) \<and> \<not> isPlainObject (getPath (okey (as_object b) k) ks)"
    proof (cases "ks = []")
      case True
      have "isPlainObject (okey (as_object v) k) \<longrightarrow> k \<in> fst ` set (as_object v)" for v
        using okey_notin [of k "as_object v"] by (cases "k \<in> fst ` set (as_object v)") simp_all
      then show ?thesis
        unfolding Un_iff leaf_below [OF assms(1)] leaf_below [OF assms(2)] getPath_Cons unfolding True getPath.simps(1) leaf_Nil by blast
    next
      case False
      with no [of a b] no [of b a] show ?thesis
        unfolding Un_iff leaf_below [OF assms(1)] leaf_below [OF assms(2)] getPath_Cons by blast
    qed
    then have "k # ks \<in> diffAt a b \<longleftrightarrow> k \<in> fst ` set (as_object a) \<union> fst ` set (as_object b) \<and>
      ks \<in> diffAt (okey (as_object a) k) (okey (as_object b) k)"
      unfolding diffAt_def mem_Collect_eq getPath_Cons by blast
    then show ?thesis unfolding Cons set_append set_map UN_iff by blast
  qed
qed

lemma collectDiff_paths:
  assumes "wf_json a \<or> a = JUndef" "wf_json b \<or> b = JUndef"
  shows "set (collectDiffPaths a b pre) = (\<lambda>p. if p = [] then pre else pre @ ''.'' @ dotted p) ` diffAt a b"
  using assms
proof (induction "size a + size b" arbitrary: a b pre rule: less_induct)
  case less
  show ?case
  proof (cases "isPlainObject a \<or> isPlainObject b")
    case False
    then have "diffAt a b = (if sameJson a b then {} else {[]})" by (auto simp: diffAt_def leafPaths_leaf)
    then show ?thesis using False by (subst collectDiffPaths.simps) (simp add: valuesEqual_same)
  next
    case True
    let ?ao = "as_object a" and ?bo = "as_object b"
    have IH: "set (collectDiffPaths (okey ?ao k) (okey ?bo k) (pre @ ''.'' @ k)) =
        (\<lambda>p. if p = [] then pre @ ''.'' @ k else (pre @ ''.'' @ k) @ ''.'' @ dotted p) ` diffAt (okey ?ao k) (okey ?bo k)" for k
    proof (rule less.hyps)
      show "size (okey ?ao k) + size (okey ?bo k) < size a + size b"
        using True size_okey [of ?ao k] size_okey [of ?bo k] by (cases a; cases b) auto
    qed (use less.prems object_part in blast)+
    have name: "(if p = [] then pre @ ''.'' @ k else (pre @ ''.'' @ k) @ ''.'' @ dotted p) = pre @ ''.'' @ dotted (k # p)" for k p
      by (cases p) (simp_all add: dotted_Cons, simp add: dotted_def)
    have "set (collectDiffPaths a b pre) =
        (\<Union>k\<in>set (map fst ?ao @ map fst ?bo). (\<lambda>p. pre @ ''.'' @ dotted (k # p)) ` diffAt (okey ?ao k) (okey ?bo k))"
      using True by (subst collectDiffPaths.simps)
        (simp only: True if_True not_True_eq_False if_False Let_def set_concat set_map set_remdups image_image IH name)
    also have "\<dots> = (\<lambda>p. if p = [] then pre else pre @ ''.'' @ dotted p) ` diffAt a b"
      unfolding diffAt_below [OF less.prems True] image_UN image_image by simp
    finally show ?thesis .
  qed
qed

lemma section_diff_paths:
  assumes "wf_json (JObj before)" "wf_json (JObj after)"
  shows "set (diffChangedSectionKeys before after) = dotted ` diffAt (JObj before) (JObj after)"
proof -
  have part: "set (collectDiffPaths (okey before k) (okey after k) k) = (\<lambda>p. dotted (k # p)) ` diffAt (okey before k) (okey after k)" for k
  proof -
    have name: "(if p = [] then k else k @ ''.'' @ dotted p) = dotted (k # p)" for p
      by (cases p) (simp_all add: dotted_Cons, simp add: dotted_def)
    show ?thesis using collectDiff_paths [of "okey before k" "okey after k" k] object_part [of "JObj before" k] object_part [of "JObj after" k] assms
      by (simp only: name as_object.simps) blast
  qed
  have "diffAt (JObj before) (JObj after) = (\<Union>k\<in>set (map fst before @ map fst after). Cons k ` diffAt (okey before k) (okey after k))"
    using diffAt_below [of "JObj before" "JObj after"] assms by simp
  then show ?thesis by (simp only: diffChangedSectionKeys_def set_sort set_concat set_map set_remdups image_image part image_UN)
qed

lemma previewAt_below:
  assumes "isPlainObject a \<and> isPlainObject b"
  shows "previewAt a b = (\<Union>k\<in>set (map fst (as_object a) @ map fst (as_object b)).
    Cons k ` previewAt (okey (as_object a) k) (okey (as_object b) k))"
proof (rule set_eqI)
  fix p
  show "p \<in> previewAt a b \<longleftrightarrow> p \<in> (\<Union>k\<in>set (map fst (as_object a) @ map fst (as_object b)).
    Cons k ` previewAt (okey (as_object a) k) (okey (as_object b) k))"
  proof (cases p)
    case Nil
    then show ?thesis using assms by (auto simp: previewAt_def)
  next
    case (Cons k ks)
    have below: "(\<forall>q. strict_prefix q (k # ks) \<longrightarrow> isPlainObject (getPath a q) \<and> isPlainObject (getPath b q)) \<longleftrightarrow>
      (\<forall>q. strict_prefix q ks \<longrightarrow> isPlainObject (getPath a (k # q)) \<and> isPlainObject (getPath b (k # q)))"
    proof -
      have "strict_prefix q (k # ks) \<longleftrightarrow> q = [] \<or> (\<exists>q'. q = k # q' \<and> strict_prefix q' ks)" for q
        by (cases q) (auto simp: strict_prefix_def)
      moreover have "getPath a [] = a" "getPath b [] = b" by simp_all
      ultimately show ?thesis using assms by metis
    qed
    have "k \<in> set (map fst (as_object a) @ map fst (as_object b))" if "ks \<in> previewAt (okey (as_object a) k) (okey (as_object b) k)"
    proof (rule ccontr)
      assume "k \<notin> set (map fst (as_object a) @ map fst (as_object b))"
      then have "okey (as_object a) k = JUndef" "okey (as_object b) k = JUndef" by (auto intro: okey_notin)
      with that show False by (simp add: previewAt_def)
    qed
    moreover have "k # ks \<in> previewAt a b \<longleftrightarrow> ks \<in> previewAt (okey (as_object a) k) (okey (as_object b) k)"
      unfolding previewAt_def mem_Collect_eq below getPath_Cons by (rule refl)
    ultimately show ?thesis using Cons by auto
  qed
qed

lemma previewAt_part: "\<not> (isPlainObject a \<and> isPlainObject b) \<Longrightarrow> previewAt a b = (if sameJson a b then {} else {[]})"
proof -
  assume part: "\<not> (isPlainObject a \<and> isPlainObject b)"
  have "p = []" if "p \<in> previewAt a b" for p
  proof (rule ccontr)
    assume "p \<noteq> []"
    then have "strict_prefix [] p" by (simp add: strict_prefix_def)
    with that have "isPlainObject (getPath a []) \<and> isPlainObject (getPath b [])" unfolding previewAt_def by blast
    with part show False by simp
  qed
  moreover have "[] \<in> previewAt a b \<longleftrightarrow> \<not> sameJson a b" using part by (simp add: previewAt_def)
  ultimately show ?thesis by auto
qed

definition entryOf :: "configChangeEntry \<Rightarrow> string \<times> json \<times> json" where
  "entryOf e = (ce_path e, ce_before e, ce_after e)"

lemma entryOf_change [simp]: "entryOf (changeEntry path a b r cat) = (path, a, b)"
  by (simp add: entryOf_def changeEntry_def Let_def)

lemma collectChanges_part:
  assumes "wf_json a \<or> a = JUndef" "wf_json b \<or> b = JUndef" "\<not> (isPlainObject a \<and> isPlainObject b)"
  shows "entryOf ` set (collectChanges a b path cat) = (if sameJson a b then {} else {(path, a, b)})"
proof (cases "isArray a \<or> isArray b")
  case True
  then have "deepEqual a b = valuesEqual a b"
    using assms deepEqual_valuesEqual [of a b]
    by (auto simp: deepEqual.simps [of JUndef] deepEqual.simps [of _ JUndef] split: json.splits)
  with True show ?thesis by (subst collectChanges.simps) (simp add: valuesEqual_same)
next
  case False
  have "a = b \<longleftrightarrow> valuesEqual a b"
    using False assms(3) valuesEqual_kind [of a b] by (cases a) (auto simp: valuesEqual_scalar)
  with False assms(3) show ?thesis by (subst collectChanges.simps) (auto simp: valuesEqual_same)
qed

lemma collectChanges_paths:
  assumes "wf_json a \<or> a = JUndef" "wf_json b \<or> b = JUndef" "path \<noteq> []"
  shows "entryOf ` set (collectChanges a b path cat) =
    (\<lambda>p. (if p = [] then path else path @ ''.'' @ dotted p, getPath a p, getPath b p)) ` previewAt a b"
  using assms
proof (induction "size a + size b" arbitrary: a b path rule: less_induct)
  case less
  show ?case
  proof (cases "isPlainObject a \<and> isPlainObject b")
    case False
    then show ?thesis using collectChanges_part [OF less.prems(1,2) False] by (simp add: previewAt_part)
  next
    case True
    let ?ao = "as_object a" and ?bo = "as_object b"
    have IH: "entryOf ` set (collectChanges (okey ?ao k) (okey ?bo k) (path_sep path k) cat) =
        (\<lambda>p. (if p = [] then path_sep path k else path_sep path k @ ''.'' @ dotted p, getPath (okey ?ao k) p, getPath (okey ?bo k) p)) `
        previewAt (okey ?ao k) (okey ?bo k)" for k
    proof (rule less.hyps)
      show "size (okey ?ao k) + size (okey ?bo k) < size a + size b"
        using True size_okey [of ?ao k] size_okey [of ?bo k] by (cases a; cases b) auto
    qed (use less.prems object_part in \<open>auto simp: path_sep_def\<close>)
    have name: "(if p = [] then path_sep path k else path_sep path k @ ''.'' @ dotted p) = path @ ''.'' @ dotted (k # p)" for k p
      using less.prems(3) by (cases p) (simp_all add: dotted_Cons path_sep_def, simp add: dotted_def)
    have noarr: "\<not> (isArray a \<or> isArray b)" using True by (cases a; cases b) auto
    have "entryOf ` set (collectChanges a b path cat) = (\<Union>k\<in>set (map fst ?ao @ map fst ?bo).
        (\<lambda>p. (path @ ''.'' @ dotted (k # p), getPath a (k # p), getPath b (k # p))) ` previewAt (okey ?ao k) (okey ?bo k))"
      using True noarr by (subst collectChanges.simps)
        (simp only: True noarr if_True if_False simp_thms Let_def set_sort set_concat set_map set_remdups image_image image_UN IH name getPath_Cons)
    also have "\<dots> = (\<lambda>p. (if p = [] then path else path @ ''.'' @ dotted p, getPath a p, getPath b p)) ` previewAt a b"
      unfolding previewAt_below [OF True] image_UN image_image by simp
    finally show ?thesis .
  qed
qed

lemma preview_entries:
  assumes "wf_json (JObj before)" "wf_json (JObj after)" "[] \<notin> fst ` set before \<union> fst ` set after"
  shows "entryOf ` set (configChangeEntries collate before after cat) =
    (\<lambda>p. (dotted p, getPath (JObj before) p, getPath (JObj after) p)) ` previewAt (JObj before) (JObj after)"
proof -
  have part: "entryOf ` set (collectChanges (okey before k) (okey after k) k cat) =
      (\<lambda>p. (dotted (k # p), getPath (JObj before) (k # p), getPath (JObj after) (k # p))) ` previewAt (okey before k) (okey after k)"
    if "k \<in> set (map fst before @ map fst after)" for k
  proof -
    have "k \<noteq> []" using that assms(3) by auto
    moreover have "(if p = [] then k else k @ ''.'' @ dotted p) = dotted (k # p)" for p
      by (cases p) (simp_all add: dotted_Cons, simp add: dotted_def)
    ultimately show ?thesis
      using collectChanges_paths [of "okey before k" "okey after k" k cat] object_part [of "JObj before" k] object_part [of "JObj after" k] assms
      by (simp only: as_object.simps getPath_Cons) blast
  qed
  have "entryOf ` set (configChangeEntries collate before after cat) =
      (\<Union>k\<in>set (map fst before @ map fst after). entryOf ` set (collectChanges (okey before k) (okey after k) k cat))"
    unfolding configChangeEntries_def set_sort by (subst collectChanges.simps)
      (simp only: isArray.simps isPlainObject.simps as_object.simps path_sep_def if_True if_False simp_thms Let_def set_sort set_concat set_map set_remdups image_image image_UN)
  also have "\<dots> = (\<lambda>p. (dotted p, getPath (JObj before) p, getPath (JObj after) p)) ` previewAt (JObj before) (JObj after)"
    unfolding previewAt_below [of "JObj before" "JObj after", simplified as_object.simps isPlainObject.simps simp_thms, OF TrueI] image_UN image_image
    using part by (intro SUP_cong refl) blast
  finally show ?thesis .
qed

text \<open>C25. The lists of changes are complete. The conflict banner's list of server-side changes names exactly the fields of either
  configuration that are a table in neither and differ; so, for tables that are not empty, it is empty
  exactly when the two configurations are equal (a table that is empty has no field to name). The list the save preview
  shows before the admin confirms has an entry, with the value before and the value after, exactly for the places where the
  two configurations part, if no section has an empty name, and it is empty exactly when they are equal.\<close>

theorem change_lists_complete:
  assumes "wf_json (JObj before)" "wf_json (JObj after)"
  shows "set (diffChangedSectionKeys before after) = dotted ` diffAt (JObj before) (JObj after) \<and>
    (plain_tables (JObj before) \<and> plain_tables (JObj after) \<longrightarrow>
      (diffChangedSectionKeys before after = [] \<longleftrightarrow> sameJson (JObj before) (JObj after))) \<and>
    ([] \<notin> fst ` set before \<union> fst ` set after \<longrightarrow>
      entryOf ` set (configChangeEntries collate before after catalog) =
        (\<lambda>p. (dotted p, getPath (JObj before) p, getPath (JObj after) p)) ` previewAt (JObj before) (JObj after)) \<and>
    (configChangeEntries collate before after catalog = [] \<longleftrightarrow> sameJson (JObj before) (JObj after))"
  unfolding valuesEqual_same [symmetric]
proof (intro conjI impI)
  show "set (diffChangedSectionKeys before after) = dotted ` diffAt (JObj before) (JObj after)"
    by (rule section_diff_paths [OF assms])
  show "entryOf ` set (configChangeEntries collate before after catalog) =
      (\<lambda>p. (dotted p, getPath (JObj before) p, getPath (JObj after) p)) ` previewAt (JObj before) (JObj after)"
    if "[] \<notin> fst ` set before \<union> fst ` set after"
    by (rule preview_entries [OF assms that])
  show "configChangeEntries collate before after catalog = [] \<longleftrightarrow> valuesEqual (JObj before) (JObj after)"
    using collectChanges_complete [of "JObj before" "JObj after"] assms
    by (simp add: configChangeEntries_def sort_key_empty del: valuesEqual_obj)
  show "diffChangedSectionKeys before after = [] \<longleftrightarrow> valuesEqual (JObj before) (JObj after)"
    if plain: "plain_tables (JObj before) \<and> plain_tables (JObj after)"
  proof -
    have "collectDiffPaths (okey before k) (okey after k) k = [] \<longleftrightarrow> valuesEqual (okey before k) (okey after k)" for k
    proof (rule collectDiffPaths_complete)
      show "wf_json (okey before k) \<or> okey before k = JUndef" "wf_json (okey after k) \<or> okey after k = JUndef"
        using assms wf_okey okey_notin by metis+
      show "plain_tables (okey before k)" "plain_tables (okey after k)"
        using plain by (auto simp: okey_def split: option.split dest: map_of_SomeD)
    qed
    then show "diffChangedSectionKeys before after = [] \<longleftrightarrow> valuesEqual (JObj before) (JObj after)"
      by (auto simp: diffChangedSectionKeys_def sort_key_empty)
  qed
qed

theorem change_lists_complete_witness:
  "let before = [(''web'', JObj [(''port'', JNum 80)])]; after = [(''web'', JObj [(''port'', JNum 81)])]
   in diffChangedSectionKeys before after \<noteq> [] \<and> configChangeEntries (\<lambda>p. p) before after [] \<noteq> []"
proof -
  let ?b = "[(''web'', JObj [(''port'', JNum 80)])]" and ?a = "[(''web'', JObj [(''port'', JNum 81)])]"
  have "\<not> sameJson (JObj ?b) (JObj ?a)" by (simp add: valuesEqual_same [symmetric] valuesEqual_scalar)
  with change_lists_complete [of ?b ?a "\<lambda>p. p" "[]"] show ?thesis by (simp add: Let_def)
qed

end
