(* ===== verification/Config_Catalog.thy ===== *)
theory Config_Catalog
  imports Config_Diff
begin

text \<open>
  Addressing one field of the configuration, \<open>web/src/server/config/configCatalog.helpers.ts\<close>: a
  catalog path with \<open>[]\<close> segments expands to its instances in a document, each with a concrete path;
  concrete paths are read and written by \<open>getConfigValue\<close> and \<open>setConfigValue\<close> through the tokens a
  regular expression extracts.
\<close>

subsection \<open>Definitions\<close>

datatype token = TKey string | TIdx nat

record catalogSegment =
  seg_key :: string
  seg_array :: bool

record configFieldInstance =
  fi_field :: configField
  fi_concretePath :: string
  fi_value :: json
  fi_recordLabel :: "string option"

definition strEndsWith :: "string \<Rightarrow> string \<Rightarrow> bool" where
  "strEndsWith s p \<longleftrightarrow> length p \<le> length s \<and> drop (length s - length p) s = p"

definition parseCatalogPath :: "string \<Rightarrow> catalogSegment list" where
  "parseCatalogPath path = map (\<lambda>part. \<lparr>
     seg_key = (if strEndsWith part ''[]'' then take (length part - 2) part else part),
     seg_array = strEndsWith part ''[]''\<rparr>) (split_at CHR ''.'' path)"

fun visitField :: "configField \<Rightarrow> json \<Rightarrow> catalogSegment list \<Rightarrow> string \<Rightarrow> string list \<Rightarrow> configFieldInstance list" where
  "visitField field v [] concretePath recordParts =
    [\<lparr>fi_field = field, fi_concretePath = concretePath, fi_value = v,
      fi_recordLabel = (if recordParts \<noteq> [] then Some (join [CHR '' '', CHR 0xB7, CHR '' ''] recordParts) else None)\<rparr>]"
| "visitField field v (segment # segments) concretePath recordParts =
    (let child = jprop v (seg_key segment); prefix' = path_sep concretePath (seg_key segment)
     in if \<not> seg_array segment then visitField field child segments prefix' recordParts
        else case child of
               JArr items \<Rightarrow> concat (map (\<lambda>(item, itemIndex).
                 visitField field item segments (prefix' @ ''['' @ show_nat itemIndex @ '']'')
                   (recordParts @ [seg_key segment @ '' '' @ show_nat (itemIndex + 1)])) (zip items [0..<length items]))
             | _ \<Rightarrow> [])"

definition fieldInstances :: "jobject \<Rightarrow> configField \<Rightarrow> configFieldInstance list" where
  "fieldInstances sections field = visitField field (JObj sections) (parseCatalogPath (cf_path field)) [] []"

definition key_char :: "char \<Rightarrow> bool" where
  "key_char c \<longleftrightarrow> c \<noteq> CHR ''.'' \<and> c \<noteq> CHR ''[''"

function concretePathTokens :: "string \<Rightarrow> token list" where
  "concretePathTokens [] = []"
| "concretePathTokens (c # s) =
    (if key_char c then TKey (c # takeWhile key_char s) # concretePathTokens (dropWhile key_char s)
     else let digits = takeWhile is_digit s; rest = dropWhile is_digit s
          in if c = CHR ''['' \<and> digits \<noteq> [] \<and> rest \<noteq> [] \<and> hd rest = CHR '']''
             then TIdx (nat_of_digits digits) # concretePathTokens (tl rest)
             else concretePathTokens s)"
  by pat_completeness auto
termination
proof (relation "measure length", goal_cases)
  case (3 c s digits rest)
  then have "length rest \<le> length s" by (simp add: length_dropWhile_le)
  with 3 show ?case by auto
qed (simp_all add: length_dropWhile_le le_imp_less_Suc)

definition arr_get :: "json list \<Rightarrow> nat \<Rightarrow> json" where
  "arr_get xs i = (if i < length xs then xs ! i else JUndef)"

text \<open>Assignment to an index past the end leaves holes that read as \<open>undefined\<close>.\<close>

definition arr_put :: "json list \<Rightarrow> nat \<Rightarrow> json \<Rightarrow> json list" where
  "arr_put xs i v = (if i < length xs then xs[i := v] else xs @ replicate (i - length xs) JUndef @ [v])"

fun as_array :: "json \<Rightarrow> json list" where
  "as_array (JArr xs) = xs"
| "as_array _ = []"

fun readToken :: "json \<Rightarrow> token \<Rightarrow> json" where
  "readToken current (TIdx i) = arr_get (as_array current) i"
| "readToken current (TKey k) = jprop current k"

definition getConfigValue :: "json \<Rightarrow> string \<Rightarrow> json" where
  "getConfigValue doc concretePath = foldl readToken doc (concretePathTokens concretePath)"

fun setAt :: "json \<Rightarrow> token list \<Rightarrow> json \<Rightarrow> json" where
  "setAt current [] v = v"
| "setAt current (TIdx i # ts) v =
    (let nxt = as_array current in JArr (arr_put nxt i (setAt (arr_get nxt i) ts v)))"
| "setAt current (TKey k # ts) v =
    (let nxt = as_object current in JObj (mset_key nxt k (setAt (okey nxt k) ts v)))"

definition setConfigValue :: "json \<Rightarrow> string \<Rightarrow> json \<Rightarrow> json" where
  "setConfigValue doc concretePath v =
    (let tokens = concretePathTokens concretePath in if tokens = [] then doc else setAt doc tokens v)"

definition catalogFieldMatches :: "configField \<Rightarrow> string \<Rightarrow> string \<Rightarrow> bool" where
  "catalogFieldMatches field query label =
    (let needle = to_lower (trim query)
     in if needle = [] then True
        else str_includes (to_lower (join '' '' [cf_path field, cf_data_type field, cf_default_value field, label])) needle)"

text \<open>\<open>s.replace("[]", "")\<close>: the first occurrence only.\<close>

fun dropBrackets :: "string \<Rightarrow> string" where
  "dropBrackets [] = []"
| "dropBrackets (c # s) = (if startsWith (c # s) ''[]'' then tl s else c # dropBrackets s)"

definition isConfigSectionPresent :: "jobject \<Rightarrow> configField \<Rightarrow> bool" where
  "isConfigSectionPresent sections field =
    (dropBrackets (hd (split_at CHR ''.'' (cf_path field))) \<in> set (map fst sections))"

subsection \<open>Tokens of a rendered path\<close>

definition good_key :: "string \<Rightarrow> bool" where
  "good_key k \<longleftrightarrow> k \<noteq> [] \<and> list_all key_char k"

fun good_token :: "token \<Rightarrow> bool" where
  "good_token (TKey k) = good_key k"
| "good_token (TIdx _) = True"

fun renderRest :: "token list \<Rightarrow> string" where
  "renderRest [] = []"
| "renderRest (TKey k # ts) = ''.'' @ k @ renderRest ts"
| "renderRest (TIdx i # ts) = ''['' @ show_nat i @ '']'' @ renderRest ts"

lemma renderRest_start: "renderRest ts = [] \<or> \<not> key_char (hd (renderRest ts))"
  by (cases ts rule: renderRest.cases) (auto simp: key_char_def)

lemma tokens_key:
  assumes "good_key k" "rest = [] \<or> \<not> key_char (hd rest)"
  shows "concretePathTokens (k @ rest) = TKey k # concretePathTokens rest"
proof -
  obtain c k' where k: "k = c # k'" using assms(1) by (cases k) (auto simp: good_key_def)
  have all: "key_char c" "\<forall>x\<in>set k'. key_char x" using assms(1) k by (auto simp: good_key_def list_all_iff)
  have "takeWhile key_char rest = [] \<and> dropWhile key_char rest = rest"
    using assms(2) by (cases rest) auto
  with all show ?thesis by (simp add: k takeWhile_append2 dropWhile_append2)
qed

lemma tokens_index: "concretePathTokens (CHR ''['' # show_nat i @ CHR '']'' # rest) = TIdx i # concretePathTokens rest"
proof -
  have d: "\<forall>c\<in>set (show_nat i). is_digit c" "show_nat i \<noteq> []" "nat_of_digits (show_nat i) = i"
    using show_nat_digits [of i] by (simp_all add: list_all_iff)
  have "\<not> is_digit CHR '']''" by (simp add: is_digit_def)
  with d have "takeWhile is_digit (show_nat i @ CHR '']'' # rest) = show_nat i"
    "dropWhile is_digit (show_nat i @ CHR '']'' # rest) = CHR '']'' # rest"
    by (simp_all add: takeWhile_append2 dropWhile_append2)
  with d show ?thesis by (simp add: key_char_def)
qed

lemma tokens_renderRest: "list_all good_token ts \<Longrightarrow> concretePathTokens (renderRest ts) = ts"
proof (induction ts rule: renderRest.induct)
  case (2 k ts)
  then show ?case using tokens_key [of k "renderRest ts"] renderRest_start [of ts] by (simp add: key_char_def is_digit_def)
next
  case (3 i ts)
  then show ?case using tokens_index [of i "renderRest ts"] by simp
qed simp

text \<open>A concrete path starts with a key, without the dot.\<close>

fun renderPath :: "token list \<Rightarrow> string" where
  "renderPath (TKey k # ts) = k @ renderRest ts"
| "renderPath ts = renderRest ts"

lemma tokens_renderPath: "list_all good_token ts \<Longrightarrow> concretePathTokens (renderPath ts) = ts"
proof (cases ts rule: renderPath.cases)
  case (1 k ts')
  assume "list_all good_token ts"
  then show ?thesis
    using 1 tokens_key [of k "renderRest ts'"] tokens_renderRest [of ts'] renderRest_start [of ts'] by simp
qed (use tokens_renderRest in \<open>simp_all only: renderPath.simps\<close>)

lemma renderRest_append: "renderRest (ts @ us) = renderRest ts @ renderRest us"
  by (induction ts rule: renderRest.induct) simp_all

lemma renderPath_snoc: "ts \<noteq> [] \<Longrightarrow> renderPath (ts @ [t]) = renderPath ts @ renderRest [t]"
  by (cases ts rule: renderPath.cases) (auto simp: renderRest_append)

lemma renderPath_nonempty: "ts \<noteq> [] \<Longrightarrow> list_all good_token ts \<Longrightarrow> renderPath ts \<noteq> []"
  by (cases ts rule: renderPath.cases) (auto simp: good_key_def)

lemma path_sep_render:
  "list_all good_token ts \<Longrightarrow> path_sep (renderPath ts) k = renderPath (ts @ [TKey k])"
  using renderPath_nonempty [of ts] renderPath_snoc [of ts "TKey k"]
  by (cases "ts = []") (auto simp: path_sep_def)

subsection \<open>Reading and writing\<close>

lemma arr_get_put: "arr_get (arr_put xs i v) j = (if i = j then v else arr_get xs j)"
  by (auto simp: arr_get_def arr_put_def nth_append nth_list_update nth_Cons split: nat.splits)

lemma get_setAt: "foldl readToken (setAt cur ts v) ts = v"
  by (induction cur ts v rule: setAt.induct) (simp_all add: Let_def arr_get_put okey_def js_map_simps)

text \<open>Two paths part at two different keys of an object or two different indices of an array.\<close>

fun part :: "token list \<Rightarrow> token list \<Rightarrow> bool" where
  "part (TKey k # ts) (TKey l # us) = (if k = l then part ts us else True)"
| "part (TIdx i # ts) (TIdx j # us) = (if i = j then part ts us else True)"
| "part _ _ = False"

lemma okey_as_object: "okey (as_object v) k = jprop v k"
  by (cases v) simp_all

lemma get_setAt_other: "part ts us \<Longrightarrow> foldl readToken (setAt cur ts v) us = foldl readToken cur us"
proof (induction ts us arbitrary: cur rule: part.induct)
  case (1 k ts l us)
  then show ?case by (auto simp: Let_def okey_def js_map_simps okey_as_object [unfolded okey_def] split: if_splits)
next
  case (2 i ts j us)
  then show ?case by (auto simp: Let_def arr_get_put split: if_splits)
qed simp_all

text \<open>Editing one field edits that field. Writing a value at a concrete path and reading it back
  gives the value, whatever the document looked like along the path; and every path that parts from
  it -- at another key or another array index -- reads as before.\<close>

theorem config_field_update:
  assumes "concretePathTokens p \<noteq> []"
  shows "getConfigValue (setConfigValue doc p v) p = v \<and>
    (part (concretePathTokens p) (concretePathTokens q) \<longrightarrow> getConfigValue (setConfigValue doc p v) q = getConfigValue doc q)"
  using assms by (simp add: getConfigValue_def setConfigValue_def get_setAt get_setAt_other)

theorem config_field_update_witness:
  "let doc = JObj [(''up'', JArr [JObj [(''w'', JNum 1)], JObj [(''w'', JNum 2)]])]
   in getConfigValue (setConfigValue doc ''up[1].w'' (JNum 9)) ''up[1].w'' = JNum 9 \<and>
      getConfigValue (setConfigValue doc ''up[1].w'' (JNum 9)) ''up[0].w'' = getConfigValue doc ''up[0].w''"
proof -
  have tokens: "concretePathTokens ''up[1].w'' = [TKey ''up'', TIdx 1, TKey ''w'']"
    "concretePathTokens ''up[0].w'' = [TKey ''up'', TIdx 0, TKey ''w'']"
    by (simp_all add: key_char_def is_digit_def nat_of_digits_def digit_val_def)
  show ?thesis
    using config_field_update [of "''up[1].w''" "JObj [(''up'', JArr [JObj [(''w'', JNum 1)], JObj [(''w'', JNum 2)]])]" "JNum 9" "''up[0].w''"]
    unfolding tokens by (simp add: Let_def del: concretePathTokens.simps)
qed

subsection \<open>Instances of a catalog field\<close>

lemma visitField_tokens:
  "list_all good_token ts \<Longrightarrow> list_all (\<lambda>s. good_key (seg_key s)) segs \<Longrightarrow>
   foldl readToken doc ts = v \<Longrightarrow> inst \<in> set (visitField field v segs (renderPath ts) parts) \<Longrightarrow>
   \<exists>us. list_all good_token us \<and> fi_concretePath inst = renderPath us \<and> foldl readToken doc us = fi_value inst"
proof (induction segs arbitrary: ts v parts)
  case Nil
  then show ?case by auto
next
  case (Cons seg segs)
  let ?k = "seg_key seg"
  have good: "list_all good_token (ts @ [TKey ?k])" using Cons.prems by simp
  have child: "foldl readToken doc (ts @ [TKey ?k]) = jprop v ?k" using Cons.prems(3) by simp
  have pre: "path_sep (renderPath ts) ?k = renderPath (ts @ [TKey ?k])"
    using Cons.prems(1) by (rule path_sep_render)
  show ?case
  proof (cases "seg_array seg")
    case False
    with Cons.prems(4) have "inst \<in> set (visitField field (jprop v ?k) segs (renderPath (ts @ [TKey ?k])) parts)"
      by (simp add: pre Let_def)
    with Cons.IH [OF good _ child] Cons.prems(2) show ?thesis by simp
  next
    case True
    with Cons.prems(4) obtain items i where items: "jprop v ?k = JArr items" "i < length items"
      and inst: "inst \<in> set (visitField field (items ! i) segs (renderPath (ts @ [TKey ?k]) @ ''['' @ show_nat i @ '']'')
        (parts @ [?k @ '' '' @ show_nat (i + 1)]))"
      by (cases "jprop v ?k") (auto simp: Let_def pre set_zip)
    have path: "renderPath (ts @ [TKey ?k]) @ ''['' @ show_nat i @ '']'' = renderPath (ts @ [TKey ?k, TIdx i])"
      using renderPath_snoc [of "ts @ [TKey ?k]" "TIdx i"] by simp
    have "foldl readToken doc (ts @ [TKey ?k, TIdx i]) = items ! i"
      using child items by (simp add: arr_get_def)
    moreover have "list_all good_token (ts @ [TKey ?k, TIdx i])" using good by simp
    moreover have "list_all (\<lambda>s. good_key (seg_key s)) segs" using Cons.prems(2) by simp
    ultimately show ?thesis
      using inst [unfolded path] by (intro Cons.IH)
  qed
qed

text \<open>What a field control shows is what it writes. For every instance of a catalog field in a
  document, the instance's concrete path reads the instance's value, so that a write through that path
  replaces exactly the value shown (the catalog's keys being non-empty and free of dots and
  brackets).\<close>

theorem field_instances_addressed:
  assumes "inst \<in> set (fieldInstances sections field)"
    and "\<forall>s\<in>set (parseCatalogPath (cf_path field)). good_key (seg_key s)"
  shows "getConfigValue (JObj sections) (fi_concretePath inst) = fi_value inst"
proof -
  obtain us where "list_all good_token us" "fi_concretePath inst = renderPath us"
    "foldl readToken (JObj sections) us = fi_value inst"
    using visitField_tokens [of "[]" "parseCatalogPath (cf_path field)" "JObj sections" "JObj sections" inst field "[]"] assms
    by (auto simp: fieldInstances_def list_all_iff)
  then show ?thesis by (simp add: getConfigValue_def tokens_renderPath)
qed

theorem field_instances_addressed_witness:
  "let sections = [(''up'', JArr [JObj [(''w'', JNum 1)], JObj [(''w'', JNum 2)]])];
       field = \<lparr>cf_path = ''up[].w'', cf_data_type = ''int'', cf_default_value = ''1''\<rparr>;
       inst = fieldInstances sections field ! 1
   in fi_value inst = JNum 2 \<and> getConfigValue (JObj sections) (fi_concretePath inst) = JNum 2"
proof -
  let ?s = "[(''up'', JArr [JObj [(''w'', JNum 1)], JObj [(''w'', JNum 2)]])]"
  let ?f = "\<lparr>cf_path = ''up[].w'', cf_data_type = ''int'', cf_default_value = ''1''\<rparr>"
  have segs: "parseCatalogPath ''up[].w'' = [\<lparr>seg_key = ''up'', seg_array = True\<rparr>, \<lparr>seg_key = ''w'', seg_array = False\<rparr>]"
    by (simp add: parseCatalogPath_def strEndsWith_def)
  have len: "length (fieldInstances ?s ?f) = 2" "fi_value (fieldInstances ?s ?f ! 1) = JNum 2"
    by (simp_all add: fieldInstances_def segs Let_def upt_rec)
  then have "fieldInstances ?s ?f ! 1 \<in> set (fieldInstances ?s ?f)" by (intro nth_mem) simp
  moreover have "\<forall>s\<in>set (parseCatalogPath (cf_path ?f)). good_key (seg_key s)"
    by (simp add: segs good_key_def key_char_def)
  ultimately have "getConfigValue (JObj ?s) (fi_concretePath (fieldInstances ?s ?f ! 1)) = fi_value (fieldInstances ?s ?f ! 1)"
    by (rule field_instances_addressed)
  with len show ?thesis by (simp only: Let_def simp_thms)
qed

end
