(* ===== verification/Topics.thy ===== *)
theory Topics
  imports Panel_Prelude
begin

text \<open>
  The payloads of the hub's topics, \<open>web/src/realtime/topics.ts\<close>, field for field: one record per
  interface, and one more per object type written inline in an interface. An optional field and a
  nullable one are both options, since every consumer treats \<open>undefined\<close> and \<open>null\<close> alike; open
  tables (\<open>Record<string, unknown>\<close>) stay JSON values; enumerated strings stay strings, because the
  interfaces describe what arrives over the wire.
\<close>

record 'a gated =
  g_enabled :: bool
  g_reason :: "string option"
  g_generated_at_epoch_secs :: "number option"
  g_data :: "'a option"

record statsHealth =
  sh_status :: string
  sh_read_only :: bool

record classCount =
  cc_class :: string
  cc_total :: number

record statsSummary =
  ss_uptime_seconds :: number
  ss_connections_total :: number
  ss_connections_bad_total :: number
  ss_handshake_timeouts_total :: number
  ss_configured_users :: number
  ss_connections_bad_by_class :: "classCount list option"
  ss_handshake_failures_by_class :: "classCount list option"

record statsReady =
  sr_ready :: bool
  sr_status :: string
  sr_reason :: "string option"
  sr_admission_open :: bool
  sr_healthy_upstreams :: number
  sr_total_upstreams :: number

record runtimeEdgeConnectionTotals =
  rect_current_connections :: number
  rect_current_connections_me :: number
  rect_current_connections_direct :: number
  rect_active_users :: number

record runtimeEdgeConnectionUser =
  recu_username :: string
  recu_current_connections :: number
  recu_total_octets :: number

record runtimeEdgeConnectionsSummaryCache =
  recsc_ttl_ms :: number
  recsc_served_from_cache :: bool
  recsc_stale_cache_used :: bool

record runtimeEdgeConnectionsSummaryTop =
  recst_limit :: number
  recst_by_connections :: "runtimeEdgeConnectionUser list"
  recst_by_throughput :: "runtimeEdgeConnectionUser list"

record runtimeEdgeConnectionsSummaryTelemetry =
  recste_user_enabled :: bool
  recste_throughput_is_cumulative :: bool

record runtimeEdgeConnectionsSummary =
  recs_cache :: runtimeEdgeConnectionsSummaryCache
  recs_totals :: runtimeEdgeConnectionTotals
  recs_top :: runtimeEdgeConnectionsSummaryTop
  recs_telemetry :: runtimeEdgeConnectionsSummaryTelemetry

record statsSnapshot =
  ssn_health :: "statsHealth option"
  ssn_summary :: "statsSummary option"
  ssn_ready :: "statsReady option"
  ssn_connections_summary :: "runtimeEdgeConnectionsSummary gated option"
  ssn_version :: "string option"
  ssn_uptime_seconds :: "number option"
  ssn_config_reload_count :: "number option"
  ssn_last_config_reload_epoch_secs :: "number option"

record userLinksWireTlsDomains =
  ulwtd_domain :: string
  ulwtd_link :: string

record userLinksWire =
  ulw_classic :: "string list"
  ulw_secure :: "string list"
  ulw_tls :: "string list"
  ulw_tls_domains :: "userLinksWireTlsDomains list"

record usersTopicUserTraffic =
  utut_observed_total_bytes :: number
  utut_current_month_bytes :: number
  utut_month_key :: number
  utut_observed_since_epoch_secs :: number
  utut_last_activity_epoch_secs :: number
  utut_continuity :: string

record usersTopicUser =
  utu_username :: string
  utu_enabled :: bool
  utu_in_runtime :: bool
  utu_user_ad_tag :: "string option"
  utu_max_tcp_conns :: "number option"
  utu_expiration_rfc3339 :: "string option"
  utu_data_quota_bytes :: "number option"
  utu_rate_limit_up_bps :: "number option"
  utu_rate_limit_down_bps :: "number option"
  utu_max_unique_ips :: "number option"
  utu_current_connections :: number
  utu_active_unique_ips :: number
  utu_active_unique_ips_list :: "string list option"
  utu_recent_unique_ips :: number
  utu_recent_unique_ips_list :: "string list option"
  utu_total_octets :: number
  utu_traffic :: "usersTopicUserTraffic option"
  utu_links :: userLinksWire

record usersTopicQuotaEntry =
  utqe_data_quota_bytes :: number
  utqe_used_bytes :: number
  utqe_last_reset_epoch_secs :: number

record usersTopic =
  ut_users :: "usersTopicUser list"
  ut_quota :: "(string, usersTopicQuotaEntry) js_map option"
  ut_quota_supported :: bool

record runtimeGates =
  rg_accepting_new_connections :: bool
  rg_conditional_cast_enabled :: bool
  rg_me_runtime_ready :: bool
  rg_me2dc_fallback_enabled :: bool
  rg_me2dc_fast_enabled :: bool
  rg_use_middle_proxy :: bool
  rg_route_mode :: string
  rg_reroute_active :: bool
  rg_reroute_to_direct_at_epoch_secs :: "number option"
  rg_reroute_reason :: "string option"
  rg_startup_status :: string
  rg_startup_stage :: string
  rg_startup_progress_pct :: number

record runtimeInitializationComponent =
  ric_id :: string
  ric_title :: string
  ric_status :: string
  ric_started_at_epoch_ms :: "number option"
  ric_finished_at_epoch_ms :: "number option"
  ric_duration_ms :: "number option"
  ric_attempts :: number
  ric_details :: "string option"

record runtimeInitializationMe =
  rim_status :: string
  rim_current_stage :: string
  rim_progress_pct :: number
  rim_init_attempt :: number
  rim_retry_limit :: string
  rim_last_error :: "string option"

record runtimeInitialization =
  ri_status :: string
  ri_degraded :: bool
  ri_current_stage :: string
  ri_progress_pct :: number
  ri_started_at_epoch_secs :: number
  ri_ready_at_epoch_secs :: "number option"
  ri_total_elapsed_ms :: number
  ri_transport_mode :: string
  ri_me :: runtimeInitializationMe
  ri_components :: "runtimeInitializationComponent list"

record runtimeMePoolStateGenerations =
  rmpsg_active_generation :: number
  rmpsg_warm_generation :: number
  rmpsg_pending_hardswap_generation :: number
  rmpsg_pending_hardswap_age_secs :: "number option"
  rmpsg_draining_generations :: "number list"

record runtimeMePoolStateHardswap =
  rmpsh_enabled :: bool
  rmpsh_pending :: bool

record runtimeMePoolStateWritersContour =
  rmpswc_warm :: number
  rmpswc_active :: number
  rmpswc_draining :: number

record runtimeMePoolStateWritersHealth =
  rmpswh_healthy :: number
  rmpswh_degraded :: number
  rmpswh_draining :: number

record runtimeMePoolStateWriters =
  rmpsw_total :: number
  rmpsw_alive_non_draining :: number
  rmpsw_draining :: number
  rmpsw_degraded :: number
  rmpsw_contour :: runtimeMePoolStateWritersContour
  rmpsw_health :: runtimeMePoolStateWritersHealth

record runtimeMePoolStateRefillDc =
  rmpsrd_dc :: number
  rmpsrd_family :: string
  rmpsrd_inflight :: number

record runtimeMePoolStateRefill =
  rmpsr_inflight_endpoints_total :: number
  rmpsr_inflight_dc_total :: number
  rmpsr_by_dc :: "runtimeMePoolStateRefillDc list"

record runtimeMePoolState =
  rmps_generations :: runtimeMePoolStateGenerations
  rmps_hardswap :: runtimeMePoolStateHardswap
  rmps_writers :: runtimeMePoolStateWriters
  rmps_refill :: runtimeMePoolStateRefill

record runtimeMeQualityCounters =
  rmqc_idle_close_by_peer_total :: number
  rmqc_reader_eof_total :: number
  rmqc_kdf_drift_total :: number
  rmqc_kdf_port_only_drift_total :: number
  rmqc_reconnect_attempt_total :: number
  rmqc_reconnect_success_total :: number

record runtimeMeQualityRouteDrops =
  rmqrd_no_conn_total :: number
  rmqrd_channel_closed_total :: number
  rmqrd_queue_full_total :: number
  rmqrd_queue_full_base_total :: number
  rmqrd_queue_full_high_total :: number

record runtimeMeQualityFamilyState =
  rmqfs_family :: string
  rmqfs_state :: string
  rmqfs_state_since_epoch_secs :: number
  rmqfs_suppressed_until_epoch_secs :: "number option"
  rmqfs_fail_streak :: number
  rmqfs_recover_success_streak :: number

record runtimeMeQualityDrainGate =
  rmqdg_route_quorum_ok :: bool
  rmqdg_redundancy_ok :: bool
  rmqdg_block_reason :: string
  rmqdg_updated_at_epoch_secs :: number

record runtimeMeQualityDcRtt =
  rmqdr_dc :: number
  rmqdr_rtt_ema_ms :: "number option"
  rmqdr_alive_writers :: number
  rmqdr_required_writers :: number
  rmqdr_coverage_pct :: number

record runtimeMeQuality =
  rmq_counters :: runtimeMeQualityCounters
  rmq_route_drops :: runtimeMeQualityRouteDrops
  rmq_family_states :: "runtimeMeQualityFamilyState list"
  rmq_drain_gate :: runtimeMeQualityDrainGate
  rmq_dc_rtt :: "runtimeMeQualityDcRtt list"

record runtimeNatStunReflection =
  rnsr_addr :: string
  rnsr_age_secs :: number

record runtimeNatStunFlags =
  rnsf_nat_probe_enabled :: bool
  rnsf_nat_probe_disabled_runtime :: bool
  rnsf_nat_probe_attempts :: number

record runtimeNatStunServers =
  rnss_configured :: "string list"
  rnss_live :: "string list"
  rnss_live_total :: number

record runtimeNatStun =
  rns_flags :: runtimeNatStunFlags
  rns_servers :: runtimeNatStunServers
  rns_reflection :: runtimeNatStunReflection
  rns_stun_backoff_remaining_ms :: "number option"

record runtimeMeSelftestKdf =
  rmsk_state :: string
  rmsk_ewma_errors_per_min :: number
  rmsk_threshold_errors_per_min :: number
  rmsk_errors_total :: number

record runtimeMeSelftestTimeskew =
  rmst_state :: string
  rmst_max_skew_secs_15m :: "number option"
  rmst_samples_15m :: number
  rmst_last_skew_secs :: "number option"
  rmst_last_source :: "string option"
  rmst_last_seen_age_secs :: "number option"

record runtimeMeSelftestIpFamily =
  rmsif_addr :: string
  rmsif_state :: string

record runtimeMeSelftestBnd =
  rmsb_addr_state :: string
  rmsb_port_state :: string
  rmsb_last_addr :: "string option"
  rmsb_last_seen_age_secs :: "number option"

record runtimeMeSelftestUpstream =
  rmsu_upstream_id :: number
  rmsu_route_kind :: string
  rmsu_address :: string
  rmsu_bnd :: "runtimeMeSelftestBnd option"
  rmsu_ip :: "string option"

record runtimeMeSelftestIp =
  rmsi_v4 :: "runtimeMeSelftestIpFamily option"
  rmsi_v6 :: "runtimeMeSelftestIpFamily option"

record runtimeMeSelftestPid =
  rmsp_pid :: number
  rmsp_state :: string

record runtimeMeSelftest =
  rms_kdf :: runtimeMeSelftestKdf
  rms_timeskew :: runtimeMeSelftestTimeskew
  rms_ip :: runtimeMeSelftestIp
  rms_pid :: runtimeMeSelftestPid
  rms_bnd :: "runtimeMeSelftestBnd option"
  rms_upstreams :: "runtimeMeSelftestUpstream list option"

record runtimeEdgeEventRecord =
  reer_seq :: number
  reer_ts_epoch_secs :: number
  reer_event_type :: string
  reer_context :: string

record runtimeEdgeEvents =
  ree_capacity :: number
  ree_dropped_total :: number
  ree_events :: "runtimeEdgeEventRecord list"

record runtimeMinimalDcPath =
  rmdp_dc :: number
  rmdp_ip_preference :: "string option"
  rmdp_selected_addr_v4 :: "string option"
  rmdp_selected_addr_v6 :: "string option"

record meWritersSummary =
  mws_configured_dc_groups :: number
  mws_configured_endpoints :: number
  mws_available_endpoints :: number
  mws_available_pct :: number
  mws_required_writers :: number
  mws_alive_writers :: number
  mws_coverage_pct :: number
  mws_fresh_alive_writers :: number
  mws_fresh_coverage_pct :: number

record meWriterStatus =
  mwst_writer_id :: number
  mwst_dc :: "number option"
  mwst_endpoint :: string
  mwst_generation :: number
  mwst_state :: string
  mwst_draining :: bool
  mwst_degraded :: bool
  mwst_bound_clients :: number
  mwst_idle_for_secs :: "number option"
  mwst_rtt_ema_ms :: "number option"
  mwst_matches_active_generation :: bool
  mwst_in_desired_map :: bool
  mwst_allow_drain_fallback :: bool
  mwst_drain_started_at_epoch_secs :: "number option"
  mwst_drain_deadline_epoch_secs :: "number option"
  mwst_drain_over_ttl :: bool

record meWritersData =
  mwd_middle_proxy_enabled :: bool
  mwd_reason :: "string option"
  mwd_generated_at_epoch_secs :: number
  mwd_summary :: meWritersSummary
  mwd_writers :: "meWriterStatus list"

record dcEndpointWriters =
  dew_endpoint :: string
  dew_active_writers :: number

record dcStatus =
  ds_dc :: number
  ds_endpoints :: "string list"
  ds_endpoint_writers :: "dcEndpointWriters list"
  ds_available_endpoints :: number
  ds_available_pct :: number
  ds_required_writers :: number
  ds_floor_min :: number
  ds_floor_target :: number
  ds_floor_max :: number
  ds_floor_capped :: bool
  ds_alive_writers :: number
  ds_coverage_pct :: number
  ds_fresh_alive_writers :: number
  ds_fresh_coverage_pct :: number
  ds_rtt_ms :: "number option"
  ds_load :: number

record dcStatusData =
  dsd_middle_proxy_enabled :: bool
  dsd_reason :: "string option"
  dsd_generated_at_epoch_secs :: number
  dsd_dcs :: "dcStatus list"

record runtimeMinimalAll =
  rma_me_writers :: meWritersData
  rma_dcs :: dcStatusData
  rma_me_runtime :: "json option"
  rma_network_path :: "runtimeMinimalDcPath list"

record runtimeUpstreamQualityPolicy =
  ruqp_connect_retry_attempts :: number
  ruqp_connect_retry_backoff_ms :: number
  ruqp_connect_budget_ms :: number
  ruqp_unhealthy_fail_threshold :: number
  ruqp_connect_failfast_hard_errors :: bool

record runtimeUpstreamQualityCounters =
  ruqc_connect_attempt_total :: number
  ruqc_connect_success_total :: number
  ruqc_connect_fail_total :: number
  ruqc_connect_failfast_hard_error_total :: number

record runtimeUpstreamQualitySummary =
  ruqs_configured_total :: number
  ruqs_healthy_total :: number
  ruqs_unhealthy_total :: number
  ruqs_direct_total :: number
  ruqs_socks4_total :: number
  ruqs_socks5_total :: number
  ruqs_shadowsocks_total :: number

record runtimeUpstreamQualityDc =
  ruqd_dc :: number
  ruqd_latency_ema_ms :: "number option"
  ruqd_ip_preference :: string

record runtimeUpstreamQualityUpstream =
  ruqu_upstream_id :: number
  ruqu_route_kind :: string
  ruqu_address :: string
  ruqu_weight :: number
  ruqu_scopes :: string
  ruqu_healthy :: bool
  ruqu_fails :: number
  ruqu_last_check_age_secs :: number
  ruqu_effective_latency_ms :: "number option"
  ruqu_dc :: "runtimeUpstreamQualityDc list"

record runtimeUpstreamQualityData =
  ruqda_enabled :: bool
  ruqda_reason :: "string option"
  ruqda_generated_at_epoch_secs :: number
  ruqda_policy :: runtimeUpstreamQualityPolicy
  ruqda_counters :: runtimeUpstreamQualityCounters
  ruqda_summary :: "runtimeUpstreamQualitySummary option"
  ruqda_upstreams :: "runtimeUpstreamQualityUpstream list option"

record runtimeTopic =
  rt_gates :: "runtimeGates option"
  rt_initialization :: "runtimeInitialization option"
  rt_me_pool_state :: "runtimeMePoolState gated option"
  rt_me_quality :: "runtimeMeQuality gated option"
  rt_nat_stun :: "runtimeNatStun gated option"
  rt_me_selftest :: "runtimeMeSelftest gated option"
  rt_minimal :: "runtimeMinimalAll gated option"
  rt_upstream_quality :: "runtimeUpstreamQualityData option"
  rt_recent_events :: "runtimeEdgeEvents gated option"

record upstreamDcRow =
  udr_dc :: number
  udr_latency_ema_ms :: "number option"
  udr_ip_preference :: string

record upstreamStatus =
  us_upstream_id :: number
  us_route_kind :: string
  us_address :: string
  us_weight :: number
  us_scopes :: string
  us_healthy :: bool
  us_fails :: number
  us_last_check_age_secs :: number
  us_effective_latency_ms :: "number option"
  us_dc :: "upstreamDcRow list"

record upstreamSummary =
  usu_configured_total :: number
  usu_healthy_total :: number
  usu_unhealthy_total :: number
  usu_direct_total :: number
  usu_socks4_total :: number
  usu_socks5_total :: number
  usu_shadowsocks_total :: number

record zeroUpstream =
  zu_connect_attempt_total :: number
  zu_connect_success_total :: number
  zu_connect_fail_total :: number
  zu_connect_failfast_hard_error_total :: number
  zu_connect_attempts_bucket_1 :: number
  zu_connect_attempts_bucket_2 :: number
  zu_connect_attempts_bucket_3_4 :: number
  zu_connect_attempts_bucket_gt_4 :: number
  zu_connect_duration_success_bucket_le_100ms :: number
  zu_connect_duration_success_bucket_101_500ms :: number
  zu_connect_duration_success_bucket_501_1000ms :: number
  zu_connect_duration_success_bucket_gt_1000ms :: number
  zu_connect_duration_fail_bucket_le_100ms :: number
  zu_connect_duration_fail_bucket_101_500ms :: number
  zu_connect_duration_fail_bucket_501_1000ms :: number
  zu_connect_duration_fail_bucket_gt_1000ms :: number

record upstreamsData =
  ud_enabled :: bool
  ud_reason :: "string option"
  ud_generated_at_epoch_secs :: number
  ud_zero :: zeroUpstream
  ud_summary :: "upstreamSummary option"
  ud_upstreams :: "upstreamStatus list option"

record upstreamsTopic =
  uto_upstreams :: "upstreamsData option"
  uto_dcs :: "dcStatusData option"
  uto_me_writers :: "meWritersData option"

record securityPosture =
  sp_api_read_only :: bool
  sp_api_whitelist_enabled :: bool
  sp_api_whitelist_entries :: number
  sp_api_auth_header_enabled :: bool
  sp_proxy_protocol_enabled :: bool
  sp_log_level :: string
  sp_telemetry_core_enabled :: bool
  sp_telemetry_user_enabled :: bool
  sp_telemetry_me_level :: string

record securityWhitelist =
  sw_generated_at_epoch_secs :: number
  sw_enabled :: bool
  sw_entries_total :: number
  sw_entries :: "string list"

record effectiveTimeoutLimits =
  etl_client_first_byte_idle_secs :: number
  etl_client_handshake_secs :: number
  etl_tg_connect_secs :: number
  etl_client_keepalive_secs :: number
  etl_client_ack_secs :: number
  etl_me_one_retry :: number
  etl_me_one_timeout_ms :: number

record effectiveUpstreamLimits =
  eul_connect_retry_attempts :: number
  eul_connect_retry_backoff_ms :: number
  eul_connect_budget_ms :: number
  eul_unhealthy_fail_threshold :: number
  eul_connect_failfast_hard_errors :: bool

record effectiveUserIPPolicyLimits =
  euippl_global_each :: number
  euippl_mode :: string
  euippl_window_secs :: number

record effectiveUserTCPPolicyLimits =
  eutcppl_global_each :: number

record effectiveLimits =
  el_update_every_secs :: number
  el_me_reinit_every_secs :: number
  el_me_pool_force_close_secs :: number
  el_timeouts :: effectiveTimeoutLimits
  el_upstream :: effectiveUpstreamLimits
  el_middle_proxy :: json
  el_user_ip_policy :: effectiveUserIPPolicyLimits
  el_user_tcp_policy :: effectiveUserTCPPolicyLimits

record securityTopic =
  st_posture :: "securityPosture option"
  st_whitelist :: "securityWhitelist option"
  st_effective_limits :: "effectiveLimits option"

record updateTopicEvent =
  ute_run_id :: string
  ute_target :: string
  ute_phase :: string
  ute_version_from :: "string option"
  ute_version_to :: string
  ute_started_at :: string
  ute_finished_at :: "string option"
  ute_detail :: "string option"

record webPermitStatus =
  wps_used :: number
  wps_available :: number
  wps_capacity :: number
  wps_closed :: bool

record webManagerStatus =
  wms_issuance_enabled :: bool
  wms_issuance_generation :: number
  wms_shutdown :: bool
  wms_bootstraps :: number
  wms_sessions :: number
  wms_closed_tokens :: number
  wms_closed_sessions :: number
  wms_client_ips :: number
  wms_profiles :: number

record webStreamStatus =
  wss_live :: number
  wss_profiles :: number
  wss_closed :: bool

record webBudgetStatus =
  wbs_queue_bytes :: number
  wbs_queue_items :: number
  wbs_control_bytes :: number
  wbs_control_items :: number
  wbs_websocket_bytes :: number
  wbs_high_water_bytes :: number
  wbs_owners :: number
  wbs_closed :: bool

record webSocketsStatus =
  wsst_entries :: number
  wsst_claims :: number
  wsst_evictions_in_flight :: number
  wsst_closed :: bool

record webLearningStatus =
  wls_enabled :: bool
  wls_aggressiveness :: string
  wls_epoch :: "number option"
  wls_entries :: number
  wls_capacity :: number
  wls_lifetime_secs :: number
  wls_age_ms :: number

record webDebugStatus =
  wds_policy :: json
  wds_policy_generation :: number
  wds_epoch :: number
  wds_records :: number
  wds_records_capacity :: number
  wds_used_bytes :: number
  wds_bytes_capacity :: number
  wds_contention_drops :: number
  wds_evictions :: number
  wds_byte_truncations :: number
  wds_earliest_seq :: "number option"
  wds_latest_seq :: "number option"

record webRuntimeStatus =
  wrs_runtime_instance :: string
  wrs_generation_id :: number
  wrs_limits :: json
  wrs_manager :: "webManagerStatus option"
  wrs_streams :: "webStreamStatus option"
  wrs_budget :: "webBudgetStatus option"
  wrs_websockets :: "webSocketsStatus option"
  wrs_learning :: "webLearningStatus option"
  wrs_debug :: "webDebugStatus option"
  wrs_permits :: "(string \<times> webPermitStatus) list"
  wrs_auxiliary_tasks :: number
  wrs_session_incarnations_created :: number
  wrs_session_incarnations_closed :: number
  wrs_streams_opened :: number
  wrs_streams_rejected :: number
  wrs_bytes_up :: number
  wrs_bytes_down :: number
  wrs_limit_hits :: number
  wrs_partial :: "string list"

record webIngressStatus =
  wis_configured_listeners :: number
  wis_live_acceptors :: number
  wis_accepting_connections :: bool
  wis_reason :: "string option"
  wis_tcp_accept_total :: number
  wis_tcp_accept_error_total :: number

record webCapacityResourceStatus =
  wcrs_resource :: string
  wcrs_unit :: string
  wcrs_used :: number
  wcrs_available :: number
  wcrs_limit :: number
  wcrs_closed :: bool

record webRejectionCounter =
  wrc_reason :: string
  wrc_total :: number

record webOutcomeCounter =
  woc_outcome :: string
  woc_total :: number

record webCapacityStatus =
  wcs_http_connection_capacity_action :: string
  wcs_max_http_overload_connections :: number
  wcs_http_overload_timeout_ms :: number
  wcs_resources :: "webCapacityResourceStatus list"
  wcs_saturated_resources :: "string list"
  wcs_partial :: "string list"
  wcs_rejections :: "webRejectionCounter list"
  wcs_http_connection_overload_outcomes :: "webOutcomeCounter list"

record webDecoyUpstreamStatus =
  wdus_outcomes :: "webOutcomeCounter list"
  wdus_last_outcome :: "string option"
  wdus_last_outcome_age_ms :: "number option"

record webDecoyFastTrackStatusRequests =
  wdftsr_disposition :: string
  wdftsr_total :: number

record webDecoyFastTrackStatus =
  wdfts_mode :: string
  wdfts_requests :: "webDecoyFastTrackStatusRequests list"

record webCarrierNegotiationStatusSelections =
  wcnss_carrier :: string
  wcnss_disposition :: string
  wcnss_total :: number

record webCarrierNegotiationStatusReportedFailures =
  wcnsrf_carrier :: string
  wcnsrf_phase :: string
  wcnsrf_reason :: string
  wcnsrf_total :: number

record webCarrierNegotiationStatusLearningOutcomes =
  wcnslo_carrier :: string
  wcnslo_outcome :: string
  wcnslo_total :: number

record webCarrierNegotiationStatus =
  wcns_selections :: "webCarrierNegotiationStatusSelections list"
  wcns_reported_failures :: "webCarrierNegotiationStatusReportedFailures list"
  wcns_learning_outcomes :: "webCarrierNegotiationStatusLearningOutcomes list"

record webLifecycleCountersStatusSessionClosures =
  wlcssc_carrier :: string
  wlcssc_reason :: string
  wlcssc_total :: number

record webLifecycleCountersStatusSessionObservations =
  wlcsso_carrier :: string
  wlcsso_observation :: string
  wlcsso_total :: number

record webLifecycleCountersStatusBridgeRecoveryEvents =
  wlcsbre_event :: string
  wlcsbre_total :: number

record webLifecycleCountersStatus =
  wlcs_bridge_recovery_secs :: number
  wlcs_session_closures :: "webLifecycleCountersStatusSessionClosures list"
  wlcs_session_observations :: "webLifecycleCountersStatusSessionObservations list"
  wlcs_bridge_recovery_events :: "webLifecycleCountersStatusBridgeRecoveryEvents list"

record webOperatorDrainStatus =
  wods_operation_id :: string
  wods_state :: string
  wods_outcome :: "string option"
  wods_timeout_secs :: number
  wods_started_epoch_millis :: number
  wods_deadline_epoch_millis :: number
  wods_completed_epoch_millis :: "number option"
  wods_remaining_sessions :: number
  wods_remaining_streams :: number
  wods_remaining_websockets :: number
  wods_force_close_signalled :: bool

record webOperatorLifecycleStatus =
  wols_state :: string
  wols_epoch :: number
  wols_age_ms :: number
  wols_admission_open :: bool
  wols_effective_new_work_admission :: bool
  wols_drain :: "webOperatorDrainStatus option"

record webStatus =
  ws_lifecycle :: string
  ws_lifecycle_epoch :: number
  ws_lifecycle_age_ms :: number
  ws_available :: bool
  ws_reason :: "string option"
  ws_listeners :: "string list"
  ws_effective_config_enabled :: bool
  ws_ingress :: "webIngressStatus option"
  ws_capacity :: "webCapacityStatus option"
  ws_decoy_upstream :: "webDecoyUpstreamStatus option"
  ws_decoy_fasttrack :: "webDecoyFastTrackStatus option"
  ws_carrier_negotiation :: "webCarrierNegotiationStatus option"
  ws_lifecycle_counters :: "webLifecycleCountersStatus option"
  ws_operator_lifecycle :: "webOperatorLifecycleStatus option"
  ws_runtime :: "webRuntimeStatus option"

record webTopic =
  wt_status :: "webStatus gated option"

end
