(* ===== verification/Config_Reload.thy ===== *)
theory Config_Reload
  imports Panel_Prelude Topics
begin

text \<open>
  What a configuration change leaves to do: \<open>web/src/server/config/reloadPolicy.ts\<close>,
  \<open>reloadStatus.helpers.ts\<close> and \<open>pendingChanges.ts\<close>. The browser's \<open>localStorage\<close> slot is an option
  value; \<open>None\<close> is also what an unavailable storage or a garbage entry reads as. Times are epoch
  milliseconds.
\<close>

subsection \<open>Reload policy\<close>

datatype reloadMode = RNone | RInstant | RDrain

record reloadPolicyState =
  rp_mode :: reloadMode
  rp_timeoutSecs :: number

definition DEFAULT_RELOAD_POLICY :: reloadPolicyState where
  "DEFAULT_RELOAD_POLICY = \<lparr>rp_mode = RNone, rp_timeoutSecs = 30\<rparr>"

record patchReloadQuery =
  prq_reload :: "reloadMode option"
  prq_timeout_secs :: "number option"

definition toPatchReloadQuery :: "reloadPolicyState \<Rightarrow> patchReloadQuery" where
  "toPatchReloadQuery policy =
    (if rp_mode policy = RNone then \<lparr>prq_reload = None, prq_timeout_secs = None\<rparr>
     else \<lparr>prq_reload = Some (rp_mode policy),
           prq_timeout_secs = (if rp_mode policy = RDrain then Some (rp_timeoutSecs policy) else None)\<rparr>)"

subsection \<open>Steppers\<close>

datatype stepOutcome = SSuccess | SError | SRollingBack

record stepInfo =
  si_stepIndex :: int
  si_totalSteps :: nat
  si_terminal :: bool
  si_outcome :: "stepOutcome option"

text \<open>\<open>Array.prototype.indexOf\<close>.\<close>

fun indexOf :: "'a list \<Rightarrow> 'a \<Rightarrow> int" where
  "indexOf [] x = -1"
| "indexOf (y # ys) x = (if x = y then 0 else let i = indexOf ys x in if i < 0 then -1 else i + 1)"

lemma indexOf_mem: "x \<in> set xs \<Longrightarrow> 0 \<le> indexOf xs x \<and> indexOf xs x < int (length xs) \<and> xs ! nat (indexOf xs x) = x"
proof (induction xs)
  case (Cons y ys)
  show ?case
  proof (cases "x = y")
    case False
    with Cons have IH: "0 \<le> indexOf ys x" "indexOf ys x < int (length ys)" "ys ! nat (indexOf ys x) = x" by auto
    with False show ?thesis by (simp add: Let_def nat_add_distrib)
  qed simp
qed simp

lemma indexOf_notin: "x \<notin> set xs \<Longrightarrow> indexOf xs x = -1"
  by (induction xs) auto

datatype reloadState = Accepted | Preparing | Activating | Draining | Succeeded | RolledBack | ReloadFailed

definition RELOAD_STEPS :: "reloadState list" where
  "RELOAD_STEPS = [Accepted, Preparing, Activating, Draining, Succeeded]"

definition reloadStepInfo :: "reloadState \<Rightarrow> stepInfo" where
  "reloadStepInfo state =
    (if state = RolledBack \<or> state = ReloadFailed
     then \<lparr>si_stepIndex = -1, si_totalSteps = length RELOAD_STEPS, si_terminal = True, si_outcome = Some SError\<rparr>
     else let idx = indexOf RELOAD_STEPS state
          in \<lparr>si_stepIndex = idx, si_totalSteps = length RELOAD_STEPS, si_terminal = (state = Succeeded),
              si_outcome = (if state = Succeeded then Some SSuccess else None)\<rparr>)"

definition isTerminalReloadState :: "reloadState \<Rightarrow> bool" where
  "isTerminalReloadState state \<longleftrightarrow> state = Succeeded \<or> state = RolledBack \<or> state = ReloadFailed"

text \<open>What a stepper promises about the state it shows, whichever process it follows.\<close>

locale stepper =
  fixes info :: "'s \<Rightarrow> stepInfo" and isTerminal :: "'s \<Rightarrow> bool" and path :: "'s list"
  assumes index: "si_stepIndex (info s) = indexOf path s"
    and total: "si_totalSteps (info s) = length path"
    and terminal: "si_terminal (info s) = isTerminal s"
    and success: "si_outcome (info s) = Some SSuccess \<longleftrightarrow> path \<noteq> [] \<and> s = last path"
    and ends: "isTerminal s \<longleftrightarrow> si_outcome (info s) \<in> {Some SSuccess, Some SError}"
    and distinct_path: "distinct path"
begin

lemma on_path: "s \<in> set path \<longleftrightarrow> 0 \<le> si_stepIndex (info s)"
  using indexOf_mem [of s path] indexOf_notin [of s path] index by (cases "s \<in> set path") auto

lemma index_bounds: "-1 \<le> si_stepIndex (info s) \<and> si_stepIndex (info s) < int (si_totalSteps (info s))"
  using indexOf_mem [of s path] indexOf_notin [of s path] index total by (cases "s \<in> set path") auto

lemma index_inj: "s \<in> set path \<Longrightarrow> t \<in> set path \<Longrightarrow> si_stepIndex (info s) = si_stepIndex (info t) \<Longrightarrow> s = t"
  using indexOf_mem [of s path] indexOf_mem [of t path] index by metis

lemma last_step: "si_outcome (info s) = Some SSuccess \<Longrightarrow> si_stepIndex (info s) = int (length path) - 1"
proof -
  assume "si_outcome (info s) = Some SSuccess"
  then have ne: "path \<noteq> []" and s: "s = last path" using success by auto
  then have "s \<in> set path" by simp
  from indexOf_mem [OF this] have i: "0 \<le> indexOf path s" "indexOf path s < int (length path)"
    "path ! nat (indexOf path s) = path ! (length path - 1)"
    using ne s by (simp_all add: last_conv_nth)
  then have "nat (indexOf path s) = length path - 1"
    using distinct_path ne by (simp add: nth_eq_iff_index_eq)
  with i ne show ?thesis by (simp add: index of_nat_diff Suc_le_eq)
qed

end

interpretation reload_stepper: stepper reloadStepInfo isTerminalReloadState RELOAD_STEPS
  by unfold_locales
    (auto simp: reloadStepInfo_def isTerminalReloadState_def RELOAD_STEPS_def Let_def split: if_splits)

subsection \<open>Pending changes\<close>

record pendingConfigChanges =
  pc_runtimeReload :: bool
  pc_processRestart :: bool
  pc_at :: number

record patchResult =
  pr_runtime_reload_required :: bool
  pr_process_restart_required :: bool
  pr_reload :: bool
  pr_revision :: "string option"

definition START_TIME_SLACK_MS :: number where
  "START_TIME_SLACK_MS = 10000"

text \<open>The slot as \<open>getPendingChanges\<close> reads it back.\<close>

fun getPendingChanges :: "json option \<Rightarrow> pendingConfigChanges option" where
  "getPendingChanges (Some (JObj v)) =
    (case okey v ''at'' of
       JNum atv \<Rightarrow> Some \<lparr>pc_runtimeReload = (okey v ''runtimeReload'' = JBool True),
                       pc_processRestart = (okey v ''processRestart'' = JBool True), pc_at = atv\<rparr>
     | _ \<Rightarrow> None)"
| "getPendingChanges _ = None"

definition clearPendingChanges :: "json option" where
  "clearPendingChanges = None"

definition recordPendingChanges :: "patchResult \<Rightarrow> number \<Rightarrow> json option \<Rightarrow> json option" where
  "recordPendingChanges result now slot =
    (let runtimeReload = (pr_runtime_reload_required result \<and> \<not> pr_reload result);
         processRestart = pr_process_restart_required result
     in if \<not> runtimeReload \<and> \<not> processRestart then clearPendingChanges
        else Some (JObj [(''runtimeReload'', JBool runtimeReload), (''processRestart'', JBool processRestart), (''at'', JNum now)]))"

definition resolvePendingChanges :: "pendingConfigChanges option \<Rightarrow> statsSnapshot option \<Rightarrow> number \<Rightarrow> bool \<times> bool" where
  "resolvePendingChanges pending stats now =
    (case pending of
       None \<Rightarrow> (False, False)
     | Some p \<Rightarrow>
         let reloadedSince = (case stats of None \<Rightarrow> False | Some st \<Rightarrow>
               (case ssn_last_config_reload_epoch_secs st of None \<Rightarrow> False | Some r \<Rightarrow> pc_at p \<le> r * 1000));
             uptime = (case stats of None \<Rightarrow> None | Some st \<Rightarrow>
               (case ssn_uptime_seconds st of Some u \<Rightarrow> Some u | None \<Rightarrow> map_option ss_uptime_seconds (ssn_summary st)));
             restartedSince = (case uptime of None \<Rightarrow> False | Some u \<Rightarrow> pc_at p - START_TIME_SLACK_MS \<le> now - u * 1000)
         in (pc_runtimeReload p \<and> \<not> reloadedSince \<and> \<not> restartedSince, pc_processRestart p \<and> \<not> restartedSince))"

text \<open>Pending configuration changes. What the panel remembers of a PATCH reads back exactly, and is
  forgotten when the PATCH left nothing to do; without statistics what was remembered stands; a
  process start after the PATCH (within the slack) settles both halves, a reload only its own; and
  nothing is ever announced that the PATCH did not leave pending.\<close>

theorem pending_changes_resolved:
  fixes result tm slot stats now
  defines "rr \<equiv> pr_runtime_reload_required result \<and> \<not> pr_reload result"
    and "pr \<equiv> pr_process_restart_required result"
    and "p \<equiv> getPendingChanges (recordPendingChanges result tm slot)"
  shows "p = (if rr \<or> pr then Some \<lparr>pc_runtimeReload = rr, pc_processRestart = pr, pc_at = tm\<rparr> else None) \<and>
    resolvePendingChanges p None now = (rr, pr) \<and>
    (case resolvePendingChanges p (Some stats) now of (reload, restart) \<Rightarrow>
       (reload \<longrightarrow> rr) \<and> (restart \<longrightarrow> pr) \<and>
       (\<forall>u. ssn_uptime_seconds stats = Some u \<and> tm - 10000 \<le> now - u * 1000 \<longrightarrow> \<not> reload \<and> \<not> restart) \<and>
       (\<forall>r. ssn_last_config_reload_epoch_secs stats = Some r \<and> tm \<le> r * 1000 \<longrightarrow> \<not> reload) \<and>
       (ssn_uptime_seconds stats = None \<and> ssn_summary stats = None \<longrightarrow> restart = pr))"
  by (auto simp: p_def rr_def pr_def recordPendingChanges_def clearPendingChanges_def resolvePendingChanges_def
      START_TIME_SLACK_MS_def Let_def split: option.splits)

theorem pending_changes_resolved_witness:
  "let result = \<lparr>pr_runtime_reload_required = True, pr_process_restart_required = True, pr_reload = False, pr_revision = None\<rparr>;
       p = getPendingChanges (recordPendingChanges result 1000000 None)
   in resolvePendingChanges p None 2000000 = (True, True) \<and>
      resolvePendingChanges p (Some \<lparr>ssn_health = None, ssn_summary = None, ssn_ready = None, ssn_connections_summary = None, ssn_version = None,
          ssn_uptime_seconds = Some 5, ssn_config_reload_count = None, ssn_last_config_reload_epoch_secs = None\<rparr>) 2000000 = (False, False)"
  using pending_changes_resolved [where tm = 1000000 and slot = None and now = 2000000
      and result = "\<lparr>pr_runtime_reload_required = True, pr_process_restart_required = True, pr_reload = False, pr_revision = None\<rparr>"
      and stats = "\<lparr>ssn_health = None, ssn_summary = None, ssn_ready = None, ssn_connections_summary = None, ssn_version = None,
          ssn_uptime_seconds = Some 5, ssn_config_reload_count = None, ssn_last_config_reload_epoch_secs = None\<rparr>"]
  by (auto simp: Let_def split: prod.splits)

text \<open>The reload stepper. Every state of a reload is shown with an index inside the happy path or off
  it, distinct states on the path have distinct indices, the last step is shown exactly on success,
  and the polling stops exactly at the states shown as finished.\<close>

theorem reload_stepper_faithful:
  "-1 \<le> si_stepIndex (reloadStepInfo s) \<and> si_stepIndex (reloadStepInfo s) < int (si_totalSteps (reloadStepInfo s)) \<and>
   (s \<in> set RELOAD_STEPS \<longleftrightarrow> 0 \<le> si_stepIndex (reloadStepInfo s)) \<and>
   (s \<in> set RELOAD_STEPS \<and> t \<in> set RELOAD_STEPS \<and> si_stepIndex (reloadStepInfo s) = si_stepIndex (reloadStepInfo t) \<longrightarrow> s = t) \<and>
   (si_outcome (reloadStepInfo s) = Some SSuccess \<longrightarrow> si_stepIndex (reloadStepInfo s) = int (length RELOAD_STEPS) - 1) \<and>
   (isTerminalReloadState s \<longleftrightarrow> si_outcome (reloadStepInfo s) \<in> {Some SSuccess, Some SError})"
  using reload_stepper.index_bounds reload_stepper.on_path reload_stepper.index_inj reload_stepper.last_step
    reload_stepper.ends by blast

theorem reload_stepper_faithful_witness:
  "si_stepIndex (reloadStepInfo Succeeded) = 4 \<and> isTerminalReloadState Succeeded"
  using reload_stepper_faithful [of Succeeded Accepted]
  by (simp add: reloadStepInfo_def RELOAD_STEPS_def isTerminalReloadState_def)

end
