(* ===== verification/Config_Editor.thy ===== *)
theory Config_Editor
  imports Config_Props
begin

text \<open>
  The editing session of the configuration page: \<open>web/src/server/config/useConfigEditor.ts\<close> and
  \<open>configSave.helpers.ts\<close>. The hook's state is a baseline, the working copy and a reference the
  asynchronous callbacks read; its events are the renders with the query's current data, the forms'
  edits and the explicit re-seeding after a save or a resolved conflict.
\<close>

record configSnapshot =
  cs_revision :: string
  cs_sections :: jobject

record configEditorState =
  ed_baseline :: "configSnapshot option"
  ed_edited :: "jobject option"
  ed_editedRef :: "jobject option"
  ed_documentVersion :: nat

definition initialEditor :: configEditorState where
  "initialEditor = \<lparr>ed_baseline = None, ed_edited = None, ed_editedRef = None, ed_documentVersion = 0\<rparr>"

definition useConfigEditor :: "configSnapshot option \<Rightarrow> configEditorState \<Rightarrow> configEditorState" where
  "useConfigEditor queryData st =
    (case queryData of
       Some q \<Rightarrow> if ed_baseline st = None then st\<lparr>ed_baseline := Some q, ed_edited := Some (cs_sections q)\<rparr> else st
     | None \<Rightarrow> st)"

definition setEdited :: "jobject \<Rightarrow> configEditorState \<Rightarrow> configEditorState" where
  "setEdited nxt st = st\<lparr>ed_editedRef := Some nxt, ed_edited := Some nxt\<rparr>"

definition seed :: "configSnapshot \<Rightarrow> jobject option \<Rightarrow> configEditorState \<Rightarrow> configEditorState" where
  "seed fresh workingCopy st =
    (let copy = (case workingCopy of Some w \<Rightarrow> w | None \<Rightarrow> cs_sections fresh)
     in st\<lparr>ed_baseline := Some fresh, ed_editedRef := Some copy, ed_edited := Some copy,
           ed_documentVersion := Suc (ed_documentVersion st)\<rparr>)"

definition getEdited :: "configEditorState \<Rightarrow> jobject option" where
  "getEdited st = ed_editedRef st"

datatype editorEvent = Render "configSnapshot option" | Edit jobject | Seed configSnapshot "jobject option"

fun editor_step :: "configEditorState \<Rightarrow> editorEvent \<Rightarrow> configEditorState" where
  "editor_step st (Render q) = useConfigEditor q st"
| "editor_step st (Edit nxt) = setEdited nxt st"
| "editor_step st (Seed fresh w) = seed fresh w st"

definition preserveLateConfigEdits :: "jobject \<Rightarrow> jobject \<Rightarrow> jobject \<Rightarrow> jobject" where
  "preserveLateConfigEdits fresh submittedDraft latestDraft =
    (let latePatch = buildConfigPatch submittedDraft latestDraft
     in if latePatch = [] then fresh else rb_edited (rebaseEdits fresh latePatch []))"

subsection \<open>The working copy\<close>

text \<open>Renders alone never touch a session that has begun.\<close>

lemma renders_keep_edit:
  "ed_baseline st \<noteq> None \<Longrightarrow> list_all (\<lambda>e. \<exists>q. e = Render q) es \<Longrightarrow> run editor_step st es = st"
  by (induction es) (auto simp: useConfigEditor_def split: option.split)

definition editor_ok :: "configEditorState \<Rightarrow> bool" where
  "editor_ok st \<longleftrightarrow> (ed_editedRef st = None \<or> ed_editedRef st = ed_edited st) \<and>
     (ed_baseline st \<noteq> None \<longrightarrow> ed_edited st \<noteq> None) \<and> (ed_baseline st = None \<longrightarrow> ed_editedRef st = None) \<and>
     (0 < ed_documentVersion st \<longrightarrow> ed_baseline st \<noteq> None \<and> ed_editedRef st \<noteq> None)"

text \<open>An edit needs a document on screen: the forms exist only once the session is seeded.\<close>

fun editor_live :: "configEditorState \<Rightarrow> editorEvent list \<Rightarrow> bool" where
  "editor_live st [] = True"
| "editor_live st (e # es) = ((case e of Edit _ \<Rightarrow> ed_baseline st \<noteq> None | _ \<Rightarrow> True) \<and> editor_live (editor_step st e) es)"

lemma editor_ok_step: "editor_ok st \<Longrightarrow> (case e of Edit _ \<Rightarrow> ed_baseline st \<noteq> None | _ \<Rightarrow> True) \<Longrightarrow> editor_ok (editor_step st e)"
  by (cases e) (auto simp: editor_ok_def useConfigEditor_def setEdited_def seed_def Let_def split: option.split)

lemma editor_ok_run: "editor_ok st \<Longrightarrow> editor_live st es \<Longrightarrow> editor_ok (run editor_step st es)"
  by (induction es arbitrary: st) (auto simp: editor_ok_step)

subsection \<open>The body of a patch is well formed\<close>

lemma wf_diffList: "wf_json (JObj ed) \<Longrightarrow> wf_json (JObj (diffList o' ed))"
proof (induction "JObj ed" arbitrary: ed o' rule: measure_induct_rule [of size])
  case (less ed o')
  have dist: "distinct (map fst ed)" using less.prems by simp
  have "wf_json v" if "(k, v) \<in> set (diffEntry o' (k', w))" and kw: "(k', w) \<in> set ed" for k v k' w
  proof -
    have wf: "wf_json w" using less.prems kw by auto
    show ?thesis
    proof (cases "isPlainObject w \<and> isPlainObject (okey o' k')")
      case True
      then obtain wo ov where ob: "w = JObj wo" "okey o' k' = JObj ov" by (auto dest!: is_object_cases)
      have "size w \<le> size_list (size_prod (\<lambda>_. 0) size) ed"
        using kw by (intro size_list_estimation' [of "(k', w)"]) auto
      with less.hyps [of wo ov] ob wf have "wf_json (JObj (diffList ov wo))" by simp
      with that(1) ob show ?thesis by (auto simp: diffEntry_def diffObject_list split: if_splits)
    next
      case False
      then have "diffEntry o' (k', w) = (if valuesEqual (okey o' k') w then [] else [(k', w)])"
        by (auto simp: diffEntry_def)
      with that(1) wf show ?thesis by (auto split: if_splits)
    qed
  qed
  with keys_diffList [OF dist] show ?case by (fastforce simp: diffList_def)
qed

lemma wf_patch:
  assumes "wf_json (JObj ed)"
  shows "wf_json (JObj (buildConfigPatch o' ed))"
proof -
  have dist: "distinct (map fst ed)" using assms by simp
  have "wf_json v" if "(k, v) \<in> set (patchEntry o' (k', w))" and "(k', w) \<in> set ed" for k v k' w
  proof -
    have wf: "wf_json w" using assms that(2) by auto
    show ?thesis
    proof (cases w)
      case (JObj wo)
      with that(1) wf wf_diffList [of wo "as_object (okey o' k')"] show ?thesis
        by (auto simp: patchEntry_def diffObject_list split: if_splits)
    qed (use that(1) wf in \<open>auto simp: patchEntry_def split: if_splits\<close>)
  qed
  with keys_patch [OF dist] show ?thesis by (fastforce simp: buildConfigPatch_entries)
qed

text \<open>What is not empty in a document is not empty in the patch made of it.\<close>

lemma plain_diffList: "plain_tables (JObj ed) \<Longrightarrow> diffList o' ed \<noteq> [] \<Longrightarrow> plain_tables (JObj (diffList o' ed))"
proof (induction "JObj ed" arbitrary: ed o' rule: measure_induct_rule [of size])
  case (less ed o')
  have "k \<noteq> [] \<and> CHR ''.'' \<notin> set k \<and> plain_tables v" if "(k, v) \<in> set (diffEntry o' (k', w))" and kw: "(k', w) \<in> set ed" for k v k' w
  proof -
    have w: "k' \<noteq> [] \<and> CHR ''.'' \<notin> set k' \<and> plain_tables w" using less.prems(1) kw by auto
    show ?thesis
    proof (cases "isPlainObject w \<and> isPlainObject (okey o' k')")
      case True
      then obtain wo ov where ob: "w = JObj wo" "okey o' k' = JObj ov" by (auto dest!: is_object_cases)
      have "size w \<le> size_list (size_prod (\<lambda>_. 0) size) ed"
        using kw by (intro size_list_estimation' [of "(k', w)"]) auto
      with less.hyps [of wo ov] ob w have "diffList ov wo \<noteq> [] \<longrightarrow> plain_tables (JObj (diffList ov wo))" by simp
      with that(1) ob w show ?thesis by (auto simp: diffEntry_def diffObject_list split: if_splits)
    next
      case False
      then have "diffEntry o' (k', w) = (if valuesEqual (okey o' k') w then [] else [(k', w)])"
        by (auto simp: diffEntry_def)
      with that(1) w show ?thesis by (auto split: if_splits)
    qed
  qed
  with less.prems(2) show ?case by (fastforce simp: diffList_def)
qed

lemma plain_patch:
  assumes "plain_tables (JObj ed)" "buildConfigPatch o' ed \<noteq> []"
  shows "plain_tables (JObj (buildConfigPatch o' ed))"
proof -
  have "k \<noteq> [] \<and> CHR ''.'' \<notin> set k \<and> plain_tables v" if "(k, v) \<in> set (patchEntry o' (k', w))" and "(k', w) \<in> set ed" for k v k' w
  proof -
    have pw: "k' \<noteq> [] \<and> CHR ''.'' \<notin> set k' \<and> plain_tables w" using assms(1) that(2) by auto
    show ?thesis
    proof (cases w)
      case (JObj wo)
      with that(1) pw plain_diffList [of wo "as_object (okey o' k')"] show ?thesis
        by (auto simp: patchEntry_def diffObject_list split: if_splits)
    qed (use that(1) pw in \<open>auto simp: patchEntry_def split: if_splits\<close>)
  qed
  with assms(2) show ?thesis by (fastforce simp: buildConfigPatch_entries)
qed

text \<open>C26. What the admin typed while a save was in flight survives it, and nothing else of the fresh document is lost.
  When the PATCH returns, the working copy is rebuilt from Telemt's fresh configuration: at every field that was edited
  after the submit -- a leaf of the latest document whose value is not the submitted one -- it holds the latest value; every
  path that is neither above nor below such a field keeps the fresh value, if the latest document has no empty table (and no
  key that is empty or has a dot); and it is exactly the fresh configuration when nothing was edited in the meantime.\<close>

theorem late_edits_survive_save:
  fixes fresh submitted latest
  defines "r \<equiv> preserveLateConfigEdits fresh submitted latest"
  assumes "wf_json (JObj latest)"
  shows "(\<forall>p\<in>changedLeaves submitted latest. getPath (JObj r) p = getPath (JObj latest) p) \<and>
    (plain_tables (JObj latest) \<longrightarrow> (\<forall>p. (\<forall>q\<in>changedLeaves submitted latest. \<not> prefix q p \<and> \<not> prefix p q) \<longrightarrow>
       getPath (JObj r) p = getPath (JObj fresh) p)) \<and>
    (sameJson (JObj submitted) (JObj latest) \<longrightarrow> r = fresh)"
proof (intro conjI ballI allI impI)
  define late where "late = buildConfigPatch submitted latest"
  have wf: "wf_json (JObj late)" unfolding late_def by (rule wf_patch [OF assms(2)])
  have r: "r = deepMerge fresh late"
    by (simp add: r_def late_def preserveLateConfigEdits_def rebaseEdits_def Let_def)
  have leaf: "set (leafPaths (JObj late)) = changedLeaves submitted latest"
    "p \<in> changedLeaves submitted latest \<Longrightarrow> getPath (JObj late) p = getPath (JObj latest) p" for p
    unfolding late_def by (rule patch_leaves [OF assms(2)])+
  show "getPath (JObj r) p = getPath (JObj latest) p" if "p \<in> changedLeaves submitted latest" for p
    using merge_sets_leaves [of p late fresh] that wf leaf(2) [OF that] unfolding r leaf(1) by simp
  show "getPath (JObj r) p = getPath (JObj fresh) p"
    if plain: "plain_tables (JObj latest)" and away: "\<forall>q\<in>changedLeaves submitted latest. \<not> prefix q p \<and> \<not> prefix p q" for p
  proof (cases "late = []")
    case True
    then show ?thesis by (simp add: r deepMerge.simps)
  next
    case False
    with plain have "plain_tables (JObj late)" unfolding late_def by (rule plain_patch)
    with path_cases [OF this wf, of p] away have "leaves (JObj late) p" unfolding leaf(1) by blast
    then show ?thesis unfolding r by (rule merge_keeps_others [OF _ wf])
  qed
  show "r = fresh" if "sameJson (JObj submitted) (JObj latest)"
    using patch_equal_empty [OF assms(2)] that by (simp add: valuesEqual_same [symmetric] r_def preserveLateConfigEdits_def del: valuesEqual_obj)
qed

theorem late_edits_survive_save_witness:
  "let submitted = [(''g'', JObj [(''a'', JNum 1), (''b'', JNum 1)])]; latest = [(''g'', JObj [(''a'', JNum 2), (''b'', JNum 1)])];
       fresh = [(''g'', JObj [(''a'', JNum 1), (''b'', JNum 7)])]; r = preserveLateConfigEdits fresh submitted latest
   in getPath (JObj r) [''g'', ''a''] = JNum 2 \<and> getPath (JObj r) [''g'', ''b''] = JNum 7"
proof -
  let ?s = "[(''g'', JObj [(''a'', JNum 1), (''b'', JNum 1)])]" and ?l = "[(''g'', JObj [(''a'', JNum 2), (''b'', JNum 1)])]"
  let ?f = "[(''g'', JObj [(''a'', JNum 1), (''b'', JNum 7)])]"
  have late: "changedLeaves ?s ?l = {[''g'', ''a'']}"
    by (auto simp: changedLeaves_def leafPaths_obj leafPaths_leaf valuesEqual_same [symmetric] valuesEqual_scalar)
  have "wf_json (JObj ?l)" "plain_tables (JObj ?l)" by simp_all
  note keeps = late_edits_survive_save [OF this(1), of ?s ?f, unfolded late]
  have "getPath (JObj (preserveLateConfigEdits ?f ?s ?l)) [''g'', ''a''] = getPath (JObj ?l) [''g'', ''a'']"
    using keeps [THEN conjunct1] by blast
  moreover have "getPath (JObj (preserveLateConfigEdits ?f ?s ?l)) [''g'', ''b''] = getPath (JObj ?f) [''g'', ''b'']"
    by (rule keeps [THEN conjunct2, THEN conjunct1, THEN mp, OF \<open>plain_tables (JObj ?l)\<close>, THEN spec, THEN mp]) simp
  ultimately show ?thesis by (simp add: Let_def)
qed

text \<open>The query never takes the working copy away. Starting from an empty editor and with edits only
  while a document is on screen: however often the query re-renders the page, with whatever data, a
  session that has begun keeps its baseline and its working copy; and what the asynchronous callbacks
  read is the working copy on screen as soon as it was edited or re-seeded.\<close>

theorem refetch_keeps_working_copy:
  fixes es
  defines "st \<equiv> run editor_step initialEditor es"
  assumes "editor_live initialEditor es" "list_all (\<lambda>e. \<exists>q. e = Render q) renders"
  shows "(ed_baseline st \<noteq> None \<longrightarrow> run editor_step st renders = st) \<and>
    (getEdited st = None \<or> getEdited st = ed_edited st) \<and>
    (0 < ed_documentVersion st \<longrightarrow> getEdited st = ed_edited st \<and> ed_edited st \<noteq> None)"
proof -
  have "editor_ok st"
    unfolding st_def using assms(2) by (intro editor_ok_run) (simp add: editor_ok_def initialEditor_def)
  then show ?thesis using renders_keep_edit [OF _ assms(3), of st] by (auto simp: editor_ok_def getEdited_def)
qed

theorem refetch_keeps_working_copy_witness:
  fixes q
  defines "q \<equiv> \<lambda>r v. Some \<lparr>cs_revision = r, cs_sections = [(''g'', v)]\<rparr>"
  shows "ed_edited (run editor_step (run editor_step initialEditor [Render (q ''1'' (JNum 1)), Edit [(''g'', JNum 5)]])
    [Render (q ''2'' (JNum 2))]) = Some [(''g'', JNum 5)]"
  using refetch_keeps_working_copy [of "[Render (q ''1'' (JNum 1)), Edit [(''g'', JNum 5)]]" "[Render (q ''2'' (JNum 2))]"]
  by (simp add: initialEditor_def useConfigEditor_def setEdited_def q_def)

end
