(* ===== verification/Draft_Session.thy ===== *)
theory Draft_Session
  imports Js_String
begin

text \<open>
  Draft sessions, \<open>web/src/lib/draftSession.ts\<close> and the hook of \<open>draftSessionReact.ts\<close>: an editor keeps
  a baseline, the user's draft and an unresolved remote version, over any type of document with an
  equality the editor supplies. The locale \<open>draft_equality\<close> states what is needed of that equality and
  proves what no editor may violate; the editors' equalities are its interpretations.
\<close>

record 'a versionedDraft =
  vd_value :: 'a
  vd_revision :: "string option"

record 'a draftSession =
  ds_sessionKey :: string
  ds_baseline :: "'a versionedDraft"
  ds_draft :: 'a
  ds_remote :: "'a versionedDraft option"

record 'a submittedDraft =
  sd_sessionKey :: string
  sd_value :: 'a
  sd_revision :: "string option"
  sd_requestId :: nat

definition receiveRemote ::
  "('a \<Rightarrow> 'a \<Rightarrow> bool) \<Rightarrow> 'a draftSession \<Rightarrow> 'a versionedDraft \<Rightarrow> bool \<Rightarrow> 'a draftSession" where
  "receiveRemote equal st fresh preserveDraft =
    (let base = ds_baseline st;
         remoteIsFresh = (case ds_remote st of None \<Rightarrow> False
           | Some r \<Rightarrow> vd_revision r = vd_revision fresh \<and> equal (vd_value r) (vd_value fresh))
     in if vd_revision fresh = vd_revision base \<and> equal (vd_value fresh) (vd_value base) then st
        else if preserveDraft then (if remoteIsFresh then st else st\<lparr>ds_remote := Some fresh\<rparr>)
        else if vd_revision fresh \<noteq> None \<and> vd_revision fresh = vd_revision base
        then st\<lparr>ds_baseline := fresh,
                ds_draft := (if equal (ds_draft st) (vd_value base) then vd_value fresh else ds_draft st),
                ds_remote := (case ds_remote st of None \<Rightarrow> None
                  | Some r \<Rightarrow> if vd_revision r = vd_revision fresh then None else Some r)\<rparr>
        else if remoteIsFresh then st
        else if ds_remote st = None \<and> equal (ds_draft st) (vd_value base)
        then st\<lparr>ds_baseline := fresh, ds_draft := vd_value fresh, ds_remote := None\<rparr>
        else st\<lparr>ds_remote := Some fresh\<rparr>)"

definition acknowledgeSubmitted ::
  "('a \<Rightarrow> 'a \<Rightarrow> bool) \<Rightarrow> 'a draftSession \<Rightarrow> 'a submittedDraft \<Rightarrow> 'a versionedDraft \<Rightarrow> 'a draftSession" where
  "acknowledgeSubmitted equal st submitted confirmed =
    (if ds_sessionKey st \<noteq> sd_sessionKey submitted then st
     else let canonical = (case ds_remote st of
                Some r \<Rightarrow> if vd_revision r \<noteq> None \<and> vd_revision r = vd_revision confirmed then r else confirmed
              | None \<Rightarrow> confirmed);
              matchesConfirmation = (case ds_remote st of
                Some r \<Rightarrow> equal (vd_value r) (vd_value canonical) \<and> vd_revision r = vd_revision canonical
              | None \<Rightarrow> False)
          in st\<lparr>ds_baseline := canonical,
                ds_draft := (if equal (ds_draft st) (sd_value submitted) then vd_value canonical else ds_draft st),
                ds_remote := (if matchesConfirmation then None else ds_remote st)\<rparr>)"

definition discardToRemote :: "'a draftSession \<Rightarrow> 'a draftSession" where
  "discardToRemote st =
    (let base = (case ds_remote st of Some r \<Rightarrow> r | None \<Rightarrow> ds_baseline st)
     in st\<lparr>ds_baseline := base, ds_draft := vd_value base, ds_remote := None\<rparr>)"

subsection \<open>The hook\<close>

record 'a draftHook =
  dh_session :: "'a draftSession"
  dh_received :: "string \<times> 'a versionedDraft \<times> bool"

definition startSession :: "string \<Rightarrow> 'a versionedDraft \<Rightarrow> 'a draftSession" where
  "startSession key fresh = \<lparr>ds_sessionKey = key, ds_baseline = fresh, ds_draft = vd_value fresh, ds_remote = None\<rparr>"

definition useDraftSession :: "string \<Rightarrow> 'a versionedDraft \<Rightarrow> bool \<Rightarrow> 'a draftHook" where
  "useDraftSession key fresh preserveDraft =
    \<lparr>dh_session = startSession key fresh, dh_received = (key, fresh, preserveDraft)\<rparr>"

text \<open>The layout effect of a render with the given key, query data and protection.\<close>

definition draftEffect ::
  "('a \<Rightarrow> 'a \<Rightarrow> bool) \<Rightarrow> string \<Rightarrow> 'a versionedDraft \<Rightarrow> bool \<Rightarrow> 'a draftHook \<Rightarrow> 'a draftHook" where
  "draftEffect equal key fresh preserveDraft h =
    (let (prevKey, prevFresh, prevPreserve) = dh_received h
     in if prevKey \<noteq> key
        then \<lparr>dh_session = startSession key fresh, dh_received = (key, fresh, preserveDraft)\<rparr>
        else if vd_revision prevFresh \<noteq> vd_revision fresh \<or> \<not> equal (vd_value prevFresh) (vd_value fresh)
        then \<lparr>dh_session = receiveRemote equal (dh_session h) fresh preserveDraft, dh_received = (key, fresh, preserveDraft)\<rparr>
        else if prevPreserve \<noteq> preserveDraft then h\<lparr>dh_received := (key, fresh, preserveDraft)\<rparr>
        else h)"

subsection \<open>What an editor relies on\<close>

lemma receiveRemote_key [simp]: "ds_sessionKey (receiveRemote eq s f p) = ds_sessionKey s"
  by (simp add: receiveRemote_def Let_def)

lemma acknowledge_key [simp]: "ds_sessionKey (acknowledgeSubmitted eq s sub c) = ds_sessionKey s"
  by (simp add: acknowledgeSubmitted_def Let_def)

lemma discard_key [simp]: "ds_sessionKey (discardToRemote s) = ds_sessionKey s"
  by (simp add: discardToRemote_def Let_def)

locale draft_equality =
  fixes equal :: "'a \<Rightarrow> 'a \<Rightarrow> bool"
  assumes equal_refl: "equal x x"
    and equal_sym: "equal x y \<Longrightarrow> equal y x"
    and equal_trans: "equal x y \<Longrightarrow> equal y z \<Longrightarrow> equal x z"
begin

definition dirty :: "'a draftSession \<Rightarrow> bool" where
  "dirty st \<longleftrightarrow> \<not> equal (ds_draft st) (vd_value (ds_baseline st))"

lemma receive_keeps_dirty_draft:
  "dirty st \<Longrightarrow> ds_draft (receiveRemote equal st fresh p) = ds_draft st"
  by (auto simp: dirty_def receiveRemote_def Let_def)

lemma receive_protected:
  "ds_draft (receiveRemote equal st fresh True) = ds_draft st \<and>
   ds_baseline (receiveRemote equal st fresh True) = ds_baseline st"
  by (auto simp: receiveRemote_def Let_def)

text \<open>A version the editor does not know is either adopted or kept as an unresolved conflict.\<close>

lemma receive_not_lost:
  "vd_revision fresh \<noteq> vd_revision (ds_baseline st) \<Longrightarrow>
   (let st' = receiveRemote equal st fresh p
    in ds_baseline st' = fresh \<or> (\<exists>r. ds_remote st' = Some r \<and> vd_revision r = vd_revision fresh \<and> equal (vd_value r) (vd_value fresh)))"
  by (auto simp: receiveRemote_def Let_def equal_refl split: option.split)

lemma receive_conflict_shown:
  "dirty st \<Longrightarrow> vd_revision fresh \<noteq> vd_revision (ds_baseline st) \<Longrightarrow>
   ds_remote (receiveRemote equal st fresh p) \<noteq> None \<and> ds_baseline (receiveRemote equal st fresh p) = ds_baseline st"
  by (auto simp: dirty_def receiveRemote_def Let_def split: option.split)

lemma acknowledge_keeps_later_edit:
  "\<not> equal (ds_draft st) (sd_value sub) \<Longrightarrow> ds_draft (acknowledgeSubmitted equal st sub c) = ds_draft st"
  by (auto simp: acknowledgeSubmitted_def Let_def)

lemma acknowledge_clean:
  "ds_sessionKey st = sd_sessionKey sub \<Longrightarrow> equal (ds_draft st) (sd_value sub) \<Longrightarrow>
   \<not> dirty (acknowledgeSubmitted equal st sub c)"
  by (simp add: dirty_def acknowledgeSubmitted_def Let_def equal_refl)

lemma acknowledge_revision:
  "ds_sessionKey st = sd_sessionKey sub \<Longrightarrow> vd_revision (ds_baseline (acknowledgeSubmitted equal st sub c)) = vd_revision c"
  by (auto simp: acknowledgeSubmitted_def Let_def split: option.split)

lemma discard_clean: "\<not> dirty (discardToRemote st) \<and> ds_remote (discardToRemote st) = None"
  by (simp add: dirty_def discardToRemote_def Let_def equal_refl)

lemma effect_keeps_dirty_draft:
  "dirty (dh_session h) \<Longrightarrow> fst (dh_received h) = key \<Longrightarrow>
   ds_draft (dh_session (draftEffect equal key fresh p h)) = ds_draft (dh_session h)"
  by (auto simp: draftEffect_def receive_keeps_dirty_draft split: prod.splits)

lemma effect_protected:
  "fst (dh_received h) = key \<Longrightarrow> ds_draft (dh_session (draftEffect equal key fresh True h)) = ds_draft (dh_session h)"
  by (auto simp: draftEffect_def receive_protected split: prod.splits)

end

text \<open>The TOML editor compares texts.\<close>

definition equalText :: "string \<Rightarrow> string \<Rightarrow> bool" where
  "equalText a b = (a = b)"

interpretation text_draft: draft_equality equalText
  by unfold_locales (simp_all add: equalText_def)

end
