(* ===== verification/I18n.thy ===== *)
theory I18n
  imports Js_String
begin

text \<open>
  Text helpers of \<open>web/src/i18n/plural.ts\<close>. A dictionary is the table of its texts, addressed by their
  path, with its locale; the browser's number formatter of that locale and the table of messages for error
  codes are part of it.
\<close>

datatype panelLocale = Ru | En

record dict =
  di_locale :: panelLocale
  di_text :: "string \<Rightarrow> string"
  di_number :: "number \<Rightarrow> string"
  di_errors :: "string \<Rightarrow> string option"

definition pluralIndex :: "panelLocale \<Rightarrow> number \<Rightarrow> nat" where
  "pluralIndex loc n =
    (let count = nat \<lfloor>\<bar>n\<bar>\<rfloor>; mod10 = count mod 10; mod100 = count mod 100
     in if loc = En then (if count = 1 then 0 else 1)
        else if mod10 = 1 \<and> mod100 \<noteq> 11 then 0
        else if 2 \<le> mod10 \<and> mod10 \<le> 4 \<and> (mod100 < 12 \<or> 14 < mod100) then 1
        else 2)"

definition plural :: "dict \<Rightarrow> number \<Rightarrow> string \<times> string \<times> string \<Rightarrow> string" where
  "plural s n forms = (case forms of (one, few, many) \<Rightarrow>
     (let i = pluralIndex (di_locale s) n in if i = 0 then one else if i = 1 then few else many))"

definition formatNumber :: "dict \<Rightarrow> number \<Rightarrow> string" where
  "formatNumber s n = di_number s n"

text \<open>\<open>\w\<close>: letters, digits and the underscore.\<close>

definition is_word :: "char \<Rightarrow> bool" where
  "is_word c \<longleftrightarrow> is_digit c \<or> c = CHR ''_'' \<or>
     (let n = (of_char c :: nat) in (65 \<le> n \<and> n \<le> 90) \<or> (97 \<le> n \<and> n \<le> 122))"

function fill :: "string \<Rightarrow> (string \<times> string) list \<Rightarrow> string" where
  "fill [] vars = []"
| "fill (c # s) vars =
    (let name = takeWhile is_word s; rest = dropWhile is_word s
     in if c = CHR ''{'' \<and> name \<noteq> [] \<and> rest \<noteq> [] \<and> hd rest = CHR ''}''
        then (case map_of vars name of Some v \<Rightarrow> v | None \<Rightarrow> c # name @ ''}'') @ fill (tl rest) vars
        else c # fill s vars)"
  by pat_completeness auto
termination
proof (relation "measure (length \<circ> fst)", goal_cases)
  case (2 c s vars name rest)
  then have "length rest \<le> length s" by (simp add: length_dropWhile_le)
  with 2 show ?case by auto
qed simp_all

definition countLabel :: "dict \<Rightarrow> number \<Rightarrow> string \<times> string \<times> string \<Rightarrow> string" where
  "countLabel s n forms = formatNumber s n @ '' '' @ plural s n forms"

definition pluralTemplate :: "dict \<Rightarrow> number \<Rightarrow> string \<times> string \<times> string \<Rightarrow> string" where
  "pluralTemplate s n forms = fill (plural s n forms) [(''n'', formatNumber s n)]"

end
