(* ===== verification/Api_Error.thy ===== *)
theory Api_Error
  imports I18n
begin

text \<open>
  Errors of the panel's API as the pages read them: \<open>web/src/people/apiError.ts\<close> and the lookup of a
  message for a code, \<open>web/src/i18n/messages.ts\<close>. An error is a JSON value of unknown shape.
\<close>

fun apiErrorCode :: "json \<Rightarrow> string option" where
  "apiErrorCode (JObj kvs) = (case okey kvs ''code'' of JStr c \<Rightarrow> Some c | _ \<Rightarrow> None)"
| "apiErrorCode _ = None"

definition errorMessage :: "dict \<Rightarrow> string \<Rightarrow> string" where
  "errorMessage s code = (case di_errors s code of Some t \<Rightarrow> t | None \<Rightarrow> di_text s ''errors.default'')"

definition apiErrorMessage :: "json \<Rightarrow> dict \<Rightarrow> string" where
  "apiErrorMessage err s = (case apiErrorCode err of None \<Rightarrow> errorMessage s ''network'' | Some code \<Rightarrow> errorMessage s code)"

end
