(* ===== verification/Toml_Session.thy ===== *)
theory Toml_Session
  imports Api_Error Draft_Session Config_Reload
begin

text \<open>
  The TOML settings session, \<open>web/src/server/config/useTomlSettingsSession.ts\<close>, as a machine over the
  draft hook: its events are the calls of the controller's interface, the answers of the preview and
  PATCH requests in flight (in any order) and new data of the query. Every event is followed by the
  render it causes, whose layout effect hands the query data to the draft session; the session is
  protected while a write is pending or its outcome is unknown. Toasts, the query client's
  invalidations and the two fire-and-forget mutations (reload, restart) leave no trace in the session
  and are not part of its state; a refetch is counted, its answer is a \<open>QueryData\<close> event.
\<close>

subsection \<open>The session\<close>

definition tomlKey :: string where
  "tomlKey = ''telemt-toml''"

record tomlSession =
  to_hook :: "string draftHook"
  to_query :: "string versionedDraft"
  to_writePending :: bool
  to_unknownOutcome :: bool
  to_validatedDraft :: "string submittedDraft option"
  to_preview :: "string list option"
  to_result :: "patchResult option"
  to_reloadPolicy :: reloadPolicyState
  to_conflict :: bool
  to_requestSequence :: nat
  to_activePreview :: "nat option"
  to_activeSave :: "nat option"
  to_pendingSlot :: "json option"
  to_previews :: "string submittedDraft list"
  to_patches :: "(string submittedDraft \<times> reloadPolicyState) list"
  to_refetches :: nat

abbreviation to_session :: "tomlSession \<Rightarrow> string draftSession" where
  "to_session st \<equiv> dh_session (to_hook st)"

definition update :: "(string draftSession \<Rightarrow> string draftSession) \<Rightarrow> tomlSession \<Rightarrow> tomlSession" where
  "update change st = st\<lparr>to_hook := (to_hook st)\<lparr>dh_session := change (to_session st)\<rparr>\<rparr>"

definition useTomlSettingsSession :: "string versionedDraft \<Rightarrow> tomlSession" where
  "useTomlSettingsSession q = \<lparr>to_hook = useDraftSession tomlKey q False, to_query = q, to_writePending = False,
     to_unknownOutcome = False, to_validatedDraft = None, to_preview = None, to_result = None,
     to_reloadPolicy = DEFAULT_RELOAD_POLICY, to_conflict = False, to_requestSequence = 0, to_activePreview = None,
     to_activeSave = None, to_pendingSlot = None, to_previews = [], to_patches = [], to_refetches = 0\<rparr>"

definition tomlDirty :: "tomlSession \<Rightarrow> bool" where
  "tomlDirty st \<longleftrightarrow> ds_draft (to_session st) \<noteq> vd_value (ds_baseline (to_session st))"

definition previewCurrent :: "tomlSession \<Rightarrow> string list option" where
  "previewCurrent st =
    (case to_validatedDraft st of
       None \<Rightarrow> None
     | Some v \<Rightarrow> if sd_value v = ds_draft (to_session st) \<and> sd_revision v = vd_revision (ds_baseline (to_session st))
                then to_preview st else None)"

definition changedCount :: "tomlSession \<Rightarrow> nat" where
  "changedCount st = (case previewCurrent st of None \<Rightarrow> 0 | Some paths \<Rightarrow> length paths)"

definition refetch :: "tomlSession \<Rightarrow> tomlSession" where
  "refetch st = st\<lparr>to_refetches := Suc (to_refetches st)\<rparr>"

definition previewSuccess :: "string list \<Rightarrow> string submittedDraft \<Rightarrow> tomlSession \<Rightarrow> tomlSession" where
  "previewSuccess nxt submitted st =
    (if to_activePreview st \<noteq> Some (sd_requestId submitted) \<or> ds_sessionKey (to_session st) \<noteq> sd_sessionKey submitted then st
     else st\<lparr>to_activePreview := None, to_preview := Some nxt, to_validatedDraft := Some submitted, to_result := None\<rparr>)"

definition previewError :: "string option \<Rightarrow> string submittedDraft \<Rightarrow> tomlSession \<Rightarrow> tomlSession" where
  "previewError code submitted st =
    (if to_activePreview st \<noteq> Some (sd_requestId submitted) then st
     else let st = st\<lparr>to_activePreview := None, to_preview := None, to_validatedDraft := None\<rparr>
          in if code = Some ''revision_conflict'' then refetch (st\<lparr>to_conflict := tomlDirty st\<rparr>) else st)"

definition patchSuccess :: "patchResult \<Rightarrow> number \<Rightarrow> string submittedDraft \<Rightarrow> tomlSession \<Rightarrow> tomlSession" where
  "patchSuccess nxt now submitted st =
    (if to_activeSave st \<noteq> Some (sd_requestId submitted) \<or> ds_sessionKey (to_session st) \<noteq> sd_sessionKey submitted then st
     else let st = update (\<lambda>s. acknowledgeSubmitted equalText s submitted
                 \<lparr>vd_value = sd_value submitted, vd_revision = pr_revision nxt\<rparr>)
               (st\<lparr>to_activeSave := None, to_writePending := False\<rparr>)
          in st\<lparr>to_pendingSlot := recordPendingChanges nxt now (to_pendingSlot st),
                to_result := (if \<not> tomlDirty st \<and> ds_remote (to_session st) = None then Some nxt else None),
                to_preview := None, to_validatedDraft := None, to_conflict := False, to_unknownOutcome := False\<rparr>)"

definition patchError :: "string option \<Rightarrow> string submittedDraft \<Rightarrow> tomlSession \<Rightarrow> tomlSession" where
  "patchError err submitted st =
    (if to_activeSave st \<noteq> Some (sd_requestId submitted) then st
     else let st = st\<lparr>to_activeSave := None, to_writePending := False\<rparr>;
              code = (case err of Some c \<Rightarrow> c | None \<Rightarrow> ''telemt_config_outcome_unknown'');
              st = (if code = ''telemt_config_outcome_unknown''
                    then st\<lparr>to_unknownOutcome := True, to_preview := None, to_validatedDraft := None\<rparr> else st)
          in if code = ''revision_conflict''
             then let isDirty = tomlDirty st;
                      st = (if \<not> isDirty \<and> ds_remote (to_session st) \<noteq> None then update discardToRemote st else st)
                  in refetch (st\<lparr>to_unknownOutcome := False, to_conflict := isDirty\<rparr>)
             else st)"

definition updateDraft :: "string \<Rightarrow> tomlSession \<Rightarrow> tomlSession" where
  "updateDraft nxt st =
    (let st = update (\<lambda>s. if ds_draft s = nxt then s else s\<lparr>ds_draft := nxt\<rparr>) st;
         st = (if \<not> tomlDirty st \<and> ds_remote (to_session st) = None then st\<lparr>to_conflict := False\<rparr> else st)
     in st\<lparr>to_validatedDraft := None, to_preview := None, to_result := None\<rparr>)"

definition validate :: "tomlSession \<Rightarrow> tomlSession" where
  "validate st =
    (if vd_revision (ds_baseline (to_session st)) \<notin> {None, Some []} \<and> to_activePreview st = None \<and> to_activeSave st = None
     then let rid = Suc (to_requestSequence st);
              submitted = \<lparr>sd_sessionKey = ds_sessionKey (to_session st), sd_value = ds_draft (to_session st),
                sd_revision = vd_revision (ds_baseline (to_session st)), sd_requestId = rid\<rparr>
          in st\<lparr>to_requestSequence := rid, to_activePreview := Some rid, to_previews := to_previews st @ [submitted]\<rparr>
     else st)"

definition save :: "tomlSession \<Rightarrow> tomlSession" where
  "save st =
    (if previewCurrent st = None \<or> changedCount st = 0 \<or> to_activeSave st \<noteq> None then st
     else let rid = Suc (to_requestSequence st);
              submitted = \<lparr>sd_sessionKey = ds_sessionKey (to_session st), sd_value = ds_draft (to_session st),
                sd_revision = vd_revision (ds_baseline (to_session st)), sd_requestId = rid\<rparr>
          in st\<lparr>to_requestSequence := rid, to_activeSave := Some rid, to_writePending := True,
                to_patches := to_patches st @ [(submitted, to_reloadPolicy st)]\<rparr>)"

definition discard :: "tomlSession \<Rightarrow> tomlSession" where
  "discard st =
    (let cancelPreview = (to_activePreview st \<noteq> None);
         st = update discardToRemote (st\<lparr>to_activePreview := None\<rparr>);
         st = st\<lparr>to_conflict := False, to_unknownOutcome := False, to_preview := None, to_validatedDraft := None,
                 to_result := None\<rparr>
     in if cancelPreview then refetch st else st)"

definition unmount :: "tomlSession \<Rightarrow> tomlSession" where
  "unmount st = st\<lparr>to_activePreview := None, to_activeSave := None\<rparr>"

definition tomlBlocked :: "bool \<Rightarrow> bool \<Rightarrow> tomlSession \<Rightarrow> bool" where
  "tomlBlocked previewPending patchPending st \<longleftrightarrow>
     tomlDirty st \<or> ds_remote (to_session st) \<noteq> None \<or> to_conflict st \<or> to_unknownOutcome st \<or> previewPending \<or> patchPending"

text \<open>The layout effect of the render that follows.\<close>

definition renderToml :: "tomlSession \<Rightarrow> tomlSession" where
  "renderToml st = st\<lparr>to_hook := draftEffect equalText tomlKey (to_query st) (to_writePending st \<or> to_unknownOutcome st) (to_hook st)\<rparr>"

datatype tomlEvent =
    QueryData "string versionedDraft"
  | UpdateDraft string
  | Validate
  | Save
  | Discard
  | SetReloadPolicy reloadPolicyState
  | PreviewOk nat "string list"
  | PreviewErr nat "string option"
  | PatchOk nat patchResult number
  | PatchErr nat "string option"
  | Unmount

definition answered :: "nat \<Rightarrow> string submittedDraft list \<Rightarrow> string submittedDraft option" where
  "answered rid reqs = find (\<lambda>r. sd_requestId r = rid) reqs"

definition onAnswer :: "nat \<Rightarrow> (tomlSession \<Rightarrow> string submittedDraft list) \<Rightarrow> (string submittedDraft \<Rightarrow> tomlSession \<Rightarrow> tomlSession) \<Rightarrow> tomlSession \<Rightarrow> tomlSession" where
  "onAnswer rid reqs handle st = (case answered rid (reqs st) of None \<Rightarrow> st | Some r \<Rightarrow> handle r st)"

definition patchRequests :: "tomlSession \<Rightarrow> string submittedDraft list" where
  "patchRequests st = map fst (to_patches st)"

fun toml_handle :: "tomlSession \<Rightarrow> tomlEvent \<Rightarrow> tomlSession" where
  "toml_handle st (QueryData q) = st\<lparr>to_query := q\<rparr>"
| "toml_handle st (UpdateDraft t) = updateDraft t st"
| "toml_handle st Validate = validate st"
| "toml_handle st Save = save st"
| "toml_handle st Discard = discard st"
| "toml_handle st (SetReloadPolicy p) = st\<lparr>to_reloadPolicy := p\<rparr>"
| "toml_handle st (PreviewOk rid paths) = onAnswer rid to_previews (previewSuccess paths) st"
| "toml_handle st (PreviewErr rid code) = onAnswer rid to_previews (previewError code) st"
| "toml_handle st (PatchOk rid r now) = onAnswer rid patchRequests (patchSuccess r now) st"
| "toml_handle st (PatchErr rid code) = onAnswer rid patchRequests (patchError code) st"
| "toml_handle st Unmount = unmount st"

definition toml_step :: "tomlSession \<Rightarrow> tomlEvent \<Rightarrow> tomlSession" where
  "toml_step st e = renderToml (toml_handle st e)"

end
