(* ===== verification/Toml_Safety.thy ===== *)
theory Toml_Safety
  imports Toml_Session
begin

text \<open>
  What the TOML session promises: the admin's text is never lost to a response or to new data, only a
  text the server has validated against the current revision is sent, and an answer that is not the
  awaited one changes nothing.
\<close>

subsection \<open>The invariant of a rendered session\<close>

definition toml_ok :: "tomlSession \<Rightarrow> bool" where
  "toml_ok st \<longleftrightarrow> dh_received (to_hook st) = (tomlKey, to_query st, to_writePending st \<or> to_unknownOutcome st) \<and>
     ds_sessionKey (to_session st) = tomlKey"

lemma versioned_eq: "vd_revision a = vd_revision b \<Longrightarrow> equalText (vd_value a) (vd_value b) \<Longrightarrow> a = (b :: string versionedDraft)"
  by (simp add: equalText_def)

lemma render_ok:
  assumes "fst (dh_received (to_hook st)) = tomlKey" "ds_sessionKey (to_session st) = tomlKey"
  shows "toml_ok (renderToml st)"
proof -
  obtain key fresh p where r: "dh_received (to_hook st) = (key, fresh, p)" by (cases "dh_received (to_hook st)")
  have "fresh = to_query st" if "vd_revision fresh = vd_revision (to_query st)" "equalText (vd_value fresh) (vd_value (to_query st))"
    using versioned_eq that .
  with assms r show ?thesis
    by (auto simp: toml_ok_def renderToml_def draftEffect_def Let_def)
qed

lemmas toml_defs = previewSuccess_def previewError_def patchSuccess_def patchError_def updateDraft_def validate_def
  save_def discard_def unmount_def refetch_def update_def onAnswer_def Let_def

lemma handle_frame:
  "dh_received (to_hook (toml_handle st e)) = dh_received (to_hook st) \<and>
   ds_sessionKey (to_session (toml_handle st e)) = ds_sessionKey (to_session st)"
  by (cases e) (auto simp: toml_defs split: option.split)

lemma handle_query: "(\<And>q. e \<noteq> QueryData q) \<Longrightarrow> to_query (toml_handle st e) = to_query st"
  by (cases e) (auto simp: toml_defs split: option.split)

lemma step_ok: "toml_ok st \<Longrightarrow> toml_ok (toml_step st e)"
  unfolding toml_step_def using handle_frame [of st e] by (intro render_ok) (auto simp: toml_ok_def)

lemma init_ok: "toml_ok (useTomlSettingsSession q)"
  by (simp add: toml_ok_def useTomlSettingsSession_def useDraftSession_def startSession_def)

interpretation toml: step_system toml_step toml_ok
  by unfold_locales (rule step_ok)

lemma reached_ok: "toml_ok (run toml_step (useTomlSettingsSession q) es)"
  by (rule toml.run_inv [OF init_ok])

text \<open>A render with the query data of the render before leaves the session alone.\<close>

lemma render_same_data:
  assumes "dh_received (to_hook st) = (tomlKey, to_query st, p)"
  shows "to_session (renderToml st) = to_session st"
  using assms by (simp add: renderToml_def draftEffect_def equalText_def)

lemma render_idle: "toml_ok st \<Longrightarrow> renderToml st = st"
  by (simp add: renderToml_def toml_ok_def draftEffect_def equalText_def)

lemma step_session:
  assumes "toml_ok st" "\<And>q. e \<noteq> QueryData q"
  shows "to_session (toml_step st e) = to_session (toml_handle st e)"
  unfolding toml_step_def using assms handle_frame [of st e] handle_query [OF assms(2), of st]
  by (intro render_same_data [where p = "to_writePending st \<or> to_unknownOutcome st"]) (simp add: toml_ok_def)

lemma render_frame [simp]:
  "to_patches (renderToml st) = to_patches st" "to_previews (renderToml st) = to_previews st"
  "to_validatedDraft (renderToml st) = to_validatedDraft st" "to_preview (renderToml st) = to_preview st"
  "to_query (renderToml st) = to_query st" "to_activeSave (renderToml st) = to_activeSave st"
  by (simp_all add: renderToml_def)

subsection \<open>The draft\<close>

definition draft_of :: "tomlSession \<Rightarrow> string" where
  "draft_of st = ds_draft (to_session st)"

lemma tomlDirty_dirty: "tomlDirty st \<longleftrightarrow> text_draft.dirty (to_session st)"
  by (simp add: tomlDirty_def text_draft.dirty_def equalText_def)

lemma tomlDirty_frame:
  "tomlDirty (st\<lparr>to_activeSave := a, to_writePending := w\<rparr>) = tomlDirty st"
  "tomlDirty (st\<lparr>to_unknownOutcome := u, to_preview := p, to_validatedDraft := v\<rparr>) = tomlDirty st"
  by (simp_all add: tomlDirty_def)

lemma previewSuccess_session [simp]: "to_session (previewSuccess p sub st) = to_session st"
  by (simp add: previewSuccess_def)

lemma previewError_session [simp]: "to_session (previewError c sub st) = to_session st"
  by (simp add: previewError_def refetch_def Let_def)

lemma patchError_session:
  "tomlDirty st \<Longrightarrow> to_session (patchError c sub st) = to_session st"
  by (auto simp: patchError_def refetch_def Let_def tomlDirty_def)

lemma patchSuccess_draft:
  "draft_of (patchSuccess r now sub st) = draft_of st \<or>
   (to_activeSave st = Some (sd_requestId sub) \<and> sd_value sub = draft_of st)"
  using text_draft.acknowledge_keeps_later_edit [of "to_session st" sub]
  by (auto simp: patchSuccess_def draft_of_def update_def Let_def equalText_def)

lemma answered_mem: "answered rid reqs = Some r \<Longrightarrow> r \<in> set reqs \<and> sd_requestId r = rid"
  unfolding answered_def by (rule find_mem)

lemma query_keeps_dirty:
  assumes "toml_ok st" "tomlDirty st"
  shows "draft_of (toml_step st (QueryData q)) = draft_of st"
  using assms text_draft.effect_keeps_dirty_draft [of "to_hook st" tomlKey q "to_writePending st \<or> to_unknownOutcome st"]
  by (simp add: toml_step_def renderToml_def draft_of_def tomlDirty_dirty toml_ok_def)

lemma query_protected:
  assumes "toml_ok st" "to_writePending st \<or> to_unknownOutcome st"
  shows "draft_of (toml_step st (QueryData q)) = draft_of st"
  using assms text_draft.effect_protected [of "to_hook st" tomlKey q]
  by (simp add: toml_step_def renderToml_def draft_of_def toml_ok_def)

lemma query_conflict:
  assumes "toml_ok st" "tomlDirty st" "q \<noteq> to_query st" "vd_revision q \<noteq> vd_revision (ds_baseline (to_session st))"
  shows "ds_remote (to_session (toml_step st (QueryData q))) \<noteq> None"
proof -
  have "vd_revision (to_query st) \<noteq> vd_revision q \<or> \<not> equalText (vd_value (to_query st)) (vd_value q)"
    using assms(3) versioned_eq [of "to_query st" q] by auto
  with assms text_draft.receive_conflict_shown [of "to_session st" q "to_writePending st \<or> to_unknownOutcome st"]
  show ?thesis
    by (simp add: toml_step_def renderToml_def toml_ok_def draftEffect_def tomlDirty_dirty)
qed

lemma handle_keeps_dirty:
  assumes "tomlDirty st" "\<And>t. e \<noteq> UpdateDraft t" "e \<noteq> Discard" "\<And>rid r now. e \<noteq> PatchOk rid r now" "\<And>q. e \<noteq> QueryData q"
  shows "draft_of (toml_handle st e) = draft_of st"
  using assms patchError_session [OF assms(1)]
  by (cases e) (auto simp: draft_of_def onAnswer_def validate_def save_def unmount_def Let_def split: option.split)

text \<open>C8. The admin's text is never lost. In every reachable session with unsaved text: nothing but the
  admin typing or discarding changes the text, except the answer to the active save of exactly that
  text; data arriving while a write is pending or its outcome unknown leaves the draft alone even when
  it is clean; and data of another revision arriving on unsaved text is kept as a conflict to resolve.\<close>

theorem toml_draft_never_lost:
  fixes q es
  defines "st \<equiv> run toml_step (useTomlSettingsSession q) es"
  shows "(tomlDirty st \<and> (\<forall>t. e \<noteq> UpdateDraft t) \<and> e \<noteq> Discard \<longrightarrow>
      draft_of (toml_step st e) = draft_of st \<or>
      (\<exists>rid r now sub pol. e = PatchOk rid r now \<and> (sub, pol) \<in> set (to_patches st) \<and>
        to_activeSave st = Some (sd_requestId sub) \<and> sd_requestId sub = rid \<and> sd_value sub = draft_of st)) \<and>
    (to_writePending st \<or> to_unknownOutcome st \<longrightarrow> draft_of (toml_step st (QueryData q')) = draft_of st) \<and>
    (tomlDirty st \<and> q' \<noteq> to_query st \<and> vd_revision q' \<noteq> vd_revision (ds_baseline (to_session st)) \<longrightarrow>
      ds_remote (to_session (toml_step st (QueryData q'))) \<noteq> None)"
proof (intro conjI impI)
  have ok: "toml_ok st" unfolding st_def by (rule reached_ok)
  { assume a: "tomlDirty st \<and> (\<forall>t. e \<noteq> UpdateDraft t) \<and> e \<noteq> Discard"
    let ?saved = "\<exists>rid r now sub pol. e = PatchOk rid r now \<and> (sub, pol) \<in> set (to_patches st) \<and>
        to_activeSave st = Some (sd_requestId sub) \<and> sd_requestId sub = rid \<and> sd_value sub = draft_of st"
    consider q where "e = QueryData q" | rid r now where "e = PatchOk rid r now"
      | "\<And>q. e \<noteq> QueryData q" "\<And>rid r now. e \<noteq> PatchOk rid r now" by blast
    then show "draft_of (toml_step st e) = draft_of st \<or> ?saved"
    proof cases
      case 1
      then show ?thesis using query_keeps_dirty ok a by blast
    next
      case 2
      then have s: "draft_of (toml_step st e) = draft_of (onAnswer rid patchRequests (patchSuccess r now) st)"
        using step_session [OF ok, of e] by (simp add: draft_of_def)
      show ?thesis
      proof (cases "answered rid (patchRequests st)")
        case None
        then show ?thesis using s by (simp add: onAnswer_def)
      next
        case (Some sub)
        with answered_mem obtain pol where "(sub, pol) \<in> set (to_patches st)" "sd_requestId sub = rid"
          by (fastforce simp: patchRequests_def)
        then show ?thesis using s Some 2 patchSuccess_draft [of r now sub st] by (auto simp: onAnswer_def)
      qed
    next
      case 3
      then show ?thesis
        using handle_keeps_dirty [of st e] step_session [OF ok, of e] a by (simp add: draft_of_def)
    qed }
  show "draft_of (toml_step st (QueryData q')) = draft_of st" if "to_writePending st \<or> to_unknownOutcome st"
    using query_protected ok that by blast
  show "ds_remote (to_session (toml_step st (QueryData q'))) \<noteq> None"
    if "tomlDirty st \<and> q' \<noteq> to_query st \<and> vd_revision q' \<noteq> vd_revision (ds_baseline (to_session st))"
    using query_conflict ok that by blast
qed

lemmas toml_eval = toml_step_def renderToml_def useTomlSettingsSession_def useDraftSession_def startSession_def draftEffect_def
  receiveRemote_def equalText_def tomlKey_def answered_def patchRequests_def previewCurrent_def changedCount_def
  draft_of_def tomlDirty_def acknowledgeSubmitted_def toml_defs

theorem toml_draft_never_lost_witness:
  fixes es q
  defines "es \<equiv> [UpdateDraft ''mine'']" and "q \<equiv> \<lparr>vd_value = ''theirs'', vd_revision = Some ''r2''\<rparr>"
  shows "draft_of (toml_step (run toml_step (useTomlSettingsSession \<lparr>vd_value = ''base'', vd_revision = Some ''r1''\<rparr>) es) (QueryData q)) = ''mine'' \<and>
    ds_remote (to_session (toml_step (run toml_step (useTomlSettingsSession \<lparr>vd_value = ''base'', vd_revision = Some ''r1''\<rparr>) es) (QueryData q))) \<noteq> None"
proof -
  let ?st = "run toml_step (useTomlSettingsSession \<lparr>vd_value = ''base'', vd_revision = Some ''r1''\<rparr>) es"
  have st: "tomlDirty ?st" "draft_of ?st = ''mine''" "q \<noteq> to_query ?st" "vd_revision q \<noteq> vd_revision (ds_baseline (to_session ?st))"
    by (simp_all add: es_def q_def toml_eval)
  with toml_draft_never_lost [where q = "\<lparr>vd_value = ''base'', vd_revision = Some ''r1''\<rparr>" and es = es and e = "QueryData q" and q' = q]
  show ?thesis by auto
qed

subsection \<open>Saving\<close>

text \<open>A preview shown is the answer to a request of the session, received as an event.\<close>

definition previewed :: "tomlEvent list \<Rightarrow> tomlSession \<Rightarrow> bool" where
  "previewed es st \<longleftrightarrow> (case (to_validatedDraft st, to_preview st) of
     (Some v, Some p) \<Rightarrow> PreviewOk (sd_requestId v) p \<in> set es \<and> v \<in> set (to_previews st)
   | _ \<Rightarrow> True)"

lemma previewed_mono: "previewed es st \<Longrightarrow> previewed (es @ [e]) st"
  by (auto simp: previewed_def split: option.splits)

lemma previewed_frame:
  "previewed es st \<Longrightarrow> to_validatedDraft st' = to_validatedDraft st \<Longrightarrow> to_preview st' = to_preview st \<Longrightarrow>
   set (to_previews st) \<subseteq> set (to_previews st') \<Longrightarrow> previewed (es @ [e]) st'"
  by (auto simp: previewed_def split: option.splits)

lemma previewed_none: "to_preview st = None \<Longrightarrow> previewed es st"
  by (simp add: previewed_def split: option.split)

lemma previewed_handle:
  assumes "previewed es st"
  shows "previewed (es @ [e]) (toml_handle st e)"
proof (cases e)
  case (PreviewOk rid paths)
  show ?thesis
  proof (cases "answered rid (to_previews st)")
    case (Some sub)
    from answered_mem [OF this] PreviewOk Some show ?thesis
      using previewed_mono [OF assms] by (simp add: onAnswer_def previewSuccess_def) (simp add: previewed_def)
  qed (use PreviewOk assms in \<open>simp add: onAnswer_def previewed_mono\<close>)
next
  case (PreviewErr rid code)
  then show ?thesis
    using previewed_mono [OF assms]
    by (auto simp: onAnswer_def previewError_def refetch_def Let_def intro: previewed_none split: option.split)
next
  case (PatchOk rid r now)
  then show ?thesis
    using previewed_mono [OF assms]
    by (auto simp: onAnswer_def patchSuccess_def Let_def intro: previewed_none split: option.split)
next
  case (PatchErr rid code)
  have "previewed (es @ [e]) (patchError code sub st)" for sub
  proof (cases "to_preview (patchError code sub st) = None")
    case False
    then show ?thesis
      by (intro previewed_frame [OF assms]) (auto simp: patchError_def refetch_def update_def Let_def split: if_splits)
  qed (rule previewed_none)
  with PatchErr show ?thesis
    by (cases "answered rid (patchRequests st)") (simp_all add: onAnswer_def previewed_mono [OF assms])
next
  case (UpdateDraft t)
  then show ?thesis by (simp add: updateDraft_def Let_def previewed_none)
next
  case Discard
  then show ?thesis by (simp add: discard_def refetch_def Let_def previewed_none)
qed (auto simp: validate_def save_def unmount_def Let_def intro!: previewed_frame [OF assms])

lemma previewed_render [simp]: "previewed es (renderToml st) = previewed es st"
  unfolding previewed_def render_frame ..

lemma previewed_run: "previewed es (run toml_step (useTomlSettingsSession q) es)"
proof (induction es rule: rev_induct)
  case Nil
  show ?case by (simp add: previewed_def useTomlSettingsSession_def)
next
  case (snoc e es)
  from previewed_handle [OF this, of e] show ?case by (simp add: toml_step_def [of _ e])
qed

lemma patches_only_by_save: "e \<noteq> Save \<Longrightarrow> to_patches (toml_step st e) = to_patches st"
  by (cases e) (auto simp: toml_step_def toml_defs split: option.split)

lemma save_adds:
  "to_patches (toml_step st Save) = to_patches st \<or>
   (\<exists>sub v paths. to_patches (toml_step st Save) = to_patches st @ [(sub, to_reloadPolicy st)] \<and>
      sd_value sub = draft_of st \<and> sd_revision sub = vd_revision (ds_baseline (to_session st)) \<and> to_activeSave st = None \<and>
      to_validatedDraft st = Some v \<and> to_preview st = Some paths \<and> paths \<noteq> [] \<and>
      sd_value v = sd_value sub \<and> sd_revision v = sd_revision sub)"
  by (auto simp: toml_step_def save_def changedCount_def previewCurrent_def draft_of_def Let_def split: option.splits if_splits)

text \<open>The requests under way, read off the history alone: a PATCH is under way from the event that sends it to the
  event that answers it.\<close>

fun patchAnswer :: "tomlEvent \<Rightarrow> nat set" where
  "patchAnswer (PatchOk rid r now) = {rid}"
| "patchAnswer (PatchErr rid code) = {rid}"
| "patchAnswer e = {}"

definition sentIds :: "tomlSession \<Rightarrow> nat list" where
  "sentIds st = map sd_requestId (patchRequests st)"

definition underWayStep :: "tomlSession \<times> nat set \<Rightarrow> tomlEvent \<Rightarrow> tomlSession \<times> nat set" where
  "underWayStep p e = (toml_step (fst p) e,
     (snd p - patchAnswer e) \<union> set (drop (length (sentIds (fst p))) (sentIds (toml_step (fst p) e))))"

definition underWay :: "string versionedDraft \<Rightarrow> tomlEvent list \<Rightarrow> nat set" where
  "underWay q es = snd (run underWayStep (useTomlSettingsSession q, {}) es)"

definition awaited_only :: "tomlSession \<times> nat set \<Rightarrow> bool" where
  "awaited_only p \<longleftrightarrow> snd p \<subseteq> set_option (to_activeSave (fst p))"

lemma active_frame:
  assumes "\<And>rid r now. e \<noteq> PatchOk rid r now" "\<And>rid code. e \<noteq> PatchErr rid code" "e \<noteq> Unmount" "e \<noteq> Save"
  shows "to_activeSave (toml_step st e) = to_activeSave st \<and> to_patches (toml_step st e) = to_patches st"
  using assms by (cases e) (auto simp: toml_step_def toml_defs renderToml_def split: option.split)

lemma active_answered:
  assumes "e = PatchOk rid r now \<or> e = PatchErr rid code"
  shows "set_option (to_activeSave st) - {rid} \<subseteq> set_option (to_activeSave (toml_step st e)) \<and> to_patches (toml_step st e) = to_patches st"
proof -
  have "set_option (to_activeSave st) - {sd_requestId sub} \<subseteq> set_option (to_activeSave (patchSuccess r now sub st))"
    "set_option (to_activeSave st) - {sd_requestId sub} \<subseteq> set_option (to_activeSave (patchError code sub st))"
    "to_patches (patchSuccess r now sub st) = to_patches st" "to_patches (patchError code sub st) = to_patches st" for sub
    by (auto simp: patchSuccess_def patchError_def update_def refetch_def Let_def)
  note pieces = this
  have step: "to_activeSave (toml_step st e) = to_activeSave (toml_handle st e)" "to_patches (toml_step st e) = to_patches (toml_handle st e)"
    by (simp_all add: toml_step_def)
  show ?thesis
  proof (cases "answered rid (patchRequests st)")
    case None
    then have "toml_handle st e = st" using assms by (auto simp: onAnswer_def)
    then show ?thesis unfolding step by auto
  next
    case (Some sub)
    then have "toml_handle st e = patchSuccess r now sub st \<or> toml_handle st e = patchError code sub st"
      using assms by (auto simp: onAnswer_def)
    with answered_mem [OF Some] pieces [of sub] show ?thesis unfolding step by auto
  qed
qed

lemma save_active:
  "to_activeSave st \<noteq> None \<Longrightarrow> to_activeSave (toml_step st Save) = to_activeSave st \<and> to_patches (toml_step st Save) = to_patches st"
  "to_activeSave st = None \<Longrightarrow> set (drop (length (sentIds st)) (sentIds (toml_step st Save))) \<subseteq> set_option (to_activeSave (toml_step st Save))"
  by (auto simp: toml_step_def renderToml_def save_def sentIds_def patchRequests_def Let_def)

lemma awaited_only_step:
  assumes "awaited_only p" "e \<noteq> Unmount"
  shows "awaited_only (underWayStep p e)"
proof -
  obtain st F where p: "p = (st, F)" by (cases p)
  have F: "F \<subseteq> set_option (to_activeSave st)" using assms(1) by (simp add: awaited_only_def p)
  have same: "sentIds (toml_step st e) = sentIds st" if "to_patches (toml_step st e) = to_patches st"
    using that by (simp add: sentIds_def patchRequests_def)
  show ?thesis
  proof (cases "e = Save")
    case True
    with F save_active [of st] same show ?thesis
      by (cases "to_activeSave st") (auto simp: awaited_only_def underWayStep_def p)
  next
    case save: False
    show ?thesis
    proof (cases "\<exists>rid r now code. e = PatchOk rid r now \<or> e = PatchErr rid code")
      case True
      then obtain rid r now code where e: "e = PatchOk rid r now \<or> e = PatchErr rid code" by blast
      then have "patchAnswer e = {rid}" by auto
      with active_answered [OF e, of st] same F show ?thesis by (auto simp: awaited_only_def underWayStep_def p)
    next
      case False
      with active_frame [of e st] assms(2) save same F show ?thesis by (auto simp: awaited_only_def underWayStep_def p)
    qed
  qed
qed

lemma awaited_only_run: "awaited_only p \<Longrightarrow> Unmount \<notin> set es \<Longrightarrow> awaited_only (run underWayStep p es)"
proof (induction es arbitrary: p)
  case (Cons e es)
  then have "awaited_only (underWayStep p e)" by (intro awaited_only_step) auto
  with Cons show ?case by simp
qed simp

lemma fst_underWay: "fst (run underWayStep p es) = run toml_step (fst p) es"
  by (induction es arbitrary: p) (simp_all add: underWayStep_def)

lemma nothing_underWay:
  assumes "Unmount \<notin> set es" "to_activeSave (run toml_step (useTomlSettingsSession q) es) = None"
  shows "underWay q es = {}"
  using awaited_only_run [of "(useTomlSettingsSession q, {})" es] assms
  by (simp add: awaited_only_def underWay_def fst_underWay)

text \<open>C9. Only validated text is written. A PATCH leaves the session only through \<open>save\<close>; while the
  session is mounted no other PATCH is then under way, each one sent before having been answered; it carries the text on screen and the revision it is based on; and the
  server has answered a preview of exactly that text against exactly that revision, reporting at least
  one changed path.\<close>

theorem toml_saves_only_validated:
  fixes q es
  defines "st \<equiv> run toml_step (useTomlSettingsSession q) es"
  assumes "to_patches (toml_step st e) \<noteq> to_patches st"
  shows "e = Save \<and> (Unmount \<notin> set es \<longrightarrow> underWay q es = {}) \<and>
    (\<exists>sub v paths. to_patches (toml_step st e) = to_patches st @ [(sub, to_reloadPolicy st)] \<and>
      sd_value sub = draft_of st \<and> sd_revision sub = vd_revision (ds_baseline (to_session st)) \<and>
      v \<in> set (to_previews st) \<and> sd_value v = sd_value sub \<and> sd_revision v = sd_revision sub \<and>
      PreviewOk (sd_requestId v) paths \<in> set es \<and> paths \<noteq> [])"
proof -
  have e: "e = Save" using assms(2) patches_only_by_save by blast
  from save_adds [of st] assms(2) e obtain sub v paths where
    s: "to_patches (toml_step st Save) = to_patches st @ [(sub, to_reloadPolicy st)]"
      "sd_value sub = draft_of st" "sd_revision sub = vd_revision (ds_baseline (to_session st))" "to_activeSave st = None"
      "to_validatedDraft st = Some v" "to_preview st = Some paths" "paths \<noteq> []" "sd_value v = sd_value sub" "sd_revision v = sd_revision sub"
    by blast
  moreover from previewed_run [of es q] s(5,6) have "PreviewOk (sd_requestId v) paths \<in> set es" "v \<in> set (to_previews st)"
    by (simp_all add: previewed_def st_def)
  ultimately show ?thesis using e nothing_underWay [of es q] unfolding st_def by blast
qed

theorem toml_saves_only_validated_witness:
  fixes es
  defines "es \<equiv> [UpdateDraft ''mine'', Validate, PreviewOk 1 [''general.port'']]"
  shows "\<exists>sub. to_patches (run toml_step (useTomlSettingsSession \<lparr>vd_value = ''base'', vd_revision = Some ''r1''\<rparr>) (es @ [Save])) =
    [(sub, DEFAULT_RELOAD_POLICY)] \<and> sd_value sub = ''mine'' \<and> sd_revision sub = Some ''r1''"
proof -
  let ?q = "\<lparr>vd_value = ''base'', vd_revision = Some ''r1''\<rparr>"
  let ?st = "run toml_step (useTomlSettingsSession ?q) es"
  have st: "to_patches ?st = []" "to_reloadPolicy ?st = DEFAULT_RELOAD_POLICY" "draft_of ?st = ''mine''"
    "vd_revision (ds_baseline (to_session ?st)) = Some ''r1''" "to_patches (toml_step ?st Save) \<noteq> []"
    by (simp_all add: es_def toml_eval)
  from toml_saves_only_validated [where q = ?q and es = es and e = Save] st show ?thesis by auto
qed

text \<open>Answers that are not awaited. An answer to a preview or a PATCH that is not the active one,
  because a newer request replaced it, the admin discarded, or the page was left, changes nothing in
  the session; and discarding leaves no preview to wait for.\<close>

theorem toml_late_answers_ignored:
  fixes q es
  defines "st \<equiv> run toml_step (useTomlSettingsSession q) es"
  assumes "(to_activePreview st \<noteq> Some rid \<and> e \<in> {PreviewOk rid paths, PreviewErr rid code}) \<or>
    (to_activeSave st \<noteq> Some rid \<and> e \<in> {PatchOk rid r now, PatchErr rid code})"
  shows "toml_step st e = st \<and> to_activePreview (toml_step st Discard) = None"
proof -
  have "toml_handle st e = st"
    using assms(2)
    by (auto simp: onAnswer_def previewSuccess_def previewError_def patchSuccess_def patchError_def
        dest!: answered_mem split: option.split)
  then have "toml_step st e = st"
    using render_idle [OF reached_ok [of q es]] by (simp add: toml_step_def st_def)
  then show ?thesis by (simp add: toml_step_def renderToml_def discard_def update_def refetch_def Let_def)
qed

theorem toml_late_answers_ignored_witness:
  fixes es
  defines "es \<equiv> [UpdateDraft ''mine'', Validate, Discard]"
  shows "toml_step (run toml_step (useTomlSettingsSession \<lparr>vd_value = ''base'', vd_revision = Some ''r1''\<rparr>) es) (PreviewOk 1 [''a'']) =
    run toml_step (useTomlSettingsSession \<lparr>vd_value = ''base'', vd_revision = Some ''r1''\<rparr>) es"
proof -
  let ?q = "\<lparr>vd_value = ''base'', vd_revision = Some ''r1''\<rparr>"
  have "to_activePreview (run toml_step (useTomlSettingsSession ?q) es) = None"
    by (simp add: es_def toml_eval discardToRemote_def)
  with toml_late_answers_ignored [where q = ?q and es = es and rid = 1 and e = "PreviewOk 1 [''a'']" and paths = "[''a'']"]
  show ?thesis by simp
qed

end
