(* ===== verification/Source_State.thy ===== *)
theory Source_State
  imports Js_String Topics Sse_Client
begin

text \<open>
  The states of a page's data sources: \<open>web/src/pulse/sourceState.ts\<close>, \<open>pulse/meAvailability.ts\<close>,
  \<open>pulse/widgets/gated.ts\<close>, \<open>pulse/widgets/tlsFingerprints.helpers.ts\<close> and \<open>caps/gateHints.ts\<close>. A topic
  source is resolved from the snapshot the SSE client keeps (\<open>Sse_Client.topicSnapshot\<close>), a REST
  source from the slice of a query result the code reads; a page aggregates both.
\<close>

subsection \<open>Gate hints\<close>

datatype gateHintKey =
    Hruntime_edge | Htelemt_outdated | Hquota | Hconfig_api | Hreload_api | Huser_enable_disable
  | Hrotate_secret | Hlog_stream | Hminimal_runtime_enabled | Hme_pool_unavailable
  | Hsource_temporarily_unavailable | Hweb_enabled | Hweb_runtime_transitional

record gateHintByReason =
  gh_feature_disabled :: "gateHintKey option"
  gh_source_unavailable :: "gateHintKey option"
  gh_byReason :: "(string, gateHintKey) js_map option"
  gh_fallback :: gateHintKey

datatype gateHintSpec = HintKey gateHintKey | HintByReason gateHintByReason

definition resolveGateHint :: "gateHintSpec option \<Rightarrow> string option \<Rightarrow> gateHintKey option" where
  "resolveGateHint spec reason =
    (case spec of
       None \<Rightarrow> None
     | Some (HintKey k) \<Rightarrow> Some k
     | Some (HintByReason h) \<Rightarrow>
         (case (case reason of None \<Rightarrow> None | Some r \<Rightarrow> (case gh_byReason h of None \<Rightarrow> None | Some m \<Rightarrow> mget m r)) of
            Some named \<Rightarrow> Some named
          | None \<Rightarrow>
              if reason = Some ''feature_disabled''
              then Some (case gh_feature_disabled h of Some k \<Rightarrow> k | None \<Rightarrow> gh_fallback h)
              else if reason = Some ''source_unavailable''
              then Some (case gh_source_unavailable h of Some k \<Rightarrow> k | None \<Rightarrow> gh_fallback h)
              else Some (gh_fallback h)))"

definition RUNTIME_EDGE_HINTS :: gateHintByReason where
  "RUNTIME_EDGE_HINTS = \<lparr>gh_feature_disabled = Some Hruntime_edge,
     gh_source_unavailable = Some Hsource_temporarily_unavailable, gh_byReason = None, gh_fallback = Hruntime_edge\<rparr>"

definition MINIMAL_STATS_HINTS :: gateHintByReason where
  "MINIMAL_STATS_HINTS = \<lparr>gh_feature_disabled = Some Hminimal_runtime_enabled,
     gh_source_unavailable = Some Hme_pool_unavailable, gh_byReason = None, gh_fallback = Hminimal_runtime_enabled\<rparr>"

definition UPSTREAM_STATS_HINTS :: gateHintByReason where
  "UPSTREAM_STATS_HINTS = \<lparr>gh_feature_disabled = Some Hminimal_runtime_enabled,
     gh_source_unavailable = Some Hsource_temporarily_unavailable, gh_byReason = None,
     gh_fallback = Hminimal_runtime_enabled\<rparr>"

definition ME_POOL_RUNTIME_HINTS :: gateHintByReason where
  "ME_POOL_RUNTIME_HINTS = \<lparr>gh_feature_disabled = None, gh_source_unavailable = Some Hme_pool_unavailable,
     gh_byReason = None, gh_fallback = Hme_pool_unavailable\<rparr>"

definition WEB_RUNTIME_HINTS :: gateHintByReason where
  "WEB_RUNTIME_HINTS = \<lparr>gh_feature_disabled = None, gh_source_unavailable = None,
     gh_byReason = Some [(''starting'', Hweb_runtime_transitional), (''runtime_released'', Hweb_runtime_transitional)],
     gh_fallback = Hweb_enabled\<rparr>"

definition UPSTREAM_QUALITY_HINTS :: gateHintByReason where
  "UPSTREAM_QUALITY_HINTS = \<lparr>gh_feature_disabled = None, gh_source_unavailable = Some Hsource_temporarily_unavailable,
     gh_byReason = None, gh_fallback = Hsource_temporarily_unavailable\<rparr>"

subsection \<open>Source states\<close>

record dataSourceDefinition =
  dsd_id :: string
  dsd_topic :: "topicName option"
  dsd_endpoint :: "string option"
  dsd_required :: bool
  dsd_freshnessPath :: "string option"
  dsd_capabilityPath :: "string option"

datatype sourceStatus = StLoading | StReady | StStale | StPartial | StDisabled | StUnsupported | StError | StEmpty

record sourceState =
  so_id :: string
  so_status :: sourceStatus
  so_freshnessMs :: "number option"
  so_reason :: "string option"
  so_code :: "string option"
  so_hasData :: bool

definition MS_EPOCH_FLOOR :: number where
  "MS_EPOCH_FLOOR = 100000000000"

definition normalizeFreshness :: "number option \<Rightarrow> number option" where
  "normalizeFreshness v =
    (case v of None \<Rightarrow> None | Some n \<Rightarrow> if n \<le> 0 then None else Some (if n < MS_EPOCH_FLOOR then n * 1000 else n))"

fun isGatedLike :: "json \<Rightarrow> bool" where
  "isGatedLike (JObj kvs) = (case okey kvs ''enabled'' of JBool _ \<Rightarrow> True | _ \<Rightarrow> False)"
| "isGatedLike _ = False"

definition UNSUPPORTED_REASONS :: "string list" where
  "UNSUPPORTED_REASONS = [''capability_absent'', ''unsupported'', ''not_implemented'']"

definition gatedStatus :: "'a gated \<Rightarrow> bool \<Rightarrow> sourceStatus" where
  "gatedStatus g buildTooOld =
    (if \<not> g_enabled g
     then (if buildTooOld \<or> (case g_reason g of None \<Rightarrow> False | Some r \<Rightarrow> r \<noteq> [] \<and> r \<in> set UNSUPPORTED_REASONS)
           then StUnsupported else StDisabled)
     else if g_data g = None then StEmpty else StReady)"

fun emptyValue :: "json \<Rightarrow> bool" where
  "emptyValue JNull = True"
| "emptyValue (JArr xs) = (xs = [])"
| "emptyValue (JObj kvs) = (kvs = [])"
| "emptyValue _ = False"

fun isEmptyPayload :: "json \<Rightarrow> bool" where
  "isEmptyPayload JNull = True"
| "isEmptyPayload JUndef = True"
| "isEmptyPayload (JArr xs) = (xs = [])"
| "isEmptyPayload (JObj kvs) = (\<forall>v\<in>set (filter (\<lambda>v. v \<noteq> JUndef) (map snd kvs)). emptyValue v)"
| "isEmptyPayload _ = False"

text \<open>The three values of the \<open>gated\<close> key: omitted, an explicit \<open>null\<close>, or a wrapper.\<close>

datatype gateInput = NoGate | AbsentGate | Gate "json gated"

record topicSourceInput =
  ti_snapshot :: topicSnapshot
  ti_gated :: gateInput
  ti_buildTooOld :: bool
  ti_gateReason :: "string option"
  ti_generatedAt :: "number option"

definition nonEmpty :: "string option \<Rightarrow> string option" where
  "nonEmpty s = (if s = Some [] then None else s)"

definition absentGateState :: "string \<Rightarrow> number option \<Rightarrow> bool \<Rightarrow> string option \<Rightarrow> sourceState" where
  "absentGateState i freshnessMs buildTooOld gateReason =
    \<lparr>so_id = i, so_status = (if buildTooOld then StUnsupported else StDisabled), so_freshnessMs = freshnessMs,
     so_reason = nonEmpty gateReason, so_code = None, so_hasData = False\<rparr>"

text \<open>The fields of the SSE client's snapshot as this module reads them.\<close>

fun json_num :: "json \<Rightarrow> number option" where
  "json_num (JNum n) = Some n"
| "json_num _ = None"

fun json_str :: "json \<Rightarrow> string option" where
  "json_str (JStr s) = Some s"
| "json_str _ = None"

definition sourceIs :: "string \<Rightarrow> sourceStatus \<Rightarrow> number option \<Rightarrow> bool \<Rightarrow> sourceState" where
  "sourceIs i status freshnessMs hasData = \<lparr>so_id = i, so_status = status, so_freshnessMs = freshnessMs, so_reason = None,
     so_code = None, so_hasData = hasData\<rparr>"

definition topicArrived :: "topicSnapshot \<Rightarrow> bool" where
  "topicArrived snap \<longleftrightarrow> snap_data snap \<noteq> JNull \<and> snap_data snap \<noteq> JUndef"

definition resolveTopicSource :: "string \<Rightarrow> topicSourceInput \<Rightarrow> sourceState" where
  "resolveTopicSource i input =
    (let snap = ti_snapshot input;
         freshnessMs = normalizeFreshness (case ti_generatedAt input of Some g \<Rightarrow> Some g | None \<Rightarrow> json_num (snap_ts snap));
         arrived = topicArrived snap;
         err = nonEmpty (json_str (snap_error snap));
         tail = (\<lambda>payload.
           if \<not> arrived
           then (if err \<noteq> None then (sourceIs i StError freshnessMs False)\<lparr>so_code := err\<rparr> else sourceIs i StLoading freshnessMs False)
           else if err \<noteq> None \<or> snap_stale snap then (sourceIs i StStale freshnessMs True)\<lparr>so_code := err\<rparr>
           else if isEmptyPayload payload then sourceIs i StEmpty freshnessMs False
           else sourceIs i StReady freshnessMs True)
     in case ti_gated input of
          AbsentGate \<Rightarrow> if arrived then absentGateState i freshnessMs (ti_buildTooOld input) (ti_gateReason input)
                        else tail (snap_data snap)
        | NoGate \<Rightarrow> tail (snap_data snap)
        | Gate g \<Rightarrow>
            let status = gatedStatus g (ti_buildTooOld input)
            in if status = StDisabled \<or> status = StUnsupported
               then (sourceIs i status freshnessMs False)\<lparr>so_reason := nonEmpty (g_reason g)\<rparr>
               else if status = StEmpty then sourceIs i StEmpty freshnessMs False
               else tail (case g_data g of Some d \<Rightarrow> d | None \<Rightarrow> JUndef))"

record querySourceInput =
  qi_isPending :: bool
  qi_isError :: bool
  qi_error :: "string option option"
  qi_data :: "json option"
  qi_dataUpdatedAt :: "number option"
  qi_gated :: gateInput
  qi_buildTooOld :: bool
  qi_gateReason :: "string option"

definition isCapabilityCode :: "string option \<Rightarrow> bool" where
  "isCapabilityCode code \<longleftrightarrow> code = Some ''capability_unavailable'' \<or> code = Some ''capability_absent''"

definition errorCode :: "string option option \<Rightarrow> string" where
  "errorCode err = (case err of Some (Some c) \<Rightarrow> c | _ \<Rightarrow> ''internal_error'')"

definition resolveQuerySource :: "string \<Rightarrow> querySourceInput \<Rightarrow> sourceState" where
  "resolveQuerySource i input =
    (let freshnessMs = normalizeFreshness (qi_dataUpdatedAt input);
         hasCached = (case qi_gated input of
             Gate g \<Rightarrow> (case g_data g of Some d \<Rightarrow> truthy d | None \<Rightarrow> False)
           | _ \<Rightarrow> qi_data input \<noteq> None)
     in if qi_isError input
        then let code = errorCode (qi_error input)
             in if isCapabilityCode (Some code)
                then sourceIs i (if code = ''capability_absent'' then StUnsupported else StDisabled) freshnessMs False
                else if hasCached then (sourceIs i StStale freshnessMs True)\<lparr>so_code := Some code\<rparr>
                else (sourceIs i StError freshnessMs False)\<lparr>so_code := Some code\<rparr>
        else if qi_isPending input \<or> qi_data input = None then sourceIs i StLoading freshnessMs False
        else case qi_gated input of
               AbsentGate \<Rightarrow> absentGateState i freshnessMs (qi_buildTooOld input) (qi_gateReason input)
             | NoGate \<Rightarrow> if isEmptyPayload (case qi_data input of Some d \<Rightarrow> d | None \<Rightarrow> JUndef)
                         then sourceIs i StEmpty freshnessMs False else sourceIs i StReady freshnessMs True
             | Gate g \<Rightarrow>
                 let status = gatedStatus g (qi_buildTooOld input)
                 in if status \<noteq> StReady then (sourceIs i status freshnessMs False)\<lparr>so_reason := nonEmpty (g_reason g)\<rparr>
                    else if isEmptyPayload (case g_data g of Some d \<Rightarrow> d | None \<Rightarrow> JUndef)
                    then sourceIs i StEmpty freshnessMs False else sourceIs i StReady freshnessMs True)"

datatype detailSourceInput = TopicInput topicSourceInput | QueryInput querySourceInput

fun resolveSource :: "string \<Rightarrow> detailSourceInput \<Rightarrow> sourceState" where
  "resolveSource i (TopicInput t) = resolveTopicSource i t"
| "resolveSource i (QueryInput q) = resolveQuerySource i q"

subsection \<open>The page\<close>

record pageSourcesState =
  ps_byId :: "(string, sourceState) js_map"
  ps_status :: sourceStatus
  ps_freshnessMs :: "number option"
  ps_degraded :: "string list"

definition READY_LIKE :: "sourceStatus list" where
  "READY_LIKE = [StReady, StStale, StEmpty]"

definition newer :: "number option \<Rightarrow> number option \<Rightarrow> number option" where
  "newer best f = (case f of None \<Rightarrow> best | Some n \<Rightarrow> (case best of None \<Rightarrow> Some n | Some b \<Rightarrow> if b < n then Some n else best))"

definition blocked :: "sourceState \<Rightarrow> bool" where
  "blocked st \<longleftrightarrow> so_status st = StError \<or> so_status st = StDisabled \<or> so_status st = StUnsupported"

definition pageStatus :: "sourceState list \<Rightarrow> sourceState list \<Rightarrow> string list \<Rightarrow> sourceStatus" where
  "pageStatus states requiredStates degraded =
    (if states = [] then StLoading
     else case find blocked requiredStates of
       Some st \<Rightarrow> so_status st
     | None \<Rightarrow>
         if (\<exists>st\<in>set requiredStates. so_status st = StLoading) \<and> \<not> (\<exists>st\<in>set states. so_hasData st) then StLoading
         else if degraded \<noteq> [] \<and> (\<exists>st\<in>set states. so_hasData st) then StPartial
         else if \<exists>st\<in>set states. so_status st = StStale then StStale
         else if \<forall>st\<in>set states. so_status st = StEmpty then StEmpty
         else if \<exists>st\<in>set states. so_status st = StLoading then StLoading
         else StReady)"

definition statesOf :: "dataSourceDefinition list \<Rightarrow> (string, sourceState) js_map \<Rightarrow> sourceState list" where
  "statesOf definitions byId = List.map_filter (\<lambda>d. mget byId (dsd_id d)) definitions"

definition aggregateSources :: "dataSourceDefinition list \<Rightarrow> (string, sourceState) js_map \<Rightarrow> pageSourcesState" where
  "aggregateSources definitions byId =
    (let states = statesOf definitions byId;
         degraded = map dsd_id (filter (\<lambda>d. case mget byId (dsd_id d) of
            None \<Rightarrow> False | Some st \<Rightarrow> so_status st \<notin> set READY_LIKE) definitions);
         freshnessMs = foldl (\<lambda>best st. newer best (so_freshnessMs st)) None states;
         requiredStates = statesOf (filter dsd_required definitions) byId
     in \<lparr>ps_byId = byId, ps_status = pageStatus states requiredStates degraded, ps_freshnessMs = freshnessMs,
         ps_degraded = degraded\<rparr>)"

definition noticeVariantFor :: "sourceState \<Rightarrow> sourceStatus option" where
  "noticeVariantFor st = (if so_status st = StDisabled then Some StDisabled
     else if so_status st = StUnsupported then Some StUnsupported else None)"

definition hintKeyFor :: "sourceState \<Rightarrow> gateHintSpec option \<Rightarrow> gateHintKey option" where
  "hintKeyFor st disabledHint =
    (if so_status st = StUnsupported then Some Htelemt_outdated
     else if so_status st = StDisabled then resolveGateHint disabledHint (so_reason st)
     else None)"

fun statusStr :: "sourceStatus \<Rightarrow> string" where
  "statusStr StLoading = ''loading''"
| "statusStr StReady = ''ready''"
| "statusStr StStale = ''stale''"
| "statusStr StPartial = ''partial''"
| "statusStr StDisabled = ''disabled''"
| "statusStr StUnsupported = ''unsupported''"
| "statusStr StError = ''error''"
| "statusStr StEmpty = ''empty''"

definition resolveAll :: "dataSourceDefinition list \<Rightarrow> (string, detailSourceInput) js_map \<Rightarrow> (string, sourceState) js_map" where
  "resolveAll definitions inputs =
    foldl (\<lambda>out d. case mget inputs (dsd_id d) of
        None \<Rightarrow> out
      | Some input \<Rightarrow> mset_key out (dsd_id d) (resolveSource (dsd_id d) input)) [] definitions"

definition stateSignature :: "sourceState \<Rightarrow> string" where
  "stateSignature st = join '':'' [so_id st, statusStr (so_status st),
     (case so_freshnessMs st of None \<Rightarrow> [] | Some n \<Rightarrow> num_str n),
     (case so_code st of None \<Rightarrow> [] | Some c \<Rightarrow> c), (case so_reason st of None \<Rightarrow> [] | Some r \<Rightarrow> r),
     (if so_hasData st then ''true'' else ''false'')]"

definition signatureOf :: "dataSourceDefinition list \<Rightarrow> (string, detailSourceInput) js_map \<Rightarrow> string" where
  "signatureOf definitions inputs = join ''|'' (map (\<lambda>d.
     case mget inputs (dsd_id d) of
       None \<Rightarrow> dsd_id d @ '':-''
     | Some input \<Rightarrow> stateSignature (resolveSource (dsd_id d) input)) definitions)"

text \<open>The two memos of the hook: the states are recomputed when the definitions or the signature
  changed since the last render, the page when the definitions or the states did.\<close>

record detailMemo =
  dm_definitions :: "dataSourceDefinition list"
  dm_signature :: string
  dm_byId :: "(string, sourceState) js_map"

definition useDetailSources ::
  "dataSourceDefinition list \<Rightarrow> (string, detailSourceInput) js_map \<Rightarrow> detailMemo option \<Rightarrow> pageSourcesState \<times> detailMemo" where
  "useDetailSources definitions inputs memo =
    (let signature = signatureOf definitions inputs;
         byId = (case memo of
             Some mm \<Rightarrow> if dm_definitions mm = definitions \<and> dm_signature mm = signature then dm_byId mm
                      else resolveAll definitions inputs
           | None \<Rightarrow> resolveAll definitions inputs)
     in (aggregateSources definitions byId,
         \<lparr>dm_definitions = definitions, dm_signature = signature, dm_byId = byId\<rparr>))"

subsection \<open>TLS fingerprints, gated payloads and the middle proxy\<close>

datatype 'a tlsFingerprintsState =
    TlsLoading
  | TlsDisabled "string option"
  | TlsUnsupported
  | TlsError string
  | TlsOk 'a bool number

record 'a queryLike =
  ql_isPending :: bool
  ql_isError :: bool
  ql_error :: "string option option"
  ql_data :: "'a gated option"
  ql_dataUpdatedAt :: "number option"

definition resolveTlsFingerprintsQuery :: "'a queryLike \<Rightarrow> 'a tlsFingerprintsState" where
  "resolveTlsFingerprintsQuery query =
    (let updated = (case ql_dataUpdatedAt query of Some n \<Rightarrow> n | None \<Rightarrow> 0)
     in if ql_isError query
        then let code = errorCode (ql_error query)
             in if code = ''capability_unavailable'' then TlsDisabled None
                else if code = ''capability_absent'' then TlsUnsupported
                else (case ql_data query of
                    Some g \<Rightarrow> (case g_data g of Some d \<Rightarrow> TlsOk d True updated | None \<Rightarrow> TlsError code)
                  | None \<Rightarrow> TlsError code)
        else if ql_isPending query \<or> ql_data query = None then TlsLoading
        else case ql_data query of
               None \<Rightarrow> TlsLoading
             | Some g \<Rightarrow> (if \<not> g_enabled g then TlsDisabled (g_reason g)
                 else case g_data g of None \<Rightarrow> TlsDisabled (g_reason g) | Some d \<Rightarrow> TlsOk d False updated))"

text \<open>The source the security page builds from the same query.\<close>

definition tlsSource :: "json queryLike \<Rightarrow> querySourceInput" where
  "tlsSource query = \<lparr>qi_isPending = ql_isPending query, qi_isError = ql_isError query, qi_error = ql_error query,
     qi_data = map_option (\<lambda>g. JObj [(''enabled'', JBool (g_enabled g))]) (ql_data query),
     qi_dataUpdatedAt = ql_dataUpdatedAt query,
     qi_gated = (case ql_data query of Some g \<Rightarrow> Gate g | None \<Rightarrow> AbsentGate),
     qi_buildTooOld = False, qi_gateReason = None\<rparr>"

datatype 'a gatedResult = GatedOff "string option" | GatedOk 'a

definition resolveGated :: "'a gated option \<Rightarrow> 'a gatedResult" where
  "resolveGated gated =
    (case gated of
       None \<Rightarrow> GatedOff None
     | Some g \<Rightarrow> if \<not> g_enabled g then GatedOff (g_reason g)
         else (case g_data g of None \<Rightarrow> GatedOff (g_reason g) | Some d \<Rightarrow> GatedOk d))"

text \<open>A topic's snapshot with its payload typed, \<open>TopicSnapshot<T>\<close>.\<close>

record 'a typedSnapshot =
  ts_data :: "'a option"
  ts_ts :: "number option"
  ts_stale :: bool
  ts_error :: "string option"

datatype meAvailabilityState = MeDirect | MeFallback | MeUnavailable | MeMinimalDisabled | MeUnsupported

definition meAvailability :: "runtimeTopic typedSnapshot \<Rightarrow> bool \<Rightarrow> string option \<Rightarrow> bool \<Rightarrow> meAvailabilityState option" where
  "meAvailability runtime available reason minimal =
    (let gates = (if \<not> ts_stale runtime \<and> nonEmpty (ts_error runtime) = None
                  then (case ts_data runtime of None \<Rightarrow> None | Some r \<Rightarrow> rt_gates r) else None);
         direct = (case gates of None \<Rightarrow> False | Some g \<Rightarrow> rg_route_mode g = ''direct'' \<and> \<not> rg_use_middle_proxy g \<and> \<not> rg_reroute_active g);
         fallback = (case gates of None \<Rightarrow> False | Some g \<Rightarrow> rg_route_mode g = ''direct'' \<and> rg_reroute_active g)
     in if direct then Some MeDirect
        else if fallback then Some MeFallback
        else if available then None
        else if gatedStatus (\<lparr>g_enabled = False, g_reason = reason, g_generated_at_epoch_secs = None, g_data = None\<rparr> :: unit gated) False = StUnsupported
        then Some MeUnsupported
        else if minimal \<and> reason = Some ''feature_disabled'' then Some MeMinimalDisabled
        else Some MeUnavailable)"

end
