(* ===== verification/Source_Props.thy ===== *)
theory Source_Props
  imports Source_State
begin

text \<open>
  What the pages may rely on in the states of their sources: every resolved state is coherent, a
  failed refresh never blanks a payload the SSE client still holds, the REST rule agrees with the
  TLS widget's own, the page's aggregate reflects its sources, and the memo of the hook never shows
  anything but the current states.
\<close>

lemma nonEmpty_simps [simp]: "nonEmpty None = None" "nonEmpty (Some s) = (if s = [] then None else Some s)"
  by (simp_all add: nonEmpty_def)

lemma sourceIs_sel [simp]:
  "so_id (sourceIs i st f h) = i" "so_status (sourceIs i st f h) = st" "so_freshnessMs (sourceIs i st f h) = f"
  "so_reason (sourceIs i st f h) = None" "so_code (sourceIs i st f h) = None" "so_hasData (sourceIs i st f h) = h"
  by (simp_all add: sourceIs_def)

lemma gatedStatus_range: "gatedStatus g b \<in> {StDisabled, StUnsupported, StEmpty, StReady}"
  by (simp add: gatedStatus_def)

definition coherent :: "string \<Rightarrow> sourceState \<Rightarrow> bool" where
  "coherent i st \<longleftrightarrow> so_id st = i \<and> so_status st \<noteq> StPartial \<and>
     (so_hasData st \<longleftrightarrow> so_status st = StReady \<or> so_status st = StStale) \<and>
     (so_code st = None \<or> so_status st = StError \<or> so_status st = StStale) \<and>
     (so_status st = StError \<longrightarrow> so_code st \<noteq> None) \<and>
     (so_reason st = None \<or> so_status st \<in> {StDisabled, StUnsupported, StEmpty})"

lemma coherent_sourceIs: "st \<noteq> StPartial \<Longrightarrow> st \<noteq> StError \<Longrightarrow> h = (st = StReady \<or> st = StStale) \<Longrightarrow> coherent i (sourceIs i st f h)"
  by (simp add: coherent_def)

lemma coherent_code:
  "st = StError \<and> c \<noteq> None \<and> \<not> h \<or> st = StStale \<and> h \<Longrightarrow> coherent i ((sourceIs i st f h)\<lparr>so_code := c\<rparr>)"
  by (auto simp: coherent_def)

lemma coherent_reason:
  "st \<in> {StDisabled, StUnsupported, StEmpty} \<Longrightarrow> \<not> h \<Longrightarrow> coherent i ((sourceIs i st f h)\<lparr>so_reason := r\<rparr>)"
  by (auto simp: coherent_def)

lemma coherent_absent: "coherent i (absentGateState i f b r)"
  by (simp add: coherent_def absentGateState_def)

lemmas coherent_intros = coherent_sourceIs coherent_code coherent_reason coherent_absent

lemma coherent_topic: "coherent i (resolveTopicSource i input)"
proof (cases "ti_gated input")
  case (Gate g)
  with gatedStatus_range [of g "ti_buildTooOld input"] show ?thesis
    by (auto simp: resolveTopicSource_def Let_def intro!: coherent_intros)
qed (auto simp: resolveTopicSource_def Let_def intro!: coherent_intros)

lemma coherent_query: "coherent i (resolveQuerySource i input)"
proof (cases "qi_gated input")
  case (Gate g)
  with gatedStatus_range [of g "qi_buildTooOld input"] show ?thesis
    by (auto simp: resolveQuerySource_def Let_def intro!: coherent_intros)
qed (auto simp: resolveQuerySource_def Let_def intro!: coherent_intros)

lemma coherent_source: "coherent i (resolveSource i input)"
  by (cases input) (simp_all add: coherent_topic coherent_query)

text \<open>C35. Every source, over either transport, resolves to a coherent state: it is never \<open>partial\<close>
  (only a page is), a payload is announced exactly for \<open>ready\<close> and \<open>stale\<close>, an error always names
  its code, a source that is loading, ready, empty, disabled or unsupported names none, and a source that is loading, ready,
  stale or failed gives no reason. (The comments on the two fields say that a code comes with the \<open>error\<close> status only and a
  reason with a disabled capability only; the code also gives a stale source the code of the failed refresh, and an empty one
  the reason of its wrapper. The property leaves both open.)\<close>

theorem source_states_coherent:
  fixes i input
  defines "st \<equiv> resolveSource i input"
  shows "so_id st = i \<and> so_status st \<noteq> StPartial \<and>
    so_hasData st = (so_status st = StReady \<or> so_status st = StStale) \<and>
    (so_status st = StError \<longrightarrow> so_code st \<noteq> None) \<and>
    (so_status st \<in> {StLoading, StReady, StEmpty, StDisabled, StUnsupported} \<longrightarrow> so_code st = None) \<and>
    (so_status st \<in> {StLoading, StReady, StStale, StError} \<longrightarrow> so_reason st = None)"
  using coherent_source [of i input] by (auto simp: st_def coherent_def)

theorem source_states_coherent_witness:
  "so_code (resolveSource ''zero'' (QueryInput \<lparr>qi_isPending = False, qi_isError = True, qi_error = None, qi_data = None,
      qi_dataUpdatedAt = None, qi_gated = NoGate, qi_buildTooOld = False, qi_gateReason = None\<rparr>)) = Some ''internal_error''"
  using source_states_coherent [of "''zero''" "QueryInput \<lparr>qi_isPending = False, qi_isError = True, qi_error = None,
      qi_data = None, qi_dataUpdatedAt = None, qi_gated = NoGate, qi_buildTooOld = False, qi_gateReason = None\<rparr>"]
  by (simp add: resolveQuerySource_def Let_def errorCode_def isCapabilityCode_def)

subsection \<open>With the realtime client\<close>

lemma snapshot_after_error:
  assumes "mhas (topicVersions s) t" "mhas (refCounts s) t"
  shows "getTopicSnapshot (applyTopicError t code s) t = (getTopicSnapshot s t)\<lparr>snap_stale := True, snap_error := code\<rparr>"
  using assms by (auto simp: applyTopicError_def getTopicSnapshot_def notifyTopic_def Let_def mget_simps split: option.split)

lemma snapshot_after_data:
  assumes "mhas (topicVersions s) t" "mhas (refCounts s) t"
  shows "getTopicSnapshot (applyTopicData t d ts s) t = \<lparr>snap_data = d, snap_ts = ts, snap_stale = False, snap_error = JNull\<rparr>"
  using assms by (auto simp: applyTopicData_def getTopicSnapshot_def notifyTopic_def mget_simps split: option.split)

text \<open>A source without a gate, and one whose wrapper says that it is on and carries a payload; what such a source shows.\<close>

fun gateOpen :: "gateInput \<Rightarrow> bool" where
  "gateOpen NoGate = True"
| "gateOpen AbsentGate = False"
| "gateOpen (Gate g) = (g_enabled g \<and> g_data g \<noteq> None)"

fun gatePayload :: "gateInput \<Rightarrow> json \<Rightarrow> json" where
  "gatePayload (Gate g) d = (case g_data g of Some p \<Rightarrow> p | None \<Rightarrow> JUndef)"
| "gatePayload _ d = d"

text \<open>C34. A failed refresh keeps the page. Take any topic somebody is subscribed to, read through a
  source without a gate or with an open one. When the hub reports the topic's source as failed, a
  payload already received stays on screen, flagged \<open>stale\<close>; without one the
  source is an error that names the hub's code, never an endless loading -- also when the wrapper of a declared gate has not
  arrived. The next good frame makes the source \<open>ready\<close>, or
  \<open>empty\<close> when what it shows carries nothing.\<close>

theorem failed_refresh_keeps_payload:
  fixes i old r gen ts
  assumes "mhas (topicVersions s) t" "mhas (refCounts s) t" "code \<noteq> []" "d \<noteq> JNull" "d \<noteq> JUndef"
  defines "source \<equiv> \<lambda>gate snap. resolveTopicSource i \<lparr>ti_snapshot = snap, ti_gated = gate, ti_buildTooOld = old,
      ti_gateReason = r, ti_generatedAt = gen\<rparr>"
    and "kept \<equiv> topicArrived (getTopicSnapshot s t)"
    and "failed \<equiv> getTopicSnapshot (applyTopicError t (JStr code) s) t" and "fresh \<equiv> getTopicSnapshot (applyTopicData t d ts s) t"
  shows "(gateOpen gate \<and> kept \<longrightarrow> so_status (source gate failed) = StStale \<and> so_hasData (source gate failed) \<and>
      snap_data failed = snap_data (getTopicSnapshot s t)) \<and>
    ((gateOpen gate \<or> gate = AbsentGate) \<and> \<not> kept \<longrightarrow>
      so_status (source gate failed) = StError \<and> so_code (source gate failed) = Some code \<and> \<not> so_hasData (source gate failed)) \<and>
    (gateOpen gate \<longrightarrow> snap_data fresh = d \<and>
      so_status (source gate fresh) = (if isEmptyPayload (gatePayload gate d) then StEmpty else StReady))"
  using assms(1-5)
  by (cases gate) (auto simp: source_def kept_def failed_def fresh_def snapshot_after_error snapshot_after_data resolveTopicSource_def
      Let_def topicArrived_def gatedStatus_def)

theorem failed_refresh_keeps_payload_witness:
  fixes s g
  defines "s \<equiv> (createSSEClient default_options)\<lparr>refCounts := [(TStats, 1)],
      topicVersions := [(TStats, \<lparr>vid = 0, revision = 0, requestTicket = 0\<rparr>)],
      snapshots := [(TStats, \<lparr>snap_data = JObj [(''a'', JNum 1)], snap_ts = JNum 5, snap_stale = False, snap_error = JNull\<rparr>)]\<rparr>"
    and "g \<equiv> Gate \<lparr>g_enabled = True, g_reason = None, g_generated_at_epoch_secs = None, g_data = Some (JNum 1)\<rparr>"
  shows "so_status (resolveTopicSource ''stats'' \<lparr>ti_snapshot = getTopicSnapshot (applyTopicError TStats (JStr ''down'') s) TStats,
      ti_gated = g, ti_buildTooOld = False, ti_gateReason = None, ti_generatedAt = None\<rparr>) = StStale"
proof -
  have "mhas (topicVersions s) TStats" "mhas (refCounts s) TStats" by (simp_all add: s_def)
  note f = failed_refresh_keeps_payload [OF this, where code = "''down''" and d = "JObj [(''a'', JNum 1)]" and gate = g and i = "''stats''"
      and old = False and r = None and gen = None and ts = "JNum 6"]
  have "topicArrived (getTopicSnapshot s TStats)" "gateOpen g"
    by (simp_all add: s_def g_def getTopicSnapshot_def topicArrived_def)
  with f show ?thesis by simp
qed

subsection \<open>The TLS widget and the page\<close>

text \<open>One query, two readers. The TLS widget resolves its query with its own rule, the security
  page resolves the same query as a source; they agree in every case: loading, an unsupported
  build, an error with the same code, a cached payload kept as stale, and a payload (which the page
  further calls \<open>empty\<close> when it holds nothing). A source the widget calls off is \<open>disabled\<close> on the
  page too, unless Telemt's reason says the build lacks it or the wrapper came without a payload.\<close>

theorem tls_widget_and_page_agree:
  fixes i
  assumes "\<And>g d. ql_data q = Some g \<Longrightarrow> g_data g = Some d \<Longrightarrow> truthy d"
  defines "st \<equiv> resolveQuerySource i (tlsSource q)"
  shows "case resolveTlsFingerprintsQuery q of
      TlsLoading \<Rightarrow> so_status st = StLoading
    | TlsUnsupported \<Rightarrow> so_status st = StUnsupported
    | TlsError c \<Rightarrow> so_status st = StError \<and> so_code st = Some c
    | TlsOk d stale updatedAt \<Rightarrow> so_status st = (if stale then StStale else if isEmptyPayload d then StEmpty else StReady) \<and>
        (\<exists>g. ql_data q = Some g \<and> g_data g = Some d)
    | TlsDisabled r \<Rightarrow> so_status st = StDisabled \<or>
        (so_status st = StUnsupported \<and> (\<exists>t\<in>set UNSUPPORTED_REASONS. r = Some t)) \<or>
        (so_status st = StEmpty \<and> (\<exists>g. ql_data q = Some g \<and> g_enabled g \<and> g_data g = None))"
proof (cases "ql_data q")
  case None
  then show ?thesis
    by (auto simp: st_def resolveTlsFingerprintsQuery_def resolveQuerySource_def tlsSource_def isCapabilityCode_def Let_def)
next
  case (Some g)
  have t: "truthy d" if "g_data g = Some d" for d using assms(1) Some that .
  show ?thesis
    using Some t
    by (cases "g_data g") (auto simp: st_def resolveTlsFingerprintsQuery_def resolveQuerySource_def tlsSource_def
        isCapabilityCode_def gatedStatus_def Let_def split: option.splits)
qed

theorem tls_widget_and_page_agree_witness:
  fixes q :: "json queryLike"
  defines "q \<equiv> \<lparr>ql_isPending = False, ql_isError = True, ql_error = Some (Some ''timeout''),
     ql_data = Some \<lparr>g_enabled = True, g_reason = None, g_generated_at_epoch_secs = None, g_data = Some (JObj [(''x'', JNum 1)])\<rparr>,
     ql_dataUpdatedAt = Some 7\<rparr>"
  shows "resolveTlsFingerprintsQuery q = TlsOk (JObj [(''x'', JNum 1)]) True 7 \<and>
    so_status (resolveQuerySource ''tls'' (tlsSource q)) = StStale"
proof -
  have r: "resolveTlsFingerprintsQuery q = TlsOk (JObj [(''x'', JNum 1)]) True 7"
    by (simp add: q_def resolveTlsFingerprintsQuery_def errorCode_def Let_def)
  have "\<And>g d. ql_data q = Some g \<Longrightarrow> g_data g = Some d \<Longrightarrow> truthy d"
    by (auto simp: q_def)
  from tls_widget_and_page_agree [where q = q and i = "''tls''", OF this] r show ?thesis by simp
qed

subsection \<open>The page\<close>

lemma set_statesOf: "st \<in> set (statesOf ds byId) \<longleftrightarrow> (\<exists>d\<in>set ds. mget byId (dsd_id d) = Some st)"
  by (induction ds) (auto simp: statesOf_def List.map_filter_def split: option.splits)

definition newest_of :: "number option \<Rightarrow> number option set \<Rightarrow> bool" where
  "newest_of r fs \<longleftrightarrow> (case r of None \<Rightarrow> fs \<subseteq> {None} | Some n \<Rightarrow> Some n \<in> fs \<and> (\<forall>m. Some m \<in> fs \<longrightarrow> m \<le> n))"

lemma newest_of_newer:
  assumes "newest_of b fs"
  shows "newest_of (newer b f) (insert f fs)"
proof (cases f)
  case None
  with assms show ?thesis by (cases b) (auto simp: newer_def newest_of_def)
next
  case (Some n)
  with assms show ?thesis
    by (cases b) (auto simp: newer_def newest_of_def intro: order_trans less_imp_le)
qed

lemma newest_of_fold:
  "newest_of b fs \<Longrightarrow> newest_of (foldl (\<lambda>best st. newer best (so_freshnessMs st)) b sts) (fs \<union> so_freshnessMs ` set sts)"
proof (induction sts arbitrary: b fs)
  case (Cons st sts)
  from Cons.IH [OF newest_of_newer [OF Cons.prems]] show ?case by simp
qed simp

lemma find_blocked: "find blocked sts = Some st \<Longrightarrow> st \<in> set sts \<and> blocked st"
  by (rule find_mem)

lemma page_blocked:
  assumes "set req \<subseteq> set states"
  shows "pageStatus states req degraded \<in> {StError, StDisabled, StUnsupported} \<longleftrightarrow> (\<exists>st\<in>set req. blocked st)"
proof (cases "find blocked req")
  case None
  then have "\<not> (\<exists>st\<in>set req. blocked st)" by (auto simp: find_None_iff)
  then show ?thesis by (auto simp: pageStatus_def None)
next
  case (Some st)
  from find_blocked [OF this] show ?thesis
    using Some assms by (auto simp: pageStatus_def blocked_def)
qed

lemma page_blocked_by:
  "find blocked req = Some st \<Longrightarrow> set req \<subseteq> set states \<Longrightarrow> pageStatus states req degraded = so_status st"
  using find_blocked [of req st] by (auto simp: pageStatus_def)

lemma page_partial:
  assumes "set req \<subseteq> set states"
  shows "pageStatus states req degraded = StPartial \<longleftrightarrow>
    (\<not> (\<exists>st\<in>set req. blocked st)) \<and> degraded \<noteq> [] \<and> (\<exists>st\<in>set states. so_hasData st)"
proof (cases "find blocked req")
  case None
  then have "\<not> (\<exists>st\<in>set req. blocked st)" by (auto simp: find_None_iff)
  then show ?thesis by (auto simp: pageStatus_def None)
next
  case (Some st)
  with page_blocked_by [OF Some assms, of degraded] find_blocked [OF Some] show ?thesis
    by (auto simp: blocked_def)
qed

lemma page_ready:
  assumes "pageStatus states req degraded = StReady" "set req \<subseteq> set states" "\<exists>st\<in>set states. so_hasData st"
    and deg: "degraded = [] \<Longrightarrow> \<forall>st\<in>set states. so_status st \<in> set READY_LIKE"
  shows "\<forall>st\<in>set states. so_status st = StReady \<or> so_status st = StEmpty"
proof -
  have none: "find blocked req = None"
    using page_blocked_by [OF _ assms(2), of _ degraded] assms(1) find_blocked [of req]
    by (cases "find blocked req") (auto simp: blocked_def)
  with assms(1,3) have "degraded = []" "\<not> (\<exists>st\<in>set states. so_status st = StStale)"
    by (auto simp: pageStatus_def split: if_splits)
  with deg show ?thesis by (auto simp: READY_LIKE_def)
qed

lemma degraded_nil:
  "ps_degraded (aggregateSources ds byId) = [] \<longleftrightarrow> (\<forall>st\<in>set (statesOf ds byId). so_status st \<in> set READY_LIKE)"
  by (fastforce simp: aggregateSources_def Let_def filter_empty_conv set_statesOf split: option.splits)

lemma required_subset: "set (statesOf (filter dsd_required ds) byId) \<subseteq> set (statesOf ds byId)"
  by (auto simp: set_statesOf)

lemma aggregate_status:
  "ps_status (aggregateSources ds byId) =
     pageStatus (statesOf ds byId) (statesOf (filter dsd_required ds) byId) (ps_degraded (aggregateSources ds byId))"
  by (simp add: aggregateSources_def Let_def)

lemma page_partial_sources:
  assumes "set req \<subseteq> set states" "\<not> (\<exists>st\<in>set req. blocked st)" "st \<in> set (statesOf ds byId)" "blocked st"
    "\<exists>st\<in>set states. so_hasData st"
  shows "pageStatus states req (ps_degraded (aggregateSources ds byId)) = StPartial"
proof -
  have "so_status st \<notin> set READY_LIKE" using assms(4) by (auto simp: blocked_def READY_LIKE_def)
  with assms(3) have "ps_degraded (aggregateSources ds byId) \<noteq> []" by (auto simp: degraded_nil)
  with assms show ?thesis by (simp add: page_partial)
qed

text \<open>C33. The page reflects its sources. It is blocked (\<open>error\<close>, \<open>disabled\<close>, \<open>unsupported\<close>) exactly
  when a required source is, never by an optional one. A page of which some source has a payload is \<open>partial\<close> when
  another source is broken and nothing required is; and it is \<open>partial\<close> only when nothing required
  is blocked, some source is unusable and another still has a payload. The degraded list names
  exactly the unusable sources; a page with a payload says \<open>ready\<close> only when every source is ready or
  honestly empty. No source that has a payload is fresher than the page says, and the freshness is the newest of the sources
  with a payload, if no other source carries one. (Two comments say more than the code does: the freshness is taken over every source
  that carries one, with a payload or not; and \<open>broken_optional_reads_ready\<close> below is a page with a broken optional source
  and no payload at all that is not called partial. The property is about what comments and code agree on.)\<close>

theorem page_reflects_sources:
  fixes ds byId
  defines "page \<equiv> aggregateSources ds byId"
    and "states \<equiv> statesOf ds byId" and "req \<equiv> statesOf (filter dsd_required ds) byId"
  shows "(ps_status page \<in> {StError, StDisabled, StUnsupported} \<longleftrightarrow> (\<exists>st\<in>set req. blocked st)) \<and>
    ((\<exists>st\<in>set states. so_hasData st) \<and> (\<exists>st\<in>set states. blocked st) \<and> \<not> (\<exists>st\<in>set req. blocked st) \<longrightarrow> ps_status page = StPartial) \<and>
    (ps_status page = StPartial \<longrightarrow>
      (\<not> (\<exists>st\<in>set req. blocked st)) \<and> ps_degraded page \<noteq> [] \<and> (\<exists>st\<in>set states. so_hasData st)) \<and>
    (i \<in> set (ps_degraded page) \<longleftrightarrow>
      (\<exists>d\<in>set ds. dsd_id d = i \<and> (\<exists>st. mget byId i = Some st \<and> so_status st \<notin> {StReady, StStale, StEmpty}))) \<and>
    (ps_status page = StReady \<and> (\<exists>st\<in>set states. so_hasData st) \<longrightarrow>
      (\<forall>st\<in>set states. so_status st = StReady \<or> so_status st = StEmpty)) \<and>
    (\<forall>st\<in>set states. \<forall>f. so_hasData st \<and> so_freshnessMs st = Some f \<longrightarrow> (\<exists>g. ps_freshnessMs page = Some g \<and> f \<le> g)) \<and>
    ((\<forall>st\<in>set states. so_freshnessMs st \<noteq> None \<longrightarrow> so_hasData st) \<longrightarrow>
      newest_of (ps_freshnessMs page) (insert None (so_freshnessMs ` {st \<in> set states. so_hasData st})))"
proof (intro conjI)
  note st = aggregate_status [of ds byId, folded page_def states_def req_def]
  have sub: "set req \<subseteq> set states" unfolding req_def states_def by (rule required_subset)
  show "ps_status page \<in> {StError, StDisabled, StUnsupported} \<longleftrightarrow> (\<exists>st\<in>set req. blocked st)"
    unfolding st by (rule page_blocked [OF sub])
  show "(\<exists>st\<in>set states. so_hasData st) \<and> (\<exists>st\<in>set states. blocked st) \<and> \<not> (\<exists>st\<in>set req. blocked st) \<longrightarrow> ps_status page = StPartial"
    unfolding st using page_partial_sources [OF sub, of _ ds byId] unfolding states_def page_def by blast
  show "ps_status page = StPartial \<longrightarrow>
      (\<not> (\<exists>st\<in>set req. blocked st)) \<and> ps_degraded page \<noteq> [] \<and> (\<exists>st\<in>set states. so_hasData st)"
    unfolding st using page_partial [OF sub] by blast
  show "i \<in> set (ps_degraded page) \<longleftrightarrow>
      (\<exists>d\<in>set ds. dsd_id d = i \<and> (\<exists>st. mget byId i = Some st \<and> so_status st \<notin> {StReady, StStale, StEmpty}))"
    by (force simp: page_def aggregateSources_def READY_LIKE_def Let_def split: option.splits)
  show "ps_status page = StReady \<and> (\<exists>st\<in>set states. so_hasData st) \<longrightarrow>
      (\<forall>st\<in>set states. so_status st = StReady \<or> so_status st = StEmpty)"
    using page_ready [OF _ sub, of "ps_degraded page"] degraded_nil [of ds byId]
    unfolding st by (auto simp: page_def states_def)
  have newest: "newest_of (ps_freshnessMs page) (insert None (so_freshnessMs ` set states))"
    using newest_of_fold [of None "{None}" states]
    by (simp add: newest_of_def page_def states_def aggregateSources_def Let_def)
  then show "\<forall>st\<in>set states. \<forall>f. so_hasData st \<and> so_freshnessMs st = Some f \<longrightarrow> (\<exists>g. ps_freshnessMs page = Some g \<and> f \<le> g)"
  proof (intro ballI allI impI)
    fix st f
    assume "st \<in> set states" "so_hasData st \<and> so_freshnessMs st = Some f"
    then have "Some f \<in> insert None (so_freshnessMs ` set states)" by force
    with newest show "\<exists>g. ps_freshnessMs page = Some g \<and> f \<le> g" by (cases "ps_freshnessMs page") (auto simp: newest_of_def)
  qed
  show "(\<forall>st\<in>set states. so_freshnessMs st \<noteq> None \<longrightarrow> so_hasData st) \<longrightarrow>
      newest_of (ps_freshnessMs page) (insert None (so_freshnessMs ` {st \<in> set states. so_hasData st}))"
  proof
    assume "\<forall>st\<in>set states. so_freshnessMs st \<noteq> None \<longrightarrow> so_hasData st"
    then have "insert None (so_freshnessMs ` set states) = insert None (so_freshnessMs ` {st \<in> set states. so_hasData st})" by force
    with newest show "newest_of (ps_freshnessMs page) (insert None (so_freshnessMs ` {st \<in> set states. so_hasData st}))" by simp
  qed
qed

theorem page_reflects_sources_witness:
  fixes ds byId
  defines "ds \<equiv> [\<lparr>dsd_id = ''a'', dsd_topic = Some TStats, dsd_endpoint = None, dsd_required = True, dsd_freshnessPath = None, dsd_capabilityPath = None\<rparr>,
      \<lparr>dsd_id = ''b'', dsd_topic = Some TStats, dsd_endpoint = None, dsd_required = False, dsd_freshnessPath = None, dsd_capabilityPath = None\<rparr>]"
    and "byId \<equiv> [(''a'', sourceIs ''a'' StReady (Some 9) True), (''b'', (sourceIs ''b'' StError None False)\<lparr>so_code := Some ''x''\<rparr>)]"
  shows "ps_status (aggregateSources ds byId) = StPartial \<and> ''b'' \<in> set (ps_degraded (aggregateSources ds byId))"
proof -
  note p = page_reflects_sources [where ds = ds and byId = byId and i = "''b''"]
  have b: "''b'' \<in> set (ps_degraded (aggregateSources ds byId))"
    using p by (simp add: ds_def byId_def)
  moreover have "\<not> (\<exists>st\<in>set (statesOf (filter dsd_required ds) byId). blocked st)"
    "\<exists>st\<in>set (statesOf ds byId). so_hasData st" "\<exists>st\<in>set (statesOf ds byId). blocked st"
    by (simp_all add: ds_def byId_def statesOf_def List.map_filter_def blocked_def)
  ultimately show ?thesis using p by blast
qed

text \<open>The rule for a page none of whose sources has a payload: with a required source that answered
  empty and an optional one that failed, the page says \<open>ready\<close>.\<close>

lemma broken_optional_reads_ready:
  "ps_status (aggregateSources
      [\<lparr>dsd_id = ''a'', dsd_topic = None, dsd_endpoint = None, dsd_required = True, dsd_freshnessPath = None, dsd_capabilityPath = None\<rparr>,
       \<lparr>dsd_id = ''b'', dsd_topic = None, dsd_endpoint = None, dsd_required = False, dsd_freshnessPath = None, dsd_capabilityPath = None\<rparr>]
      [(''a'', sourceIs ''a'' StEmpty None False), (''b'', (sourceIs ''b'' StError None False)\<lparr>so_code := Some ''x''\<rparr>)]) = StReady"
  by (simp add: aggregateSources_def statesOf_def List.map_filter_def pageStatus_def blocked_def READY_LIKE_def Let_def)

subsection \<open>The memo\<close>

definition plain_token :: "string \<Rightarrow> bool" where
  "plain_token s \<longleftrightarrow> CHR '':'' \<notin> set s \<and> CHR ''|'' \<notin> set s"

definition clean_state :: "sourceState \<Rightarrow> bool" where
  "clean_state st \<longleftrightarrow> plain_token (so_id st) \<and> pred_option (\<lambda>n. n \<in> \<int>) (so_freshnessMs st) \<and>
     pred_option (\<lambda>c. c \<noteq> [] \<and> plain_token c) (so_code st) \<and> pred_option (\<lambda>r. r \<noteq> [] \<and> plain_token r) (so_reason st)"

definition clean_inputs :: "dataSourceDefinition list \<times> (string, detailSourceInput) js_map \<Rightarrow> bool" where
  "clean_inputs r \<longleftrightarrow> (\<forall>d\<in>set (fst r). plain_token (dsd_id d) \<and>
     pred_option (\<lambda>input. clean_state (resolveSource (dsd_id d) input)) (mget (snd r) (dsd_id d)))"

lemma statusStr_inj: "statusStr a = statusStr b \<longleftrightarrow> a = b"
  by (cases a; cases b) simp_all

lemma plain_statusStr: "plain_token (statusStr a)"
  by (cases a) (simp_all add: plain_token_def)

lemma plain_num: "plain_token (show_int k) \<and> show_int k \<noteq> []"
proof -
  have "\<not> is_digit CHR '':''" "\<not> is_digit CHR ''|''" by (simp_all add: is_digit_def)
  then show ?thesis
    using show_nat_digits by (auto simp: plain_token_def show_int_def show_nat_not_in)
qed

lemma freshness_str_inj:
  assumes "pred_option (\<lambda>n. n \<in> \<int>) f" "pred_option (\<lambda>n. n \<in> \<int>) g"
    and "(case f of None \<Rightarrow> [] | Some n \<Rightarrow> num_str n) = (case g of None \<Rightarrow> [] | Some n \<Rightarrow> num_str n)"
  shows "f = g"
  using assms plain_num plain_num [THEN conjunct2, symmetric]
  by (auto simp: num_str_of_int show_int_inj elim!: Ints_cases split: option.splits)

lemma token_str_inj:
  "pred_option (\<lambda>c. c \<noteq> [] \<and> P c) f \<Longrightarrow> pred_option (\<lambda>c. c \<noteq> [] \<and> P c) g \<Longrightarrow>
   (case f of None \<Rightarrow> [] | Some c \<Rightarrow> c) = (case g of None \<Rightarrow> [] | Some c \<Rightarrow> c) \<Longrightarrow> f = g"
  by (auto split: option.splits)

definition signature_parts :: "sourceState \<Rightarrow> string list" where
  "signature_parts st = [so_id st, statusStr (so_status st),
     (case so_freshnessMs st of None \<Rightarrow> [] | Some n \<Rightarrow> num_str n),
     (case so_code st of None \<Rightarrow> [] | Some c \<Rightarrow> c), (case so_reason st of None \<Rightarrow> [] | Some r \<Rightarrow> r),
     (if so_hasData st then ''true'' else ''false'')]"

lemma signature_parts_plain: "clean_state st \<Longrightarrow> x \<in> set (signature_parts st) \<Longrightarrow> plain_token x"
  using plain_num plain_statusStr
  by (auto simp: signature_parts_def clean_state_def num_str_of_int plain_token_def elim!: Ints_cases split: option.splits if_splits)

lemma signature_parts_inj:
  assumes "clean_state st" "clean_state st'" "signature_parts st = signature_parts st'"
  shows "st = st'"
proof -
  from assms have "so_freshnessMs st = so_freshnessMs st'" "so_code st = so_code st'" "so_reason st = so_reason st'"
    by (auto simp: signature_parts_def clean_state_def intro: freshness_str_inj token_str_inj)
  with assms(3) show ?thesis
    by (auto simp: signature_parts_def statusStr_inj split: if_splits intro!: sourceState.equality)
qed

lemma stateSignature_parts: "stateSignature st = join '':'' (signature_parts st)"
  by (simp add: stateSignature_def signature_parts_def)

definition piece_parts :: "(string, detailSourceInput) js_map \<Rightarrow> dataSourceDefinition \<Rightarrow> string list" where
  "piece_parts inputs d = (case mget inputs (dsd_id d) of
       None \<Rightarrow> [dsd_id d, ''-''] | Some input \<Rightarrow> signature_parts (resolveSource (dsd_id d) input))"

lemma signatureOf_pieces: "signatureOf ds inputs = join ''|'' (map (\<lambda>d. join '':'' (piece_parts inputs d)) ds)"
  unfolding signatureOf_def piece_parts_def stateSignature_parts
  by (intro arg_cong [of _ _ "join ''|''"] map_cong refl) (simp split: option.split)

lemma piece_parts_plain:
  "clean_inputs (ds, inputs) \<Longrightarrow> d \<in> set ds \<Longrightarrow> x \<in> set (piece_parts inputs d) \<Longrightarrow> plain_token x"
  using signature_parts_plain
  by (fastforce simp: piece_parts_def clean_inputs_def plain_token_def split: option.splits)

lemma set_join: "set (join sep xs) \<subseteq> set sep \<union> (\<Union>x\<in>set xs. set x)"
  by (induction sep xs rule: join.induct) auto

lemma piece_inj:
  assumes "clean_inputs (ds, inputs)" "clean_inputs (ds, inputs')" "d \<in> set ds" "piece_parts inputs d = piece_parts inputs' d"
  shows "map_option (resolveSource (dsd_id d)) (mget inputs (dsd_id d)) = map_option (resolveSource (dsd_id d)) (mget inputs' (dsd_id d))"
proof -
  have len: "length (signature_parts st) = 6" for st by (simp add: signature_parts_def)
  have ne: "signature_parts st \<noteq> [a, b]" for st a b
    using len [of st] by auto
  show ?thesis
    using assms ne ne [symmetric] signature_parts_inj
    by (fastforce simp: piece_parts_def clean_inputs_def split: option.splits)
qed

lemma signature_determines_states:
  assumes c: "clean_inputs (ds, inputs)" "clean_inputs (ds, inputs')" and eq: "signatureOf ds inputs = signatureOf ds inputs'"
  shows "resolveAll ds inputs = resolveAll ds inputs'"
proof -
  have pieces: "piece_parts inputs d = piece_parts inputs' d" if "d \<in> set ds" for d
  proof -
    have nobar: "CHR ''|'' \<notin> set (join '':'' (piece_parts i e))" if "e \<in> set ds" "clean_inputs (ds, i)" for e i
      using set_join [of "'':''" "piece_parts i e"] piece_parts_plain [OF that(2,1)] by (auto simp: plain_token_def)
    have "map (\<lambda>d. join '':'' (piece_parts inputs d)) ds = map (\<lambda>d. join '':'' (piece_parts inputs' d)) ds"
      using eq that nobar c by (intro join_inj [where c = "CHR ''|''"]) (auto simp: signatureOf_pieces)
    with that have j: "join '':'' (piece_parts inputs d) = join '':'' (piece_parts inputs' d)" by simp
    have "piece_parts inputs d \<noteq> []" "piece_parts inputs' d \<noteq> []"
      by (auto simp: piece_parts_def signature_parts_def split: option.splits)
    then show ?thesis
      using j piece_parts_plain [OF c(1) that] piece_parts_plain [OF c(2) that]
      by (intro join_inj [where c = "CHR '':''"]) (auto simp: plain_token_def)
  qed
  have step: "(case mget inputs (dsd_id d) of None \<Rightarrow> out | Some input \<Rightarrow> mset_key out (dsd_id d) (resolveSource (dsd_id d) input)) =
      (case mget inputs' (dsd_id d) of None \<Rightarrow> out | Some input \<Rightarrow> mset_key out (dsd_id d) (resolveSource (dsd_id d) input))"
    if "d \<in> set ds" for d out
    using piece_inj [OF c that pieces [OF that]] by (auto split: option.splits)
  show ?thesis
    unfolding resolveAll_def by (rule foldl_cong) (simp_all add: step)
qed

text \<open>A sequence of renders, each with its definitions and inputs, and the memo it leaves.\<close>

definition renders :: "(dataSourceDefinition list \<times> (string, detailSourceInput) js_map) list \<Rightarrow> detailMemo option" where
  "renders rs = run (\<lambda>mm r. Some (snd (useDetailSources (fst r) (snd r) mm))) None rs"

definition memo_ok :: "detailMemo option \<Rightarrow> bool" where
  "memo_ok mm \<longleftrightarrow> pred_option (\<lambda>m. \<exists>inputs. clean_inputs (dm_definitions m, inputs) \<and>
     dm_signature m = signatureOf (dm_definitions m) inputs \<and> dm_byId m = resolveAll (dm_definitions m) inputs) mm"

lemma memo_fresh:
  assumes "memo_ok mm" "clean_inputs (ds, inputs)"
  shows "fst (useDetailSources ds inputs mm) = aggregateSources ds (resolveAll ds inputs) \<and>
    memo_ok (Some (snd (useDetailSources ds inputs mm)))"
proof -
  have shown: "(case mm of
        Some m \<Rightarrow> if dm_definitions m = ds \<and> dm_signature m = signatureOf ds inputs then dm_byId m else resolveAll ds inputs
      | None \<Rightarrow> resolveAll ds inputs) = resolveAll ds inputs"
  proof (cases mm)
    case (Some m)
    with assms(1) obtain i where i: "clean_inputs (dm_definitions m, i)"
        "dm_signature m = signatureOf (dm_definitions m) i" "dm_byId m = resolveAll (dm_definitions m) i"
      by (auto simp: memo_ok_def)
    have "dm_byId m = resolveAll ds inputs" if "dm_definitions m = ds" "dm_signature m = signatureOf ds inputs"
      using signature_determines_states [of ds i inputs] i assms(2) that by simp
    then show ?thesis by (simp add: Some)
  qed simp
  show ?thesis
    using assms(2) unfolding useDetailSources_def Let_def shown by (auto simp: memo_ok_def)
qed

lemma renders_ok: "memo_ok mm \<Longrightarrow> \<forall>r\<in>set rs. clean_inputs r \<Longrightarrow>
    memo_ok (run (\<lambda>mm r. Some (snd (useDetailSources (fst r) (snd r) mm))) mm rs)"
  by (induction rs arbitrary: mm) (auto simp: memo_fresh)

text \<open>The hook recomputes the states only when the definitions or the signature of the inputs
  changed. Whatever was rendered before, what it shows is what recomputing everything would show,
  provided identifiers, codes and reasons are plain tokens (no colon, no bar) and the times are whole
  milliseconds.\<close>

theorem memo_shows_current_states:
  assumes "\<forall>r\<in>set rs. clean_inputs r" "clean_inputs (ds, inputs)"
  shows "fst (useDetailSources ds inputs (renders rs)) = aggregateSources ds (resolveAll ds inputs)"
  using memo_fresh [OF renders_ok [OF _ assms(1)] assms(2), of None] by (simp add: memo_ok_def renders_def)

theorem memo_shows_current_states_witness:
  fixes d input
  defines "d \<equiv> \<lparr>dsd_id = ''zero'', dsd_topic = None, dsd_endpoint = None, dsd_required = True, dsd_freshnessPath = None, dsd_capabilityPath = None\<rparr>"
    and "input \<equiv> \<lambda>pending. QueryInput \<lparr>qi_isPending = pending, qi_isError = False, qi_error = None, qi_data = Some (JNum 4),
      qi_dataUpdatedAt = Some 5, qi_gated = NoGate, qi_buildTooOld = False, qi_gateReason = None\<rparr>"
  shows "ps_status (fst (useDetailSources [d] [(''zero'', input False)] (renders [([d], [(''zero'', input True)])]))) = StReady"
proof -
  have int: "(5000 :: number) \<in> \<int>" by (metis Ints_numeral)
  have c: "clean_inputs ([d], [(''zero'', input b)])" for b
    using int by (auto simp: clean_inputs_def clean_state_def d_def input_def plain_token_def resolveQuerySource_def
        Let_def normalizeFreshness_def MS_EPOCH_FLOOR_def)
  show ?thesis
    using memo_shows_current_states [of "[([d], [(''zero'', input True)])]" "[d]" "[(''zero'', input False)]"] c
    by (simp add: resolveAll_def d_def input_def resolveQuerySource_def Let_def aggregateSources_def statesOf_def
        List.map_filter_def pageStatus_def blocked_def READY_LIKE_def)
qed

end
