(* ===== verification/Js_Date.thy ===== *)
theory Js_Date
  imports Js_String
begin

text \<open>
  The part of JavaScript's \<open>Date\<close> the panel uses: parsing of the ECMAScript date-time string format
  (RFC 3339 instants, and dates without a time, which are UTC) into epoch milliseconds, with \<open>None\<close> for
  \<open>NaN\<close>, and \<open>toISOString\<close>. Calendar arithmetic is the proleptic Gregorian one, with the years
  0 to 9999 the four-digit format has. A time without an offset is local; the offset of the browser's
  zone is an argument there.
\<close>

subsection \<open>Calendar\<close>

definition days_from_civil :: "int \<Rightarrow> int \<Rightarrow> int \<Rightarrow> int" where
  "days_from_civil y m d =
    (let y' = (if m \<le> 2 then y - 1 else y); era = y' div 400; yoe = y' mod 400;
         doy = (153 * (if m > 2 then m - 3 else m + 9) + 2) div 5 + d - 1;
         doe = yoe * 365 + yoe div 4 - yoe div 100 + doy
     in era * 146097 + doe - 719468)"

definition civil_from_days :: "int \<Rightarrow> int \<times> int \<times> int" where
  "civil_from_days z0 =
    (let z = z0 + 719468; era = z div 146097; doe = z mod 146097;
         yoe = (doe - doe div 1460 + doe div 36524 - doe div 146096) div 365;
         y = yoe + era * 400; doy = doe - (365 * yoe + yoe div 4 - yoe div 100);
         mp = (5 * doy + 2) div 153; d = doy - (153 * mp + 2) div 5 + 1;
         m = (if mp < 10 then mp + 3 else mp - 9)
     in (if m \<le> 2 then y + 1 else y, m, d))"

definition leap_year :: "int \<Rightarrow> bool" where
  "leap_year y \<longleftrightarrow> y mod 4 = 0 \<and> (y mod 100 \<noteq> 0 \<or> y mod 400 = 0)"

definition days_in_month :: "int \<Rightarrow> int \<Rightarrow> int" where
  "days_in_month y m = (if m = 2 then (if leap_year y then 29 else 28)
     else if m \<in> {4, 6, 9, 11} then 30 else 31)"

subsection \<open>Parsing\<close>

text \<open>Exactly \<open>n\<close> digits at the front of a string.\<close>

definition take_digits :: "nat \<Rightarrow> string \<Rightarrow> (nat \<times> string) option" where
  "take_digits n s = (if n \<le> length s \<and> list_all is_digit (take n s) then Some (nat_of_digits (take n s), drop n s) else None)"

definition take_char :: "char \<Rightarrow> string \<Rightarrow> string option" where
  "take_char c s = (case s of x # r \<Rightarrow> if x = c then Some r else None | [] \<Rightarrow> None)"

text \<open>A date \<open>YYYY-MM-DD\<close> within the calendar, as its day number.\<close>

definition parse_day :: "string \<Rightarrow> (int \<times> string) option" where
  "parse_day s =
    Option.bind (take_digits 4 s) (\<lambda>(y, s). Option.bind (take_char CHR ''-'' s) (\<lambda>s.
    Option.bind (take_digits 2 s) (\<lambda>(m, s). Option.bind (take_char CHR ''-'' s) (\<lambda>s.
    Option.bind (take_digits 2 s) (\<lambda>(d, s).
      if 1 \<le> m \<and> m \<le> 12 \<and> 1 \<le> d \<and> int d \<le> days_in_month (int y) (int m)
      then Some (days_from_civil (int y) (int m) (int d), s) else None)))))"

text \<open>A clock \<open>HH:MM\<close>, \<open>HH:MM:SS\<close> or \<open>HH:MM:SS.s\<close> with any number of decimals, in milliseconds;
  the format's 24:00:00 is the end of the day.\<close>

definition parse_seconds :: "string \<Rightarrow> (number \<times> string) option" where
  "parse_seconds s =
    (case take_char CHR '':'' s of
       None \<Rightarrow> Some (0, s)
     | Some s \<Rightarrow> Option.bind (take_digits 2 s) (\<lambda>(sec, s).
         if 60 \<le> sec then None
         else case take_char CHR ''.'' s of
                None \<Rightarrow> Some (of_nat (sec * 1000), s)
              | Some r \<Rightarrow> let ds = takeWhile is_digit r
                          in if ds = [] then None
                             else Some (of_nat (sec * 1000 + (nat_of_digits (take 3 (ds @ ''00'')))), dropWhile is_digit r)))"

definition parse_clock :: "string \<Rightarrow> (number \<times> string) option" where
  "parse_clock s =
    Option.bind (take_digits 2 s) (\<lambda>(h, s). Option.bind (take_char CHR '':'' s) (\<lambda>s.
    Option.bind (take_digits 2 s) (\<lambda>(mi, s). Option.bind (parse_seconds s) (\<lambda>(ms, s).
      if (h < 24 \<and> mi < 60) \<or> (h = 24 \<and> mi = 0 \<and> ms = 0)
      then Some (of_nat (h * 3600000 + mi * 60000) + ms, s) else None))))"

definition parse_offset :: "string \<Rightarrow> number option" where
  "parse_offset s =
    (case s of
       [] \<Rightarrow> None
     | c # r \<Rightarrow>
         if c = CHR ''Z'' then (if r = [] then Some 0 else None)
         else if c = CHR ''+'' \<or> c = CHR ''-''
         then Option.bind (take_digits 2 r) (\<lambda>(h, r). Option.bind (take_char CHR '':'' r) (\<lambda>r.
              Option.bind (take_digits 2 r) (\<lambda>(mi, r).
                if r = [] \<and> h < 24 \<and> mi < 60
                then Some ((if c = CHR ''-'' then -1 else 1) * of_nat (h * 3600000 + mi * 60000)) else None)))
         else None)"

text \<open>\<open>Date.parse(s)\<close>; the zone gives the offset of a local time in milliseconds.\<close>

definition date_parse :: "(number \<Rightarrow> number) \<Rightarrow> string \<Rightarrow> number option" where
  "date_parse zone s =
    Option.bind (parse_day s) (\<lambda>(day, s).
      if s = [] then Some (of_int (day * 86400000))
      else Option.bind (take_char CHR ''T'' s) (\<lambda>s. Option.bind (parse_clock s) (\<lambda>(ms, s).
        let t = of_int (day * 86400000) + ms
        in if s = [] then Some (t - zone t)
           else map_option (\<lambda>off. t - off) (parse_offset s))))"

subsection \<open>Printing\<close>

definition iso_day :: "int \<Rightarrow> string" where
  "iso_day z = (case civil_from_days z of (y, m, d) \<Rightarrow> padded 4 (nat y) @ ''-'' @ padded 2 (nat m) @ ''-'' @ padded 2 (nat d))"

definition toISOString :: "number \<Rightarrow> string" where
  "toISOString t =
    (let n = \<lfloor>t\<rfloor>; day = n div 86400000; ms = nat (n mod 86400000)
     in iso_day day @ ''T'' @ padded 2 (ms div 3600000) @ '':'' @ padded 2 (ms div 60000 mod 60) @ '':'' @
        padded 2 (ms div 1000 mod 60) @ ''.'' @ padded 3 (ms mod 1000) @ ''Z'')"

end
