(* ===== verification/Updates.thy ===== *)
theory Updates
  imports Js_Date Config_Reload Draft_Session Sse_Client
begin

text \<open>
  The update pages, \<open>web/src/server/updates\<close>: the phases of a run and their stepper, which of the three
  reports of a run is shown, the watch over the panel's own restart, the auto-update form and the
  release picker. Times in \<open>started_at\<close> are parsed as the browser does (\<open>Js_Date.date_parse\<close>).
\<close>

subsection \<open>Phases\<close>

datatype updatePhase = Checking | Downloading | Verifying | Staging | Installing | Restarting | Health | Done
  | RollingBack | PhRolledBack | PhFailed

record updateRun =
  ur_run_id :: string
  ur_target :: string
  ur_phase :: updatePhase
  ur_version_from :: "string option"
  ur_version_to :: string
  ur_started_at :: string
  ur_detail :: "string option"

definition HAPPY_PATH :: "updatePhase list" where
  "HAPPY_PATH = [Checking, Downloading, Verifying, Staging, Installing, Restarting, Health, Done]"

definition updatePhaseStep :: "updatePhase \<Rightarrow> stepInfo" where
  "updatePhaseStep phase =
    (if phase = RollingBack
     then \<lparr>si_stepIndex = -1, si_totalSteps = length HAPPY_PATH, si_terminal = False, si_outcome = Some SRollingBack\<rparr>
     else if phase = PhRolledBack \<or> phase = PhFailed
     then \<lparr>si_stepIndex = -1, si_totalSteps = length HAPPY_PATH, si_terminal = True, si_outcome = Some SError\<rparr>
     else let idx = indexOf HAPPY_PATH phase
          in \<lparr>si_stepIndex = idx, si_totalSteps = length HAPPY_PATH, si_terminal = (phase = Done),
              si_outcome = (if phase = Done then Some SSuccess else None)\<rparr>)"

definition isTerminalUpdatePhase :: "updatePhase \<Rightarrow> bool" where
  "isTerminalUpdatePhase phase \<longleftrightarrow> phase = Done \<or> phase = PhRolledBack \<or> phase = PhFailed"

definition shouldPollUpdates :: "connectionStatus \<Rightarrow> bool \<Rightarrow> bool" where
  "shouldPollUpdates status hasActiveRun \<longleftrightarrow> hasActiveRun \<and> status \<noteq> Open"

interpretation update_stepper: stepper updatePhaseStep isTerminalUpdatePhase HAPPY_PATH
proof
  fix s
  show "si_stepIndex (updatePhaseStep s) = indexOf HAPPY_PATH s"
    by (cases s) (simp_all add: updatePhaseStep_def HAPPY_PATH_def Let_def)
qed (auto simp: updatePhaseStep_def isTerminalUpdatePhase_def HAPPY_PATH_def Let_def split: if_splits)

subsection \<open>The journal and the run shown\<close>

definition journalTime :: "(number \<Rightarrow> number) \<Rightarrow> updateRun \<Rightarrow> number option" where
  "journalTime zone r = date_parse zone (ur_started_at r)"

text \<open>The comparator: a difference with \<open>NaN\<close> compares as equal.\<close>

definition journalCompare :: "(number \<Rightarrow> number) \<Rightarrow> updateRun \<Rightarrow> updateRun \<Rightarrow> number" where
  "journalCompare zone a b =
    (case (journalTime zone b, journalTime zone a) of (Some tb, Some ta) \<Rightarrow> tb - ta | _ \<Rightarrow> 0)"

definition sortJournalDesc :: "(number \<Rightarrow> number) \<Rightarrow> updateRun list \<Rightarrow> updateRun list" where
  "sortJournalDesc zone entries = sortBy (journalCompare zone) entries"

interpretation journal: comparator "journalCompare zone" "\<lambda>r. journalTime zone r \<noteq> None"
  by unfold_locales (auto simp: journalCompare_def)

record targetStatus =
  tg_target :: string
  tg_active_run :: "updateRun option"
  tg_journal :: "updateRun list option"

text \<open>One iteration of the loop of \<open>selectUpdateRun\<close>.\<close>

definition pickRun :: "(number \<Rightarrow> number) \<Rightarrow> updateRun option \<Rightarrow> updateRun \<Rightarrow> updateRun option" where
  "pickRun zone latest candidate =
    (case latest of
       None \<Rightarrow> Some candidate
     | Some l \<Rightarrow>
         if ur_run_id candidate \<noteq> ur_run_id l
         then (case (journalTime zone candidate, journalTime zone l) of
                 (Some tc, Some t) \<Rightarrow> if t \<le> tc then Some candidate else Some l
               | _ \<Rightarrow> Some l)
         else let terminal = isTerminalUpdatePhase (ur_phase candidate);
                  latestTerminal = isTerminalUpdatePhase (ur_phase l)
              in if latestTerminal \<and> \<not> terminal then Some l
                 else if terminal \<or> ur_phase candidate = RollingBack \<or>
                   (ur_phase l \<noteq> RollingBack \<and>
                    si_stepIndex (updatePhaseStep (ur_phase l)) \<le> si_stepIndex (updatePhaseStep (ur_phase candidate)))
                 then Some candidate else Some l)"

definition runCandidates :: "(number \<Rightarrow> number) \<Rightarrow> targetStatus \<Rightarrow> updateRun option \<Rightarrow> updateRun list" where
  "runCandidates zone d event =
    (let journal = (case tg_journal d of None \<Rightarrow> [] | Some j \<Rightarrow> j);
         newest = (case sortJournalDesc zone journal of [] \<Rightarrow> None | r # _ \<Rightarrow> Some r)
     in filter (\<lambda>c. ur_target c = tg_target d) (List.map_filter id [event, tg_active_run d, newest]))"

definition selectUpdateRun :: "(number \<Rightarrow> number) \<Rightarrow> targetStatus \<Rightarrow> updateRun option \<Rightarrow> updateRun option" where
  "selectUpdateRun zone d event = foldl (pickRun zone) None (runCandidates zone d event)"

subsection \<open>The watch over a restart of the panel\<close>

datatype restartWatchStatus = WWait | WReload | WFailed | WTimeout

definition RESTART_WATCH_TIMEOUT_MS :: nat where
  "RESTART_WATCH_TIMEOUT_MS = 120000"

definition normalizeVersion :: "string \<Rightarrow> string" where
  "normalizeVersion v = (case v of c # r \<Rightarrow> if c = CHR ''v'' then r else v | [] \<Rightarrow> [])"

definition restartWatchDecision ::
  "string \<Rightarrow> string \<Rightarrow> string option \<Rightarrow> bool \<Rightarrow> nat \<Rightarrow> updateRun option \<Rightarrow> restartWatchStatus" where
  "restartWatchDecision runID expectedVersion health healthFresh elapsed journal =
    (if (case journal of None \<Rightarrow> False | Some j \<Rightarrow>
           ur_run_id j = runID \<and> normalizeVersion (ur_version_to j) = normalizeVersion expectedVersion \<and>
           (ur_phase j = PhRolledBack \<or> ur_phase j = PhFailed)) then WFailed
     else if healthFresh \<and> (case health of None \<Rightarrow> False | Some v \<Rightarrow> normalizeVersion v = normalizeVersion expectedVersion)
     then WReload
     else if RESTART_WATCH_TIMEOUT_MS \<le> elapsed then WTimeout
     else WWait)"

definition HEALTH_POLL_MS :: nat where
  "HEALTH_POLL_MS = 2000"

record restartWatch =
  rw_key :: string
  rw_ticks :: nat
  rw_healthUpdatedAt :: nat
  rw_updatesUpdatedAt :: nat

text \<open>A query as the hook reads it: whether its last answer was a success, when data last arrived, the data.\<close>

record 'a watchQuery =
  wq_isSuccess :: bool
  wq_dataUpdatedAt :: nat
  wq_data :: "'a option"

record watchProps =
  wp_active :: bool
  wp_runID :: string
  wp_expectedVersion :: string
  wp_health :: "string watchQuery"
  wp_updates :: "targetStatus list watchQuery"

definition watchKey :: "watchProps \<Rightarrow> string option" where
  "watchKey p = (if wp_active p then Some (wp_runID p @ [char_of (0 :: nat)] @ wp_expectedVersion p) else None)"

definition startWatch :: "string \<Rightarrow> watchProps \<Rightarrow> restartWatch" where
  "startWatch key p = \<lparr>rw_key = key, rw_ticks = 0, rw_healthUpdatedAt = wq_dataUpdatedAt (wp_health p),
     rw_updatesUpdatedAt = wq_dataUpdatedAt (wp_updates p)\<rparr>"

text \<open>The adjustment during rendering.\<close>

definition renderWatch :: "watchProps \<Rightarrow> restartWatch option \<Rightarrow> restartWatch option" where
  "renderWatch p w = (if map_option rw_key w \<noteq> watchKey p then map_option (\<lambda>key. startWatch key p) (watchKey p) else w)"

definition tickWatch :: "string \<Rightarrow> restartWatch option \<Rightarrow> restartWatch option" where
  "tickWatch key w = map_option (\<lambda>w. if rw_key w = key then w\<lparr>rw_ticks := Suc (rw_ticks w)\<rparr> else w) w"

definition retryWatch :: "watchProps \<Rightarrow> restartWatch option \<Rightarrow> restartWatch option" where
  "retryWatch p w = (case watchKey p of None \<Rightarrow> w | Some key \<Rightarrow> Some (startWatch key p))"

definition updatesFresh :: "watchProps \<Rightarrow> restartWatch option \<Rightarrow> bool" where
  "updatesFresh p w \<longleftrightarrow> (case w of None \<Rightarrow> False | Some w \<Rightarrow>
     Some (rw_key w) = watchKey p \<and> wq_isSuccess (wp_updates p) \<and> rw_updatesUpdatedAt w < wq_dataUpdatedAt (wp_updates p))"

definition healthFresh :: "watchProps \<Rightarrow> restartWatch option \<Rightarrow> bool" where
  "healthFresh p w \<longleftrightarrow> (case w of None \<Rightarrow> False | Some w \<Rightarrow>
     Some (rw_key w) = watchKey p \<and> wq_isSuccess (wp_health p) \<and> rw_healthUpdatedAt w < wq_dataUpdatedAt (wp_health p))"

definition watchJournal :: "watchProps \<Rightarrow> restartWatch option \<Rightarrow> updateRun option" where
  "watchJournal p w =
    (if updatesFresh p w
     then (case wq_data (wp_updates p) of None \<Rightarrow> None | Some targets \<Rightarrow>
       (case find (\<lambda>t. tg_target t = ''panel'') targets of None \<Rightarrow> None | Some t \<Rightarrow>
         (case tg_journal t of Some (r # _) \<Rightarrow> Some r | _ \<Rightarrow> None)))
     else None)"

definition watchStatus :: "watchProps \<Rightarrow> restartWatch option \<Rightarrow> restartWatchStatus" where
  "watchStatus p w =
    (if wp_active p
     then restartWatchDecision (wp_runID p) (wp_expectedVersion p) (wq_data (wp_health p)) (healthFresh p w)
       ((case w of None \<Rightarrow> 0 | Some w \<Rightarrow> rw_ticks w) * HEALTH_POLL_MS) (watchJournal p w)
     else WWait)"

datatype watchEvent = WRender watchProps | WTick string | WRetry watchProps

fun watch_step :: "restartWatch option \<Rightarrow> watchEvent \<Rightarrow> restartWatch option" where
  "watch_step w (WRender p) = renderWatch p w"
| "watch_step w (WTick key) = tickWatch key w"
| "watch_step w (WRetry p) = retryWatch p w"

subsection \<open>The auto-update form and the releases\<close>

record autoUpdateSettings =
  au_telemt :: string
  au_panel :: string
  au_interval :: string

record autoUpdateFormState =
  af_telemt :: string
  af_panel :: string
  af_intervalHours :: number

definition DEFAULT_INTERVAL_HOURS :: number where
  "DEFAULT_INTERVAL_HOURS = 6"

definition parseIntervalHours :: "string \<Rightarrow> number" where
  "parseIntervalHours interval =
    (let s = trim interval; digits = takeWhile is_digit s; rest = dropWhile is_digit s
     in if digits \<noteq> [] \<and> rest \<noteq> [] \<and> hd rest = CHR ''h''
        then (let n = of_nat (nat_of_digits digits) in if 1 \<le> n then n else DEFAULT_INTERVAL_HOURS)
        else DEFAULT_INTERVAL_HOURS)"

definition formatIntervalHours :: "number \<Rightarrow> string" where
  "formatIntervalHours hours = show_int (max 1 (js_round hours)) @ ''h''"

definition toAutoUpdateFormState :: "autoUpdateSettings \<Rightarrow> autoUpdateFormState" where
  "toAutoUpdateFormState settings = \<lparr>af_telemt = au_telemt settings, af_panel = au_panel settings,
     af_intervalHours = parseIntervalHours (au_interval settings)\<rparr>"

definition serializeAutoUpdateForm :: "autoUpdateFormState \<Rightarrow> autoUpdateSettings" where
  "serializeAutoUpdateForm form = \<lparr>au_telemt = af_telemt form, au_panel = af_panel form,
     au_interval = formatIntervalHours (af_intervalHours form)\<rparr>"

definition equalForm :: "autoUpdateFormState \<Rightarrow> autoUpdateFormState \<Rightarrow> bool" where
  "equalForm a b \<longleftrightarrow> af_telemt a = af_telemt b \<and> af_panel a = af_panel b \<and> af_intervalHours a = af_intervalHours b"

interpretation form_draft: draft_equality equalForm
  by unfold_locales (auto simp: equalForm_def)

record releaseItem =
  ri_version :: string
  ri_newer :: bool

definition pickLatestRelease :: "releaseItem list \<Rightarrow> releaseItem option" where
  "pickLatestRelease releases = find ri_newer releases"

end
