(* ===== verification/Users.thy ===== *)
theory Users
  imports Js_Date Topics Draft_Session
begin

text \<open>
  The people pages: \<open>web/src/people/users.helpers.ts\<close>, \<open>buildUserPatch.ts\<close>, \<open>expiry.ts\<close>,
  \<open>webAccess.helpers.ts\<close>, \<open>actionSheet.helpers.ts\<close>, \<open>trafficHistory.helpers.ts\<close>, \<open>linkSelection.ts\<close> (the
  choice of a link) and \<open>ui/quota.helpers.ts\<close>. \<open>localeCompare\<close> is the browser's collation, an argument
  of the sorting with the laws of a comparison (locale \<open>collation\<close>).
\<close>

subsection \<open>Status and quota\<close>

datatype userStatus = UDisabled | UExpired | UQuotaExhausted | UNotInRuntime | UActive

record userQuotaView =
  uq_usedBytes :: "number option"
  uq_limitBytes :: "number option"

definition nonZero :: "number option \<Rightarrow> number option" where
  "nonZero n = (if n = Some 0 then None else n)"

definition getUserQuota :: "usersTopicUser \<Rightarrow> usersTopicQuotaEntry option \<Rightarrow> userQuotaView" where
  "getUserQuota user quotaEntry =
    (case quotaEntry of
       Some q \<Rightarrow> \<lparr>uq_usedBytes = Some (utqe_used_bytes q), uq_limitBytes = nonZero (Some (utqe_data_quota_bytes q))\<rparr>
     | None \<Rightarrow> \<lparr>uq_usedBytes = None, uq_limitBytes = nonZero (utu_data_quota_bytes user)\<rparr>)"

definition isQuotaExhausted :: "userQuotaView \<Rightarrow> bool" where
  "isQuotaExhausted quota \<longleftrightarrow>
    (case (uq_limitBytes quota, uq_usedBytes quota) of (Some l, Some u) \<Rightarrow> 0 < l \<and> l \<le> u | _ \<Rightarrow> False)"

definition computeUserStatus :: "(number \<Rightarrow> number) \<Rightarrow> usersTopicUser \<Rightarrow> userQuotaView \<Rightarrow> number \<Rightarrow> userStatus" where
  "computeUserStatus zone user quota nowMs =
    (if \<not> utu_enabled user then UDisabled
     else if (case utu_expiration_rfc3339 user of None \<Rightarrow> False | Some e \<Rightarrow>
       e \<noteq> [] \<and> (case date_parse zone e of None \<Rightarrow> False | Some expiresAt \<Rightarrow> expiresAt \<le> nowMs)) then UExpired
     else if isQuotaExhausted quota then UQuotaExhausted
     else if \<not> utu_in_runtime user then UNotInRuntime
     else UActive)"

definition isOnline :: "usersTopicUser \<Rightarrow> bool" where
  "isOnline user \<longleftrightarrow> 0 < utu_current_connections user"

subsection \<open>Quota units\<close>

datatype quotaUnit = MB | GB | TB

fun UNIT_BYTES :: "quotaUnit \<Rightarrow> number" where
  "UNIT_BYTES MB = 1024 ^ 2"
| "UNIT_BYTES GB = 1024 ^ 3"
| "UNIT_BYTES TB = 1024 ^ 4"

definition quotaUnitToBytes :: "number \<Rightarrow> quotaUnit \<Rightarrow> number" where
  "quotaUnitToBytes v unit = of_int (js_round (v * UNIT_BYTES unit))"

definition quotaBytesForFormSubmit :: "number \<Rightarrow> quotaUnit \<Rightarrow> number option \<Rightarrow> bool \<Rightarrow> number" where
  "quotaBytesForFormSubmit v unit originalBytes edited =
    (case originalBytes of Some b \<Rightarrow> if \<not> edited then b else quotaUnitToBytes v unit | None \<Rightarrow> quotaUnitToBytes v unit)"

definition bytesToQuotaDisplay :: "number \<Rightarrow> number \<times> quotaUnit" where
  "bytesToQuotaDisplay bytes =
    (let unit = (if UNIT_BYTES TB \<le> bytes then TB else if UNIT_BYTES GB \<le> bytes then GB else MB)
     in (of_int (js_round (bytes / UNIT_BYTES unit * 100)) / 100, unit))"

definition isUnlimitedQuota :: "number option \<Rightarrow> bool" where
  "isUnlimitedQuota limit \<longleftrightarrow> (case limit of None \<Rightarrow> True | Some l \<Rightarrow> l \<le> 0)"

definition quotaRatio :: "number \<Rightarrow> number option \<Rightarrow> number" where
  "quotaRatio used limit = (case limit of None \<Rightarrow> 1 | Some l \<Rightarrow> if l \<le> 0 then 1 else max 0 (min 1 (used / l)))"

definition quotaFillClass :: "number \<Rightarrow> bool \<Rightarrow> string" where
  "quotaFillClass ratio unlimited =
    (if unlimited then ''bg-bar-fill'' else if 1 \<le> ratio then ''bg-bar-fill-full''
     else if 8 / 10 \<le> ratio then ''bg-bar-fill-warn'' else ''bg-bar-fill'')"

subsection \<open>Search, filters and sorting\<close>

definition filterUsersByQuery :: "usersTopicUser list \<Rightarrow> string \<Rightarrow> usersTopicUser list" where
  "filterUsersByQuery users query =
    (let q = to_lower (trim query) in if q = [] then users else filter (\<lambda>u. str_includes (to_lower (utu_username u)) q) users)"

datatype userFilter = FAll | FOnline | FIssues | FWeb

definition hasIssues :: "userStatus \<Rightarrow> bool" where
  "hasIssues status \<longleftrightarrow> status \<noteq> UActive"

record userFilterInput =
  fi_user :: usersTopicUser
  fi_status :: userStatus
  fi_webAccess :: bool

record userFilterCounts =
  fc_all :: nat
  fc_online :: nat
  fc_issues :: nat
  fc_web :: nat

definition countUserFilters :: "userFilterInput list \<Rightarrow> userFilterCounts" where
  "countUserFilters entries =
    foldl (\<lambda>c e. c\<lparr>fc_online := (if isOnline (fi_user e) then Suc (fc_online c) else fc_online c),
                  fc_issues := (if hasIssues (fi_status e) then Suc (fc_issues c) else fc_issues c),
                  fc_web := (if fi_webAccess e then Suc (fc_web c) else fc_web c)\<rparr>)
      \<lparr>fc_all = length entries, fc_online = 0, fc_issues = 0, fc_web = 0\<rparr> entries"

fun matchesUserFilter :: "userFilterInput \<Rightarrow> userFilter \<Rightarrow> bool" where
  "matchesUserFilter entry FOnline = isOnline (fi_user entry)"
| "matchesUserFilter entry FIssues = hasIssues (fi_status entry)"
| "matchesUserFilter entry FWeb = fi_webAccess entry"
| "matchesUserFilter entry FAll = True"

datatype userSortField = ByName | ByTraffic | ByConnections
datatype sortDirection = Asc | Desc

record userSortState =
  us_field :: userSortField
  us_direction :: sortDirection

definition orElse :: "number \<Rightarrow> number \<Rightarrow> number" where
  "orElse a b = (if a = 0 then b else a)"

definition compareUsers :: "(string \<Rightarrow> string \<Rightarrow> number) \<Rightarrow> userSortState \<Rightarrow> usersTopicUser \<Rightarrow> usersTopicUser \<Rightarrow> number" where
  "compareUsers collate srt a b =
    (let dir = (if us_direction srt = Asc then 1 else -1); byName = collate (utu_username a) (utu_username b)
     in case us_field srt of
          ByName \<Rightarrow> dir * byName
        | ByTraffic \<Rightarrow>
            (case (utu_traffic a, utu_traffic b) of
               (None, None) \<Rightarrow> byName
             | (None, Some _) \<Rightarrow> 1
             | (Some _, None) \<Rightarrow> -1
             | (Some ta, Some tb) \<Rightarrow> orElse (dir * (utut_current_month_bytes ta - utut_current_month_bytes tb)) byName)
        | ByConnections \<Rightarrow> orElse (dir * (utu_current_connections a - utu_current_connections b)) byName)"

definition sortUsers :: "(string \<Rightarrow> string \<Rightarrow> number) \<Rightarrow> usersTopicUser list \<Rightarrow> userSortState \<Rightarrow> usersTopicUser list" where
  "sortUsers collate users srt = sortBy (compareUsers collate srt) users"

datatype userSortPreset = PActivity | PName | PTraffic

fun PRESET_FIELD :: "userSortPreset \<Rightarrow> userSortField" where
  "PRESET_FIELD PActivity = ByConnections"
| "PRESET_FIELD PName = ByName"
| "PRESET_FIELD PTraffic = ByTraffic"

fun SORT_PRESETS :: "userSortPreset \<Rightarrow> userSortState" where
  "SORT_PRESETS PActivity = \<lparr>us_field = ByConnections, us_direction = Desc\<rparr>"
| "SORT_PRESETS PName = \<lparr>us_field = ByName, us_direction = Asc\<rparr>"
| "SORT_PRESETS PTraffic = \<lparr>us_field = ByTraffic, us_direction = Desc\<rparr>"

definition SORT_PRESET_ORDER :: "userSortPreset list" where
  "SORT_PRESET_ORDER = [PActivity, PName, PTraffic]"

definition sortPresetOf :: "userSortState \<Rightarrow> userSortPreset" where
  "sortPresetOf srt = (case find (\<lambda>p. PRESET_FIELD p = us_field srt) SORT_PRESET_ORDER of Some p \<Rightarrow> p | None \<Rightarrow> PActivity)"

definition nextSortState :: "userSortState \<Rightarrow> userSortPreset \<Rightarrow> userSortState" where
  "nextSortState current preset =
    (if sortPresetOf current \<noteq> preset then SORT_PRESETS preset
     else \<lparr>us_field = us_field current, us_direction = (if us_direction current = Asc then Desc else Asc)\<rparr>)"

definition DEFAULT_USER_SORT :: userSortState where
  "DEFAULT_USER_SORT = SORT_PRESETS PActivity"

fun isSortField :: "json \<Rightarrow> userSortField option" where
  "isSortField (JStr s) = (if s = ''name'' then Some ByName else if s = ''traffic'' then Some ByTraffic
     else if s = ''connections'' then Some ByConnections else None)"
| "isSortField _ = None"

fun isSortDirection :: "json \<Rightarrow> sortDirection option" where
  "isSortDirection (JStr s) = (if s = ''asc'' then Some Asc else if s = ''desc'' then Some Desc else None)"
| "isSortDirection _ = None"

text \<open>The storage slot holds the parsed JSON, \<open>None\<close> when it is absent, unreadable or garbage.\<close>

definition getStoredUserSort :: "json option \<Rightarrow> userSortState" where
  "getStoredUserSort slot =
    (case slot of
       Some v \<Rightarrow> (case (isSortField (jprop v ''field''), isSortDirection (jprop v ''direction'')) of
           (Some f, Some d) \<Rightarrow> \<lparr>us_field = f, us_direction = d\<rparr> | _ \<Rightarrow> DEFAULT_USER_SORT)
     | None \<Rightarrow> DEFAULT_USER_SORT)"

definition setStoredUserSort :: "userSortState \<Rightarrow> json" where
  "setStoredUserSort srt = JObj
     [(''field'', JStr (case us_field srt of ByName \<Rightarrow> ''name'' | ByTraffic \<Rightarrow> ''traffic'' | ByConnections \<Rightarrow> ''connections'')),
      (''direction'', JStr (case us_direction srt of Asc \<Rightarrow> ''asc'' | Desc \<Rightarrow> ''desc''))]"

fun scaleUnit :: "number \<Rightarrow> nat \<Rightarrow> string list \<Rightarrow> number \<times> nat \<times> string" where
  "scaleUnit v unit [] = (v, unit, [])"
| "scaleUnit v unit [u] = (v, unit, u)"
| "scaleUnit v unit (u # u' # us) = (if 1000 \<le> v then scaleUnit (v / 1000) (Suc unit) (u' # us) else (v, unit, u))"

definition formatBitsPerSecond :: "number \<Rightarrow> string list \<Rightarrow> string" where
  "formatBitsPerSecond bps units =
    (case scaleUnit bps 0 units of (v, unit, label) \<Rightarrow>
       to_fixed (if unit = 0 then 0 else if v < 10 then 1 else 0) v @ '' '' @ label)"

subsection \<open>Validation\<close>

definition is_alpha :: "char \<Rightarrow> bool" where
  "is_alpha c \<longleftrightarrow> (let n = (of_char c :: nat) in (65 \<le> n \<and> n \<le> 90) \<or> (97 \<le> n \<and> n \<le> 122))"

definition is_hex :: "char \<Rightarrow> bool" where
  "is_hex c \<longleftrightarrow> is_digit c \<or> (let n = (of_char c :: nat) in (65 \<le> n \<and> n \<le> 70) \<or> (97 \<le> n \<and> n \<le> 102))"

definition isValidUsername :: "string \<Rightarrow> bool" where
  "isValidUsername name \<longleftrightarrow> 1 \<le> length name \<and> length name \<le> 64 \<and>
     list_all (\<lambda>c. is_alpha c \<or> is_digit c \<or> c \<in> {CHR ''_'', CHR ''.'', CHR ''-''}) name"

definition isValidSecret :: "string \<Rightarrow> bool" where
  "isValidSecret secret \<longleftrightarrow> length secret = 32 \<and> list_all is_hex secret"

end
