(* ===== verification/User_Forms.thy ===== *)
theory User_Forms
  imports I18n Users
begin

text \<open>
  The forms of the people pages: the merge patch of an edited user and the body of a new one
  (\<open>web/src/people/buildUserPatch.ts\<close>), expiration dates (\<open>expiry.ts\<close>), WEB access profiles
  (\<open>webAccess.helpers.ts\<close> and the equality of \<open>WebAccessPanel.tsx\<close>), the steps of the action sheet, the
  bars of the traffic history and the choice of a link.
\<close>

subsection \<open>Merge patches\<close>

datatype 'a limitFieldState = Keep | Clear | SetTo 'a

definition diffLimitField :: "'a option \<Rightarrow> 'a option \<Rightarrow> 'a limitFieldState" where
  "diffLimitField current original =
    (case current of
       None \<Rightarrow> if original = None then Keep else Clear
     | Some c \<Rightarrow> if original = Some c then Keep else SetTo c)"

record userPatchFormState =
  pf_enabled :: "bool option"
  pf_userAdTag :: "string limitFieldState"
  pf_maxTcpConns :: "number limitFieldState"
  pf_maxUniqueIps :: "number limitFieldState"
  pf_dataQuotaBytes :: "number limitFieldState"
  pf_expirationRfc3339 :: "string limitFieldState"
  pf_rateLimitUpBps :: "number limitFieldState"
  pf_rateLimitDownBps :: "number limitFieldState"

definition keepAllPatchFields :: userPatchFormState where
  "keepAllPatchFields = \<lparr>pf_enabled = None, pf_userAdTag = Keep, pf_maxTcpConns = Keep, pf_maxUniqueIps = Keep,
     pf_dataQuotaBytes = Keep, pf_expirationRfc3339 = Keep, pf_rateLimitUpBps = Keep, pf_rateLimitDownBps = Keep\<rparr>"

definition assign :: "('a \<Rightarrow> json) \<Rightarrow> string \<Rightarrow> 'a limitFieldState \<Rightarrow> (string \<times> json) list \<Rightarrow> (string \<times> json) list" where
  "assign enc key st patch = (case st of Keep \<Rightarrow> patch | Clear \<Rightarrow> mset_key patch key JNull | SetTo v \<Rightarrow> mset_key patch key (enc v))"

definition buildUserPatch :: "userPatchFormState \<Rightarrow> (string \<times> json) list" where
  "buildUserPatch form =
    (let patch = (case pf_enabled form of None \<Rightarrow> [] | Some b \<Rightarrow> mset_key [] ''enabled'' (JBool b));
         patch = assign JStr ''user_ad_tag'' (pf_userAdTag form) patch;
         patch = assign JNum ''max_tcp_conns'' (pf_maxTcpConns form) patch;
         patch = assign JNum ''max_unique_ips'' (pf_maxUniqueIps form) patch;
         patch = assign JNum ''data_quota_bytes'' (pf_dataQuotaBytes form) patch;
         patch = assign JStr ''expiration_rfc3339'' (pf_expirationRfc3339 form) patch;
         patch = assign JNum ''rate_limit_up_bps'' (pf_rateLimitUpBps form) patch
     in assign JNum ''rate_limit_down_bps'' (pf_rateLimitDownBps form) patch)"

record userCreateFormState =
  cr_username :: string
  cr_secret :: string
  cr_enabled :: bool
  cr_userAdTag :: "string option"
  cr_maxTcpConns :: "number option"
  cr_maxUniqueIps :: "number option"
  cr_dataQuotaBytes :: "number option"
  cr_expirationRfc3339 :: "string option"
  cr_rateLimitUpBps :: "number option"
  cr_rateLimitDownBps :: "number option"

definition putIf :: "string \<Rightarrow> json option \<Rightarrow> (string \<times> json) list \<Rightarrow> (string \<times> json) list" where
  "putIf key v body = (case v of None \<Rightarrow> body | Some x \<Rightarrow> mset_key body key x)"

definition nonEmptyStr :: "string option \<Rightarrow> json option" where
  "nonEmptyStr s = (case s of None \<Rightarrow> None | Some t \<Rightarrow> if t = [] then None else Some (JStr t))"

definition buildUserCreateBody :: "userCreateFormState \<Rightarrow> (string \<times> json) list" where
  "buildUserCreateBody form =
    (let body = [(''username'', JStr (cr_username form)), (''secret'', JStr (cr_secret form)), (''enabled'', JBool (cr_enabled form))];
         body = putIf ''user_ad_tag'' (nonEmptyStr (cr_userAdTag form)) body;
         body = putIf ''max_tcp_conns'' (map_option JNum (cr_maxTcpConns form)) body;
         body = putIf ''max_unique_ips'' (map_option JNum (cr_maxUniqueIps form)) body;
         body = putIf ''data_quota_bytes'' (map_option JNum (cr_dataQuotaBytes form)) body;
         body = putIf ''expiration_rfc3339'' (nonEmptyStr (cr_expirationRfc3339 form)) body;
         body = putIf ''rate_limit_up_bps'' (map_option JNum (cr_rateLimitUpBps form)) body
     in putIf ''rate_limit_down_bps'' (map_option JNum (cr_rateLimitDownBps form)) body)"

subsection \<open>Expiration\<close>

datatype expiryPreset = Preset7d | Preset30d | PresetNone

definition DAY_MS :: number where
  "DAY_MS = 24 * 60 * 60 * 1000"

definition presetToExpiration :: "expiryPreset \<Rightarrow> number \<Rightarrow> string option" where
  "presetToExpiration preset now =
    (case preset of PresetNone \<Rightarrow> None | Preset7d \<Rightarrow> Some (toISOString (now + 7 * DAY_MS))
     | Preset30d \<Rightarrow> Some (toISOString (now + 30 * DAY_MS)))"

definition dateShape :: "string \<Rightarrow> bool" where
  "dateShape v \<longleftrightarrow> length v = 10 \<and> v ! 4 = CHR ''-'' \<and> v ! 7 = CHR ''-'' \<and>
     list_all is_digit (take 4 v) \<and> list_all is_digit (take 2 (drop 5 v)) \<and> list_all is_digit (drop 8 v)"

definition expirationDateToISO :: "string \<Rightarrow> string option" where
  "expirationDateToISO v =
    (if \<not> dateShape v then None
     else case date_parse (\<lambda>_. 0) (v @ ''T23:59:59.000Z'') of
            None \<Rightarrow> None
          | Some t \<Rightarrow> if take 10 (toISOString t) \<noteq> v then None else Some (toISOString t))"

text \<open>The local view of an instant in the browser's zone (\<open>offsetAt\<close> gives its offset at an instant, \<open>zone\<close>
  that of a local time), and back.\<close>

definition pad2 :: "nat \<Rightarrow> string" where
  "pad2 n = padded 2 n"

definition isoToDatetimeLocalValue :: "(number \<Rightarrow> number) \<Rightarrow> (number \<Rightarrow> number) \<Rightarrow> string \<Rightarrow> string" where
  "isoToDatetimeLocalValue offsetAt zone s =
    (case date_parse zone s of
       None \<Rightarrow> []
     | Some t \<Rightarrow>
         let n = \<lfloor>t + offsetAt t\<rfloor>; ms = nat (n mod 86400000)
         in (case civil_from_days (n div 86400000) of (y, m, d) \<Rightarrow>
              show_int y @ ''-'' @ pad2 (nat m) @ ''-'' @ pad2 (nat d) @
              ''T'' @ pad2 (ms div 3600000) @ '':'' @ pad2 (ms div 60000 mod 60)))"

definition datetimeLocalValueToISO :: "(number \<Rightarrow> number) \<Rightarrow> string \<Rightarrow> string option" where
  "datetimeLocalValueToISO zone v =
    (if v = [] then None else map_option toISOString (date_parse zone v))"

subsection \<open>WEB access\<close>

record webAccessProfile =
  wa_user :: string
  wa_secret_mode :: string
  wa_max_sessions :: "number option"
  wa_max_streams :: "number option"
  wa_max_streams_per_session :: "number option"

record webAccessVhost =
  vh_host :: string
  vh_base_path :: "string option"
  vh_public_addr :: string
  vh_profiles :: "webAccessProfile list"

record webAccessView =
  wv_revision :: string
  wv_enabled :: bool
  wv_vhosts :: "webAccessVhost list"

record webUserAccessProfile =
  wu_vhost :: string
  wu_secret_mode :: string
  wu_max_sessions :: "number option"
  wu_max_streams :: "number option"
  wu_max_streams_per_session :: "number option"

definition webProfilesForUser :: "webAccessView option \<Rightarrow> string \<Rightarrow> webUserAccessProfile list" where
  "webProfilesForUser access username =
    (case access of
       None \<Rightarrow> []
     | Some v \<Rightarrow> concat (map (\<lambda>vhost. map (\<lambda>p. \<lparr>wu_vhost = vh_host vhost, wu_secret_mode = wa_secret_mode p,
           wu_max_sessions = wa_max_sessions p, wu_max_streams = wa_max_streams p,
           wu_max_streams_per_session = wa_max_streams_per_session p\<rparr>)
         (filter (\<lambda>p. wa_user p = username) (vh_profiles vhost))) (wv_vhosts v)))"

definition webAccessUsernames :: "webAccessView option \<Rightarrow> string list" where
  "webAccessUsernames access =
    (case access of None \<Rightarrow> []
     | Some v \<Rightarrow> foldl (\<lambda>us vhost. foldl (\<lambda>us p. if wa_user p \<in> set us then us else us @ [wa_user p]) us (vh_profiles vhost)) [] (wv_vhosts v))"

definition profileKey :: "webUserAccessProfile \<Rightarrow> string" where
  "profileKey p = wu_vhost p @ [char_of (0 :: nat)] @ wu_secret_mode p"

fun duplicateFrom :: "string list \<Rightarrow> webUserAccessProfile list \<Rightarrow> bool" where
  "duplicateFrom keys [] = False"
| "duplicateFrom keys (p # ps) = (if profileKey p \<in> set keys then True else duplicateFrom (keys @ [profileKey p]) ps)"

definition hasDuplicateWebProfiles :: "webUserAccessProfile list \<Rightarrow> bool" where
  "hasDuplicateWebProfiles profiles = duplicateFrom [] profiles"

definition equalProfiles :: "webUserAccessProfile list \<Rightarrow> webUserAccessProfile list \<Rightarrow> bool" where
  "equalProfiles a b \<longleftrightarrow> length a = length b \<and> (\<forall>i < length a. let profile = a ! i; other = b ! i in
     wu_vhost profile = wu_vhost other \<and> wu_secret_mode profile = wu_secret_mode other \<and>
     wu_max_sessions profile = wu_max_sessions other \<and> wu_max_streams profile = wu_max_streams other \<and>
     wu_max_streams_per_session profile = wu_max_streams_per_session other)"

interpretation profiles_draft: draft_equality equalProfiles
  by unfold_locales (auto simp: equalProfiles_def Let_def)

subsection \<open>Action sheet, traffic bars, links\<close>

datatype actionSheetIntent = IMenu | IShare | IQr | IResetQuota | IToggleEnabled | IDelete

datatype actionSheetView = VMenu | VShare | VQr | VConfirmDelete | VConfirmResetQuota | VConfirmResetTraffic
  | VConfirmToggleEnabled bool | VConfirmRotateSecret | VNewSecret string

definition intentToView :: "actionSheetIntent \<Rightarrow> usersTopicUser option \<Rightarrow> actionSheetView" where
  "intentToView intent user =
    (case intent of IShare \<Rightarrow> VShare | IQr \<Rightarrow> VQr | IResetQuota \<Rightarrow> VConfirmResetQuota
     | IToggleEnabled \<Rightarrow> VConfirmToggleEnabled (\<not> (case user of Some u \<Rightarrow> utu_enabled u | None \<Rightarrow> True))
     | IDelete \<Rightarrow> VConfirmDelete | IMenu \<Rightarrow> VMenu)"

record trafficHistoryPoint =
  th_ts :: number
  th_v :: number

definition trafficHistorySummary :: "trafficHistoryPoint list \<Rightarrow> number \<times> number" where
  "trafficHistorySummary points =
    foldl (\<lambda>(total, peak) p. if th_v p < 0 then (total, peak) else (total + th_v p, max peak (th_v p))) (0, 0) points"

definition trafficBarHeights :: "trafficHistoryPoint list \<Rightarrow> number list" where
  "trafficBarHeights points =
    (let peak = snd (trafficHistorySummary points)
     in if peak \<le> 0 then map (\<lambda>_. 0) points else map (\<lambda>p. max 0 (min 1 (th_v p / peak))) points)"

definition pickTelegramLink :: "userLinksWire \<Rightarrow> string option" where
  "pickTelegramLink links =
    (case ulw_tls links of l # _ \<Rightarrow> Some l
     | [] \<Rightarrow> (case ulw_secure links of l # _ \<Rightarrow> Some l
       | [] \<Rightarrow> (case ulw_classic links of l # _ \<Rightarrow> Some l | [] \<Rightarrow> None)))"

text \<open>The URL parser is the browser's: it gives the protocol and the host name, or throws.\<close>

definition isSafeTelegramLink :: "(string \<Rightarrow> (string \<times> string) option) \<Rightarrow> string \<Rightarrow> bool" where
  "isSafeTelegramLink new_URL link =
    (case new_URL link of None \<Rightarrow> False
     | Some (protocol, hostname) \<Rightarrow>
         (let scheme = to_lower protocol
          in if scheme = ''tg:'' then True else scheme = ''https:'' \<and> to_lower hostname = ''t.me''))"

subsection \<open>Durations\<close>

definition HOUR_MS :: number where
  "HOUR_MS = 60 * 60 * 1000"

definition MINUTE_MS :: number where
  "MINUTE_MS = 60 * 1000"

definition durationForms :: "dict \<Rightarrow> string \<Rightarrow> string \<times> string \<times> string" where
  "durationForms s u = (di_text s (''people.durationUnits.'' @ u @ ''.0''), di_text s (''people.durationUnits.'' @ u @ ''.1''),
     di_text s (''people.durationUnits.'' @ u @ ''.2''))"

definition formatDurationApprox :: "number \<Rightarrow> dict \<Rightarrow> string" where
  "formatDurationApprox ms s =
    (let a = max 0 ms
     in if DAY_MS \<le> a then countLabel s (of_int \<lfloor>a / DAY_MS\<rfloor>) (durationForms s ''days'')
        else if HOUR_MS \<le> a then countLabel s (of_int \<lfloor>a / HOUR_MS\<rfloor>) (durationForms s ''hours'')
        else countLabel s (max 1 (of_int \<lfloor>a / MINUTE_MS\<rfloor>)) (durationForms s ''minutes''))"

end
