(* ===== verification/User_Props.thy ===== *)
theory User_Props
  imports User_Forms
begin

text \<open>
  Properties of the people pages: the merge patch turns the stored user into the edited one and sends
  nothing else, the list is filtered, counted and sorted consistently, and the quota arithmetic of the
  form never changes a limit nobody edited.
\<close>

subsection \<open>The merge patch\<close>

text \<open>The optional fields of a user, and the server's side of \<open>PATCH\<close>: a JSON merge patch
  (a null removes the key, anything else replaces it).\<close>

record userFields =
  uf_userAdTag :: "string option"
  uf_maxTcpConns :: "number option"
  uf_maxUniqueIps :: "number option"
  uf_dataQuotaBytes :: "number option"
  uf_expirationRfc3339 :: "string option"
  uf_rateLimitUpBps :: "number option"
  uf_rateLimitDownBps :: "number option"

definition entry :: "('a \<Rightarrow> json) \<Rightarrow> string \<Rightarrow> 'a option \<Rightarrow> (string \<times> json) list" where
  "entry enc key v = (case v of None \<Rightarrow> [] | Some x \<Rightarrow> [(key, enc x)])"

definition userObject :: "userFields \<Rightarrow> (string \<times> json) list" where
  "userObject u = entry JStr ''user_ad_tag'' (uf_userAdTag u) @ entry JNum ''max_tcp_conns'' (uf_maxTcpConns u) @
     entry JNum ''max_unique_ips'' (uf_maxUniqueIps u) @ entry JNum ''data_quota_bytes'' (uf_dataQuotaBytes u) @
     entry JStr ''expiration_rfc3339'' (uf_expirationRfc3339 u) @ entry JNum ''rate_limit_up_bps'' (uf_rateLimitUpBps u) @
     entry JNum ''rate_limit_down_bps'' (uf_rateLimitDownBps u)"

definition mergePatch :: "(string \<times> json) list \<Rightarrow> (string \<times> json) list \<Rightarrow> (string \<times> json) list" where
  "mergePatch obj patch = foldl (\<lambda>o' (k, v). if v = JNull then mdel o' k else mset_key o' k v) obj patch"

definition editForm :: "userFields \<Rightarrow> userFields \<Rightarrow> userPatchFormState" where
  "editForm cur orig = \<lparr>pf_enabled = None, pf_userAdTag = diffLimitField (uf_userAdTag cur) (uf_userAdTag orig),
     pf_maxTcpConns = diffLimitField (uf_maxTcpConns cur) (uf_maxTcpConns orig),
     pf_maxUniqueIps = diffLimitField (uf_maxUniqueIps cur) (uf_maxUniqueIps orig),
     pf_dataQuotaBytes = diffLimitField (uf_dataQuotaBytes cur) (uf_dataQuotaBytes orig),
     pf_expirationRfc3339 = diffLimitField (uf_expirationRfc3339 cur) (uf_expirationRfc3339 orig),
     pf_rateLimitUpBps = diffLimitField (uf_rateLimitUpBps cur) (uf_rateLimitUpBps orig),
     pf_rateLimitDownBps = diffLimitField (uf_rateLimitDownBps cur) (uf_rateLimitDownBps orig)\<rparr>"

lemma mget_assign: "mget (assign enc key st p) k =
    (if k = key \<and> st \<noteq> Keep then Some (case st of SetTo v \<Rightarrow> enc v | _ \<Rightarrow> JNull) else mget p k)"
  by (cases st) (auto simp: assign_def mget_simps)

lemma distinct_assign: "distinct (map fst p) \<Longrightarrow> distinct (map fst (assign enc key st p))"
  by (cases st) (simp_all add: assign_def distinct_update)

lemma distinct_patch: "distinct (map fst (buildUserPatch form))"
  by (simp add: buildUserPatch_def Let_def distinct_assign split: option.split)

lemma mget_merge:
  "distinct (map fst patch) \<Longrightarrow> mget (mergePatch obj patch) k =
    (case mget patch k of None \<Rightarrow> mget obj k | Some v \<Rightarrow> if v = JNull then None else Some v)"
proof (induction patch arbitrary: obj)
  case Nil
  show ?case by (simp add: mergePatch_def)
next
  case (Cons kv patch)
  obtain k' v where kv: "kv = (k', v)" by (cases kv)
  have step: "mergePatch obj ((k', v) # patch) = mergePatch (if v = JNull then mdel obj k' else mset_key obj k' v) patch"
    by (simp add: mergePatch_def)
  have "mget patch k' = None" using Cons.prems by (auto simp: kv map_of_eq_None_iff)
  with Cons show ?case by (auto simp: step kv mget_simps split: option.split)
qed

lemma mget_entry [simp]: "mget (entry enc key v) k = (if k = key then map_option enc v else None)"
  by (cases v) (auto simp: entry_def)

lemma diff_keep: "diffLimitField c o' = Keep \<longleftrightarrow> c = o'"
  by (auto simp: diffLimitField_def split: option.splits)

definition patchKeys :: "string list" where
  "patchKeys = [''user_ad_tag'', ''max_tcp_conns'', ''max_unique_ips'', ''data_quota_bytes'', ''expiration_rfc3339'',
     ''rate_limit_up_bps'', ''rate_limit_down_bps'']"

lemma patch_read:
  "mget (buildUserPatch (editForm cur orig)) k =
    (if k = ''rate_limit_down_bps'' \<and> pf_rateLimitDownBps (editForm cur orig) \<noteq> Keep then Some (case pf_rateLimitDownBps (editForm cur orig) of SetTo v \<Rightarrow> JNum v | _ \<Rightarrow> JNull)
     else if k = ''rate_limit_up_bps'' \<and> pf_rateLimitUpBps (editForm cur orig) \<noteq> Keep then Some (case pf_rateLimitUpBps (editForm cur orig) of SetTo v \<Rightarrow> JNum v | _ \<Rightarrow> JNull)
     else if k = ''expiration_rfc3339'' \<and> pf_expirationRfc3339 (editForm cur orig) \<noteq> Keep then Some (case pf_expirationRfc3339 (editForm cur orig) of SetTo v \<Rightarrow> JStr v | _ \<Rightarrow> JNull)
     else if k = ''data_quota_bytes'' \<and> pf_dataQuotaBytes (editForm cur orig) \<noteq> Keep then Some (case pf_dataQuotaBytes (editForm cur orig) of SetTo v \<Rightarrow> JNum v | _ \<Rightarrow> JNull)
     else if k = ''max_unique_ips'' \<and> pf_maxUniqueIps (editForm cur orig) \<noteq> Keep then Some (case pf_maxUniqueIps (editForm cur orig) of SetTo v \<Rightarrow> JNum v | _ \<Rightarrow> JNull)
     else if k = ''max_tcp_conns'' \<and> pf_maxTcpConns (editForm cur orig) \<noteq> Keep then Some (case pf_maxTcpConns (editForm cur orig) of SetTo v \<Rightarrow> JNum v | _ \<Rightarrow> JNull)
     else if k = ''user_ad_tag'' \<and> pf_userAdTag (editForm cur orig) \<noteq> Keep then Some (case pf_userAdTag (editForm cur orig) of SetTo v \<Rightarrow> JStr v | _ \<Rightarrow> JNull)
     else None)"
  unfolding buildUserPatch_def Let_def mget_assign by (simp add: editForm_def)

lemma object_read:
  "mget (userObject u) k =
    (if k = ''user_ad_tag'' then map_option JStr (uf_userAdTag u) else if k = ''max_tcp_conns'' then map_option JNum (uf_maxTcpConns u)
     else if k = ''max_unique_ips'' then map_option JNum (uf_maxUniqueIps u) else if k = ''data_quota_bytes'' then map_option JNum (uf_dataQuotaBytes u)
     else if k = ''expiration_rfc3339'' then map_option JStr (uf_expirationRfc3339 u) else if k = ''rate_limit_up_bps'' then map_option JNum (uf_rateLimitUpBps u)
     else if k = ''rate_limit_down_bps'' then map_option JNum (uf_rateLimitDownBps u) else None)"
  by (simp add: userObject_def map_add_def split: option.split)

text \<open>The PATCH of an edited user. Applying the body the form builds to the stored user gives the
  edited user, field by field, for every combination of kept, cleared and changed limits; a field
  nobody changed is not in the body; and an unchanged form sends an empty body.\<close>

lemma user_patch_applies:
  fixes cur orig
  defines "patch \<equiv> buildUserPatch (editForm cur orig)"
  shows "mget (mergePatch (userObject orig) patch) k = mget (userObject cur) k \<and>
    (mget (userObject cur) k = mget (userObject orig) k \<longrightarrow> mget patch k = None) \<and>
    (cur = orig \<longrightarrow> patch = [])"
proof (intro conjI impI)
  note rd = mget_merge [OF distinct_patch] patch_read object_read
  show "mget (mergePatch (userObject orig) patch) k = mget (userObject cur) k"
  proof (cases "k \<in> set patchKeys")
    case True
    then show ?thesis
      unfolding patch_def rd patchKeys_def
      by (simp only: list.set insert_iff empty_iff) (elim disjE; simp add: editForm_def diffLimitField_def split: option.split)
  next
    case False
    then show ?thesis by (simp add: patch_def rd patchKeys_def)
  qed
  show "mget patch k = None" if same: "mget (userObject cur) k = mget (userObject orig) k"
  proof -
    have inj: "map_option JStr a = map_option JStr b \<longleftrightarrow> a = b" for a b by (cases a; cases b) auto
    have inj': "map_option JNum c = map_option JNum d \<longleftrightarrow> c = d" for c d by (cases c; cases d) auto
    show ?thesis
      using same unfolding patch_def patch_read object_read
      by (auto simp: editForm_def diff_keep inj inj' split: if_splits)
  qed
  show "patch = []" if "cur = orig"
    by (simp add: patch_def that buildUserPatch_def editForm_def diff_keep [THEN iffD2] assign_def)
qed

subsection \<open>The list\<close>

text \<open>What is needed of the browser's collation.\<close>

locale collation =
  fixes collate :: "string \<Rightarrow> string \<Rightarrow> number"
  assumes flip: "collate a b < 0 \<longleftrightarrow> 0 < collate b a"
    and trans: "collate a b \<le> 0 \<Longrightarrow> collate b c \<le> 0 \<Longrightarrow> collate a c \<le> 0"
begin

lemma zero_flip: "collate a b = 0 \<longleftrightarrow> collate b a = 0"
  using flip [of a b] flip [of b a] by linarith

lemma nonneg_flip: "0 \<le> collate a b \<longleftrightarrow> collate b a \<le> 0"
  using flip [of a b] flip [of b a] by linarith

lemma compare_total: "\<not> compareUsers collate srt a b \<le> 0 \<Longrightarrow> compareUsers collate srt b a \<le> 0"
  using nonneg_flip [of "utu_username a" "utu_username b"] nonneg_flip [of "utu_username b" "utu_username a"]
  by (cases "us_field srt"; cases "us_direction srt")
    (auto simp: compareUsers_def Let_def orElse_def split: option.splits if_splits)

lemma compare_trans:
  assumes "compareUsers collate srt a b \<le> 0" "compareUsers collate srt b c \<le> 0"
  shows "compareUsers collate srt a c \<le> 0"
proof -
  note n = trans [of "utu_username a" "utu_username b" "utu_username c"]
    trans [of "utu_username c" "utu_username b" "utu_username a"]
    nonneg_flip [of "utu_username a" "utu_username b"] nonneg_flip [of "utu_username b" "utu_username c"]
    nonneg_flip [of "utu_username a" "utu_username c"]
  show ?thesis
    using assms n
    by (cases "us_field srt"; cases "us_direction srt")
      (auto simp: compareUsers_def Let_def orElse_def split: option.splits if_splits)
qed

end

sublocale collation \<subseteq> by_state: comparator "compareUsers collate srt" "\<lambda>_. True"
  by unfold_locales (auto intro: compare_total compare_trans)

context collation
begin

lemma users_sorted: "sorted_wrt (\<lambda>a b. compareUsers collate srt a b \<le> 0) (sortUsers collate users srt)"
  unfolding sortUsers_def by (rule by_state.sorted) simp

end

text \<open>The comparison of code units, which is what a collation without locale data amounts to.\<close>

definition codeCompare :: "string \<Rightarrow> string \<Rightarrow> number" where
  "codeCompare a b = (if a < b then -1 else if a = b then 0 else 1)"

interpretation code_units: collation codeCompare
  by unfold_locales (auto simp: codeCompare_def split: if_splits)

lemma counts_fold:
  fixes es :: "userFilterInput list"
  shows "foldl (\<lambda>c e. c\<lparr>fc_online := (if isOnline (fi_user e) then Suc (fc_online c) else fc_online c),
       fc_issues := (if hasIssues (fi_status e) then Suc (fc_issues c) else fc_issues c),
       fc_web := (if fi_webAccess e then Suc (fc_web c) else fc_web c)\<rparr>) c0 es =
     c0\<lparr>fc_online := fc_online c0 + length (filter (\<lambda>e. isOnline (fi_user e)) es),
        fc_issues := fc_issues c0 + length (filter (\<lambda>e. hasIssues (fi_status e)) es),
        fc_web := fc_web c0 + length (filter fi_webAccess es)\<rparr>"
  by (induction es arbitrary: c0) simp_all

definition fc_of :: "userFilter \<Rightarrow> userFilterCounts \<Rightarrow> nat" where
  "fc_of f c = (case f of FAll \<Rightarrow> fc_all c | FOnline \<Rightarrow> fc_online c | FIssues \<Rightarrow> fc_issues c | FWeb \<Rightarrow> fc_web c)"

lemma counts_match: "fc_of f (countUserFilters entries) = length (filter (\<lambda>e. matchesUserFilter e f) entries)"
  by (cases f) (simp_all add: fc_of_def countUserFilters_def counts_fold)

text \<open>The order of the list, read off the values it shows: by name, by the traffic of the month or by the connections, upwards
  or downwards, people of the same value by name, and those without a traffic observation behind the others.\<close>

fun valueOrder :: "sortDirection \<Rightarrow> number \<Rightarrow> number \<Rightarrow> bool" where
  "valueOrder Asc x y = (x < y)"
| "valueOrder Desc x y = (y < x)"

fun listedBefore :: "(string \<Rightarrow> string \<Rightarrow> number) \<Rightarrow> userSortField \<Rightarrow> sortDirection \<Rightarrow> usersTopicUser \<Rightarrow> usersTopicUser \<Rightarrow> bool" where
  "listedBefore collate ByName Asc a b = (collate (utu_username a) (utu_username b) \<le> 0)"
| "listedBefore collate ByName Desc a b = (collate (utu_username b) (utu_username a) \<le> 0)"
| "listedBefore collate ByConnections dir a b =
    (valueOrder dir (utu_current_connections a) (utu_current_connections b) \<or>
     utu_current_connections a = utu_current_connections b \<and> collate (utu_username a) (utu_username b) \<le> 0)"
| "listedBefore collate ByTraffic dir a b =
    (case (utu_traffic a, utu_traffic b) of
       (Some x, Some y) \<Rightarrow> valueOrder dir (utut_current_month_bytes x) (utut_current_month_bytes y) \<or>
         utut_current_month_bytes x = utut_current_month_bytes y \<and> collate (utu_username a) (utu_username b) \<le> 0
     | (Some x, None) \<Rightarrow> True
     | (None, Some y) \<Rightarrow> False
     | (None, None) \<Rightarrow> collate (utu_username a) (utu_username b) \<le> 0)"

lemma compare_listed:
  assumes "collation collate" "compareUsers collate srt a b \<le> 0"
  shows "listedBefore collate (us_field srt) (us_direction srt) a b"
  using assms(2) collation.nonneg_flip [OF assms(1), of "utu_username a" "utu_username b"]
  by (cases "us_field srt"; cases "us_direction srt")
    (auto simp: compareUsers_def Let_def orElse_def split: option.splits if_splits)

text \<open>What each filter chip is about.\<close>

fun listedUnder :: "userFilter \<Rightarrow> userFilterInput \<Rightarrow> bool" where
  "listedUnder FAll e = True"
| "listedUnder FOnline e = (0 < utu_current_connections (fi_user e))"
| "listedUnder FIssues e = (fi_status e \<noteq> UActive)"
| "listedUnder FWeb e = fi_webAccess e"

lemma matches_listed: "matchesUserFilter e f \<longleftrightarrow> listedUnder f e"
  by (cases f) (simp_all add: isOnline_def hasIssues_def)

text \<open>C39. The list of people. Whatever the browser's collation, sorting only rearranges the users and
  puts them in the order of the chosen field and direction -- by name, by connections or by the month's traffic, upwards or
  downwards, equal ones by name; those without a traffic observation come last in both
  directions; each filter shows everybody, those with a connection, those whose status is not active or those with web access, and
  the number on its chip is the number of users it shows; and every stored sort
  state is read back, anything else giving the busiest first.\<close>

theorem people_list_consistent:
  assumes "collation collate"
  shows "mset (sortUsers collate users srt) = mset users \<and>
    sorted_wrt (listedBefore collate (us_field srt) (us_direction srt)) (sortUsers collate users srt) \<and>
    (us_field srt = ByTraffic \<longrightarrow> sorted_wrt (\<lambda>a b. utu_traffic a = None \<longrightarrow> utu_traffic b = None) (sortUsers collate users srt)) \<and>
    filter (\<lambda>e. matchesUserFilter e f) entries = filter (listedUnder f) entries \<and>
    fc_of f (countUserFilters entries) = length (filter (listedUnder f) entries) \<and>
    getStoredUserSort (Some (setStoredUserSort srt)) = srt \<and> getStoredUserSort None = \<lparr>us_field = ByConnections, us_direction = Desc\<rparr> \<and>
    (jprop j ''field'' \<notin> JStr ` {''name'', ''traffic'', ''connections''} \<or> jprop j ''direction'' \<notin> JStr ` {''asc'', ''desc''} \<longrightarrow>
      getStoredUserSort (Some j) = \<lparr>us_field = ByConnections, us_direction = Desc\<rparr>)"
proof (intro conjI impI)
  show "mset (sortUsers collate users srt) = mset users" by (simp add: sortUsers_def)
  show s: "sorted_wrt (listedBefore collate (us_field srt) (us_direction srt)) (sortUsers collate users srt)"
    by (rule sorted_wrt_mono_rel [OF _ collation.users_sorted [OF assms]]) (rule compare_listed [OF assms])
  show "sorted_wrt (\<lambda>a b. utu_traffic a = None \<longrightarrow> utu_traffic b = None) (sortUsers collate users srt)" if "us_field srt = ByTraffic"
    by (rule sorted_wrt_mono_rel [OF _ s]) (auto simp: that split: option.splits)
  show "filter (\<lambda>e. matchesUserFilter e f) entries = filter (listedUnder f) entries" by (simp only: matches_listed)
  show "fc_of f (countUserFilters entries) = length (filter (listedUnder f) entries)" by (simp only: counts_match matches_listed)
  show "getStoredUserSort (Some (setStoredUserSort srt)) = srt"
    by (cases srt) (auto simp: getStoredUserSort_def setStoredUserSort_def split: userSortField.split sortDirection.split)
  show "getStoredUserSort None = \<lparr>us_field = ByConnections, us_direction = Desc\<rparr>" by (simp add: getStoredUserSort_def DEFAULT_USER_SORT_def)
  show "getStoredUserSort (Some j) = \<lparr>us_field = ByConnections, us_direction = Desc\<rparr>"
    if "jprop j ''field'' \<notin> JStr ` {''name'', ''traffic'', ''connections''} \<or> jprop j ''direction'' \<notin> JStr ` {''asc'', ''desc''}"
  proof -
    have "isSortField (jprop j ''field'') = None \<or> isSortDirection (jprop j ''direction'') = None"
      using that by (cases "jprop j ''field''"; cases "jprop j ''direction''") auto
    then show ?thesis by (auto simp: getStoredUserSort_def DEFAULT_USER_SORT_def split: option.split)
  qed
qed

theorem people_list_consistent_witness:
  fixes u
  defines "u \<equiv> \<lambda>name conns. \<lparr>utu_username = name, utu_enabled = True, utu_in_runtime = True, utu_user_ad_tag = None,
      utu_max_tcp_conns = None, utu_expiration_rfc3339 = None, utu_data_quota_bytes = None, utu_rate_limit_up_bps = None,
      utu_rate_limit_down_bps = None, utu_max_unique_ips = None, utu_current_connections = conns, utu_active_unique_ips = 0,
      utu_active_unique_ips_list = None, utu_recent_unique_ips = 0, utu_recent_unique_ips_list = None, utu_total_octets = 0,
      utu_traffic = None, utu_links = \<lparr>ulw_classic = [], ulw_secure = [], ulw_tls = [], ulw_tls_domains = []\<rparr>\<rparr>"
  shows "sorted_wrt (listedBefore codeCompare ByConnections Desc) (sortUsers codeCompare [u ''b'' 1, u ''a'' 3] DEFAULT_USER_SORT) \<and>
    mset (sortUsers codeCompare [u ''b'' 1, u ''a'' 3] DEFAULT_USER_SORT) = {#u ''b'' 1, u ''a'' 3#} \<and>
    fc_online (countUserFilters [\<lparr>fi_user = u ''a'' 3, fi_status = UActive, fi_webAccess = False\<rparr>]) = 1"
  using people_list_consistent [OF code_units.collation_axioms, where users = "[u ''b'' 1, u ''a'' 3]" and srt = DEFAULT_USER_SORT
      and f = FOnline and entries = "[\<lparr>fi_user = u ''a'' 3, fi_status = UActive, fi_webAccess = False\<rparr>]"]
  by (simp add: fc_of_def u_def DEFAULT_USER_SORT_def)

end
