(* ===== verification/Access.thy ===== *)
theory Access
  imports Js_String Topics
begin

text \<open>
  Access to the panel and to Telemt's API: the redirect after a login (\<open>web/src/auth/safeRedirect.ts\<close> and
  its use by the guards), the base path (\<open>lib/base-path.ts\<close>) and the assessment of the API's protection
  (\<open>server/security/access.helpers.ts\<close>). The browser's URL parser is an argument: \<open>urlOrigin raw base\<close> is
  the origin of \<open>new URL(raw, base)\<close>, \<open>None\<close> when it throws; nothing is assumed of it.
\<close>

subsection \<open>Redirects\<close>

definition FALLBACK :: string where
  "FALLBACK = ''/people''"

definition is_control :: "char \<Rightarrow> bool" where
  "is_control c \<longleftrightarrow> (of_char c :: nat) < 32 \<or> (of_char c :: nat) = 127"

definition redirectBase :: string where
  "redirectBase = ''http://redirect-base.invalid''"

definition safeRedirectTarget :: "(string \<Rightarrow> string \<Rightarrow> string option) \<Rightarrow> string option \<Rightarrow> string" where
  "safeRedirectTarget urlOrigin raw =
    (case raw of
       None \<Rightarrow> FALLBACK
     | Some r \<Rightarrow>
         if r = [] then FALLBACK
         else if list_ex is_control r then FALLBACK
         else if CHR 0x5C \<in> set r then FALLBACK
         else if \<not> startsWith r ''/'' \<or> startsWith r ''//'' then FALLBACK
         else if ''..'' \<in> set (split_at CHR ''/'' r) \<or> str_includes (to_lower r) ''%2f'' \<or> str_includes (to_lower r) ''%5c''
         then FALLBACK
         else case urlOrigin r redirectBase of
                None \<Rightarrow> FALLBACK
              | Some origin \<Rightarrow> if origin \<noteq> redirectBase then FALLBACK else r)"

text \<open>What the two guards do with the answer of \<open>GET /api/auth/me\<close>.\<close>

datatype navigation = Stay | ToLogin string | ToHref string

definition requireAuth :: "(string \<Rightarrow> string \<Rightarrow> string option) \<Rightarrow> bool \<Rightarrow> string \<Rightarrow> navigation" where
  "requireAuth urlOrigin authenticated currentPath =
    (if authenticated then Stay else ToLogin (safeRedirectTarget urlOrigin (Some currentPath)))"

definition redirectIfAuthenticated :: "(string \<Rightarrow> string \<Rightarrow> string option) \<Rightarrow> bool \<Rightarrow> string option \<Rightarrow> navigation" where
  "redirectIfAuthenticated urlOrigin authenticated redirectTo =
    (if authenticated then ToHref (safeRedirectTarget urlOrigin redirectTo) else Stay)"

definition withBasePath :: "string option \<Rightarrow> string \<Rightarrow> string" where
  "withBasePath basePath path = (if startsWith path ''/'' then (case basePath of Some b \<Rightarrow> b | None \<Rightarrow> []) @ path else path)"

subsection \<open>Protection of the API\<close>

text \<open>\<open>Number(s)\<close>, with \<open>None\<close> for \<open>NaN\<close> and the infinities: decimal literals with a sign, decimals and an
  exponent, hexadecimal, octal and binary literals, and 0 for an empty string.\<close>

definition split_digits :: "string \<Rightarrow> string \<times> string" where
  "split_digits s = (takeWhile is_digit s, dropWhile is_digit s)"

definition js_exponent :: "string \<Rightarrow> int option" where
  "js_exponent s =
    (case s of
       [] \<Rightarrow> Some 0
     | e # r \<Rightarrow>
         if e \<noteq> CHR ''e'' \<and> e \<noteq> CHR ''E'' then None
         else let neg = (r \<noteq> [] \<and> hd r = CHR ''-''); ds = (if r \<noteq> [] \<and> hd r \<in> {CHR ''-'', CHR ''+''} then tl r else r)
              in if ds = [] \<or> \<not> list_all is_digit ds then None
                 else Some (if neg then - int (nat_of_digits ds) else int (nat_of_digits ds)))"

definition js_decimal :: "string \<Rightarrow> number option" where
  "js_decimal s =
    (let (whole, r) = split_digits s;
         (frac, r') = (if r \<noteq> [] \<and> hd r = CHR ''.'' then split_digits (tl r) else ([], r))
     in if whole = [] \<and> frac = [] then None
        else map_option (\<lambda>ex. of_nat (nat_of_digits (whole @ frac)) / 10 ^ length frac *
          (if 0 \<le> ex then 10 ^ nat ex else 1 / 10 ^ nat (- ex))) (js_exponent r'))"

definition hex_val :: "char \<Rightarrow> nat option" where
  "hex_val c = (let n = (of_char c :: nat) in if is_digit c then Some (n - 48)
     else if 65 \<le> n \<and> n \<le> 70 then Some (n - 55) else if 97 \<le> n \<and> n \<le> 102 then Some (n - 87) else None)"

definition js_radix :: "nat \<Rightarrow> string \<Rightarrow> number option" where
  "js_radix b s = (if s = [] \<or> list_ex (\<lambda>c. case hex_val c of None \<Rightarrow> True | Some d \<Rightarrow> b \<le> d) s then None
     else Some (of_nat (foldl (\<lambda>a c. b * a + the (hex_val c)) 0 s)))"

definition js_number :: "string \<Rightarrow> number option" where
  "js_number str =
    (let s = trim str
     in if s = [] then Some 0
        else if startsWith s ''0x'' \<or> startsWith s ''0X'' then js_radix 16 (drop 2 s)
        else if startsWith s ''0o'' \<or> startsWith s ''0O'' then js_radix 8 (drop 2 s)
        else if startsWith s ''0b'' \<or> startsWith s ''0B'' then js_radix 2 (drop 2 s)
        else if hd s = CHR ''-'' then map_option uminus (js_decimal (tl s))
        else if hd s = CHR ''+'' then js_decimal (tl s)
        else js_decimal s)"

definition is_int :: "number \<Rightarrow> bool" where
  "is_int x \<longleftrightarrow> of_int \<lfloor>x\<rfloor> = x"

text \<open>The two alternatives of the pattern: one bracket at the front and one at the end.\<close>

definition stripBrackets :: "string \<Rightarrow> string" where
  "stripBrackets s =
    (let t = (if s \<noteq> [] \<and> hd s = CHR ''['' then tl s else s)
     in if t \<noteq> [] \<and> last t = CHR '']'' then butlast t else t)"

definition loopbackV4 :: "string \<Rightarrow> string option \<Rightarrow> bool" where
  "loopbackV4 address rawPrefix =
    (let octets = map js_number (split_at CHR ''.'' address);
         prefix' = (case rawPrefix of None \<Rightarrow> Some 32 | Some p \<Rightarrow> js_number p)
     in length octets = 4 \<and>
        list_all (\<lambda>q. case q of None \<Rightarrow> False | Some n \<Rightarrow> is_int n \<and> 0 \<le> n \<and> n \<le> 255) octets \<and>
        (case prefix' of None \<Rightarrow> False | Some p \<Rightarrow> is_int p \<and> 8 \<le> p \<and> p \<le> 32) \<and> hd octets = Some 127)"

definition isLoopbackCidr :: "string \<Rightarrow> bool" where
  "isLoopbackCidr v =
    (let parts = split_at CHR ''/'' (to_lower (trim v)); address = stripBrackets (hd parts);
         rawPrefix = (if 1 < length parts then Some (parts ! 1) else None)
     in if 2 < length parts then False
        else if address = ''localhost'' then rawPrefix = None
        else if address = ''::1''
        then (case rawPrefix of None \<Rightarrow> True | Some p \<Rightarrow> (case js_number p of None \<Rightarrow> False | Some n \<Rightarrow> is_int n \<and> n = 128))
        else loopbackV4 address rawPrefix)"

datatype apiProtection = ProtLocal | ProtLayered | ProtWhitelist | ProtAuth | ProtReadOnly | ProtExposed | ProtUnknown

definition apiProtectionKind :: "securityPosture option \<Rightarrow> securityWhitelist option \<Rightarrow> apiProtection" where
  "apiProtectionKind posture whitelist =
    (case posture of
       None \<Rightarrow> ProtUnknown
     | Some p \<Rightarrow>
         if sp_api_whitelist_enabled p \<and> sp_api_auth_header_enabled p then ProtLayered
         else if sp_api_whitelist_enabled p
         then (case whitelist of
                 Some w \<Rightarrow> if sw_entries w \<noteq> [] \<and> list_all isLoopbackCidr (sw_entries w) then ProtLocal else ProtWhitelist
               | None \<Rightarrow> ProtWhitelist)
         else if sp_api_auth_header_enabled p then ProtAuth
         else if sp_api_read_only p then ProtReadOnly
         else ProtExposed)"

subsection \<open>Properties\<close>

lemma safe_cases:
  "safeRedirectTarget urlOrigin raw = FALLBACK \<or>
   (\<exists>r. raw = Some r \<and> safeRedirectTarget urlOrigin raw = r \<and> startsWith r ''/'' \<and> \<not> startsWith r ''//'' \<and>
      \<not> list_ex is_control r \<and> CHR 0x5C \<notin> set r \<and> ''..'' \<notin> set (split_at CHR ''/'' r) \<and>
      urlOrigin r redirectBase = Some redirectBase)"
  by (auto simp: safeRedirectTarget_def split: option.splits)

text \<open>C27. No open redirect. Whatever comes off the wire and however the browser parses URLs, the target
  handed to the router after a login (by either guard) is an absolute path of the panel: it starts with
  one slash and not two, holds no backslash, no control character and no parent segment; it is the
  landing page or the requested target itself, and then the URL parser agrees that it stays on the
  origin. A signed-out visitor is never sent anywhere but to the login page.\<close>

theorem redirect_stays_in_app:
  fixes urlOrigin raw
  defines "r \<equiv> safeRedirectTarget urlOrigin raw"
  shows "startsWith r ''/'' \<and> \<not> startsWith r ''//'' \<and> CHR 0x5C \<notin> set r \<and> \<not> list_ex is_control r \<and>
    ''..'' \<notin> set (split_at CHR ''/'' r) \<and> (r = FALLBACK \<or> raw = Some r \<and> urlOrigin r redirectBase = Some redirectBase) \<and>
    redirectIfAuthenticated urlOrigin authenticated raw \<in> {Stay, ToHref r} \<and>
    requireAuth urlOrigin False p = ToLogin (safeRedirectTarget urlOrigin (Some p))"
proof -
  have fb: "startsWith FALLBACK ''/'' \<and> \<not> startsWith FALLBACK ''//'' \<and> CHR 0x5C \<notin> set FALLBACK \<and>
      \<not> list_ex is_control FALLBACK \<and> ''..'' \<notin> set (split_at CHR ''/'' FALLBACK)"
    by (simp add: FALLBACK_def startsWith_def is_control_def)
  show ?thesis
    using safe_cases [of urlOrigin raw] fb
    by (auto simp: r_def redirectIfAuthenticated_def requireAuth_def)
qed

text \<open>Membership of an address in an IPv4 block.\<close>

definition in_block :: "nat \<Rightarrow> nat \<Rightarrow> nat \<Rightarrow> bool" where
  "in_block a base p \<longleftrightarrow> a div 2 ^ (32 - p) = base div 2 ^ (32 - p)"

definition octets_value :: "nat list \<Rightarrow> nat" where
  "octets_value os = foldl (\<lambda>a q. 256 * a + q) 0 os"

lemma block_in_loopback:
  assumes "length os = 4" "hd os = 127" "\<forall>q\<in>set os. q \<le> 255" "8 \<le> p" "p \<le> 32" "in_block a (octets_value os) p"
  shows "a div 2 ^ 24 = 127"
proof -
  obtain b c d where os: "os = [127, b, c, d]"
    using assms(1,2) by (cases os; simp) (auto simp: length_Suc_conv numeral_2_eq_2 eval_nat_numeral)
  have le: "b \<le> 255" "c \<le> 255" "d \<le> 255" using assms(3) os by auto
  have split: "(2 :: nat) ^ 24 = 2 ^ (32 - p) * 2 ^ (p - 8)"
    using assms(4,5) by (simp add: power_add [symmetric])
  have "a div 2 ^ 24 = a div 2 ^ (32 - p) div 2 ^ (p - 8)"
    by (simp only: split div_mult2_eq)
  also have "\<dots> = octets_value os div 2 ^ 24"
    using assms(6) by (simp only: in_block_def split div_mult2_eq)
  also have "\<dots> = 127" using le by (simp add: os octets_value_def)
  finally show ?thesis .
qed

definition entryAddress :: "string \<Rightarrow> string" where
  "entryAddress v = stripBrackets (hd (split_at CHR ''/'' (to_lower (trim v))))"

definition entryPrefix :: "string \<Rightarrow> string option" where
  "entryPrefix v = (let parts = split_at CHR ''/'' (to_lower (trim v)) in if 1 < length parts then Some (parts ! 1) else None)"

text \<open>The length of the prefix an entry names; a single address when it names none.\<close>

definition prefixOf :: "nat \<Rightarrow> string option \<Rightarrow> number option" where
  "prefixOf full rawPrefix = (case rawPrefix of None \<Rightarrow> Some (of_nat full) | Some r \<Rightarrow> js_number r)"

definition inside_loopback :: "string \<Rightarrow> string option \<Rightarrow> bool" where
  "inside_loopback address rawPrefix \<longleftrightarrow>
     (\<exists>os p. map js_number (split_at CHR ''.'' address) = map (\<lambda>q. Some (of_nat q)) os \<and> length os = 4 \<and> (\<forall>q\<in>set os. q \<le> 255) \<and>
        prefixOf 32 rawPrefix = Some (of_nat p) \<and> p \<le> 32 \<and>
        (\<forall>a. in_block a (octets_value os) p \<longrightarrow> a div 2 ^ 24 = 127))"

text \<open>The blocks of IPv6 addresses around \<open>::1\<close> that hold no other address.\<close>

definition inside_loopback6 :: "string option \<Rightarrow> bool" where
  "inside_loopback6 rawPrefix \<longleftrightarrow>
     (\<exists>p. prefixOf 128 rawPrefix = Some (of_nat p) \<and> p \<le> 128 \<and> (\<forall>a :: nat. a div 2 ^ (128 - p) = 1 div 2 ^ (128 - p) \<longrightarrow> a = 1))"

definition confined :: "string \<Rightarrow> bool" where
  "confined v \<longleftrightarrow> length (split_at CHR ''/'' (to_lower (trim v))) \<le> 2 \<and>
     (entryAddress v = ''localhost'' \<and> entryPrefix v = None \<or> entryAddress v = ''::1'' \<and> inside_loopback6 (entryPrefix v) \<or>
      inside_loopback (entryAddress v) (entryPrefix v))"

lemma inside_loopback6_iff: "inside_loopback6 rawPrefix \<longleftrightarrow> prefixOf 128 rawPrefix = Some 128"
proof
  assume "inside_loopback6 rawPrefix"
  then obtain p where p: "prefixOf 128 rawPrefix = Some (of_nat p)" "p \<le> 128"
    and all: "\<forall>a :: nat. a div 2 ^ (128 - p) = 1 div 2 ^ (128 - p) \<longrightarrow> a = 1" unfolding inside_loopback6_def by blast
  have "p = 128"
  proof (rule ccontr)
    assume "p \<noteq> 128"
    with p(2) have "(1 :: nat) < 2 ^ (128 - p)" by (intro one_less_power) simp_all
    then have "1 div 2 ^ (128 - p) = (0 :: nat)" by (rule div_less)
    with all [rule_format, of 0] show False by simp
  qed
  with p(1) show "prefixOf 128 rawPrefix = Some 128" by simp
next
  assume "prefixOf 128 rawPrefix = Some 128"
  then show "inside_loopback6 rawPrefix" unfolding inside_loopback6_def by (intro exI [of _ 128]) simp
qed

lemma int_nat: "is_int n \<Longrightarrow> 0 \<le> n \<Longrightarrow> \<exists>k. n = of_nat k"
  by (metis is_int_def of_int_0_le_iff zero_le_imp_eq_int of_int_of_nat_eq)

lemma is_int_nat [simp]: "is_int (of_nat k)"
  by (simp add: is_int_def)

lemma octets_nat:
  "list_all (\<lambda>q. case q of None \<Rightarrow> False | Some n \<Rightarrow> is_int n \<and> 0 \<le> n \<and> n \<le> 255) qs \<Longrightarrow>
   \<exists>os. qs = map (\<lambda>q. Some (of_nat q :: number)) os \<and> (\<forall>q\<in>set os. q \<le> 255)"
proof (induction qs)
  case (Cons q qs)
  then obtain os where os: "qs = map (\<lambda>q. Some (of_nat q :: number)) os" "\<forall>q\<in>set os. q \<le> 255" by auto
  from Cons.prems obtain n where n: "q = Some n" "is_int n" "0 \<le> n" "n \<le> 255" by (auto split: option.splits)
  then obtain k where k: "n = of_nat k" using int_nat by blast
  with n(4) have "k \<le> 255" by (metis of_nat_le_iff of_nat_numeral)
  with os n k have "q # qs = map (\<lambda>q. Some (of_nat q)) (k # os) \<and> (\<forall>q\<in>set (k # os). q \<le> 255)" by simp
  then show ?case by (rule exI [of _ "k # os"])
qed simp

lemma loopbackV4_confined:
  assumes "loopbackV4 address rawPrefix"
  shows "inside_loopback address rawPrefix"
proof -
  let ?qs = "map js_number (split_at CHR ''.'' address)"
  from assms have l: "length ?qs = 4" "hd ?qs = Some 127"
      and q: "list_all (\<lambda>q. case q of None \<Rightarrow> False | Some n \<Rightarrow> is_int n \<and> 0 \<le> n \<and> n \<le> 255) ?qs"
    by (simp_all add: loopbackV4_def Let_def)
  from assms obtain n where n: "prefixOf 32 rawPrefix = Some n" "is_int n" "8 \<le> n" "n \<le> 32"
    by (auto simp: loopbackV4_def prefixOf_def Let_def split: option.splits)
  obtain p where p: "n = of_nat p" using int_nat [of n] n by force
  then have p8: "8 \<le> p" "p \<le> 32" using n by simp_all
  obtain os where os: "?qs = map (\<lambda>q. Some (of_nat q)) os" "\<forall>q\<in>set os. q \<le> 255" using octets_nat [OF q] by blast
  have len: "length os = 4" using l(1) arg_cong [OF os(1), of length] by simp
  then have "hd os = 127" using l(2) os(1) by (cases os) auto
  then have "\<forall>a. in_block a (octets_value os) p \<longrightarrow> a div 2 ^ 24 = 127"
    using block_in_loopback [OF len _ os(2) p8] by simp
  then show ?thesis
    unfolding inside_loopback_def using os len n(1) p p8 by (intro exI [of _ os] exI [of _ p]) simp
qed

text \<open>A block that lies inside 127.0.0.0/8 has a prefix of at least eight bits and an address that begins with 127.\<close>

lemma confined_octets:
  assumes "length os = 4" "\<forall>q\<in>set os. q \<le> 255" "p \<le> 32" "\<forall>a. in_block a (octets_value os) p \<longrightarrow> a div 2 ^ 24 = 127"
  shows "hd os = 127 \<and> 8 \<le> p"
proof -
  obtain n b c d where os: "os = [n, b, c, d]" using assms(1) by (auto simp: eval_nat_numeral length_Suc_conv)
  have le: "b \<le> 255" "c \<le> 255" "d \<le> 255" using assms(2) os by auto
  have top: "octets_value os div 2 ^ 24 = n" using le by (simp add: os octets_value_def)
  have n: "n = 127" using assms(4) top by (simp add: in_block_def)
  have "8 \<le> p"
  proof (rule ccontr)
    assume "\<not> 8 \<le> p"
    then have "32 - p = 25 + (7 - p)" by simp
    then have split: "(2 :: nat) ^ (32 - p) = 2 ^ 25 * 2 ^ (7 - p)" by (simp only: power_add)
    have half: "v div 2 ^ 25 = v div 2 ^ 24 div 2" for v :: nat using div_mult2_eq [of v "2 ^ 24" 2] by simp
    have "(126 * 2 ^ 24) div 2 ^ 25 = octets_value os div (2 :: nat) ^ 25" unfolding half top n by simp
    then have "in_block (126 * 2 ^ 24) (octets_value os) p" unfolding in_block_def split div_mult2_eq by simp
    with assms(4) have "(126 * 2 ^ 24) div (2 :: nat) ^ 24 = 127" by blast
    then show False by simp
  qed
  with n os show ?thesis by simp
qed

lemma confined_loopbackV4:
  assumes "inside_loopback address rawPrefix"
  shows "loopbackV4 address rawPrefix"
proof -
  obtain os p where os: "map js_number (split_at CHR ''.'' address) = map (\<lambda>q. Some (of_nat q)) os" "length os = 4" "\<forall>q\<in>set os. q \<le> 255"
      and p: "prefixOf 32 rawPrefix = Some (of_nat p)" "p \<le> 32" and "\<forall>a. in_block a (octets_value os) p \<longrightarrow> a div 2 ^ 24 = 127"
    using assms unfolding inside_loopback_def by blast
  with confined_octets have "hd os = 127" "8 \<le> p" by blast+
  with os p show ?thesis
    by (cases os) (auto simp: loopbackV4_def prefixOf_def is_int_nat [of 127, simplified] is_int_nat [of 32, simplified] list_all_iff Let_def split: option.splits)
qed

lemma loopback_confined: "isLoopbackCidr v \<longleftrightarrow> confined v"
proof -
  have one: "\<not> loopbackV4 ''localhost'' r" "\<not> loopbackV4 ''::1'' r" for r by (simp_all add: loopbackV4_def Let_def)
  have v4: "inside_loopback (entryAddress v) (entryPrefix v) \<longleftrightarrow> loopbackV4 (entryAddress v) (entryPrefix v)"
    using loopbackV4_confined confined_loopbackV4 by blast
  have v6: "inside_loopback6 r \<longleftrightarrow> (case r of None \<Rightarrow> True | Some p \<Rightarrow> (case js_number p of None \<Rightarrow> False | Some n \<Rightarrow> is_int n \<and> n = 128))" for r
    by (auto simp: inside_loopback6_iff prefixOf_def is_int_def split: option.splits)
  show ?thesis
    unfolding confined_def v4 v6 using one by (auto simp: isLoopbackCidr_def entryAddress_def entryPrefix_def Let_def)
qed

text \<open>C28. The assessment of the API's protection. The page calls the API local exactly when its white list is on, no
  authorisation header is asked for besides, and the list holds nothing but loopback entries: the local host by name, the
  IPv6 address \<open>::1\<close> in a block that holds no other address, or an IPv4 block that lies inside 127.0.0.0/8. It calls the API
  exposed exactly when it can be written to with neither a white
  list nor an authorisation header in the way.\<close>

theorem api_protection_sound:
  "(apiProtectionKind (Some p) w = ProtLocal \<longleftrightarrow> sp_api_whitelist_enabled p \<and> \<not> sp_api_auth_header_enabled p \<and>
      (\<exists>wl. w = Some wl \<and> sw_entries wl \<noteq> [] \<and> (\<forall>v\<in>set (sw_entries wl). confined v))) \<and>
   (apiProtectionKind (Some p) w = ProtExposed \<longleftrightarrow>
      \<not> sp_api_whitelist_enabled p \<and> \<not> sp_api_auth_header_enabled p \<and> \<not> sp_api_read_only p) \<and>
   apiProtectionKind None w = ProtUnknown"
  by (auto simp: apiProtectionKind_def list_all_iff loopback_confined split: option.splits if_splits)

theorem api_protection_sound_witness:
  fixes p w
  defines "p \<equiv> \<lparr>sp_api_read_only = False, sp_api_whitelist_enabled = True, sp_api_whitelist_entries = 1, sp_api_auth_header_enabled = False,
      sp_proxy_protocol_enabled = False, sp_log_level = ''info'', sp_telemetry_core_enabled = True, sp_telemetry_user_enabled = True,
      sp_telemetry_me_level = ''normal''\<rparr>"
    and "w \<equiv> \<lparr>sw_generated_at_epoch_secs = 0, sw_enabled = True, sw_entries_total = 1, sw_entries = [''localhost'']\<rparr>"
  shows "apiProtectionKind (Some p) (Some w) = ProtLocal \<and> confined ''localhost''"
proof -
  have "apiProtectionKind (Some p) (Some w) = ProtLocal"
    by (simp add: apiProtectionKind_def p_def w_def isLoopbackCidr_def Let_def trim_def is_space_def to_lower_def stripBrackets_def)
  moreover from this api_protection_sound [of p "Some w"] have "confined ''localhost''" by (simp add: w_def)
  ultimately show ?thesis ..
qed

end
