(* ===== verification/Problems.thy ===== *)
theory Problems
  imports I18n Topics
begin

text \<open>
  The problem list of the dashboard, \<open>web/src/pulse/widgets/problems.helpers.ts\<close>, and the middle-proxy
  card it draws on, \<open>mePool.helpers.ts\<close>.
\<close>

subsection \<open>The middle-proxy card\<close>

datatype meCardState = MeHealthy | MeDegraded | MeInFallback
datatype meTone = ToneOk | ToneWarn | ToneError

datatype meReason =
    RFallback "string option"
  | RCoverage number
  | RDraining number
  | RDegradedWriters number
  | RFamily string string

fun reasonKind :: "meReason \<Rightarrow> string" where
  "reasonKind (RFallback _) = ''fallback''"
| "reasonKind (RCoverage _) = ''coverage''"
| "reasonKind (RDraining _) = ''draining''"
| "reasonKind (RDegradedWriters _) = ''degradedWriters''"
| "reasonKind (RFamily _ _) = ''family''"

record meCardView =
  mc_state :: meCardState
  mc_tone :: meTone
  mc_writersAlive :: number
  mc_writersTotal :: number
  mc_coveragePct :: "number option"
  mc_rttMs :: "number option"
  mc_refillInflight :: number
  mc_draining :: number
  mc_degraded :: number
  mc_fallback :: bool
  mc_reason :: "meReason option"

definition isFallback :: "runtimeGates option \<Rightarrow> bool" where
  "isFallback gates = (case gates of None \<Rightarrow> False | Some g \<Rightarrow>
     if \<not> rg_use_middle_proxy g then False else rg_reroute_active g \<or> rg_route_mode g = ''direct'')"

definition meQualitySummary :: "runtimeMeQuality option \<Rightarrow> number option \<times> number option" where
  "meQualitySummary quality =
    (case quality of
       None \<Rightarrow> (None, None)
     | Some q \<Rightarrow>
         if rmq_dc_rtt q = [] then (None, None)
         else let (required, alive, rtts) =
                foldl (\<lambda>(req, al, rs) dc. (req + rmqdr_required_writers dc, al + rmqdr_alive_writers dc,
                  case rmqdr_rtt_ema_ms dc of None \<Rightarrow> rs | Some r \<Rightarrow> rs @ [r])) (0, 0, []) (rmq_dc_rtt q)
              in (if 0 < required then Some (min (alive / required * 100) 100) else None,
                  if rtts \<noteq> [] then Some (sum_list rtts / of_nat (length rtts)) else None))"

definition firstReason ::
  "runtimeMePoolState \<Rightarrow> runtimeMeQuality option \<Rightarrow> runtimeGates option \<Rightarrow> number option \<Rightarrow> meReason option" where
  "firstReason pool quality gates coveragePct =
    (let writers = rmps_writers pool
     in if isFallback gates
        then Some (RFallback (case gates of None \<Rightarrow> None | Some g \<Rightarrow>
          (case rg_reroute_reason g of Some r \<Rightarrow> if r = [] then None else Some r | None \<Rightarrow> None)))
        else if (case coveragePct of Some c \<Rightarrow> c < 100 | None \<Rightarrow> False) then map_option RCoverage coveragePct
        else if 0 < rmpsw_draining writers then Some (RDraining (rmpsw_draining writers))
        else if 0 < rmpsw_degraded writers then Some (RDegradedWriters (rmpsw_degraded writers))
        else (case (case quality of None \<Rightarrow> None | Some q \<Rightarrow> find (\<lambda>f. rmqfs_state f \<noteq> ''healthy'') (rmq_family_states q)) of
            Some f \<Rightarrow> Some (RFamily (rmqfs_family f) (rmqfs_state f)) | None \<Rightarrow> None))"

definition computeMeCard :: "runtimeMePoolState \<Rightarrow> runtimeMeQuality option \<Rightarrow> runtimeGates option \<Rightarrow> meCardView" where
  "computeMeCard pool quality gates =
    (let (coveragePct, rttMs) = meQualitySummary quality;
         reason = firstReason pool quality gates coveragePct;
         state = (case reason of None \<Rightarrow> MeHealthy | Some (RFallback _) \<Rightarrow> MeInFallback | Some _ \<Rightarrow> MeDegraded)
     in \<lparr>mc_state = state, mc_tone = (if state = MeHealthy then ToneOk else if state = MeInFallback then ToneError else ToneWarn),
         mc_writersAlive = rmpsw_alive_non_draining (rmps_writers pool), mc_writersTotal = rmpsw_total (rmps_writers pool),
         mc_coveragePct = coveragePct, mc_rttMs = rttMs, mc_refillInflight = rmpsr_inflight_endpoints_total (rmps_refill pool),
         mc_draining = rmpsw_draining (rmps_writers pool), mc_degraded = rmpsw_degraded (rmps_writers pool),
         mc_fallback = isFallback gates, mc_reason = reason\<rparr>)"

fun meReasonText :: "meReason \<Rightarrow> dict \<Rightarrow> string" where
  "meReasonText (RFallback detail) s = (case detail of Some d \<Rightarrow>
     if d = [] then di_text s ''pulse.mePool.reason.fallback'' else di_text s ''pulse.mePool.reason.fallback'' @ '' ('' @ d @ '')''
   | None \<Rightarrow> di_text s ''pulse.mePool.reason.fallback'')"
| "meReasonText (RCoverage pct) s = fill (di_text s ''pulse.mePool.reason.coverage'') [(''pct'', formatNumber s (of_int (js_round pct)))]"
| "meReasonText (RDraining cnt) s = fill (di_text s ''pulse.mePool.reason.draining'') [(''count'', formatNumber s cnt)]"
| "meReasonText (RDegradedWriters cnt) s = fill (di_text s ''pulse.mePool.reason.degradedWriters'') [(''count'', formatNumber s cnt)]"
| "meReasonText (RFamily family state) s = fill (di_text s ''pulse.mePool.reason.family'') [(''family'', family), (''state'', state)]"

fun meReasonHint :: "meReason \<Rightarrow> dict \<Rightarrow> string option" where
  "meReasonHint (RDraining _) s = Some (di_text s ''pulse.mePool.explanation.draining'')"
| "meReasonHint (RDegradedWriters _) s = Some (di_text s ''pulse.mePool.explanation.degradedWriters'')"
| "meReasonHint (RCoverage _) s = Some (di_text s ''pulse.mePool.explanation.coverage'')"
| "meReasonHint _ s = None"

subsection \<open>The problem list\<close>

record problemItem =
  pi_key :: string
  pi_label :: string
  pi_detail :: "string option"
  pi_hint :: "string option"

record staleTopicInput =
  st_topic :: string
  st_stale :: bool
  st_error :: "string option"

definition addMeRuntimeProblem :: "problemItem list \<Rightarrow> meReason option \<Rightarrow> dict \<Rightarrow> problemItem list" where
  "addMeRuntimeProblem items reason s =
    (case reason of None \<Rightarrow> items | Some r \<Rightarrow>
       let coveredElsewhere =
             (reasonKind r = ''fallback'' \<and> list_ex (\<lambda>i. pi_key i = ''me_direct_fallback'') items) \<or>
             (reasonKind r = ''coverage'' \<and> list_ex (\<lambda>i. startsWith (pi_key i) ''me_coverage_low'') items)
       in if coveredElsewhere then items
          else \<lparr>pi_key = ''me_runtime_'' @ reasonKind r,
                pi_label = di_text s (if reasonKind r = ''draining'' then ''pulse.problems.meRuntimeDraining''
                  else if reasonKind r = ''degradedWriters'' then ''pulse.problems.meRuntimeLatency''
                  else ''pulse.problems.meRuntimeDegraded''),
                pi_detail = Some (meReasonText r s), pi_hint = meReasonHint r s\<rparr> # items)"

definition counterDelta :: "number option \<Rightarrow> number \<Rightarrow> number option" where
  "counterDelta baseline current =
    (case baseline of None \<Rightarrow> None | Some b \<Rightarrow> Some (if current < b then current else current - b))"

definition rateItem :: "string \<Rightarrow> string \<Rightarrow> number option \<Rightarrow> number \<Rightarrow> dict \<Rightarrow> problemItem option" where
  "rateItem key label delta tot s =
    (case delta of None \<Rightarrow> None | Some d \<Rightarrow>
       if d \<le> 0 then None
       else Some \<lparr>pi_key = key, pi_label = label,
         pi_detail = Some (fill (di_text s ''pulse.problems.deltaDetail'') [(''delta'', num_str d), (''total'', num_str tot)]),
         pi_hint = None\<rparr>)"

definition byClassTotal :: "classCount list option \<Rightarrow> string \<Rightarrow> number" where
  "byClassTotal list cls =
    (case list of None \<Rightarrow> 0 | Some cs \<Rightarrow> (case find (\<lambda>e. cc_class e = cls) cs of None \<Rightarrow> 0 | Some e \<Rightarrow> cc_total e))"

definition isTlsProbeClass :: "string \<Rightarrow> bool" where
  "isTlsProbeClass cls \<longleftrightarrow> startsWith cls ''tls_'' \<or> str_includes cls ''probe''"

text \<open>The rules of \<open>computeProblems\<close>, one definition for each group of pushes in its body.\<close>

definition readinessProblems :: "statsSnapshot option \<Rightarrow> dict \<Rightarrow> problemItem list" where
  "readinessProblems stats s =
    (case Option.bind stats ssn_ready of None \<Rightarrow> [] | Some r \<Rightarrow>
       if \<not> sr_ready r then [\<lparr>pi_key = ''not_ready'', pi_label = di_text s ''pulse.problems.notReady'', pi_detail = sr_reason r, pi_hint = None\<rparr>]
       else []) @
    (case Option.bind stats ssn_health of None \<Rightarrow> [] | Some h \<Rightarrow>
       if sh_read_only h then [\<lparr>pi_key = ''read_only'', pi_label = di_text s ''pulse.problems.readOnly'', pi_detail = None, pi_hint = None\<rparr>]
       else [])"

definition dcList :: "dcStatusData option \<Rightarrow> dcStatus list" where
  "dcList dcs = (case dcs of None \<Rightarrow> [] | Some d \<Rightarrow> if dsd_middle_proxy_enabled d then dsd_dcs d else [])"

definition fullFallback :: "dcStatusData option \<Rightarrow> bool" where
  "fullFallback dcs \<longleftrightarrow> dcList dcs \<noteq> [] \<and> list_all (\<lambda>d. ds_alive_writers d = 0) (dcList dcs)"

definition coverageLow :: "dcStatus \<Rightarrow> bool" where
  "coverageLow d \<longleftrightarrow> ds_alive_writers d < ds_floor_min d \<or> (0 < ds_required_writers d \<and> ds_coverage_pct d < 100)"

definition coverageCompare :: "dcStatus \<Rightarrow> dcStatus \<Rightarrow> number" where
  "coverageCompare a b = ds_coverage_pct a - ds_coverage_pct b"

definition coverageItem :: "dict \<Rightarrow> dcStatus \<Rightarrow> problemItem" where
  "coverageItem s d =
    \<lparr>pi_key = ''me_coverage_low_'' @ num_str (ds_dc d),
     pi_label = di_text s ''pulse.problems.meCoverageLow'' @ '': DC '' @ num_str (ds_dc d),
     pi_detail = Some (fill (di_text s ''pulse.problems.meCoverageLowDetail'')
       [(''alive'', num_str (ds_alive_writers d)), (''floor'', num_str (ds_floor_min d)), (''pct'', num_str (ds_coverage_pct d))]),
     pi_hint = None\<rparr>"

definition middleProxyProblems :: "dcStatusData option \<Rightarrow> dict \<Rightarrow> problemItem list" where
  "middleProxyProblems dcs s =
    (if fullFallback dcs
     then [\<lparr>pi_key = ''me_direct_fallback'', pi_label = di_text s ''pulse.problems.meDirectFallback'',
            pi_detail = Some (show_nat (length (dcList dcs))), pi_hint = Some (di_text s ''pulse.problems.meDirectFallbackHint'')\<rparr>]
     else []) @
    (if dcList dcs \<noteq> [] \<and> \<not> fullFallback dcs
     then map (coverageItem s) (sortBy coverageCompare (filter coverageLow (dcList dcs)))
     else [])"

definition splitTrafficProblems :: "statsSnapshot option \<Rightarrow> dcStatusData option \<Rightarrow> dict \<Rightarrow> problemItem list" where
  "splitTrafficProblems stats dcs s =
    (case Option.bind (Option.bind stats ssn_connections_summary) g_data of None \<Rightarrow> [] | Some cs \<Rightarrow>
       let edgeTotals = recs_totals cs
       in if (case dcs of None \<Rightarrow> False | Some d \<Rightarrow> dsd_middle_proxy_enabled d) \<and>
             0 < rect_current_connections_direct edgeTotals \<and> rect_current_connections_me edgeTotals = 0
          then [\<lparr>pi_key = ''me_split_traffic'', pi_label = di_text s ''pulse.problems.meSplitTraffic'',
                 pi_detail = Some (num_str (rect_current_connections_direct edgeTotals)), pi_hint = None\<rparr>]
          else [])"

definition staleProblems :: "staleTopicInput list \<Rightarrow> dict \<Rightarrow> problemItem list" where
  "staleProblems staleTopics s =
    map (\<lambda>t. \<lparr>pi_key = ''stale_'' @ st_topic t, pi_label = di_text s ''pulse.problems.staleTopic'' @ '' '' @ st_topic t,
               pi_detail = st_error t, pi_hint = None\<rparr>)
      (filter (\<lambda>t. st_stale t \<or> (case st_error t of None \<Rightarrow> False | Some e \<Rightarrow> e \<noteq> [])) staleTopics)"

definition totalCompare :: "classCount \<Rightarrow> classCount \<Rightarrow> number" where
  "totalCompare a b = cc_total b - cc_total a"

definition classList :: "classCount list option \<Rightarrow> classCount list" where
  "classList list = sortBy totalCompare (case list of None \<Rightarrow> [] | Some cs \<Rightarrow> cs)"

definition classDelta :: "classCount list option \<Rightarrow> classCount \<Rightarrow> number option" where
  "classDelta base c = counterDelta (Some (byClassTotal base (cc_class c))) (cc_total c)"

definition classItem :: "string \<Rightarrow> string \<Rightarrow> classCount list option \<Rightarrow> dict \<Rightarrow> classCount \<Rightarrow> problemItem option" where
  "classItem pre label base s c =
    rateItem (pre @ cc_class c) (di_text s label @ '': '' @ cc_class c) (classDelta base c) (cc_total c) s"

definition handshakeProblems :: "statsSummary \<Rightarrow> statsSummary \<Rightarrow> dict \<Rightarrow> problemItem list" where
  "handshakeProblems base summary s =
    (let failures = classList (ss_handshake_failures_by_class summary)
     in List.map_filter (classItem ''handshake_'' ''pulse.problems.handshakeFailures'' (ss_handshake_failures_by_class base) s) failures @
        List.map_filter id [rateItem ''connections_bad_total'' (di_text s ''pulse.problems.connectionsBad'')
          (counterDelta (Some (ss_connections_bad_total base)) (ss_connections_bad_total summary)) (ss_connections_bad_total summary) s] @
        (if failures = []
         then List.map_filter id [rateItem ''handshake_timeouts_total'' (di_text s ''pulse.problems.handshakeTimeouts'')
           (counterDelta (Some (ss_handshake_timeouts_total base)) (ss_handshake_timeouts_total summary)) (ss_handshake_timeouts_total summary) s]
         else []))"

definition tlsDelta :: "classCount list option \<Rightarrow> classCount list \<Rightarrow> number" where
  "tlsDelta base tlsClasses = (\<Sum>c\<leftarrow>tlsClasses. case classDelta base c of None \<Rightarrow> 0 | Some d \<Rightarrow> d)"

definition badClassProblems :: "statsSummary \<Rightarrow> statsSummary \<Rightarrow> dict \<Rightarrow> problemItem list" where
  "badClassProblems base summary s =
    (let badByClass = classList (ss_connections_bad_by_class summary);
         tlsClasses = filter (\<lambda>c. isTlsProbeClass (cc_class c)) badByClass;
         delta = tlsDelta (ss_connections_bad_by_class base) tlsClasses
     in (if 0 < delta
         then [\<lparr>pi_key = ''tls_probe_anomaly'', pi_label = di_text s ''pulse.problems.tlsProbeAnomaly'',
                pi_detail = Some (fill (di_text s ''pulse.problems.deltaDetail'')
                  [(''delta'', num_str delta), (''total'', num_str (sum_list (map cc_total tlsClasses)))]),
                pi_hint = Some (join [CHR '' '', CHR 0xB7, CHR '' ''] (map cc_class tlsClasses))\<rparr>]
         else []) @
        List.map_filter (classItem ''connections_bad_'' ''pulse.problems.connectionsBadByClass'' (ss_connections_bad_by_class base) s)
          (filter (\<lambda>c. \<not> isTlsProbeClass (cc_class c)) badByClass))"

definition counterProblems :: "statsSnapshot option \<Rightarrow> statsSnapshot option \<Rightarrow> dict \<Rightarrow> problemItem list" where
  "counterProblems stats baseline s =
    (case (Option.bind stats ssn_summary, Option.bind baseline ssn_summary) of
       (Some summary, Some base) \<Rightarrow> handshakeProblems base summary s @ badClassProblems base summary s
     | _ \<Rightarrow> [])"

definition capabilityProblems :: "string list \<Rightarrow> dict \<Rightarrow> problemItem list" where
  "capabilityProblems missingCapabilities s =
    map (\<lambda>cap. \<lparr>pi_key = ''cap_'' @ cap, pi_label = di_text s ''pulse.problems.capabilityGap'' @ '' '' @ cap,
                 pi_detail = None, pi_hint = None\<rparr>) missingCapabilities"

definition computeProblems ::
  "statsSnapshot option \<Rightarrow> staleTopicInput list \<Rightarrow> string list \<Rightarrow> dcStatusData option \<Rightarrow> dict \<Rightarrow> statsSnapshot option \<Rightarrow> problemItem list" where
  "computeProblems stats staleTopics missingCapabilities dcs s baseline =
    readinessProblems stats s @ middleProxyProblems dcs s @ splitTrafficProblems stats dcs s @
    staleProblems staleTopics s @ counterProblems stats baseline s @ capabilityProblems missingCapabilities s"

datatype diagDomain = DConnections | DDc | DUpstreams | DMe | DNat | DSecurity | DCounters | DEvents | DWeb

definition STALE_TOPIC_DOMAIN :: "string \<Rightarrow> diagDomain option" where
  "STALE_TOPIC_DOMAIN = map_of [(''stats'', DConnections), (''runtime'', DMe), (''upstreams'', DUpstreams), (''security'', DSecurity)]"

definition problemDomain :: "string \<Rightarrow> diagDomain option" where
  "problemDomain key =
    (if key = ''tls_probe_anomaly'' then Some DSecurity
     else if startsWith key ''handshake_'' \<or> startsWith key ''connections_bad'' then Some DCounters
     else if key = ''me_direct_fallback'' \<or> startsWith key ''me_coverage_low'' then Some DDc
     else if key = ''me_split_traffic'' then Some DMe
     else if startsWith key ''me_runtime_'' then Some DMe
     else if startsWith key ''stale_'' then STALE_TOPIC_DOMAIN (drop (length ''stale_'') key)
     else None)"

datatype problemSeverityLevel = SevError | SevWarn | SevMuted

definition problemSeverity :: "string \<Rightarrow> problemSeverityLevel" where
  "problemSeverity key =
    (if key = ''not_ready'' \<or> key = ''me_direct_fallback'' then SevError
     else if startsWith key ''cap_'' then SevMuted else SevWarn)"

end
