(* ===== verification/Problem_Props.thy ===== *)
theory Problem_Props
  imports Problems
begin

text \<open>
  What the problem list promises: a cumulative counter is a problem exactly when it grew inside the
  window, and the rules on the present state name the worst fact once.
\<close>

interpretation byCoverage: comparator coverageCompare "\<lambda>_. True"
  by unfold_locales (auto simp: coverageCompare_def)

interpretation byTotal: comparator totalCompare "\<lambda>_. True"
  by unfold_locales (auto simp: totalCompare_def)

text \<open>Growth of a counter between two readings: more than before, or anything after a reset.\<close>

definition grew :: "number \<Rightarrow> number \<Rightarrow> bool" where
  "grew base current \<longleftrightarrow> base < current \<or> (current < base \<and> 0 < current)"

lemma rateItem_grew:
  "rateItem k l (counterDelta (Some b) c) t s = Some i \<Longrightarrow> pi_key i = k \<and> grew b c"
  by (auto simp: rateItem_def counterDelta_def grew_def split: if_splits)

lemma rateItem_None:
  "rateItem k l (counterDelta (Some b) c) t s = None \<Longrightarrow> \<not> grew b c"
  by (auto simp: rateItem_def counterDelta_def grew_def split: if_splits)

lemma classItem_keys:
  "pi_key ` set (List.map_filter (classItem pre l base s) cs) =
   {pre @ cc_class c | c. c \<in> set cs \<and> grew (byClassTotal base (cc_class c)) (cc_total c)}"
proof -
  have "classItem pre l base s c = Some i \<Longrightarrow> pi_key i = pre @ cc_class c \<and> grew (byClassTotal base (cc_class c)) (cc_total c)" for c i
    unfolding classItem_def classDelta_def by (rule rateItem_grew)
  moreover have "grew (byClassTotal base (cc_class c)) (cc_total c) \<Longrightarrow> \<exists>i. classItem pre l base s c = Some i" for c
    unfolding classItem_def classDelta_def using rateItem_None by (metis not_None_eq)
  ultimately show ?thesis
    by (fastforce simp: List.map_filter_def image_iff)
qed

lemma rateItem_keys:
  "pi_key ` set (List.map_filter id [rateItem k l (counterDelta (Some b) c) t s]) = (if grew b c then {k} else {})"
  using rateItem_grew [of k l b c t s] rateItem_None [of k l b c t s]
  by (cases "rateItem k l (counterDelta (Some b) c) t s") (auto simp: List.map_filter_def)

definition reported :: "classCount list option \<Rightarrow> classCount list" where
  "reported list = (case list of None \<Rightarrow> [] | Some cs \<Rightarrow> cs)"

lemma set_classList [simp]: "set (classList l) = set (reported l)"
  by (simp add: classList_def reported_def)

lemma classList_Nil [simp]: "classList l = [] \<longleftrightarrow> reported l = []"
  by (simp add: classList_def reported_def)

lemma sum_list_pos_iff:
  fixes f :: "'a \<Rightarrow> number"
  assumes "\<And>x. x \<in> set xs \<Longrightarrow> 0 \<le> f x"
  shows "0 < sum_list (map f xs) \<longleftrightarrow> (\<exists>x\<in>set xs. 0 < f x)"
  using assms
proof (induction xs)
  case (Cons x xs)
  have "0 \<le> sum_list (map f xs)" using Cons.prems by (auto intro!: sum_list_nonneg)
  moreover have "0 \<le> f x" using Cons.prems by simp
  ultimately have "0 < f x + sum_list (map f xs) \<longleftrightarrow> 0 < f x \<or> 0 < sum_list (map f xs)" by linarith
  with Cons show ?case by simp
qed simp

lemma tlsDelta_pos:
  assumes "\<forall>c\<in>set cs. 0 \<le> cc_total c"
  shows "0 < tlsDelta base cs \<longleftrightarrow> (\<exists>c\<in>set cs. grew (byClassTotal base (cc_class c)) (cc_total c))"
proof -
  let ?d = "\<lambda>c. case classDelta base c of None \<Rightarrow> 0 | Some d \<Rightarrow> d"
  have "0 \<le> ?d c" if "c \<in> set cs" for c
    using that assms by (simp add: classDelta_def counterDelta_def)
  then have "0 < sum_list (map ?d cs) \<longleftrightarrow> (\<exists>c\<in>set cs. 0 < ?d c)" by (rule sum_list_pos_iff)
  moreover have "0 < ?d c \<longleftrightarrow> grew (byClassTotal base (cc_class c)) (cc_total c)" for c
    by (auto simp: classDelta_def counterDelta_def grew_def)
  ultimately show ?thesis by (simp add: tlsDelta_def)
qed

lemma handshake_keys:
  "pi_key ` set (handshakeProblems b su s) =
    {''handshake_'' @ cc_class c | c. c \<in> set (reported (ss_handshake_failures_by_class su)) \<and>
       grew (byClassTotal (ss_handshake_failures_by_class b) (cc_class c)) (cc_total c)} \<union>
    (if grew (ss_connections_bad_total b) (ss_connections_bad_total su) then {''connections_bad_total''} else {}) \<union>
    (if reported (ss_handshake_failures_by_class su) = [] \<and> grew (ss_handshake_timeouts_total b) (ss_handshake_timeouts_total su)
     then {''handshake_timeouts_total''} else {})"
  unfolding handshakeProblems_def Let_def set_append image_Un classItem_keys rateItem_keys if_distrib [of set]
    if_distrib [of "image pi_key"]
  by (simp add: rateItem_keys)

lemma badClass_keys:
  assumes "\<forall>c\<in>set (reported (ss_connections_bad_by_class su)). 0 \<le> cc_total c"
  shows "pi_key ` set (badClassProblems b su s) =
    (if \<exists>c\<in>set (reported (ss_connections_bad_by_class su)). isTlsProbeClass (cc_class c) \<and>
        grew (byClassTotal (ss_connections_bad_by_class b) (cc_class c)) (cc_total c) then {''tls_probe_anomaly''} else {}) \<union>
    {''connections_bad_'' @ cc_class c | c. c \<in> set (reported (ss_connections_bad_by_class su)) \<and> \<not> isTlsProbeClass (cc_class c) \<and>
       grew (byClassTotal (ss_connections_bad_by_class b) (cc_class c)) (cc_total c)}"
proof -
  let ?t = "filter (\<lambda>c. isTlsProbeClass (cc_class c)) (classList (ss_connections_bad_by_class su))"
  have "0 < tlsDelta (ss_connections_bad_by_class b) ?t \<longleftrightarrow>
      (\<exists>c\<in>set ?t. grew (byClassTotal (ss_connections_bad_by_class b) (cc_class c)) (cc_total c))"
    using assms by (intro tlsDelta_pos) simp
  then show ?thesis
    unfolding badClassProblems_def Let_def set_append image_Un classItem_keys by auto
qed

lemmas state_rule_defs = readinessProblems_def middleProxyProblems_def splitTrafficProblems_def staleProblems_def
  capabilityProblems_def coverageItem_def

text \<open>The keys of the rules on the present state.\<close>

lemma state_keys:
  assumes "i \<in> set (readinessProblems stats s) \<union> set (middleProxyProblems dcs s) \<union> set (splitTrafficProblems stats dcs s) \<union>
    set (staleProblems st s) \<union> set (capabilityProblems caps s)"
  shows "pi_key i \<in> {''not_ready'', ''read_only'', ''me_direct_fallback'', ''me_split_traffic''} \<or>
    startsWith (pi_key i) ''me_coverage_low_'' \<or> startsWith (pi_key i) ''stale_'' \<or> startsWith (pi_key i) ''cap_''"
  using assms by (auto simp: state_rule_defs startsWith_def Let_def split: option.splits if_splits)

definition counterKey :: "string \<Rightarrow> bool" where
  "counterKey k \<longleftrightarrow> startsWith k ''handshake_'' \<or> startsWith k ''connections_bad'' \<or> k = ''tls_probe_anomaly''"

lemma state_not_counter:
  assumes "i \<in> set (readinessProblems stats s) \<union> set (middleProxyProblems dcs s) \<union> set (splitTrafficProblems stats dcs s) \<union>
    set (staleProblems st s) \<union> set (capabilityProblems caps s)"
  shows "\<not> counterKey (pi_key i)"
proof -
  have "startsWith k ''cap_'' \<Longrightarrow> \<not> startsWith k ''connections_bad''" for k
    by (auto simp: startsWith_prefix prefix_def)
  with state_keys [OF assms] show ?thesis
    by (auto simp: counterKey_def startsWith_prefix prefix_def)
qed

lemma counter_items:
  "{i \<in> set (computeProblems stats st caps dcs s bl). counterKey (pi_key i)} =
   {i \<in> set (counterProblems stats bl s). counterKey (pi_key i)}"
proof -
  have "i \<in> set (computeProblems stats st caps dcs s bl) \<and> counterKey (pi_key i) \<longleftrightarrow>
      i \<in> set (counterProblems stats bl s) \<and> counterKey (pi_key i)" for i
    using state_not_counter [of i stats s dcs st caps] by (auto simp: computeProblems_def)
  then show ?thesis by blast
qed

lemma counterProblems_counterKey:
  assumes "i \<in> set (counterProblems stats bl s)"
  shows "counterKey (pi_key i)"
proof -
  have pre: "counterKey (''handshake_'' @ k)" "counterKey (''connections_bad_'' @ k)" for k
    by (simp_all add: counterKey_def startsWith_def)
  have tls: "counterKey ''tls_probe_anomaly''" by (simp add: counterKey_def)
  have cls: "pi_key j \<in> range (append pre)" if "j \<in> set (List.map_filter (classItem pre l base s) cs)" for j pre l base cs
    using that classItem_keys [of pre l base s cs] by blast
  obtain su b where "i \<in> set (handshakeProblems b su s) \<or> i \<in> set (badClassProblems b su s)"
    using assms by (auto simp: counterProblems_def split: option.splits)
  then show ?thesis
  proof
    assume "i \<in> set (handshakeProblems b su s)"
    then have "pi_key i \<in> pi_key ` set (handshakeProblems b su s)" by simp
    then show ?thesis
      unfolding handshake_keys using pre(1) [of "''timeouts_total''"] pre(2) [of "''total''"] pre
      by (auto split: if_splits)
  next
    assume "i \<in> set (badClassProblems b su s)"
    then show ?thesis
      using pre tls by (auto simp: badClassProblems_def Let_def dest!: cls split: if_splits)
  qed
qed

text \<open>C38: a cumulative counter appears in the problem list exactly when it grew inside the window, or
  restarted from zero and moved again: every failure class by itself, the timeouts only where no
  failure classes are reported, the probe classes folded into one item. Without both readings no
  counter is reported, whatever its lifetime value.
\<close>

theorem problems_report_growth:
  fixes stats bl :: "statsSnapshot option" and su b :: statsSummary and st :: "staleTopicInput list" and caps :: "string list"
    and dcs :: "dcStatusData option" and s :: dict
  defines "keys \<equiv> {pi_key i | i. i \<in> set (computeProblems stats st caps dcs s bl) \<and> counterKey (pi_key i)}"
  assumes nonneg: "\<forall>c\<in>set (reported (ss_connections_bad_by_class su)). 0 \<le> cc_total c"
  shows "(Option.bind stats ssn_summary = None \<or> Option.bind bl ssn_summary = None \<longrightarrow> keys = {}) \<and>
    (Option.bind stats ssn_summary = Some su \<and> Option.bind bl ssn_summary = Some b \<longrightarrow>
      keys =
      {''handshake_'' @ cc_class c | c. c \<in> set (reported (ss_handshake_failures_by_class su)) \<and>
         grew (byClassTotal (ss_handshake_failures_by_class b) (cc_class c)) (cc_total c)} \<union>
      (if grew (ss_connections_bad_total b) (ss_connections_bad_total su) then {''connections_bad_total''} else {}) \<union>
      (if reported (ss_handshake_failures_by_class su) = [] \<and> grew (ss_handshake_timeouts_total b) (ss_handshake_timeouts_total su)
       then {''handshake_timeouts_total''} else {}) \<union>
      (if \<exists>c\<in>set (reported (ss_connections_bad_by_class su)). isTlsProbeClass (cc_class c) \<and>
          grew (byClassTotal (ss_connections_bad_by_class b) (cc_class c)) (cc_total c) then {''tls_probe_anomaly''} else {}) \<union>
      {''connections_bad_'' @ cc_class c | c. c \<in> set (reported (ss_connections_bad_by_class su)) \<and> \<not> isTlsProbeClass (cc_class c) \<and>
         grew (byClassTotal (ss_connections_bad_by_class b) (cc_class c)) (cc_total c)})"
proof -
  have keys: "keys = {k \<in> pi_key ` set (counterProblems stats bl s). counterKey k}"
    unfolding keys_def using counter_items [of stats st caps dcs s bl] by blast
  show ?thesis
  proof (intro conjI impI, goal_cases)
    case 1
    then show ?case by (auto simp: keys counterProblems_def split: option.splits)
  next
    case 2
    have ks: "pi_key ` set (counterProblems stats bl s) = pi_key ` set (handshakeProblems b su s) \<union> pi_key ` set (badClassProblems b su s)"
      using 2 by (simp add: counterProblems_def image_Un)
    have "keys = pi_key ` set (counterProblems stats bl s)" unfolding keys using counterProblems_counterKey by blast
    then show ?case unfolding ks handshake_keys badClass_keys [OF nonneg] by (simp only: Un_assoc)
  qed
qed

theorem problems_report_growth_witness:
  "{pi_key i | i. i \<in> set (computeProblems
      (Some \<lparr>ssn_health = None, ssn_summary = Some \<lparr>ss_uptime_seconds = 9, ss_connections_total = 9, ss_connections_bad_total = 7,
          ss_handshake_timeouts_total = 5, ss_configured_users = 1,
          ss_connections_bad_by_class = Some [\<lparr>cc_class = ''tls_handshake_bad_client'', cc_total = 4\<rparr>, \<lparr>cc_class = ''other'', cc_total = 3\<rparr>],
          ss_handshake_failures_by_class = Some [\<lparr>cc_class = ''unexpected_eof'', cc_total = 37086\<rparr>]\<rparr>,
        ssn_ready = None, ssn_connections_summary = None, ssn_version = None, ssn_uptime_seconds = None,
        ssn_config_reload_count = None, ssn_last_config_reload_epoch_secs = None\<rparr>) [] [] None
      \<lparr>di_locale = En, di_text = id, di_number = num_str, di_errors = \<lambda>_. None\<rparr>
      (Some \<lparr>ssn_health = None, ssn_summary = Some \<lparr>ss_uptime_seconds = 2, ss_connections_total = 9, ss_connections_bad_total = 7,
          ss_handshake_timeouts_total = 4, ss_configured_users = 1,
          ss_connections_bad_by_class = Some [\<lparr>cc_class = ''tls_handshake_bad_client'', cc_total = 1\<rparr>, \<lparr>cc_class = ''other'', cc_total = 3\<rparr>],
          ss_handshake_failures_by_class = Some [\<lparr>cc_class = ''unexpected_eof'', cc_total = 37086\<rparr>]\<rparr>,
        ssn_ready = None, ssn_connections_summary = None, ssn_version = None, ssn_uptime_seconds = None,
        ssn_config_reload_count = None, ssn_last_config_reload_epoch_secs = None\<rparr>)) \<and> counterKey (pi_key i)} = {''tls_probe_anomaly''}"
proof -
  define su b :: statsSummary where
    "su = \<lparr>ss_uptime_seconds = 9, ss_connections_total = 9, ss_connections_bad_total = 7,
          ss_handshake_timeouts_total = 5, ss_configured_users = 1,
          ss_connections_bad_by_class = Some [\<lparr>cc_class = ''tls_handshake_bad_client'', cc_total = 4\<rparr>, \<lparr>cc_class = ''other'', cc_total = 3\<rparr>],
          ss_handshake_failures_by_class = Some [\<lparr>cc_class = ''unexpected_eof'', cc_total = 37086\<rparr>]\<rparr>"
    and "b = \<lparr>ss_uptime_seconds = 2, ss_connections_total = 9, ss_connections_bad_total = 7,
          ss_handshake_timeouts_total = 4, ss_configured_users = 1,
          ss_connections_bad_by_class = Some [\<lparr>cc_class = ''tls_handshake_bad_client'', cc_total = 1\<rparr>, \<lparr>cc_class = ''other'', cc_total = 3\<rparr>],
          ss_handshake_failures_by_class = Some [\<lparr>cc_class = ''unexpected_eof'', cc_total = 37086\<rparr>]\<rparr>"
  define snap where "snap x = Some \<lparr>ssn_health = None, ssn_summary = Some x, ssn_ready = None, ssn_connections_summary = None,
        ssn_version = None, ssn_uptime_seconds = None, ssn_config_reload_count = None, ssn_last_config_reload_epoch_secs = None\<rparr>"
    for x :: statsSummary
  let ?d = "\<lparr>di_locale = En, di_text = id, di_number = num_str, di_errors = \<lambda>_. None\<rparr>"
  have nn: "\<forall>c\<in>set (reported (ss_connections_bad_by_class su)). 0 \<le> cc_total c"
    by (simp add: su_def reported_def)
  have lists: "reported (ss_handshake_failures_by_class su) = [\<lparr>cc_class = ''unexpected_eof'', cc_total = 37086\<rparr>]"
    "reported (ss_connections_bad_by_class su) = [\<lparr>cc_class = ''tls_handshake_bad_client'', cc_total = 4\<rparr>, \<lparr>cc_class = ''other'', cc_total = 3\<rparr>]"
    by (simp_all add: su_def reported_def)
  have cls: "isTlsProbeClass ''tls_handshake_bad_client''" "\<not> isTlsProbeClass ''other''"
    by (simp_all add: isTlsProbeClass_def startsWith_def)
  have moved: "\<not> grew (byClassTotal (ss_handshake_failures_by_class b) ''unexpected_eof'') 37086"
    "grew (byClassTotal (ss_connections_bad_by_class b) ''tls_handshake_bad_client'') 4"
    "\<not> grew (byClassTotal (ss_connections_bad_by_class b) ''other'') 3"
    "\<not> grew (ss_connections_bad_total b) (ss_connections_bad_total su)"
    by (simp_all add: su_def b_def byClassTotal_def grew_def)
  have both: "Option.bind (snap su) ssn_summary = Some su \<and> Option.bind (snap b) ssn_summary = Some b" by (simp add: snap_def)
  have "{pi_key i | i. i \<in> set (computeProblems (snap su) [] [] None ?d (snap b)) \<and> counterKey (pi_key i)} = {''tls_probe_anomaly''}"
    by (rule trans [OF problems_report_growth [of su "snap su" "snap b" "[]" "[]" None ?d b, OF nn, THEN conjunct2, THEN mp, OF both]])
      (use cls moved in \<open>auto simp: lists\<close>)
  then show ?thesis by (simp add: snap_def su_def b_def)
qed

lemma readiness_error:
  "(\<exists>i\<in>set (readinessProblems stats s). problemSeverity (pi_key i) = SevError) \<longleftrightarrow>
   (\<exists>r. Option.bind stats ssn_ready = Some r \<and> \<not> sr_ready r)"
  by (cases "Option.bind stats ssn_ready")
    (auto simp: readinessProblems_def problemSeverity_def startsWith_def simp del: bind_eq_None_conv split: option.splits)

lemma middleProxy_error:
  "(\<exists>i\<in>set (middleProxyProblems dcs s). problemSeverity (pi_key i) = SevError) \<longleftrightarrow> fullFallback dcs"
  by (auto simp: middleProxyProblems_def coverageItem_def problemSeverity_def startsWith_def)

lemma other_rules:
  assumes "i \<in> set (splitTrafficProblems stats dcs s) \<union> set (staleProblems st s) \<union> set (counterProblems stats bl s) \<union>
    set (capabilityProblems caps s)"
  shows "problemSeverity (pi_key i) \<noteq> SevError \<and> \<not> startsWith (pi_key i) ''me_coverage_low'' \<and>
    pi_key i \<noteq> ''me_direct_fallback'' \<and> \<not> startsWith (pi_key i) ''me_runtime_''"
proof -
  consider "pi_key i = ''me_split_traffic''" | "startsWith (pi_key i) ''stale_''" | "startsWith (pi_key i) ''cap_''" | "counterKey (pi_key i)"
    using assms counterProblems_counterKey [of i stats bl s]
    by (auto simp: splitTrafficProblems_def staleProblems_def capabilityProblems_def startsWith_def Let_def split: option.splits if_splits)
  then show ?thesis
    by cases (auto simp: counterKey_def problemSeverity_def startsWith_prefix prefix_def)
qed

lemma middleProxy_rows:
  "filter (\<lambda>i. startsWith (pi_key i) ''me_coverage_low'') (middleProxyProblems dcs s) =
     (if fullFallback dcs then [] else map (coverageItem s) (sortBy coverageCompare (filter coverageLow (dcList dcs)))) \<and>
   length (filter (\<lambda>i. pi_key i = ''me_direct_fallback'') (middleProxyProblems dcs s)) \<le> 1 \<and>
   (\<forall>i\<in>set (middleProxyProblems dcs s). \<not> startsWith (pi_key i) ''me_runtime_'')"
proof -
  have "startsWith (pi_key (coverageItem s d)) ''me_coverage_low''" "pi_key (coverageItem s d) \<noteq> ''me_direct_fallback''"
    "\<not> startsWith (pi_key (coverageItem s d)) ''me_runtime_''" for d
    by (simp_all add: coverageItem_def startsWith_def)
  then show ?thesis
    by (auto simp: middleProxyProblems_def filter_map o_def startsWith_def [of "''me_direct_fallback''"] sortBy_def)
qed

text \<open>Adding the reason of the card to a list with at most one fallback row and no reason of its own.\<close>

lemma addMe_once:
  assumes rt: "\<And>i. i \<in> set items \<Longrightarrow> \<not> startsWith (pi_key i) ''me_runtime_''"
    and one: "length (filter (\<lambda>i. pi_key i = ''me_direct_fallback'') items) \<le> 1"
  shows "(addMeRuntimeProblem items reason s = items \<or> (\<exists>i. addMeRuntimeProblem items reason s = i # items)) \<and>
    length (filter (\<lambda>i. pi_key i \<in> {''me_direct_fallback'', ''me_runtime_fallback''}) (addMeRuntimeProblem items reason s)) \<le> 1 \<and>
    \<not> (list_ex (\<lambda>i. pi_key i = ''me_runtime_coverage'') (addMeRuntimeProblem items reason s) \<and>
       list_ex (\<lambda>i. startsWith (pi_key i) ''me_coverage_low'') (addMeRuntimeProblem items reason s))"
proof -
  have no: "pi_key i \<noteq> ''me_runtime_fallback'' \<and> pi_key i \<noteq> ''me_runtime_coverage''" if "i \<in> set items" for i
    using rt [OF that] by (auto simp: startsWith_def)
  then have fb: "filter (\<lambda>i. pi_key i \<in> {''me_direct_fallback'', ''me_runtime_fallback''}) items =
      filter (\<lambda>i. pi_key i = ''me_direct_fallback'') items"
    by (auto intro: filter_cong)
  show ?thesis
  proof (cases "addMeRuntimeProblem items reason s = items")
    case True
    with one fb no show ?thesis by (auto simp: list_ex_iff)
  next
    case False
    then obtain r i where r: "reason = Some r" and out: "addMeRuntimeProblem items reason s = i # items"
      and k: "pi_key i = ''me_runtime_'' @ reasonKind r"
      and el: "reasonKind r = ''fallback'' \<longrightarrow> (\<forall>i\<in>set items. pi_key i \<noteq> ''me_direct_fallback'')"
        "reasonKind r = ''coverage'' \<longrightarrow> (\<forall>i\<in>set items. \<not> startsWith (pi_key i) ''me_coverage_low'')"
      by (auto simp: addMeRuntimeProblem_def Let_def list_ex_iff split: option.splits if_splits)
    have "reasonKind r = ''fallback'' \<Longrightarrow> filter (\<lambda>i. pi_key i = ''me_direct_fallback'') items = []"
      using el(1) by (simp add: filter_empty_conv)
    moreover have "\<not> startsWith (pi_key i) ''me_coverage_low''" using k by (auto simp: startsWith_def)
    ultimately show ?thesis using out one fb no k el(2) by (auto simp: list_ex_iff)
  qed
qed

text \<open>The rules on the present state name the worst fact once. An error is shown exactly when Telemt is
  not ready or no data center has a live writer; the coverage rows are the data centers below their
  floor, worst first, and give way to the total fallback; and the reason of the middle-proxy card is
  added in front, unless the list already has a row for the same incident.
\<close>

theorem problems_name_the_worst_once:
  fixes stats bl :: "statsSnapshot option" and st :: "staleTopicInput list" and caps :: "string list"
    and dcs :: "dcStatusData option" and s :: dict and reason :: "meReason option"
  defines "items \<equiv> computeProblems stats st caps dcs s bl"
    and "low \<equiv> sortBy coverageCompare (filter coverageLow (dcList dcs))"
  defines "out \<equiv> addMeRuntimeProblem items reason s"
  shows "((\<exists>i. i \<in> set items \<and> problemSeverity (pi_key i) = SevError) \<longleftrightarrow>
      (\<exists>r. Option.bind stats ssn_ready = Some r \<and> \<not> sr_ready r) \<or> fullFallback dcs) \<and>
    filter (\<lambda>i. startsWith (pi_key i) ''me_coverage_low'') items = (if fullFallback dcs then [] else map (coverageItem s) low) \<and>
    sorted_wrt (\<lambda>a b. ds_coverage_pct a \<le> ds_coverage_pct b) low \<and>
    (out = items \<or> (\<exists>i. out = i # items)) \<and>
    length (filter (\<lambda>i. pi_key i \<in> {''me_direct_fallback'', ''me_runtime_fallback''}) out) \<le> 1 \<and>
    \<not> (list_ex (\<lambda>i. pi_key i = ''me_runtime_coverage'') out \<and> list_ex (\<lambda>i. startsWith (pi_key i) ''me_coverage_low'') out)"
proof -
  let ?cov = "\<lambda>i. startsWith (pi_key i) ''me_coverage_low''"
  let ?rest = "splitTrafficProblems stats dcs s @ staleProblems st s @ counterProblems stats bl s @ capabilityProblems caps s"
  have items: "items = readinessProblems stats s @ middleProxyProblems dcs s @ ?rest"
    by (simp add: items_def computeProblems_def)
  have rest: "problemSeverity (pi_key i) \<noteq> SevError \<and> \<not> ?cov i \<and> pi_key i \<noteq> ''me_direct_fallback'' \<and> \<not> startsWith (pi_key i) ''me_runtime_''"
    if "i \<in> set ?rest" for i
    using that other_rules [of i stats dcs s st bl caps] by auto
  have ready: "\<not> ?cov i \<and> pi_key i \<noteq> ''me_direct_fallback'' \<and> \<not> startsWith (pi_key i) ''me_runtime_''"
    if "i \<in> set (readinessProblems stats s)" for i
    using that by (auto simp: readinessProblems_def startsWith_def split: option.splits if_splits)
  have err: "(\<exists>i. i \<in> set items \<and> problemSeverity (pi_key i) = SevError) \<longleftrightarrow>
      (\<exists>r. Option.bind stats ssn_ready = Some r \<and> \<not> sr_ready r) \<or> fullFallback dcs"
    using rest readiness_error [of stats s] middleProxy_error [of dcs s] unfolding items set_append by blast
  have cov: "filter ?cov items = filter ?cov (middleProxyProblems dcs s)"
    and fb: "filter (\<lambda>i. pi_key i = ''me_direct_fallback'') items = filter (\<lambda>i. pi_key i = ''me_direct_fallback'') (middleProxyProblems dcs s)"
    unfolding items filter_append using rest ready by (simp_all add: filter_empty_conv)
  have rt: "\<not> startsWith (pi_key i) ''me_runtime_''" if "i \<in> set items" for i
    using that rest ready middleProxy_rows [of dcs s] unfolding items by auto
  have rows: "filter ?cov items = (if fullFallback dcs then [] else map (coverageItem s) low)"
    and one: "length (filter (\<lambda>i. pi_key i = ''me_direct_fallback'') items) \<le> 1"
    unfolding cov fb low_def using middleProxy_rows [of dcs s] by blast+
  have "sorted_wrt (\<lambda>a b. ds_coverage_pct a \<le> ds_coverage_pct b) low"
    using byCoverage.sorted [of "filter coverageLow (dcList dcs)"] by (simp add: low_def coverageCompare_def)
  with err rows addMe_once [OF rt one] show ?thesis unfolding out_def by blast
qed

end
