(* ===== verification/User_Edit.thy ===== *)
theory User_Edit
  imports User_Props Api_Error
begin

text \<open>
  The create and edit form of a user, \<open>web/src/people/UserFormSheet.tsx\<close>: its state, the two ways it starts,
  every control's update, the request it submits and the session around a save. The user the form
  reads is the part that the topic's users and the API's answers share. Random secrets and the
  browser's validation of the two rate inputs are inputs of the events.
\<close>

subsection \<open>The form's state\<close>

record formUser =
  fu_username :: string
  fu_enabled :: bool
  fu_user_ad_tag :: "string option"
  fu_max_tcp_conns :: "number option"
  fu_max_unique_ips :: "number option"
  fu_data_quota_bytes :: "number option"
  fu_expiration_rfc3339 :: "string option"
  fu_rate_limit_up_bps :: "number option"
  fu_rate_limit_down_bps :: "number option"

definition formUserOf :: "usersTopicUser \<Rightarrow> formUser" where
  "formUserOf u = \<lparr>fu_username = utu_username u, fu_enabled = utu_enabled u, fu_user_ad_tag = utu_user_ad_tag u,
     fu_max_tcp_conns = utu_max_tcp_conns u, fu_max_unique_ips = utu_max_unique_ips u, fu_data_quota_bytes = utu_data_quota_bytes u,
     fu_expiration_rfc3339 = utu_expiration_rfc3339 u, fu_rate_limit_up_bps = utu_rate_limit_up_bps u,
     fu_rate_limit_down_bps = utu_rate_limit_down_bps u\<rparr>"

datatype fieldMode = FClear | FSet

record 'a fieldState =
  fs_mode :: fieldMode
  fs_value :: 'a

definition field :: "'a \<Rightarrow> fieldMode \<Rightarrow> 'a fieldState" where
  "field v md = \<lparr>fs_mode = md, fs_value = v\<rparr>"

record formState =
  fm_username :: string
  fm_secret :: string
  fm_enabled :: bool
  fm_userAdTag :: "string fieldState"
  fm_maxTcpConns :: "number fieldState"
  fm_maxUniqueIps :: "number fieldState"
  fm_quotaAmount :: "number fieldState"
  fm_quotaUnit :: quotaUnit
  fm_quotaEdited :: bool
  fm_expiration :: "string fieldState"
  fm_rateLimitUpBps :: "number fieldState"
  fm_rateLimitDownBps :: "number fieldState"

definition initialCreateState :: "string \<Rightarrow> formState" where
  "initialCreateState secret = \<lparr>fm_username = [], fm_secret = secret, fm_enabled = True, fm_userAdTag = field [] FClear,
     fm_maxTcpConns = field 4 FClear, fm_maxUniqueIps = field 2 FClear, fm_quotaAmount = field 10 FClear, fm_quotaUnit = GB,
     fm_quotaEdited = True, fm_expiration = field [] FClear, fm_rateLimitUpBps = field 0 FClear, fm_rateLimitDownBps = field 0 FClear\<rparr>"

text \<open>Truthiness of an optional number and string.\<close>

definition numSet :: "number option \<Rightarrow> fieldMode" where
  "numSet v = (case v of Some n \<Rightarrow> if n = 0 then FClear else FSet | None \<Rightarrow> FClear)"

definition strSet :: "string option \<Rightarrow> fieldMode" where
  "strSet v = (case v of Some t \<Rightarrow> if t = [] then FClear else FSet | None \<Rightarrow> FClear)"

definition numOr :: "number option \<Rightarrow> number \<Rightarrow> number" where
  "numOr v d = (case v of Some n \<Rightarrow> if n = 0 then d else n | None \<Rightarrow> d)"

definition strVal :: "string option \<Rightarrow> string" where
  "strVal v = (case v of Some t \<Rightarrow> t | None \<Rightarrow> [])"

definition numVal :: "number option \<Rightarrow> number" where
  "numVal v = (case v of Some n \<Rightarrow> n | None \<Rightarrow> 0)"

definition initialEditState :: "formUser \<Rightarrow> formState" where
  "initialEditState user =
    (let quota = bytesToQuotaDisplay (numVal (fu_data_quota_bytes user))
     in \<lparr>fm_username = fu_username user, fm_secret = [], fm_enabled = fu_enabled user,
         fm_userAdTag = field (strVal (fu_user_ad_tag user)) (strSet (fu_user_ad_tag user)),
         fm_maxTcpConns = field (numOr (fu_max_tcp_conns user) 4) (numSet (fu_max_tcp_conns user)),
         fm_maxUniqueIps = field (numOr (fu_max_unique_ips user) 2) (numSet (fu_max_unique_ips user)),
         fm_quotaAmount = field (fst quota) (numSet (fu_data_quota_bytes user)),
         fm_quotaUnit = (if numSet (fu_data_quota_bytes user) = FSet then snd quota else GB),
         fm_quotaEdited = False,
         fm_expiration = field (strVal (fu_expiration_rfc3339 user)) (strSet (fu_expiration_rfc3339 user)),
         fm_rateLimitUpBps = field (numVal (fu_rate_limit_up_bps user)) (numSet (fu_rate_limit_up_bps user)),
         fm_rateLimitDownBps = field (numVal (fu_rate_limit_down_bps user)) (numSet (fu_rate_limit_down_bps user))\<rparr>)"

text \<open>Comparing by \<open>JSON.stringify\<close> is comparing the values.\<close>

definition keepChanged :: "'a \<Rightarrow> 'a \<Rightarrow> 'a \<Rightarrow> 'a" where
  "keepChanged submitted draft confirmed = (if draft \<noteq> submitted then draft else confirmed)"

definition quotaOf :: "formState \<Rightarrow> number fieldState \<times> quotaUnit \<times> bool" where
  "quotaOf st = (fm_quotaAmount st, fm_quotaUnit st, fm_quotaEdited st)"

definition rebaseUserForm :: "formState \<Rightarrow> formState \<Rightarrow> formState \<Rightarrow> formState" where
  "rebaseUserForm submitted draft confirmed =
    (let q = keepChanged (quotaOf submitted) (quotaOf draft) (quotaOf confirmed)
     in \<lparr>fm_username = keepChanged (fm_username submitted) (fm_username draft) (fm_username confirmed),
         fm_secret = keepChanged (fm_secret submitted) (fm_secret draft) (fm_secret confirmed),
         fm_enabled = keepChanged (fm_enabled submitted) (fm_enabled draft) (fm_enabled confirmed),
         fm_userAdTag = keepChanged (fm_userAdTag submitted) (fm_userAdTag draft) (fm_userAdTag confirmed),
         fm_maxTcpConns = keepChanged (fm_maxTcpConns submitted) (fm_maxTcpConns draft) (fm_maxTcpConns confirmed),
         fm_maxUniqueIps = keepChanged (fm_maxUniqueIps submitted) (fm_maxUniqueIps draft) (fm_maxUniqueIps confirmed),
         fm_quotaAmount = fst q, fm_quotaUnit = fst (snd q), fm_quotaEdited = snd (snd q),
         fm_expiration = keepChanged (fm_expiration submitted) (fm_expiration draft) (fm_expiration confirmed),
         fm_rateLimitUpBps = keepChanged (fm_rateLimitUpBps submitted) (fm_rateLimitUpBps draft) (fm_rateLimitUpBps confirmed),
         fm_rateLimitDownBps = keepChanged (fm_rateLimitDownBps submitted) (fm_rateLimitDownBps draft) (fm_rateLimitDownBps confirmed)\<rparr>)"

subsection \<open>The controls\<close>

text \<open>An empty input clears a field and keeps its value; anything else sets it. The numbers are what
  \<open>Number(value)\<close> reads.\<close>

definition inputField :: "'a fieldState \<Rightarrow> 'a option \<Rightarrow> 'a fieldState" where
  "inputField f v = (case v of None \<Rightarrow> f\<lparr>fs_mode := FClear\<rparr> | Some x \<Rightarrow> field x FSet)"

datatype createPreset = PresetUnlimited | PresetPersonal | PresetTemporary

datatype formEdit =
    EdUsername string
  | EdEnabled bool
  | EdQuota "number option"
  | EdQuotaUnit quotaUnit
  | EdExpiration string
  | EdMaxIps "number option"
  | EdMaxConns "number option"
  | EdRateUp "number option"
  | EdRateDown "number option"
  | EdAdTag string
  | EdPreset createPreset number

definition applyCreatePreset :: "createPreset \<Rightarrow> number \<Rightarrow> formState \<Rightarrow> formState" where
  "applyCreatePreset preset now st =
    (if preset = PresetUnlimited
     then st\<lparr>fm_maxTcpConns := (fm_maxTcpConns st)\<lparr>fs_mode := FClear\<rparr>, fm_maxUniqueIps := (fm_maxUniqueIps st)\<lparr>fs_mode := FClear\<rparr>,
             fm_quotaAmount := (fm_quotaAmount st)\<lparr>fs_mode := FClear\<rparr>, fm_quotaEdited := True,
             fm_expiration := (fm_expiration st)\<lparr>fs_mode := FClear\<rparr>\<rparr>
     else let temporary = (preset = PresetTemporary)
          in st\<lparr>fm_maxTcpConns := field (if temporary then 12 else 50) FSet, fm_maxUniqueIps := field (if temporary then 1 else 3) FSet,
                fm_quotaAmount := field (if temporary then 50 else 500) FSet, fm_quotaUnit := GB, fm_quotaEdited := True,
                fm_expiration := (if temporary then field (strVal (presetToExpiration Preset7d now)) FSet
                  else (fm_expiration st)\<lparr>fs_mode := FClear\<rparr>)\<rparr>)"

fun applyEdit :: "formEdit \<Rightarrow> formState \<Rightarrow> formState" where
  "applyEdit (EdUsername v) st = st\<lparr>fm_username := v\<rparr>"
| "applyEdit (EdEnabled v) st = st\<lparr>fm_enabled := v\<rparr>"
| "applyEdit (EdQuota v) st = st\<lparr>fm_quotaAmount := inputField (fm_quotaAmount st) v, fm_quotaEdited := True\<rparr>"
| "applyEdit (EdQuotaUnit v) st = st\<lparr>fm_quotaUnit := v, fm_quotaEdited := True\<rparr>"
| "applyEdit (EdExpiration v) st = st\<lparr>fm_expiration := inputField (fm_expiration st) (expirationDateToISO v)\<rparr>"
| "applyEdit (EdMaxIps v) st = st\<lparr>fm_maxUniqueIps := inputField (fm_maxUniqueIps st) v\<rparr>"
| "applyEdit (EdMaxConns v) st = st\<lparr>fm_maxTcpConns := inputField (fm_maxTcpConns st) v\<rparr>"
| "applyEdit (EdRateUp v) st = st\<lparr>fm_rateLimitUpBps := inputField (fm_rateLimitUpBps st) (map_option (\<lambda>n. n * 1000000) v)\<rparr>"
| "applyEdit (EdRateDown v) st = st\<lparr>fm_rateLimitDownBps := inputField (fm_rateLimitDownBps st) (map_option (\<lambda>n. n * 1000000) v)\<rparr>"
| "applyEdit (EdAdTag v) st = st\<lparr>fm_userAdTag := inputField (fm_userAdTag st) (if v = [] then None else Some v)\<rparr>"
| "applyEdit (EdPreset p now) st = applyCreatePreset p now st"

subsection \<open>The requests\<close>

definition setValue :: "'a fieldState \<Rightarrow> 'a option" where
  "setValue f = (if fs_mode f = FSet then Some (fs_value f) else None)"

definition changedLimit :: "'a fieldState \<Rightarrow> 'a option \<Rightarrow> 'a limitFieldState" where
  "changedLimit f original = diffLimitField (setValue f) original"

definition strOrUndef :: "string option \<Rightarrow> string option" where
  "strOrUndef v = (if strSet v = FSet then v else None)"

definition numOrUndef :: "number option \<Rightarrow> number option" where
  "numOrUndef v = (if numSet v = FSet then v else None)"

definition baseNum :: "(formUser \<Rightarrow> number option) \<Rightarrow> formUser option \<Rightarrow> number option" where
  "baseNum sel base = (case base of None \<Rightarrow> None | Some u \<Rightarrow> numOrUndef (sel u))"

definition baseStr :: "(formUser \<Rightarrow> string option) \<Rightarrow> formUser option \<Rightarrow> string option" where
  "baseStr sel base = (case base of None \<Rightarrow> None | Some u \<Rightarrow> strOrUndef (sel u))"

definition quotaBytesField :: "bool \<Rightarrow> formUser option \<Rightarrow> formState \<Rightarrow> number fieldState" where
  "quotaBytesField editMode base st =
    \<lparr>fs_mode = fs_mode (fm_quotaAmount st),
     fs_value = quotaBytesForFormSubmit (fs_value (fm_quotaAmount st)) (fm_quotaUnit st)
       (if editMode then Option.bind base fu_data_quota_bytes else None) (fm_quotaEdited st)\<rparr>"

definition createBody :: "formState \<Rightarrow> (string \<times> json) list" where
  "createBody st = buildUserCreateBody
     \<lparr>cr_username = fm_username st, cr_secret = fm_secret st, cr_enabled = fm_enabled st, cr_userAdTag = setValue (fm_userAdTag st),
      cr_maxTcpConns = setValue (fm_maxTcpConns st), cr_maxUniqueIps = setValue (fm_maxUniqueIps st),
      cr_dataQuotaBytes = setValue (quotaBytesField False None st), cr_expirationRfc3339 = setValue (fm_expiration st),
      cr_rateLimitUpBps = setValue (fm_rateLimitUpBps st), cr_rateLimitDownBps = setValue (fm_rateLimitDownBps st)\<rparr>"

definition patchForm :: "formUser option \<Rightarrow> formState \<Rightarrow> userPatchFormState" where
  "patchForm base st =
    \<lparr>pf_enabled = (if map_option fu_enabled base \<noteq> Some (fm_enabled st) then Some (fm_enabled st) else None),
     pf_userAdTag = changedLimit (fm_userAdTag st) (baseStr fu_user_ad_tag base),
     pf_maxTcpConns = changedLimit (fm_maxTcpConns st) (baseNum fu_max_tcp_conns base),
     pf_maxUniqueIps = changedLimit (fm_maxUniqueIps st) (baseNum fu_max_unique_ips base),
     pf_dataQuotaBytes = changedLimit (quotaBytesField True base st) (baseNum fu_data_quota_bytes base),
     pf_expirationRfc3339 = changedLimit (fm_expiration st) (baseStr fu_expiration_rfc3339 base),
     pf_rateLimitUpBps = changedLimit (fm_rateLimitUpBps st) (baseNum fu_rate_limit_up_bps base),
     pf_rateLimitDownBps = changedLimit (fm_rateLimitDownBps st) (baseNum fu_rate_limit_down_bps base)\<rparr>"

definition patchBody :: "formUser option \<Rightarrow> formState \<Rightarrow> (string \<times> json) list" where
  "patchBody base st = buildUserPatch (patchForm base st)"

subsection \<open>The session\<close>

datatype formKind = CreateForm | EditForm

record formProps =
  pr_open :: bool
  pr_mode :: formKind
  pr_user :: "formUser option"
  pr_disabled :: bool

text \<open>The toasts of the form; the text of an error is that of its answer.\<close>

datatype formNotice = NCreated | NUpdated | NUpdatedWithDraft | NError json

text \<open>\<open>us_closes\<close>, \<open>us_saved\<close> and \<open>us_refreshes\<close> record the calls of \<open>onClose\<close>, \<open>onSaved\<close> and
  \<open>refreshUsersAfterMutation\<close>.\<close>

record userFormSession =
  us_props :: formProps
  us_state :: formState
  us_baseline :: formState
  us_baseUser :: "formUser option"
  us_lastOpenKey :: "string option"
  us_generation :: nat
  us_savingSessionKey :: "string option"
  us_current :: "string \<times> formState"
  us_requestSequence :: nat
  us_activeSave :: "nat option"
  us_patches :: "(formState submittedDraft \<times> (string \<times> json) list) list"
  us_creates :: "(string \<times> json) list list"
  us_createdSecret :: "string option"
  us_usernameTouched :: bool
  us_activePreset :: "createPreset option"
  us_closes :: nat
  us_notices :: "formNotice list"
  us_saved :: "string list"
  us_refreshes :: nat

definition openKey :: "formProps \<Rightarrow> string option" where
  "openKey p =
    (if pr_open p
     then Some (if pr_mode p = EditForm then ''edit:'' @ (case pr_user p of Some u \<Rightarrow> fu_username u | None \<Rightarrow> []) else ''create:create'')
     else None)"

text \<open>The session key is the open key with the number of the opening.\<close>

definition sessionKey :: "userFormSession \<Rightarrow> string" where
  "sessionKey st = (case openKey (us_props st) of Some k \<Rightarrow> k | None \<Rightarrow> ''closed'') @ '':'' @ show_nat (us_generation st)"

definition initialForm :: "formProps \<Rightarrow> string \<Rightarrow> formState" where
  "initialForm p secret =
    (case (pr_mode p, pr_user p) of (EditForm, Some u) \<Rightarrow> initialEditState u | _ \<Rightarrow> initialCreateState secret)"

definition initialPreset :: "formProps \<Rightarrow> createPreset option" where
  "initialPreset p = (if pr_mode p = CreateForm then Some PresetUnlimited else None)"

text \<open>A render: the reset when the open key changed, then the layout effect.\<close>

definition renderForm :: "string \<Rightarrow> userFormSession \<Rightarrow> userFormSession" where
  "renderForm secret st =
    (let key = openKey (us_props st);
         st1 = (if key \<noteq> us_lastOpenKey st
                then let st0 = st\<lparr>us_lastOpenKey := key, us_generation := Suc (us_generation st), us_savingSessionKey := None\<rparr>
                     in if key \<noteq> None
                        then let initial = initialForm (us_props st) secret
                             in st0\<lparr>us_state := initial, us_baseline := initial, us_baseUser := pr_user (us_props st),
                                    us_usernameTouched := False, us_createdSecret := None, us_activePreset := initialPreset (us_props st)\<rparr>
                        else st0
                else st)
     in st1\<lparr>us_activeSave := (if fst (us_current st1) \<noteq> sessionKey st1 then None else us_activeSave st1),
            us_current := (sessionKey st1, us_state st1)\<rparr>)"

text \<open>A patch is pending while the last one sent has no answer; the requests in flight are those listed.\<close>

definition patchPending :: "userFormSession \<Rightarrow> bool" where
  "patchPending st \<longleftrightarrow> (\<exists>p\<in>set (us_patches st). sd_requestId (fst p) = us_requestSequence st)"

definition formPending :: "userFormSession \<Rightarrow> bool" where
  "formPending st \<longleftrightarrow> us_creates st \<noteq> [] \<or> (patchPending st \<and> us_savingSessionKey st = Some (sessionKey st))"

definition canSubmit :: "userFormSession \<Rightarrow> bool" where
  "canSubmit st \<longleftrightarrow> \<not> pr_disabled (us_props st) \<and>
     (pr_mode (us_props st) = EditForm \<or> (isValidUsername (fm_username (us_state st)) \<and> isValidSecret (fm_secret (us_state st))))"

definition handleSubmit :: "bool \<Rightarrow> userFormSession \<Rightarrow> userFormSession" where
  "handleSubmit ratesValid st =
    (if \<not> canSubmit st \<or> formPending st then st
     else if \<not> ratesValid then st
     else if pr_mode (us_props st) = CreateForm then st\<lparr>us_creates := us_creates st @ [createBody (us_state st)]\<rparr>
     else let rid = Suc (us_requestSequence st);
              submitted = \<lparr>sd_sessionKey = sessionKey st, sd_value = us_state st, sd_revision = None, sd_requestId = rid\<rparr>
          in st\<lparr>us_requestSequence := rid, us_activeSave := Some rid, us_savingSessionKey := Some (sessionKey st),
                us_patches := us_patches st @ [(submitted, patchBody (us_baseUser st) (us_state st))]\<rparr>)"

definition dropPatch :: "nat \<Rightarrow> userFormSession \<Rightarrow> userFormSession" where
  "dropPatch rid st = st\<lparr>us_patches := filter (\<lambda>p. sd_requestId (fst p) \<noteq> rid) (us_patches st)\<rparr>"

definition isActive :: "formState submittedDraft \<Rightarrow> userFormSession \<Rightarrow> bool" where
  "isActive sub st \<longleftrightarrow> us_activeSave st = Some (sd_requestId sub) \<and> fst (us_current st) = sd_sessionKey sub"

definition userPatchSuccess :: "formState submittedDraft \<Rightarrow> formUser \<Rightarrow> userFormSession \<Rightarrow> userFormSession" where
  "userPatchSuccess sub dat st0 =
    (let st = st0\<lparr>us_refreshes := Suc (us_refreshes st0)\<rparr> in
     if \<not> isActive sub st then st
     else let confirmed = initialEditState dat;
              next' = rebaseUserForm (sd_value sub) (snd (us_current st)) confirmed
          in st\<lparr>us_activeSave := None, us_baseUser := Some dat, us_baseline := confirmed, us_state := next', us_savingSessionKey := None,
                us_notices := us_notices st @ [if next' = confirmed then NUpdated else NUpdatedWithDraft],
                us_saved := us_saved st @ [fu_username dat],
                us_closes := (if next' = confirmed then Suc (us_closes st) else us_closes st)\<rparr>)"

definition userPatchError :: "formState submittedDraft \<Rightarrow> json \<Rightarrow> userFormSession \<Rightarrow> userFormSession" where
  "userPatchError sub err st =
    (if \<not> isActive sub st then st
     else st\<lparr>us_activeSave := None, us_savingSessionKey := None, us_notices := us_notices st @ [NError err]\<rparr>)"

definition createSuccess :: "string \<Rightarrow> string \<Rightarrow> userFormSession \<Rightarrow> userFormSession" where
  "createSuccess username secret st =
    st\<lparr>us_notices := us_notices st @ [NCreated], us_saved := us_saved st @ [username], us_createdSecret := Some secret,
       us_refreshes := Suc (us_refreshes st)\<rparr>"

definition createError :: "json \<Rightarrow> userFormSession \<Rightarrow> userFormSession" where
  "createError err st = st\<lparr>us_notices := us_notices st @ [NError err]\<rparr>"

text \<open>The controls of the profile and of the limits a profile sets also choose or drop the preset.\<close>

fun editPreset :: "formEdit \<Rightarrow> createPreset option \<Rightarrow> createPreset option" where
  "editPreset (EdQuota _) p = None"
| "editPreset (EdQuotaUnit _) p = None"
| "editPreset (EdExpiration _) p = None"
| "editPreset (EdMaxIps _) p = None"
| "editPreset (EdMaxConns _) p = None"
| "editPreset (EdPreset q now) p = Some q"
| "editPreset _ p = p"

fun touchesUsername :: "formEdit \<Rightarrow> bool" where
  "touchesUsername (EdUsername _) = True"
| "touchesUsername _ = False"

datatype formEvent =
    FormProps formProps
  | Edit formEdit
  | Submit bool
  | PatchAnswered nat "json + formUser"
  | CreateAnswered "json + string \<times> string"
  | RequestClose

definition formDirty :: "userFormSession \<Rightarrow> bool" where
  "formDirty st \<longleftrightarrow> us_state st \<noteq> us_baseline st"

fun form_handle :: "userFormSession \<Rightarrow> formEvent \<Rightarrow> userFormSession" where
  "form_handle st (FormProps p) = st\<lparr>us_props := p\<rparr>"
| "form_handle st (Edit e) = 
    st\<lparr>us_state := applyEdit e (us_state st), us_activePreset := editPreset e (us_activePreset st),
       us_usernameTouched := (touchesUsername e \<or> us_usernameTouched st)\<rparr>"
| "form_handle st (Submit valid) = handleSubmit valid st"
| "form_handle st (PatchAnswered rid r) =
    (case find (\<lambda>p. sd_requestId (fst p) = rid) (us_patches st) of
       None \<Rightarrow> st
     | Some p \<Rightarrow> (case r of Inr dat \<Rightarrow> userPatchSuccess (fst p) dat (dropPatch rid st)
                 | Inl err \<Rightarrow> userPatchError (fst p) err (dropPatch rid st)))"
| "form_handle st (CreateAnswered r) =
    (case us_creates st of
       [] \<Rightarrow> st
     | _ # rest \<Rightarrow> (case r of Inr (username, secret) \<Rightarrow> createSuccess username secret (st\<lparr>us_creates := rest\<rparr>)
                   | Inl err \<Rightarrow> createError err (st\<lparr>us_creates := rest\<rparr>)))"
| "form_handle st RequestClose = (if formPending st then st else st\<lparr>us_closes := Suc (us_closes st)\<rparr>)"

definition form_step :: "(nat \<Rightarrow> string) \<Rightarrow> userFormSession \<Rightarrow> formEvent \<Rightarrow> userFormSession" where
  "form_step secrets st e = (let st' = form_handle st e in renderForm (secrets (us_generation st')) st')"

end
