(* ===== verification/User_Edit_Props.thy ===== *)
theory User_Edit_Props
  imports User_Edit
begin

text \<open>
  What the user form promises: its PATCH turns the stored limits into the ones on screen and sends nothing
  else, and a save changes only the form that sent it, keeping what was typed meanwhile.
\<close>

subsection \<open>The body of a PATCH\<close>























definition sampleUser :: formUser where
  "sampleUser = \<lparr>fu_username = ''bob'', fu_enabled = True, fu_user_ad_tag = None, fu_max_tcp_conns = Some 4, fu_max_unique_ips = None,
     fu_data_quota_bytes = Some 1500000, fu_expiration_rfc3339 = None, fu_rate_limit_up_bps = None, fu_rate_limit_down_bps = None\<rparr>"


subsection \<open>The session\<close>

lemma sessionKey_update [simp]:
  "sessionKey (st\<lparr>us_state := f\<rparr>) = sessionKey st" "sessionKey (st\<lparr>us_baseline := f\<rparr>) = sessionKey st"
  "sessionKey (st\<lparr>us_baseUser := bu\<rparr>) = sessionKey st" "sessionKey (st\<lparr>us_savingSessionKey := sk\<rparr>) = sessionKey st"
  "sessionKey (st\<lparr>us_current := cu\<rparr>) = sessionKey st" "sessionKey (st\<lparr>us_requestSequence := n\<rparr>) = sessionKey st"
  "sessionKey (st\<lparr>us_activeSave := a\<rparr>) = sessionKey st" "sessionKey (st\<lparr>us_patches := ps\<rparr>) = sessionKey st"
  "sessionKey (st\<lparr>us_creates := cs\<rparr>) = sessionKey st" "sessionKey (st\<lparr>us_createdSecret := sc\<rparr>) = sessionKey st"
  "sessionKey (st\<lparr>us_closes := n\<rparr>) = sessionKey st" "sessionKey (st\<lparr>us_refreshes := n\<rparr>) = sessionKey st"
  "sessionKey (st\<lparr>us_notices := ns\<rparr>) = sessionKey st" "sessionKey (st\<lparr>us_saved := ss\<rparr>) = sessionKey st"
  by (simp_all add: sessionKey_def)

text \<open>After every step the refs follow the render, request numbers are unique, and the save that is
  awaited is one of the requests in flight, sent by this session.\<close>

definition form_ok :: "userFormSession \<Rightarrow> bool" where
  "form_ok st \<longleftrightarrow> us_lastOpenKey st = openKey (us_props st) \<and> us_current st = (sessionKey st, us_state st) \<and>
     distinct (map (sd_requestId \<circ> fst) (us_patches st)) \<and>
     (\<forall>p\<in>set (us_patches st). sd_requestId (fst p) \<le> us_requestSequence st) \<and>
     (\<forall>rid. us_activeSave st = Some rid \<longrightarrow> (\<exists>p\<in>set (us_patches st). sd_requestId (fst p) = rid \<and> sd_sessionKey (fst p) = sessionKey st))"

definition mountedForm :: "formProps \<Rightarrow> string \<Rightarrow> userFormSession" where
  "mountedForm p secret = renderForm secret
     \<lparr>us_props = p, us_state = initialForm p secret, us_baseline = initialForm p secret, us_baseUser = pr_user p, us_lastOpenKey = None,
      us_generation = 0, us_savingSessionKey = None, us_current = ([], initialForm p secret), us_requestSequence = 0, us_activeSave = None,
      us_patches = [], us_creates = [], us_createdSecret = None, us_usernameTouched = False, us_activePreset = initialPreset p,
      us_closes = 0, us_notices = [], us_saved = [], us_refreshes = 0\<rparr>"

lemma sessionKey_generation:
  assumes "a @ '':'' @ show_nat m = b @ '':'' @ show_nat n"
  shows "m = n"
proof -
  have "rev (show_nat m) @ CHR '':'' # rev a = rev (show_nat n) @ CHR '':'' # rev b"
    using arg_cong [OF assms, of rev] by simp
  moreover have "CHR '':'' \<notin> set (show_nat k)" for k by (rule show_nat_not_in) (simp add: is_digit_def)
  ultimately have "show_nat m = show_nat n" by (simp add: append_sep_inj)
  then show ?thesis by (simp add: show_nat_inj)
qed

text \<open>Before the render: as above, with the refs of the render before.\<close>

definition handled_ok :: "userFormSession \<Rightarrow> bool" where
  "handled_ok st \<longleftrightarrow> (\<exists>a. fst (us_current st) = a @ '':'' @ show_nat (us_generation st)) \<and>
     (us_lastOpenKey st = openKey (us_props st) \<longrightarrow> fst (us_current st) = sessionKey st) \<and>
     distinct (map (sd_requestId \<circ> fst) (us_patches st)) \<and>
     (\<forall>p\<in>set (us_patches st). sd_requestId (fst p) \<le> us_requestSequence st) \<and>
     (\<forall>rid. us_activeSave st = Some rid \<longrightarrow> (\<exists>p\<in>set (us_patches st). sd_requestId (fst p) = rid \<and> sd_sessionKey (fst p) = fst (us_current st)))"

lemma form_render_ok:
  assumes "handled_ok st"
  shows "form_ok (renderForm secret st)"
proof (cases "openKey (us_props st) = us_lastOpenKey st")
  case True
  with assms show ?thesis by (auto simp: handled_ok_def form_ok_def renderForm_def Let_def sessionKey_def)
next
  case False
  from assms obtain a where a: "fst (us_current st) = a @ '':'' @ show_nat (us_generation st)" by (auto simp: handled_ok_def)
  have ne: "fst (us_current st) \<noteq> b @ '':'' @ show_nat (Suc (us_generation st))" for b
    using sessionKey_generation [of a "us_generation st" b "Suc (us_generation st)"] unfolding a by auto
  from False assms ne show ?thesis
    by (auto simp: handled_ok_def form_ok_def renderForm_def Let_def sessionKey_def simp del: append_assoc append.simps show_nat.simps)
qed

lemma form_handled: "form_ok st \<Longrightarrow> handled_ok st"
  by (auto simp: form_ok_def handled_ok_def sessionKey_def)

lemma submit_ok:
  assumes "form_ok st"
  shows "handled_ok (handleSubmit valid st)"
proof -
  have new: "Suc (us_requestSequence st) \<notin> (sd_requestId \<circ> fst) ` set (us_patches st)"
    using assms by (fastforce simp: form_ok_def)
  then show ?thesis
    using form_handled [OF assms] assms
    by (auto simp: handled_ok_def form_ok_def handleSubmit_def Let_def o_def intro: le_SucI)
qed

text \<open>The awaited save is the request in flight with its number.\<close>

lemma active_request:
  assumes "form_ok st" "us_activeSave st = Some (sd_requestId (fst p))" "p \<in> set (us_patches st)"
  shows "sd_sessionKey (fst p) = sessionKey st"
proof -
  from assms obtain q where q: "q \<in> set (us_patches st)" "sd_requestId (fst q) = sd_requestId (fst p)" "sd_sessionKey (fst q) = sessionKey st"
    by (auto simp: form_ok_def)
  have "q = p" using assms(1,3) q(1,2) by (auto simp: form_ok_def distinct_map inj_on_def)
  with q(3) show ?thesis by simp
qed

lemma isActive_refresh [simp]: "isActive sub (st\<lparr>us_refreshes := n\<rparr>) = isActive sub st"
  by (simp add: isActive_def)

lemma handled_refresh [simp]: "handled_ok (st\<lparr>us_refreshes := n\<rparr>) = handled_ok st"
  by (simp add: handled_ok_def)

lemma isActive_iff:
  assumes "form_ok st" "p \<in> set (us_patches st)"
  shows "isActive (fst p) (dropPatch rid st) \<longleftrightarrow> us_activeSave st = Some (sd_requestId (fst p))"
  using active_request [OF assms(1) _ assms(2)] assms(1) by (auto simp: isActive_def dropPatch_def form_ok_def)

lemma drop_ok:
  assumes "form_ok st" "us_activeSave st \<noteq> Some rid"
  shows "handled_ok (dropPatch rid st)"
  using assms form_handled [OF assms(1)]
  by (fastforce simp: handled_ok_def form_ok_def dropPatch_def distinct_map_filter)

lemma settle_ok:
  assumes "form_ok st" "us_activeSave st' = None" "us_patches st' = us_patches (dropPatch rid st)" "us_current st' = us_current st"
    "us_props st' = us_props st" "us_generation st' = us_generation st" "us_lastOpenKey st' = us_lastOpenKey st"
    "us_requestSequence st' = us_requestSequence st"
  shows "handled_ok st'"
  using assms form_handled [OF assms(1)]
  by (auto simp: handled_ok_def dropPatch_def sessionKey_def distinct_map_filter)

lemma handle_ok:
  assumes "form_ok st"
  shows "handled_ok (form_handle st e)"
proof (cases e)
  case (Submit valid)
  with submit_ok [OF assms] show ?thesis by simp
next
  case (PatchAnswered rid r)
  show ?thesis
  proof (cases "find (\<lambda>p. sd_requestId (fst p) = rid) (us_patches st)")
    case None
    with PatchAnswered form_handled [OF assms] show ?thesis by simp
  next
    case (Some p)
    then have p: "p \<in> set (us_patches st)" "sd_requestId (fst p) = rid" by (auto dest: find_mem)
    note act = isActive_iff [OF assms p(1), of rid, unfolded p(2)]
    show ?thesis
    proof (cases "us_activeSave st = Some rid")
      case True
      then show ?thesis using PatchAnswered Some act
        by (cases r) (auto simp: userPatchSuccess_def userPatchError_def Let_def intro!: settle_ok [OF assms, where rid = rid] simp: dropPatch_def)
    next
      case False
      then show ?thesis using PatchAnswered Some act drop_ok [OF assms False]
        by (cases r) (simp_all add: userPatchSuccess_def userPatchError_def Let_def)
    qed
  qed
qed (use assms in \<open>auto simp: handled_ok_def form_ok_def sessionKey_def createSuccess_def createError_def split: list.splits sum.splits\<close>)

lemma form_step_ok: "form_ok st \<Longrightarrow> form_ok (form_step secrets st e)"
  by (simp add: form_step_def Let_def form_render_ok handle_ok)

interpretation form_sys: step_system "form_step secrets" form_ok
  by unfold_locales (rule form_step_ok)

lemma mounted_ok: "form_ok (mountedForm p secret)"
  by (auto simp: mountedForm_def form_ok_def renderForm_def Let_def)

text \<open>A render that finds the same open key leaves the form alone.\<close>

lemma render_same:
  assumes "openKey (us_props st) = us_lastOpenKey st"
  shows "us_state (renderForm secret st) = us_state st \<and> us_baseline (renderForm secret st) = us_baseline st \<and>
    us_baseUser (renderForm secret st) = us_baseUser st \<and> us_closes (renderForm secret st) = us_closes st \<and>
    us_notices (renderForm secret st) = us_notices st"
  using assms by (simp add: renderForm_def Let_def)

lemma inactive_answer:
  assumes "form_ok st" "us_activeSave st \<noteq> Some rid"
  shows "form_handle st (PatchAnswered rid r) = st \<or> form_handle st (PatchAnswered rid r) = dropPatch rid st \<or>
    form_handle st (PatchAnswered rid r) = (dropPatch rid st)\<lparr>us_refreshes := Suc (us_refreshes st)\<rparr>"
proof (cases "find (\<lambda>p. sd_requestId (fst p) = rid) (us_patches st)")
  case (Some p)
  then have p: "p \<in> set (us_patches st)" "sd_requestId (fst p) = rid" by (auto dest: find_mem)
  have "\<not> isActive (fst p) (dropPatch rid st)" using isActive_iff [OF assms(1) p(1)] p(2) assms(2) by simp
  with Some show ?thesis by (cases r) (simp_all add: userPatchSuccess_def userPatchError_def Let_def dropPatch_def)
qed simp

lemma failed_answer:
  "us_state (form_handle st (PatchAnswered rid (Inl err))) = us_state st \<and> us_baseline (form_handle st (PatchAnswered rid (Inl err))) = us_baseline st \<and>
   us_props (form_handle st (PatchAnswered rid (Inl err))) = us_props st \<and> us_lastOpenKey (form_handle st (PatchAnswered rid (Inl err))) = us_lastOpenKey st"
  by (auto simp: userPatchError_def dropPatch_def split: option.split)

text \<open>What a save in flight may do to the form: a field is as it was typed if it is not what was submitted, and as the
  server confirmed it otherwise; amount, unit and edit mark of the quota go together.\<close>

definition later :: "'a \<Rightarrow> 'a \<Rightarrow> 'a \<Rightarrow> 'a \<Rightarrow> bool" where
  "later submitted typed confirmed result \<longleftrightarrow> (typed \<noteq> submitted \<longrightarrow> result = typed) \<and> (typed = submitted \<longrightarrow> result = confirmed)"

definition laterForm :: "formState \<Rightarrow> formState \<Rightarrow> formState \<Rightarrow> formState \<Rightarrow> bool" where
  "laterForm s t c r \<longleftrightarrow>
    later (fm_username s) (fm_username t) (fm_username c) (fm_username r) \<and>
    later (fm_secret s) (fm_secret t) (fm_secret c) (fm_secret r) \<and>
    later (fm_enabled s) (fm_enabled t) (fm_enabled c) (fm_enabled r) \<and>
    later (fm_userAdTag s) (fm_userAdTag t) (fm_userAdTag c) (fm_userAdTag r) \<and>
    later (fm_maxTcpConns s) (fm_maxTcpConns t) (fm_maxTcpConns c) (fm_maxTcpConns r) \<and>
    later (fm_maxUniqueIps s) (fm_maxUniqueIps t) (fm_maxUniqueIps c) (fm_maxUniqueIps r) \<and>
    later (fm_quotaAmount s, fm_quotaUnit s, fm_quotaEdited s) (fm_quotaAmount t, fm_quotaUnit t, fm_quotaEdited t)
      (fm_quotaAmount c, fm_quotaUnit c, fm_quotaEdited c) (fm_quotaAmount r, fm_quotaUnit r, fm_quotaEdited r) \<and>
    later (fm_expiration s) (fm_expiration t) (fm_expiration c) (fm_expiration r) \<and>
    later (fm_rateLimitUpBps s) (fm_rateLimitUpBps t) (fm_rateLimitUpBps c) (fm_rateLimitUpBps r) \<and>
    later (fm_rateLimitDownBps s) (fm_rateLimitDownBps t) (fm_rateLimitDownBps c) (fm_rateLimitDownBps r)"

lemma later_keepChanged: "later s t c (keepChanged s t c)"
  by (simp add: later_def keepChanged_def)

lemma rebase_later: "laterForm s t c (rebaseUserForm s t c)"
  unfolding laterForm_def rebaseUserForm_def
  by (simp add: Let_def later_keepChanged quotaOf_def)

lemma rebase_unchanged: "rebaseUserForm sub sub confirmed = confirmed"
  by (simp add: rebaseUserForm_def keepChanged_def quotaOf_def)

lemma awaited_answer:
  assumes ok: "form_ok st" and act: "us_activeSave st = Some rid"
  shows "\<exists>sub body. (sub, body) \<in> set (us_patches st) \<and> sd_requestId sub = rid \<and> sd_sessionKey sub = sessionKey st \<and>
    (let st' = form_step secrets st (PatchAnswered rid (Inr dat))
     in us_state st' = rebaseUserForm (sd_value sub) (us_state st) (initialEditState dat) \<and> us_baseline st' = initialEditState dat \<and>
        us_activeSave st' = None \<and> us_notices st' = us_notices st @ [if formDirty st' then NUpdatedWithDraft else NUpdated] \<and>
        us_closes st' = (if formDirty st' then us_closes st else Suc (us_closes st)) \<and> (us_state st = sd_value sub \<longrightarrow> \<not> formDirty st'))"
proof -
  from ok act obtain q where "q \<in> set (us_patches st)" "sd_requestId (fst q) = rid" by (auto simp: form_ok_def)
  then have "find (\<lambda>p. sd_requestId (fst p) = rid) (us_patches st) \<noteq> None" unfolding find_None_iff by blast
  then obtain p where f: "find (\<lambda>p. sd_requestId (fst p) = rid) (us_patches st) = Some p" by blast
  then have p: "p \<in> set (us_patches st)" "sd_requestId (fst p) = rid" by (auto dest: find_mem)
  have key: "sd_sessionKey (fst p) = sessionKey st" using active_request [OF ok _ p(1)] act p(2) by simp
  have cur: "us_current st = (sessionKey st, us_state st)" and lk: "us_lastOpenKey st = openKey (us_props st)"
    using ok by (simp_all add: form_ok_def)
  have "isActive (fst p) (dropPatch rid st)" using isActive_iff [OF ok p(1)] act p(2) by simp
  then have h: "form_handle st (PatchAnswered rid (Inr dat)) = userPatchSuccess (fst p) dat (dropPatch rid st)" using f by simp
  have "(fst p, snd p) \<in> set (us_patches st)" using p(1) by simp
  moreover have "us_state st = sd_value (fst p) \<Longrightarrow> rebaseUserForm (sd_value (fst p)) (us_state st) (initialEditState dat) = initialEditState dat"
    by (simp add: rebase_unchanged)
  ultimately show ?thesis
    using p(2) key cur lk \<open>isActive (fst p) (dropPatch rid st)\<close>
    by (intro exI [of _ "fst p"] exI [of _ "snd p"])
      (simp add: form_step_def h userPatchSuccess_def dropPatch_def renderForm_def formDirty_def Let_def del: form_handle.simps)
qed

lemma new_opening:
  assumes ok: "form_ok st" and new: "openKey q \<noteq> openKey (us_props st)" "openKey q \<noteq> None"
  shows "us_state (form_step secrets st (FormProps q)) = initialForm q (secrets (us_generation st)) \<and>
    \<not> formDirty (form_step secrets st (FormProps q)) \<and> us_activeSave (form_step secrets st (FormProps q)) = None"
proof -
  have cur: "fst (us_current st) = sessionKey st" and lk: "us_lastOpenKey st = openKey (us_props st)" using ok by (simp_all add: form_ok_def)
  have "sessionKey st \<noteq> b @ '':'' @ show_nat (Suc (us_generation st))" for b
    unfolding sessionKey_def using sessionKey_generation by (metis n_not_Suc_n)
  then show ?thesis using cur lk new
    by (auto simp: form_step_def renderForm_def Let_def formDirty_def sessionKey_def simp del: append.simps append_assoc show_nat.simps)
qed

text \<open>C12. A save touches only the form that sent it, and never what was typed meanwhile. Along every history
  of openings, edits, submits and answers in any order: an answer that is not to the awaited save -- an
  earlier opening, another user, a request already settled -- changes nothing on screen, and neither
  does a failed one; the answer to the awaited save leaves each field as it was typed if it was
  edited after the submit and as the server confirmed it otherwise, with the quota as one field; the form
  then closes if nothing is left unsaved, as it is when nothing was edited after the submit, and stays open with
  the notice of a remaining draft otherwise; and another user or a new opening starts afresh, with
  no save awaited.\<close>

theorem user_save_keeps_later_edits:
  fixes secrets :: "nat \<Rightarrow> string" and p :: formProps and es :: "formEvent list" and e :: formEvent
  defines "st \<equiv> run (form_step secrets) (mountedForm p (secrets 0)) es"
  defines "st' \<equiv> form_step secrets st e"
  shows "(\<forall>rid r. e = PatchAnswered rid r \<and> us_activeSave st \<noteq> Some rid \<longrightarrow>
      us_state st' = us_state st \<and> us_baseline st' = us_baseline st \<and> us_baseUser st' = us_baseUser st \<and> us_closes st' = us_closes st \<and>
      us_notices st' = us_notices st) \<and>
    (\<forall>rid err. e = PatchAnswered rid (Inl err) \<longrightarrow> us_state st' = us_state st \<and> us_baseline st' = us_baseline st) \<and>
    (\<forall>rid dat. e = PatchAnswered rid (Inr dat) \<and> us_activeSave st = Some rid \<longrightarrow>
      (\<exists>sub body. (sub, body) \<in> set (us_patches st) \<and> sd_requestId sub = rid \<and> sd_sessionKey sub = sessionKey st \<and>
        laterForm (sd_value sub) (us_state st) (initialEditState dat) (us_state st') \<and> us_baseline st' = initialEditState dat \<and>
        us_activeSave st' = None \<and>
        us_notices st' = us_notices st @ [if us_state st' \<noteq> us_baseline st' then NUpdatedWithDraft else NUpdated] \<and>
        us_closes st' = (if us_state st' \<noteq> us_baseline st' then us_closes st else Suc (us_closes st)) \<and>
        (us_state st = sd_value sub \<longrightarrow> us_state st' = us_baseline st'))) \<and>
    (\<forall>q. e = FormProps q \<and> openKey q \<noteq> openKey (us_props st) \<and> openKey q \<noteq> None \<longrightarrow>
      us_state st' = initialForm q (secrets (us_generation st)) \<and> us_state st' = us_baseline st' \<and> us_activeSave st' = None)"
proof -
  have ok: "form_ok st" unfolding st_def by (rule form_sys.run_inv) (rule mounted_ok)
  then have key: "openKey (us_props st) = us_lastOpenKey st" "us_current st = (sessionKey st, us_state st)"
    by (simp_all add: form_ok_def)
  have same: "us_state st' = us_state st \<and> us_baseline st' = us_baseline st \<and> us_baseUser st' = us_baseUser st \<and>
      us_closes st' = us_closes st \<and> us_notices st' = us_notices st"
    if "e = PatchAnswered rid r" "us_activeSave st \<noteq> Some rid" for rid r
    using inactive_answer [OF ok that(2), of r] render_same key(1)
    by (auto simp: st'_def that(1) form_step_def Let_def dropPatch_def simp del: form_handle.simps)
  have failed: "us_state st' = us_state st \<and> us_baseline st' = us_baseline st" if "e = PatchAnswered rid (Inl err)" for rid err
    using failed_answer [of st rid err] render_same key(1) by (simp add: st'_def that form_step_def Let_def del: form_handle.simps)
  have saved: "\<exists>sub body. (sub, body) \<in> set (us_patches st) \<and> sd_requestId sub = rid \<and> sd_sessionKey sub = sessionKey st \<and>
        laterForm (sd_value sub) (us_state st) (initialEditState dat) (us_state st') \<and> us_baseline st' = initialEditState dat \<and>
        us_activeSave st' = None \<and>
        us_notices st' = us_notices st @ [if us_state st' \<noteq> us_baseline st' then NUpdatedWithDraft else NUpdated] \<and>
        us_closes st' = (if us_state st' \<noteq> us_baseline st' then us_closes st else Suc (us_closes st)) \<and>
        (us_state st = sd_value sub \<longrightarrow> us_state st' = us_baseline st')"
    if "e = PatchAnswered rid (Inr dat)" "us_activeSave st = Some rid" for rid dat
    using awaited_answer [OF ok that(2), of secrets dat] rebase_later unfolding st'_def that(1) Let_def formDirty_def
    by (metis (no_types, lifting))
  have opened: "us_state st' = initialForm q (secrets (us_generation st)) \<and> us_state st' = us_baseline st' \<and> us_activeSave st' = None"
    if "e = FormProps q" "openKey q \<noteq> openKey (us_props st)" "openKey q \<noteq> None" for q
    using new_opening [OF ok that(2,3), of secrets] unfolding st'_def that(1) formDirty_def by blast
  show ?thesis using same failed saved opened by blast
qed

text \<open>Bob's form is opened and submitted; the ad tag is typed while the save is in flight.\<close>

definition bobProps :: formProps where
  "bobProps = \<lparr>pr_open = True, pr_mode = EditForm, pr_user = Some sampleUser, pr_disabled = False\<rparr>"

lemma bob_awaits_save:
  "us_activeSave (run (form_step (\<lambda>_. [])) (mountedForm bobProps []) [Submit True, Edit (EdAdTag ''x'')]) = Some 1"
proof -
  have key: "openKey bobProps = Some ''edit:bob''" by (simp add: openKey_def bobProps_def sampleUser_def)
  show ?thesis
    by (simp add: mountedForm_def form_step_def renderForm_def handleSubmit_def canSubmit_def formPending_def patchPending_def key Let_def
        sessionKey_def bobProps_def [THEN arg_cong, of pr_mode] bobProps_def [THEN arg_cong, of pr_disabled] del: show_nat.simps)
qed

lemma bob_sent:
  "map (sd_value \<circ> fst) (us_patches (run (form_step (\<lambda>_. [])) (mountedForm bobProps []) [Submit True, Edit (EdAdTag ''x'')])) =
     [initialEditState sampleUser] \<and>
   fm_userAdTag (us_state (run (form_step (\<lambda>_. [])) (mountedForm bobProps []) [Submit True, Edit (EdAdTag ''x'')])) = field ''x'' FSet"
proof -
  have key: "openKey bobProps = Some ''edit:bob''" by (simp add: openKey_def bobProps_def sampleUser_def)
  have user: "pr_user bobProps = Some sampleUser" by (simp add: bobProps_def)
  show ?thesis
    by (simp add: mountedForm_def form_step_def renderForm_def handleSubmit_def canSubmit_def formPending_def patchPending_def key user Let_def
        sessionKey_def bobProps_def [THEN arg_cong, of pr_mode] bobProps_def [THEN arg_cong, of pr_disabled] initialForm_def inputField_def
        del: show_nat.simps)
qed

theorem user_save_keeps_later_edits_witness:
  "fm_userAdTag (us_state (form_step (\<lambda>_. []) (run (form_step (\<lambda>_. [])) (mountedForm bobProps []) [Submit True, Edit (EdAdTag ''x'')])
      (PatchAnswered 1 (Inr sampleUser)))) = field ''x'' FSet"
proof -
  let ?st = "run (form_step (\<lambda>_. [])) (mountedForm bobProps []) [Submit True, Edit (EdAdTag ''x'')]"
  obtain sub body where s: "(sub, body) \<in> set (us_patches ?st)"
    "laterForm (sd_value sub) (us_state ?st) (initialEditState sampleUser) (us_state (form_step (\<lambda>_. []) ?st (PatchAnswered 1 (Inr sampleUser))))"
    using user_save_keeps_later_edits [of "PatchAnswered 1 (Inr sampleUser)" "\<lambda>_. []" bobProps "[Submit True, Edit (EdAdTag ''x'')]"]
      bob_awaits_save by blast
  have "sd_value sub \<in> set (map (sd_value \<circ> fst) (us_patches ?st))" using s(1) by force
  then have "sd_value sub = initialEditState sampleUser" using bob_sent by (simp only: list.set insert_iff empty_iff simp_thms)
  then have "fm_userAdTag (sd_value sub) \<noteq> field ''x'' FSet" by (simp add: initialEditState_def sampleUser_def field_def Let_def strVal_def)
  then show ?thesis using s(2) bob_sent by (simp add: laterForm_def later_def)
qed

end
