(* ===== verification/Web_Access.thy ===== *)
theory Web_Access
  imports Api_Error Draft_Session User_Forms
begin

text \<open>
  The editor of a user's WEB access profiles, \<open>WebAccessEditor\<close> of \<open>web/src/people/WebAccessPanel.tsx\<close>, as
  a machine over the draft hook. Its events are the controls, the answers of the PUT requests in any
  order, the end of the invalidation that follows an accepted one, and new data of the query; each is
  followed by the render it causes. The panel mounts a new editor for every user and opening, so
  the user is a parameter of the machine; an unmounted editor keeps its requests in flight.
\<close>

subsection \<open>Profiles\<close>

definition MAX_SAFE_INTEGER :: number where
  "MAX_SAFE_INTEGER = 9007199254740991"

definition isSafeInteger :: "number \<Rightarrow> bool" where
  "isSafeInteger v \<longleftrightarrow> of_int \<lfloor>v\<rfloor> = v \<and> \<bar>v\<bar> \<le> MAX_SAFE_INTEGER"

definition validLimit :: "number option \<Rightarrow> bool" where
  "validLimit value = (case value of None \<Rightarrow> True | Some v \<Rightarrow> isSafeInteger v \<and> 0 < v)"

definition invalidProfiles :: "webUserAccessProfile list \<Rightarrow> bool" where
  "invalidProfiles profiles \<longleftrightarrow> (\<exists>p\<in>set profiles. wu_vhost p = [] \<or> \<not> validLimit (wu_max_sessions p) \<or>
     \<not> validLimit (wu_max_streams p) \<or> \<not> validLimit (wu_max_streams_per_session p))"

definition freshProfile :: "string \<Rightarrow> string \<Rightarrow> webUserAccessProfile" where
  "freshProfile vhost mode = \<lparr>wu_vhost = vhost, wu_secret_mode = mode, wu_max_sessions = None, wu_max_streams = None,
     wu_max_streams_per_session = None\<rparr>"

definition profileUsed :: "webUserAccessProfile list \<Rightarrow> string \<Rightarrow> string \<Rightarrow> bool" where
  "profileUsed profiles vhost mode \<longleftrightarrow> (\<exists>p\<in>set profiles. wu_vhost p = vhost \<and> wu_secret_mode p = mode)"

fun findAvailableProfile :: "string list \<Rightarrow> webUserAccessProfile list \<Rightarrow> webUserAccessProfile option" where
  "findAvailableProfile [] profiles = None"
| "findAvailableProfile (vhost # vhosts) profiles =
    (case find (\<lambda>mode. \<not> profileUsed profiles vhost mode) [''plain'', ''dd''] of
       Some mode \<Rightarrow> Some (freshProfile vhost mode)
     | None \<Rightarrow> findAvailableProfile vhosts profiles)"

datatype profilePatch =
    PatchVhost string
  | PatchMode string
  | PatchMaxSessions "number option"
  | PatchMaxStreams "number option"
  | PatchMaxStreamsPerSession "number option"

fun patchProfile :: "profilePatch \<Rightarrow> webUserAccessProfile \<Rightarrow> webUserAccessProfile" where
  "patchProfile (PatchVhost v) p = p\<lparr>wu_vhost := v\<rparr>"
| "patchProfile (PatchMode v) p = p\<lparr>wu_secret_mode := v\<rparr>"
| "patchProfile (PatchMaxSessions v) p = p\<lparr>wu_max_sessions := v\<rparr>"
| "patchProfile (PatchMaxStreams v) p = p\<lparr>wu_max_streams := v\<rparr>"
| "patchProfile (PatchMaxStreamsPerSession v) p = p\<lparr>wu_max_streams_per_session := v\<rparr>"

definition updateProfile :: "nat \<Rightarrow> profilePatch \<Rightarrow> webUserAccessProfile list \<Rightarrow> webUserAccessProfile list" where
  "updateProfile index patch profiles =
    map (\<lambda>(profile, itemIndex). if itemIndex = index then patchProfile patch profile else profile) (zip profiles [0..<length profiles])"

definition removeProfile :: "nat \<Rightarrow> webUserAccessProfile list \<Rightarrow> webUserAccessProfile list" where
  "removeProfile index profiles = map fst (filter (\<lambda>(_, itemIndex). itemIndex \<noteq> index) (zip profiles [0..<length profiles]))"

text \<open>The line under a profile; its separator is a middle dot between spaces.\<close>

definition limitsSummary :: "webUserAccessProfile \<Rightarrow> string \<Rightarrow> string \<Rightarrow> string \<Rightarrow> string \<Rightarrow> string" where
  "limitsSummary profile inherited maxSessions maxStreams maxStreamsPerSession =
    (let shown = (\<lambda>label v. case v of None \<Rightarrow> [] | Some n \<Rightarrow> [label @ '': '' @ num_str n]);
         values = shown maxSessions (wu_max_sessions profile) @ shown maxStreams (wu_max_streams profile) @
           shown maxStreamsPerSession (wu_max_streams_per_session profile)
     in if values = [] then inherited else join ('' '' @ [char_of (183 :: nat)] @ '' '') values)"

subsection \<open>The editor\<close>

type_synonym profilesDraft = "webUserAccessProfile list submittedDraft"

text \<open>A request waits for the answer of the server, then for the invalidation of the query.\<close>

datatype putPhase = PutSent | PutConfirmed

datatype editorNotice = NProfilesSaved | NProfilesError json

record webEditor =
  we_hook :: "webUserAccessProfile list draftHook"
  we_query :: "webUserAccessProfile list versionedDraft"
  we_readOnly :: bool
  we_vhosts :: "string list"
  we_conflict :: bool
  we_requestSequence :: nat
  we_activeSave :: "nat option"
  we_inFlight :: "(profilesDraft \<times> putPhase) list"
  we_sent :: "profilesDraft list"
  we_invalidations :: nat
  we_notices :: "editorNotice list"
  we_closes :: nat

abbreviation we_session :: "webEditor \<Rightarrow> webUserAccessProfile list draftSession" where
  "we_session st \<equiv> dh_session (we_hook st)"

abbreviation we_draft :: "webEditor \<Rightarrow> webUserAccessProfile list" where
  "we_draft st \<equiv> ds_draft (we_session st)"

definition mountEditor :: "string \<Rightarrow> webUserAccessProfile list versionedDraft \<Rightarrow> bool \<Rightarrow> string list \<Rightarrow> webEditor" where
  "mountEditor username q readOnly vhosts =
    \<lparr>we_hook = useDraftSession username q False, we_query = q, we_readOnly = readOnly, we_vhosts = vhosts, we_conflict = False,
     we_requestSequence = 0, we_activeSave = None, we_inFlight = [], we_sent = [], we_invalidations = 0, we_notices = [], we_closes = 0\<rparr>"

definition updateSession ::
  "(webUserAccessProfile list draftSession \<Rightarrow> webUserAccessProfile list draftSession) \<Rightarrow> webEditor \<Rightarrow> webEditor" where
  "updateSession change st = st\<lparr>we_hook := (we_hook st)\<lparr>dh_session := change (we_session st)\<rparr>\<rparr>"

definition setProfiles :: "(webUserAccessProfile list \<Rightarrow> webUserAccessProfile list) \<Rightarrow> webEditor \<Rightarrow> webEditor" where
  "setProfiles change st = updateSession (\<lambda>s. s\<lparr>ds_draft := change (ds_draft s)\<rparr>) st"

definition editorDirty :: "webEditor \<Rightarrow> bool" where
  "editorDirty st \<longleftrightarrow> \<not> equalProfiles (we_draft st) (vd_value (ds_baseline (we_session st)))"

definition nextProfile :: "webEditor \<Rightarrow> webUserAccessProfile option" where
  "nextProfile st = findAvailableProfile (we_vhosts st) (we_draft st)"

text \<open>The mutation is pending until the last request is settled, its \<open>onSuccess\<close> included.\<close>

definition putPending :: "webEditor \<Rightarrow> bool" where
  "putPending st \<longleftrightarrow> (\<exists>p\<in>set (we_inFlight st). sd_requestId (fst p) = we_requestSequence st)"

definition submitProfiles :: "webEditor \<Rightarrow> webEditor" where
  "submitProfiles st =
    (if we_readOnly st \<or> hasDuplicateWebProfiles (we_draft st) \<or> invalidProfiles (we_draft st) \<or> \<not> editorDirty st \<or>
        we_activeSave st \<noteq> None then st
     else let rid = Suc (we_requestSequence st);
              submitted = \<lparr>sd_sessionKey = ds_sessionKey (we_session st), sd_value = we_draft st,
                sd_revision = vd_revision (ds_baseline (we_session st)), sd_requestId = rid\<rparr>
          in st\<lparr>we_requestSequence := rid, we_activeSave := Some rid, we_inFlight := we_inFlight st @ [(submitted, PutSent)],
                we_sent := we_sent st @ [submitted]\<rparr>)"

definition awaited :: "profilesDraft \<Rightarrow> webEditor \<Rightarrow> bool" where
  "awaited submitted st \<longleftrightarrow> we_activeSave st = Some (sd_requestId submitted) \<and> ds_sessionKey (we_session st) = sd_sessionKey submitted"

definition settle :: "nat \<Rightarrow> webEditor \<Rightarrow> webEditor" where
  "settle rid st = st\<lparr>we_inFlight := filter (\<lambda>p. sd_requestId (fst p) \<noteq> rid) (we_inFlight st)\<rparr>"

definition putSuccess :: "profilesDraft \<Rightarrow> string \<Rightarrow> webEditor \<Rightarrow> webEditor" where
  "putSuccess submitted revision st =
    (if \<not> awaited submitted st then settle (sd_requestId submitted) st
     else let st1 = updateSession (\<lambda>s. acknowledgeSubmitted equalProfiles s submitted
                 \<lparr>vd_value = sd_value submitted, vd_revision = Some revision\<rparr>) st
          in st1\<lparr>we_conflict := False, we_invalidations := Suc (we_invalidations st1),
                 we_inFlight := map (\<lambda>p. if sd_requestId (fst p) = sd_requestId submitted then (fst p, PutConfirmed) else p) (we_inFlight st1)\<rparr>)"

definition putRefreshed :: "profilesDraft \<Rightarrow> webEditor \<Rightarrow> webEditor" where
  "putRefreshed submitted st0 =
    (let st = settle (sd_requestId submitted) st0
     in if \<not> awaited submitted st then st
        else let st1 = st\<lparr>we_activeSave := None\<rparr>
             in if equalProfiles (we_draft st1) (vd_value (ds_baseline (we_session st1))) \<and> ds_remote (we_session st1) = None
                then st1\<lparr>we_notices := we_notices st1 @ [NProfilesSaved], we_closes := Suc (we_closes st1)\<rparr>
                else st1)"

definition putError :: "profilesDraft \<Rightarrow> json \<Rightarrow> webEditor \<Rightarrow> webEditor" where
  "putError submitted err st0 =
    (let st = settle (sd_requestId submitted) st0
     in if \<not> awaited submitted st then st
        else let st1 = st\<lparr>we_activeSave := None\<rparr>;
                 st2 = (if apiErrorCode err = Some ''revision_conflict''
                        then st1\<lparr>we_conflict := True, we_invalidations := Suc (we_invalidations st1)\<rparr> else st1)
             in st2\<lparr>we_notices := we_notices st2 @ [NProfilesError err]\<rparr>)"

definition discardProfiles :: "webEditor \<Rightarrow> webEditor" where
  "discardProfiles st =
    (if (ds_remote (we_session st) \<noteq> None \<or> we_conflict st) \<and>
        \<not> (putPending st \<or> (we_conflict st \<and> ds_remote (we_session st) = None))
     then (updateSession discardToRemote st)\<lparr>we_conflict := False\<rparr>
     else st)"

datatype editorEvent =
    AccessData "webUserAccessProfile list versionedDraft" bool "string list"
  | EditProfile nat profilePatch
  | RemoveProfile nat
  | AddProfile
  | SubmitProfiles
  | PutAccepted nat string
  | Refreshed nat
  | PutFailed nat json
  | DiscardProfiles
  | CancelEditor
  | UnmountEditor

definition inPhase :: "nat \<Rightarrow> putPhase \<Rightarrow> webEditor \<Rightarrow> profilesDraft option" where
  "inPhase rid phase st = map_option fst (find (\<lambda>p. sd_requestId (fst p) = rid \<and> snd p = phase) (we_inFlight st))"

definition onPut :: "nat \<Rightarrow> putPhase \<Rightarrow> (profilesDraft \<Rightarrow> webEditor \<Rightarrow> webEditor) \<Rightarrow> webEditor \<Rightarrow> webEditor" where
  "onPut rid phase handle st = (case inPhase rid phase st of None \<Rightarrow> st | Some sub \<Rightarrow> handle sub st)"

fun webEditor_handle :: "webEditor \<Rightarrow> editorEvent \<Rightarrow> webEditor" where
  "webEditor_handle st (AccessData q readOnly vhosts) = st\<lparr>we_query := q, we_readOnly := readOnly, we_vhosts := vhosts\<rparr>"
| "webEditor_handle st (EditProfile i patch) = setProfiles (updateProfile i patch) st"
| "webEditor_handle st (RemoveProfile i) = setProfiles (removeProfile i) st"
| "webEditor_handle st AddProfile = (case nextProfile st of None \<Rightarrow> st | Some p \<Rightarrow> setProfiles (\<lambda>ps. ps @ [p]) st)"
| "webEditor_handle st SubmitProfiles = submitProfiles st"
| "webEditor_handle st (PutAccepted rid revision) = onPut rid PutSent (\<lambda>sub. putSuccess sub revision) st"
| "webEditor_handle st (Refreshed rid) = onPut rid PutConfirmed putRefreshed st"
| "webEditor_handle st (PutFailed rid err) = onPut rid PutSent (\<lambda>sub. putError sub err) st"
| "webEditor_handle st DiscardProfiles = discardProfiles st"
| "webEditor_handle st CancelEditor = st\<lparr>we_closes := Suc (we_closes st)\<rparr>"
| "webEditor_handle st UnmountEditor = st\<lparr>we_activeSave := None\<rparr>"

definition renderEditor :: "string \<Rightarrow> webEditor \<Rightarrow> webEditor" where
  "renderEditor username st = st\<lparr>we_hook := draftEffect equalProfiles username (we_query st) False (we_hook st)\<rparr>"

definition webEditor_step :: "string \<Rightarrow> webEditor \<Rightarrow> editorEvent \<Rightarrow> webEditor" where
  "webEditor_step username st e = renderEditor username (webEditor_handle st e)"

end
