(* ===== verification/Web_Access_Props.thy ===== *)
theory Web_Access_Props
  imports Web_Access
begin

text \<open>
  What the editor of WEB access profiles promises: only valid, duplicate-free and changed lists are
  sent, each with a revision the server has issued; an answer that is not the awaited one changes
  nothing; and unsaved profiles survive every answer and every refetch.
\<close>

subsection \<open>Profiles\<close>

lemma equalProfiles_eq [simp]: "equalProfiles a b \<longleftrightarrow> a = b"
  by (auto simp: equalProfiles_def Let_def intro!: nth_equalityI)

lemma duplicateFrom_iff: "duplicateFrom keys ps \<longleftrightarrow> \<not> distinct (map profileKey ps) \<or> set keys \<inter> profileKey ` set ps \<noteq> {}"
  by (induction keys ps rule: duplicateFrom.induct) auto

lemma hasDuplicate_iff: "hasDuplicateWebProfiles ps \<longleftrightarrow> \<not> distinct (map profileKey ps)"
  by (simp add: hasDuplicateWebProfiles_def duplicateFrom_iff)

abbreviation profilePair :: "webUserAccessProfile \<Rightarrow> string \<times> string" where
  "profilePair p \<equiv> (wu_vhost p, wu_secret_mode p)"

lemma distinct_pairs: "\<not> hasDuplicateWebProfiles ps \<Longrightarrow> distinct (map profilePair ps)"
  by (auto simp: hasDuplicate_iff distinct_map inj_on_def profileKey_def)

definition knownMode :: "webUserAccessProfile \<Rightarrow> bool" where
  "knownMode p \<longleftrightarrow> wu_secret_mode p \<in> {''plain'', ''dd''}"

lemma profileKey_inj:
  assumes "knownMode p" "knownMode q" "profileKey p = profileKey q"
  shows "profilePair p = profilePair q"
proof -
  have "last (profileKey p) = last (profileKey q)" by (simp only: assms(3))
  then have "wu_secret_mode p = wu_secret_mode q" using assms(1,2) by (auto simp: knownMode_def profileKey_def)
  with assms(3) show ?thesis by (simp add: profileKey_def)
qed

lemma findAvailable_unused:
  "findAvailableProfile vhosts ps = Some p \<Longrightarrow>
   wu_vhost p \<in> set vhosts \<and> knownMode p \<and> profilePair p \<notin> profilePair ` set ps"
  by (induction vhosts ps rule: findAvailableProfile.induct)
    (auto simp: freshProfile_def knownMode_def profileUsed_def split: if_splits option.splits)

lemma find_modes_none: "find P [''plain'', ''dd''] = None \<longleftrightarrow> \<not> P ''plain'' \<and> \<not> P ''dd''"
  by simp

lemma findAvailable_none:
  "findAvailableProfile vhosts ps = None \<longleftrightarrow> (\<forall>v\<in>set vhosts. \<forall>m\<in>{''plain'', ''dd''}. profileUsed ps v m)"
proof (induction vhosts)
  case (Cons v vs)
  then show ?case by (cases "find (\<lambda>mode. \<not> profileUsed ps v mode) [''plain'', ''dd'']") (auto split: if_splits)
qed simp

lemma add_no_duplicate:
  assumes "findAvailableProfile vhosts ps = Some p" "\<not> hasDuplicateWebProfiles ps" "\<forall>q\<in>set ps. knownMode q"
  shows "\<not> hasDuplicateWebProfiles (ps @ [p])"
proof -
  have p: "knownMode p" "profilePair p \<notin> profilePair ` set ps" using findAvailable_unused [OF assms(1)] by blast+
  have "profileKey p \<noteq> profileKey q" if "q \<in> set ps" for q
  proof
    assume "profileKey p = profileKey q"
    with p(1) assms(3) that have "profilePair p = profilePair q" by (intro profileKey_inj) blast+
    then show False using p(2) imageI [OF that, of profilePair] by metis
  qed
  then have "profileKey p \<notin> profileKey ` set ps" by blast
  with assms(2) show ?thesis by (simp add: hasDuplicate_iff)
qed

definition limitOk :: "number option \<Rightarrow> bool" where
  "limitOk v \<longleftrightarrow> (case v of None \<Rightarrow> True | Some n \<Rightarrow> \<exists>k. n = of_nat k \<and> 0 < k \<and> k < 2 ^ 53)"

lemma nat_bound: "0 < k \<Longrightarrow> k \<le> 9007199254740991 \<Longrightarrow> 0 < nat k \<and> nat k < 2 ^ 53"
  by simp

lemma validLimit_ok: "validLimit v \<Longrightarrow> limitOk v"
proof (cases v)
  case (Some n)
  assume "validLimit v"
  with Some have n: "of_int \<lfloor>n\<rfloor> = n" "n \<le> 9007199254740991" "0 < n"
    by (auto simp: validLimit_def isSafeInteger_def MAX_SAFE_INTEGER_def abs_le_iff)
  have "0 < \<lfloor>n\<rfloor>" using n(1,3) by (metis of_int_0_less_iff)
  moreover have "\<lfloor>n\<rfloor> \<le> 9007199254740991" using n(2) floor_mono by fastforce
  ultimately have "0 < nat \<lfloor>n\<rfloor> \<and> nat \<lfloor>n\<rfloor> < 2 ^ 53" by (rule nat_bound)
  moreover have "of_nat (nat \<lfloor>n\<rfloor>) = n" using n(1) \<open>0 < \<lfloor>n\<rfloor>\<close> by (simp add: of_nat_nat)
  ultimately have "\<exists>k. n = of_nat k \<and> 0 < k \<and> k < 2 ^ 53" by metis
  with Some show ?thesis by (auto simp: limitOk_def)
qed (simp add: limitOk_def)

text \<open>What the server is asked to store.\<close>

definition profilesOk :: "webUserAccessProfile list \<Rightarrow> bool" where
  "profilesOk ps \<longleftrightarrow> distinct (map profilePair ps) \<and>
     (\<forall>p\<in>set ps. wu_vhost p \<noteq> [] \<and> limitOk (wu_max_sessions p) \<and> limitOk (wu_max_streams p) \<and> limitOk (wu_max_streams_per_session p))"

lemma submitted_ok: "\<not> hasDuplicateWebProfiles ps \<Longrightarrow> \<not> invalidProfiles ps \<Longrightarrow> profilesOk ps"
  by (auto simp: profilesOk_def distinct_pairs invalidProfiles_def validLimit_ok)

subsection \<open>The invariant of a rendered editor\<close>

text \<open>The requests in flight; which of them are confirmed does not matter.\<close>

definition flying :: "webEditor \<Rightarrow> profilesDraft list" where
  "flying st = map fst (we_inFlight st)"

definition requests_ok :: "string \<Rightarrow> webEditor \<Rightarrow> bool" where
  "requests_ok u st \<longleftrightarrow> distinct (map sd_requestId (flying st)) \<and> set (flying st) \<subseteq> set (we_sent st) \<and>
     (\<forall>sub\<in>set (we_sent st). sd_requestId sub \<le> we_requestSequence st \<and> sd_sessionKey sub = u \<and> profilesOk (sd_value sub)) \<and>
     (\<forall>rid. we_activeSave st = Some rid \<longrightarrow> rid \<in> sd_requestId ` set (flying st))"

definition hook_ok :: "string \<Rightarrow> webEditor \<Rightarrow> bool" where
  "hook_ok u st \<longleftrightarrow> dh_received (we_hook st) = (u, we_query st, False) \<and> ds_sessionKey (we_session st) = u"

definition webEditor_ok :: "string \<Rightarrow> webEditor \<Rightarrow> bool" where
  "webEditor_ok u st \<longleftrightarrow> hook_ok u st \<and> requests_ok u st"

lemmas editor_defs = setProfiles_def updateSession_def submitProfiles_def putSuccess_def putRefreshed_def putError_def settle_def
  discardProfiles_def awaited_def onPut_def Let_def

lemma editor_frame:
  "dh_received (we_hook (webEditor_handle st e)) = dh_received (we_hook st) \<and>
   ds_sessionKey (we_session (webEditor_handle st e)) = ds_sessionKey (we_session st)"
  by (cases e) (auto simp: editor_defs split: option.split)

lemma editor_query: "(\<And>q ro vs. e \<noteq> AccessData q ro vs) \<Longrightarrow> we_query (webEditor_handle st e) = we_query st"
  by (cases e) (auto simp: editor_defs split: option.split)

lemma versioned_profiles_eq:
  "vd_revision a = vd_revision b \<Longrightarrow> vd_value a = vd_value b \<Longrightarrow> a = (b :: webUserAccessProfile list versionedDraft)"
  by simp

lemma render_hook:
  assumes "fst (dh_received (we_hook st)) = username" "snd (snd (dh_received (we_hook st))) = False" "ds_sessionKey (we_session st) = username"
  shows "dh_received (we_hook (renderEditor username st)) = (username, we_query st, False)"
    and "ds_sessionKey (we_session (renderEditor username st)) = username"
  using assms by (auto simp: renderEditor_def draftEffect_def startSession_def split: prod.splits intro: versioned_profiles_eq)

lemma render_editor_frame [simp]:
  "we_query (renderEditor u st) = we_query st" "we_inFlight (renderEditor u st) = we_inFlight st" "we_sent (renderEditor u st) = we_sent st"
  "we_requestSequence (renderEditor u st) = we_requestSequence st" "we_activeSave (renderEditor u st) = we_activeSave st"
  "we_conflict (renderEditor u st) = we_conflict st" "we_closes (renderEditor u st) = we_closes st"
  "we_notices (renderEditor u st) = we_notices st" "we_invalidations (renderEditor u st) = we_invalidations st"
  "we_readOnly (renderEditor u st) = we_readOnly st" "we_vhosts (renderEditor u st) = we_vhosts st"
  by (simp_all add: renderEditor_def)

lemma render_same_query:
  assumes "dh_received (we_hook st) = (u, we_query st, False)"
  shows "we_hook (renderEditor u st) = we_hook st"
  using assms by (simp add: renderEditor_def draftEffect_def)

lemma step_hook:
  assumes "webEditor_ok u st" "\<And>q ro vs. e \<noteq> AccessData q ro vs"
  shows "we_hook (webEditor_step u st e) = we_hook (webEditor_handle st e)"
  using assms editor_frame [of st e] editor_query [OF assms(2)]
  by (simp add: webEditor_step_def webEditor_ok_def hook_ok_def render_same_query)

lemma inPhase_mem:
  assumes "inPhase rid ph st = Some sub"
  shows "(sub, ph) \<in> set (we_inFlight st) \<and> sd_requestId sub = rid"
proof -
  obtain p where p: "find (\<lambda>p. sd_requestId (fst p) = rid \<and> snd p = ph) (we_inFlight st) = Some p" "sub = fst p"
    using assms by (auto simp: inPhase_def)
  have "p \<in> set (we_inFlight st) \<and> sd_requestId (fst p) = rid \<and> snd p = ph" using find_mem [OF p(1)] by simp
  then show ?thesis using p(2) by (cases p) auto
qed

lemma flying_settle [simp]: "flying (settle rid st) = filter (\<lambda>sub. sd_requestId sub \<noteq> rid) (flying st)"
  by (simp add: flying_def settle_def filter_map o_def)

lemma flying_confirm [simp]:
  "flying (st\<lparr>we_inFlight := map (\<lambda>p. if sd_requestId (fst p) = rid then (fst p, PutConfirmed) else p) (we_inFlight st)\<rparr>) = flying st"
  by (simp add: flying_def o_def if_distrib cong: if_cong)

lemma requests_frame:
  assumes "requests_ok u st" "flying st' = flying st" "we_sent st' = we_sent st" "we_requestSequence st' = we_requestSequence st"
    "we_activeSave st' = we_activeSave st \<or> we_activeSave st' = None"
  shows "requests_ok u st'"
  using assms by (auto simp: requests_ok_def)

lemma requests_settle:
  assumes "requests_ok u st" "flying st' = flying (settle rid st)" "we_sent st' = we_sent st" "we_requestSequence st' = we_requestSequence st"
    "we_activeSave st' = None \<or> (we_activeSave st' = we_activeSave st \<and> we_activeSave st \<noteq> Some rid)"
  shows "requests_ok u st'"
proof -
  have "rid' \<in> sd_requestId ` set (flying st')" if "we_activeSave st' = Some rid'" for rid'
  proof -
    from that assms(5) have a: "we_activeSave st = Some rid'" "rid' \<noteq> rid" by auto
    then obtain sub where "sub \<in> set (flying st)" "sd_requestId sub = rid'" using assms(1) by (auto simp: requests_ok_def)
    then show ?thesis using a(2) assms(2) by auto
  qed
  then show ?thesis using assms(1-4) by (auto simp: requests_ok_def distinct_map_filter)
qed

lemma submit_requests:
  assumes "webEditor_ok u st"
  shows "requests_ok u (submitProfiles st)"
proof -
  have "Suc (we_requestSequence st) \<notin> sd_requestId ` set (flying st)"
    using assms by (fastforce simp: webEditor_ok_def requests_ok_def)
  then show ?thesis using assms
    by (auto simp: webEditor_ok_def hook_ok_def requests_ok_def submitProfiles_def Let_def flying_def submitted_ok intro: le_SucI)
qed

lemma flying_simps [simp]:
  "flying (st\<lparr>we_hook := h\<rparr>) = flying st" "flying (st\<lparr>we_activeSave := a\<rparr>) = flying st" "flying (st\<lparr>we_conflict := c\<rparr>) = flying st"
  "flying (st\<lparr>we_notices := ns\<rparr>) = flying st" "flying (st\<lparr>we_closes := n\<rparr>) = flying st" "flying (st\<lparr>we_invalidations := n\<rparr>) = flying st"
  "flying (st\<lparr>we_query := q\<rparr>) = flying st" "flying (st\<lparr>we_readOnly := ro\<rparr>) = flying st" "flying (st\<lparr>we_vhosts := vs\<rparr>) = flying st"
  by (simp_all add: flying_def)

lemma putSuccess_requests:
  assumes "requests_ok u st" "sd_sessionKey sub = ds_sessionKey (we_session st)"
  shows "requests_ok u (putSuccess sub revision st)"
proof (cases "awaited sub st")
  case True
  then show ?thesis
    by (intro requests_frame [OF assms(1)]) (simp_all add: putSuccess_def updateSession_def Let_def flying_def o_def if_distrib cong: if_cong)
next
  case False
  then show ?thesis using assms(2)
    by (intro requests_settle [OF assms(1), where rid = "sd_requestId sub"]) (simp_all add: putSuccess_def awaited_def settle_def)
qed

lemma settled_requests:
  assumes "requests_ok u st" "sd_sessionKey sub = ds_sessionKey (we_session st)"
  shows "requests_ok u (putRefreshed sub st)" "requests_ok u (putError sub err st)"
  using assms(2)
  by (auto intro!: requests_settle [OF assms(1), where rid = "sd_requestId sub"]
      simp: putRefreshed_def putError_def awaited_def Let_def settle_def flying_def filter_map o_def)

lemma handle_requests:
  assumes ok: "webEditor_ok u st"
  shows "requests_ok u (webEditor_handle st e)"
proof -
  have rq: "requests_ok u st" and key: "ds_sessionKey (we_session st) = u" using ok by (auto simp: webEditor_ok_def hook_ok_def)
  have mem: "sub \<in> set (flying st) \<and> sd_requestId sub = rid \<and> sd_sessionKey sub = u" if "inPhase rid ph st = Some sub" for rid ph sub
    using inPhase_mem [OF that] rq by (force simp: flying_def requests_ok_def)
  show ?thesis
  proof (cases e)
    case SubmitProfiles
    then show ?thesis using submit_requests [OF ok] by simp
  next
    case (PutAccepted rid rev)
    then show ?thesis using rq mem [of rid PutSent] key by (auto simp: onPut_def putSuccess_requests split: option.split)
  next
    case (Refreshed rid)
    then show ?thesis using rq mem [of rid PutConfirmed] key by (auto simp: onPut_def settled_requests split: option.split)
  next
    case (PutFailed rid err)
    then show ?thesis using rq mem [of rid PutSent] key by (auto simp: onPut_def settled_requests split: option.split)
  qed (use rq in \<open>auto simp: setProfiles_def updateSession_def discardProfiles_def split: option.split intro: requests_frame [OF rq]\<close>)
qed

lemma webEditor_step_ok:
  assumes "webEditor_ok u st"
  shows "webEditor_ok u (webEditor_step u st e)"
proof -
  have "requests_ok u (webEditor_step u st e)"
    using handle_requests [OF assms, of e] by (simp add: webEditor_step_def requests_ok_def flying_def)
  moreover have "hook_ok u (webEditor_step u st e)"
    using render_hook [of "webEditor_handle st e" u] editor_frame [of st e] assms
    by (simp add: webEditor_step_def webEditor_ok_def hook_ok_def)
  ultimately show ?thesis by (simp add: webEditor_ok_def)
qed

interpretation webEditor_sys: step_system "webEditor_step u" "webEditor_ok u"
  by unfold_locales (rule webEditor_step_ok)

lemma mount_ok: "webEditor_ok u (mountEditor u q ro vs)"
  by (simp add: webEditor_ok_def hook_ok_def requests_ok_def mountEditor_def useDraftSession_def startSession_def flying_def)

lemma editor_reached_ok: "webEditor_ok u (run (webEditor_step u) (mountEditor u q ro vs) es)"
  by (rule webEditor_sys.run_inv [OF mount_ok])

subsection \<open>What is sent\<close>

text \<open>The revisions the server has issued along a history.\<close>

fun issuedBy :: "editorEvent \<Rightarrow> string option set" where
  "issuedBy (AccessData q ro vs) = {vd_revision q}"
| "issuedBy (PutAccepted rid revision) = {Some revision}"
| "issuedBy _ = {}"

definition session_known :: "string option set \<Rightarrow> webUserAccessProfile list draftSession \<Rightarrow> bool" where
  "session_known R s \<longleftrightarrow> vd_revision (ds_baseline s) \<in> R \<and> (\<forall>r. ds_remote s = Some r \<longrightarrow> vd_revision r \<in> R)"

definition known :: "string option set \<Rightarrow> webEditor \<Rightarrow> bool" where
  "known R st \<longleftrightarrow> vd_revision (we_query st) \<in> R \<and> session_known R (we_session st) \<and> (\<forall>sub\<in>set (we_sent st). sd_revision sub \<in> R)"

lemma session_known_simps:
  "session_known R s \<Longrightarrow> vd_revision c \<in> R \<Longrightarrow> session_known R (acknowledgeSubmitted eq s sub c)"
  "session_known R s \<Longrightarrow> vd_revision fresh \<in> R \<Longrightarrow> session_known R (receiveRemote eq s fresh p)"
  "session_known R s \<Longrightarrow> session_known R (discardToRemote s)"
  "vd_revision fresh \<in> R \<Longrightarrow> session_known R (startSession k fresh)"
  "session_known R (s\<lparr>ds_draft := d\<rparr>) \<longleftrightarrow> session_known R s"
  by (auto simp: session_known_def acknowledgeSubmitted_def receiveRemote_def discardToRemote_def startSession_def Let_def split: option.splits)

lemma handle_known:
  assumes "known R st" "issuedBy e \<subseteq> R"
  shows "known R (webEditor_handle st e)"
  using assms
  by (cases e) (auto simp: known_def editor_defs session_known_simps split: option.split, auto simp: session_known_def)

lemma step_known:
  assumes "known R st" "issuedBy e \<subseteq> R"
  shows "known R (webEditor_step u st e)"
proof -
  have "session_known R (dh_session (draftEffect eq k fresh p h))" if "session_known R (dh_session h)" "vd_revision fresh \<in> R"
    for eq k fresh p and h :: "webUserAccessProfile list draftHook"
    using that by (auto simp: draftEffect_def session_known_simps split: prod.split)
  with handle_known [OF assms] show ?thesis
    by (simp add: webEditor_step_def known_def) (simp add: renderEditor_def)
qed

lemma run_known: "known R st \<Longrightarrow> \<Union> (issuedBy ` set es) \<subseteq> R \<Longrightarrow> known R (run (webEditor_step u) st es)"
  by (induction es arbitrary: st) (auto simp: step_known)

lemma sent_only_by_submit:
  "we_sent (webEditor_handle st e) = we_sent st \<or> (e = SubmitProfiles \<and> we_sent (webEditor_handle st e) \<noteq> we_sent st)"
  by (cases e) (auto simp: editor_defs split: option.split)

lemma submit_sends:
  assumes "we_sent (submitProfiles st) \<noteq> we_sent st"
  shows "\<not> we_readOnly st \<and> we_activeSave st = None \<and> editorDirty st \<and>
    (\<exists>sub. we_sent (submitProfiles st) = we_sent st @ [sub] \<and> sd_value sub = we_draft st \<and>
      sd_revision sub = vd_revision (ds_baseline (we_session st)) \<and> we_activeSave (submitProfiles st) = Some (sd_requestId sub))"
  using assms by (auto simp: submitProfiles_def Let_def split: if_splits)

lemma add_profile_draft:
  assumes "webEditor_ok u st"
  shows "we_draft (webEditor_step u st AddProfile) = (case nextProfile st of None \<Rightarrow> we_draft st | Some p \<Rightarrow> we_draft st @ [p])"
  using step_hook [OF assms, of AddProfile] by (simp add: setProfiles_def updateSession_def split: option.split)

text \<open>As long as the editor is mounted, every request under way -- sent, or confirmed with its refetch still
  running -- is the one that is awaited, so that there is never more than one.\<close>

definition one_flying :: "webEditor \<Rightarrow> bool" where
  "one_flying st \<longleftrightarrow> (\<forall>sub\<in>set (flying st). we_activeSave st = Some (sd_requestId sub))"

lemma one_flying_step:
  assumes ok: "webEditor_ok u st" and one: "one_flying st" and e: "e \<noteq> UnmountEditor"
  shows "one_flying (webEditor_step u st e)"
proof -
  have idle: "flying st = []" if "we_activeSave st = None" using one that by (cases "flying st") (auto simp: one_flying_def)
  have aw: "awaited sub st" if "inPhase rid ph st = Some sub" for rid ph sub
    using inPhase_mem [OF that] one ok
    by (force simp: one_flying_def flying_def awaited_def webEditor_ok_def hook_ok_def requests_ok_def)
  have aw': "awaited sub (settle i st) = awaited sub st" for sub i by (simp add: awaited_def settle_def)
  have "one_flying (webEditor_handle st e)"
  proof (cases e)
    case SubmitProfiles
    then show ?thesis using one idle
      by (auto simp: one_flying_def submitProfiles_def Let_def flying_def)
  next
    case (PutAccepted rid rev)
    then show ?thesis using one aw [of rid PutSent]
      by (auto simp: onPut_def putSuccess_def updateSession_def Let_def one_flying_def flying_def split: option.split)
  next
    case (Refreshed rid)
    have "one_flying (putRefreshed sub st)" if "awaited sub st" for sub
      using that one by (auto simp: putRefreshed_def Let_def aw' one_flying_def awaited_def)
    with Refreshed one aw show ?thesis by (simp add: onPut_def split: option.split)
  next
    case (PutFailed rid err)
    have "one_flying (putError sub err st)" if "awaited sub st" for sub
      using that one by (auto simp: putError_def Let_def aw' one_flying_def awaited_def)
    with PutFailed one aw show ?thesis by (simp add: onPut_def split: option.split)
  qed (use e one in \<open>auto simp: setProfiles_def updateSession_def discardProfiles_def one_flying_def flying_def split: option.split\<close>)
  then show ?thesis by (simp add: webEditor_step_def one_flying_def flying_def)
qed

lemma one_flying_run:
  "webEditor_ok u st \<Longrightarrow> one_flying st \<Longrightarrow> UnmountEditor \<notin> set es \<Longrightarrow> one_flying (run (webEditor_step u) st es)"
proof (induction es arbitrary: st)
  case (Cons e es)
  then have "one_flying (webEditor_step u st e)" by (intro one_flying_step) auto
  with Cons show ?case by (simp add: webEditor_step_ok)
qed simp

text \<open>C10. Only valid profiles are saved. Along every history of the editor each list sent to the server
  names no WEB host and mode twice, has a host in every profile and limits that are positive integers,
  belongs to the user of the editor and carries a revision the server issued; a list is sent only by a
  submit of changed profiles in an editor that may write and awaits no other save -- while it is mounted, only
  when no request of it is under way, answered or not -- and it is the draft
  shown, fenced by the revision it was edited from; and the profile the editor adds is never a
  duplicate, while none is added only when every host has both modes.\<close>

theorem web_access_sends_valid:
  fixes u :: string and q es e ro vs
  defines "st \<equiv> run (webEditor_step u) (mountEditor u q ro vs) es"
  defines "st' \<equiv> webEditor_step u st e"
  shows "(\<forall>sub\<in>set (we_sent st). profilesOk (sd_value sub) \<and> sd_sessionKey sub = u \<and>
      sd_revision sub \<in> insert (vd_revision q) (\<Union> (issuedBy ` set es))) \<and>
    (we_sent st' \<noteq> we_sent st \<longrightarrow> e = SubmitProfiles \<and> \<not> we_readOnly st \<and> we_activeSave st = None \<and> editorDirty st \<and>
      (\<exists>sub. we_sent st' = we_sent st @ [sub] \<and> sd_value sub = we_draft st \<and>
        sd_revision sub = vd_revision (ds_baseline (we_session st)) \<and> we_activeSave st' = Some (sd_requestId sub))) \<and>
    (we_sent st' \<noteq> we_sent st \<and> UnmountEditor \<notin> set es \<longrightarrow> we_inFlight st = []) \<and>
    (e = AddProfile \<and> \<not> hasDuplicateWebProfiles (we_draft st) \<and> (\<forall>p\<in>set (we_draft st). knownMode p) \<longrightarrow>
      \<not> hasDuplicateWebProfiles (we_draft st') \<and>
      (we_draft st' = we_draft st \<longrightarrow> (\<forall>v\<in>set (we_vhosts st). \<forall>m\<in>{''plain'', ''dd''}. profileUsed (we_draft st) v m)))"
proof (intro conjI impI)
  let ?R = "insert (vd_revision q) (\<Union> (issuedBy ` set es))"
  have ok: "webEditor_ok u st" unfolding st_def by (rule editor_reached_ok)
  have "known ?R (mountEditor u q ro vs)"
    by (simp add: known_def mountEditor_def useDraftSession_def startSession_def session_known_def)
  then have "known ?R st" unfolding st_def by (rule run_known) blast
  with ok show "\<forall>sub\<in>set (we_sent st). profilesOk (sd_value sub) \<and> sd_sessionKey sub = u \<and> sd_revision sub \<in> ?R"
    by (simp add: known_def webEditor_ok_def requests_ok_def)
  assume "we_sent st' \<noteq> we_sent st"
  then have "e = SubmitProfiles" "we_sent (submitProfiles st) \<noteq> we_sent st"
    using sent_only_by_submit [of st e] by (auto simp: st'_def webEditor_step_def)
  with submit_sends show "e = SubmitProfiles" "\<not> we_readOnly st" "we_activeSave st = None" "editorDirty st"
    "\<exists>sub. we_sent st' = we_sent st @ [sub] \<and> sd_value sub = we_draft st \<and>
        sd_revision sub = vd_revision (ds_baseline (we_session st)) \<and> we_activeSave st' = Some (sd_requestId sub)"
    by (simp_all add: st'_def webEditor_step_def)
next
  assume a: "we_sent st' \<noteq> we_sent st \<and> UnmountEditor \<notin> set es"
  then have "one_flying st"
    unfolding st_def by (intro one_flying_run mount_ok) (simp_all add: one_flying_def flying_def mountEditor_def)
  moreover have "we_activeSave st = None"
    using a sent_only_by_submit [of st e] submit_sends [of st] by (auto simp: st'_def webEditor_step_def)
  ultimately show "we_inFlight st = []" by (cases "we_inFlight st") (auto simp: one_flying_def flying_def)
next
  have ok: "webEditor_ok u st" unfolding st_def by (rule editor_reached_ok)
  assume a: "e = AddProfile \<and> \<not> hasDuplicateWebProfiles (we_draft st) \<and> (\<forall>p\<in>set (we_draft st). knownMode p)"
  then have d: "we_draft st' = (case nextProfile st of None \<Rightarrow> we_draft st | Some p \<Rightarrow> we_draft st @ [p])"
    using add_profile_draft [OF ok] by (simp add: st'_def)
  show "\<not> hasDuplicateWebProfiles (we_draft st')"
    using a d add_no_duplicate [of "we_vhosts st" "we_draft st"] by (simp add: nextProfile_def split: option.splits)
  assume "we_draft st' = we_draft st"
  then have "nextProfile st = None" using d by (simp split: option.splits)
  then show "\<forall>v\<in>set (we_vhosts st). \<forall>m\<in>{''plain'', ''dd''}. profileUsed (we_draft st) v m"
    by (simp only: nextProfile_def findAvailable_none)
qed

definition emptyAccess :: "webUserAccessProfile list versionedDraft" where
  "emptyAccess = \<lparr>vd_value = [], vd_revision = Some ''r1''\<rparr>"

lemmas editor_eval = webEditor_step_def renderEditor_def draftEffect_def mountEditor_def useDraftSession_def startSession_def emptyAccess_def
  nextProfile_def profileUsed_def freshProfile_def hasDuplicate_iff invalidProfiles_def validLimit_def editorDirty_def editor_defs

text \<open>A profile is added to an empty list and submitted.\<close>

theorem web_access_sends_valid_witness:
  "map (\<lambda>sub. (sd_sessionKey sub, sd_revision sub, profilesOk (sd_value sub)))
     (we_sent (run (webEditor_step ''bob'') (mountEditor ''bob'' emptyAccess False [''a.example'']) [AddProfile, SubmitProfiles])) =
   [(''bob'', Some ''r1'', True)]"
proof -
  let ?sent = "we_sent (run (webEditor_step ''bob'') (mountEditor ''bob'' emptyAccess False [''a.example'']) [AddProfile, SubmitProfiles])"
  have "length ?sent = 1" by (simp add: editor_eval)
  then obtain sub where "?sent = [sub]" by (auto simp: length_Suc_conv)
  with web_access_sends_valid [of "''bob''" emptyAccess False "[''a.example'']" "[AddProfile, SubmitProfiles]" AddProfile]
  show ?thesis by (simp add: emptyAccess_def)
qed

subsection \<open>What is kept\<close>

fun answerTo :: "editorEvent \<Rightarrow> nat option" where
  "answerTo (PutAccepted rid revision) = Some rid"
| "answerTo (Refreshed rid) = Some rid"
| "answerTo (PutFailed rid err) = Some rid"
| "answerTo _ = None"

fun editsProfiles :: "editorEvent \<Rightarrow> bool" where
  "editsProfiles (EditProfile i patch) = True"
| "editsProfiles (RemoveProfile i) = True"
| "editsProfiles AddProfile = True"
| "editsProfiles DiscardProfiles = True"
| "editsProfiles _ = False"

lemma editorDirty_dirty: "editorDirty st \<longleftrightarrow> profiles_draft.dirty (we_session st)"
  by (simp add: editorDirty_def profiles_draft.dirty_def)

lemma data_keeps_dirty:
  assumes "webEditor_ok u st" "editorDirty st"
  shows "we_draft (webEditor_step u st (AccessData q ro vs)) = we_draft st"
  using assms profiles_draft.effect_keeps_dirty_draft [of "we_hook st" u q False]
  by (simp add: webEditor_step_def renderEditor_def editorDirty_dirty webEditor_ok_def hook_ok_def)

lemma late_answer_ignored:
  assumes "answerTo e = Some rid" "we_activeSave st \<noteq> Some rid"
  shows "webEditor_handle st e = st \<or> webEditor_handle st e = settle rid st"
proof -
  have late: "putSuccess sub revision st = settle rid st \<and> putRefreshed sub st = settle rid st \<and> putError sub err st = settle rid st"
    if "inPhase rid ph st = Some sub" for sub ph revision err
  proof -
    have "sd_requestId sub = rid" using inPhase_mem [OF that] by simp
    moreover from this have "\<not> awaited sub st" "\<not> awaited sub (settle rid st)"
      using assms(2) by (simp_all add: awaited_def settle_def)
    ultimately show ?thesis by (simp add: putSuccess_def putRefreshed_def putError_def)
  qed
  from assms(1) show ?thesis by (cases e) (auto simp: onPut_def late split: option.split)
qed

lemma accepted_draft:
  assumes "webEditor_ok u st" "inPhase rid PutSent st = Some sub" "we_draft (putSuccess sub revision st) \<noteq> we_draft st"
  shows "sub \<in> set (we_sent st) \<and> sd_requestId sub = rid \<and> we_activeSave st = Some rid \<and> sd_value sub = we_draft st \<and>
    \<not> editorDirty (putSuccess sub revision st)"
proof -
  have sub: "sub \<in> set (we_sent st)" "sd_requestId sub = rid"
    using inPhase_mem [OF assms(2)] assms(1) by (force simp: webEditor_ok_def requests_ok_def flying_def)+
  have aw: "awaited sub st" using assms(3) by (auto simp: putSuccess_def settle_def split: if_splits)
  then have s: "we_session (putSuccess sub revision st) =
      acknowledgeSubmitted equalProfiles (we_session st) sub \<lparr>vd_value = sd_value sub, vd_revision = Some revision\<rparr>"
    by (simp add: putSuccess_def updateSession_def Let_def)
  have eq: "equalProfiles (we_draft st) (sd_value sub)"
    using profiles_draft.acknowledge_keeps_later_edit assms(3) s by metis
  then have "\<not> editorDirty (putSuccess sub revision st)"
    using profiles_draft.acknowledge_clean aw s by (simp add: editorDirty_dirty awaited_def)
  with sub aw eq show ?thesis by (simp add: awaited_def)
qed

lemma handle_draft:
  assumes "webEditor_ok u st" "\<not> editsProfiles e" "\<And>q ro vs. e \<noteq> AccessData q ro vs" "we_draft (webEditor_handle st e) \<noteq> we_draft st"
  shows "\<exists>rid revision sub. e = PutAccepted rid revision \<and> sub \<in> set (we_sent st) \<and> sd_requestId sub = rid \<and> we_activeSave st = Some rid \<and>
    sd_value sub = we_draft st \<and> \<not> editorDirty (webEditor_handle st e)"
proof (cases e)
  case (PutAccepted rid revision)
  then obtain sub where "inPhase rid PutSent st = Some sub" "we_draft (putSuccess sub revision st) \<noteq> we_draft st"
    using assms(4) by (auto simp: onPut_def split: option.splits)
  with accepted_draft [OF assms(1)] PutAccepted show ?thesis by (auto simp: onPut_def)
qed (use assms in \<open>auto simp: editor_defs split: option.splits if_splits\<close>)

lemma editorDirty_step:
  assumes "webEditor_ok u st" "\<And>q ro vs. e \<noteq> AccessData q ro vs"
  shows "editorDirty (webEditor_step u st e) = editorDirty (webEditor_handle st e)"
  using step_hook [OF assms] by (simp add: editorDirty_def)

lemma handle_closes:
  assumes "we_closes (webEditor_handle st e) \<noteq> we_closes st"
  shows "e = CancelEditor \<or> (\<exists>rid. e = Refreshed rid \<and> we_activeSave st = Some rid \<and>
    \<not> editorDirty (webEditor_handle st e) \<and> ds_remote (we_session (webEditor_handle st e)) = None)"
  using assms
  by (cases e) (auto simp: editor_defs editorDirty_def dest: inPhase_mem split: option.splits if_splits)

lemma handle_failure:
  fixes st :: webEditor and err :: json
  assumes "webEditor_ok u st" "we_activeSave st = Some rid" "inPhase rid PutSent st \<noteq> None"
  defines "st' \<equiv> webEditor_handle st (PutFailed rid err)"
  shows "we_hook st' = we_hook st \<and> we_activeSave st' = None \<and> we_notices st' = we_notices st @ [NProfilesError err] \<and>
    we_conflict st' = (we_conflict st \<or> apiErrorCode err = Some ''revision_conflict'')"
proof -
  from assms(3) obtain sub where sub: "inPhase rid PutSent st = Some sub" by blast
  then have "sub \<in> set (flying st)" "sd_requestId sub = rid" using inPhase_mem by (force simp: flying_def)+
  then have "awaited sub (settle rid st)" using assms(1,2) by (auto simp: awaited_def settle_def webEditor_ok_def hook_ok_def requests_ok_def)
  with sub \<open>sd_requestId sub = rid\<close> show ?thesis by (simp add: st'_def onPut_def putError_def Let_def) (simp add: settle_def)
qed

text \<open>C11. Unsaved profiles are kept. Along every history of the editor, with the answers in any order: changed
  profiles stay as they are until the admin edits or discards them, or until the awaited save of
  exactly those profiles is accepted, which leaves nothing unsaved; an answer that is not to the
  awaited save changes nothing shown; a refused save keeps draft and baseline, says so and marks a
  conflict exactly when the revision was stale; and the editor closes by itself only after an accepted save
  whose profiles are still the ones shown, with no newer version of the server pending.\<close>

theorem web_access_draft_kept:
  fixes u :: string and q es e ro vs
  defines "st \<equiv> run (webEditor_step u) (mountEditor u q ro vs) es"
  defines "st' \<equiv> webEditor_step u st e"
  shows "(editorDirty st \<and> \<not> editsProfiles e \<and> we_draft st' \<noteq> we_draft st \<longrightarrow>
      (\<exists>rid revision sub. e = PutAccepted rid revision \<and> sub \<in> set (we_sent st) \<and> sd_requestId sub = rid \<and> we_activeSave st = Some rid \<and>
        sd_value sub = we_draft st \<and> \<not> editorDirty st')) \<and>
    (\<forall>rid. answerTo e = Some rid \<and> we_activeSave st \<noteq> Some rid \<longrightarrow>
      we_hook st' = we_hook st \<and> we_conflict st' = we_conflict st \<and> we_notices st' = we_notices st \<and> we_closes st' = we_closes st) \<and>
    (\<forall>rid err. e = PutFailed rid err \<and> we_activeSave st = Some rid \<and> inPhase rid PutSent st \<noteq> None \<longrightarrow>
      we_hook st' = we_hook st \<and> we_activeSave st' = None \<and> we_notices st' = we_notices st @ [NProfilesError err] \<and>
      we_conflict st' = (we_conflict st \<or> apiErrorCode err = Some ''revision_conflict'')) \<and>
    (we_closes st' \<noteq> we_closes st \<longrightarrow> e = CancelEditor \<or>
      (\<exists>rid. e = Refreshed rid \<and> we_activeSave st = Some rid \<and> \<not> editorDirty st' \<and> ds_remote (we_session st') = None))"
proof -
  have ok: "webEditor_ok u st" unfolding st_def by (rule editor_reached_ok)
  have hook: "we_hook st' = we_hook (webEditor_handle st e)" "editorDirty st' = editorDirty (webEditor_handle st e)"
    if "\<And>q ro vs. e \<noteq> AccessData q ro vs"
    using step_hook [OF ok that] editorDirty_step [OF ok that] by (simp_all add: st'_def)
  have kept: "\<exists>rid revision sub. e = PutAccepted rid revision \<and> sub \<in> set (we_sent st) \<and> sd_requestId sub = rid \<and>
      we_activeSave st = Some rid \<and> sd_value sub = we_draft st \<and> \<not> editorDirty st'"
    if "editorDirty st" "\<not> editsProfiles e" "we_draft st' \<noteq> we_draft st"
  proof -
    have nd: "\<And>q ro vs. e \<noteq> AccessData q ro vs" using that(1,3) data_keeps_dirty [OF ok] by (auto simp: st'_def)
    with handle_draft [OF ok that(2) nd] hook that(3) show ?thesis by simp
  qed
  have late: "we_hook st' = we_hook st \<and> we_conflict st' = we_conflict st \<and> we_notices st' = we_notices st \<and> we_closes st' = we_closes st"
    if "answerTo e = Some rid" "we_activeSave st \<noteq> Some rid" for rid
  proof -
    have "\<And>q ro vs. e \<noteq> AccessData q ro vs" using that(1) by auto
    with late_answer_ignored [OF that] hook(1) show ?thesis by (auto simp: st'_def webEditor_step_def settle_def)
  qed
  have failed: "we_hook st' = we_hook st \<and> we_activeSave st' = None \<and> we_notices st' = we_notices st @ [NProfilesError err] \<and>
      we_conflict st' = (we_conflict st \<or> apiErrorCode err = Some ''revision_conflict'')"
    if "e = PutFailed rid err" "we_activeSave st = Some rid" "inPhase rid PutSent st \<noteq> None" for rid err
    using handle_failure [OF ok that(2,3), of err] hook(1) by (simp add: st'_def webEditor_step_def that(1) del: webEditor_handle.simps)
  have closed: "e = CancelEditor \<or> (\<exists>rid. e = Refreshed rid \<and> we_activeSave st = Some rid \<and> \<not> editorDirty st' \<and> ds_remote (we_session st') = None)"
    if "we_closes st' \<noteq> we_closes st"
    using handle_closes [of st e] hook that by (auto simp: st'_def webEditor_step_def simp del: webEditor_handle.simps)
  show ?thesis using kept late failed closed by blast
qed

text \<open>The save of a new profile is refused while it is shown.\<close>

theorem web_access_draft_kept_witness:
  "we_notices (webEditor_step ''bob'' (run (webEditor_step ''bob'') (mountEditor ''bob'' emptyAccess False [''a.example'']) [AddProfile, SubmitProfiles])
     (PutFailed 1 JNull)) = [NProfilesError JNull]"
proof -
  let ?st = "run (webEditor_step ''bob'') (mountEditor ''bob'' emptyAccess False [''a.example'']) [AddProfile, SubmitProfiles]"
  have "we_activeSave ?st = Some 1" "inPhase 1 PutSent ?st \<noteq> None" "we_notices ?st = []"
    by (simp_all add: editor_eval inPhase_def)
  with web_access_draft_kept [of "''bob''" emptyAccess False "[''a.example'']" "[AddProfile, SubmitProfiles]" "PutFailed 1 JNull"]
  show ?thesis by simp
qed

end
