(* ===== verification/Web_Close.thy ===== *)
theory Web_Close
  imports Api_Error
begin

text \<open>
  Closing WEB sessions: polling an asynchronous operation of Telemt (\<open>web/src/lib/useTelemtOperation.ts\<close>),
  what a close request selects (\<open>web/src/pulse/diag/web.helpers.ts\<close>, \<open>web.view.helpers.ts\<close> and the bulk action of
  \<open>WebSessionsSection.tsx\<close>), the one report of its outcome (\<open>useWebCloseReport.ts\<close>) and the page that
  connects them (\<open>WebPage.tsx\<close>).

  The query library is a parameter: \<open>answer q r\<close> is the state of a query after one more request was
  answered with \<open>r\<close>, an error (\<open>Inl\<close>) or data (\<open>Inr\<close>). The code relies on its documented counters and fields,
  which \<open>query_contract\<close> states.
\<close>

subsection \<open>Polling until a terminal state\<close>

definition OPERATION_POLL_MS :: number where
  "OPERATION_POLL_MS = 1000"

definition OPERATION_POLL_MAX_MS :: number where
  "OPERATION_POLL_MAX_MS = 5000"

definition OPERATION_POLL_LIMIT :: nat where
  "OPERATION_POLL_LIMIT = 40"

record pollSchedule =
  sc_startMs :: "number option"
  sc_maxMs :: "number option"
  sc_maxPolls :: "nat option"

record 'd pollQueryState =
  pq_data :: "'d option"
  pq_error :: "json option"
  pq_dataUpdateCount :: nat
  pq_errorUpdateCount :: nat

definition orDefault :: "'a \<Rightarrow> 'a option \<Rightarrow> 'a" where
  "orDefault d v = (case v of Some x \<Rightarrow> x | None \<Rightarrow> d)"

text \<open>The interval until the next request, \<open>None\<close> for \<open>false\<close>.\<close>

definition pollUntilTerminal :: "('d \<Rightarrow> bool) \<Rightarrow> pollSchedule \<Rightarrow> 'd pollQueryState \<Rightarrow> number option" where
  "pollUntilTerminal isTerminal schedule query =
    (let startMs = orDefault OPERATION_POLL_MS (sc_startMs schedule);
         maxMs = orDefault OPERATION_POLL_MAX_MS (sc_maxMs schedule);
         maxPolls = orDefault OPERATION_POLL_LIMIT (sc_maxPolls schedule)
     in if (case pq_data query of Some dat \<Rightarrow> isTerminal dat | None \<Rightarrow> False) then None
        else let answered = pq_dataUpdateCount query + pq_errorUpdateCount query
             in if maxPolls \<le> answered then None
                else Some (min maxMs (startMs * 2 ^ (answered - 1))))"

datatype webOperationState = OpQueued | OpRunning | OpCompleted | OpCancelled | OpFailed

definition isTerminalWebOperationState :: "webOperationState \<Rightarrow> bool" where
  "isTerminalWebOperationState st \<longleftrightarrow> st = OpCompleted \<or> st = OpCancelled \<or> st = OpFailed"

record webControlOperationStatus =
  wo_operation_id :: string
  wo_state :: webOperationState
  wo_high_water_session_ref :: "string option"
  wo_requested :: number
  wo_scanned :: number
  wo_matched :: number
  wo_close_signalled :: number
  wo_conflicted :: number
  wo_created_epoch_millis :: number
  wo_updated_epoch_millis :: number
  wo_failure :: "string option"

definition operationSchedule :: pollSchedule where
  "operationSchedule = \<lparr>sc_startMs = None, sc_maxMs = None, sc_maxPolls = None\<rparr>"

definition operationInterval :: "webControlOperationStatus pollQueryState \<Rightarrow> number option" where
  "operationInterval = pollUntilTerminal (\<lambda>dat. isTerminalWebOperationState (wo_state dat)) operationSchedule"

subsection \<open>What a close request selects\<close>

datatype filterValue = FStr string | FBool bool | FList "string list"

definition WEB_FILTER_CARRIER :: string where
  "WEB_FILTER_CARRIER = ''web.carrier''"

definition WEB_FILTER_STATE :: string where
  "WEB_FILTER_STATE = ''web.state''"

definition WEB_FILTER_USER :: string where
  "WEB_FILTER_USER = ''web.user''"

definition WEB_CLOSE_MAX_REFS :: nat where
  "WEB_CLOSE_MAX_REFS = 200"

text \<open>The selectors the panel builds, with the criteria it sets.\<close>

datatype closeSelector =
    SelRefs "string list"
  | SelFilter (sel_carrier: "string option") (sel_state: "string option") (sel_user: "string option")
  | SelAll

datatype closeIntent =
    CloseSession string
  | CloseFilter "(string \<times> filterValue) list" nat
  | CloseRefs "string list"
  | CloseAll

definition filterText :: "(string \<times> filterValue) list \<Rightarrow> string \<Rightarrow> string option" where
  "filterText filters key = (case map_of filters key of Some (FStr v) \<Rightarrow> if v = [] then None else Some v | _ \<Rightarrow> None)"

definition webFilterSelector :: "(string \<times> filterValue) list \<Rightarrow> closeSelector option" where
  "webFilterSelector filters =
    (let carrier = filterText filters WEB_FILTER_CARRIER; state = filterText filters WEB_FILTER_STATE;
         user = filterText filters WEB_FILTER_USER
     in if carrier = None \<and> state = None \<and> user = None then None else Some (SelFilter carrier state user))"

record closeScope =
  sp_filters :: "(string \<times> filterValue) list"
  sp_visibleKeys :: "string list"
  sp_narrowed :: bool

definition webCloseIntent :: "closeScope \<Rightarrow> closeIntent option" where
  "webCloseIntent scope =
    (if \<not> sp_narrowed scope \<and> webFilterSelector (sp_filters scope) \<noteq> None
     then Some (CloseFilter (sp_filters scope) (length (sp_visibleKeys scope)))
     else if sp_visibleKeys scope = [] then None
     else if WEB_CLOSE_MAX_REFS < length (sp_visibleKeys scope) then None
     else Some (CloseRefs (sp_visibleKeys scope)))"

fun webCloseSelector :: "closeIntent \<Rightarrow> closeSelector" where
  "webCloseSelector (CloseSession ref) = SelRefs [ref]"
| "webCloseSelector (CloseRefs refs) = SelRefs refs"
| "webCloseSelector CloseAll = SelAll"
| "webCloseSelector (CloseFilter filters visible) =
    (case webFilterSelector filters of Some sel \<Rightarrow> sel | None \<Rightarrow> SelAll)"

definition webFilterSummary :: "(string \<times> filterValue) list \<Rightarrow> dict \<Rightarrow> string option" where
  "webFilterSummary filters s =
    (let parts = List.map_filter (\<lambda>(key, label). map_option (\<lambda>v. label @ '': '' @ v) (filterText filters key))
           [(WEB_FILTER_CARRIER, di_text s ''details.pages.web.filterCarrier''),
            (WEB_FILTER_STATE, di_text s ''details.pages.web.filterState''),
            (WEB_FILTER_USER, di_text s ''details.pages.web.filterUser'')]
     in if parts = [] then None else Some (join [CHR '' '', CHR 0xB7, CHR '' ''] parts))"

record webSessionRow =
  wr_session_ref :: string
  wr_user_agent :: "string option"
  wr_user_agent_id :: "string option"
  wr_trace_session_id :: number
  wr_client_ip :: string
  wr_host :: string
  wr_user :: string
  wr_key_id :: string
  wr_carrier :: string
  wr_attempt :: number
  wr_client_class :: string
  wr_automatic :: bool
  wr_state :: string
  wr_health_publication :: "string option"
  wr_streams :: number
  wr_tasks :: number
  wr_lanes :: number
  wr_lane_open_waits :: number
  wr_websocket_lane_reservations :: number
  wr_websocket_active :: bool
  wr_pending_bytes :: number
  wr_pending_items :: number
  wr_control_bytes :: number
  wr_control_items :: number
  wr_age_ms :: number
  wr_idle_ms :: number
  wr_peer_idle_ms :: "number option"
  wr_reconnect_grace_ms :: "number option"
  wr_peer_deadline_remaining_ms :: "number option"
  wr_negotiation_remaining_ms :: "number option"

datatype webSessionFilter = WAll | WHealthy | WProvisional | WHttpsLanes | WWebsocket

fun webFilterName :: "webSessionFilter \<Rightarrow> string" where
  "webFilterName WAll = ''all''"
| "webFilterName WHealthy = ''healthy''"
| "webFilterName WProvisional = ''provisional''"
| "webFilterName WHttpsLanes = ''https-lanes''"
| "webFilterName WWebsocket = ''websocket''"

definition webSessionMatches :: "webSessionRow \<Rightarrow> webSessionFilter \<Rightarrow> string \<Rightarrow> bool" where
  "webSessionMatches row filter' query =
    (let matchesFilter = (filter' = WAll \<or> wr_state row = webFilterName filter' \<or> wr_carrier row = webFilterName filter')
     in if \<not> matchesFilter then False
        else let needle = to_lower (trim query)
             in if needle = [] then True
                else str_includes (to_lower (join '' '' [wr_user row, wr_client_ip row, wr_host row, wr_session_ref row,
                       orDefault [] (wr_user_agent row), orDefault [] (wr_user_agent_id row), wr_key_id row])) needle)"

definition sectionFilters :: "webSessionFilter \<Rightarrow> (string \<times> filterValue) list" where
  "sectionFilters filter' =
    (if filter' = WHttpsLanes \<or> filter' = WWebsocket then [(WEB_FILTER_CARRIER, FStr (webFilterName filter'))]
     else if filter' = WHealthy \<or> filter' = WProvisional then [(WEB_FILTER_STATE, FStr (webFilterName filter'))]
     else [])"

definition bulkIntent :: "webSessionRow list \<Rightarrow> webSessionFilter \<Rightarrow> string \<Rightarrow> closeIntent option" where
  "bulkIntent rows filter' query =
    webCloseIntent \<lparr>sp_filters = sectionFilters filter',
      sp_visibleKeys = map wr_session_ref (filter (\<lambda>row. webSessionMatches row filter' query) rows),
      sp_narrowed = (trim query \<noteq> [])\<rparr>"

subsection \<open>The report of an outcome\<close>

record toast =
  toast_text :: string
  toast_tone :: string

record closeReport =
  cr_reportedFor :: "string option"
  cr_failedFor :: "string option"
  cr_toasts :: "toast list"
  cr_settled :: nat
  cr_registryMoved :: nat

text \<open>The two effects of the hook. \<open>cr_settled\<close> and \<open>cr_registryMoved\<close> count the calls of the callbacks.\<close>

definition reportEffect :: "dict \<Rightarrow> webControlOperationStatus option \<Rightarrow> closeReport \<Rightarrow> closeReport" where
  "reportEffect s dat st =
    (case dat of
       None \<Rightarrow> st
     | Some d \<Rightarrow>
         if \<not> isTerminalWebOperationState (wo_state d) then st
         else if cr_reportedFor st = Some (wo_operation_id d) then st
         else st\<lparr>cr_reportedFor := Some (wo_operation_id d),
                 cr_toasts := cr_toasts st @
                   (if wo_state d = OpCompleted
                    then \<lparr>toast_text = fill (di_text s ''details.pages.web.closeDoneTemplate'') [(''count'', num_str (wo_close_signalled d))],
                          toast_tone = ''ok''\<rparr> #
                         (if 0 < wo_conflicted d
                          then [\<lparr>toast_text = fill (di_text s ''details.pages.web.closeConflictTemplate'') [(''count'', num_str (wo_conflicted d))],
                                 toast_tone = ''default''\<rparr>]
                          else [])
                    else [\<lparr>toast_text = di_text s ''details.pages.web.closeFailed'', toast_tone = ''error''\<rparr>]),
                 cr_settled := Suc (cr_settled st), cr_registryMoved := Suc (cr_registryMoved st)\<rparr>)"

definition failEffect :: "dict \<Rightarrow> string option \<Rightarrow> json option \<Rightarrow> closeReport \<Rightarrow> closeReport" where
  "failEffect s operationId err st =
    (case (operationId, err) of
       (Some oid, Some e) \<Rightarrow>
         if cr_failedFor st = Some oid then st
         else st\<lparr>cr_failedFor := Some oid, cr_toasts := cr_toasts st @ [\<lparr>toast_text = apiErrorMessage e s, toast_tone = ''error''\<rparr>],
                 cr_settled := Suc (cr_settled st)\<rparr>
     | _ \<Rightarrow> st)"

subsection \<open>The page\<close>

record webPage =
  wp_runtimeInstance :: "string option"
  wp_intent :: "closeIntent option"
  wp_selectedSession :: "string option"
  wp_operationId :: "string option"
  wp_queries :: "(string \<times> webControlOperationStatus pollQueryState) list"
  wp_report :: closeReport
  wp_toasts :: "toast list"
  wp_requests :: "(string \<times> closeSelector) list"

definition emptyQuery :: "'d pollQueryState" where
  "emptyQuery = \<lparr>pq_data = None, pq_error = None, pq_dataUpdateCount = 0, pq_errorUpdateCount = 0\<rparr>"

text \<open>The state of the operation query: that of the key of the operation polled, empty when the query is
  disabled.\<close>

definition operationQuery :: "webPage \<Rightarrow> webControlOperationStatus pollQueryState" where
  "operationQuery st =
    (case wp_operationId st of None \<Rightarrow> emptyQuery | Some oid \<Rightarrow> orDefault emptyQuery (mget (wp_queries st) oid))"

definition initialPage :: webPage where
  "initialPage = \<lparr>wp_runtimeInstance = None, wp_intent = None, wp_selectedSession = None, wp_operationId = None, wp_queries = [],
     wp_report = \<lparr>cr_reportedFor = None, cr_failedFor = None, cr_toasts = [], cr_settled = 0, cr_registryMoved = 0\<rparr>,
     wp_toasts = [], wp_requests = []\<rparr>"

definition submitClose :: "webPage \<Rightarrow> webPage" where
  "submitClose st =
    (case (wp_intent st, wp_runtimeInstance st) of
       (Some intent, Some instance') \<Rightarrow> st\<lparr>wp_requests := wp_requests st @ [(instance', webCloseSelector intent)]\<rparr>
     | _ \<Rightarrow> st)"

definition closeSurface :: "webPage \<Rightarrow> webPage" where
  "closeSurface st = (if wp_intent st \<noteq> None then st\<lparr>wp_intent := None\<rparr> else st\<lparr>wp_selectedSession := None\<rparr>)"

fun isSession :: "closeIntent option \<Rightarrow> bool" where
  "isSession (Some (CloseSession _)) = True"
| "isSession _ = False"

definition closeSuccess :: "dict \<Rightarrow> string \<Rightarrow> webPage \<Rightarrow> webPage" where
  "closeSuccess s oid st =
    st\<lparr>wp_selectedSession := (if isSession (wp_intent st) then None else wp_selectedSession st),
       wp_intent := None, wp_operationId := Some oid,
       wp_toasts := wp_toasts st @ [\<lparr>toast_text = di_text s ''details.pages.web.closeStarted'', toast_tone = ''ok''\<rparr>]\<rparr>"

definition closeError :: "dict \<Rightarrow> json \<Rightarrow> webPage \<Rightarrow> webPage" where
  "closeError s err st =
    st\<lparr>wp_intent := None, wp_toasts := wp_toasts st @ [\<lparr>toast_text = apiErrorMessage err s, toast_tone = ''error''\<rparr>]\<rparr>"

text \<open>A render runs the two effects on the query of the operation; a call of \<open>onSettled\<close> clears the
  operation.\<close>

definition renderPage :: "dict \<Rightarrow> webPage \<Rightarrow> webPage" where
  "renderPage s st =
    (let q = operationQuery st;
         r = failEffect s (wp_operationId st) (pq_error q) (reportEffect s (pq_data q) (wp_report st))
     in st\<lparr>wp_report := r, wp_operationId := (if cr_settled r = cr_settled (wp_report st) then wp_operationId st else None)\<rparr>)"

datatype webPageEvent =
    RuntimeSeen "string option"
  | ChooseIntent closeIntent
  | SelectSession string
  | CloseSurface
  | SubmitClose
  | CloseAccepted string
  | CloseRejected json
  | PollAnswered "json + webControlOperationStatus"

fun page_handle ::
  "(webControlOperationStatus pollQueryState \<Rightarrow> json + webControlOperationStatus \<Rightarrow> webControlOperationStatus pollQueryState) \<Rightarrow>
   dict \<Rightarrow> webPage \<Rightarrow> webPageEvent \<Rightarrow> webPage" where
  "page_handle answer s st (RuntimeSeen r) = st\<lparr>wp_runtimeInstance := r\<rparr>"
| "page_handle answer s st (ChooseIntent i) = st\<lparr>wp_intent := Some i\<rparr>"
| "page_handle answer s st (SelectSession r) = st\<lparr>wp_selectedSession := Some r\<rparr>"
| "page_handle answer s st CloseSurface = closeSurface st"
| "page_handle answer s st SubmitClose = submitClose st"
| "page_handle answer s st (CloseAccepted oid) = closeSuccess s oid st"
| "page_handle answer s st (CloseRejected err) = closeError s err st"
| "page_handle answer s st (PollAnswered r) =
    (case wp_operationId st of
       None \<Rightarrow> st
     | Some oid \<Rightarrow> st\<lparr>wp_queries := mset_key (wp_queries st) oid (answer (operationQuery st) r)\<rparr>)"

definition page_step ::
  "(webControlOperationStatus pollQueryState \<Rightarrow> json + webControlOperationStatus \<Rightarrow> webControlOperationStatus pollQueryState) \<Rightarrow>
   dict \<Rightarrow> webPage \<Rightarrow> webPageEvent \<Rightarrow> webPage" where
  "page_step answer s st e = renderPage s (page_handle answer s st e)"

end
