(* ===== verification/Web_Close_Props.thy ===== *)
theory Web_Close_Props
  imports Web_Close
begin

text \<open>
  Closing WEB sessions: polling ends and stays within its time, a bulk close selects exactly the rows on
  screen, and the outcome of an operation is reported once, in the step that learns it.
\<close>

text \<open>What the code relies on in the query library: an answer with data replaces the data and clears the
  error, a failed request keeps the data, and each counts once.\<close>

definition query_contract :: "('d pollQueryState \<Rightarrow> json + 'd \<Rightarrow> 'd pollQueryState) \<Rightarrow> bool" where
  "query_contract answer \<longleftrightarrow>
    (\<forall>q d. pq_data (answer q (Inr d)) = Some d \<and> pq_error (answer q (Inr d)) = None \<and>
       pq_dataUpdateCount (answer q (Inr d)) = Suc (pq_dataUpdateCount q) \<and> pq_errorUpdateCount (answer q (Inr d)) = pq_errorUpdateCount q) \<and>
    (\<forall>q e. pq_data (answer q (Inl e)) = pq_data q \<and> pq_error (answer q (Inl e)) = Some e \<and>
       pq_dataUpdateCount (answer q (Inl e)) = pq_dataUpdateCount q \<and> pq_errorUpdateCount (answer q (Inl e)) = Suc (pq_errorUpdateCount q))"

definition recordAnswer :: "'d pollQueryState \<Rightarrow> json + 'd \<Rightarrow> 'd pollQueryState" where
  "recordAnswer q r =
    (case r of Inr d \<Rightarrow> q\<lparr>pq_data := Some d, pq_error := None, pq_dataUpdateCount := Suc (pq_dataUpdateCount q)\<rparr>
     | Inl e \<Rightarrow> q\<lparr>pq_error := Some e, pq_errorUpdateCount := Suc (pq_errorUpdateCount q)\<rparr>)"

lemma recordAnswer_contract: "query_contract recordAnswer"
  by (simp add: query_contract_def recordAnswer_def)

subsection \<open>Polling ends\<close>

definition answered :: "'d pollQueryState \<Rightarrow> nat" where
  "answered q = pq_dataUpdateCount q + pq_errorUpdateCount q"

lemma answered_answer: "query_contract answer \<Longrightarrow> answered (answer q r) = Suc (answered q)"
  by (cases r) (simp_all add: query_contract_def answered_def)

text \<open>The query after the first \<open>n\<close> replies.\<close>

definition queryAfter :: "('d pollQueryState \<Rightarrow> json + 'd \<Rightarrow> 'd pollQueryState) \<Rightarrow> (nat \<Rightarrow> json + 'd) \<Rightarrow> nat \<Rightarrow> 'd pollQueryState" where
  "queryAfter answer replies n = foldl answer emptyQuery (map replies [0..<n])"

lemma queryAfter_simps [simp]:
  "queryAfter answer replies 0 = emptyQuery"
  "queryAfter answer replies (Suc n) = answer (queryAfter answer replies n) (replies n)"
  by (simp_all add: queryAfter_def)

lemma answered_after: "query_contract answer \<Longrightarrow> answered (queryAfter answer replies n) = n"
  by (induction n) (simp_all add: answered_answer, simp add: answered_def emptyQuery_def)

lemma poll_interval:
  assumes "pollUntilTerminal isT sch q = Some ms"
  shows "answered q < orDefault OPERATION_POLL_LIMIT (sc_maxPolls sch) \<and>
    ms = min (orDefault OPERATION_POLL_MAX_MS (sc_maxMs sch)) (orDefault OPERATION_POLL_MS (sc_startMs sch) * 2 ^ (answered q - 1))"
  using assms by (auto simp: pollUntilTerminal_def answered_def Let_def split: if_splits)

lemma poll_stops_at_limit:
  "orDefault OPERATION_POLL_LIMIT (sc_maxPolls sch) \<le> answered q \<Longrightarrow> pollUntilTerminal isT sch q = None"
  by (simp add: pollUntilTerminal_def answered_def Let_def)

lemma poll_continues:
  assumes "answered q < orDefault OPERATION_POLL_LIMIT (sc_maxPolls sch)" "pollUntilTerminal isT sch q = None"
  shows "\<exists>d. pq_data q = Some d \<and> isT d"
  using assms by (auto simp: pollUntilTerminal_def answered_def Let_def split: if_splits option.splits)

definition waited :: "('d \<Rightarrow> bool) \<Rightarrow> pollSchedule \<Rightarrow> (nat \<Rightarrow> 'd pollQueryState) \<Rightarrow> nat \<Rightarrow> number" where
  "waited isT sch q n = (\<Sum>m<n. case pollUntilTerminal isT sch (q m) of Some ms \<Rightarrow> ms | None \<Rightarrow> 0)"

lemma waited_default:
  assumes "query_contract answer" "n \<le> 40"
  shows "waited isT operationSchedule (queryAfter answer replies) n \<le> 188000"
proof -
  let ?w = "\<lambda>m. min 5000 (1000 * 2 ^ (m - 1)) :: number"
  have "(case pollUntilTerminal isT operationSchedule (queryAfter answer replies m) of Some ms \<Rightarrow> ms | None \<Rightarrow> 0) \<le> ?w m" for m
    using poll_interval [of isT operationSchedule "queryAfter answer replies m"] answered_after [OF assms(1), of replies m]
    by (cases "pollUntilTerminal isT operationSchedule (queryAfter answer replies m)")
      (auto simp: operationSchedule_def orDefault_def OPERATION_POLL_MAX_MS_def OPERATION_POLL_MS_def)
  then have "waited isT operationSchedule (queryAfter answer replies) n \<le> (\<Sum>m<n. ?w m)"
    unfolding waited_def by (intro sum_mono)
  also have "\<dots> \<le> (\<Sum>m<40. ?w m)"
    using assms(2) by (intro sum_mono2) auto
  also have "\<dots> = 188000"
    by (simp add: eval_nat_numeral)
  finally show ?thesis .
qed

text \<open>C20. Polling an operation ends. Whatever the server answers, data or errors, there is a number of
  answers, at most the limit of the schedule, after which no further request is made; before it every
  pause is at most the ceiling of the backoff. It ends early exactly with the first terminal data: as soon as the
  data last received are terminal no interval is given, and before the limit it ends only then. With the panel's own schedule that is at most forty answers and 188 seconds of pauses.\<close>

theorem operation_poll_ends:
  fixes answer :: "'d pollQueryState \<Rightarrow> json + 'd \<Rightarrow> 'd pollQueryState"
  assumes contract: "query_contract answer"
  shows "\<exists>n. n \<le> orDefault OPERATION_POLL_LIMIT (sc_maxPolls sch) \<and>
      pollUntilTerminal isT sch (queryAfter answer replies n) = None \<and>
      (\<forall>m<n. \<exists>ms. pollUntilTerminal isT sch (queryAfter answer replies m) = Some ms \<and> ms \<le> orDefault OPERATION_POLL_MAX_MS (sc_maxMs sch)) \<and>
      (n < orDefault OPERATION_POLL_LIMIT (sc_maxPolls sch) \<longrightarrow> (\<exists>d. pq_data (queryAfter answer replies n) = Some d \<and> isT d)) \<and>
      (\<forall>m d. pq_data (queryAfter answer replies m) = Some d \<and> isT d \<longrightarrow>
        n \<le> m \<and> pollUntilTerminal isT sch (queryAfter answer replies m) = None) \<and>
      (\<forall>m d. replies m = Inr d \<and> isT d \<longrightarrow> n \<le> Suc m) \<and>
      (sch = operationSchedule \<longrightarrow> n \<le> 40 \<and> waited isT sch (queryAfter answer replies) n \<le> 188000)"
proof -
  let ?lim = "orDefault OPERATION_POLL_LIMIT (sc_maxPolls sch)"
  let ?p = "\<lambda>n. pollUntilTerminal isT sch (queryAfter answer replies n) = None"
  define n where "n = (LEAST n. ?p n)"
  have "?p ?lim" by (simp add: poll_stops_at_limit answered_after [OF contract])
  then have n: "?p n" "n \<le> ?lim" unfolding n_def by (rule LeastI, rule Least_le)
  have "\<exists>ms. pollUntilTerminal isT sch (queryAfter answer replies m) = Some ms \<and> ms \<le> orDefault OPERATION_POLL_MAX_MS (sc_maxMs sch)"
    if "m < n" for m
    using not_less_Least [of m ?p] that poll_interval [of isT sch "queryAfter answer replies m"]
    by (cases "pollUntilTerminal isT sch (queryAfter answer replies m)") (auto simp: n_def)
  moreover have "n < ?lim \<Longrightarrow> \<exists>d. pq_data (queryAfter answer replies n) = Some d \<and> isT d"
    using n(1) by (intro poll_continues [of _ sch]) (simp_all add: answered_after [OF contract])
  moreover have ended: "n \<le> m \<and> ?p m" if "pq_data (queryAfter answer replies m) = Some d" "isT d" for m d
  proof -
    have "?p m" using that by (simp add: pollUntilTerminal_def)
    then show ?thesis unfolding n_def by (simp add: Least_le)
  qed
  moreover have "n \<le> Suc m" if "replies m = Inr d" "isT d" for m d
    using ended [of "Suc m" d] that contract by (simp add: query_contract_def)
  moreover have "sch = operationSchedule \<Longrightarrow> n \<le> 40" using n(2) by (simp add: operationSchedule_def orDefault_def OPERATION_POLL_LIMIT_def)
  ultimately show ?thesis using n waited_default [OF contract] by blast
qed

theorem operation_poll_ends_witness:
  "\<exists>n \<le> 40. pollUntilTerminal (\<lambda>d. d = OpCompleted) operationSchedule
     (queryAfter recordAnswer (\<lambda>n. if n < 3 then Inr OpRunning else Inl JNull) n) = None"
  using operation_poll_ends [OF recordAnswer_contract, of operationSchedule "\<lambda>d. d = OpCompleted"
      "\<lambda>n. if n < 3 then Inr OpRunning else Inl JNull"]
  by blast

subsection \<open>What a bulk close selects\<close>

text \<open>The documented meaning of a selector at Telemt: the listed sessions, those that meet every criterion
  set, or all.\<close>

fun proxyMatches :: "closeSelector \<Rightarrow> webSessionRow \<Rightarrow> bool" where
  "proxyMatches (SelRefs refs) row = (wr_session_ref row \<in> set refs)"
| "proxyMatches (SelFilter c st u) row =
    ((c = None \<or> c = Some (wr_carrier row)) \<and> (st = None \<or> st = Some (wr_state row)) \<and> (u = None \<or> u = Some (wr_user row)))"
| "proxyMatches SelAll row = True"

definition webCarriers :: "string set" where
  "webCarriers = {''https'', ''https-lanes'', ''websocket'', ''websocket-lanes''}"

text \<open>Rows as the registry lists them: a reference names one session, the carrier is one of the four and
  no state is called like one.\<close>

definition registryRows :: "webSessionRow list \<Rightarrow> bool" where
  "registryRows rows \<longleftrightarrow> distinct (map wr_session_ref rows) \<and>
     (\<forall>row\<in>set rows. wr_carrier row \<in> webCarriers \<and> wr_state row \<notin> webCarriers)"

lemma sectionFilters_selector:
  "webFilterSelector (sectionFilters f) =
    (if f = WAll then None
     else if f = WHttpsLanes \<or> f = WWebsocket then Some (SelFilter (Some (webFilterName f)) None None)
     else Some (SelFilter None (Some (webFilterName f)) None))"
  by (cases f) (simp_all add: sectionFilters_def webFilterSelector_def filterText_def Let_def WEB_FILTER_CARRIER_def
      WEB_FILTER_STATE_def WEB_FILTER_USER_def)

lemma filter_selects_shown:
  assumes "wr_carrier row \<in> webCarriers" "wr_state row \<notin> webCarriers" "trim query = []"
    "webFilterSelector (sectionFilters f) = Some sel"
  shows "proxyMatches sel row \<longleftrightarrow> webSessionMatches row f query"
proof -
  have "to_lower (trim query) = []" using assms(3) by (simp add: to_lower_def)
  then show ?thesis
    using assms(1,2,4) unfolding sectionFilters_selector
    by (cases f) (auto simp: webSessionMatches_def webCarriers_def Let_def)
qed

lemma refs_select_shown:
  assumes "distinct (map wr_session_ref rows)" "row \<in> set rows"
  shows "proxyMatches (SelRefs (map wr_session_ref (filter P rows))) row \<longleftrightarrow> P row"
  using assms by (auto simp: distinct_map inj_on_def)

lemma bulkIntent_cases:
  assumes "bulkIntent rows f query = Some i"
  obtains (Filter) sel where "trim query = []" "webFilterSelector (sectionFilters f) = Some sel" "webCloseSelector i = sel"
      "\<exists>c st u. sel = SelFilter c st u \<and> (c, st, u) \<noteq> (None, None, None)"
    | (Refs) "webCloseSelector i = SelRefs (map wr_session_ref (filter (\<lambda>row. webSessionMatches row f query) rows))"
      "filter (\<lambda>row. webSessionMatches row f query) rows \<noteq> []"
      "length (filter (\<lambda>row. webSessionMatches row f query) rows) \<le> WEB_CLOSE_MAX_REFS"
  using assms
  by (auto simp: bulkIntent_def webCloseIntent_def sectionFilters_selector split: if_splits)

text \<open>C18. A bulk close closes what the operator sees. The request of the sessions table's bulk action never
  selects every session; it lists between one and 200 references or sets at least one criterion; and
  among the rows of the table Telemt's selection is exactly the rows that match the filter and the
  search on screen.\<close>

theorem bulk_close_selects_shown:
  assumes rows: "registryRows rows" and intent: "bulkIntent rows f query = Some i"
  shows "webCloseSelector i \<noteq> SelAll \<and>
    (\<forall>refs. webCloseSelector i = SelRefs refs \<longrightarrow> 1 \<le> length refs \<and> length refs \<le> 200) \<and>
    (\<forall>c st u. webCloseSelector i = SelFilter c st u \<longrightarrow> c \<noteq> None \<or> st \<noteq> None \<or> u \<noteq> None) \<and>
    (\<forall>row\<in>set rows. proxyMatches (webCloseSelector i) row \<longleftrightarrow> webSessionMatches row f query)"
  using intent
proof (cases rule: bulkIntent_cases)
  case (Filter sel)
  with rows show ?thesis using filter_selects_shown by (auto simp: registryRows_def)
next
  case Refs
  have "\<forall>row\<in>set rows. proxyMatches (webCloseSelector i) row \<longleftrightarrow> webSessionMatches row f query"
    unfolding Refs(1) using rows by (intro ballI refs_select_shown) (auto simp: registryRows_def)
  with Refs show ?thesis by (auto simp: WEB_CLOSE_MAX_REFS_def Suc_le_eq)
qed

definition sampleRow :: "string \<Rightarrow> string \<Rightarrow> string \<Rightarrow> webSessionRow" where
  "sampleRow ref user st = \<lparr>wr_session_ref = ref, wr_user_agent = None, wr_user_agent_id = None, wr_trace_session_id = 0,
     wr_client_ip = ''10.0.0.1'', wr_host = ''h'', wr_user = user, wr_key_id = ''k'', wr_carrier = ''https'', wr_attempt = 0,
     wr_client_class = [], wr_automatic = False, wr_state = st, wr_health_publication = None, wr_streams = 0, wr_tasks = 0,
     wr_lanes = 0, wr_lane_open_waits = 0, wr_websocket_lane_reservations = 0, wr_websocket_active = False, wr_pending_bytes = 0,
     wr_pending_items = 0, wr_control_bytes = 0, wr_control_items = 0, wr_age_ms = 0, wr_idle_ms = 0, wr_peer_idle_ms = None,
     wr_reconnect_grace_ms = None, wr_peer_deadline_remaining_ms = None, wr_negotiation_remaining_ms = None\<rparr>"

theorem bulk_close_selects_shown_witness:
  "\<not> proxyMatches (webCloseSelector (CloseFilter (sectionFilters WHealthy) 1)) (sampleRow ''b'' ''eve'' ''provisional'')"
proof -
  let ?rows = "[sampleRow ''a'' ''bob'' ''healthy'', sampleRow ''b'' ''eve'' ''provisional'']"
  have "registryRows ?rows" by (simp add: registryRows_def webCarriers_def sampleRow_def)
  moreover have "bulkIntent ?rows WHealthy [] = Some (CloseFilter (sectionFilters WHealthy) 1)"
    by (simp add: bulkIntent_def webCloseIntent_def sectionFilters_selector webSessionMatches_def sampleRow_def trim_def to_lower_def)
  moreover have "\<not> webSessionMatches (sampleRow ''b'' ''eve'' ''provisional'') WHealthy []"
    by (simp add: webSessionMatches_def sampleRow_def)
  ultimately show ?thesis using bulk_close_selects_shown [of ?rows WHealthy "[]"] by simp
qed

subsection \<open>One report\<close>

definition accepted :: "webPageEvent list \<Rightarrow> string list" where
  "accepted es = List.map_filter (\<lambda>e. case e of CloseAccepted oid \<Rightarrow> Some oid | _ \<Rightarrow> None) es"

lemma accepted_append: "accepted (es @ fs) = accepted es @ accepted fs"
  by (simp add: accepted_def List.map_filter_def)

lemma accepted_snoc: "accepted (es @ [e]) = accepted es @ (case e of CloseAccepted oid \<Rightarrow> [oid] | _ \<Rightarrow> [])"
  by (cases e) (simp_all add: accepted_def List.map_filter_def)

text \<open>The answer to a poll is about the operation asked for.\<close>

fun answer_fits :: "webPage \<Rightarrow> webPageEvent \<Rightarrow> bool" where
  "answer_fits st (PollAnswered (Inr d)) = (wp_operationId st = None \<or> wp_operationId st = Some (wo_operation_id d))"
| "answer_fits st _ = True"

fun final_answer :: "json + webControlOperationStatus \<Rightarrow> bool" where
  "final_answer (Inl e) = True"
| "final_answer (Inr d) = (wo_state d \<notin> {OpQueued, OpRunning})"

lemma terminal_iff: "isTerminalWebOperationState v \<longleftrightarrow> v \<notin> {OpQueued, OpRunning}"
  by (cases v) (simp_all add: isTerminalWebOperationState_def)

text \<open>What the admin is to read: that so many sessions were closed, with a second message on those that were in conflict if there
  are any; that the close failed; or the error of the request.\<close>

definition outcomeToasts :: "dict \<Rightarrow> json + webControlOperationStatus \<Rightarrow> (string \<times> string) list" where
  "outcomeToasts s r =
    (case r of
       Inl err \<Rightarrow> [(apiErrorMessage err s, ''error'')]
     | Inr d \<Rightarrow>
         if wo_state d = OpCompleted
         then [(fill (di_text s ''details.pages.web.closeDoneTemplate'') [(''count'', num_str (wo_close_signalled d))], ''ok'')] @
           (if 0 < wo_conflicted d
            then [(fill (di_text s ''details.pages.web.closeConflictTemplate'') [(''count'', num_str (wo_conflicted d))], ''default'')] else [])
         else [(di_text s ''details.pages.web.closeFailed'', ''error'')])"

definition toastsOf :: "webPage \<Rightarrow> (string \<times> string) list" where
  "toastsOf st = map (\<lambda>t. (toast_text t, toast_tone t)) (cr_toasts (wp_report st))"

text \<open>While an operation is polled nothing final is known of it and nothing was reported of it.\<close>

definition pending_ok :: "string set \<Rightarrow> webPage \<Rightarrow> bool" where
  "pending_ok ids st \<longleftrightarrow> fst ` set (wp_queries st) \<subseteq> ids \<and>
     (\<forall>x. cr_reportedFor (wp_report st) = Some x \<or> cr_failedFor (wp_report st) = Some x \<longrightarrow> x \<in> ids \<and> wp_operationId st \<noteq> Some x) \<and>
     (\<forall>oid. wp_operationId st = Some oid \<longrightarrow> oid \<in> ids \<and> pq_error (operationQuery st) = None \<and>
        (\<forall>d. pq_data (operationQuery st) = Some d \<longrightarrow> \<not> isTerminalWebOperationState (wo_state d)))"

lemma pending_initial: "pending_ok {} initialPage"
  by (simp add: pending_ok_def initialPage_def)

text \<open>A render in such a state reports nothing.\<close>

lemma render_pending: "pending_ok ids st \<Longrightarrow> renderPage s st = st"
  by (cases "wp_operationId st") (auto simp: pending_ok_def renderPage_def operationQuery_def emptyQuery_def Let_def
      reportEffect_def failEffect_def split: option.splits)

text \<open>Events other than answers keep it; an accepted operation is a new one.\<close>

lemma handle_pending:
  assumes "pending_ok ids st" "\<And>oid. e = CloseAccepted oid \<Longrightarrow> oid \<notin> ids" "\<And>r. e \<noteq> PollAnswered r"
  shows "pending_ok (ids \<union> set (accepted [e])) (page_handle answer s st e) \<and>
    wp_report (page_handle answer s st e) = wp_report st"
proof (cases e)
  case (CloseAccepted oid)
  have "oid \<notin> fst ` set (wp_queries st)" using assms(1,2) CloseAccepted by (auto simp: pending_ok_def)
  then have "mget (wp_queries st) oid = None" by (simp add: map_of_eq_None_iff)
  with assms CloseAccepted show ?thesis
    by (auto simp: pending_ok_def closeSuccess_def operationQuery_def emptyQuery_def orDefault_def accepted_def List.map_filter_def)
qed (use assms in \<open>auto simp: pending_ok_def operationQuery_def closeSurface_def submitClose_def closeError_def accepted_def List.map_filter_def
    split: option.splits\<close>)

lemma answer_pending:
  assumes ok: "pending_ok ids st" and c: "query_contract answer" and fits: "answer_fits st (PollAnswered r)"
    and st': "st' = page_step answer s st (PollAnswered r)"
  shows "pending_ok ids st' \<and>
    (wp_operationId st = None \<or> \<not> final_answer r \<longrightarrow> wp_report st' = wp_report st \<and> wp_operationId st' = wp_operationId st) \<and>
    (wp_operationId st \<noteq> None \<and> final_answer r \<longrightarrow> wp_operationId st' = None \<and>
       cr_settled (wp_report st') = Suc (cr_settled (wp_report st)) \<and>
       toastsOf st' = toastsOf st @ outcomeToasts s r \<and>
       cr_registryMoved (wp_report st') = cr_registryMoved (wp_report st) + (if isl r then 0 else 1))"
proof (cases "wp_operationId st")
  case None
  then have "st' = st" using render_pending [OF ok] by (simp add: st' page_step_def)
  with ok None show ?thesis by simp
next
  case (Some oid)
  let ?h = "st\<lparr>wp_queries := mset_key (wp_queries st) oid (answer (operationQuery st) r)\<rparr>"
  have h: "page_handle answer s st (PollAnswered r) = ?h" using Some by simp
  have q: "operationQuery ?h = answer (operationQuery st) r" using Some by (simp add: operationQuery_def orDefault_def update_conv)
  have keys: "fst ` set (wp_queries ?h) \<subseteq> ids"
    using ok Some by (auto simp: pending_ok_def dom_update)
  have rep: "cr_reportedFor (wp_report st) \<noteq> Some oid" "cr_failedFor (wp_report st) \<noteq> Some oid" "oid \<in> ids"
    using ok Some by (auto simp: pending_ok_def)
  show ?thesis
  proof (cases r)
    case (Inl e)
    have dat: "pq_data (operationQuery ?h) = pq_data (operationQuery st)" "pq_error (operationQuery ?h) = Some e"
      using c Inl unfolding q by (simp_all add: query_contract_def)
    have nt: "reportEffect s (pq_data (operationQuery ?h)) (wp_report st) = wp_report st"
      using ok Some unfolding dat by (auto simp: pending_ok_def reportEffect_def split: option.splits)
    have "st' = ?h\<lparr>wp_report := failEffect s (Some oid) (Some e) (wp_report st), wp_operationId := None\<rparr>"
      using Some rep nt dat by (simp add: st' page_step_def h renderPage_def failEffect_def del: page_handle.simps)
    then show ?thesis
      using ok Some keys rep Inl by (auto simp: pending_ok_def failEffect_def toastsOf_def outcomeToasts_def)
  next
    case (Inr d)
    have dat: "pq_data (operationQuery ?h) = Some d" "pq_error (operationQuery ?h) = None"
      using c Inr unfolding q by (simp_all add: query_contract_def)
    have did: "wo_operation_id d = oid" using fits Inr Some by simp
    show ?thesis
    proof (cases "isTerminalWebOperationState (wo_state d)")
      case False
      have "pending_ok ids ?h" using ok Some keys dat False by (auto simp: pending_ok_def)
      moreover from this have "st' = ?h" by (simp add: st' page_step_def h render_pending del: page_handle.simps)
      ultimately show ?thesis using False Inr by (simp add: terminal_iff)
    next
      case True
      have "st' = ?h\<lparr>wp_report := reportEffect s (Some d) (wp_report st), wp_operationId := None\<rparr>"
        using Some rep dat True did by (simp add: st' page_step_def h renderPage_def failEffect_def reportEffect_def del: page_handle.simps)
      then show ?thesis
        using ok Some keys rep Inr True did by (auto simp: pending_ok_def reportEffect_def terminal_iff toastsOf_def outcomeToasts_def)
    qed
  qed
qed

primrec fits_run ::
  "(webControlOperationStatus pollQueryState \<Rightarrow> json + webControlOperationStatus \<Rightarrow> webControlOperationStatus pollQueryState) \<Rightarrow>
   dict \<Rightarrow> webPage \<Rightarrow> webPageEvent list \<Rightarrow> bool" where
  "fits_run answer s st [] = True"
| "fits_run answer s st (e # es) = (answer_fits st e \<and> fits_run answer s (page_step answer s st e) es)"

lemma fits_run_append:
  "fits_run answer s st (es @ fs) \<longleftrightarrow> fits_run answer s st es \<and> fits_run answer s (run (page_step answer s) st es) fs"
  by (induction es arbitrary: st) auto

lemma step_pending:
  assumes "pending_ok ids st" "query_contract answer" "answer_fits st e" "\<And>oid. e = CloseAccepted oid \<Longrightarrow> oid \<notin> ids"
  shows "pending_ok (ids \<union> set (accepted [e])) (page_step answer s st e)"
proof (cases "\<exists>r. e = PollAnswered r")
  case True
  then obtain r where r: "e = PollAnswered r" by blast
  have "accepted [e] = []" by (simp add: r accepted_def List.map_filter_def)
  moreover have "pending_ok ids (page_step answer s st (PollAnswered r))"
    using answer_pending [OF assms(1,2) _ refl, of r s] assms(3) unfolding r by blast
  ultimately show ?thesis unfolding r by (metis list.set(1) sup_bot.right_neutral)
next
  case False
  then have np: "\<And>r. e \<noteq> PollAnswered r" by blast
  have "pending_ok (ids \<union> set (accepted [e])) (page_handle answer s st e)"
    by (rule handle_pending [THEN conjunct1, OF assms(1,4) np])
  then show ?thesis by (simp only: page_step_def render_pending)
qed

lemma run_pending:
  assumes "query_contract answer" "distinct (accepted es)" "fits_run answer s initialPage es"
  shows "pending_ok (set (accepted es)) (run (page_step answer s) initialPage es)"
  using assms(2,3)
proof (induction es rule: rev_induct)
  case Nil
  show ?case by (simp add: accepted_def List.map_filter_def pending_initial)
next
  case (snoc e es)
  have "pending_ok (set (accepted es)) (run (page_step answer s) initialPage es)"
    using snoc by (simp add: accepted_snoc fits_run_append)
  moreover have "oid \<notin> set (accepted es)" if "e = CloseAccepted oid" for oid
    using snoc.prems(1) that by (simp add: accepted_snoc)
  ultimately have "pending_ok (set (accepted es) \<union> set (accepted [e])) (page_step answer s (run (page_step answer s) initialPage es) e)"
    using snoc.prems(2) assms(1) by (intro step_pending) (simp_all add: fits_run_append)
  then show ?case by (simp add: accepted_append)
qed

text \<open>C19. The outcome of a close is reported once, failures included. Along every history of the page in
  which operations have ids of their own and a poll is answered about the operation asked for: an
  operation that is still polled has had no final answer; the answer that ends it -- a terminal state
  or a failed request -- is reported in the same step, with exactly the messages of that outcome (how many sessions were
  closed and how many were in conflict, that the close failed, or the text of the error), one call that stops the
  polling and, for an outcome, one that has the sessions read again; no other event reports anything.\<close>

theorem close_outcome_reported_once:
  fixes answer and s :: dict and es :: "webPageEvent list" and e :: webPageEvent
  defines "st \<equiv> run (page_step answer s) initialPage es"
  defines "st' \<equiv> page_step answer s st e"
  assumes contract: "query_contract answer" and ids: "distinct (accepted (es @ [e]))" and fits: "fits_run answer s initialPage (es @ [e])"
  shows "(\<forall>oid. wp_operationId st = Some oid \<longrightarrow> pq_error (operationQuery st) = None \<and>
      (\<forall>d. pq_data (operationQuery st) = Some d \<longrightarrow> wo_state d \<in> {OpQueued, OpRunning})) \<and>
    (\<forall>r. e = PollAnswered r \<and> wp_operationId st \<noteq> None \<and> final_answer r \<longrightarrow>
      wp_operationId st' = None \<and> cr_settled (wp_report st') = Suc (cr_settled (wp_report st)) \<and>
      toastsOf st' = toastsOf st @ outcomeToasts s r \<and>
      cr_registryMoved (wp_report st') = cr_registryMoved (wp_report st) + (if isl r then 0 else 1)) \<and>
    (\<not> (\<exists>r. e = PollAnswered r \<and> wp_operationId st \<noteq> None \<and> final_answer r) \<longrightarrow> wp_report st' = wp_report st)"
proof -
  have ok: "pending_ok (set (accepted es)) st"
    unfolding st_def using contract ids fits by (intro run_pending) (simp_all add: accepted_snoc fits_run_append)
  have fit: "answer_fits st e" using fits by (simp add: fits_run_append st_def)
  show ?thesis
  proof (cases "\<exists>r. e = PollAnswered r")
    case True
    then obtain r where r: "e = PollAnswered r" by blast
    from answer_pending [OF ok contract _ refl, of r s] fit ok show ?thesis
      by (auto simp: r st'_def pending_ok_def terminal_iff)
  next
    case False
    have new: "\<And>oid. e = CloseAccepted oid \<Longrightarrow> oid \<notin> set (accepted es)" using ids by (auto simp: accepted_snoc)
    have np: "\<And>r. e \<noteq> PollAnswered r" using False by blast
    have h: "pending_ok (set (accepted es) \<union> set (accepted [e])) (page_handle answer s st e)"
      by (rule handle_pending [THEN conjunct1, OF ok new np])
    have h2: "wp_report (page_handle answer s st e) = wp_report st" by (rule handle_pending [THEN conjunct2, OF ok new np])
    have "wp_report st' = wp_report st" unfolding st'_def page_step_def by (simp only: render_pending [OF h] h2)
    with ok False show ?thesis by (auto simp: pending_ok_def terminal_iff)
  qed
qed

definition sampleStatus :: "webOperationState \<Rightarrow> webControlOperationStatus" where
  "sampleStatus st = \<lparr>wo_operation_id = ''op'', wo_state = st, wo_high_water_session_ref = None, wo_requested = 2, wo_scanned = 2,
     wo_matched = 2, wo_close_signalled = 2, wo_conflicted = 0, wo_created_epoch_millis = 0, wo_updated_epoch_millis = 1, wo_failure = None\<rparr>"

theorem close_outcome_reported_once_witness:
  fixes s :: dict
  defines "s \<equiv> \<lparr>di_locale = En, di_text = id, di_number = num_str, di_errors = \<lambda>_. None\<rparr>"
  defines "page \<equiv> page_step recordAnswer s (run (page_step recordAnswer s) initialPage
      [CloseAccepted ''op'', PollAnswered (Inr (sampleStatus OpRunning))]) (PollAnswered (Inr (sampleStatus OpCompleted)))"
  shows "wp_operationId page = None \<and>
    toastsOf page = [(fill ''details.pages.web.closeDoneTemplate'' [(''count'', num_str 2)], ''ok'')]"
proof -
  let ?es = "[CloseAccepted ''op'', PollAnswered (Inr (sampleStatus OpRunning))]" and ?e = "PollAnswered (Inr (sampleStatus OpCompleted))"
  let ?st = "run (page_step recordAnswer s) initialPage ?es"
  note defs = page_step_def closeSuccess_def renderPage_def operationQuery_def orDefault_def emptyQuery_def reportEffect_def failEffect_def
    recordAnswer_def sampleStatus_def isTerminalWebOperationState_def initialPage_def
  have op: "wp_operationId ?st = Some ''op''" "toastsOf ?st = []" by (simp_all add: defs toastsOf_def)
  have out: "outcomeToasts s (Inr (sampleStatus OpCompleted)) = [(fill ''details.pages.web.closeDoneTemplate'' [(''count'', num_str 2)], ''ok'')]"
    by (simp add: outcomeToasts_def sampleStatus_def s_def)
  have "distinct (accepted (?es @ [?e]))" by (simp add: accepted_def List.map_filter_def)
  moreover have "fits_run recordAnswer s initialPage (?es @ [?e])" by (simp add: defs)
  ultimately show ?thesis
    using close_outcome_reported_once [OF recordAnswer_contract, where es = ?es and e = ?e and s = s] op out
    by (simp add: sampleStatus_def page_def)
qed

end
