(* ===== verification/History.thy ===== *)
theory History
  imports I18n
begin

text \<open>
  Histories of counters on the dashboard: \<open>web/src/pulse/widgets/historyIntervals.helpers.ts\<close>, which turns the
  points of a series into measured steps, and the windows, totals and connection quality that
  \<open>statRow.helpers.ts\<close> computes from them. The payload is \<open>HistorySeries\<close> of the API's types; numbers are
  finite.
\<close>

subsection \<open>Series and points\<close>

datatype tier = Tier1m | Tier5m | Tier15m | Tier1h | Tier1d

fun TIER_SECONDS :: "tier \<Rightarrow> number" where
  "TIER_SECONDS Tier1m = 60"
| "TIER_SECONDS Tier5m = 300"
| "TIER_SECONDS Tier15m = 900"
| "TIER_SECONDS Tier1h = 3600"
| "TIER_SECONDS Tier1d = 86400"

record historyPoint =
  hp_ts :: number
  hp_v :: number
  hp_tier :: "tier option"
  hp_max :: "number option"
  hp_min :: "number option"
  hp_samples :: "number option"
  hp_first_observed_epoch_secs :: "number option"
  hp_first_observed_value :: "number option"
  hp_last_observed_epoch_secs :: "number option"
  hp_observed_delta :: "number option"
  hp_observed_seconds :: "number option"
  hp_gaps :: "number option"

datatype historyState = HReady | HDisabled | HEmpty | HPartial

record historySeries =
  hs_metric :: string
  hs_range :: string
  hs_state :: historyState
  hs_requested_from_epoch_secs :: number
  hs_retention_secs :: number
  hs_available_from_epoch_secs :: "number option"
  hs_source_available :: "bool option"
  hs_points :: "historyPoint list"

definition OBSERVATION_GAP :: number where
  "OBSERVATION_GAP = 120"

record counterStep =
  cs_from :: number
  cs_to :: number
  cs_delta :: number
  cs_seconds :: number
  cs_complete :: bool

definition historyPointStart :: "historyPoint \<Rightarrow> number" where
  "historyPointStart p = (case hp_first_observed_epoch_secs p of Some f \<Rightarrow> f | None \<Rightarrow> hp_ts p)"

definition historyPointEnd :: "historyPoint \<Rightarrow> number" where
  "historyPointEnd p =
    (case hp_last_observed_epoch_secs p of Some l \<Rightarrow> l
     | None \<Rightarrow> (case hp_tier p of Some t \<Rightarrow> hp_ts p + TIER_SECONDS t | None \<Rightarrow> hp_ts p))"

definition isCounter :: "historySeries \<Rightarrow> bool" where
  "isCounter series \<longleftrightarrow> hs_metric series \<in> {''traffic'', ''attempts'', ''refusals''}"

record observation =
  ob_first :: number
  ob_last :: number
  ob_firstValue :: number

definition counterObservation :: "historyPoint \<Rightarrow> observation option" where
  "counterObservation p =
    (if hp_tier p = None then Some \<lparr>ob_first = hp_ts p, ob_last = hp_ts p, ob_firstValue = hp_v p\<rparr>
     else case (hp_first_observed_epoch_secs p, hp_last_observed_epoch_secs p) of
       (Some first, Some last') \<Rightarrow>
         (case (case hp_first_observed_value p of
                  Some w \<Rightarrow> Some w
                | None \<Rightarrow> if hp_gaps p = Some 0 then map_option (\<lambda>d. hp_v p - d) (hp_observed_delta p) else None) of
            None \<Rightarrow> None
          | Some firstValue \<Rightarrow> Some \<lparr>ob_first = first, ob_last = last', ob_firstValue = firstValue\<rparr>)
     | _ \<Rightarrow> None)"

subsection \<open>Measured steps\<close>

text \<open>The loop of \<open>counterSteps\<close>: the steps so far, the previous observation and whether anything is unknown.\<close>

record stepState =
  ss_steps :: "counterStep list"
  ss_previous :: "(number \<times> number) option"
  ss_partial :: bool

text \<open>The bridge from the previous observation; \<open>None\<close> stands for the \<open>continue\<close> of an overlap.\<close>

definition bridgeStep :: "observation \<Rightarrow> number \<Rightarrow> stepState \<Rightarrow> stepState + stepState" where
  "bridgeStep obs v st =
    (case ss_previous st of
       None \<Rightarrow> Inr st
     | Some (ts, val) \<Rightarrow>
         let seconds = ob_first obs - ts; delta = ob_firstValue obs - val
         in if 0 < seconds \<and> seconds \<le> OBSERVATION_GAP \<and> 0 \<le> delta
            then Inr (st\<lparr>ss_steps := ss_steps st @ [\<lparr>cs_from = ts, cs_to = ob_first obs, cs_delta = delta, cs_seconds = seconds, cs_complete = True\<rparr>]\<rparr>)
            else if seconds \<noteq> 0 \<or> delta \<noteq> 0
            then (if seconds < 0
                  then Inl (st\<lparr>ss_partial := True, ss_previous := (if ts < ob_last obs then Some (ob_last obs, v) else Some (ts, val))\<rparr>)
                  else Inr (st\<lparr>ss_partial := True\<rparr>))
            else Inr st)"

definition innerStep :: "historyPoint \<Rightarrow> observation \<Rightarrow> stepState \<Rightarrow> stepState" where
  "innerStep p obs st =
    (if ob_first obs < ob_last obs
     then (case (hp_observed_delta p, hp_observed_seconds p) of
             (Some delta, Some seconds) \<Rightarrow>
               if 0 \<le> delta \<and> 0 < seconds \<and> seconds \<le> ob_last obs - ob_first obs
               then let complete = (hp_gaps p = Some 0 \<and> seconds = ob_last obs - ob_first obs)
                    in st\<lparr>ss_steps := ss_steps st @ [\<lparr>cs_from = ob_first obs, cs_to = ob_last obs, cs_delta = delta,
                            cs_seconds = seconds, cs_complete = complete\<rparr>],
                          ss_partial := ss_partial st \<or> \<not> complete\<rparr>
               else st\<lparr>ss_partial := True\<rparr>
           | _ \<Rightarrow> st\<lparr>ss_partial := True\<rparr>)
     else st)"

definition pointStep :: "stepState \<Rightarrow> historyPoint \<Rightarrow> stepState" where
  "pointStep st p =
    (case counterObservation p of
       None \<Rightarrow> st\<lparr>ss_partial := True, ss_previous := None\<rparr>
     | Some obs \<Rightarrow>
         if ob_last obs < ob_first obs then st\<lparr>ss_partial := True, ss_previous := None\<rparr>
         else case bridgeStep obs (hp_v p) st of
                Inl st' \<Rightarrow> st'
              | Inr st' \<Rightarrow> (innerStep p obs st')\<lparr>ss_previous := Some (ob_last obs, hp_v p)\<rparr>)"

definition counterSteps :: "historySeries option \<Rightarrow> counterStep list \<times> bool" where
  "counterSteps series =
    (let st = foldl pointStep \<lparr>ss_steps = [], ss_previous = None, ss_partial = False\<rparr> (case series of None \<Rightarrow> [] | Some s \<Rightarrow> hs_points s)
     in (ss_steps st, ss_partial st))"

subsection \<open>Slices and windows\<close>

definition rawPoint :: "number \<Rightarrow> number \<Rightarrow> historyPoint" where
  "rawPoint ts v = \<lparr>hp_ts = ts, hp_v = v, hp_tier = None, hp_max = None, hp_min = None, hp_samples = None,
     hp_first_observed_epoch_secs = None, hp_first_observed_value = None, hp_last_observed_epoch_secs = None,
     hp_observed_delta = None, hp_observed_seconds = None, hp_gaps = None\<rparr>"

text \<open>What the loop of \<open>sliceHistory\<close> does with one point: the points it pushes, and whether it cut a bucket.\<close>

definition clipPoint :: "bool \<Rightarrow> number \<Rightarrow> number \<Rightarrow> historyPoint \<Rightarrow> historyPoint list \<times> bool" where
  "clipPoint counter from' to' p =
    (let first = historyPointStart p; lst = historyPointEnd p
     in if lst < from' \<or> to' < first then ([], False)
        else if from' \<le> first \<and> lst \<le> to' then ([p], False)
        else let cut = (first < from' \<and> from' < lst) \<or> (first < to' \<and> to' < lst)
             in if \<not> counter then ([], cut)
                else case counterObservation p of
                  None \<Rightarrow> ([], cut)
                | Some obs \<Rightarrow>
                    ((if from' \<le> first \<and> first \<le> to' then [rawPoint first (ob_firstValue obs)] else []) @
                     (if from' \<le> lst \<and> lst \<le> to' then [rawPoint lst (hp_v p)] else []), cut))"

definition sliceHistory :: "historySeries \<Rightarrow> number \<Rightarrow> number \<Rightarrow> historySeries" where
  "sliceHistory series from' to' =
    (let parts = map (clipPoint (isCounter series) from' to') (hs_points series);
         result = series\<lparr>hs_requested_from_epoch_secs := from', hs_points := concat (map fst parts)\<rparr>;
         partial = list_ex snd parts \<or> (isCounter series \<and> snd (counterSteps (Some result)))
     in if partial \<and> hs_state result = HReady then result\<lparr>hs_state := HPartial\<rparr> else result)"

record matchedStep = counterStep +
  ms_refused :: number

definition stepMismatch :: "counterStep \<Rightarrow> counterStep \<Rightarrow> bool" where
  "stepMismatch a r \<longleftrightarrow> \<not> cs_complete a \<or> \<not> cs_complete r \<or> cs_from a \<noteq> cs_from r \<or> cs_to a \<noteq> cs_to r \<or>
     cs_seconds a \<noteq> cs_seconds r \<or> cs_delta a < cs_delta r"

definition matchingCounterSteps :: "historySeries option \<Rightarrow> historySeries option \<Rightarrow> matchedStep list option" where
  "matchingCounterSteps attempts refusals =
    (let a = fst (counterSteps attempts); r = fst (counterSteps refusals)
     in if a = [] \<or> length a \<noteq> length r then None
        else if list_ex (\<lambda>(x, y). stepMismatch x y) (zip a r) then None
        else Some (map (\<lambda>(x, y). counterStep.extend x \<lparr>ms_refused = cs_delta y\<rparr>) (zip a r)))"

definition completeCounterWindow :: "historySeries option \<Rightarrow> number \<Rightarrow> bool" where
  "completeCounterWindow series secs =
    (case series of None \<Rightarrow> False | Some s \<Rightarrow>
       hs_state s = HReady \<and>
       (let (steps, partial) = counterSteps series
        in \<not> partial \<and> steps \<noteq> [] \<and>
           (let tolerance = foldl min 60 (map cs_seconds steps)
            in cs_from (hd steps) \<le> hs_requested_from_epoch_secs s + tolerance \<and>
               hs_requested_from_epoch_secs s + secs - tolerance \<le> cs_to (last steps))))"

definition lastPoint :: "historySeries option \<Rightarrow> historyPoint option" where
  "lastPoint series = (case series of None \<Rightarrow> None | Some s \<Rightarrow> if hs_points s = [] then None else Some (last (hs_points s)))"

definition rateStep :: "number list \<times> number option \<Rightarrow> counterStep \<Rightarrow> number list \<times> number option" where
  "rateStep acc step =
    (let (vals, end') = acc;
         vals' = (if end' \<noteq> Some (cs_from step) \<or> \<not> cs_complete step then [] else vals)
     in (if cs_complete step then vals' @ [cs_delta step / cs_seconds step] else vals', Some (cs_to step)))"

definition counterRates :: "historySeries option \<Rightarrow> number list" where
  "counterRates series =
    (let (vals, end') = foldl rateStep ([], None) (fst (counterSteps series))
     in case lastPoint series of
          Some latest \<Rightarrow> if end' = Some (historyPointEnd latest) then vals else []
        | None \<Rightarrow> [])"

subsection \<open>The figures of the stat row\<close>

definition sparklineValues :: "historySeries option \<Rightarrow> number list" where
  "sparklineValues series = (case series of None \<Rightarrow> [] | Some s \<Rightarrow> map hp_v (hs_points s))"

definition HISTORY_WINDOW_SECS :: number where
  "HISTORY_WINDOW_SECS = 15 * 60"

definition windowSeries :: "historySeries option \<Rightarrow> number \<Rightarrow> historySeries option" where
  "windowSeries series secs =
    (case series of None \<Rightarrow> None | Some s \<Rightarrow>
       if hs_points s = [] then series
       else let end' = historyPointEnd (last (hs_points s)) in Some (sliceHistory s (end' - secs) end'))"

definition previousWindowSeries :: "historySeries option \<Rightarrow> number \<Rightarrow> historySeries option" where
  "previousWindowSeries series secs =
    (case series of None \<Rightarrow> None | Some s \<Rightarrow>
       if hs_points s = [] then None
       else let seam = historyPointEnd (last (hs_points s)) - secs; prior = sliceHistory s (seam - secs) seam
            in if hs_points prior = [] then None else Some prior)"

definition historyWindowDelta :: "historySeries option \<Rightarrow> number option" where
  "historyWindowDelta series =
    (let steps = fst (counterSteps series) in if steps \<noteq> [] then Some (sum_list (map cs_delta steps)) else None)"

definition deltaSparklineValues :: "historySeries option \<Rightarrow> number list" where
  "deltaSparklineValues series = counterRates series"

definition pointPeak :: "historyPoint \<Rightarrow> number" where
  "pointPeak p = (case hp_max p of Some x \<Rightarrow> x | None \<Rightarrow> hp_v p)"

definition peakHistoryValue :: "historySeries option \<Rightarrow> number option" where
  "peakHistoryValue series =
    (case series of None \<Rightarrow> None | Some s \<Rightarrow>
       if hs_points s = [] then None
       else Some (foldl (\<lambda>peak p. max peak (pointPeak p)) (pointPeak (hd (hs_points s))) (hs_points s)))"

definition lastHistoryValue :: "historySeries option \<Rightarrow> number option" where
  "lastHistoryValue series = map_option hp_v (lastPoint series)"

record connectionQualityView =
  cq_percent :: "number option"
  cq_refusals :: number
  cq_changePoints :: "number option"

definition windowRatio :: "historySeries option \<Rightarrow> historySeries option \<Rightarrow> number option \<times> number" where
  "windowRatio attempts refusals =
    (let windowRefusals = (case historyWindowDelta refusals of Some d \<Rightarrow> d | None \<Rightarrow> 0);
         steps = matchingCounterSteps attempts refusals;
         windowAttempts = (case steps of Some ss \<Rightarrow> sum_list (map cs_delta ss) | None \<Rightarrow> 0)
     in if steps = None \<or> windowAttempts \<le> 0 then (None, windowRefusals)
        else (Some (100 - windowRefusals / windowAttempts * 100), windowRefusals))"

definition connectionQuality :: "historySeries option \<Rightarrow> historySeries option \<Rightarrow> number \<Rightarrow> connectionQualityView" where
  "connectionQuality attempts refusals windowSecs =
    (let windows = [windowSeries attempts windowSecs, windowSeries refusals windowSecs,
                    previousWindowSeries attempts windowSecs, previousWindowSeries refusals windowSecs];
         current = windowRatio (windows ! 0) (windows ! 1);
         previous = windowRatio (windows ! 2) (windows ! 3)
     in \<lparr>cq_percent = fst current, cq_refusals = snd current,
         cq_changePoints =
           (if list_all (\<lambda>series. completeCounterWindow series windowSecs) windows
            then (case (fst current, fst previous) of (Some c, Some p) \<Rightarrow> Some (c - p) | _ \<Rightarrow> None)
            else None)\<rparr>)"

definition qualityStep :: "number list \<times> number option \<times> number option \<Rightarrow> matchedStep \<Rightarrow> number list \<times> number option \<times> number option" where
  "qualityStep acc step =
    (let (out0, last0, end') = acc;
         (out, lst) = (if end' \<noteq> Some (cs_from step) then ([], None) else (out0, last0));
         lst' = (if 0 < cs_delta step then Some (100 - ms_refused step / cs_delta step * 100) else lst)
     in (case lst' of Some l \<Rightarrow> out @ [l] | None \<Rightarrow> out, lst', Some (cs_to step)))"

definition qualitySparklineValues :: "historySeries option \<Rightarrow> historySeries option \<Rightarrow> number list" where
  "qualitySparklineValues attempts refusals =
    (let (out, lst, end') = foldl qualityStep ([], None, None) (case matchingCounterSteps attempts refusals of Some ss \<Rightarrow> ss | None \<Rightarrow> [])
     in case (lastPoint attempts, lastPoint refusals) of
          (Some a, Some r) \<Rightarrow> if end' = Some (historyPointEnd a) \<and> end' = Some (historyPointEnd r) then out else []
        | _ \<Rightarrow> [])"

definition round1 :: "number \<Rightarrow> number" where
  "round1 n = of_int (js_round (n * 10)) / 10"

end
