(* ===== verification/History_Props.thy ===== *)
theory History_Props
  imports History
begin

text \<open>
  What the dashboard's history figures mean: the steps of a counter are real observed intervals, chained
  without a hole where nothing is marked unknown; a slice holds only points observed inside it; and the
  connection quality is a percentage.
\<close>

definition step_ok :: "counterStep \<Rightarrow> bool" where
  "step_ok st \<longleftrightarrow> cs_from st < cs_to st \<and> 0 \<le> cs_delta st \<and> 0 < cs_seconds st \<and> cs_seconds st \<le> cs_to st - cs_from st \<and>
     (cs_complete st \<longrightarrow> cs_seconds st = cs_to st - cs_from st)"

text \<open>Each step begins where the one before it ended.\<close>

fun chained :: "counterStep list \<Rightarrow> bool" where
  "chained [] = True"
| "chained [x] = True"
| "chained (x # y # xs) = (cs_to x = cs_from y \<and> chained (y # xs))"

lemma chained_snoc: "chained (xs @ [x]) \<longleftrightarrow> chained xs \<and> (xs \<noteq> [] \<longrightarrow> cs_to (last xs) = cs_from x)"
  by (induction xs rule: chained.induct) auto

text \<open>The loop's invariant: while nothing is unknown, every step is complete, the steps are chained and the
  last one ends at the previous observation.\<close>

definition steps_inv :: "stepState \<Rightarrow> bool" where
  "steps_inv st \<longleftrightarrow> (\<forall>s\<in>set (ss_steps st). step_ok s) \<and>
     (\<not> ss_partial st \<longrightarrow> (\<forall>s\<in>set (ss_steps st). cs_complete s) \<and> chained (ss_steps st) \<and>
        (ss_steps st \<noteq> [] \<longrightarrow> (\<exists>v. ss_previous st = Some (cs_to (last (ss_steps st)), v))))"

text \<open>The state between the bridge and the inner step: the steps end where the point begins.\<close>

lemma bridge_inv:
  assumes "steps_inv st" "bridgeStep obs v st = Inr st'"
  shows "(\<forall>s\<in>set (ss_steps st'). step_ok s) \<and>
     (\<not> ss_partial st' \<longrightarrow> (\<forall>s\<in>set (ss_steps st'). cs_complete s) \<and> chained (ss_steps st') \<and>
        (ss_steps st' \<noteq> [] \<longrightarrow> cs_to (last (ss_steps st')) = ob_first obs))"
  using assms
  by (auto simp: bridgeStep_def steps_inv_def step_ok_def chained_snoc Let_def split: option.splits prod.splits if_splits)

lemma bridge_overlap: "steps_inv st \<Longrightarrow> bridgeStep obs v st = Inl st' \<Longrightarrow> steps_inv st'"
  by (auto simp: bridgeStep_def steps_inv_def Let_def split: option.splits prod.splits if_splits)

lemma inner_inv:
  assumes "\<forall>s\<in>set (ss_steps st). step_ok s"
    "\<not> ss_partial st \<Longrightarrow> (\<forall>s\<in>set (ss_steps st). cs_complete s) \<and> chained (ss_steps st) \<and>
        (ss_steps st \<noteq> [] \<longrightarrow> cs_to (last (ss_steps st)) = ob_first obs)"
    "ob_first obs \<le> ob_last obs"
  shows "steps_inv ((innerStep p obs st)\<lparr>ss_previous := Some (ob_last obs, v)\<rparr>)"
  using assms by (auto simp: innerStep_def steps_inv_def step_ok_def chained_snoc Let_def split: option.splits)

lemma pointStep_inv: "steps_inv st \<Longrightarrow> steps_inv (pointStep st p)"
proof (cases "counterObservation p")
  case None
  moreover assume "steps_inv st"
  ultimately show ?thesis by (simp add: pointStep_def steps_inv_def)
next
  case (Some obs)
  assume inv: "steps_inv st"
  show ?thesis
  proof (cases "ob_last obs < ob_first obs")
    case True
    with Some inv show ?thesis by (simp add: pointStep_def steps_inv_def)
  next
    case False
    show ?thesis
    proof (cases "bridgeStep obs (hp_v p) st")
      case (Inl st')
      with Some False bridge_overlap [OF inv Inl] show ?thesis by (simp add: pointStep_def)
    next
      case (Inr st')
      with Some False bridge_inv [OF inv Inr] show ?thesis by (simp add: pointStep_def inner_inv)
    qed
  qed
qed

lemma steps_inv_run: "steps_inv (foldl pointStep \<lparr>ss_steps = [], ss_previous = None, ss_partial = False\<rparr> ps)"
proof (induction ps rule: rev_induct)
  case Nil
  show ?case by (simp add: steps_inv_def)
next
  case (snoc p ps)
  then show ?case by (simp add: pointStep_inv)
qed

lemma counterSteps_ok: "s \<in> set (fst (counterSteps series)) \<Longrightarrow> step_ok s"
  using steps_inv_run by (auto simp: counterSteps_def Let_def steps_inv_def)

lemma counterSteps_chained:
  assumes "\<not> snd (counterSteps series)"
  shows "chained (fst (counterSteps series)) \<and> (\<forall>s\<in>set (fst (counterSteps series)). cs_complete s)"
  using assms steps_inv_run [of "case series of None \<Rightarrow> [] | Some s \<Rightarrow> hs_points s"]
  by (simp add: counterSteps_def Let_def steps_inv_def)

text \<open>A chain of complete steps measures every second between its ends.\<close>

lemma chained_seconds:
  assumes "chained steps" "steps \<noteq> []" "\<forall>s\<in>set steps. step_ok s \<and> cs_complete s"
  shows "sum_list (map cs_seconds steps) = cs_to (last steps) - cs_from (hd steps)"
  using assms by (induction steps rule: chained.induct) (auto simp: step_ok_def)

text \<open>Raw samples telescope: without anything unknown the steps add up to the growth of the counter.\<close>

lemma raw_telescopes:
  assumes "\<forall>p\<in>set (p0 # ps). hp_tier p = None"
    and "\<not> ss_partial (foldl pointStep \<lparr>ss_steps = [], ss_previous = None, ss_partial = False\<rparr> (p0 # ps))"
  shows "sum_list (map cs_delta (ss_steps (foldl pointStep \<lparr>ss_steps = [], ss_previous = None, ss_partial = False\<rparr> (p0 # ps)))) =
      hp_v (last (p0 # ps)) - hp_v p0 \<and>
    ss_previous (foldl pointStep \<lparr>ss_steps = [], ss_previous = None, ss_partial = False\<rparr> (p0 # ps)) =
      Some (hp_ts (last (p0 # ps)), hp_v (last (p0 # ps)))"
  using assms
proof (induction ps rule: rev_induct)
  case Nil
  then show ?case by (simp add: pointStep_def counterObservation_def bridgeStep_def innerStep_def)
next
  case (snoc p ps)
  let ?st = "foldl pointStep \<lparr>ss_steps = [], ss_previous = None, ss_partial = False\<rparr> (p0 # ps)"
  have raw: "counterObservation p = Some \<lparr>ob_first = hp_ts p, ob_last = hp_ts p, ob_firstValue = hp_v p\<rparr>"
    using snoc.prems(1) by (simp add: counterObservation_def)
  have step: "foldl pointStep \<lparr>ss_steps = [], ss_previous = None, ss_partial = False\<rparr> (p0 # ps @ [p]) = pointStep ?st p" by simp
  have np: "\<not> ss_partial ?st"
    using snoc.prems(2) unfolding step
    by (auto simp: pointStep_def raw bridgeStep_def innerStep_def Let_def split: option.splits if_splits)
  from snoc.IH [OF _ np] snoc.prems(1) have IH: "sum_list (map cs_delta (ss_steps ?st)) = hp_v (last (p0 # ps)) - hp_v p0"
    "ss_previous ?st = Some (hp_ts (last (p0 # ps)), hp_v (last (p0 # ps)))" by auto
  show ?case
    using snoc.prems(2) IH unfolding step
    by (auto simp: pointStep_def raw bridgeStep_def innerStep_def Let_def split: if_splits)
qed

subsection \<open>Slices\<close>

lemma rawPoint_span [simp]: "historyPointStart (rawPoint t v) = t" "historyPointEnd (rawPoint t v) = t"
  by (simp_all add: rawPoint_def historyPointStart_def historyPointEnd_def)

lemma clipPoint_inside:
  "q \<in> set (fst (clipPoint counter f t p)) \<Longrightarrow> f \<le> historyPointStart q \<and> historyPointEnd q \<le> t"
  by (auto simp: clipPoint_def Let_def split: if_splits option.splits)

lemma slice_points: "hs_points (sliceHistory s f t) = concat (map (\<lambda>p. fst (clipPoint (isCounter s) f t p)) (hs_points s))"
  by (simp add: sliceHistory_def Let_def o_def)

lemma slice_inside:
  "q \<in> set (hs_points (sliceHistory s f t)) \<Longrightarrow> f \<le> historyPointStart q \<and> historyPointEnd q \<le> t"
  unfolding slice_points by (auto dest: clipPoint_inside)

lemma window_inside:
  assumes "windowSeries (Some s) secs = Some w" "q \<in> set (hs_points w)" "hs_points s \<noteq> []"
  shows "historyPointEnd (last (hs_points s)) - secs \<le> historyPointStart q \<and> historyPointEnd q \<le> historyPointEnd (last (hs_points s))"
  using assms slice_inside by (auto simp: windowSeries_def Let_def)

subsection \<open>Rates\<close>

lemma rateStep_nonneg:
  assumes "step_ok st" "\<forall>v\<in>set (fst acc). 0 \<le> v"
  shows "\<forall>v\<in>set (fst (rateStep acc st)). 0 \<le> v"
proof -
  have "0 \<le> cs_delta st / cs_seconds st" using assms(1) by (simp add: step_ok_def)
  with assms(2) show ?thesis by (auto simp: rateStep_def Let_def split: prod.splits if_splits)
qed

lemma rates_nonneg: "v \<in> set (counterRates series) \<Longrightarrow> 0 \<le> v"
proof -
  have "\<forall>s\<in>set steps. step_ok s \<Longrightarrow> \<forall>v\<in>set (fst (foldl rateStep ([], None) steps)). 0 \<le> v" for steps
  proof (induction steps rule: rev_induct)
    case (snoc st steps)
    then have "step_ok st" "\<forall>v\<in>set (fst (foldl rateStep ([], None) steps)). 0 \<le> v" by simp_all
    then show ?case unfolding foldl_append foldl_Cons foldl_Nil by (rule rateStep_nonneg)
  qed simp
  then have "\<forall>v\<in>set (fst (foldl rateStep ([], None) (fst (counterSteps series)))). 0 \<le> v"
    using counterSteps_ok by blast
  then show "v \<in> set (counterRates series) \<Longrightarrow> 0 \<le> v"
    by (auto simp: counterRates_def case_prod_beta split: option.splits if_splits)
qed

subsection \<open>Where the steps come from\<close>

text \<open>The first and the last observation of a point: time and value of the counter. A raw sample is both; the bucket of a
  tier carries its own, the first value also as the last one less the growth where nothing was missed.\<close>

definition startsAt :: "historyPoint \<Rightarrow> number \<Rightarrow> number \<Rightarrow> bool" where
  "startsAt p t v \<longleftrightarrow> (if hp_tier p = None then t = hp_ts p \<and> v = hp_v p
     else hp_first_observed_epoch_secs p = Some t \<and>
       (hp_first_observed_value p = Some v \<or>
        hp_first_observed_value p = None \<and> hp_gaps p = Some 0 \<and> (\<exists>d. hp_observed_delta p = Some d \<and> v = hp_v p - d)))"

definition endsAt :: "historyPoint \<Rightarrow> number \<Rightarrow> number \<Rightarrow> bool" where
  "endsAt p t v \<longleftrightarrow> v = hp_v p \<and> (if hp_tier p = None then t = hp_ts p else hp_last_observed_epoch_secs p = Some t)"

text \<open>A step is measured by one bucket, or bridges two points of the series at most two minutes apart.\<close>

definition withinBucket :: "historyPoint \<Rightarrow> counterStep \<Rightarrow> bool" where
  "withinBucket p s \<longleftrightarrow> hp_tier p \<noteq> None \<and> hp_first_observed_epoch_secs p = Some (cs_from s) \<and>
     hp_last_observed_epoch_secs p = Some (cs_to s) \<and> hp_observed_delta p = Some (cs_delta s) \<and> hp_observed_seconds p = Some (cs_seconds s) \<and>
     (cs_complete s \<longleftrightarrow> hp_gaps p = Some 0 \<and> cs_seconds s = cs_to s - cs_from s)"

definition bridges :: "historyPoint \<Rightarrow> historyPoint \<Rightarrow> counterStep \<Rightarrow> bool" where
  "bridges p q s \<longleftrightarrow> (\<exists>a b. endsAt p (cs_from s) a \<and> startsAt q (cs_to s) b \<and> cs_delta s = b - a) \<and>
     cs_seconds s = cs_to s - cs_from s \<and> cs_to s - cs_from s \<le> 120 \<and> cs_complete s"

definition measuredIn :: "historyPoint list \<Rightarrow> counterStep \<Rightarrow> bool" where
  "measuredIn ps s \<longleftrightarrow> (\<exists>p\<in>set ps. withinBucket p s) \<or> (\<exists>xs p ys q zs. ps = xs @ p # ys @ q # zs \<and> bridges p q s)"

text \<open>The second point goes on where the first one ended: neither an outage nor a reset between them.\<close>

definition continues :: "historyPoint \<Rightarrow> historyPoint \<Rightarrow> bool" where
  "continues p q \<longleftrightarrow> (\<exists>t a u b. endsAt p t a \<and> startsAt q u b \<and> t \<le> u \<and> u - t \<le> 120 \<and> a \<le> b \<and> (t = u \<longrightarrow> a = b))"

lemma observation_ends:
  "counterObservation p = Some obs \<Longrightarrow> startsAt p (ob_first obs) (ob_firstValue obs) \<and> endsAt p (ob_last obs) (hp_v p)"
  by (auto simp: counterObservation_def startsAt_def endsAt_def split: option.splits if_splits)

lemma measuredIn_snoc: "measuredIn ps s \<Longrightarrow> measuredIn (ps @ [q]) s"
  unfolding measuredIn_def by (metis Cons_eq_appendI UnCI append_assoc set_append)

lemma measuredIn_bridge: "p \<in> set ps \<Longrightarrow> bridges p q s \<Longrightarrow> measuredIn (ps @ [q]) s"
  unfolding measuredIn_def by (metis append_Cons append_assoc split_list)

lemma measuredIn_bucket: "withinBucket q s \<Longrightarrow> measuredIn (ps @ [q]) s"
  unfolding measuredIn_def by auto

text \<open>The loop's invariant: the steps are measured in the points read so far, and the previous observation is the last one
  of one of them.\<close>

definition source_inv :: "historyPoint list \<Rightarrow> stepState \<Rightarrow> bool" where
  "source_inv ps st \<longleftrightarrow> (\<forall>s\<in>set (ss_steps st). measuredIn ps s) \<and>
     (\<forall>t v. ss_previous st = Some (t, v) \<longrightarrow> (\<exists>p\<in>set ps. endsAt p t v))"

lemma bridge_source:
  assumes "source_inv ps st" "counterObservation q = Some obs"
  shows "case bridgeStep obs (hp_v q) st of Inl st' \<Rightarrow> source_inv (ps @ [q]) st'
    | Inr st' \<Rightarrow> (\<forall>s\<in>set (ss_steps st'). measuredIn (ps @ [q]) s)"
proof (cases "ss_previous st")
  case None
  with assms measuredIn_snoc show ?thesis by (auto simp: bridgeStep_def source_inv_def)
next
  case (Some tv)
  obtain t v where tv: "ss_previous st = Some (t, v)" using Some by (cases tv) simp
  from assms(1) tv obtain p where p: "p \<in> set ps" "endsAt p t v" unfolding source_inv_def by blast
  note ends = observation_ends [OF assms(2)]
  have "bridges p q \<lparr>cs_from = t, cs_to = ob_first obs, cs_delta = ob_firstValue obs - v, cs_seconds = ob_first obs - t, cs_complete = True\<rparr>"
    if "ob_first obs - t \<le> OBSERVATION_GAP"
    using that p(2) ends by (auto simp: bridges_def OBSERVATION_GAP_def)
  then have new: "measuredIn (ps @ [q]) \<lparr>cs_from = t, cs_to = ob_first obs, cs_delta = ob_firstValue obs - v, cs_seconds = ob_first obs - t, cs_complete = True\<rparr>"
    if "ob_first obs - t \<le> OBSERVATION_GAP"
    using that measuredIn_bridge [OF p(1)] by blast
  have old: "\<forall>s\<in>set (ss_steps st). measuredIn (ps @ [q]) s" using assms(1) measuredIn_snoc by (auto simp: source_inv_def)
  show ?thesis using new old ends p by (auto simp: bridgeStep_def tv source_inv_def Let_def)
qed

lemma inner_source:
  assumes "counterObservation q = Some obs" "\<forall>s\<in>set (ss_steps st). measuredIn (ps @ [q]) s"
  shows "\<forall>s\<in>set (ss_steps (innerStep q obs st)). measuredIn (ps @ [q]) s"
proof -
  have "withinBucket q \<lparr>cs_from = ob_first obs, cs_to = ob_last obs, cs_delta = d, cs_seconds = n,
      cs_complete = (hp_gaps q = Some 0 \<and> n = ob_last obs - ob_first obs)\<rparr>"
    if "ob_first obs < ob_last obs" "hp_observed_delta q = Some d" "hp_observed_seconds q = Some n" for d n
    using that observation_ends [OF assms(1)] assms(1)
    by (auto simp: withinBucket_def startsAt_def endsAt_def counterObservation_def split: if_splits)
  then show ?thesis using assms(2) measuredIn_bucket by (auto simp: innerStep_def Let_def split: option.split)
qed

lemma pointStep_source: "source_inv ps st \<Longrightarrow> source_inv (ps @ [q]) (pointStep st q)"
proof -
  assume inv: "source_inv ps st"
  then have old: "\<forall>s\<in>set (ss_steps st). measuredIn (ps @ [q]) s" using measuredIn_snoc by (auto simp: source_inv_def)
  show ?thesis
  proof (cases "counterObservation q")
    case None
    with old show ?thesis by (simp add: pointStep_def source_inv_def)
  next
    case (Some obs)
    note b = bridge_source [OF inv Some]
    show ?thesis
    proof (cases "ob_last obs < ob_first obs")
      case True
      with Some old show ?thesis by (simp add: pointStep_def source_inv_def)
    next
      case False
      show ?thesis
      proof (cases "bridgeStep obs (hp_v q) st")
        case (Inl st')
        with Some False b show ?thesis by (simp add: pointStep_def)
      next
        case (Inr st')
        with Some False b inner_source [OF Some] observation_ends [OF Some] show ?thesis
          by (simp add: pointStep_def source_inv_def)
      qed
    qed
  qed
qed

lemma steps_measured: "s \<in> set (fst (counterSteps (Some series))) \<Longrightarrow> measuredIn (hs_points series) s"
proof -
  have "source_inv ps (foldl pointStep \<lparr>ss_steps = [], ss_previous = None, ss_partial = False\<rparr> ps)" for ps
  proof (induction ps rule: rev_induct)
    case (snoc p ps)
    then show ?case by (simp add: pointStep_source)
  qed (simp add: source_inv_def)
  then show "s \<in> set (fst (counterSteps (Some series))) \<Longrightarrow> measuredIn (hs_points series) s"
    by (auto simp: counterSteps_def Let_def source_inv_def)
qed

text \<open>A series that is not partial was not partial before any of its points.\<close>

lemma step_unbroken:
  assumes "\<not> ss_partial (pointStep st q)"
  shows "\<not> ss_partial st \<and> (\<exists>obs. counterObservation q = Some obs \<and> ss_previous (pointStep st q) = Some (ob_last obs, hp_v q) \<and>
    (\<forall>t a. ss_previous st = Some (t, a) \<longrightarrow> t \<le> ob_first obs \<and> ob_first obs - t \<le> 120 \<and> a \<le> ob_firstValue obs \<and>
      (t = ob_first obs \<longrightarrow> a = ob_firstValue obs)))"
  using assms
  by (auto simp: pointStep_def bridgeStep_def innerStep_def OBSERVATION_GAP_def Let_def split: option.splits if_splits sum.splits)

lemma run_unbroken: "\<not> ss_partial (foldl pointStep st (xs @ ys)) \<Longrightarrow> \<not> ss_partial (foldl pointStep st xs)"
proof (induction ys rule: rev_induct)
  case (snoc y ys)
  have "foldl pointStep st (xs @ ys @ [y]) = pointStep (foldl pointStep st (xs @ ys)) y" by simp
  with snoc step_unbroken show ?case by metis
qed simp

lemma points_continue:
  assumes "\<not> snd (counterSteps (Some series))" "hs_points series = xs @ p # q # ys"
  shows "continues p q"
proof -
  let ?s0 = "\<lparr>ss_steps = [], ss_previous = None, ss_partial = False\<rparr>"
  have "\<not> ss_partial (foldl pointStep ?s0 ((xs @ [p, q]) @ ys))" using assms by (simp add: counterSteps_def Let_def)
  then have "\<not> ss_partial (pointStep (pointStep (foldl pointStep ?s0 xs) p) q)" using run_unbroken [of ?s0 "xs @ [p, q]" ys] by simp
  note q = step_unbroken [OF this]
  from step_unbroken [of "foldl pointStep ?s0 xs" p] q obtain ob where
    p: "counterObservation p = Some ob" "ss_previous (pointStep (foldl pointStep ?s0 xs) p) = Some (ob_last ob, hp_v p)" by blast
  with q obtain obs where "counterObservation q = Some obs" "ob_last ob \<le> ob_first obs" "ob_first obs - ob_last ob \<le> 120"
    "hp_v p \<le> ob_firstValue obs" "ob_last ob = ob_first obs \<longrightarrow> hp_v p = ob_firstValue obs" by blast
  with observation_ends [OF p(1)] observation_ends [of q obs] show ?thesis unfolding continues_def by blast
qed

lemma tolerance_le: "foldl min (60 :: number) xs \<le> 60"
  by (induction xs rule: rev_induct) (auto simp: min_def)

text \<open>C36. The history of a counter is read as measured steps. Every step is an interval between two
  observations with its growth, never negative, and the seconds actually observed, never more than
  the interval: it is what one bucket of the series measured, or the growth from the last observation of a point to the
  first one of a later point at most 120 seconds on, so that no outage is bridged. A series is not marked partial only if
  each point goes on where the one before it ended, with at most 120 seconds between them and no reset of the counter. Where the series is not marked partial the steps are complete and follow each other
  without a hole, so that their seconds are all the time between their ends; a window called complete
  is such a chain, within a minute of the window asked for. Raw samples of a series that is not
  partial add up to the growth of the counter. A slice only holds points observed inside it, and no
  rate of the chart is negative.\<close>

theorem counter_history_measured:
  fixes series :: "historySeries option" and secs f t :: number
  defines "steps \<equiv> fst (counterSteps series)" and "partial \<equiv> snd (counterSteps series)"
  shows "(\<forall>s\<in>set steps. step_ok s) \<and>
    (\<forall>h. series = Some h \<longrightarrow> (\<forall>s\<in>set steps. measuredIn (hs_points h) s)) \<and>
    (\<forall>h xs p q ys. series = Some h \<and> \<not> partial \<and> hs_points h = xs @ p # q # ys \<longrightarrow> continues p q) \<and>
    (\<not> partial \<and> steps \<noteq> [] \<longrightarrow> chained steps \<and> (\<forall>s\<in>set steps. cs_complete s) \<and>
       sum_list (map cs_seconds steps) = cs_to (last steps) - cs_from (hd steps)) \<and>
    (\<forall>s. series = Some s \<and> completeCounterWindow series secs \<longrightarrow> \<not> partial \<and> steps \<noteq> [] \<and>
       cs_from (hd steps) \<le> hs_requested_from_epoch_secs s + 60 \<and> hs_requested_from_epoch_secs s + secs - 60 \<le> cs_to (last steps)) \<and>
    (\<forall>s. series = Some s \<and> hs_points s \<noteq> [] \<and> (\<forall>p\<in>set (hs_points s). hp_tier p = None) \<and> \<not> partial \<longrightarrow>
       sum_list (map cs_delta steps) = hp_v (last (hs_points s)) - hp_v (hd (hs_points s))) \<and>
    (\<forall>s q. q \<in> set (hs_points (sliceHistory s f t)) \<longrightarrow> f \<le> historyPointStart q \<and> historyPointEnd q \<le> t) \<and>
    (\<forall>v\<in>set (counterRates series). 0 \<le> v)"
proof (intro conjI allI ballI impI, goal_cases)
  case (1 s)
  then show ?case by (simp add: steps_def counterSteps_ok)
next
  case (2 h s)
  then show ?case using steps_measured by (simp add: steps_def)
next
  case (3 h xs p q ys)
  then show ?case using points_continue by (auto simp: partial_def)
next
  case 4
  then show ?case using counterSteps_chained [of series] by (simp add: steps_def partial_def)
next
  case (5 s)
  then show ?case using counterSteps_chained [of series] by (simp add: steps_def partial_def)
next
  case 6
  then show ?case using counterSteps_chained [of series]
    by (intro chained_seconds) (auto simp: steps_def partial_def counterSteps_ok)
next
  case (7 s)
  then show ?case by (auto simp: completeCounterWindow_def partial_def split: prod.splits)
next
  case (8 s)
  then show ?case by (auto simp: completeCounterWindow_def steps_def split: prod.splits)
next
  case (9 s)
  then show ?case using tolerance_le [of "map cs_seconds steps"]
    by (auto simp: completeCounterWindow_def steps_def Let_def split: prod.splits)
next
  case (10 s)
  then show ?case using tolerance_le [of "map cs_seconds steps"]
    by (auto simp: completeCounterWindow_def steps_def Let_def split: prod.splits)
next
  case (11 s)
  then obtain p0 ps where s: "series = Some s" "hs_points s = p0 # ps" by (cases "hs_points s") auto
  with 11 have "\<forall>p\<in>set (p0 # ps). hp_tier p = None"
    "\<not> ss_partial (foldl pointStep \<lparr>ss_steps = [], ss_previous = None, ss_partial = False\<rparr> (p0 # ps))"
    by (auto simp: partial_def counterSteps_def Let_def)
  from raw_telescopes [OF this] show ?case by (simp only: s steps_def counterSteps_def Let_def option.case fst_conv list.sel)
next
  case (12 s q)
  then show ?case by (simp add: slice_inside)
next
  case (13 s q)
  then show ?case using slice_inside by blast
next
  case (14 v)
  then show ?case by (rule rates_nonneg)
qed

text \<open>A counter sampled at 0, 60 and 120 seconds.\<close>

definition sampleSeries :: historySeries where
  "sampleSeries = \<lparr>hs_metric = ''traffic'', hs_range = ''30m'', hs_state = HReady, hs_requested_from_epoch_secs = 0,
     hs_retention_secs = 7200, hs_available_from_epoch_secs = None, hs_source_available = Some True,
     hs_points = [rawPoint 0 5, rawPoint 60 7, rawPoint 120 12]\<rparr>"

lemma sampleSeries_steps:
  "counterSteps (Some sampleSeries) =
    ([\<lparr>cs_from = 0, cs_to = 60, cs_delta = 2, cs_seconds = 60, cs_complete = True\<rparr>,
      \<lparr>cs_from = 60, cs_to = 120, cs_delta = 5, cs_seconds = 60, cs_complete = True\<rparr>], False)"
  by (simp add: sampleSeries_def counterSteps_def pointStep_def counterObservation_def rawPoint_def bridgeStep_def innerStep_def
      OBSERVATION_GAP_def Let_def)

theorem counter_history_measured_witness:
  "completeCounterWindow (Some sampleSeries) 120 \<and> chained (fst (counterSteps (Some sampleSeries))) \<and>
   sum_list (map cs_delta (fst (counterSteps (Some sampleSeries)))) = 7 \<and>
   list_all (\<lambda>q. historyPointEnd q \<le> 100) (hs_points (sliceHistory sampleSeries 30 100))"
proof -
  have w: "completeCounterWindow (Some sampleSeries) 120"
    unfolding completeCounterWindow_def sampleSeries_steps by (simp add: sampleSeries_def)
  note mh = counter_history_measured [of "Some sampleSeries" 120 30 100]
  have "sum_list (map cs_delta (fst (counterSteps (Some sampleSeries)))) = hp_v (last (hs_points sampleSeries)) - hp_v (hd (hs_points sampleSeries))"
    using mh sampleSeries_steps by (simp add: sampleSeries_def rawPoint_def)
  then have "sum_list (map cs_delta (fst (counterSteps (Some sampleSeries)))) = 7" by (simp add: sampleSeries_def rawPoint_def)
  moreover have "chained (fst (counterSteps (Some sampleSeries)))" using mh sampleSeries_steps by simp
  ultimately show ?thesis using w mh by (simp add: list_all_iff)
qed

subsection \<open>Connection quality\<close>

lemma sum_le_zip:
  fixes a r :: "counterStep list"
  assumes "length a = length r" "\<not> list_ex (\<lambda>(x, y). stepMismatch x y) (zip a r)"
  shows "sum_list (map cs_delta r) \<le> sum_list (map cs_delta a)"
  using assms by (induction a r rule: list_induct2) (auto simp: stepMismatch_def)

lemma matched_delta:
  assumes "length a = length r"
  shows "map cs_delta (map (\<lambda>(x, y). counterStep.extend x \<lparr>ms_refused = cs_delta y\<rparr>) (zip a r)) = map cs_delta a"
  using assms by (induction a r rule: list_induct2) (auto simp: counterStep.defs)

lemma windowDelta_nonneg: "historyWindowDelta series = Some d \<Longrightarrow> 0 \<le> d"
  using counterSteps_ok by (auto simp: historyWindowDelta_def Let_def step_ok_def intro!: sum_list_nonneg split: if_splits)

definition percent :: "number option \<Rightarrow> bool" where
  "percent p = (case p of None \<Rightarrow> True | Some x \<Rightarrow> 0 \<le> x \<and> x \<le> 100)"

lemma share_percent:
  fixes w a :: number
  assumes "0 \<le> w" "w \<le> a" "0 < a"
  shows "0 \<le> 100 - w / a * 100 \<and> 100 - w / a * 100 \<le> 100"
proof -
  have "0 \<le> w / a" "w / a \<le> 1" using assms by simp_all
  then show ?thesis by linarith
qed

lemma windowRatio_percent: "percent (fst (windowRatio a r)) \<and> 0 \<le> snd (windowRatio a r)"
proof -
  have nn: "0 \<le> (case historyWindowDelta r of Some d \<Rightarrow> d | None \<Rightarrow> 0)"
    using windowDelta_nonneg by (auto split: option.split)
  have le: "(case historyWindowDelta r of Some d \<Rightarrow> d | None \<Rightarrow> 0) \<le> sum_list (map cs_delta ss)"
    if "matchingCounterSteps a r = Some ss" for ss
  proof -
    from that have len: "length (fst (counterSteps a)) = length (fst (counterSteps r))"
      and ne: "fst (counterSteps r) \<noteq> []"
      and mm: "\<not> list_ex (\<lambda>(x, y). stepMismatch x y) (zip (fst (counterSteps a)) (fst (counterSteps r)))"
      and ss: "ss = map (\<lambda>(x, y). counterStep.extend x \<lparr>ms_refused = cs_delta y\<rparr>) (zip (fst (counterSteps a)) (fst (counterSteps r)))"
      by (auto simp: matchingCounterSteps_def Let_def split: if_splits)
    from ne sum_le_zip [OF len mm] show ?thesis
      unfolding ss matched_delta [OF len] by (simp add: historyWindowDelta_def)
  qed
  show ?thesis
  proof (cases "matchingCounterSteps a r")
    case None
    with nn show ?thesis by (simp add: windowRatio_def percent_def Let_def)
  next
    case (Some ss)
    let ?w = "case historyWindowDelta r of Some d \<Rightarrow> d | None \<Rightarrow> 0" and ?a = "sum_list (map cs_delta ss)"
    have "0 < ?a \<Longrightarrow> percent (Some (100 - ?w / ?a * 100))"
      using share_percent [OF nn le [OF Some]] by (simp only: percent_def option.case)
    moreover have "percent None" by (simp add: percent_def)
    ultimately show ?thesis using Some nn by (simp add: windowRatio_def Let_def not_le)
  qed
qed

lemma qualityStep_percent:
  assumes "0 \<le> ms_refused st" "ms_refused st \<le> cs_delta st" "list_all (\<lambda>x. percent (Some x)) (fst acc)" "percent (fst (snd acc))"
  shows "list_all (\<lambda>x. percent (Some x)) (fst (qualityStep acc st)) \<and> percent (fst (snd (qualityStep acc st)))"
proof -
  have "0 < cs_delta st \<Longrightarrow> percent (Some (100 - ms_refused st / cs_delta st * 100))"
    using share_percent [OF assms(1,2)] by (simp only: percent_def option.case)
  moreover have "percent None" by (simp add: percent_def)
  ultimately show ?thesis using assms(3,4)
    by (cases acc) (auto simp: qualityStep_def Let_def list_all_iff split: option.splits)
qed

lemma matched_bounds:
  assumes "matchingCounterSteps a r = Some ss" "st \<in> set ss"
  shows "0 \<le> ms_refused st \<and> ms_refused st \<le> cs_delta st"
proof -
  from assms obtain x y where xy: "(x, y) \<in> set (zip (fst (counterSteps a)) (fst (counterSteps r)))" "\<not> stepMismatch x y"
    and st: "st = counterStep.extend x \<lparr>ms_refused = cs_delta y\<rparr>"
    by (fastforce simp: matchingCounterSteps_def Let_def list_ex_iff split: if_splits)
  from xy(1) have "y \<in> set (fst (counterSteps r))" by (rule set_zip_rightD)
  then have "0 \<le> cs_delta y" using counterSteps_ok by (auto simp: step_ok_def)
  with xy(2) show ?thesis unfolding st by (auto simp: stepMismatch_def counterStep.defs)
qed

lemma sparkline_percent: "list_all (\<lambda>x. percent (Some x)) (qualitySparklineValues a r)"
proof -
  have run: "list_all (\<lambda>x. percent (Some x)) (fst (foldl qualityStep ([], None, None) ss)) \<and> percent (fst (snd (foldl qualityStep ([], None, None) ss)))"
    if "\<forall>st\<in>set ss. 0 \<le> ms_refused st \<and> ms_refused st \<le> cs_delta st" for ss
    using that
  proof (induction ss rule: rev_induct)
    case (snoc st ss)
    then show ?case using qualityStep_percent [of st "foldl qualityStep ([], None, None) ss"] by simp
  qed (simp add: percent_def)
  have "list_all (\<lambda>x. percent (Some x)) (fst (foldl qualityStep ([], None, None) (case matchingCounterSteps a r of Some ss \<Rightarrow> ss | None \<Rightarrow> [])))"
    using run matched_bounds by (cases "matchingCounterSteps a r") auto
  then show ?thesis
    by (auto simp: qualitySparklineValues_def case_prod_beta split: option.splits)
qed

text \<open>The connection quality is a percentage. Whatever the two histories hold -- resets, gaps, buckets
  that do not match --, the share shown and every point of its curve lie between 0 and 100, the
  refusals are never negative, and the change against the previous window is within a hundred points.\<close>

theorem connection_quality_bounds:
  fixes attempts refusals :: "historySeries option" and secs :: number
  defines "q \<equiv> connectionQuality attempts refusals secs"
  shows "percent (cq_percent q) \<and> 0 \<le> cq_refusals q \<and>
    (case cq_changePoints q of None \<Rightarrow> True | Some c \<Rightarrow> -100 \<le> c \<and> c \<le> 100) \<and>
    list_all (\<lambda>x. percent (Some x)) (qualitySparklineValues attempts refusals)"
proof -
  let ?w = "windowRatio (windowSeries attempts secs) (windowSeries refusals secs)"
  let ?v = "windowRatio (previousWindowSeries attempts secs) (previousWindowSeries refusals secs)"
  have "percent (fst ?w) \<and> 0 \<le> snd ?w \<and> percent (fst ?v)" using windowRatio_percent by blast
  then show ?thesis using sparkline_percent
    by (auto simp: q_def connectionQuality_def Let_def percent_def split: option.splits)
qed

end
