(* ===== verification/Locale_Store.thy ===== *)
theory Locale_Store
  imports I18n
begin

text \<open>
  The language of the panel: \<open>web/src/i18n/locale.ts\<close> (the stored preference, the browser's languages),
  \<open>loadDictionary.ts\<close> (one module per language, a new URL after a failure) and \<open>store.ts\<close> (the
  selection of a language, which commits only after its dictionary has arrived). The state of the
  three modules is one record; a module import in flight is answered by an event, at any time and
  with any module, and resumes the selections that await it in the order of their \<open>await\<close>. The URLs of the
  modules are a parameter: the build generates them.
\<close>

subsection \<open>Choosing a language\<close>

datatype localePreference = PrefAuto | PrefLocale panelLocale

fun localeText :: "panelLocale \<Rightarrow> string" where
  "localeText Ru = ''ru''"
| "localeText En = ''en''"

fun preferenceText :: "localePreference \<Rightarrow> string" where
  "preferenceText PrefAuto = ''auto''"
| "preferenceText (PrefLocale l) = localeText l"

definition isLocale :: "string \<Rightarrow> panelLocale option" where
  "isLocale value = (if value = ''ru'' then Some Ru else if value = ''en'' then Some En else None)"

definition isLocalePreference :: "string \<Rightarrow> localePreference option" where
  "isLocalePreference value = (if value = ''auto'' then Some PrefAuto else map_option PrefLocale (isLocale value))"

definition FALLBACK_LOCALE :: panelLocale where
  "FALLBACK_LOCALE = En"

fun localeFromLanguages :: "string list \<Rightarrow> panelLocale" where
  "localeFromLanguages [] = FALLBACK_LOCALE"
| "localeFromLanguages (tag # tags) =
    (case isLocale (hd (split_at CHR ''-'' (to_lower tag))) of Some primary \<Rightarrow> primary | None \<Rightarrow> localeFromLanguages tags)"

fun resolveLocale :: "localePreference \<Rightarrow> string list \<Rightarrow> panelLocale" where
  "resolveLocale (PrefLocale l) languages = l"
| "resolveLocale PrefAuto languages = localeFromLanguages languages"

text \<open>\<open>navigator.languages\<close> when it is a list with an entry, else \<open>navigator.language\<close> when it is not empty.\<close>

record browserLanguages =
  nav_languages :: "string list"
  nav_language :: string

definition navigatorLanguages :: "browserLanguages \<Rightarrow> string list" where
  "navigatorLanguages nav = (if nav_languages nav \<noteq> [] then nav_languages nav else if nav_language nav \<noteq> [] then [nav_language nav] else [])"

subsection \<open>The state\<close>

text \<open>A selection that awaits the dictionary of its language.\<close>

record waitingSelection =
  ws_request :: nat
  ws_pref :: localePreference
  ws_next :: panelLocale
  ws_persist :: bool

record localeStore =
  ls_dictionaries :: "panelLocale \<rightharpoonup> dict"
  ls_pendingLoads :: "panelLocale \<rightharpoonup> nat"
  ls_failures :: "panelLocale \<Rightarrow> nat"
  ls_imports :: "(panelLocale \<times> string) list"
  ls_selection :: nat
  ls_pending :: "localePreference option"
  ls_error :: "localePreference option"
  ls_current :: "panelLocale option"
  ls_preference :: "localePreference option"
  ls_waiting :: "waitingSelection list"
  ls_results :: "(nat \<times> bool) list"
  ls_listeners :: "nat list"
  ls_notified :: "nat list"
  ls_navigator :: browserLanguages
  ls_stored :: "string option"
  ls_storageWorks :: bool
  ls_documentLang :: "panelLocale option"

definition getStoredLocalePreference :: "localeStore \<Rightarrow> localePreference" where
  "getStoredLocalePreference st =
    (case (if ls_storageWorks st then ls_stored st else None) of
       Some raw \<Rightarrow> (case isLocalePreference raw of Some p \<Rightarrow> p | None \<Rightarrow> PrefAuto)
     | None \<Rightarrow> PrefAuto)"

definition setStoredLocalePreference :: "localePreference \<Rightarrow> localeStore \<Rightarrow> localeStore" where
  "setStoredLocalePreference pref st = (if ls_storageWorks st then st\<lparr>ls_stored := Some (preferenceText pref)\<rparr> else st)"

definition resolvePreferredLocale :: "localePreference \<Rightarrow> localeStore \<Rightarrow> panelLocale" where
  "resolvePreferredLocale pref st = resolveLocale pref (navigatorLanguages (ls_navigator st))"

definition resolveInitialLocale :: "localeStore \<Rightarrow> panelLocale" where
  "resolveInitialLocale st = resolvePreferredLocale (getStoredLocalePreference st) st"

definition applyDocumentLocale :: "panelLocale \<Rightarrow> localeStore \<Rightarrow> localeStore" where
  "applyDocumentLocale loc st = st\<lparr>ls_documentLang := Some loc\<rparr>"

subsection \<open>Loading a dictionary\<close>

definition dictionaryURL :: "(panelLocale \<Rightarrow> string) \<Rightarrow> panelLocale \<Rightarrow> nat \<Rightarrow> string" where
  "dictionaryURL localeURLs loc attempt = localeURLs loc @ (if attempt \<noteq> 0 then ''?retry='' @ show_nat attempt else [])"

text \<open>The call of \<open>loadDictionary\<close> up to its \<open>await\<close>, and what follows the import.\<close>

definition loadDictionary :: "(panelLocale \<Rightarrow> string) \<Rightarrow> panelLocale \<Rightarrow> localeStore \<Rightarrow> localeStore" where
  "loadDictionary localeURLs loc st =
    (let attempt = ls_failures st loc
     in st\<lparr>ls_imports := ls_imports st @ [(loc, dictionaryURL localeURLs loc attempt)],
           ls_pendingLoads := (ls_pendingLoads st)(loc \<mapsto> attempt)\<rparr>)"

type_synonym importResult = "string + (panelLocale \<Rightarrow> dict option)"

definition importedDictionary :: "panelLocale \<Rightarrow> importResult \<Rightarrow> dict option" where
  "importedDictionary loc r =
    (case r of
       Inl err \<Rightarrow> None
     | Inr exports \<Rightarrow> (case exports loc of Some d \<Rightarrow> if di_locale d \<noteq> loc then None else Some d | None \<Rightarrow> None))"

definition load :: "(panelLocale \<Rightarrow> string) \<Rightarrow> panelLocale \<Rightarrow> localeStore \<Rightarrow> localeStore" where
  "load localeURLs loc st = (if ls_pendingLoads st loc \<noteq> None then st else loadDictionary localeURLs loc st)"

definition loadSettled :: "panelLocale \<Rightarrow> nat \<Rightarrow> dict option \<Rightarrow> localeStore \<Rightarrow> localeStore" where
  "loadSettled loc attempt outcome st =
    (case outcome of
       Some d \<Rightarrow> st\<lparr>ls_dictionaries := (ls_dictionaries st)(loc \<mapsto> d), ls_pendingLoads := (ls_pendingLoads st)(loc := None)\<rparr>
     | None \<Rightarrow> st\<lparr>ls_failures := (ls_failures st)(loc := Suc attempt), ls_pendingLoads := (ls_pendingLoads st)(loc := None)\<rparr>)"

subsection \<open>The store\<close>

definition ensure :: "localeStore \<Rightarrow> localeStore" where
  "ensure st =
    (if ls_current st = None
     then let loc = resolveInitialLocale st
          in applyDocumentLocale loc (st\<lparr>ls_preference := Some (getStoredLocalePreference st), ls_current := Some loc\<rparr>)
     else st)"

definition currentLocale :: "localeStore \<Rightarrow> panelLocale" where
  "currentLocale st = (case ls_current (ensure st) of Some l \<Rightarrow> l | None \<Rightarrow> resolveInitialLocale st)"

text \<open>\<open>getStrings\<close> throws when the dictionary of the language is not there.\<close>

definition getStrings :: "localeStore \<Rightarrow> string + dict" where
  "getStrings st =
    (case ls_dictionaries st (currentLocale st) of
       Some d \<Rightarrow> Inr d
     | None \<Rightarrow> Inl ''Locale must be initialized before rendering UI strings'')"

definition isLocaleReady :: "localeStore \<Rightarrow> bool" where
  "isLocaleReady st \<longleftrightarrow> ls_dictionaries st (currentLocale st) \<noteq> None"

definition getLocalePreference :: "localeStore \<Rightarrow> localePreference" where
  "getLocalePreference st = (case ls_preference (ensure st) of Some p \<Rightarrow> p | None \<Rightarrow> PrefAuto)"

definition notify :: "localeStore \<Rightarrow> localeStore" where
  "notify st = st\<lparr>ls_notified := ls_notified st @ ls_listeners st\<rparr>"

text \<open>The end of \<open>selectLocale\<close>: the failure of its load, and the commit.\<close>

definition selectFailed :: "waitingSelection \<Rightarrow> localeStore \<Rightarrow> localeStore" where
  "selectFailed w st =
    (let st1 = (if ws_request w = ls_selection st then notify (st\<lparr>ls_pending := None, ls_error := Some (ws_pref w)\<rparr>) else st)
     in st1\<lparr>ls_results := ls_results st1 @ [(ws_request w, False)]\<rparr>)"

definition selectCommit :: "waitingSelection \<Rightarrow> localeStore \<Rightarrow> localeStore" where
  "selectCommit w st =
    (if ws_request w \<noteq> ls_selection st then st\<lparr>ls_results := ls_results st @ [(ws_request w, False)]\<rparr>
     else let st1 = (if ws_persist w then setStoredLocalePreference (ws_pref w) st else st);
              st2 = applyDocumentLocale (ws_next w) (st1\<lparr>ls_preference := Some (ws_pref w), ls_current := Some (ws_next w)\<rparr>);
              st3 = notify (st2\<lparr>ls_pending := None, ls_error := None\<rparr>)
          in st3\<lparr>ls_results := ls_results st3 @ [(ws_request w, True)]\<rparr>)"

definition selectLocale :: "(panelLocale \<Rightarrow> string) \<Rightarrow> localePreference \<Rightarrow> bool \<Rightarrow> localeStore \<Rightarrow> localeStore" where
  "selectLocale localeURLs pref persist st0 =
    (let st = ensure st0;
         request = Suc (ls_selection st);
         st1 = st\<lparr>ls_selection := request\<rparr>;
         w = \<lparr>ws_request = request, ws_pref = pref, ws_next = resolvePreferredLocale pref st, ws_persist = persist\<rparr>
     in if ls_dictionaries st1 (ws_next w) = None
        then let st2 = load localeURLs (ws_next w) (notify (st1\<lparr>ls_pending := Some pref, ls_error := None\<rparr>))
             in st2\<lparr>ls_waiting := ls_waiting st2 @ [w]\<rparr>
        else selectCommit w st1)"

definition initializeLocale :: "(panelLocale \<Rightarrow> string) \<Rightarrow> localeStore \<Rightarrow> localeStore" where
  "initializeLocale localeURLs st =
    (if isLocaleReady st then ensure st else selectLocale localeURLs (getLocalePreference st) False (ensure st))"

definition setLocalePreference :: "(panelLocale \<Rightarrow> string) \<Rightarrow> localePreference \<Rightarrow> localeStore \<Rightarrow> localeStore" where
  "setLocalePreference localeURLs pref st = selectLocale localeURLs pref True st"

definition resetLocaleForTests :: "localeStore \<Rightarrow> localeStore" where
  "resetLocaleForTests st =
    notify (st\<lparr>ls_selection := Suc (ls_selection st), ls_current := None, ls_preference := None, ls_pending := None, ls_error := None\<rparr>)"

text \<open>The import of a dictionary settles: it is stored, or its failure counted, and the selections that
  await it go on.\<close>

definition importSettled :: "panelLocale \<Rightarrow> importResult \<Rightarrow> localeStore \<Rightarrow> localeStore" where
  "importSettled loc r st =
    (case ls_pendingLoads st loc of
       None \<Rightarrow> st
     | Some attempt \<Rightarrow>
         let outcome = importedDictionary loc r;
             st1 = loadSettled loc attempt outcome st;
             st2 = st1\<lparr>ls_waiting := filter (\<lambda>w. ws_next w \<noteq> loc) (ls_waiting st1)\<rparr>;
             resume = (if outcome = None then selectFailed else selectCommit)
         in fold resume (filter (\<lambda>w. ws_next w = loc) (ls_waiting st1)) st2)"

definition subscribeLocale :: "nat \<Rightarrow> localeStore \<Rightarrow> localeStore" where
  "subscribeLocale listener st = (if listener \<in> set (ls_listeners st) then st else st\<lparr>ls_listeners := ls_listeners st @ [listener]\<rparr>)"

definition unsubscribeLocale :: "nat \<Rightarrow> localeStore \<Rightarrow> localeStore" where
  "unsubscribeLocale listener st = st\<lparr>ls_listeners := filter (\<lambda>l. l \<noteq> listener) (ls_listeners st)\<rparr>"

datatype localeEvent =
    ChoosePreference localePreference
  | InitializeLocale
  | ReadLocale
  | ImportSettled panelLocale importResult
  | SubscribeLocale nat
  | UnsubscribeLocale nat
  | BrowserChanged browserLanguages "string option" bool
  | ResetForTests

fun locale_step :: "(panelLocale \<Rightarrow> string) \<Rightarrow> localeStore \<Rightarrow> localeEvent \<Rightarrow> localeStore" where
  "locale_step urls st (ChoosePreference pref) = setLocalePreference urls pref st"
| "locale_step urls st InitializeLocale = initializeLocale urls st"
| "locale_step urls st ReadLocale = ensure st"
| "locale_step urls st (ImportSettled loc r) = importSettled loc r st"
| "locale_step urls st (SubscribeLocale l) = subscribeLocale l st"
| "locale_step urls st (UnsubscribeLocale l) = unsubscribeLocale l st"
| "locale_step urls st (BrowserChanged nav stored works) = st\<lparr>ls_navigator := nav, ls_stored := stored, ls_storageWorks := works\<rparr>"
| "locale_step urls st ResetForTests = resetLocaleForTests st"

definition initialLocaleStore :: "browserLanguages \<Rightarrow> string option \<Rightarrow> bool \<Rightarrow> localeStore" where
  "initialLocaleStore nav stored works =
    \<lparr>ls_dictionaries = (\<lambda>_. None), ls_pendingLoads = (\<lambda>_. None), ls_failures = (\<lambda>_. 0), ls_imports = [], ls_selection = 0,
     ls_pending = None, ls_error = None, ls_current = None, ls_preference = None, ls_waiting = [], ls_results = [], ls_listeners = [],
     ls_notified = [], ls_navigator = nav, ls_stored = stored, ls_storageWorks = works, ls_documentLang = None\<rparr>"

end
