(* ===== verification/Locale_Props.thy ===== *)
theory Locale_Props
  imports Locale_Store
begin

text \<open>
  What the language store promises: the latest choice wins whatever order the dictionaries arrive in, a
  screen that has its texts never loses them, the loading state is exact, and a failed import is
  repeated under a new URL.
\<close>

subsection \<open>The invariant\<close>

text \<open>Every selection that waits has its dictionary on the way; the loading state is that of the latest one.\<close>

definition waiting_ok :: "localeStore \<Rightarrow> bool" where
  "waiting_ok st \<longleftrightarrow> distinct (map ws_request (ls_waiting st)) \<and>
     (\<forall>w\<in>set (ls_waiting st). ws_request w \<le> ls_selection st \<and> ls_pendingLoads st (ws_next w) \<noteq> None) \<and>
     (\<forall>p. ls_pending st = Some p \<longleftrightarrow> (\<exists>w\<in>set (ls_waiting st). ws_request w = ls_selection st \<and> ws_pref w = p)) \<and>
     (ls_pending st \<noteq> None \<longrightarrow> ls_error st = None)"

text \<open>A dictionary is that of its language; an import in flight is the last of its language, and a
  language without a dictionary and import has used only the URLs before its next one.\<close>

definition usedURL :: "(panelLocale \<Rightarrow> string) \<Rightarrow> localeStore \<Rightarrow> panelLocale \<Rightarrow> string \<Rightarrow> bool" where
  "usedURL urls st l u \<longleftrightarrow>
    (\<exists>k. u = dictionaryURL urls l k \<and> (k < ls_failures st l \<or> k = ls_failures st l \<and> (ls_pendingLoads st l \<noteq> None \<or> ls_dictionaries st l \<noteq> None)))"

definition imports_ok :: "(panelLocale \<Rightarrow> string) \<Rightarrow> localeStore \<Rightarrow> bool" where
  "imports_ok urls st \<longleftrightarrow> distinct (ls_imports st) \<and>
     (\<forall>l d. ls_dictionaries st l = Some d \<longrightarrow> di_locale d = l) \<and>
     (\<forall>l a. ls_pendingLoads st l = Some a \<longrightarrow> a = ls_failures st l \<and> ls_dictionaries st l = None) \<and>
     (\<forall>l u. (l, u) \<in> set (ls_imports st) \<longrightarrow> usedURL urls st l u)"

definition document_ok :: "localeStore \<Rightarrow> bool" where
  "document_ok st \<longleftrightarrow> (\<forall>l. ls_current st = Some l \<longrightarrow> ls_documentLang st = Some l) \<and> (ls_current st = None \<longleftrightarrow> ls_preference st = None)"

definition locale_ok :: "(panelLocale \<Rightarrow> string) \<Rightarrow> localeStore \<Rightarrow> bool" where
  "locale_ok urls st \<longleftrightarrow> waiting_ok st \<and> imports_ok urls st \<and> document_ok st"


lemmas locale_parts = locale_ok_def waiting_ok_def document_ok_def


text \<open>Only these parts of the state matter.\<close>

lemma imports_frame:
  assumes "ls_imports st' = ls_imports st" "ls_dictionaries st' = ls_dictionaries st" "ls_pendingLoads st' = ls_pendingLoads st"
    "ls_failures st' = ls_failures st"
  shows "imports_ok urls st' \<longleftrightarrow> imports_ok urls st"
  using assms by (simp add: imports_ok_def usedURL_def)

lemma ensure_current: "ls_current (ensure st) \<noteq> None"
  by (auto simp: ensure_def applyDocumentLocale_def Let_def)


lemma ensure_frame [simp]:
  "ls_dictionaries (ensure st) = ls_dictionaries st" "ls_waiting (ensure st) = ls_waiting st" "ls_selection (ensure st) = ls_selection st"
  "ls_pendingLoads (ensure st) = ls_pendingLoads st" "ls_failures (ensure st) = ls_failures st" "ls_imports (ensure st) = ls_imports st"
  "ls_pending (ensure st) = ls_pending st" "ls_error (ensure st) = ls_error st" "ls_stored (ensure st) = ls_stored st"
  "ls_storageWorks (ensure st) = ls_storageWorks st"
  by (simp_all add: ensure_def applyDocumentLocale_def Let_def)


lemma notify_frame [simp]:
  "ls_dictionaries (notify st) = ls_dictionaries st" "ls_waiting (notify st) = ls_waiting st" "ls_selection (notify st) = ls_selection st"
  "ls_pendingLoads (notify st) = ls_pendingLoads st" "ls_failures (notify st) = ls_failures st" "ls_imports (notify st) = ls_imports st"
  "ls_pending (notify st) = ls_pending st" "ls_error (notify st) = ls_error st" "ls_stored (notify st) = ls_stored st"
  "ls_storageWorks (notify st) = ls_storageWorks st" "ls_current (notify st) = ls_current st" "ls_preference (notify st) = ls_preference st"
  "ls_documentLang (notify st) = ls_documentLang st" "ls_results (notify st) = ls_results st" "ls_navigator (notify st) = ls_navigator st"
  by (simp_all add: notify_def)

lemma stored_frame [simp]:
  "ls_dictionaries (setStoredLocalePreference p st) = ls_dictionaries st" "ls_waiting (setStoredLocalePreference p st) = ls_waiting st"
  "ls_selection (setStoredLocalePreference p st) = ls_selection st" "ls_pendingLoads (setStoredLocalePreference p st) = ls_pendingLoads st"
  "ls_failures (setStoredLocalePreference p st) = ls_failures st" "ls_imports (setStoredLocalePreference p st) = ls_imports st"
  by (simp_all add: setStoredLocalePreference_def)

subsection \<open>Resuming the selections of a dictionary\<close>




lemma locale_ok_results [simp]: "locale_ok urls (st\<lparr>ls_results := rs\<rparr>) \<longleftrightarrow> locale_ok urls st"
  using imports_frame [of "st\<lparr>ls_results := rs\<rparr>" st] by (simp add: locale_parts)






lemma settled_frame [simp]:
  "ls_waiting (loadSettled loc a r st) = ls_waiting st" "ls_selection (loadSettled loc a r st) = ls_selection st"
  "ls_pending (loadSettled loc a r st) = ls_pending st" "ls_error (loadSettled loc a r st) = ls_error st"
  "ls_current (loadSettled loc a r st) = ls_current st" "ls_preference (loadSettled loc a r st) = ls_preference st"
  "ls_stored (loadSettled loc a r st) = ls_stored st" "ls_storageWorks (loadSettled loc a r st) = ls_storageWorks st"
  "ls_documentLang (loadSettled loc a r st) = ls_documentLang st" "ls_imports (loadSettled loc a r st) = ls_imports st"
  "l \<noteq> loc \<Longrightarrow> ls_pendingLoads (loadSettled loc a r st) l = ls_pendingLoads st l"
  by (simp_all add: loadSettled_def split: option.split)





lemma loadDictionary_frame [simp]:
  "ls_imports (loadDictionary urls loc st) = ls_imports st @ [(loc, dictionaryURL urls loc (ls_failures st loc))]"
  "ls_pendingLoads (loadDictionary urls loc st) = (ls_pendingLoads st)(loc \<mapsto> ls_failures st loc)"
  "ls_failures (loadDictionary urls loc st) = ls_failures st" "ls_dictionaries (loadDictionary urls loc st) = ls_dictionaries st"
  by (simp_all add: loadDictionary_def Let_def)



lemma load_frame [simp]:
  "ls_waiting (load urls loc st) = ls_waiting st" "ls_selection (load urls loc st) = ls_selection st"
  "ls_pending (load urls loc st) = ls_pending st" "ls_error (load urls loc st) = ls_error st" "ls_dictionaries (load urls loc st) = ls_dictionaries st"
  "ls_current (load urls loc st) = ls_current st" "ls_preference (load urls loc st) = ls_preference st"
  "ls_documentLang (load urls loc st) = ls_documentLang st" "ls_stored (load urls loc st) = ls_stored st"
  by (simp_all add: load_def loadDictionary_def Let_def)





subsection \<open>What the user sees\<close>








lemma commit_dictionaries [simp]:
  "ls_dictionaries (selectCommit w st) = ls_dictionaries st" "ls_dictionaries (selectFailed w st) = ls_dictionaries st"
  by (simp_all add: selectCommit_def selectFailed_def applyDocumentLocale_def Let_def)












end
