(* ===== verification/Base64.thy ===== *)
theory Base64
  imports Js_String "HOL-Library.Word"
begin

text \<open>
  The platform's \<open>btoa\<close> and \<open>atob\<close> on binary strings (forgiving-base64 decoding), and the URL-safe
  variant of \<open>web/src/auth/webauthn.ts\<close> on the bytes of an \<open>ArrayBuffer\<close>. \<open>atob\<close> throws on malformed
  input, so does the decoder.
\<close>

subsection \<open>The alphabet\<close>

definition b64char :: "nat \<Rightarrow> char" where
  "b64char n = char_of (if n < 26 then 65 + n else if n < 52 then 71 + n else if n < 62 then n - 4 else if n = 62 then 43 else 47 :: nat)"

definition b64val :: "char \<Rightarrow> nat option" where
  "b64val c = (let n = (of_char c :: nat)
     in if 65 \<le> n \<and> n \<le> 90 then Some (n - 65) else if 97 \<le> n \<and> n \<le> 122 then Some (n - 71)
        else if 48 \<le> n \<and> n \<le> 57 then Some (n + 4) else if n = 43 then Some 62 else if n = 47 then Some 63 else None)"

lemma of_char_b64char: "of_char (b64char n) = (if n < 26 then 65 + n else if n < 52 then 71 + n else if n < 62 then n - 4 else if n = 62 then 43 else 47 :: nat)"
  by (auto simp: b64char_def)

lemma b64val_char: "n < 64 \<Longrightarrow> b64val (b64char n) = Some n"
  by (auto simp: b64val_def of_char_b64char Let_def)

text \<open>Three octets are four sextets; a last group of one or two octets is two or three.\<close>

fun sextets :: "nat list \<Rightarrow> nat list" where
  "sextets [] = []"
| "sextets [a] = [a div 4, a mod 4 * 16]"
| "sextets [a, b] = [a div 4, a mod 4 * 16 + b div 16, b mod 16 * 4]"
| "sextets (a # b # c # rest) = a div 4 # (a mod 4 * 16 + b div 16) # (b mod 16 * 4 + c div 64) # c mod 64 # sextets rest"

fun octets :: "nat list \<Rightarrow> nat list" where
  "octets [] = []"
| "octets [s] = []"
| "octets [s, t] = [s * 4 + t div 16]"
| "octets [s, t, u] = [s * 4 + t div 16, t mod 16 * 16 + u div 4]"
| "octets (s # t # u # v # rest) = (s * 4 + t div 16) # (t mod 16 * 16 + u div 4) # (u mod 4 * 64 + v) # octets rest"

lemma octets_sextets: "list_all (\<lambda>b. b < 256) bs \<Longrightarrow> octets (sextets bs) = bs"
  by (induction bs rule: sextets.induct) auto

lemma sextets_bound: "list_all (\<lambda>b. b < 256) bs \<Longrightarrow> list_all (\<lambda>s. s < 64) (sextets bs)"
  by (induction bs rule: sextets.induct) auto

lemma length_sextets: "length (sextets bs) = 4 * (length bs div 3) + (if length bs mod 3 = 0 then 0 else Suc (length bs mod 3))"
proof (induction bs rule: sextets.induct)
  case (4 a b c rest)
  have "length (a # b # c # rest) = length rest + 3" by simp
  then have "length (a # b # c # rest) div 3 = Suc (length rest div 3)" "length (a # b # c # rest) mod 3 = length rest mod 3"
    by (simp_all only: div_add_self2 mod_add_self2)
  with 4 show ?case by simp
qed simp_all

subsection \<open>The functions of the platform\<close>

definition btoa :: "string \<Rightarrow> string" where
  "btoa binary = map b64char (sextets (map of_char binary)) @ replicate ((3 - length binary mod 3) mod 3) CHR ''=''"

definition is_ascii_space :: "char \<Rightarrow> bool" where
  "is_ascii_space c \<longleftrightarrow> (of_char c :: nat) \<in> {9, 10, 12, 13, 32}"

definition stripPadding :: "string \<Rightarrow> string" where
  "stripPadding s =
    (if length s mod 4 \<noteq> 0 then s
     else case rev s of
            c # d # rest \<Rightarrow> if c = CHR ''='' \<and> d = CHR ''='' then rev rest else if c = CHR ''='' then rev (d # rest) else s
          | _ \<Rightarrow> s)"

definition atob :: "string \<Rightarrow> string option" where
  "atob encoded =
    (let s = stripPadding (filter (\<lambda>c. \<not> is_ascii_space c) encoded)
     in if length s mod 4 = 1 \<or> (\<exists>c\<in>set s. b64val c = None) then None
        else Some (map char_of (octets (map (the \<circ> b64val) s))))"

subsection \<open>The URL-safe variant\<close>

definition replaceChar :: "char \<Rightarrow> char \<Rightarrow> string \<Rightarrow> string" where
  "replaceChar a b s = map (\<lambda>c. if c = a then b else c) s"

definition padEnd :: "nat \<Rightarrow> char \<Rightarrow> string \<Rightarrow> string" where
  "padEnd n c s = s @ replicate (n - length s) c"

definition stripTrailing :: "char \<Rightarrow> string \<Rightarrow> string" where
  "stripTrailing c s = rev (dropWhile (\<lambda>x. x = c) (rev s))"

definition decodeBase64URL :: "string \<Rightarrow> 8 word list option" where
  "decodeBase64URL value =
    (let padded = padEnd ((length value + 3) div 4 * 4) CHR ''='' (replaceChar CHR ''_'' CHR ''/'' (replaceChar CHR ''-'' CHR ''+'' value))
     in map_option (map (\<lambda>c. word_of_nat (of_char c))) (atob padded))"

definition encodeBase64URL :: "8 word list \<Rightarrow> string" where
  "encodeBase64URL bytes =
    (let binary = map (\<lambda>b. char_of (unat b)) bytes
     in stripTrailing CHR ''='' (replaceChar CHR ''/'' CHR ''_'' (replaceChar CHR ''+'' CHR ''-'' (btoa binary))))"

subsection \<open>The round trip\<close>

definition url_safe :: "char \<Rightarrow> bool" where
  "url_safe c \<longleftrightarrow> (let n = (of_char c :: nat) in (65 \<le> n \<and> n \<le> 90) \<or> (97 \<le> n \<and> n \<le> 122) \<or> (48 \<le> n \<and> n \<le> 57) \<or> n = 45 \<or> n = 95)"

definition urlChar :: "nat \<Rightarrow> char" where
  "urlChar n = (if n = 62 then CHR ''-'' else if n = 63 then CHR ''_'' else b64char n)"

lemma urlChar_safe: "n < 64 \<Longrightarrow> url_safe (urlChar n)"
  by (auto simp: url_safe_def urlChar_def of_char_b64char Let_def)

lemma char_neq_code: "c \<noteq> d \<longleftrightarrow> of_char c \<noteq> (of_char d :: nat)"
  by (metis char_of_char)

lemma urlChar_map:
  assumes "n < 64"
  shows "(let c = b64char n; c = (if c = CHR ''+'' then CHR ''-'' else c) in if c = CHR ''/'' then CHR ''_'' else c) = urlChar n"
    and "(let c = urlChar n; c = (if c = CHR ''-'' then CHR ''+'' else c) in if c = CHR ''_'' then CHR ''/'' else c) = b64char n"
    and "b64char n \<noteq> CHR ''=''" "\<not> is_ascii_space (b64char n)" "urlChar n \<noteq> CHR ''=''"
proof -
  have b: "b64char n = CHR ''+'' \<longleftrightarrow> n = 62" "b64char n = CHR ''/'' \<longleftrightarrow> n = 63" "b64char n \<noteq> CHR ''-''" "b64char n \<noteq> CHR ''_''"
    "b64char n \<noteq> CHR ''=''"
    using assms by (auto simp: of_char_eq_iff [symmetric, where 'a = nat] of_char_b64char)
  then show "(let c = b64char n; c = (if c = CHR ''+'' then CHR ''-'' else c) in if c = CHR ''/'' then CHR ''_'' else c) = urlChar n"
    "(let c = urlChar n; c = (if c = CHR ''-'' then CHR ''+'' else c) in if c = CHR ''_'' then CHR ''/'' else c) = b64char n"
    "b64char n \<noteq> CHR ''=''" "urlChar n \<noteq> CHR ''=''"
    using assms by (auto simp: urlChar_def Let_def)
  show "\<not> is_ascii_space (b64char n)" using assms by (auto simp: is_ascii_space_def of_char_b64char)
qed

lemma replace_to_url:
  assumes "list_all (\<lambda>n. n < 64) ss"
  shows "replaceChar CHR ''/'' CHR ''_'' (replaceChar CHR ''+'' CHR ''-'' (map b64char ss @ replicate k CHR ''='')) =
    map urlChar ss @ replicate k CHR ''=''"
  using assms
proof (induction ss)
  case (Cons n ss)
  then show ?case using urlChar_map(1) [of n] by (simp add: replaceChar_def Let_def)
qed (simp add: replaceChar_def)

lemma replace_from_url:
  assumes "list_all (\<lambda>n. n < 64) ss"
  shows "replaceChar CHR ''_'' CHR ''/'' (replaceChar CHR ''-'' CHR ''+'' (map urlChar ss)) = map b64char ss"
  using assms
proof (induction ss)
  case (Cons n ss)
  then show ?case using urlChar_map(2) [of n] by (simp add: replaceChar_def Let_def)
qed (simp add: replaceChar_def)

lemma strip_trailing:
  assumes "list_all (\<lambda>n. n < 64) ss"
  shows "stripTrailing CHR ''='' (map urlChar ss @ replicate k CHR ''='') = map urlChar ss"
proof -
  have "CHR ''='' \<notin> set (map urlChar ss)" using assms urlChar_map(5) by (fastforce simp: list_all_iff)
  then have "dropWhile (\<lambda>x. x = CHR ''='') (rev (map urlChar ss)) = rev (map urlChar ss)"
    by (cases "rev (map urlChar ss)") (auto simp del: rev_map dest: arg_cong [where f = set])
  then show ?thesis by (simp add: stripTrailing_def dropWhile_append)
qed

lemma octet_codes: "map of_char (map char_of (map unat (bytes :: 8 word list)) :: string) = map unat bytes"
  and octet_bound: "list_all (\<lambda>b. b < 256) (map unat (bytes :: 8 word list))"
  using unsigned_less [where ?'b = 8 and ?'a = nat] by (auto simp: list_all_iff)

lemmas encode_bound = sextets_bound [OF octet_bound]

lemma encode_chars: "encodeBase64URL bytes = map urlChar (sextets (map unat bytes))"
proof -
  have "map (\<lambda>b. char_of (unat b)) bytes = (map char_of (map unat bytes) :: string)" by simp
  then have "encodeBase64URL bytes = stripTrailing CHR ''='' (replaceChar CHR ''/'' CHR ''_'' (replaceChar CHR ''+'' CHR ''-''
      (map b64char (sextets (map unat bytes)) @ replicate ((3 - length bytes mod 3) mod 3) CHR ''='')))"
    unfolding encodeBase64URL_def btoa_def Let_def by (simp only: octet_codes length_map)
  then show ?thesis by (simp only: replace_to_url [OF encode_bound] strip_trailing [OF encode_bound])
qed

text \<open>What the decoder makes of the sextets, with or without padding.\<close>

lemma strip_padding:
  assumes "CHR ''='' \<notin> set s" "length s mod 4 \<noteq> 1"
  shows "stripPadding (padEnd ((length s + 3) div 4 * 4) CHR ''='' s) = s"
proof -
  define k where "k = (length s + 3) div 4 * 4 - length s"
  have k: "k = 0 \<or> k = 1 \<and> s \<noteq> [] \<or> k = 2" and len: "(length s + k) mod 4 = 0"
    using assms(2) unfolding k_def by (cases s; simp; presburger)+
  have pad: "padEnd ((length s + 3) div 4 * 4) CHR ''='' s = s @ replicate k CHR ''=''" by (simp add: padEnd_def k_def)
  have no_pad: "c \<noteq> CHR ''=''" if "c \<in> set (rev s)" for c using assms(1) that by auto
  from k consider "k = 0" | "k = 1" "s \<noteq> []" | "k = 2" by blast
  then show ?thesis
  proof cases
    case 1
    then show ?thesis using no_pad pad
      by (cases "rev s" rule: remdups_adj.cases) (auto simp: stripPadding_def)
  next
    case 2
    then obtain d rest where "rev s = d # rest" by (cases "rev s") auto
    with 2 len no_pad pad show ?thesis by (auto simp: stripPadding_def)
  next
    case 3
    then have "replicate k CHR ''='' = [CHR ''='', CHR ''='']" by (simp add: numeral_2_eq_2)
    with 3 len pad show ?thesis by (simp add: stripPadding_def)
  qed
qed

lemma filter_padded:
  "(\<forall>c\<in>set s. \<not> is_ascii_space c) \<Longrightarrow> filter (\<lambda>c. \<not> is_ascii_space c) (padEnd n CHR ''='' s) = padEnd n CHR ''='' s"
  by (simp add: padEnd_def is_ascii_space_def)

lemma atob_padded:
  assumes "list_all (\<lambda>n. n < 64) ss" "length ss mod 4 \<noteq> 1"
  shows "atob (padEnd ((length ss + 3) div 4 * 4) CHR ''='' (map b64char ss)) = Some (map char_of (octets ss))"
proof -
  have ns: "\<forall>c\<in>set (map b64char ss). \<not> is_ascii_space c" and eq: "CHR ''='' \<notin> set (map b64char ss)"
    and val: "\<forall>c\<in>set (map b64char ss). b64val c \<noteq> None" and the: "map (the \<circ> b64val) (map b64char ss) = ss"
    using assms(1) urlChar_map(3,4) by (force simp: list_all_iff b64val_char map_idI)+
  show ?thesis
    using assms(2) ns val the strip_padding [OF eq] by (simp add: atob_def filter_padded Let_def)
qed

lemma base64url_roundtrip: "decodeBase64URL (encodeBase64URL bytes) = Some bytes"
proof -
  let ?ss = "sextets (map unat bytes)"
  have "length ?ss mod 4 \<noteq> 1" unfolding length_sextets by (simp add: mod_Suc)
  note dec = atob_padded [OF encode_bound this]
  have "decodeBase64URL (encodeBase64URL bytes) = Some (map (\<lambda>c. word_of_nat (of_char c)) (map char_of (octets ?ss) :: string))"
    unfolding decodeBase64URL_def encode_chars Let_def replace_from_url [OF encode_bound] length_map dec by simp
  also have "octets ?ss = map unat bytes" by (rule octets_sextets [OF octet_bound])
  also have "map (\<lambda>c. word_of_nat (of_char c)) (map char_of (map unat bytes) :: string) = (map word_of_nat (map unat bytes) :: 8 word list)"
    using arg_cong [OF octet_codes [of bytes], of "map (word_of_nat :: nat \<Rightarrow> 8 word)"] by simp
  also have "map word_of_nat (map unat bytes) = bytes" by (simp add: map_idI)
  finally show ?thesis .
qed

end
