(* ===== verification/Webauthn.thy ===== *)
theory Webauthn
  imports Base64
begin

text \<open>
  Passkeys, \<open>web/src/auth/webauthn.ts\<close>: the options of a ceremony arrive as JSON with their binary fields in
  URL-safe base64 and go to the browser as buffers; the credential the browser returns goes back as JSON.
  A value for the browser is JSON, a buffer, or an object or array that holds one. Decoding throws on
  malformed base64, reading a property throws on \<open>undefined\<close> and \<open>null\<close>: both are \<open>None\<close>.
\<close>

subsection \<open>Values\<close>

datatype jsValue = VJson json | VBytes "8 word list" | VObj "(string \<times> jsValue) list" | VArr "jsValue list"

definition spread :: "(string \<times> json) list \<Rightarrow> (string \<times> jsValue) list" where
  "spread kvs = map (\<lambda>(k, v). (k, VJson v)) kvs"

text \<open>The fields of an object, for \<open>{...v}\<close>; of the other values only \<open>undefined\<close> and \<open>null\<close> matter, whose
  properties cannot be read: the rest has no \<open>id\<close>, and decoding it throws.\<close>

fun recordOf :: "json \<Rightarrow> (string \<times> json) list option" where
  "recordOf (JObj kvs) = Some kvs"
| "recordOf JUndef = None"
| "recordOf JNull = None"
| "recordOf _ = Some []"

definition decodedField :: "(string \<times> json) list \<Rightarrow> string \<Rightarrow> 8 word list option" where
  "decodedField kvs k = decodeBase64URL (jsString (okey kvs k))"

definition credentialDescriptor :: "json \<Rightarrow> jsValue option" where
  "credentialDescriptor item =
    (case recordOf item of
       None \<Rightarrow> None
     | Some descriptor \<Rightarrow> map_option (\<lambda>b. VObj (mset_key (spread descriptor) ''id'' (VBytes b))) (decodedField descriptor ''id''))"

fun allSome :: "'a option list \<Rightarrow> 'a list option" where
  "allSome [] = Some []"
| "allSome (x # xs) = (case x of None \<Rightarrow> None | Some y \<Rightarrow> map_option (\<lambda>ys. y # ys) (allSome xs))"

fun credentialDescriptors :: "json \<Rightarrow> jsValue option" where
  "credentialDescriptors (JArr items) = map_option VArr (allSome (map credentialDescriptor items))"
| "credentialDescriptors _ = Some (VJson JUndef)"

subsection \<open>The options of a ceremony\<close>

definition creationOptionsFromJSON :: "(string \<times> json) list \<Rightarrow> (string \<times> jsValue) list option" where
  "creationOptionsFromJSON opts =
    (case recordOf (okey opts ''user'') of
       None \<Rightarrow> None
     | Some user \<Rightarrow>
         case (decodedField opts ''challenge'', decodedField user ''id'', credentialDescriptors (okey opts ''excludeCredentials'')) of
           (Some challenge, Some uid, Some excluded) \<Rightarrow>
             Some (mset_key (mset_key (mset_key (spread opts) ''challenge'' (VBytes challenge))
               ''user'' (VObj (mset_key (spread user) ''id'' (VBytes uid)))) ''excludeCredentials'' excluded)
         | _ \<Rightarrow> None)"

definition requestOptionsFromJSON :: "(string \<times> json) list \<Rightarrow> (string \<times> jsValue) list option" where
  "requestOptionsFromJSON opts =
    (case (decodedField opts ''challenge'', credentialDescriptors (okey opts ''allowCredentials'')) of
       (Some challenge, Some allowed) \<Rightarrow>
         Some (mset_key (mset_key (spread opts) ''challenge'' (VBytes challenge)) ''allowCredentials'' allowed)
     | _ \<Rightarrow> None)"

subsection \<open>The credential\<close>

record attestationResponse =
  at_clientDataJSON :: "8 word list"
  at_attestationObject :: "8 word list"
  at_transports :: "string list option"

record assertionResponse =
  as_clientDataJSON :: "8 word list"
  as_authenticatorData :: "8 word list"
  as_signature :: "8 word list"
  as_userHandle :: "8 word list option"

record 'r publicKeyCredential =
  pk_id :: string
  pk_rawId :: "8 word list"
  pk_type :: string
  pk_authenticatorAttachment :: json
  pk_clientExtensionResults :: json
  pk_response :: 'r

definition bytesJSON :: "8 word list \<Rightarrow> json" where
  "bytesJSON b = JStr (encodeBase64URL b)"

definition commonCredentialJSON :: "'r publicKeyCredential \<Rightarrow> (string \<times> json) list" where
  "commonCredentialJSON credential =
    [(''id'', JStr (pk_id credential)), (''rawId'', bytesJSON (pk_rawId credential)), (''type'', JStr (pk_type credential)),
     (''authenticatorAttachment'', pk_authenticatorAttachment credential), (''clientExtensionResults'', pk_clientExtensionResults credential)]"

definition registrationCredentialToJSON :: "attestationResponse publicKeyCredential \<Rightarrow> (string \<times> json) list" where
  "registrationCredentialToJSON credential =
    (let r = pk_response credential
     in commonCredentialJSON credential @
        [(''response'', JObj [(''clientDataJSON'', bytesJSON (at_clientDataJSON r)), (''attestationObject'', bytesJSON (at_attestationObject r)),
          (''transports'', JArr (map JStr (case at_transports r of Some ts \<Rightarrow> ts | None \<Rightarrow> [])))])])"

definition loginCredentialToJSON :: "assertionResponse publicKeyCredential \<Rightarrow> (string \<times> json) list" where
  "loginCredentialToJSON credential =
    (let r = pk_response credential
     in commonCredentialJSON credential @
        [(''response'', JObj [(''clientDataJSON'', bytesJSON (as_clientDataJSON r)), (''authenticatorData'', bytesJSON (as_authenticatorData r)),
          (''signature'', bytesJSON (as_signature r)),
          (''userHandle'', (case as_userHandle r of Some h \<Rightarrow> bytesJSON h | None \<Rightarrow> JNull))])])"

text \<open>The window, its secure context, the constructor and the credential store.\<close>

definition passkeysSupported :: "bool \<Rightarrow> bool \<Rightarrow> bool \<Rightarrow> bool \<Rightarrow> bool" where
  "passkeysSupported window secure constructor credentials \<longleftrightarrow> window \<and> secure \<and> constructor \<and> credentials"

subsection \<open>The bytes survive\<close>

lemma sextet_count: "4 * (n div 3) + (if n mod 3 = 0 then 0 else Suc (n mod 3)) = (4 * n + 2) div 3" for n :: nat
proof -
  define q r where "q = n div 3" and "r = n mod 3"
  have n: "n = 3 * q + r" "r < 3" by (simp_all add: q_def r_def)
  then have "4 * n + 2 = 3 * (4 * q) + (4 * r + 2)" by simp
  then have "(4 * n + 2) div 3 = 4 * q + (4 * r + 2) div 3" by simp
  moreover have "r = 0 \<or> r = 1 \<or> r = 2" using n(2) by linarith
  ultimately show ?thesis unfolding q_def [symmetric] r_def [symmetric] by auto
qed

lemma encode_length: "length (encodeBase64URL bytes) = (4 * length bytes + 2) div 3"
  unfolding encode_chars length_map length_sextets sextet_count by (rule refl)

lemma encode_safe: "list_all url_safe (encodeBase64URL bytes)"
  using encode_bound [of bytes] urlChar_safe by (auto simp: encode_chars list_all_iff)

lemma allSome_map: "(\<And>x. x \<in> set xs \<Longrightarrow> f x = Some (g x)) \<Longrightarrow> allSome (map f xs) = Some (map g xs)"
  by (induction xs) simp_all

text \<open>A descriptor, a challenge or a user of the server: an object with a field in URL-safe base64.\<close>

definition carries :: "(string \<times> json) list \<Rightarrow> string \<Rightarrow> 8 word list \<Rightarrow> bool" where
  "carries kvs k b \<longleftrightarrow> okey kvs k = bytesJSON b"

lemma decoded_carried: "carries kvs k b \<Longrightarrow> decodedField kvs k = Some b"
  by (simp add: carries_def decodedField_def bytesJSON_def base64url_roundtrip)

lemma spread_get: "mget (spread kvs) k = map_option VJson (map_of kvs k)"
  by (induction kvs) (auto simp: spread_def)

lemma descriptor_decoded:
  "carries kvs ''id'' b \<Longrightarrow> credentialDescriptor (JObj kvs) = Some (VObj (mset_key (spread kvs) ''id'' (VBytes b)))"
  by (simp add: credentialDescriptor_def decoded_carried)

text \<open>What a credential list of the server holds, and what the browser is given: each credential with its identifier as bytes.\<close>

definition sentCredential :: "(string \<times> json) list \<times> 8 word list \<Rightarrow> json" where
  "sentCredential = (\<lambda>(kvs, b). JObj (mset_key kvs ''id'' (bytesJSON b)))"

definition givenCredential :: "(string \<times> json) list \<times> 8 word list \<Rightarrow> jsValue" where
  "givenCredential = (\<lambda>(kvs, b). VObj (mset_key (spread (mset_key kvs ''id'' (bytesJSON b))) ''id'' (VBytes b)))"

lemma credentials_given: "credentialDescriptors (JArr (map sentCredential cs)) = Some (VArr (map givenCredential cs))"
proof -
  have "credentialDescriptor (sentCredential c) = Some (givenCredential c)" for c
    by (cases c) (simp add: sentCredential_def givenCredential_def, rule descriptor_decoded, simp add: carries_def okey_def jsm.get_put)
  then have "allSome (map (credentialDescriptor \<circ> sentCredential) cs) = Some (map givenCredential cs)"
    by (intro allSome_map) simp
  then show ?thesis by simp
qed

text \<open>A string with a character that is in no base64: not a letter, a digit or one of the four signs, not padding and no
  white space.\<close>

definition malformed :: "string \<Rightarrow> bool" where
  "malformed s \<longleftrightarrow> (\<exists>c\<in>set s. \<not> url_safe c \<and> c \<notin> set ''+/='' \<and> \<not> is_ascii_space c)"

lemma stripPadding_keeps: "c \<in> set s \<Longrightarrow> c \<noteq> CHR ''='' \<Longrightarrow> c \<in> set (stripPadding s)"
proof -
  assume c: "c \<in> set s" "c \<noteq> CHR ''=''"
  show ?thesis
  proof (cases "rev s" rule: remdups_adj.cases)
    case (3 x y rest)
    then have "s = rev (x # y # rest)" by (metis rev_rev_ident)
    with c 3 show ?thesis by (auto simp: stripPadding_def)
  qed (use c in \<open>simp_all add: stripPadding_def\<close>)
qed

lemma malformed_refused: "malformed s \<Longrightarrow> decodeBase64URL s = None"
proof -
  assume "malformed s"
  then obtain c where c: "c \<in> set s" "\<not> url_safe c" "c \<notin> set ''+/=''" "\<not> is_ascii_space c" unfolding malformed_def by blast
  let ?p = "padEnd ((length s + 3) div 4 * 4) CHR ''='' (replaceChar CHR ''_'' CHR ''/'' (replaceChar CHR ''-'' CHR ''+'' s))"
  have "c \<noteq> CHR ''-''" "c \<noteq> CHR ''_''" using c(2) by (auto simp: url_safe_def)
  then have "c \<in> set ?p" using c(1) by (force simp: padEnd_def replaceChar_def)
  then have "c \<in> set (stripPadding (filter (\<lambda>c. \<not> is_ascii_space c) ?p))" using c(3,4) by (intro stripPadding_keeps) simp_all
  moreover have "of_char c \<noteq> (43 :: nat)" "of_char c \<noteq> (47 :: nat)" using c(3) by (auto simp: char_neq_code)
  with c(2) have "b64val c = None" by (auto simp: b64val_def url_safe_def Let_def)
  ultimately have "atob ?p = None" unfolding atob_def Let_def by auto
  then show ?thesis by (simp add: decodeBase64URL_def Let_def)
qed

lemma one_refused: "x \<in> set xs \<Longrightarrow> f x = None \<Longrightarrow> allSome (map f xs) = None"
  by (induction xs) (auto split: option.split)

lemma credentials_refused:
  assumes "JObj kvs \<in> set items" "okey kvs ''id'' = JStr s" "malformed s"
  shows "credentialDescriptors (JArr items) = None"
proof -
  have "credentialDescriptor (JObj kvs) = None"
    using assms(2,3) by (simp add: credentialDescriptor_def decodedField_def malformed_refused)
  with assms(1) one_refused show ?thesis by simp
qed

text \<open>The string in a field of what is sent decodes to the bytes.\<close>

definition holdsBytes :: "json \<Rightarrow> 8 word list \<Rightarrow> bool" where
  "holdsBytes j b \<longleftrightarrow> (\<exists>s. j = JStr s \<and> decodeBase64URL s = Some b)"

lemma bytesJSON_holds [simp]: "holdsBytes (bytesJSON b) b"
  by (simp add: holdsBytes_def bytesJSON_def base64url_roundtrip)

definition sentCommon :: "(string \<times> json) list \<Rightarrow> 'r publicKeyCredential \<Rightarrow> bool" where
  "sentCommon sent credential \<longleftrightarrow> okey sent ''id'' = JStr (pk_id credential) \<and> holdsBytes (okey sent ''rawId'') (pk_rawId credential) \<and>
     okey sent ''type'' = JStr (pk_type credential) \<and> okey sent ''authenticatorAttachment'' = pk_authenticatorAttachment credential \<and>
     okey sent ''clientExtensionResults'' = pk_clientExtensionResults credential"

definition sentResponse :: "(string \<times> json) list \<Rightarrow> (string \<times> json) list" where
  "sentResponse sent = (case okey sent ''response'' of JObj kvs \<Rightarrow> kvs | _ \<Rightarrow> [])"

text \<open>C29. Passkey data reach the browser and the server unchanged. Encoding bytes in URL-safe base64 uses only
  URL-safe characters without padding and is undone by decoding. The options of a registration whose
  challenge, user id and excluded credentials the server encoded arrive as exactly those bytes with every
  other field as sent, and so do the options of a login with its challenge and allowed credentials; without such a list the
  field is left undefined. A challenge, a user id or an excluded or allowed credential that is not base64 is refused. The server
  receives every field of the credential of a login and of a registration: the
  bytes as strings that decode to the browser's bytes (a missing user handle as null), the rest as it was.\<close>

theorem passkey_bytes_roundtrip:
  fixes login :: "assertionResponse publicKeyCredential" and registration :: "attestationResponse publicKeyCredential"
  shows "decodeBase64URL (encodeBase64URL bytes) = Some bytes \<and> list_all url_safe (encodeBase64URL bytes) \<and>
    length (encodeBase64URL bytes) = (4 * length bytes + 2) div 3 \<and>
    (carries opts ''challenge'' c \<and> okey opts ''user'' = JObj user \<and> carries user ''id'' u \<longrightarrow>
     (\<forall>excluded. okey opts ''excludeCredentials'' = JArr (map sentCredential excluded) \<longrightarrow>
      (\<exists>res. creationOptionsFromJSON opts = Some res \<and> mget res ''challenge'' = Some (VBytes c) \<and>
       mget res ''user'' = Some (VObj (mset_key (spread user) ''id'' (VBytes u))) \<and>
       mget res ''excludeCredentials'' = Some (VArr (map givenCredential excluded)) \<and>
       (\<forall>k. k \<notin> {''challenge'', ''user'', ''excludeCredentials''} \<longrightarrow> mget res k = map_option VJson (map_of opts k))))) \<and>
    (carries opts ''challenge'' c \<longrightarrow>
     (\<forall>allowed. okey opts ''allowCredentials'' = JArr (map sentCredential allowed) \<longrightarrow>
      (\<exists>res. requestOptionsFromJSON opts = Some res \<and> mget res ''challenge'' = Some (VBytes c) \<and>
       mget res ''allowCredentials'' = Some (VArr (map givenCredential allowed)) \<and>
       (\<forall>k. k \<notin> {''challenge'', ''allowCredentials''} \<longrightarrow> mget res k = map_option VJson (map_of opts k)))) \<and>
     (okey opts ''allowCredentials'' = JUndef \<longrightarrow>
      (\<exists>res. requestOptionsFromJSON opts = Some res \<and> mget res ''challenge'' = Some (VBytes c) \<and>
       mget res ''allowCredentials'' = Some (VJson JUndef)))) \<and>
    (\<forall>s kvs items. malformed s \<longrightarrow>
      (okey opts ''challenge'' = JStr s \<longrightarrow> creationOptionsFromJSON opts = None \<and> requestOptionsFromJSON opts = None) \<and>
      (okey opts ''user'' = JObj kvs \<and> okey kvs ''id'' = JStr s \<longrightarrow> creationOptionsFromJSON opts = None) \<and>
      (JObj kvs \<in> set items \<and> okey kvs ''id'' = JStr s \<longrightarrow>
        (okey opts ''excludeCredentials'' = JArr items \<longrightarrow> creationOptionsFromJSON opts = None) \<and>
        (okey opts ''allowCredentials'' = JArr items \<longrightarrow> requestOptionsFromJSON opts = None))) \<and>
    (let sent = loginCredentialToJSON login; resp = sentResponse sent; r = pk_response login
     in sentCommon sent login \<and> map fst resp = [''clientDataJSON'', ''authenticatorData'', ''signature'', ''userHandle''] \<and>
        holdsBytes (okey resp ''clientDataJSON'') (as_clientDataJSON r) \<and>
        holdsBytes (okey resp ''authenticatorData'') (as_authenticatorData r) \<and> holdsBytes (okey resp ''signature'') (as_signature r) \<and>
        (case as_userHandle r of None \<Rightarrow> okey resp ''userHandle'' = JNull | Some h \<Rightarrow> holdsBytes (okey resp ''userHandle'') h)) \<and>
    (let sent = registrationCredentialToJSON registration; resp = sentResponse sent; r = pk_response registration
     in sentCommon sent registration \<and> map fst resp = [''clientDataJSON'', ''attestationObject'', ''transports''] \<and>
        holdsBytes (okey resp ''clientDataJSON'') (at_clientDataJSON r) \<and>
        holdsBytes (okey resp ''attestationObject'') (at_attestationObject r) \<and>
        okey resp ''transports'' = JArr (map JStr (case at_transports r of Some ts \<Rightarrow> ts | None \<Rightarrow> [])))"
proof (intro conjI)
  note bytes = decoded_carried [of opts "''challenge''" c] decoded_carried [of user "''id''" u]
  show "carries opts ''challenge'' c \<and> okey opts ''user'' = JObj user \<and> carries user ''id'' u \<longrightarrow>
     (\<forall>excluded. okey opts ''excludeCredentials'' = JArr (map sentCredential excluded) \<longrightarrow>
      (\<exists>res. creationOptionsFromJSON opts = Some res \<and> mget res ''challenge'' = Some (VBytes c) \<and>
       mget res ''user'' = Some (VObj (mset_key (spread user) ''id'' (VBytes u))) \<and>
       mget res ''excludeCredentials'' = Some (VArr (map givenCredential excluded)) \<and>
       (\<forall>k. k \<notin> {''challenge'', ''user'', ''excludeCredentials''} \<longrightarrow> mget res k = map_option VJson (map_of opts k))))"
    using bytes by (auto simp: creationOptionsFromJSON_def jsm.get_put spread_get credentials_given simp del: credentialDescriptors.simps(1))
  show "carries opts ''challenge'' c \<longrightarrow>
     (\<forall>allowed. okey opts ''allowCredentials'' = JArr (map sentCredential allowed) \<longrightarrow>
      (\<exists>res. requestOptionsFromJSON opts = Some res \<and> mget res ''challenge'' = Some (VBytes c) \<and>
       mget res ''allowCredentials'' = Some (VArr (map givenCredential allowed)) \<and>
       (\<forall>k. k \<notin> {''challenge'', ''allowCredentials''} \<longrightarrow> mget res k = map_option VJson (map_of opts k)))) \<and>
     (okey opts ''allowCredentials'' = JUndef \<longrightarrow>
      (\<exists>res. requestOptionsFromJSON opts = Some res \<and> mget res ''challenge'' = Some (VBytes c) \<and>
       mget res ''allowCredentials'' = Some (VJson JUndef)))"
    using bytes by (auto simp: requestOptionsFromJSON_def jsm.get_put spread_get credentials_given
        simp del: credentialDescriptors.simps(1))
  show "\<forall>s kvs items. malformed s \<longrightarrow>
      (okey opts ''challenge'' = JStr s \<longrightarrow> creationOptionsFromJSON opts = None \<and> requestOptionsFromJSON opts = None) \<and>
      (okey opts ''user'' = JObj kvs \<and> okey kvs ''id'' = JStr s \<longrightarrow> creationOptionsFromJSON opts = None) \<and>
      (JObj kvs \<in> set items \<and> okey kvs ''id'' = JStr s \<longrightarrow>
        (okey opts ''excludeCredentials'' = JArr items \<longrightarrow> creationOptionsFromJSON opts = None) \<and>
        (okey opts ''allowCredentials'' = JArr items \<longrightarrow> requestOptionsFromJSON opts = None))"
    by (intro allI impI conjI; (elim conjE)?)
      (simp_all add: creationOptionsFromJSON_def requestOptionsFromJSON_def credentials_refused decodedField_def malformed_refused
        split: option.split del: credentialDescriptors.simps)
qed (simp_all add: base64url_roundtrip encode_safe encode_length loginCredentialToJSON_def registrationCredentialToJSON_def
    commonCredentialJSON_def sentCommon_def sentResponse_def okey_def Let_def split: option.split)

theorem passkey_bytes_roundtrip_witness:
  fixes opts allow
  defines "opts \<equiv> [(''challenge'', bytesJSON [1, 2, 255]), (''user'', JObj [(''id'', bytesJSON [7])]), (''excludeCredentials'', JArr [])]"
    and "allow \<equiv> [(''challenge'', bytesJSON [9]), (''allowCredentials'', JArr (map sentCredential [([], [4, 5])]))]"
  shows "(\<exists>res. creationOptionsFromJSON opts = Some res \<and> mget res ''challenge'' = Some (VBytes [1, 2, 255])) \<and>
    (\<exists>res. requestOptionsFromJSON allow = Some res \<and> mget res ''allowCredentials'' = Some (VArr (map givenCredential [([], [4, 5])]))) \<and>
    creationOptionsFromJSON [(''challenge'', JStr ''a?b''), (''user'', JObj [])] = None"
proof (intro conjI)
  show "\<exists>res. creationOptionsFromJSON opts = Some res \<and> mget res ''challenge'' = Some (VBytes [1, 2, 255])"
  proof -
    have "carries opts ''challenge'' [1, 2, 255] \<and> okey opts ''user'' = JObj [(''id'', bytesJSON [7])] \<and> carries [(''id'', bytesJSON [7])] ''id'' [7]"
      and "okey opts ''excludeCredentials'' = JArr (map sentCredential [])"
      by (simp_all add: carries_def opts_def okey_def)
    with passkey_bytes_roundtrip [of "[]" opts "[1, 2, 255]" "[(''id'', bytesJSON [7])]" "[7]", THEN conjunct2, THEN conjunct2, THEN conjunct2, THEN conjunct1]
    show ?thesis by blast
  qed
  show "\<exists>res. requestOptionsFromJSON allow = Some res \<and> mget res ''allowCredentials'' = Some (VArr (map givenCredential [([], [4, 5])]))"
  proof -
    have "carries allow ''challenge'' [9]" and "okey allow ''allowCredentials'' = JArr (map sentCredential [([], [4, 5])])"
      by (simp_all add: carries_def allow_def okey_def)
    with passkey_bytes_roundtrip [of "[]" allow "[9]" "[]" "[]", THEN conjunct2, THEN conjunct2, THEN conjunct2, THEN conjunct2, THEN conjunct1]
    show ?thesis by blast
  qed
  have "malformed ''a?b''" by (simp add: malformed_def url_safe_def is_ascii_space_def)
  then show "creationOptionsFromJSON [(''challenge'', JStr ''a?b''), (''user'', JObj [])] = None"
    using passkey_bytes_roundtrip [of "[]" "[(''challenge'', JStr ''a?b''), (''user'', JObj [])]" "[]" "[]" "[]",
        THEN conjunct2, THEN conjunct2, THEN conjunct2, THEN conjunct2, THEN conjunct2, THEN conjunct1, THEN spec, of "''a?b''"]
    by (simp add: okey_def)
qed

end
