(* ===== verification/Links.thy ===== *)
theory Links
  imports User_Forms Base64
begin

text \<open>
  Connection links: \<open>web/src/people/parseLink.ts\<close> reads a link Telemt built, \<open>connectionLinks.ts\<close> collects
  the links a user can be given, WEB links included, and projects them on another address. The
  URL parser and serialisers of the browser and its UTF-8 decoder are the fields of \<open>browserUrls\<close>, a
  parameter of the definitions that use them.
\<close>

record parsedUrl =
  url_protocol :: string
  url_hostname :: string
  url_pathname :: string
  url_username :: string
  url_password :: string
  url_port :: string
  url_hash :: string
  url_searchParams :: "(string \<times> string) list"

record browserUrls =
  br_new_URL :: "string \<Rightarrow> parsedUrl option"
  br_url_toString :: "parsedUrl \<Rightarrow> string"
  br_params_toString :: "(string \<times> string) list \<Rightarrow> string"
  br_utf8 :: "8 word list \<Rightarrow> string option"

definition getAll :: "(string \<times> string) list \<Rightarrow> string \<Rightarrow> string list" where
  "getAll params key = map snd (filter (\<lambda>(k, v). k = key) params)"

subsection \<open>Reading a link\<close>

datatype parsedLinkType = LtClassic | LtSecure | LtTls | LtUnknown

record parsedLink =
  pl_type :: parsedLinkType
  pl_server :: "string option"
  pl_port :: "string option"
  pl_secret :: "string option"
  pl_domain :: "string option"
  pl_raw :: string

definition is_lower_hex :: "char \<Rightarrow> bool" where
  "is_lower_hex c \<longleftrightarrow> (let n = (of_char c :: nat) in (48 \<le> n \<and> n \<le> 57) \<or> (97 \<le> n \<and> n \<le> 102))"

definition hex32 :: "string \<Rightarrow> bool" where
  "hex32 s \<longleftrightarrow> length s = 32 \<and> list_all is_lower_hex s"

definition unparsed :: "string \<Rightarrow> parsedLink" where
  "unparsed raw = \<lparr>pl_type = LtUnknown, pl_server = None, pl_port = None, pl_secret = None, pl_domain = None, pl_raw = raw\<rparr>"

definition hexDigit :: "char \<Rightarrow> nat" where
  "hexDigit c = (let n = (of_char c :: nat) in if n \<le> 57 then n - 48 else n - 87)"

fun hexBytes :: "string \<Rightarrow> 8 word list" where
  "hexBytes (a # b # rest) = word_of_nat (hexDigit a * 16 + hexDigit b) # hexBytes rest"
| "hexBytes _ = []"

definition hexToUtf8 :: "browserUrls \<Rightarrow> string \<Rightarrow> string option" where
  "hexToUtf8 br hex =
    (if hex = [] \<or> length hex mod 2 \<noteq> 0 \<or> \<not> list_all is_lower_hex hex then None else br_utf8 br (hexBytes hex))"

definition parseLink :: "browserUrls \<Rightarrow> string \<Rightarrow> parsedLink" where
  "parseLink br link =
    (case br_new_URL br link of
       None \<Rightarrow> unparsed link
     | Some url \<Rightarrow>
         let params = url_searchParams url; server = map_of params ''server''; port = map_of params ''port''
         in case map_of params ''secret'' of
              None \<Rightarrow> unparsed link
            | Some secretParam \<Rightarrow>
                if secretParam = [] then unparsed link
                else let s = to_lower secretParam
                     in if hex32 s
                        then \<lparr>pl_type = LtClassic, pl_server = server, pl_port = port, pl_secret = Some s, pl_domain = None, pl_raw = link\<rparr>
                        else if startsWith s ''dd'' \<and> hex32 (drop 2 s)
                        then \<lparr>pl_type = LtSecure, pl_server = server, pl_port = port, pl_secret = Some (drop 2 s), pl_domain = None, pl_raw = link\<rparr>
                        else if startsWith s ''ee'' \<and> hex32 (take 32 (drop 2 s))
                        then \<lparr>pl_type = LtTls, pl_server = server, pl_port = port, pl_secret = Some (take 32 (drop 2 s)),
                              pl_domain = hexToUtf8 br (drop 34 s), pl_raw = link\<rparr>
                        else unparsed link)"

subsection \<open>Collecting the links of a user\<close>

datatype connectionKind = CkTls | CkSecure | CkClassic | CkWeb

datatype webMode = ModePlain | ModeDd

record webLinkProfile =
  wl_host :: string
  wl_basePath :: "string option"
  wl_mode :: webMode

record connectionLink =
  cl_kind :: connectionKind
  cl_url :: string
  cl_endpoint :: string
  cl_domain :: "string option"
  cl_profileMode :: "webMode option"
  cl_primary :: bool

definition webModeOf :: "string \<Rightarrow> webMode option" where
  "webModeOf m = (if m = ''plain'' then Some ModePlain else if m = ''dd'' then Some ModeDd else None)"

definition indexProfile :: "webAccessVhost \<Rightarrow> webAccessProfile \<Rightarrow> (string, webLinkProfile list) js_map \<Rightarrow> (string, webLinkProfile list) js_map" where
  "indexProfile vhost profile index =
    (case webModeOf (wa_secret_mode profile) of
       None \<Rightarrow> index
     | Some mode \<Rightarrow>
         let entries = (case mget index (wa_user profile) of Some es \<Rightarrow> es | None \<Rightarrow> [])
         in mset_key index (wa_user profile) (entries @ [\<lparr>wl_host = vh_host vhost, wl_basePath = vh_base_path vhost, wl_mode = mode\<rparr>]))"

definition webProfileIndex :: "webAccessView option \<Rightarrow> (string, webLinkProfile list) js_map" where
  "webProfileIndex view =
    (case view of
       None \<Rightarrow> []
     | Some v \<Rightarrow> if \<not> wv_enabled v then []
                else fold (\<lambda>vhost. fold (indexProfile vhost) (vh_profiles vhost)) (wv_vhosts v) [])"

definition hostChars :: "string \<Rightarrow> bool" where
  "hostChars s \<longleftrightarrow> (\<exists>c\<in>set s. is_space c \<or> c \<in> set ''/?#@'')"

definition proxyURL :: "browserUrls \<Rightarrow> string \<Rightarrow> parsedUrl option" where
  "proxyURL br raw =
    (case br_new_URL br raw of
       None \<Rightarrow> None
     | Some u \<Rightarrow>
         if \<not> ((url_protocol u = ''tg:'' \<and> url_hostname u = ''proxy'' \<and> url_pathname u = []) \<or>
               (url_protocol u = ''https:'' \<and> url_hostname u = ''t.me'' \<and> url_pathname u = ''/proxy'')) then None
         else if url_username u \<noteq> [] \<or> url_password u \<noteq> [] \<or> url_hash u \<noteq> [] \<or> (url_protocol u = ''https:'' \<and> url_port u \<noteq> []) then None
         else if \<exists>key\<in>{''server'', ''port'', ''secret''}. length (getAll (url_searchParams u) key) \<noteq> 1 then None
         else case (map_of (url_searchParams u) ''server'', map_of (url_searchParams u) ''port'') of
                (Some host, Some port) \<Rightarrow>
                  if host = [] \<or> hostChars host \<or> port = [] \<or> \<not> list_all is_digit port \<or> nat_of_digits port < 1 \<or> 65535 < nat_of_digits port
                  then None else Some u
              | _ \<Rightarrow> None)"

definition is_path_start :: "char \<Rightarrow> bool" where
  "is_path_start c \<longleftrightarrow> is_word c \<and> c \<noteq> CHR ''_''"

definition pathSegment :: "string \<Rightarrow> bool" where
  "pathSegment s = (case s of [] \<Rightarrow> False | c # rest \<Rightarrow> is_path_start c \<and> list_all (\<lambda>d. is_word d \<or> d = CHR ''-'') rest)"

definition isWebBasePath :: "string \<Rightarrow> bool" where
  "isWebBasePath value \<longleftrightarrow> value = [] \<or> (length value \<le> 128 \<and> list_all pathSegment (split_at CHR ''/'' value))"

record linkState =
  lk_result :: "connectionLink list"
  lk_seen :: "string list"
  lk_secret :: "string option"
  lk_conflicting :: bool

fun linkTypeOf :: "connectionKind \<Rightarrow> parsedLinkType" where
  "linkTypeOf CkTls = LtTls"
| "linkTypeOf CkSecure = LtSecure"
| "linkTypeOf CkClassic = LtClassic"
| "linkTypeOf CkWeb = LtUnknown"

fun originals :: "userLinksWire \<Rightarrow> connectionKind \<Rightarrow> string list" where
  "originals links CkTls = ulw_tls links @ map ulwtd_link (ulw_tls_domains links)"
| "originals links CkSecure = ulw_secure links"
| "originals links CkClassic = ulw_classic links"
| "originals links CkWeb = []"

definition linkMasks :: "userLinksWire \<Rightarrow> (string, string) js_map" where
  "linkMasks links = fold (\<lambda>d m. mset_key m (ulwtd_link d) (ulwtd_domain d)) (ulw_tls_domains links) []"

definition canonicalLink :: "browserUrls \<Rightarrow> parsedUrl \<Rightarrow> string" where
  "canonicalLink br url = ''tg://proxy?'' @ br_params_toString br (url_searchParams url)"

definition optText :: "string option \<Rightarrow> string" where
  "optText v = (case v of Some s \<Rightarrow> s | None \<Rightarrow> ''null'')"

definition proxyStep :: "browserUrls \<Rightarrow> userLinksWire \<Rightarrow> connectionKind \<Rightarrow> nat \<times> string \<Rightarrow> linkState \<Rightarrow> linkState" where
  "proxyStep br links kind entry st =
    (let (i, raw) = entry; parsed = parseLink br raw
     in case (proxyURL br raw, pl_secret parsed) of
          (Some url, Some secret) \<Rightarrow>
            if pl_type parsed \<noteq> linkTypeOf kind \<or> secret = [] \<or> (kind = CkTls \<and> pl_domain parsed \<in> {None, Some []}) then st
            else let canonical = canonicalLink br url
                 in if canonical \<in> set (lk_seen st) then st
                    else st\<lparr>lk_seen := lk_seen st @ [canonical],
                            lk_conflicting := (lk_conflicting st \<or> (lk_secret st \<noteq> None \<and> lk_secret st \<noteq> Some secret)),
                            lk_secret := (case lk_secret st of None \<Rightarrow> Some secret | Some x \<Rightarrow> Some x),
                            lk_result := lk_result st @ [\<lparr>cl_kind = kind, cl_url = canonical,
                              cl_endpoint = optText (pl_server parsed) @ '':'' @ optText (pl_port parsed),
                              cl_domain = (case mget (linkMasks links) raw of Some d \<Rightarrow> Some d | None \<Rightarrow> pl_domain parsed),
                              cl_profileMode = None, cl_primary = (i = 0 \<and> (kind \<noteq> CkTls \<or> ulw_tls links \<noteq> []))\<rparr>]\<rparr>
        | _ \<Rightarrow> st)"

definition entries :: "'a list \<Rightarrow> (nat \<times> 'a) list" where
  "entries xs = zip [0..<length xs] xs"

definition proxyLinks :: "browserUrls \<Rightarrow> userLinksWire \<Rightarrow> linkState" where
  "proxyLinks br links =
    fold (\<lambda>kind. fold (proxyStep br links kind) (entries (originals links kind))) [CkTls, CkSecure, CkClassic]
      \<lparr>lk_result = [], lk_seen = [], lk_secret = None, lk_conflicting = False\<rparr>"

definition clientSecret :: "string \<Rightarrow> webMode \<Rightarrow> string \<Rightarrow> string" where
  "clientSecret secret mode path =
    (if path = [] then (if mode = ModeDd then ''dd'' else []) @ secret
     else encodeBase64URL (0x70 # (if mode = ModeDd then [0xdd] else []) @ hexBytes secret))"

definition webPath :: "webLinkProfile \<Rightarrow> string" where
  "webPath p = (case wl_basePath p of Some b \<Rightarrow> b | None \<Rightarrow> [])"

definition webStep :: "browserUrls \<Rightarrow> string \<Rightarrow> nat \<times> webLinkProfile \<Rightarrow> linkState \<Rightarrow> linkState" where
  "webStep br secret entry st =
    (let (i, p) = entry; path = webPath p
     in if wl_host p = [] \<or> hostChars (wl_host p) \<or> CHR '':'' \<in> set (wl_host p) then st
        else if \<not> isWebBasePath path then st
        else let endpoint = (if path = [] then wl_host p else wl_host p @ ''/'' @ path);
                 url = ''tg://webproxy?'' @ br_params_toString br [(''server'', endpoint), (''secret'', clientSecret secret (wl_mode p) path)]
             in if url \<in> set (lk_seen st) then st
                else st\<lparr>lk_seen := lk_seen st @ [url],
                        lk_result := lk_result st @ [\<lparr>cl_kind = CkWeb, cl_url = url, cl_endpoint = endpoint, cl_domain = None,
                          cl_profileMode = Some (wl_mode p), cl_primary = (i = 0)\<rparr>]\<rparr>)"

definition collectConnectionLinks :: "browserUrls \<Rightarrow> userLinksWire \<Rightarrow> webLinkProfile list \<Rightarrow> connectionLink list" where
  "collectConnectionLinks br links profiles =
    (let st = proxyLinks br links
     in lk_result (case lk_secret st of
          Some secret \<Rightarrow> if secret \<noteq> [] \<and> \<not> lk_conflicting st then fold (webStep br secret) (entries profiles) st else st
        | None \<Rightarrow> st))"

subsection \<open>Formats and addresses\<close>

datatype linkFormat = FormatTg | FormatTme

definition formatConnectionLink :: "connectionLink \<Rightarrow> linkFormat \<Rightarrow> string" where
  "formatConnectionLink link fmt =
    (if fmt = FormatTme \<and> cl_kind link \<noteq> CkWeb \<and> startsWith (cl_url link) ''tg://proxy?''
     then ''https://t.me/proxy?'' @ drop 11 (cl_url link) else cl_url link)"

definition is_lower_alnum :: "char \<Rightarrow> bool" where
  "is_lower_alnum c \<longleftrightarrow> is_digit c \<or> (97 \<le> (of_char c :: nat) \<and> (of_char c :: nat) \<le> 122)"

definition domainLabel :: "string \<Rightarrow> bool" where
  "domainLabel s \<longleftrightarrow> s \<noteq> [] \<and> length s \<le> 63 \<and> is_lower_alnum (hd s) \<and> is_lower_alnum (last s) \<and>
     list_all (\<lambda>c. is_lower_alnum c \<or> c = CHR ''-'') s"

definition stripDot :: "string \<Rightarrow> string" where
  "stripDot s = (if s \<noteq> [] \<and> last s = CHR ''.'' then butlast s else s)"

fun connectionDomain :: "browserUrls \<Rightarrow> json \<Rightarrow> string option" where
  "connectionDomain br (JStr value) =
    (let raw = trim value
     in if raw = [] \<or> (\<exists>c\<in>set raw. is_space c \<or> c \<in> set ''/:?#@%[]'' \<or> c = char_of (92 :: nat)) then None
        else case br_new_URL br (''https://'' @ raw) of
               None \<Rightarrow> None
             | Some u \<Rightarrow>
                 let domain = stripDot (to_lower (url_hostname u))
                 in if 253 < length domain \<or> \<not> list_all domainLabel (split_at CHR ''.'' domain) then None else Some domain)"
| "connectionDomain br _ = None"

definition uniqueFirst :: "'a list \<Rightarrow> 'a list" where
  "uniqueFirst xs = fold (\<lambda>x acc. if x \<in> set acc then acc else acc @ [x]) xs []"

definition connectionAddressDomains :: "browserUrls \<Rightarrow> (string \<times> json) list option \<Rightarrow> string list" where
  "connectionAddressDomains br sections =
    (case sections of
       None \<Rightarrow> []
     | Some ss \<Rightarrow> (case jprop (okey ss ''censorship'') ''tls_domains'' of
         JArr ds \<Rightarrow> uniqueFirst (concat (map (\<lambda>d. case connectionDomain br d of Some x \<Rightarrow> [x] | None \<Rightarrow> []) ds))
       | _ \<Rightarrow> []))"

text \<open>\<open>searchParams.set\<close>: the first pair of the key gets the value, its other pairs go.\<close>

fun setParam :: "string \<Rightarrow> string \<Rightarrow> (string \<times> string) list \<Rightarrow> (string \<times> string) list" where
  "setParam key v [] = [(key, v)]"
| "setParam key v ((k, w) # rest) = (if k = key then (k, v) # filter (\<lambda>(k', w'). k' \<noteq> key) rest else (k, w) # setParam key v rest)"

definition withConnectionAddress :: "browserUrls \<Rightarrow> connectionLink \<Rightarrow> string \<Rightarrow> connectionLink" where
  "withConnectionAddress br link host =
    (if cl_kind link = CkWeb then link
     else case (connectionDomain br (JStr host), proxyURL br (cl_url link)) of
            (Some domain, Some url) \<Rightarrow>
              if domain = [] then link
              else let u = url\<lparr>url_searchParams := setParam ''server'' domain (url_searchParams url)\<rparr>
                   in link\<lparr>cl_url := br_url_toString br u, cl_endpoint := domain @ '':'' @ optText (map_of (url_searchParams u) ''port'')\<rparr>
          | _ \<Rightarrow> link)"

end
