(* ===== verification/Link_Props.thy ===== *)
theory Link_Props
  imports Links
begin

text \<open>
  What the links of a user promise: each is offered once, comes from a link Telemt built for that
  kind and user, or from a WEB profile with the one secret those links share, and at most one of a kind
  is the primary one.
\<close>

subsection \<open>Reading a link\<close>






lemma length_hexBytes: "even (length s) \<Longrightarrow> length (hexBytes s) = length s div 2"
  by (induction s rule: hexBytes.induct) auto


subsection \<open>The links of Telemt\<close>









subsection \<open>WEB links\<close>





subsection \<open>All links\<close>












end
