(* ===== verification/Panel_Access.thy ===== *)
theory Panel_Access
  imports Access Api_Error
begin

text \<open>
  How the panel itself is reached: the draft of the listener and its certificate
  (\<open>web/src/server/settings/panelAccess.helpers.ts\<close>) and the form that prepares, saves and restarts it
  (\<open>web/src/server/settings/PanelAccessForm.tsx\<close>). The form serves the panel and, with its own switch, the
  subscription endpoint.

  The browser's URL parser is an argument: \<open>newURL raw\<close> is the parsed \<open>new URL(raw)\<close>, \<open>None\<close> when it throws.
  The query that holds the settings is the event \<open>SettingsData\<close>; a mutation is a request that is in flight until
  it is answered, in any order with everything else. A control reacts only while it is rendered and not
  disabled, which is part of the handlers below; single fields are offered in more modes than the markup
  shows them.
\<close>

subsection \<open>Wire types\<close>

datatype tlsMode = TlsHttp | TlsCertificate | TlsAcme

record panelTlsConfig =
  tc_mode :: tlsMode
  tc_cert_file :: "string option"
  tc_key_file :: "string option"
  tc_acme_domain :: "string option"
  tc_acme_cache_dir :: "string option"

record panelTlsCandidate =
  ca_listen :: string
  ca_tls :: panelTlsConfig
  ca_base_path :: "string option"
  ca_public_url :: "string option"
  ca_enabled :: "bool option"

record panelTlsCertificate =
  ce_domain :: "string option"
  ce_expires_at :: string
  ce_publicly_trusted :: bool

record panelTlsPrepared =
  pp_receipt :: string
  pp_expires_at :: string
  pp_candidate :: panelTlsCandidate
  pp_new_url :: string
  pp_warnings :: "string list"
  pp_certificate :: "panelTlsCertificate option"

record panelTlsSaved =
  sv_new_url :: string
  sv_restart_required :: bool

record panelTlsCapabilities =
  pc_config_writable :: bool
  pc_restart :: bool
  pc_prepare :: bool
  pc_acme_prepare :: bool

record panelTlsSettings =
  pt_active :: panelTlsCandidate
  pt_configured :: "panelTlsCandidate option"
  pt_capabilities :: panelTlsCapabilities
  pt_manual_hints :: "string list"
  pt_default_acme_cache_dir :: string
  pt_config_path :: "string option"
  pt_manual_restart_command :: string
  pt_state :: string
  pt_prepared :: "panelTlsPrepared option"
  pt_restart_required :: bool
  pt_new_url :: "string option"
  pt_error :: "string option"

record prepareBody =
  pb_listen :: string
  pb_tls :: panelTlsConfig
  pb_base_path :: string
  pb_public_url :: string
  pb_enabled :: bool
  pb_confirm_http :: "bool option"

record accessUrl =
  au_protocol :: string
  au_hostname :: string
  au_pathname :: string
  au_search :: string
  au_hash :: string
  au_username :: string
  au_password :: string
  au_origin :: string
  au_href :: string

subsection \<open>The draft\<close>

datatype panelAccessMode = PmAcme | PmCertificate | PmProxy | PmHttp

record panelAccessDraft =
  pd_publicURL :: "string option"
  pd_basePath :: "string option"
  pd_enabled :: "bool option"
  pd_mode :: panelAccessMode
  pd_host :: string
  pd_port :: string
  pd_domain :: string
  pd_cacheDir :: string
  pd_certFile :: string
  pd_keyFile :: string
  pd_httpConfirmed :: bool

definition filled :: "string option \<Rightarrow> bool" where
  "filled v \<longleftrightarrow> v \<noteq> None \<and> v \<noteq> Some []"

definition orEmpty :: "string option \<Rightarrow> string" where
  "orEmpty v = (case v of Some s \<Rightarrow> s | None \<Rightarrow> [])"

definition isEnabled :: "panelAccessDraft \<Rightarrow> bool" where
  "isEnabled draft = (pd_enabled draft = Some True)"

definition accessModeOf :: "panelTlsCandidate \<Rightarrow> string \<Rightarrow> panelAccessMode" where
  "accessModeOf candidate browserProtocol =
    (case tc_mode (ca_tls candidate) of
       TlsAcme \<Rightarrow> PmAcme
     | TlsCertificate \<Rightarrow> PmCertificate
     | TlsHttp \<Rightarrow>
         if (if filled (ca_public_url candidate) then startsWith (orEmpty (ca_public_url candidate)) ''https://''
             else browserProtocol = ''https:'')
         then PmProxy else PmHttp)"

definition splitLastColon :: "string \<Rightarrow> string \<times> string" where
  "splitLastColon listen =
    (let port = takeWhile (\<lambda>c. c \<noteq> CHR '':'') (rev listen)
     in if length port = length listen then (listen, [])
        else (take (length listen - length port - 1) listen, rev port))"

definition splitPanelListen :: "string \<Rightarrow> string \<times> string" where
  "splitPanelListen listen =
    (let end' = length (takeWhile (\<lambda>c. c \<noteq> CHR '']'') listen)
     in if startsWith listen ''['' \<and> end' < length listen \<and> Suc end' < length listen \<and> listen ! Suc end' = CHR '':''
        then (drop 1 (take end' listen), drop (end' + 2) listen)
        else splitLastColon listen)"

definition joinPanelListen :: "string \<Rightarrow> string \<Rightarrow> string" where
  "joinPanelListen host port =
    (let cleanHost = trim host;
         formattedHost = (if CHR '':'' \<in> set cleanHost \<and> \<not> startsWith cleanHost ''['' then ''['' @ cleanHost @ '']'' else cleanHost)
     in formattedHost @ '':'' @ trim port)"

definition createPanelAccessDraft :: "panelTlsSettings \<Rightarrow> string \<Rightarrow> panelAccessDraft" where
  "createPanelAccessDraft settings browserProtocol =
    (let candidate = (case pt_configured settings of Some c \<Rightarrow> c | None \<Rightarrow> pt_active settings);
         (host, port) = splitPanelListen (ca_listen candidate)
     in \<lparr>pd_publicURL = Some (orEmpty (ca_public_url candidate)), pd_basePath = Some (orEmpty (ca_base_path candidate)),
         pd_enabled = Some (ca_enabled candidate = Some True), pd_mode = accessModeOf candidate browserProtocol,
         pd_host = host, pd_port = port, pd_domain = orEmpty (tc_acme_domain (ca_tls candidate)),
         pd_cacheDir = (case tc_acme_cache_dir (ca_tls candidate) of Some d \<Rightarrow> d | None \<Rightarrow> pt_default_acme_cache_dir settings),
         pd_certFile = orEmpty (tc_cert_file (ca_tls candidate)), pd_keyFile = orEmpty (tc_key_file (ca_tls candidate)),
         pd_httpConfirmed = False\<rparr>)"

definition octetText :: "string \<Rightarrow> bool" where
  "octetText part \<longleftrightarrow>
    (part = ''0'' \<or> (part \<noteq> [] \<and> list_all is_digit part \<and> hd part \<noteq> CHR ''0'' \<and> length part \<le> 3)) \<and> nat_of_digits part \<le> 255"

definition isLoopbackHost :: "string \<Rightarrow> bool" where
  "isLoopbackHost host =
    (let v = to_lower (stripBrackets (trim host)); octets = split_at CHR ''.'' v
     in if v = ''localhost'' \<or> v = ''::1'' then True
        else length octets = 4 \<and> hd octets = ''127'' \<and> list_all octetText octets)"

definition dropSlashes :: "string \<Rightarrow> string" where
  "dropSlashes path = rev (dropWhile (\<lambda>c. c = CHR ''/'') (rev path))"

definition splitAccessURL :: "(string \<Rightarrow> accessUrl option) \<Rightarrow> string \<Rightarrow> string \<Rightarrow> string \<times> string" where
  "splitAccessURL newURL publicURL basePath =
    (case newURL (trim publicURL) of
       Some url \<Rightarrow>
         if au_pathname url \<noteq> ''/'' \<and> au_search url = [] \<and> au_hash url = [] \<and> au_username url = [] \<and> au_password url = []
         then (au_origin url, dropSlashes (au_pathname url))
         else (trim publicURL, basePath)
     | None \<Rightarrow> (trim publicURL, basePath))"

definition plainTls :: "tlsMode \<Rightarrow> panelTlsConfig" where
  "plainTls mode = \<lparr>tc_mode = mode, tc_cert_file = None, tc_key_file = None, tc_acme_domain = None, tc_acme_cache_dir = None\<rparr>"

fun bodyMode :: "panelAccessMode \<Rightarrow> tlsMode" where
  "bodyMode PmProxy = TlsHttp"
| "bodyMode PmHttp = TlsHttp"
| "bodyMode PmAcme = TlsAcme"
| "bodyMode PmCertificate = TlsCertificate"

definition buildPanelTlsPrepareBody :: "(string \<Rightarrow> accessUrl option) \<Rightarrow> panelAccessDraft \<Rightarrow> prepareBody" where
  "buildPanelTlsPrepareBody newURL draft =
    (let (publicURL, basePath) = splitAccessURL newURL (orEmpty (pd_publicURL draft)) (orEmpty (pd_basePath draft));
         body = \<lparr>pb_listen = joinPanelListen (pd_host draft) (pd_port draft), pb_tls = plainTls (bodyMode (pd_mode draft)),
           pb_base_path = basePath, pb_public_url = publicURL, pb_enabled = isEnabled draft, pb_confirm_http = None\<rparr>;
         tls = pb_tls body
     in if pd_mode draft = PmAcme
        then body\<lparr>pb_tls := tls\<lparr>tc_acme_domain := Some (trim (pd_domain draft)),
               tc_acme_cache_dir := (if trim (pd_cacheDir draft) \<noteq> [] then Some (trim (pd_cacheDir draft)) else None)\<rparr>\<rparr>
        else if pd_mode draft = PmCertificate
        then body\<lparr>pb_tls := tls\<lparr>tc_cert_file := Some (trim (pd_certFile draft)), tc_key_file := Some (trim (pd_keyFile draft))\<rparr>\<rparr>
        else if pd_httpConfirmed draft \<and> (pd_mode draft = PmHttp \<or> (pd_mode draft = PmProxy \<and> \<not> isLoopbackHost (pd_host draft)))
        then body\<lparr>pb_confirm_http := Some True\<rparr>
        else body)"

definition safePanelDestination :: "(string \<Rightarrow> accessUrl option) \<Rightarrow> string option \<Rightarrow> panelAccessMode \<Rightarrow> string option" where
  "safePanelDestination newURL url mode =
    (if \<not> filled url then None
     else case newURL (orEmpty url) of
            None \<Rightarrow> None
          | Some parsed \<Rightarrow>
              if (au_protocol parsed \<noteq> ''http:'' \<and> au_protocol parsed \<noteq> ''https:'') \<or> au_username parsed \<noteq> [] \<or> au_password parsed \<noteq> []
              then None
              else if mode = PmProxy \<and> (au_protocol parsed \<noteq> ''https:'' \<or> isLoopbackHost (au_hostname parsed)) then None
              else Some (au_href parsed))"

definition panelPort :: "panelTlsCandidate \<Rightarrow> string" where
  "panelPort candidate = snd (splitPanelListen (ca_listen candidate))"

subsection \<open>The form\<close>

record formError =
  fe_summary :: string
  fe_technical :: "string option"

definition mutationError :: "json \<Rightarrow> dict \<Rightarrow> formError" where
  "mutationError err s =
    (let summary = apiErrorMessage err s
     in \<lparr>fe_summary = summary,
         fe_technical = (case jprop err ''message'' of
             JStr message \<Rightarrow> if trim message \<noteq> [] \<and> trim message \<noteq> summary then Some (trim message) else None
           | _ \<Rightarrow> None)\<rparr>)"

text \<open>A request to prepare that is in flight: its body and whether its controller was aborted.\<close>

record preparation =
  pr_body :: prepareBody
  pr_aborted :: bool

record accessForm =
  af_subscription :: bool
  af_protocol :: string
  af_settings :: "panelTlsSettings option"
  af_draft :: "panelAccessDraft option"
  af_prepared :: "panelTlsPrepared option option"
  af_saved :: "panelTlsSaved option option"
  af_formError :: "formError option"
  af_restartUnconfirmed :: bool
  af_restartRequested :: bool
  af_preparation :: "nat option"
  af_preparing :: "(nat, preparation) js_map"
  af_applying :: "(nat, panelTlsPrepared) js_map"
  af_restarting :: "(nat, panelTlsSaved option) js_map"
  af_next :: nat
  af_open :: bool
  af_prepares :: "prepareBody list"
  af_answers :: "(prepareBody \<times> panelTlsPrepared) list"
  af_applies :: "(string \<times> panelTlsCandidate) list"
  af_restarts :: nat
  af_invalidations :: nat

text \<open>The last five fields record what the form sent, which answers it took and how often it had the status of the
  listener fetched again; nothing reads them.\<close>

definition mountForm :: "bool \<Rightarrow> string \<Rightarrow> panelTlsSettings option \<Rightarrow> accessForm" where
  "mountForm subscription protocol cached =
    \<lparr>af_subscription = subscription, af_protocol = protocol, af_settings = cached, af_draft = None, af_prepared = None,
     af_saved = None, af_formError = None, af_restartUnconfirmed = False, af_restartRequested = False,
     af_preparation = None, af_preparing = [], af_applying = [], af_restarting = [], af_next = 0, af_open = True,
     af_prepares = [], af_answers = [], af_applies = [], af_restarts = 0, af_invalidations = 0\<rparr>"

definition shownDraft :: "accessForm \<Rightarrow> panelAccessDraft option" where
  "shownDraft st = (case af_draft st of
       Some d \<Rightarrow> Some d
     | None \<Rightarrow> map_option (\<lambda>s. createPanelAccessDraft s (if af_subscription st then ''http:'' else af_protocol st)) (af_settings st))"

definition shownPrepared :: "accessForm \<Rightarrow> panelTlsPrepared option" where
  "shownPrepared st = (case af_prepared st of Some p \<Rightarrow> p | None \<Rightarrow> Option.bind (af_settings st) pt_prepared)"

definition pendingSaved :: "accessForm \<Rightarrow> panelTlsSaved option" where
  "pendingSaved st = (case af_saved st of
       Some v \<Rightarrow> v
     | None \<Rightarrow> (case af_settings st of
           Some s \<Rightarrow> if pt_restart_required s \<and> filled (pt_new_url s)
                     then Some \<lparr>sv_new_url = orEmpty (pt_new_url s), sv_restart_required = True\<rparr> else None
         | None \<Rightarrow> None))"

definition restartFinished :: "accessForm \<Rightarrow> bool" where
  "restartFinished st \<longleftrightarrow> (af_restartRequested st \<or> af_restartUnconfirmed st) \<and>
     (case af_settings st of Some s \<Rightarrow> pt_state s = ''idle'' \<and> \<not> pt_restart_required s | None \<Rightarrow> False)"

definition shownSaved :: "accessForm \<Rightarrow> panelTlsSaved option" where
  "shownSaved st = (if restartFinished st then None else pendingSaved st)"

definition restartFailed :: "accessForm \<Rightarrow> bool" where
  "restartFailed st \<longleftrightarrow> (case af_settings st of
       Some s \<Rightarrow> pt_state s = ''restart_failed'' \<or> pt_error s = Some ''tls_restart_failed'' | None \<Rightarrow> False)"

definition lockedForRestart :: "accessForm \<Rightarrow> bool" where
  "lockedForRestart st \<longleftrightarrow> (case af_settings st of Some s \<Rightarrow> pt_restart_required s | None \<Rightarrow> False) \<or>
     (case shownSaved st of Some v \<Rightarrow> sv_restart_required v | None \<Rightarrow> False)"

definition restartRequested :: "accessForm \<Rightarrow> bool" where
  "restartRequested st \<longleftrightarrow> \<not> restartFailed st \<and>
     (af_restartRequested st \<or> (case af_settings st of Some s \<Rightarrow> pt_state s = ''restarting'' | None \<Rightarrow> False))"

definition requiresHttpConfirmation :: "bool \<Rightarrow> panelAccessDraft \<Rightarrow> bool" where
  "requiresHttpConfirmation subscription draft \<longleftrightarrow> (\<not> subscription \<or> isEnabled draft) \<and>
     (pd_mode draft = PmHttp \<or> (pd_mode draft = PmProxy \<and> \<not> isLoopbackHost (pd_host draft)))"

definition formDestination :: "(string \<Rightarrow> accessUrl option) \<Rightarrow> accessForm \<Rightarrow> string option" where
  "formDestination newURL st =
    safePanelDestination newURL
      (case shownSaved st of Some v \<Rightarrow> Some (sv_new_url v)
       | None \<Rightarrow> (case shownPrepared st of Some p \<Rightarrow> Some (pp_new_url p) | None \<Rightarrow> Option.bind (af_settings st) pt_new_url))
      (case shownDraft st of Some d \<Rightarrow> pd_mode d | None \<Rightarrow> PmHttp)"

datatype networkWarning = NwFirewall string | NwPublicBind | NwAcmePort80

definition networkWarnings :: "accessForm \<Rightarrow> networkWarning list" where
  "networkWarnings st =
    (case (shownDraft st, af_settings st) of
       (Some draft, Some s) \<Rightarrow>
         (if pd_port draft \<noteq> panelPort (pt_active s) then [NwFirewall (pd_port draft)] else []) @
         (if isLoopbackHost (fst (splitPanelListen (ca_listen (pt_active s)))) \<and> \<not> isLoopbackHost (pd_host draft) then [NwPublicBind] else []) @
         (if pd_mode draft = PmAcme then [NwAcmePort80] else [])
     | _ \<Rightarrow> [])"

text \<open>The message of the first rule a draft breaks, by its key in the dictionary.\<close>

definition urlError :: "(string \<Rightarrow> accessUrl option) \<Rightarrow> panelAccessDraft \<Rightarrow> string option" where
  "urlError newURL draft =
    (if \<not> filled (pd_publicURL draft) then None
     else case newURL (orEmpty (pd_publicURL draft)) of
            None \<Rightarrow> Some ''endpoints.invalidURL''
          | Some url \<Rightarrow>
              if au_protocol url \<notin> {''https:'', ''http:''} \<or> au_username url \<noteq> [] \<or> au_password url \<noteq> [] \<or>
                 au_search url \<noteq> [] \<or> au_hash url \<noteq> [] then Some ''endpoints.invalidURL''
              else if pd_mode draft = PmProxy \<and> au_protocol url \<noteq> ''https:'' then Some ''endpoints.proxyURL''
              else None)"

definition validPort :: "string \<Rightarrow> bool" where
  "validPort port \<longleftrightarrow> (case js_number port of None \<Rightarrow> False | Some n \<Rightarrow> is_int n \<and> 1 \<le> n \<and> n \<le> 65535)"

definition validationError :: "(string \<Rightarrow> accessUrl option) \<Rightarrow> bool \<Rightarrow> panelAccessDraft \<Rightarrow> string option" where
  "validationError newURL subscription draft =
    (if subscription \<and> isEnabled draft \<and> pd_mode draft = PmProxy \<and> trim (orEmpty (pd_publicURL draft)) = [] then Some ''endpoints.proxyURL''
     else if subscription \<and>
       filter (\<lambda>c. c \<noteq> CHR ''/'') (snd (splitAccessURL newURL (orEmpty (pd_publicURL draft)) (orEmpty (pd_basePath draft)))) = []
     then Some ''endpoints.pathRequired''
     else case urlError newURL draft of
            Some e \<Rightarrow> Some e
          | None \<Rightarrow>
              if trim (pd_host draft) = [] \<or> \<not> validPort (pd_port draft) then Some ''validation.listen''
              else if pd_mode draft = PmAcme \<and> trim (pd_domain draft) = [] then Some ''validation.domain''
              else if pd_mode draft = PmCertificate \<and> (trim (pd_certFile draft) = [] \<or> trim (pd_keyFile draft) = [])
              then Some ''validation.certificate''
              else if requiresHttpConfirmation subscription draft \<and> \<not> pd_httpConfirmed draft then Some ''validation.httpConfirmation''
              else None)"

text \<open>A mutation is pending from its call to its answer. The form is rendered and enabled when nothing
  prepared or saved is shown in its place.\<close>

definition formEnabled :: "accessForm \<Rightarrow> bool" where
  "formEnabled st \<longleftrightarrow> (case af_settings st of None \<Rightarrow> False | Some s \<Rightarrow> pc_prepare (pt_capabilities s)) \<and>
     \<not> lockedForRestart st \<and> shownPrepared st = None \<and> af_preparing st = []"

datatype draftChange =
    SetEnabled bool | SetPublicURL string | SetBasePath string | SetAddress string string | SetDomain string | SetPort string
  | SetCertFile string | SetKeyFile string | SetHost string | SetCacheDir string | SetHttpConfirmed bool

fun changeDraft :: "draftChange \<Rightarrow> panelAccessDraft \<Rightarrow> panelAccessDraft" where
  "changeDraft (SetEnabled b) d = d\<lparr>pd_enabled := Some b\<rparr>"
| "changeDraft (SetPublicURL v) d = d\<lparr>pd_publicURL := Some v\<rparr>"
| "changeDraft (SetBasePath v) d = d\<lparr>pd_basePath := Some v\<rparr>"
| "changeDraft (SetAddress u p) d = d\<lparr>pd_publicURL := Some u, pd_basePath := Some p\<rparr>"
| "changeDraft (SetDomain v) d = d\<lparr>pd_domain := v\<rparr>"
| "changeDraft (SetPort v) d = d\<lparr>pd_port := v\<rparr>"
| "changeDraft (SetCertFile v) d = d\<lparr>pd_certFile := v\<rparr>"
| "changeDraft (SetKeyFile v) d = d\<lparr>pd_keyFile := v\<rparr>"
| "changeDraft (SetHost v) d = d\<lparr>pd_host := v\<rparr>"
| "changeDraft (SetCacheDir v) d = d\<lparr>pd_cacheDir := v\<rparr>"
| "changeDraft (SetHttpConfirmed b) d = d\<lparr>pd_httpConfirmed := b\<rparr>"

definition selectModeDraft :: "panelAccessMode \<Rightarrow> panelAccessDraft \<Rightarrow> panelAccessDraft" where
  "selectModeDraft mode current =
    current\<lparr>pd_mode := mode, pd_host := (if mode = PmProxy \<and> pd_mode current \<noteq> PmProxy then ''127.0.0.1'' else pd_host current),
      pd_httpConfirmed := (if mode = PmHttp then pd_httpConfirmed current else False)\<rparr>"

definition setDraft :: "(panelAccessDraft \<Rightarrow> panelAccessDraft) \<Rightarrow> accessForm \<Rightarrow> accessForm" where
  "setDraft f st = st\<lparr>af_draft := map_option f (shownDraft st), af_prepared := Some None, af_formError := None\<rparr>"

definition editAccess :: "draftChange \<Rightarrow> accessForm \<Rightarrow> accessForm" where
  "editAccess change st = (if formEnabled st then setDraft (changeDraft change) st else st)"

definition blurPublicURL :: "(string \<Rightarrow> accessUrl option) \<Rightarrow> accessForm \<Rightarrow> accessForm" where
  "blurPublicURL newURL st =
    (case shownDraft st of
       None \<Rightarrow> st
     | Some d \<Rightarrow> (let (u, p) = splitAccessURL newURL (orEmpty (pd_publicURL d)) (orEmpty (pd_basePath d)) in editAccess (SetAddress u p) st))"

definition selectMode :: "panelAccessMode \<Rightarrow> accessForm \<Rightarrow> accessForm" where
  "selectMode mode st =
    (case af_settings st of
       None \<Rightarrow> st
     | Some s \<Rightarrow> if formEnabled st \<and> \<not> (mode = PmAcme \<and> \<not> pc_acme_prepare (pt_capabilities s))
                 then setDraft (selectModeDraft mode) st else st)"

definition onPrepare :: "(string \<Rightarrow> accessUrl option) \<Rightarrow> dict \<Rightarrow> accessForm \<Rightarrow> accessForm" where
  "onPrepare newURL s st =
    (if \<not> formEnabled st \<or> af_preparation st \<noteq> None then st
     else case shownDraft st of
            None \<Rightarrow> st\<lparr>af_formError := Some \<lparr>fe_summary = di_text s ''validation.listen'', fe_technical = None\<rparr>\<rparr>
          | Some draft \<Rightarrow>
              (case validationError newURL (af_subscription st) draft of
                 Some key \<Rightarrow> st\<lparr>af_formError := Some \<lparr>fe_summary = di_text s key, fe_technical = None\<rparr>\<rparr>
               | None \<Rightarrow>
                   let body = buildPanelTlsPrepareBody newURL draft
                   in st\<lparr>af_formError := None, af_preparation := Some (af_next st), af_next := Suc (af_next st),
                         af_preparing := mset_key (af_preparing st) (af_next st) \<lparr>pr_body = body, pr_aborted = False\<rparr>,
                         af_prepares := af_prepares st @ [body]\<rparr>))"

definition prepareSettled :: "nat \<Rightarrow> accessForm \<Rightarrow> accessForm" where
  "prepareSettled rid st = st\<lparr>af_preparing := mdel (af_preparing st) rid,
     af_preparation := (if af_preparation st = Some rid then None else af_preparation st)\<rparr>"

definition prepareOk :: "nat \<Rightarrow> panelTlsPrepared \<Rightarrow> accessForm \<Rightarrow> accessForm" where
  "prepareOk rid result st =
    (case mget (af_preparing st) rid of
       None \<Rightarrow> st
     | Some r \<Rightarrow> prepareSettled rid (if pr_aborted r then st
         else st\<lparr>af_prepared := Some (Some result), af_answers := af_answers st @ [(pr_body r, result)]\<rparr>))"

definition prepareFail :: "dict \<Rightarrow> nat \<Rightarrow> json \<Rightarrow> accessForm \<Rightarrow> accessForm" where
  "prepareFail s rid err st =
    (case mget (af_preparing st) rid of
       None \<Rightarrow> st
     | Some r \<Rightarrow> prepareSettled rid (if pr_aborted r then st else st\<lparr>af_formError := Some (mutationError err s)\<rparr>))"

definition applyEnabled :: "accessForm \<Rightarrow> bool" where
  "applyEnabled st \<longleftrightarrow> af_settings st \<noteq> None \<and> shownPrepared st \<noteq> None \<and> shownSaved st = None \<and> af_applying st = []"

definition editSettings :: "accessForm \<Rightarrow> accessForm" where
  "editSettings st = (if applyEnabled st then st\<lparr>af_prepared := Some None\<rparr> else st)"

definition onApply :: "accessForm \<Rightarrow> accessForm" where
  "onApply st =
    (if \<not> applyEnabled st then st
     else case shownPrepared st of
            None \<Rightarrow> st
          | Some p \<Rightarrow> st\<lparr>af_formError := None, af_next := Suc (af_next st), af_applying := mset_key (af_applying st) (af_next st) p,
              af_applies := af_applies st @ [(pp_receipt p, pp_candidate p)]\<rparr>)"

definition applyOk :: "nat \<Rightarrow> panelTlsSaved \<Rightarrow> accessForm \<Rightarrow> accessForm" where
  "applyOk rid result st =
    (case mget (af_applying st) rid of
       None \<Rightarrow> st
     | Some p \<Rightarrow> st\<lparr>af_applying := mdel (af_applying st) rid, af_saved := Some (Some result), af_prepared := Some None,
         af_settings := map_option (\<lambda>s. s\<lparr>pt_configured := Some (pp_candidate p), pt_state := ''saved'', pt_restart_required := True,
           pt_new_url := Some (sv_new_url result)\<rparr>) (af_settings st)\<rparr>)"

definition applyFail :: "dict \<Rightarrow> nat \<Rightarrow> json \<Rightarrow> accessForm \<Rightarrow> accessForm" where
  "applyFail s rid err st =
    (if mhas (af_applying st) rid
     then st\<lparr>af_applying := mdel (af_applying st) rid, af_formError := Some (mutationError err s)\<rparr> else st)"

definition restartEnabled :: "accessForm \<Rightarrow> bool" where
  "restartEnabled st \<longleftrightarrow> shownSaved st \<noteq> None \<and> \<not> restartRequested st \<and> af_restarting st = [] \<and>
     (case af_settings st of Some s \<Rightarrow> pc_restart (pt_capabilities s) | None \<Rightarrow> False)"

definition onRestart :: "accessForm \<Rightarrow> accessForm" where
  "onRestart st =
    (if \<not> restartEnabled st then st
     else st\<lparr>af_formError := None, af_restartUnconfirmed := False, af_restartRequested := False, af_next := Suc (af_next st),
            af_restarting := mset_key (af_restarting st) (af_next st) (shownSaved st), af_restarts := Suc (af_restarts st)\<rparr>)"

definition restartOk :: "nat \<Rightarrow> panelTlsSaved \<Rightarrow> accessForm \<Rightarrow> accessForm" where
  "restartOk rid result st =
    (if mhas (af_restarting st) rid
     then st\<lparr>af_restarting := mdel (af_restarting st) rid, af_saved := Some (Some result), af_restartRequested := True,
            af_invalidations := Suc (af_invalidations st),
            af_settings := map_option (\<lambda>s. s\<lparr>pt_state := ''restarting'', pt_restart_required := sv_restart_required result,
              pt_new_url := Some (sv_new_url result)\<rparr>) (af_settings st)\<rparr>
     else st)"

fun knownResponse :: "json \<Rightarrow> bool" where
  "knownResponse (JObj kvs) = (''code'' \<in> fst ` set kvs)"
| "knownResponse _ = False"

definition restartFail :: "dict \<Rightarrow> nat \<Rightarrow> json \<Rightarrow> accessForm \<Rightarrow> accessForm" where
  "restartFail s rid err st =
    (case mget (af_restarting st) rid of
       None \<Rightarrow> st
     | Some saved \<Rightarrow>
         let st1 = st\<lparr>af_restarting := mdel (af_restarting st) rid\<rparr>
         in if (case saved of Some v \<Rightarrow> sv_restart_required v | None \<Rightarrow> False) \<and> \<not> knownResponse err
            then st1\<lparr>af_restartUnconfirmed := True\<rparr>
            else st1\<lparr>af_formError := Some (mutationError err s)\<rparr>)"

definition closeForm :: "accessForm \<Rightarrow> accessForm" where
  "closeForm st =
    (if af_applying st \<noteq> [] \<or> af_restarting st \<noteq> [] then st
     else st\<lparr>af_preparing := map (\<lambda>(i, r). (i, if af_preparation st = Some i then r\<lparr>pr_aborted := True\<rparr> else r)) (af_preparing st),
            af_open := False\<rparr>)"

datatype accessEvent =
    SettingsData panelTlsSettings
  | EditDraft draftChange
  | BlurPublicURL
  | SelectMode panelAccessMode
  | PrepareSubmit
  | PrepareOk nat panelTlsPrepared
  | PrepareFail nat json
  | EditSettings
  | ApplyClick
  | ApplyOk nat panelTlsSaved
  | ApplyFail nat json
  | RestartClick
  | RestartOk nat panelTlsSaved
  | RestartFail nat json
  | CloseForm

fun access_handle :: "(string \<Rightarrow> accessUrl option) \<Rightarrow> dict \<Rightarrow> accessForm \<Rightarrow> accessEvent \<Rightarrow> accessForm" where
  "access_handle newURL s st (SettingsData v) = st\<lparr>af_settings := Some v\<rparr>"
| "access_handle newURL s st (EditDraft c) = editAccess c st"
| "access_handle newURL s st BlurPublicURL = blurPublicURL newURL st"
| "access_handle newURL s st (SelectMode m) = selectMode m st"
| "access_handle newURL s st PrepareSubmit = onPrepare newURL s st"
| "access_handle newURL s st (PrepareOk i r) = prepareOk i r st"
| "access_handle newURL s st (PrepareFail i e) = prepareFail s i e st"
| "access_handle newURL s st EditSettings = editSettings st"
| "access_handle newURL s st ApplyClick = onApply st"
| "access_handle newURL s st (ApplyOk i r) = applyOk i r st"
| "access_handle newURL s st (ApplyFail i e) = applyFail s i e st"
| "access_handle newURL s st RestartClick = onRestart st"
| "access_handle newURL s st (RestartOk i r) = restartOk i r st"
| "access_handle newURL s st (RestartFail i e) = restartFail s i e st"
| "access_handle newURL s st CloseForm = closeForm st"

text \<open>Once the sheet is closed the component is gone, and what still arrives changes nothing.\<close>

definition access_step :: "(string \<Rightarrow> accessUrl option) \<Rightarrow> dict \<Rightarrow> accessForm \<Rightarrow> accessEvent \<Rightarrow> accessForm" where
  "access_step newURL s st e = (if af_open st then access_handle newURL s st e else st)"

end
