(* ===== verification/Panel_Access_Props.thy ===== *)
theory Panel_Access_Props
  imports Panel_Access
begin

text \<open>
  What the form of the panel's listener guarantees along every history: plain HTTP is only requested after an
  explicit confirmation or behind a proxy on the same machine, and what is saved is what was prepared.
\<close>

subsection \<open>Addresses\<close>


subsection \<open>What a request to prepare contains\<close>



lemma body_tls [simp]:
  "tc_mode (pb_tls (buildPanelTlsPrepareBody newURL d)) = bodyMode (pd_mode d)"
  "tc_acme_domain (pb_tls (buildPanelTlsPrepareBody newURL d)) = (if pd_mode d = PmAcme then Some (trim (pd_domain d)) else None)"
  "tc_cert_file (pb_tls (buildPanelTlsPrepareBody newURL d)) = (if pd_mode d = PmCertificate then Some (trim (pd_certFile d)) else None)"
  "tc_key_file (pb_tls (buildPanelTlsPrepareBody newURL d)) = (if pd_mode d = PmCertificate then Some (trim (pd_keyFile d)) else None)"
  "pb_listen (buildPanelTlsPrepareBody newURL d) = joinPanelListen (pd_host d) (pd_port d)"
  "pb_enabled (buildPanelTlsPrepareBody newURL d) = isEnabled d"
  by (simp_all add: buildPanelTlsPrepareBody_def Let_def plainTls_def case_prod_beta)

lemma body_confirm [simp]:
  "pb_confirm_http (buildPanelTlsPrepareBody newURL d) =
    (if pd_httpConfirmed d \<and> (pd_mode d = PmHttp \<or> (pd_mode d = PmProxy \<and> \<not> isLoopbackHost (pd_host d))) then Some True else None)"
  by (cases "pd_mode d") (simp_all add: buildPanelTlsPrepareBody_def Let_def case_prod_beta)



subsection \<open>The invariant of the form\<close>

definition bodies :: "accessForm \<Rightarrow> prepareBody list" where
  "bodies st = map (\<lambda>e. pr_body (snd e)) (af_preparing st)"

definition statedPrep :: "accessForm \<Rightarrow> panelTlsPrepared option" where
  "statedPrep st = Option.bind (af_settings st) pt_prepared"

text \<open>\<open>Q\<close> is what the server has reported as prepared. Every request was built from a draft that passed the checks,
  what was applied had been prepared, at most one preparation is in flight and it was built from the edited draft,
  and a prepared answer shown over an edited draft is the answer to that draft.\<close>

definition requests_sound ::
  "(string \<Rightarrow> accessUrl option) \<Rightarrow> panelTlsPrepared set \<Rightarrow> bool \<Rightarrow> prepareBody list \<Rightarrow> panelTlsPrepared option \<Rightarrow>
   prepareBody list \<Rightarrow> (prepareBody \<times> panelTlsPrepared) list \<Rightarrow> (string \<times> panelTlsCandidate) list \<Rightarrow> bool" where
  "requests_sound newURL Q sub flying rep sent answers applies \<longleftrightarrow>
    (\<forall>b\<in>set sent. \<exists>d. validationError newURL sub d = None \<and> b = buildPanelTlsPrepareBody newURL d) \<and>
    set flying \<subseteq> set sent \<and> fst ` set answers \<subseteq> set sent \<and> (\<forall>p. rep = Some p \<longrightarrow> p \<in> Q) \<and>
    (\<forall>a\<in>set applies. \<exists>p \<in> Q \<union> snd ` set answers. a = (pp_receipt p, pp_candidate p))"

definition draft_sound ::
  "(string \<Rightarrow> accessUrl option) \<Rightarrow> panelAccessDraft option \<Rightarrow> panelTlsPrepared option option \<Rightarrow> prepareBody list \<Rightarrow>
   (prepareBody \<times> panelTlsPrepared) list \<Rightarrow> bool" where
  "draft_sound newURL draft prepared flying answers \<longleftrightarrow> length flying \<le> 1 \<and>
    (\<forall>p. prepared = Some (Some p) \<longrightarrow> p \<in> snd ` set answers) \<and>
    (\<forall>d. draft = Some d \<longrightarrow> (\<forall>b\<in>set flying. b = buildPanelTlsPrepareBody newURL d) \<and>
       (\<forall>p. prepared = Some (Some p) \<longrightarrow> (buildPanelTlsPrepareBody newURL d, p) \<in> set answers))"

definition form_sound :: "(string \<Rightarrow> accessUrl option) \<Rightarrow> panelTlsPrepared set \<Rightarrow> accessForm \<Rightarrow> bool" where
  "form_sound newURL Q st \<longleftrightarrow>
    requests_sound newURL Q (af_subscription st) (bodies st) (statedPrep st) (af_prepares st) (af_answers st) (af_applies st) \<and>
    draft_sound newURL (af_draft st) (af_prepared st) (bodies st) (af_answers st)"

fun reportedBy :: "accessEvent \<Rightarrow> panelTlsPrepared set" where
  "reportedBy (SettingsData s) = set_option (pt_prepared s)"
| "reportedBy _ = {}"

lemma sound_frame:
  assumes "form_sound newURL Q st" "af_subscription st' = af_subscription st" "statedPrep st' = statedPrep st" "af_draft st' = af_draft st"
    "af_prepared st' = af_prepared st" "bodies st' = bodies st" "af_prepares st' = af_prepares st"
    "af_answers st' = af_answers st" "af_applies st' = af_applies st"
  shows "form_sound newURL Q st'"
  using assms by (simp only: form_sound_def)

lemma cleared_sound:
  assumes "form_sound newURL Q st" "af_subscription st' = af_subscription st" "statedPrep st' = statedPrep st" "af_draft st' = af_draft st"
    "af_prepared st' = Some None" "bodies st' = bodies st" "af_prepares st' = af_prepares st"
    "af_answers st' = af_answers st" "af_applies st' = af_applies st"
  shows "form_sound newURL Q st'"
  using assms by (simp add: form_sound_def draft_sound_def)

lemma shownPrepared_sources:
  assumes "form_sound newURL Q st" "shownPrepared st = Some p"
  shows "p \<in> Q \<union> snd ` set (af_answers st)"
proof (cases "af_prepared st")
  case None
  then have "statedPrep st = Some p" using assms(2) by (simp add: shownPrepared_def statedPrep_def)
  with assms(1) show ?thesis by (simp add: form_sound_def requests_sound_def)
next
  case (Some q)
  then have "af_prepared st = Some (Some p)" using assms(2) by (simp add: shownPrepared_def)
  with assms(1) show ?thesis by (simp add: form_sound_def draft_sound_def)
qed

lemma enabled_bodies: "formEnabled st \<Longrightarrow> bodies st = [] \<and> shownPrepared st = None"
  by (simp add: formEnabled_def bodies_def)

lemma setDraft_sound:
  assumes "form_sound newURL Q st" "formEnabled st"
  shows "form_sound newURL Q (setDraft f st)"
proof -
  have "bodies (setDraft f st) = bodies st" "statedPrep (setDraft f st) = statedPrep st" by (simp_all add: bodies_def statedPrep_def setDraft_def)
  with assms enabled_bodies [OF assms(2)] show ?thesis by (simp add: form_sound_def draft_sound_def setDraft_def)
qed

lemma edit_sound: "form_sound newURL Q st \<Longrightarrow> form_sound newURL Q (editAccess c st)"
  by (simp add: editAccess_def setDraft_sound)

lemma send_sound:
  assumes "form_sound newURL Q st" "bodies st = []" "shownPrepared st = None" "shownDraft st = Some d"
    "validationError newURL (af_subscription st) d = None" "af_subscription st' = af_subscription st" "statedPrep st' = statedPrep st"
    "af_draft st' = af_draft st" "af_prepared st' = af_prepared st" "bodies st' = [buildPanelTlsPrepareBody newURL d]"
    "af_prepares st' = af_prepares st @ [buildPanelTlsPrepareBody newURL d]" "af_answers st' = af_answers st" "af_applies st' = af_applies st"
  shows "form_sound newURL Q st'"
proof -
  have "af_draft st = None \<or> af_draft st = Some d" using assms(4) by (auto simp: shownDraft_def split: option.splits)
  moreover have "af_prepared st \<noteq> Some (Some p)" for p using assms(3) by (auto simp: shownPrepared_def)
  moreover have "requests_sound newURL Q (af_subscription st) [buildPanelTlsPrepareBody newURL d] (statedPrep st)
      (af_prepares st @ [buildPanelTlsPrepareBody newURL d]) (af_answers st) (af_applies st)"
    using assms(1,5) by (auto simp: form_sound_def requests_sound_def)
  ultimately show ?thesis using assms(6-) by (auto simp: form_sound_def draft_sound_def)
qed

lemma prepare_sound:
  assumes "form_sound newURL Q st"
  shows "form_sound newURL Q (onPrepare newURL s st)"
proof (cases "\<not> formEnabled st \<or> af_preparation st \<noteq> None")
  case False
  then have free: "bodies st = []" "shownPrepared st = None" "af_preparing st = []"
    using enabled_bodies by (simp_all add: formEnabled_def)
  show ?thesis
  proof (cases "shownDraft st")
    case None
    with False show ?thesis by (intro sound_frame [OF assms]) (simp_all add: onPrepare_def bodies_def statedPrep_def)
  next
    case (Some d)
    show ?thesis
    proof (cases "validationError newURL (af_subscription st) d")
      case None
      with Some False free show ?thesis
        by (intro send_sound [OF assms free(1,2) Some None]) (simp_all add: onPrepare_def bodies_def statedPrep_def Let_def)
    qed (use Some False in \<open>intro sound_frame [OF assms]; simp add: onPrepare_def bodies_def statedPrep_def\<close>)
  qed
qed (use assms in \<open>simp add: onPrepare_def\<close>)

lemma shrink_sound:
  assumes "form_sound newURL Q st" "set (bodies st') \<subseteq> set (bodies st)" "length (bodies st') \<le> length (bodies st)"
    "af_subscription st' = af_subscription st" "statedPrep st' = statedPrep st" "af_draft st' = af_draft st"
    "af_prepared st' = af_prepared st" "af_prepares st' = af_prepares st" "af_answers st' = af_answers st" "af_applies st' = af_applies st"
  shows "form_sound newURL Q st'"
proof -
  have "draft_sound newURL (af_draft st) (af_prepared st) (bodies st') (af_answers st)"
    using assms(1-3) unfolding form_sound_def draft_sound_def by (meson le_trans subsetD)
  moreover have "requests_sound newURL Q (af_subscription st) (bodies st') (statedPrep st) (af_prepares st) (af_answers st) (af_applies st)"
    using assms(1,2) unfolding form_sound_def requests_sound_def by (meson subset_trans)
  ultimately show ?thesis using assms(4-) by (simp add: form_sound_def)
qed

lemma settled_sound:
  assumes "form_sound newURL Q st"
  shows "form_sound newURL Q (prepareSettled rid st)"
proof -
  have "bodies (prepareSettled rid st) = map (\<lambda>e. pr_body (snd e)) (filter (\<lambda>(k, v). rid \<noteq> k) (af_preparing st))"
    by (simp add: bodies_def prepareSettled_def AList.delete_eq)
  then have "set (bodies (prepareSettled rid st)) \<subseteq> set (bodies st)" "length (bodies (prepareSettled rid st)) \<le> length (bodies st)"
    by (auto simp: bodies_def)
  then show ?thesis by (rule shrink_sound [OF assms]) (simp_all add: prepareSettled_def statedPrep_def)
qed

lemma answer_sound:
  fixes result :: panelTlsPrepared
  assumes "form_sound newURL Q st" "mget (af_preparing st) rid = Some r"
  defines "st' \<equiv> st\<lparr>af_prepared := Some (Some result), af_answers := af_answers st @ [(pr_body r, result)]\<rparr>"
  shows "form_sound newURL Q st'"
proof -
  have r: "pr_body r \<in> set (bodies st)" using map_of_SomeD [OF assms(2)] by (force simp: bodies_def)
  have same: "bodies st' = bodies st" "statedPrep st' = statedPrep st" by (simp_all add: st'_def bodies_def statedPrep_def)
  have "requests_sound newURL Q (af_subscription st) (bodies st) (statedPrep st) (af_prepares st) (af_answers st @ [(pr_body r, result)]) (af_applies st)"
    using assms(1) r by (auto simp: form_sound_def requests_sound_def)
  moreover have "draft_sound newURL (af_draft st) (Some (Some result)) (bodies st) (af_answers st @ [(pr_body r, result)])"
    using assms(1) r by (auto simp: form_sound_def draft_sound_def)
  ultimately show ?thesis using same by (simp add: form_sound_def st'_def)
qed

lemma prepareOk_sound: "form_sound newURL Q st \<Longrightarrow> form_sound newURL Q (prepareOk rid result st)"
  by (cases "mget (af_preparing st) rid") (simp_all add: prepareOk_def settled_sound answer_sound)

lemma prepareFail_sound:
  assumes "form_sound newURL Q st"
  shows "form_sound newURL Q (prepareFail s rid err st)"
proof -
  have "form_sound newURL Q (st\<lparr>af_formError := x\<rparr>)" for x
    by (rule sound_frame [OF assms]) (simp_all add: bodies_def statedPrep_def)
  then show ?thesis
    using assms by (cases "mget (af_preparing st) rid") (simp_all add: prepareFail_def settled_sound)
qed

lemma apply_sound:
  assumes "form_sound newURL Q st"
  shows "form_sound newURL Q (onApply st)"
proof (cases "applyEnabled st")
  case True
  then obtain p where p: "shownPrepared st = Some p" by (auto simp: applyEnabled_def)
  let ?st = "onApply st"
  have same: "bodies ?st = bodies st" "statedPrep ?st = statedPrep st" "af_draft ?st = af_draft st" "af_prepared ?st = af_prepared st"
      "af_subscription ?st = af_subscription st" "af_prepares ?st = af_prepares st" "af_answers ?st = af_answers st"
      "af_applies ?st = af_applies st @ [(pp_receipt p, pp_candidate p)]"
    using True p by (simp_all add: onApply_def bodies_def statedPrep_def)
  with assms shownPrepared_sources [OF assms p] show ?thesis by (auto simp: form_sound_def requests_sound_def)
qed (use assms in \<open>simp add: onApply_def\<close>)

lemma handle_sound:
  assumes "form_sound newURL Q st" "reportedBy e \<subseteq> Q"
  shows "form_sound newURL Q (access_handle newURL s st e)"
proof (cases e)
  case (SettingsData v)
  then have "bodies (access_handle newURL s st e) = bodies st" "statedPrep (access_handle newURL s st e) = pt_prepared v"
    by (simp_all add: bodies_def statedPrep_def)
  moreover have "\<forall>p. pt_prepared v = Some p \<longrightarrow> p \<in> Q" using SettingsData assms(2) by auto
  ultimately show ?thesis using SettingsData assms(1) by (simp add: form_sound_def requests_sound_def)
next
  case (SelectMode m)
  with assms show ?thesis by (auto simp: selectMode_def intro: setDraft_sound split: option.split)
next
  case BlurPublicURL
  with assms show ?thesis by (auto simp: blurPublicURL_def case_prod_beta intro: edit_sound split: option.split)
next
  case EditSettings
  with assms show ?thesis by (auto simp: editSettings_def bodies_def statedPrep_def intro: cleared_sound)
next
  case (ApplyOk i r)
  have "statedPrep (applyOk i r st) = statedPrep st"
    by (cases "af_settings st") (simp_all add: applyOk_def statedPrep_def split: option.split)
  with ApplyOk assms show ?thesis
    by (cases "mget (af_applying st) i") (simp add: applyOk_def, rule cleared_sound [OF assms(1)], simp_all add: applyOk_def bodies_def)
next
  case (RestartOk i r)
  have "statedPrep (restartOk i r st) = statedPrep st" by (cases "af_settings st") (simp_all add: restartOk_def statedPrep_def)
  with RestartOk show ?thesis by (intro sound_frame [OF assms(1)]) (simp_all add: restartOk_def bodies_def)
next
  case CloseForm
  have "bodies (closeForm st) = bodies st" by (simp add: closeForm_def bodies_def case_prod_beta)
  with CloseForm show ?thesis by (intro sound_frame [OF assms(1)]) (simp_all add: closeForm_def statedPrep_def)
next
  case (RestartFail i err)
  have "bodies (restartFail s i err st) = bodies st" "statedPrep (restartFail s i err st) = statedPrep st"
    by (simp_all add: restartFail_def bodies_def statedPrep_def Let_def split: option.split)
  with RestartFail show ?thesis by (intro sound_frame [OF assms(1)]) (simp_all add: restartFail_def Let_def split: option.split)
next
  case (ApplyFail i err)
  then show ?thesis by (intro sound_frame [OF assms(1)]) (simp_all add: applyFail_def bodies_def statedPrep_def)
next
  case RestartClick
  then show ?thesis by (intro sound_frame [OF assms(1)]) (simp_all add: onRestart_def bodies_def statedPrep_def)
qed (use assms in \<open>simp_all add: edit_sound prepare_sound prepareOk_sound prepareFail_sound apply_sound\<close>)

lemma step_sound: "form_sound newURL Q st \<Longrightarrow> reportedBy e \<subseteq> Q \<Longrightarrow> form_sound newURL Q (access_step newURL s st e)"
  by (simp add: access_step_def handle_sound)

lemma run_sound:
  "form_sound newURL Q st \<Longrightarrow> \<Union> (reportedBy ` set es) \<subseteq> Q \<Longrightarrow> form_sound newURL Q (run (access_step newURL s) st es)"
  by (induction es arbitrary: st) (simp_all add: step_sound)

definition reportedIn :: "panelTlsSettings option \<Rightarrow> accessEvent list \<Rightarrow> panelTlsPrepared set" where
  "reportedIn cached es = {p. Option.bind cached pt_prepared = Some p} \<union> \<Union> (reportedBy ` set es)"

lemma form_reached:
  "form_sound newURL (reportedIn cached es) (run (access_step newURL s) (mountForm sub protocol cached) es)"
proof (rule run_sound)
  have "bodies (mountForm sub protocol cached) = []" "statedPrep (mountForm sub protocol cached) = Option.bind cached pt_prepared"
    by (simp_all add: bodies_def statedPrep_def mountForm_def)
  then show "form_sound newURL (reportedIn cached es) (mountForm sub protocol cached)"
    by (simp add: form_sound_def requests_sound_def draft_sound_def mountForm_def reportedIn_def)
  show "\<Union> (reportedBy ` set es) \<subseteq> reportedIn cached es" by (simp add: reportedIn_def)
qed

lemmas form_defs = editAccess_def setDraft_def blurPublicURL_def selectMode_def onPrepare_def prepareOk_def prepareFail_def
  prepareSettled_def editSettings_def onApply_def applyOk_def applyFail_def onRestart_def restartOk_def restartFail_def closeForm_def
  Let_def case_prod_beta




lemma applies_step:
  assumes "af_applies (access_step newURL s st e) \<noteq> af_applies st"
  shows "e = ApplyClick \<and> applyEnabled st \<and> (\<exists>p. shownPrepared st = Some p \<and>
    af_applies (access_step newURL s st e) = af_applies st @ [(pp_receipt p, pp_candidate p)])"
proof -
  have "af_applies (access_handle newURL s st e) = af_applies st" if "e \<noteq> ApplyClick"
    using that by (cases e) (simp_all add: form_defs split: option.split)
  with assms have "e = ApplyClick" "af_open st" by (auto simp: access_step_def split: if_splits)
  moreover from this have "af_applies (onApply st) \<noteq> af_applies st" using assms by (simp add: access_step_def)
  ultimately show ?thesis by (auto simp: access_step_def onApply_def split: if_splits option.splits)
qed

text \<open>An edited draft discards what was prepared before it, so that from then on only the answer to a request counts.\<close>

definition edit_discards :: "accessForm \<Rightarrow> bool" where
  "edit_discards st \<longleftrightarrow> af_draft st = None \<or> af_prepared st \<noteq> None"

lemma edited_step: "edit_discards st \<Longrightarrow> edit_discards (access_step newURL s st e)"
  by (cases e) (auto simp: edit_discards_def access_step_def form_defs split: option.split)

interpretation edit_sys: step_system "access_step newURL s" edit_discards
  by unfold_locales (rule edited_step)

lemma saved_locks:
  assumes "af_open st" "mhas (af_applying st) rid" "af_settings st \<noteq> None"
  shows "\<not> formEnabled (access_step newURL s st (ApplyOk rid result))"
  using assms by (auto simp: access_step_def applyOk_def formEnabled_def lockedForRestart_def)

subsection \<open>Properties\<close>


text \<open>C15. What is saved is what was prepared. In every history of the form, what it asks the server to save is the
  receipt and the candidate of one preparation, which the server answered to a request of this form or reported itself; it
  is sent by pressing the button under the preparation shown, with nothing saved and no other save in flight;
  when the draft was edited, the preparation of this form that is saved is the answer to exactly the draft
  shown; and an accepted save locks the form until the restart.\<close>

theorem panel_access_saves_prepared:
  fixes newURL :: "string \<Rightarrow> accessUrl option" and s :: dict and sub protocol cached es e
  defines "st \<equiv> run (access_step newURL s) (mountForm sub protocol cached) es"
  defines "st' \<equiv> access_step newURL s st e"
  shows "(\<forall>a\<in>set (af_applies st). \<exists>p\<in>reportedIn cached es \<union> snd ` set (af_answers st). a = (pp_receipt p, pp_candidate p)) \<and>
    (\<forall>b\<in>fst ` set (af_answers st). b \<in> set (af_prepares st)) \<and>
    (af_applies st' \<noteq> af_applies st \<longrightarrow> e = ApplyClick \<and> shownSaved st = None \<and> af_applying st = [] \<and>
      (\<exists>p. shownPrepared st = Some p \<and> af_applies st' = af_applies st @ [(pp_receipt p, pp_candidate p)] \<and>
        (\<forall>d. af_draft st = Some d \<longrightarrow> (buildPanelTlsPrepareBody newURL d, p) \<in> set (af_answers st)))) \<and>
    (\<forall>rid result. e = ApplyOk rid result \<and> af_open st \<and> mhas (af_applying st) rid \<and> af_settings st \<noteq> None \<longrightarrow> \<not> formEnabled st')"
proof -
  have ok: "form_sound newURL (reportedIn cached es) st" unfolding st_def by (rule form_reached)
  then have sent: "\<forall>a\<in>set (af_applies st). \<exists>p\<in>reportedIn cached es \<union> snd ` set (af_answers st). a = (pp_receipt p, pp_candidate p)"
    "\<forall>b\<in>fst ` set (af_answers st). b \<in> set (af_prepares st)"
    unfolding form_sound_def requests_sound_def by blast+
  have shown: "(buildPanelTlsPrepareBody newURL d, p) \<in> set (af_answers st)"
    if "shownPrepared st = Some p" "af_draft st = Some d" for p d
  proof -
    have "edit_discards st" unfolding st_def by (rule edit_sys.run_inv) (simp add: edit_discards_def mountForm_def)
    with ok that show ?thesis by (auto simp: edit_discards_def form_sound_def draft_sound_def shownPrepared_def)
  qed
  have "e = ApplyClick \<and> shownSaved st = None \<and> af_applying st = [] \<and>
      (\<exists>p. shownPrepared st = Some p \<and> af_applies st' = af_applies st @ [(pp_receipt p, pp_candidate p)])"
    if "af_applies st' \<noteq> af_applies st"
    using applies_step [of newURL s st e] that by (auto simp: st'_def applyEnabled_def)
  moreover have "\<not> formEnabled st'" if "e = ApplyOk rid result" "af_open st" "mhas (af_applying st) rid" "af_settings st \<noteq> None" for rid result
    using saved_locks [OF that(2-4)] that(1) by (simp add: st'_def)
  ultimately show ?thesis using sent shown by blast
qed

subsection \<open>Witnesses\<close>

definition sampleSettings :: panelTlsSettings where
  "sampleSettings = \<lparr>pt_active = \<lparr>ca_listen = ''10.0.0.8:8080'', ca_tls = plainTls TlsHttp, ca_base_path = None, ca_public_url = None, ca_enabled = None\<rparr>,
     pt_configured = None, pt_capabilities = \<lparr>pc_config_writable = True, pc_restart = True, pc_prepare = True, pc_acme_prepare = True\<rparr>,
     pt_manual_hints = [], pt_default_acme_cache_dir = ''/certs'', pt_config_path = None, pt_manual_restart_command = ''restart'',
     pt_state = ''idle'', pt_prepared = None, pt_restart_required = False, pt_new_url = None, pt_error = None\<rparr>"

definition samplePrepared :: panelTlsPrepared where
  "samplePrepared = \<lparr>pp_receipt = ''r1'', pp_expires_at = [], pp_candidate = pt_active sampleSettings, pp_new_url = ''http://10.0.0.8:8080'',
     pp_warnings = [], pp_certificate = None\<rparr>"

definition accessDict :: dict where
  "accessDict = \<lparr>di_locale = En, di_text = id, di_number = num_str, di_errors = \<lambda>_. None\<rparr>"

lemmas form_eval = mountForm_def sampleSettings_def plainTls_def access_step_def formEnabled_def lockedForRestart_def shownSaved_def
  restartFinished_def pendingSaved_def shownPrepared_def shownDraft_def createPanelAccessDraft_def splitPanelListen_def splitLastColon_def
  startsWith_def orEmpty_def filled_def accessModeOf_def validationError_def urlError_def isEnabled_def requiresHttpConfirmation_def
  isLoopbackHost_def validPort_def



text \<open>The admin confirms plain HTTP on an address of the network and prepares it.\<close>

definition sampleForm :: "accessEvent list \<Rightarrow> accessForm" where
  "sampleForm es = run (access_step (\<lambda>_. None) accessDict) (mountForm False ''http:'' (Some sampleSettings)) es"



text \<open>What the server reported as prepared is saved.\<close>

theorem panel_access_saves_prepared_witness:
  "af_applies (access_step (\<lambda>_. None) accessDict (sampleForm [SettingsData (sampleSettings\<lparr>pt_prepared := Some samplePrepared\<rparr>)]) ApplyClick) =
     [(''r1'', pt_active sampleSettings)]"
proof -
  let ?e = "SettingsData (sampleSettings\<lparr>pt_prepared := Some samplePrepared\<rparr>)"
  have st: "shownPrepared (sampleForm [?e]) = Some samplePrepared" "shownSaved (sampleForm [?e]) = None" "af_applying (sampleForm [?e]) = []"
    "af_settings (sampleForm [?e]) \<noteq> None" "af_open (sampleForm [?e])" "af_applies (sampleForm [?e]) = []"
    by (simp_all add: sampleForm_def form_eval)
  then have "af_applies (access_step (\<lambda>_. None) accessDict (sampleForm [?e]) ApplyClick) \<noteq> af_applies (sampleForm [?e])"
    by (simp add: access_step_def onApply_def applyEnabled_def)
  with panel_access_saves_prepared [of "\<lambda>_. None" accessDict False "''http:''" "Some sampleSettings" "[?e]" ApplyClick] st
  show ?thesis by (auto simp: sampleForm_def samplePrepared_def)
qed

end
