(* ===== verification/Counters.thy ===== *)
theory Counters
  imports Log_Ring
begin

text \<open>
  The counters page: \<open>web/src/pulse/diag/counters.helpers.ts\<close>, \<open>counters.view.helpers.ts\<close> and the hook
  \<open>useCounterDeltas\<close> of \<open>CountersPage.tsx\<close>, which turns consecutive answers of the proxy into rates. The dump is a JSON
  value; a reading carries a number of its own, for the comparison of readings by identity.
\<close>

subsection \<open>Reading the dump\<close>

definition COUNTER_GROUP_PATHS :: "string list" where
  "COUNTER_GROUP_PATHS = [''core'', ''upstream'', ''middle_proxy'', ''pool'', ''desync'']"

text \<open>The alternatives of the pattern, which is not anchored: a key matches when it contains one of them.\<close>

definition ERROR_KEY :: "string list" where
  "ERROR_KEY = [''error'', ''errors'', ''failure'', ''failures'', ''failed'', ''fail'', ''drop'', ''drops'', ''reject'', ''timeout'', ''timeouts'', ''invalid'']"

definition isFailureCounterPath :: "string \<Rightarrow> bool" where
  "isFailureCounterPath path = list_ex (str_includes (last (split_at CHR ''.'' path))) ERROR_KEY"

fun isScalar :: "json \<Rightarrow> bool" where
  "isScalar (JObj kvs) = False"
| "isScalar (JArr xs) = False"
| "isScalar v = True"

record counterLeaf =
  lf_path :: string
  lf_key :: string
  lf_value :: json

definition groupPath :: "string \<Rightarrow> string \<Rightarrow> string" where
  "groupPath grp key = grp @ ''.'' @ key"

definition counterLeaves :: "json \<Rightarrow> counterLeaf list" where
  "counterLeaves data =
    (if \<not> truthy data then []
     else concat (map (\<lambda>grp. case jprop data grp of
         JObj kvs \<Rightarrow> map (\<lambda>(key, v). \<lparr>lf_path = groupPath grp key, lf_key = key, lf_value = v\<rparr>) (filter (\<lambda>(key, v). isScalar v) kvs)
       | _ \<Rightarrow> []) COUNTER_GROUP_PATHS))"

definition countersRefetchMs :: number where
  "countersRefetchMs = 10000"

definition countersRefetchInterval :: "displayMode \<Rightarrow> number" where
  "countersRefetchInterval mode = countersRefetchMs"

type_synonym counterSnapshot = "(string, number) js_map"

definition assignAll :: "(string \<times> number) list \<Rightarrow> counterSnapshot \<Rightarrow> counterSnapshot" where
  "assignAll entries out = fold (\<lambda>(k, v) m. mset_key m k v) entries out"

fun numericEntries :: "string \<Rightarrow> json \<Rightarrow> (string \<times> number) list" where
  "numericEntries grp (JObj kvs) = List.map_filter (\<lambda>(key, v). case v of JNum n \<Rightarrow> Some (groupPath grp key, n) | _ \<Rightarrow> None) kvs"
| "numericEntries grp _ = []"

definition readCounterValues :: "json \<Rightarrow> counterSnapshot" where
  "readCounterValues data =
    (if \<not> truthy data then [] else assignAll (concat (map (\<lambda>grp. numericEntries grp (jprop data grp)) COUNTER_GROUP_PATHS)) [])"

subsection \<open>Deltas\<close>

definition COUNTER_UPTIME_PATH :: string where
  "COUNTER_UPTIME_PATH = ''core.uptime_seconds''"

definition countersRestarted :: "counterSnapshot option \<Rightarrow> counterSnapshot \<Rightarrow> bool" where
  "countersRestarted before after =
    (case (Option.bind before (\<lambda>b. mget b COUNTER_UPTIME_PATH), mget after COUNTER_UPTIME_PATH) of
       (Some wasUp, Some isUp) \<Rightarrow> isUp < wasUp
     | _ \<Rightarrow> False)"

record reading =
  rd_id :: nat
  rd_values :: counterSnapshot
  rd_atMs :: number

record counterDeltas =
  cd_perSecond :: counterSnapshot
  cd_sincePrevious :: counterSnapshot
  cd_sinceOpen :: counterSnapshot

definition round2 :: "number \<Rightarrow> number" where
  "round2 x = of_int (js_round (x * 100)) / 100"

text \<open>One pass over the entries of the current reading that also occur in an earlier one.\<close>

definition deltaEntries :: "(number \<Rightarrow> number) \<Rightarrow> counterSnapshot \<Rightarrow> counterSnapshot \<Rightarrow> counterSnapshot" where
  "deltaEntries f before current =
    fold (\<lambda>(path, v) out. case mget before path of None \<Rightarrow> out | Some b \<Rightarrow> mset_key out path (f (v - b))) current []"

definition computeCounterDeltas :: "reading option \<Rightarrow> reading option \<Rightarrow> reading \<Rightarrow> counterDeltas" where
  "computeCounterDeltas previous baseline current =
    (let (perSecond, sincePrevious) =
           (case previous of
              Some p \<Rightarrow>
                let elapsedMs = rd_atMs current - rd_atMs p; seconds = elapsedMs / 1000
                in if \<not> countersRestarted (Some (rd_values p)) (rd_values current) \<and> 0 < elapsedMs
                   then (deltaEntries (\<lambda>d. round2 (d / seconds)) (rd_values p) (rd_values current),
                         deltaEntries (\<lambda>d. d) (rd_values p) (rd_values current))
                   else ([], [])
            | None \<Rightarrow> ([], []));
         sinceOpen =
           (case baseline of
              Some b \<Rightarrow> if \<not> countersRestarted (Some (rd_values b)) (rd_values current)
                        then deltaEntries (\<lambda>d. d) (rd_values b) (rd_values current) else []
            | None \<Rightarrow> [])
     in \<lparr>cd_perSecond = perSecond, cd_sincePrevious = sincePrevious, cd_sinceOpen = sinceOpen\<rparr>)"

subsection \<open>The view\<close>

record breakdownRow =
  br_id :: string
  br_total :: number

definition nullish :: "json \<Rightarrow> bool" where
  "nullish v \<longleftrightarrow> v = JUndef \<or> v = JNull"

fun coalesce :: "json list \<Rightarrow> json" where
  "coalesce [] = JUndef"
| "coalesce [v] = v"
| "coalesce (v # vs) = (if nullish v then coalesce vs else v)"

definition breakdownRow_of :: "nat \<Rightarrow> json \<Rightarrow> breakdownRow list" where
  "breakdownRow_of index item =
    (if isScalar item then []
     else case jprop item ''total'' of
            JNum t \<Rightarrow> [\<lparr>br_id = jsString (coalesce [jprop item ''class'', jprop item ''code'', jprop item ''reason'', jprop item ''name'',
               JNum (of_nat index)]), br_total = t\<rparr>]
          | _ \<Rightarrow> [])"

fun breakdownRows :: "json \<Rightarrow> breakdownRow list" where
  "breakdownRows (JArr items) = concat (map (\<lambda>(i, item). breakdownRow_of i item) (zip [0..<length items] items))"
| "breakdownRows _ = []"

definition BREAKDOWNS :: "(string \<times> string) list" where
  "BREAKDOWNS = [(''core'', ''connections_bad_by_class''), (''core'', ''handshake_failures_by_class''), (''middle_proxy'', ''handshake_error_codes'')]"

text \<open>\<open>data[group][key]\<close> throws when the group is missing: \<open>None\<close>.\<close>

definition readCounterViewValues :: "json \<Rightarrow> counterSnapshot option" where
  "readCounterViewValues data =
    (let out = readCounterValues data
     in if \<not> truthy data then Some out
        else if list_ex (\<lambda>(grp, key). nullish (jprop data grp)) BREAKDOWNS then None
        else Some (assignAll (concat (map (\<lambda>(grp, key). map (\<lambda>row. (groupPath grp key @ ''.'' @ br_id row, br_total row))
          (breakdownRows (jprop (jprop data grp) key))) BREAKDOWNS)) out))"

definition endsWith :: "string \<Rightarrow> string \<Rightarrow> bool" where
  "endsWith s e = (drop (length s - length e) s = e)"

definition counterTotal :: "string \<Rightarrow> string \<times> number \<Rightarrow> bool" where
  "counterTotal prefix' entry \<longleftrightarrow> startsWith (fst entry) prefix' \<and> endsWith (fst entry) ''_total''"

definition sumPositiveByPrefix :: "counterSnapshot option \<Rightarrow> string \<Rightarrow> number option" where
  "sumPositiveByPrefix snapshot prefix' =
    map_option (\<lambda>w. sum_list (map (\<lambda>e. max 0 (snd e)) (filter (counterTotal prefix') w))) snapshot"

definition failureEntry :: "string \<times> number \<Rightarrow> bool" where
  "failureEntry entry \<longleftrightarrow> \<not> str_includes (fst entry) ''_by_class.'' \<and> \<not> str_includes (fst entry) ''handshake_error_codes.'' \<and>
     isFailureCounterPath (fst entry) \<and> 0 < snd entry"

record counterViewMetrics =
  vm_connections :: "number option"
  vm_badConnections :: "number option"
  vm_upstreamAttempts :: "number option"
  vm_upstreamSuccess :: "number option"
  vm_upstreamFail :: "number option"
  vm_payloadBytes :: "number option"
  vm_dataFrames :: "number option"
  vm_routeDrops :: "number option"
  vm_poolEvents :: "number option"
  vm_desyncEvents :: "number option"
  vm_newFailureSignals :: "number option"

definition viewMetrics :: "counterSnapshot option \<Rightarrow> counterViewMetrics" where
  "viewMetrics window =
    (let v = (\<lambda>path. Option.bind window (\<lambda>w. mget w path))
     in \<lparr>vm_connections = v ''core.connections_total'', vm_badConnections = v ''core.connections_bad_total'',
         vm_upstreamAttempts = v ''upstream.connect_attempt_total'', vm_upstreamSuccess = v ''upstream.connect_success_total'',
         vm_upstreamFail = v ''upstream.connect_fail_total'', vm_payloadBytes = v ''middle_proxy.d2c_payload_bytes_total'',
         vm_dataFrames = v ''middle_proxy.d2c_data_frames_total'', vm_routeDrops = sumPositiveByPrefix window ''middle_proxy.route_drop_'',
         vm_poolEvents = sumPositiveByPrefix window ''pool.'', vm_desyncEvents = sumPositiveByPrefix window ''desync.'',
         vm_newFailureSignals = map_option (\<lambda>w. sum_list (map snd (filter failureEntry w))) window\<rparr>)"

definition counterRowMatchesSearch :: "string \<Rightarrow> string \<Rightarrow> string \<Rightarrow> string \<Rightarrow> bool" where
  "counterRowMatchesSearch grp path description normalizedNeedle \<longleftrightarrow>
    normalizedNeedle = [] \<or> str_includes (to_lower (grp @ '' '' @ path @ '' '' @ description)) normalizedNeedle"

definition numberAt :: "json \<Rightarrow> string \<Rightarrow> number option" where
  "numberAt data path =
    (let parts = split_at CHR ''.'' path
     in case jprop (jprop data (hd parts)) (if 1 < length parts then parts ! 1 else ''undefined'') of JNum n \<Rightarrow> Some n | _ \<Rightarrow> None)"

definition ratio :: "number option \<Rightarrow> number option \<Rightarrow> number option" where
  "ratio part whole = (case (part, whole) of
     (Some p, Some t) \<Rightarrow> if t \<le> 0 then None else Some (max 0 (min 100 (p / t * 100))) | _ \<Rightarrow> None)"

subsection \<open>The hook\<close>

text \<open>\<open>de_token\<close> is the state's copy of the token, \<open>de_resetToken\<close> the token a reset raises. A render may come with a new
  answer, with a raised token, with both or with neither.\<close>

record deltaState =
  de_atMs :: number
  de_current :: "reading option"
  de_previous :: "reading option"
  de_baseline :: "reading option"
  de_token :: nat
  de_restarted :: bool
  de_resetToken :: nat
  de_next :: nat

definition EMPTY_DELTAS :: deltaState where
  "EMPTY_DELTAS = \<lparr>de_atMs = 0, de_current = None, de_previous = None, de_baseline = None, de_token = 0, de_restarted = False,
     de_resetToken = 0, de_next = 0\<rparr>"

definition takeReading :: "reading \<Rightarrow> deltaState \<Rightarrow> deltaState" where
  "takeReading r st =
    (let restarted = (case de_current st of Some c \<Rightarrow> countersRestarted (Some (rd_values c)) (rd_values r) | None \<Rightarrow> False)
     in st\<lparr>de_atMs := rd_atMs r, de_current := Some r, de_previous := (if restarted then None else de_current st),
           de_baseline := (if restarted then Some r else case de_baseline st of Some b \<Rightarrow> Some b | None \<Rightarrow> Some r),
           de_token := de_resetToken st, de_restarted := (de_restarted st \<or> restarted), de_next := Suc (de_next st)\<rparr>)"

definition takeReset :: "deltaState \<Rightarrow> deltaState" where
  "takeReset st =
    (if de_token st \<noteq> de_resetToken st \<and> de_current st \<noteq> None
     then st\<lparr>de_baseline := de_current st, de_token := de_resetToken st, de_restarted := False\<rparr> else st)"

definition renderCounters :: "json \<Rightarrow> number \<Rightarrow> deltaState \<Rightarrow> deltaState" where
  "renderCounters data dataUpdatedAt st =
    (if truthy data \<and> 0 < dataUpdatedAt \<and> dataUpdatedAt \<noteq> de_atMs st
     then case readCounterViewValues data of
            None \<Rightarrow> st
          | Some values \<Rightarrow> takeReset (takeReading \<lparr>rd_id = de_next st, rd_values = values, rd_atMs = dataUpdatedAt\<rparr> st)
     else takeReset st)"

record deltaView =
  dv_perSecond :: "counterSnapshot option"
  dv_window :: "counterSnapshot option"
  dv_sinceOpen :: "counterSnapshot option"
  dv_windowSeconds :: "number option"
  dv_restarted :: bool

definition counterView :: "deltaState \<Rightarrow> deltaView" where
  "counterView st =
    (case de_current st of
       None \<Rightarrow> \<lparr>dv_perSecond = None, dv_window = None, dv_sinceOpen = None, dv_windowSeconds = None, dv_restarted = False\<rparr>
     | Some current \<Rightarrow>
         let deltas = computeCounterDeltas (de_previous st) (de_baseline st) current
         in \<lparr>dv_perSecond = map_option (\<lambda>p. cd_perSecond deltas) (de_previous st),
             dv_window = map_option (\<lambda>p. cd_sincePrevious deltas) (de_previous st),
             dv_sinceOpen = (if map_option rd_id (de_baseline st) = Some (rd_id current) then None else Some (cd_sinceOpen deltas)),
             dv_windowSeconds = map_option (\<lambda>p. max 0 ((rd_atMs current - rd_atMs p) / 1000)) (de_previous st),
             dv_restarted = de_restarted st\<rparr>)"

datatype counterEvent = Answer json number | ResetBaseline

fun counter_step :: "deltaState \<Rightarrow> counterEvent \<Rightarrow> deltaState" where
  "counter_step st (Answer data t) = renderCounters data t st"
| "counter_step st ResetBaseline = st\<lparr>de_resetToken := Suc (de_resetToken st)\<rparr>"

end
