(* ===== verification/Counter_Props.thy ===== *)
theory Counter_Props
  imports Counters
begin

text \<open>
  What the counters page shows is the difference of two readings it took: the readings of a history are
  \<open>taken\<close>, and along every history the hook keeps the newest, the one before it and the baseline among them.
\<close>

subsection \<open>Maps of deltas\<close>

lemma delta_fold:
  assumes "distinct (map fst current)"
  shows "mget (fold (\<lambda>(path, v) out. case mget before path of None \<Rightarrow> out | Some b \<Rightarrow> mset_key out path (f (v - b))) current out) path =
    (case (mget before path, mget current path) of (Some b, Some v) \<Rightarrow> Some (f (v - b)) | _ \<Rightarrow> mget out path)"
  using assms
proof (induction current arbitrary: out)
  case (Cons e current)
  obtain q v where e: "e = (q, v)" by force
  have q: "mget current q = None" using Cons.prems e by (simp add: map_of_eq_None_iff)
  show ?case
    using Cons q by (cases "mget before q") (auto simp: e mget_simps split: option.split)
qed (simp split: option.split)

lemma mget_deltaEntries:
  assumes "distinct (map fst current)"
  shows "mget (deltaEntries f before current) path = Some x \<longleftrightarrow>
    (\<exists>a b. mget before path = Some a \<and> mget current path = Some b \<and> x = f (b - a))"
  unfolding deltaEntries_def delta_fold [OF assms] by (auto split: option.split)

lemma distinct_assignAll: "distinct (map fst out) \<Longrightarrow> distinct (map fst (assignAll es out))"
  by (induction es arbitrary: out) (simp_all add: assignAll_def case_prod_beta distinct_update)

lemma distinct_view_values: "readCounterViewValues data = Some vs \<Longrightarrow> distinct (map fst vs)"
  by (auto simp: readCounterViewValues_def readCounterValues_def Let_def distinct_assignAll split: if_splits)

lemma round2_close: "\<bar>round2 x - x\<bar> \<le> 1 / 200"
proof -
  have "of_int (js_round (x * 100)) \<le> x * 100 + 1 / 2" "x * 100 + 1 / 2 < of_int (js_round (x * 100)) + 1"
    unfolding js_round_def by linarith+
  then show ?thesis unfolding round2_def abs_le_iff by (intro conjI) linarith+
qed

subsection \<open>The readings of a history\<close>

fun taken :: "number \<Rightarrow> nat \<Rightarrow> counterEvent list \<Rightarrow> reading list" where
  "taken atMs n [] = []"
| "taken atMs n (ResetBaseline # es) = taken atMs n es"
| "taken atMs n (Answer data t # es) =
    (if truthy data \<and> 0 < t \<and> t \<noteq> atMs
     then case readCounterViewValues data of
            None \<Rightarrow> taken atMs n es
          | Some vs \<Rightarrow> \<lparr>rd_id = n, rd_values = vs, rd_atMs = t\<rparr> # taken t (Suc n) es
     else taken atMs n es)"

text \<open>Between two readings no restart of the proxy is seen: its uptime did not shrink.\<close>

definition noRestart :: "reading \<Rightarrow> reading \<Rightarrow> bool" where
  "noRestart p c \<longleftrightarrow> (\<forall>wasUp isUp. mget (rd_values p) ''core.uptime_seconds'' = Some wasUp \<and>
     mget (rd_values c) ''core.uptime_seconds'' = Some isUp \<longrightarrow> wasUp \<le> isUp)"

lemma restarted_iff: "countersRestarted (Some (rd_values p)) (rd_values c) \<longleftrightarrow> \<not> noRestart p c"
  by (auto simp: countersRestarted_def noRestart_def COUNTER_UPTIME_PATH_def split: option.split)

definition readings_ok :: "reading list \<Rightarrow> deltaState \<Rightarrow> bool" where
  "readings_ok rs st \<longleftrightarrow> map rd_id rs = [0..<de_next st] \<and> (\<forall>r\<in>set rs. distinct (map fst (rd_values r))) \<and>
    de_current st = (if rs = [] then None else Some (last rs)) \<and>
    (\<forall>p. de_previous st = Some p \<longleftrightarrow> (\<exists>older. rs = older @ [p, last rs] \<and> noRestart p (last rs))) \<and>
    (case de_baseline st of None \<Rightarrow> rs = [] | Some b \<Rightarrow> \<exists>older newer. rs = older @ b # newer \<and> successively noRestart (b # newer))"

lemma takeReset_ok:
  assumes "readings_ok rs st"
  shows "readings_ok rs (takeReset st)"
proof (cases "de_token st \<noteq> de_resetToken st \<and> de_current st \<noteq> None")
  case True
  then have "rs \<noteq> []" "de_current st = Some (last rs)" using assms by (auto simp: readings_ok_def split: if_splits)
  moreover from this have "rs = butlast rs @ last rs # []" by simp
  ultimately have "\<exists>older newer. rs = older @ last rs # newer \<and> successively noRestart (last rs # newer)"
    by (metis successively.simps(2))
  with assms True \<open>de_current st = Some (last rs)\<close> show ?thesis by (simp add: readings_ok_def takeReset_def)
next
  case False
  then have "takeReset st = st" by (auto simp: takeReset_def)
  with assms show ?thesis by simp
qed

lemma baseline_extends:
  assumes "rs = older @ b # newer" "successively noRestart (b # newer)" "noRestart (last rs) r"
  shows "\<exists>older' newer'. rs @ [r] = older' @ b # newer' \<and> successively noRestart (b # newer')"
proof (intro exI conjI)
  show "rs @ [r] = older @ b # (newer @ [r])" using assms(1) by simp
  have "last (b # newer) = last rs" using assms(1) by simp
  then show "successively noRestart (b # (newer @ [r]))"
    using assms(2,3) successively_append_iff [of noRestart "b # newer" "[r]"] by simp
qed

lemma takeReading_ok:
  assumes "readings_ok rs st" "rd_id r = de_next st" "distinct (map fst (rd_values r))"
  shows "readings_ok (rs @ [r]) (takeReading r st)"
proof (cases rs)
  case Nil
  have "\<exists>older newer. [r] = older @ r # newer \<and> successively noRestart (r # newer)" by (intro exI [of _ "[]"]) simp
  with Nil assms show ?thesis by (auto simp: readings_ok_def takeReading_def split: option.splits)
next
  case (Cons x xs)
  then have cur: "de_current st = Some (last rs)" using assms(1) by (simp add: readings_ok_def)
  obtain b older newer where b: "de_baseline st = Some b" "rs = older @ b # newer" "successively noRestart (b # newer)"
    using assms(1) Cons by (auto simp: readings_ok_def split: option.splits)
  show ?thesis
  proof (cases "noRestart (last rs) r")
    case True
    have st': "de_current (takeReading r st) = Some r" "de_previous (takeReading r st) = Some (last rs)"
      "de_baseline (takeReading r st) = Some b" "de_next (takeReading r st) = Suc (de_next st)"
      using True cur b(1) by (simp_all add: takeReading_def restarted_iff)
    have "rs = butlast rs @ [last rs]" using Cons by simp
    then have prev: "last rs = p \<longleftrightarrow> (\<exists>o'. rs @ [r] = o' @ [p, last (rs @ [r])] \<and> noRestart p (last (rs @ [r])))" for p
      using True by (metis append_assoc append_Cons append_Nil butlast_snoc last_snoc)
    have "map rd_id (rs @ [r]) = [0..<Suc (de_next st)]" "\<forall>x\<in>set (rs @ [r]). distinct (map fst (rd_values x))"
      using assms by (simp_all add: readings_ok_def)
    with prev baseline_extends [OF b(2,3) True] show ?thesis
      unfolding readings_ok_def st' by (simp only: option.case option.inject) simp
  next
    case False
    have st': "de_current (takeReading r st) = Some r" "de_previous (takeReading r st) = None"
      "de_baseline (takeReading r st) = Some r" "de_next (takeReading r st) = Suc (de_next st)"
      using False cur by (simp_all add: takeReading_def restarted_iff)
    have "\<not> (\<exists>o'. rs @ [r] = o' @ [p, last (rs @ [r])] \<and> noRestart p (last (rs @ [r])))" for p
      using False by (metis append_assoc append_Cons append_Nil butlast_snoc last_snoc)
    note none = this
    have "\<exists>o' newer. rs @ [r] = o' @ r # newer \<and> successively noRestart (r # newer)" by (intro exI [of _ rs] exI [of _ "[]"]) simp
    then show ?thesis using assms none unfolding readings_ok_def st' by simp
  qed
qed

lemma token_ok: "readings_ok rs (st\<lparr>de_resetToken := n\<rparr>) = readings_ok rs st"
  by (simp add: readings_ok_def)

lemma takeReset_frame [simp]: "de_atMs (takeReset st) = de_atMs st" "de_next (takeReset st) = de_next st"
  by (simp_all add: takeReset_def)

lemma takeReading_frame [simp]: "de_atMs (takeReading r st) = rd_atMs r" "de_next (takeReading r st) = Suc (de_next st)"
  by (simp_all add: takeReading_def Let_def)

lemma run_taken:
  assumes keep: "\<And>rs st. P rs st \<Longrightarrow> P rs (takeReset st)"
    and reading: "\<And>rs st r. P rs st \<Longrightarrow> rd_id r = de_next st \<Longrightarrow> distinct (map fst (rd_values r)) \<Longrightarrow> P (rs @ [r]) (takeReading r st)"
    and reset: "\<And>rs st. P rs st \<Longrightarrow> resets \<Longrightarrow> P rs (st\<lparr>de_resetToken := Suc (de_resetToken st)\<rparr>)"
  shows "P rs st \<Longrightarrow> resets \<or> ResetBaseline \<notin> set es \<Longrightarrow> P (rs @ taken (de_atMs st) (de_next st) es) (run counter_step st es)"
proof (induction es arbitrary: rs st)
  case (Cons e es)
  have later: "resets \<or> ResetBaseline \<notin> set es" using Cons.prems(2) by auto
  show ?case
  proof (cases e)
    case ResetBaseline
    with Cons.prems have resets by simp
    from Cons.IH [OF reset [OF Cons.prems(1) this] later] ResetBaseline show ?thesis by simp
  next
    case (Answer data t)
    let ?new = "truthy data \<and> 0 < t \<and> t \<noteq> de_atMs st"
    show ?thesis
    proof (cases "if ?new then readCounterViewValues data else None")
      case None
      then have "renderCounters data t st = takeReset st \<or> renderCounters data t st = st"
        and tk: "taken (de_atMs st) (de_next st) (e # es) = taken (de_atMs st) (de_next st) es"
        using Answer by (auto simp: renderCounters_def split: if_splits)
      then show ?thesis
        using Cons.IH [OF Cons.prems(1) later] Cons.IH [OF keep [OF Cons.prems(1)] later] Answer
        by (elim disjE) (simp_all only: tk run.simps counter_step.simps takeReset_frame)
    next
      case (Some vs)
      then have new: "?new" "readCounterViewValues data = Some vs" by (simp_all split: if_splits)
      let ?r = "\<lparr>rd_id = de_next st, rd_values = vs, rd_atMs = t\<rparr>"
      have "P (rs @ [?r]) (takeReset (takeReading ?r st))"
        using Cons.prems(1) distinct_view_values [OF new(2)] by (intro keep reading) simp_all
      from Cons.IH [OF this later] new Answer show ?thesis by (simp add: renderCounters_def)
    qed
  qed
qed simp

lemma run_readings:
  "readings_ok rs st \<Longrightarrow> readings_ok (rs @ taken (de_atMs st) (de_next st) es) (run counter_step st es)"
  by (rule run_taken [where resets = True]) (simp_all add: takeReset_ok takeReading_ok token_ok)

text \<open>Without a reset the baseline is the first reading, or the first one after a restart.\<close>

definition opening_ok :: "reading list \<Rightarrow> deltaState \<Rightarrow> bool" where
  "opening_ok rs st \<longleftrightarrow> readings_ok rs st \<and> de_token st = de_resetToken st \<and>
    (\<forall>b. de_baseline st = Some b \<longrightarrow>
      (\<exists>older newer. rs = older @ b # newer \<and> (older = [] \<or> \<not> noRestart (last older) b) \<and> successively noRestart (b # newer)))"

lemma takeReading_opening:
  assumes "opening_ok rs st" "rd_id r = de_next st" "distinct (map fst (rd_values r))"
  shows "opening_ok (rs @ [r]) (takeReading r st)"
proof -
  have ok: "readings_ok rs st" using assms(1) by (simp add: opening_ok_def)
  have new: "readings_ok (rs @ [r]) (takeReading r st)" by (rule takeReading_ok [OF ok assms(2,3)])
  have "\<exists>older newer. rs @ [r] = older @ b # newer \<and> (older = [] \<or> \<not> noRestart (last older) b) \<and> successively noRestart (b # newer)"
    if b: "de_baseline (takeReading r st) = Some b" for b
  proof (cases "rs = []")
    case True
    then have "b = r" using ok b by (auto simp: readings_ok_def takeReading_def split: option.splits)
    with True show ?thesis by (intro exI [of _ "[]"]) simp
  next
    case False
    then have cur: "de_current st = Some (last rs)" using ok by (simp add: readings_ok_def)
    obtain b0 where b0: "de_baseline st = Some b0" using ok False by (auto simp: readings_ok_def split: option.splits)
    show ?thesis
    proof (cases "noRestart (last rs) r")
      case True
      then have "b = b0" using b b0 cur by (simp add: takeReading_def restarted_iff)
      with assms(1) b0 obtain older newer where o: "rs = older @ b # newer" "older = [] \<or> \<not> noRestart (last older) b"
        "successively noRestart (b # newer)" by (auto simp: opening_ok_def)
      have "last (b # newer) = last rs" using o(1) by simp
      then have "successively noRestart (b # (newer @ [r]))"
        using o(3) True successively_append_iff [of noRestart "b # newer" "[r]"] by simp
      with o show ?thesis by (intro exI [of _ older] exI [of _ "newer @ [r]"]) simp
    next
      case restarted: False
      then have "b = r" using b cur by (simp add: takeReading_def restarted_iff)
      with restarted show ?thesis by (intro exI [of _ rs] exI [of _ "[]"]) simp
    qed
  qed
  moreover have "de_token (takeReading r st) = de_resetToken (takeReading r st)" by (simp add: takeReading_def Let_def)
  ultimately show ?thesis using new unfolding opening_ok_def by blast
qed

lemma opening_reached: "ResetBaseline \<notin> set hist \<Longrightarrow> opening_ok (taken 0 0 hist) (run counter_step EMPTY_DELTAS hist)"
proof -
  assume "ResetBaseline \<notin> set hist"
  moreover have "opening_ok [] EMPTY_DELTAS" by (simp add: opening_ok_def readings_ok_def EMPTY_DELTAS_def)
  moreover have "opening_ok rs (takeReset st)" if "opening_ok rs st" for rs st
  proof -
    have "takeReset st = st" using that by (simp add: opening_ok_def takeReset_def)
    with that show ?thesis by simp
  qed
  moreover note run_taken [where P = opening_ok and resets = False, OF _ takeReading_opening, of "[]" EMPTY_DELTAS hist]
  ultimately show ?thesis by (simp add: EMPTY_DELTAS_def)
qed

text \<open>After a reset the baseline is not older than the reading that was shown.\<close>

definition base_from :: "nat \<Rightarrow> reading list \<Rightarrow> deltaState \<Rightarrow> bool" where
  "base_from n rs st \<longleftrightarrow> n \<le> de_next st \<and> (\<forall>b. de_baseline st = Some b \<longrightarrow> n \<le> rd_id b) \<and> (\<forall>c. de_current st = Some c \<longrightarrow> n \<le> rd_id c)"

lemma base_from_run: "base_from n rs st \<Longrightarrow> base_from n (rs @ taken (de_atMs st) (de_next st) es) (run counter_step st es)"
proof (rule run_taken [where resets = True])
  show "base_from n rs (takeReset st)" if "base_from n rs st" for rs st
    using that by (auto simp: base_from_def takeReset_def)
  show "base_from n (rs @ [r]) (takeReading r st)" if "base_from n rs st" "rd_id r = de_next st" for rs st r
    using that by (auto simp: base_from_def takeReading_def Let_def split: option.splits)
qed (simp_all add: base_from_def)

lemma readings_reached: "readings_ok (taken 0 0 hist) (run counter_step EMPTY_DELTAS hist)"
proof -
  have "readings_ok [] EMPTY_DELTAS" by (simp add: readings_ok_def EMPTY_DELTAS_def)
  from run_readings [OF this, of hist] show ?thesis by (simp add: EMPTY_DELTAS_def)
qed

subsection \<open>The property\<close>

lemma shown_window:
  assumes "readings_ok rs st" "de_previous st = Some p"
  obtains older c where "rs = older @ [p, c]" "noRestart p c" "de_current st = Some c" "distinct (map fst (rd_values c))"
proof -
  from assms obtain older where rs: "rs = older @ [p, last rs]" "noRestart p (last rs)" by (auto simp: readings_ok_def)
  then have "rs \<noteq> []" by (metis append_is_Nil_conv list.distinct(1))
  with assms(1) have "de_current st = Some (last rs)" "distinct (map fst (rd_values (last rs)))" by (simp_all add: readings_ok_def)
  with rs that show ?thesis by blast
qed

lemma shown_baseline:
  assumes "readings_ok rs st" "de_current st = Some c" "map_option rd_id (de_baseline st) \<noteq> Some (rd_id c)"
  obtains older b newer where "rs = older @ b # newer" "newer \<noteq> []" "last newer = c" "successively noRestart (b # newer)"
    "de_baseline st = Some b" "distinct (map fst (rd_values c))"
proof -
  have c: "rs \<noteq> []" "c = last rs" using assms(1,2) by (auto simp: readings_ok_def split: if_splits)
  with assms(1) obtain b older newer where b: "de_baseline st = Some b" "rs = older @ b # newer" "successively noRestart (b # newer)"
    by (auto simp: readings_ok_def split: option.splits)
  moreover have "newer \<noteq> []" using assms(3) b c by auto
  moreover have "distinct (map fst (rd_values c))" using assms(1) c by (simp add: readings_ok_def)
  ultimately show ?thesis using that c by auto
qed

lemma window_values:
  assumes "readings_ok rs st" "dv_window (counterView st) = Some w"
  shows "\<exists>older p c. rs = older @ [p, c] \<and> noRestart p c \<and>
    (\<forall>path x. mget w path = Some x \<longleftrightarrow> rd_atMs p < rd_atMs c \<and>
      (\<exists>a b. mget (rd_values p) path = Some a \<and> mget (rd_values c) path = Some b \<and> x = b - a))"
proof -
  obtain p where p: "de_previous st = Some p" using assms(2) by (auto simp: counterView_def Let_def split: option.splits)
  from shown_window [OF assms(1) p] obtain older c where
    c: "rs = older @ [p, c]" "noRestart p c" "de_current st = Some c" "distinct (map fst (rd_values c))" .
  then have "w = (if rd_atMs p < rd_atMs c then deltaEntries (\<lambda>d. d) (rd_values p) (rd_values c) else [])"
    using assms(2) p by (auto simp: counterView_def computeCounterDeltas_def restarted_iff Let_def split: prod.splits)
  then have "mget w path = Some x \<longleftrightarrow> rd_atMs p < rd_atMs c \<and>
      (\<exists>a b. mget (rd_values p) path = Some a \<and> mget (rd_values c) path = Some b \<and> x = b - a)" for path x
    by (simp add: mget_deltaEntries [OF c(4)])
  with c show ?thesis by blast
qed

lemma rate_values:
  assumes "readings_ok rs st" "dv_perSecond (counterView st) = Some w"
  shows "\<exists>older p c. rs = older @ [p, c] \<and> noRestart p c \<and>
    (\<forall>path. mget w path \<noteq> None \<longleftrightarrow> rd_atMs p < rd_atMs c \<and> mget (rd_values p) path \<noteq> None \<and> mget (rd_values c) path \<noteq> None) \<and>
    (\<forall>path x a b. mget w path = Some x \<and> mget (rd_values p) path = Some a \<and> mget (rd_values c) path = Some b \<longrightarrow>
      \<bar>x - (b - a) * 1000 / (rd_atMs c - rd_atMs p)\<bar> \<le> 1 / 200)"
proof -
  obtain p where p: "de_previous st = Some p" using assms(2) by (auto simp: counterView_def Let_def split: option.splits)
  from shown_window [OF assms(1) p] obtain older c where
    c: "rs = older @ [p, c]" "noRestart p c" "de_current st = Some c" "distinct (map fst (rd_values c))" .
  then have "w = (if rd_atMs p < rd_atMs c then deltaEntries (\<lambda>d. round2 (d / ((rd_atMs c - rd_atMs p) / 1000))) (rd_values p) (rd_values c) else [])"
    using assms(2) p by (auto simp: counterView_def computeCounterDeltas_def restarted_iff Let_def split: prod.splits)
  then have w: "mget w path = Some x \<longleftrightarrow> rd_atMs p < rd_atMs c \<and>
      (\<exists>a b. mget (rd_values p) path = Some a \<and> mget (rd_values c) path = Some b \<and> x = round2 ((b - a) * 1000 / (rd_atMs c - rd_atMs p)))" for path x
    by (auto simp: mget_deltaEntries [OF c(4)] split: if_splits)
  have "mget w path \<noteq> None \<longleftrightarrow> rd_atMs p < rd_atMs c \<and> mget (rd_values p) path \<noteq> None \<and> mget (rd_values c) path \<noteq> None" for path
    using w [of path] by blast
  moreover have "\<bar>x - (b - a) * 1000 / (rd_atMs c - rd_atMs p)\<bar> \<le> 1 / 200"
    if "mget w path = Some x" "mget (rd_values p) path = Some a" "mget (rd_values c) path = Some b" for path x a b
  proof -
    from that w have "x = round2 ((b - a) * 1000 / (rd_atMs c - rd_atMs p))" by simp
    then show ?thesis using round2_close [of "(b - a) * 1000 / (rd_atMs c - rd_atMs p)"] by (simp add: abs_minus_commute)
  qed
  ultimately show ?thesis using c(1,2) by blast
qed

lemma window_shown:
  assumes "readings_ok rs st"
  shows "(dv_window (counterView st) \<noteq> None \<longleftrightarrow> (\<exists>older p c. rs = older @ [p, c] \<and> noRestart p c)) \<and>
    (dv_perSecond (counterView st) \<noteq> None \<longleftrightarrow> (\<exists>older p c. rs = older @ [p, c] \<and> noRestart p c))"
proof -
  have prev: "de_previous st \<noteq> None \<longleftrightarrow> (\<exists>older p c. rs = older @ [p, c] \<and> noRestart p c)"
    using assms unfolding readings_ok_def by (metis last.simps last_append list.distinct(1) not_None_eq)
  have "de_current st = None \<longrightarrow> de_previous st = None"
    using assms unfolding readings_ok_def by (metis append_is_Nil_conv list.distinct(1) not_None_eq option.distinct(1))
  then show ?thesis unfolding prev [symmetric] by (auto simp: counterView_def Let_def split: option.splits)
qed

text \<open>What is shown since an earlier reading: the difference of the last reading to it, for the counters in both, with no
  restart after it. The condition says which readings may be the earlier one.\<close>

definition measuredSince :: "(reading list \<Rightarrow> reading \<Rightarrow> bool) \<Rightarrow> reading list \<Rightarrow> counterSnapshot \<Rightarrow> bool" where
  "measuredSince start rs w \<longleftrightarrow> (\<exists>older b newer. rs = older @ b # newer \<and> start older b \<and> newer \<noteq> [] \<and> successively noRestart (b # newer) \<and>
     (\<forall>path x. mget w path = Some x \<longleftrightarrow> noRestart b (last newer) \<and>
       (\<exists>a y. mget (rd_values b) path = Some a \<and> mget (rd_values (last newer)) path = Some y \<and> x = y - a)))"

lemma reading_position:
  assumes "readings_ok rs st" "rs = older @ b # newer"
  shows "length older = rd_id b"
proof -
  have ids: "map rd_id rs = [0..<de_next st]" using assms(1) by (simp add: readings_ok_def)
  then have "length rs = de_next st" by (metis length_map length_upt minus_nat.diff_0)
  then have "length older < de_next st" using assms(2) by simp
  then have "map rd_id rs ! length older = length older" unfolding ids by simp
  then show ?thesis using nth_append_length [of "map rd_id older" "rd_id b" "map rd_id newer"] assms(2) by simp
qed

lemma since_open_values:
  assumes "readings_ok rs st" "dv_sinceOpen (counterView st) = Some w"
    and start: "\<And>older b newer. de_baseline st = Some b \<Longrightarrow> rs = older @ b # newer \<Longrightarrow> length older = rd_id b \<Longrightarrow> start older b"
  shows "measuredSince start rs w"
proof -
  obtain c where c: "de_current st = Some c" "map_option rd_id (de_baseline st) \<noteq> Some (rd_id c)"
    using assms(2) by (auto simp: counterView_def Let_def split: option.splits if_splits)
  from shown_baseline [OF assms(1) c] obtain older b newer where
    b: "rs = older @ b # newer" "newer \<noteq> []" "last newer = c" "successively noRestart (b # newer)" "de_baseline st = Some b" "distinct (map fst (rd_values c))" .
  then have "w = (if noRestart b c then deltaEntries (\<lambda>d. d) (rd_values b) (rd_values c) else [])"
    using assms(2) c by (auto simp: counterView_def computeCounterDeltas_def restarted_iff Let_def split: prod.splits)
  then have "mget w path = Some x \<longleftrightarrow> noRestart b c \<and>
      (\<exists>a y. mget (rd_values b) path = Some a \<and> mget (rd_values c) path = Some y \<and> x = y - a)" for path x
    by (simp add: mget_deltaEntries [OF b(6)])
  with b start [OF b(5,1) reading_position [OF assms(1) b(1)]] show ?thesis unfolding measuredSince_def by blast
qed

text \<open>Since the opening of the page, without a reset.\<close>

definition openingReading :: "reading list \<Rightarrow> reading \<Rightarrow> bool" where
  "openingReading older b \<longleftrightarrow> older = [] \<or> \<not> noRestart (last older) b"

lemma since_opening:
  assumes "opening_ok rs st"
  shows "(dv_sinceOpen (counterView st) \<noteq> None \<longleftrightarrow> (\<exists>older p c. rs = older @ [p, c] \<and> noRestart p c)) \<and>
    (\<forall>w. dv_sinceOpen (counterView st) = Some w \<longrightarrow> measuredSince openingReading rs w)"
proof (intro conjI allI impI)
  have ok: "readings_ok rs st" using assms by (simp add: opening_ok_def)
  show "measuredSince openingReading rs w" if "dv_sinceOpen (counterView st) = Some w" for w
  proof (rule since_open_values [OF ok that])
    fix older b newer
    assume b: "de_baseline st = Some b" "rs = older @ b # newer" "length older = rd_id b"
    with assms obtain older' newer' where "rs = older' @ b # newer'" "older' = [] \<or> \<not> noRestart (last older') b" by (auto simp: opening_ok_def)
    moreover from this have "older' = older" using reading_position [OF ok, of older' b] b(2,3) by (simp add: append_eq_append_conv)
    ultimately show "openingReading older b" by (simp add: openingReading_def)
  qed
  show "dv_sinceOpen (counterView st) \<noteq> None \<longleftrightarrow> (\<exists>older p c. rs = older @ [p, c] \<and> noRestart p c)"
  proof (cases "rs = []")
    case True
    with ok show ?thesis by (simp add: readings_ok_def counterView_def)
  next
    case False
    then have cur: "de_current st = Some (last rs)" using ok by (simp add: readings_ok_def)
    obtain b where b: "de_baseline st = Some b" using ok False by (auto simp: readings_ok_def split: option.splits)
    with assms obtain older newer where o: "rs = older @ b # newer" "openingReading older b" "successively noRestart (b # newer)"
      by (auto simp: opening_ok_def openingReading_def)
    have shown: "dv_sinceOpen (counterView st) \<noteq> None \<longleftrightarrow> rd_id b \<noteq> rd_id (last rs)" by (simp add: counterView_def cur b Let_def)
    have "rd_id (last rs) = length (butlast rs)" using reading_position [OF ok, of "butlast rs" "last rs" "[]"] False by simp
    then have id: "rd_id b = rd_id (last rs) \<longleftrightarrow> newer = []" using reading_position [OF ok o(1)] o(1) by simp
    show ?thesis
    proof (cases newer rule: rev_cases)
      case Nil
      have "\<not> (rs = older' @ [p, c] \<and> noRestart p c)" for older' p c
        using o(1,2) Nil by (auto simp: openingReading_def append_eq_append_conv2 Cons_eq_append_conv)
      with shown id Nil show ?thesis by blast
    next
      case (snoc ns c)
      define q where "q = last (b # ns)"
      have "noRestart q c"
        using o(3) successively_append_iff [of noRestart "b # ns" "[c]"] by (simp add: snoc q_def)
      moreover have "rs = (older @ butlast (b # ns)) @ [q, c]"
        using append_butlast_last_id [of "b # ns"] o(1) snoc by (simp add: q_def del: append_butlast_last_id)
      ultimately show ?thesis using shown id snoc by blast
    qed
  qed
qed

lemma token_bounded: "de_token st \<le> de_resetToken st \<Longrightarrow> de_token (run counter_step st es) \<le> de_resetToken (run counter_step st es)"
proof (induction es arbitrary: st)
  case (Cons e es)
  then have "de_token (counter_step st e) \<le> de_resetToken (counter_step st e)"
    by (cases e) (auto simp: renderCounters_def takeReset_def takeReading_def Let_def split: option.split)
  from Cons.IH [OF this] show ?case by simp
qed simp

lemma reset_state:
  assumes "\<not> (truthy data \<and> 0 < t \<and> t \<noteq> de_atMs st)"
  shows "run counter_step st [ResetBaseline, Answer data t] = takeReset (st\<lparr>de_resetToken := Suc (de_resetToken st)\<rparr>)"
  using assms by (auto simp: renderCounters_def)

lemma reset_rendered:
  assumes "de_token st \<le> de_resetToken st" "\<not> (truthy data \<and> 0 < t \<and> t \<noteq> de_atMs st)"
  shows "dv_sinceOpen (counterView (run counter_step st [ResetBaseline, Answer data t])) = None"
  unfolding reset_state [OF assms(2)] using assms(1) by (auto simp: takeReset_def counterView_def Let_def split: option.split)

lemma reset_base:
  assumes "readings_ok rs st" "de_token st \<le> de_resetToken st" "\<not> (truthy data \<and> 0 < t \<and> t \<noteq> de_atMs st)"
  shows "base_from (length rs - 1) rs (run counter_step st [ResetBaseline, Answer data t])"
proof -
  have len: "length rs = de_next st" using assms(1) unfolding readings_ok_def by (metis length_map length_upt minus_nat.diff_0)
  show ?thesis
  proof (cases "rs = []")
    case True
    then show ?thesis by (simp add: base_from_def)
  next
    case False
    then have "de_current st = Some (last rs)" using assms(1) by (simp add: readings_ok_def)
    moreover have "rd_id (last rs) = length rs - 1" using reading_position [OF assms(1), of "butlast rs" "last rs" "[]"] False by simp
    ultimately show ?thesis unfolding reset_state [OF assms(3)] using len assms(2) by (simp add: base_from_def takeReset_def)
  qed
qed

text \<open>A reset that is rendered together with a new answer is lost: the reading takes over the raised token, so that the
  baseline stays where it was.\<close>

lemma reset_with_answer_lost:
  assumes "truthy data \<and> 0 < t \<and> t \<noteq> de_atMs st" "readCounterViewValues data = Some vs" "de_baseline st = Some b"
    "de_current st = Some c" "\<not> countersRestarted (Some (rd_values c)) vs"
  shows "de_baseline (run counter_step st [ResetBaseline, Answer data t]) = Some b"
  using assms by (simp add: renderCounters_def takeReading_def takeReset_def)

text \<open>C37. Rates are measured. In every history of answers and resets of the counters page: what it shows for the latest
  window is, for exactly the counters in both of the last two readings, their difference, and is shown exactly when no restart
  of the proxy is seen between the two; the rates are, for exactly those counters and only when time passed between the readings, that
  difference per second, to two decimals. What is shown since the page was opened is the difference to the first reading, or
  the first one after the last restart, and it is shown as soon as there is a second one; nothing is shown when the proxy was
  up for less time than at that reading. Once a reset is rendered, with no new answer, nothing is
  shown since the opening, and from then on only differences to a reading not older than the one on screen at the reset.\<close>

theorem counter_deltas_measured:
  fixes hist :: "counterEvent list" and data :: json and t :: number
  defines "rs \<equiv> taken 0 0 hist"
  defines "st \<equiv> run counter_step EMPTY_DELTAS hist"
  defines "v \<equiv> counterView st"
  shows "(\<forall>w. dv_window v = Some w \<longrightarrow> (\<exists>older p c. rs = older @ [p, c] \<and> noRestart p c \<and>
      (\<forall>path x. mget w path = Some x \<longleftrightarrow> rd_atMs p < rd_atMs c \<and>
        (\<exists>a b. mget (rd_values p) path = Some a \<and> mget (rd_values c) path = Some b \<and> x = b - a)))) \<and>
    (\<forall>w. dv_perSecond v = Some w \<longrightarrow> (\<exists>older p c. rs = older @ [p, c] \<and> noRestart p c \<and>
      (\<forall>path. mget w path \<noteq> None \<longleftrightarrow> rd_atMs p < rd_atMs c \<and> mget (rd_values p) path \<noteq> None \<and> mget (rd_values c) path \<noteq> None) \<and>
      (\<forall>path x a b. mget w path = Some x \<and> mget (rd_values p) path = Some a \<and> mget (rd_values c) path = Some b \<longrightarrow>
        \<bar>x - (b - a) * 1000 / (rd_atMs c - rd_atMs p)\<bar> \<le> 1 / 200))) \<and>
    (dv_window v \<noteq> None \<longleftrightarrow> (\<exists>older p c. rs = older @ [p, c] \<and> noRestart p c)) \<and>
    (dv_perSecond v \<noteq> None \<longleftrightarrow> (\<exists>older p c. rs = older @ [p, c] \<and> noRestart p c)) \<and>
    (\<forall>w. dv_sinceOpen v = Some w \<longrightarrow> measuredSince (\<lambda>older b. True) rs w) \<and>
    (ResetBaseline \<notin> set hist \<longrightarrow>
      (dv_sinceOpen v \<noteq> None \<longleftrightarrow> (\<exists>older p c. rs = older @ [p, c] \<and> noRestart p c)) \<and>
      (\<forall>w. dv_sinceOpen v = Some w \<longrightarrow> measuredSince openingReading rs w)) \<and>
    (\<not> (truthy data \<and> 0 < t \<and> t \<noteq> de_atMs st) \<longrightarrow>
      dv_sinceOpen (counterView (run counter_step st [ResetBaseline, Answer data t])) = None \<and>
      (\<forall>later w. dv_sinceOpen (counterView (run counter_step st ([ResetBaseline, Answer data t] @ later))) = Some w \<longrightarrow>
        measuredSince (\<lambda>older b. length rs \<le> Suc (length older)) (taken 0 0 (hist @ [ResetBaseline, Answer data t] @ later)) w))"
proof -
  have ok: "readings_ok rs st" unfolding rs_def st_def by (rule readings_reached)
  have token: "de_token st \<le> de_resetToken st" unfolding st_def by (rule token_bounded) (simp add: EMPTY_DELTAS_def)
  note reset = reset_rendered [OF token, of data t]
  have later: "measuredSince (\<lambda>older b. length rs \<le> Suc (length older)) (taken 0 0 (hist @ [ResetBaseline, Answer data t] @ later)) w"
    if "\<not> (truthy data \<and> 0 < t \<and> t \<noteq> de_atMs st)"
      "dv_sinceOpen (counterView (run counter_step st ([ResetBaseline, Answer data t] @ later))) = Some w" for later w
  proof (rule since_open_values [OF _ that(2)])
    show "readings_ok (taken 0 0 (hist @ [ResetBaseline, Answer data t] @ later)) (run counter_step st ([ResetBaseline, Answer data t] @ later))"
      using readings_reached [of "hist @ [ResetBaseline, Answer data t] @ later"] by (simp only: st_def run_append)
    fix older b newer
    assume "de_baseline (run counter_step st ([ResetBaseline, Answer data t] @ later)) = Some b" "length older = rd_id b"
    with base_from_run [OF reset_base [OF ok token that(1)], of later] show "length rs \<le> Suc (length older)"
      by (auto simp: base_from_def run_append)
  qed
  have open': "ResetBaseline \<notin> set hist \<Longrightarrow> opening_ok rs st" unfolding rs_def st_def by (rule opening_reached)
  show ?thesis
    unfolding v_def
  proof (intro conjI, goal_cases)
    case 1
    then show ?case using window_values [OF ok] by blast
  next
    case 2
    then show ?case using rate_values [OF ok] by blast
  next
    case 3
    then show ?case using window_shown [OF ok] by blast
  next
    case 4
    then show ?case using window_shown [OF ok] by blast
  next
    case 5
    then show ?case using since_open_values [OF ok, of _ "\<lambda>older b. True"] by blast
  next
    case 6
    then show ?case using since_opening [OF open'] by blast
  next
    case 7
    show ?case by (intro impI conjI allI) (assumption | rule reset later)+
  qed
qed

definition sampleDump :: "number \<Rightarrow> number \<Rightarrow> json" where
  "sampleDump up total' = JObj [(''core'', JObj [(''uptime_seconds'', JNum up), (''connections_total'', JNum total')]), (''middle_proxy'', JObj [])]"

text \<open>Two answers ten seconds apart: five more connections, half a connection per second.\<close>

theorem counter_deltas_measured_witness:
  "let v = counterView (run counter_step EMPTY_DELTAS [Answer (sampleDump 50 7) 1000, Answer (sampleDump 60 12) 11000])
   in map_option (\<lambda>w. mget w ''core.connections_total'') (dv_window v) = Some (Some 5)"
proof -
  let ?es = "[Answer (sampleDump 50 7) 1000, Answer (sampleDump 60 12) 11000]"
  let ?st = "run counter_step EMPTY_DELTAS ?es"
  have vals: "readCounterViewValues (sampleDump u n) = Some [(''core.uptime_seconds'', u), (''core.connections_total'', n)]" for u n
    by (simp add: readCounterViewValues_def readCounterValues_def sampleDump_def COUNTER_GROUP_PATHS_def BREAKDOWNS_def nullish_def
        assignAll_def groupPath_def List.map_filter_def)
  have truthy: "truthy (sampleDump u n)" for u n by (simp add: sampleDump_def)
  have rs: "taken 0 0 ?es = [\<lparr>rd_id = 0, rd_values = [(''core.uptime_seconds'', 50), (''core.connections_total'', 7)], rd_atMs = 1000\<rparr>,
      \<lparr>rd_id = 1, rd_values = [(''core.uptime_seconds'', 60), (''core.connections_total'', 12)], rd_atMs = 11000\<rparr>]"
    by (simp add: vals truthy)
  have "de_previous ?st \<noteq> None" "de_current ?st \<noteq> None"
    by (simp_all add: renderCounters_def vals truthy takeReset_def takeReading_def EMPTY_DELTAS_def countersRestarted_def COUNTER_UPTIME_PATH_def)
  then obtain w where w: "dv_window (counterView ?st) = Some w" by (auto simp: counterView_def Let_def)
  from counter_deltas_measured [of ?es, THEN conjunct1, THEN spec, THEN mp, OF w] obtain older p c where
    pc: "taken 0 0 ?es = older @ [p, c]" "\<forall>path x. mget w path = Some x \<longleftrightarrow> rd_atMs p < rd_atMs c \<and>
        (\<exists>a b. mget (rd_values p) path = Some a \<and> mget (rd_values c) path = Some b \<and> x = b - a)" by blast
  from pc(1) have "p = \<lparr>rd_id = 0, rd_values = [(''core.uptime_seconds'', 50), (''core.connections_total'', 7)], rd_atMs = 1000\<rparr>"
    "c = \<lparr>rd_id = 1, rd_values = [(''core.uptime_seconds'', 60), (''core.connections_total'', 12)], rd_atMs = 11000\<rparr>"
    unfolding rs by (auto simp: Cons_eq_append_conv)
  with pc(2) have "mget w ''core.connections_total'' = Some 5" by simp
  with w show ?thesis by simp
qed

end
