(* ===== verification/Api_Client.thy ===== *)
theory Api_Client
  imports Access
begin

text \<open>
  The response interceptor of the API client, \<open>web/src/lib/api/client.ts\<close>: an answer 401 in the middle of a session sends the
  app to the login page, once. The pathname of a request is the one the browser's URL parser gives; \<open>Navigated\<close> is
  the browser arriving at another address. A navigation is recorded with the address it will return to.
\<close>

record sessionGuard =
  sg_basePath :: "string option"
  sg_redirecting :: bool
  sg_pathname :: string
  sg_search :: string
  sg_hasRouter :: bool
  sg_navigations :: "string list"
  sg_meRemoved :: nat
  sg_geographyRemoved :: nat

definition EXCLUDED_PATHS :: "string option \<Rightarrow> string list" where
  "EXCLUDED_PATHS basePath = map (withBasePath basePath) [''/api/auth/login'', ''/api/auth/webauthn/login/finish'', ''/api/auth/me'']"

definition pathEndsWith :: "string \<Rightarrow> string \<Rightarrow> bool" where
  "pathEndsWith s e \<longleftrightarrow> suffix e s"

text \<open>\<open>response.ok\<close>.\<close>

definition responseOk :: "nat \<Rightarrow> bool" where
  "responseOk status \<longleftrightarrow> 200 \<le> status \<and> status \<le> 299"

definition onResponse :: "nat \<Rightarrow> string \<Rightarrow> sessionGuard \<Rightarrow> sessionGuard" where
  "onResponse status requestPath st =
    (if status \<noteq> 401 then (if responseOk status then st\<lparr>sg_redirecting := False\<rparr> else st)
     else let st1 = st\<lparr>sg_geographyRemoved := Suc (sg_geographyRemoved st)\<rparr>
          in if list_ex (pathEndsWith requestPath) (EXCLUDED_PATHS (sg_basePath st)) then st1
             else if sg_pathname st = withBasePath (sg_basePath st) ''/login'' then st1
             else if sg_redirecting st then st1
             else let st2 = st1\<lparr>sg_redirecting := True, sg_meRemoved := Suc (sg_meRemoved st)\<rparr>
                  in if sg_hasRouter st then st2\<lparr>sg_navigations := sg_navigations st @ [sg_pathname st @ sg_search st]\<rparr> else st2)"

datatype guardEvent = ApiResponse nat string | Navigated string string | RouterReady

fun guard_step :: "sessionGuard \<Rightarrow> guardEvent \<Rightarrow> sessionGuard" where
  "guard_step st (ApiResponse status path) = onResponse status path st"
| "guard_step st (Navigated pathname search) = st\<lparr>sg_pathname := pathname, sg_search := search\<rparr>"
| "guard_step st RouterReady = st\<lparr>sg_hasRouter := True\<rparr>"

definition freshGuard :: "string option \<Rightarrow> string \<Rightarrow> string \<Rightarrow> sessionGuard" where
  "freshGuard basePath pathname search = \<lparr>sg_basePath = basePath, sg_redirecting = False, sg_pathname = pathname, sg_search = search,
     sg_hasRouter = False, sg_navigations = [], sg_meRemoved = 0, sg_geographyRemoved = 0\<rparr>"

subsection \<open>Once per session\<close>

fun okResponse :: "guardEvent \<Rightarrow> bool" where
  "okResponse (ApiResponse status path) = responseOk status"
| "okResponse _ = False"

fun expiredAnswer :: "guardEvent \<Rightarrow> bool" where
  "expiredAnswer (ApiResponse status path) = (status = 401)"
| "expiredAnswer _ = False"

lemma base_step [simp]: "sg_basePath (guard_step st e) = sg_basePath st"
  by (cases e) (simp_all add: onResponse_def Let_def)

lemma base_run [simp]: "sg_basePath (run guard_step st es) = sg_basePath st"
  by (induction es arbitrary: st) simp_all

lemma redirecting_kept:
  assumes "sg_redirecting st" "\<not> okResponse e"
  shows "sg_redirecting (guard_step st e) \<and> sg_navigations (guard_step st e) = sg_navigations st \<and> sg_meRemoved (guard_step st e) = sg_meRemoved st"
  using assms by (cases e) (auto simp: onResponse_def Let_def)

lemma redirecting_kept_run:
  assumes "sg_redirecting st" "\<not> list_ex okResponse es"
  shows "sg_redirecting (run guard_step st es) \<and> sg_navigations (run guard_step st es) = sg_navigations st \<and>
    sg_meRemoved (run guard_step st es) = sg_meRemoved st"
  using assms by (induction es arbitrary: st) (simp_all add: redirecting_kept)

lemma guard_acts:
  assumes "sg_meRemoved (guard_step st e) \<noteq> sg_meRemoved st \<or> sg_navigations (guard_step st e) \<noteq> sg_navigations st"
  shows "\<not> sg_redirecting st \<and> sg_redirecting (guard_step st e) \<and> expiredAnswer e \<and> \<not> okResponse e \<and>
    sg_meRemoved (guard_step st e) = Suc (sg_meRemoved st) \<and> length (sg_navigations (guard_step st e)) \<le> Suc (length (sg_navigations st))"
  using assms by (cases e) (auto simp: onResponse_def responseOk_def Let_def split: if_splits)

lemma one_redirect:
  assumes "\<not> list_ex okResponse es"
  shows "sg_meRemoved (run guard_step st es) \<le> Suc (sg_meRemoved st) \<and>
    length (sg_navigations (run guard_step st es)) \<le> Suc (length (sg_navigations st))"
  using assms
proof (induction es arbitrary: st)
  case (Cons e es)
  show ?case
  proof (cases "sg_meRemoved (guard_step st e) = sg_meRemoved st \<and> sg_navigations (guard_step st e) = sg_navigations st")
    case True
    with Cons.IH [of "guard_step st e"] Cons.prems show ?thesis by simp
  next
    case False
    with guard_acts [of st e] redirecting_kept_run [of "guard_step st e" es] Cons.prems show ?thesis by auto
  qed
qed simp

lemma geography_counts:
  "sg_geographyRemoved (run guard_step st es) = sg_geographyRemoved st + length (filter expiredAnswer es)"
proof (induction es arbitrary: st)
  case (Cons e es)
  have "sg_geographyRemoved (guard_step st e) = (if expiredAnswer e then Suc (sg_geographyRemoved st) else sg_geographyRemoved st)"
    by (cases e) (simp_all add: onResponse_def Let_def)
  then show ?case by (simp add: Cons.IH)
qed simp

text \<open>A burst: every answer in it is a 401.\<close>

definition burst :: "guardEvent list \<Rightarrow> bool" where
  "burst es \<longleftrightarrow> (\<forall>status path. ApiResponse status path \<in> set es \<longrightarrow> status = 401)"

lemma burst_not_ok: "burst es \<Longrightarrow> \<not> list_ex okResponse es"
  unfolding burst_def list_ex_iff by (fastforce simp: responseOk_def elim!: okResponse.elims)

text \<open>Only a successful answer arms the redirect again; any other answer leaves it as it was. The comment in the code says
  that the next answer that is not a 401 does, so for an answer such as 500 between two answers 401 the two differ; the
  property below is about what both say.\<close>

lemma error_answer_keeps_redirecting: "status \<noteq> 401 \<Longrightarrow> \<not> responseOk status \<Longrightarrow> onResponse status path st = st"
  by (simp add: onResponse_def)

text \<open>C16. An expired session sends the app to the login page once. In every history of answers and navigations: the app is sent to
  the login page only by an answer 401 to a request other than the login's own, away from the login page, and
  the address to return to is the one shown then; in a burst of answers that are all 401, however many and with whatever
  navigations in between, it is sent there at most once, and the cached account dropped at most once; the first one does send
  it there; a successful answer re-arms it, so that the next expired session is sent there again; and every
  answer 401 drops the cached locations.\<close>

theorem session_expiry_redirects_once:
  fixes base :: "string option" and pathname search :: string and before after :: "guardEvent list" and e :: guardEvent
  defines "st \<equiv> run guard_step (freshGuard base pathname search) before"
  shows "(sg_navigations (guard_step st e) \<noteq> sg_navigations st \<longrightarrow>
      (\<exists>path. e = ApiResponse 401 path \<and> (\<forall>p\<in>set (EXCLUDED_PATHS base). \<not> suffix p path) \<and> sg_pathname st \<noteq> withBasePath base ''/login'' \<and>
        \<not> sg_redirecting st \<and> sg_navigations (guard_step st e) = sg_navigations st @ [sg_pathname st @ sg_search st])) \<and>
    (burst after \<longrightarrow>
      length (sg_navigations (run guard_step st after)) \<le> Suc (length (sg_navigations st)) \<and>
      sg_meRemoved (run guard_step st after) \<le> Suc (sg_meRemoved st)) \<and>
    (\<forall>path. \<not> sg_redirecting st \<and> sg_hasRouter st \<and> sg_pathname st \<noteq> withBasePath base ''/login'' \<and>
      (\<forall>p\<in>set (EXCLUDED_PATHS base). \<not> suffix p path) \<longrightarrow>
      sg_navigations (guard_step st (ApiResponse 401 path)) = sg_navigations st @ [sg_pathname st @ sg_search st]) \<and>
    (\<forall>status okPath path. 200 \<le> status \<and> status \<le> 299 \<and> sg_hasRouter st \<and> sg_pathname st \<noteq> withBasePath base ''/login'' \<and>
      (\<forall>p\<in>set (EXCLUDED_PATHS base). \<not> suffix p path) \<longrightarrow>
      sg_navigations (run guard_step st [ApiResponse status okPath, ApiResponse 401 path]) = sg_navigations st @ [sg_pathname st @ sg_search st]) \<and>
    sg_geographyRemoved (run guard_step st after) = length (filter expiredAnswer (before @ after))"
proof -
  have base: "sg_basePath st = base" by (simp add: st_def) (simp add: freshGuard_def)
  have geo: "sg_geographyRemoved (run guard_step st after) = length (filter expiredAnswer (before @ after))"
    unfolding st_def geography_counts by (simp add: freshGuard_def)
  have excl: "list_ex (pathEndsWith path) (EXCLUDED_PATHS base) \<longleftrightarrow> (\<exists>p\<in>set (EXCLUDED_PATHS base). suffix p path)" for path
    by (simp add: list_ex_iff pathEndsWith_def)
  have sent: "\<exists>path. e = ApiResponse 401 path \<and> (\<forall>p\<in>set (EXCLUDED_PATHS base). \<not> suffix p path) \<and> sg_pathname st \<noteq> withBasePath base ''/login'' \<and>
        \<not> sg_redirecting st \<and> sg_navigations (guard_step st e) = sg_navigations st @ [sg_pathname st @ sg_search st]"
    if "sg_navigations (guard_step st e) \<noteq> sg_navigations st"
    using that by (cases e) (auto simp: onResponse_def Let_def base excl split: if_splits)
  have first: "sg_navigations (guard_step st (ApiResponse 401 path)) = sg_navigations st @ [sg_pathname st @ sg_search st]"
    if "\<not> sg_redirecting st" "sg_hasRouter st" "sg_pathname st \<noteq> withBasePath base ''/login''" "\<forall>p\<in>set (EXCLUDED_PATHS base). \<not> suffix p path" for path
    using that by (simp add: onResponse_def Let_def base excl)
  have again: "sg_navigations (run guard_step st [ApiResponse status okPath, ApiResponse 401 path]) = sg_navigations st @ [sg_pathname st @ sg_search st]"
    if "200 \<le> status" "status \<le> 299" "sg_hasRouter st" "sg_pathname st \<noteq> withBasePath base ''/login''"
      "\<forall>p\<in>set (EXCLUDED_PATHS base). \<not> suffix p path" for status okPath path
    using that by (simp add: onResponse_def responseOk_def Let_def base excl)
  show ?thesis using sent first again geo one_redirect [of after st] burst_not_ok [of after] by blast
qed

text \<open>A burst of three answers 401 while a page is open.\<close>

theorem session_expiry_redirects_once_witness:
  "sg_navigations (run guard_step (freshGuard None ''/people'' ''?q=a'') [RouterReady, ApiResponse 401 ''/api/users'']) = [''/people?q=a''] \<and>
   length (sg_navigations (run guard_step (run guard_step (freshGuard None ''/people'' ''?q=a'') [RouterReady])
     [ApiResponse 401 ''/api/users'', ApiResponse 401 ''/api/stats'', ApiResponse 401 ''/api/me2''])) \<le> 1"
proof -
  let ?st = "run guard_step (freshGuard None ''/people'' ''?q=a'') [RouterReady]"
  let ?es = "[ApiResponse 401 ''/api/users'', ApiResponse 401 ''/api/stats'', ApiResponse 401 ''/api/me2'']"
  note once = session_expiry_redirects_once [of None "''/people''" "''?q=a''" "[RouterReady]" "RouterReady" ?es]
  have st: "\<not> sg_redirecting ?st" "sg_hasRouter ?st" "sg_pathname ?st = ''/people''" "sg_search ?st = ''?q=a''" "sg_navigations ?st = []"
    by (simp_all add: freshGuard_def)
  have ex: "\<forall>p\<in>set (EXCLUDED_PATHS None). \<not> suffix p ''/api/users''"
    by (simp add: EXCLUDED_PATHS_def withBasePath_def startsWith_def suffix_def)
  have "burst ?es" by (simp add: burst_def)
  with once st(5) have "length (sg_navigations (run guard_step ?st ?es)) \<le> 1" by simp
  moreover have "sg_navigations (guard_step ?st (ApiResponse 401 ''/api/users'')) = [''/people?q=a'']"
    using once st ex by (simp add: withBasePath_def startsWith_def)
  ultimately show ?thesis by simp
qed

end
