(* ===== verification/Overview.thy ===== *)
theory Overview
  imports User_Forms Problems
begin

text \<open>
  The cards of the overview, under \<open>web/src/pulse/widgets/\<close>: data centres (\<open>dc.helpers.ts\<close>), upstreams
  (\<open>upstreams.helpers.ts\<close>), quotas and expiries (\<open>quotas.helpers.ts\<close>), clients that need attention
  (\<open>onlineNow.helpers.ts\<close>) and the health banner (\<open>healthHero.helpers.ts\<close>); and the merging of the two upstream payloads and the route
  mode of the diagnostic pages (\<open>pulse/diag/upstreams.helpers.ts\<close>, \<open>me.helpers.ts\<close>, \<open>events.helpers.ts\<close>). A text that may be the
  dash for a missing value is an option, with \<open>None\<close> for the dash.
\<close>

subsection \<open>Data centres\<close>

datatype dcResult = DcLoading | DcDisabled "string option" | DcOk "dcStatus list"

definition computeDc :: "dcStatusData option \<Rightarrow> dcResult" where
  "computeDc dcs = (case dcs of None \<Rightarrow> DcLoading
     | Some d \<Rightarrow> if \<not> dsd_middle_proxy_enabled d then DcDisabled (dsd_reason d) else DcOk (dsd_dcs d))"

definition dcCoverageState :: "dcStatus \<Rightarrow> meTone" where
  "dcCoverageState dc = (if ds_alive_writers dc = 0 then ToneError else if ds_coverage_pct dc < 100 then ToneWarn else ToneOk)"

definition DC_RTT_WARN_MS :: number where
  "DC_RTT_WARN_MS = 150"

definition dcRttWarn :: "number option \<Rightarrow> bool" where
  "dcRttWarn rttMs = (case rttMs of None \<Rightarrow> False | Some r \<Rightarrow> DC_RTT_WARN_MS < r)"

definition dcRouteState :: "dcStatus \<Rightarrow> meTone" where
  "dcRouteState dc = (if dcCoverageState dc \<noteq> ToneOk then dcCoverageState dc else if dcRttWarn (ds_rtt_ms dc) then ToneWarn else ToneOk)"

definition isMediaDc :: "dcStatus \<Rightarrow> bool" where
  "isMediaDc dc \<longleftrightarrow> ds_dc dc < 0"

definition FAR_DC_MAGNITUDE :: number where
  "FAR_DC_MAGNITUDE = 100"

record dcRouteGroup =
  dg_id :: number
  dg_main :: "dcStatus option"
  dg_media :: "dcStatus option"

definition groupDc :: "dcStatus \<Rightarrow> (number, dcRouteGroup) js_map \<Rightarrow> (number, dcRouteGroup) js_map" where
  "groupDc dc groups =
    (let id' = \<bar>ds_dc dc\<bar>; g = (case mget groups id' of Some g \<Rightarrow> g | None \<Rightarrow> \<lparr>dg_id = id', dg_main = None, dg_media = None\<rparr>)
     in mset_key groups id' (if ds_dc dc < 0 then g\<lparr>dg_media := Some dc\<rparr> else g\<lparr>dg_main := Some dc\<rparr>))"

definition compareGroups :: "dcRouteGroup \<Rightarrow> dcRouteGroup \<Rightarrow> number" where
  "compareGroups a b =
    (let far = of_bool (FAR_DC_MAGNITUDE \<le> dg_id a) - of_bool (FAR_DC_MAGNITUDE \<le> dg_id b)
     in if far \<noteq> 0 then far else dg_id a - dg_id b)"

definition dcRouteGroups :: "dcStatus list \<Rightarrow> dcRouteGroup list" where
  "dcRouteGroups dcs = sortBy compareGroups (map snd (fold groupDc dcs []))"

definition dcKindLabel :: "dcStatus \<Rightarrow> dict \<Rightarrow> string option" where
  "dcKindLabel dc s = (if isMediaDc dc then Some (fill (di_text s ''pulse.dc.mediaGroup'') [(''dc'', formatNumber s \<bar>ds_dc dc\<bar>)]) else None)"

record dcOverview =
  do_total :: nat
  do_covered :: nat
  do_writersAlive :: number
  do_writersRequired :: number
  do_p95RttMs :: "number option"
  do_attention :: "dcStatus list"

fun coverageSeverity :: "meTone \<Rightarrow> number" where
  "coverageSeverity ToneError = 2"
| "coverageSeverity ToneWarn = 1"
| "coverageSeverity ToneOk = 0"

definition rttOr :: "dcStatus \<Rightarrow> number" where
  "rttOr dc = (case ds_rtt_ms dc of Some r \<Rightarrow> r | None \<Rightarrow> -1)"

definition compareDcs :: "dcStatus \<Rightarrow> dcStatus \<Rightarrow> number" where
  "compareDcs a b =
    (let severity = coverageSeverity (dcCoverageState b) - coverageSeverity (dcCoverageState a)
     in if severity \<noteq> 0 then severity else rttOr b - rttOr a)"

definition needsAttention :: "dcStatus \<Rightarrow> bool" where
  "needsAttention dc \<longleftrightarrow> dcCoverageState dc \<noteq> ToneOk \<or> dcRttWarn (ds_rtt_ms dc)"

definition computeDcOverview :: "dcStatus list \<Rightarrow> dcOverview" where
  "computeDcOverview dcs =
    (let rtts = sortBy (\<lambda>a b. a - b) (List.map_filter ds_rtt_ms dcs);
         p95Index = nat (max 0 (\<lceil>of_nat (length rtts) * 95 / 100 :: number\<rceil> - 1))
     in \<lparr>do_total = length dcs, do_covered = length (filter (\<lambda>dc. dcCoverageState dc = ToneOk) dcs),
         do_writersAlive = sum_list (map ds_alive_writers dcs), do_writersRequired = sum_list (map ds_required_writers dcs),
         do_p95RttMs = (if rtts \<noteq> [] then Some (rtts ! p95Index) else None),
         do_attention = take 3 (sortBy compareDcs (filter needsAttention dcs))\<rparr>)"

subsection \<open>Upstreams\<close>

record upstreamsOk =
  uo_upstreams :: "upstreamStatus list"
  uo_healthyTotal :: number
  uo_unhealthyTotal :: number

datatype upstreamsResult = UpLoading | UpDisabled "string option" | UpOk upstreamsOk

definition computeUpstreams :: "upstreamsData option \<Rightarrow> upstreamsResult" where
  "computeUpstreams data =
    (case data of
       None \<Rightarrow> UpLoading
     | Some d \<Rightarrow>
         if \<not> ud_enabled d then UpDisabled (ud_reason d)
         else let upstreams = (case ud_upstreams d of Some us \<Rightarrow> us | None \<Rightarrow> [])
              in UpOk \<lparr>uo_upstreams = upstreams,
                   uo_healthyTotal = (case ud_summary d of Some m \<Rightarrow> usu_healthy_total m | None \<Rightarrow> of_nat (length (filter us_healthy upstreams))),
                   uo_unhealthyTotal = (case ud_summary d of Some m \<Rightarrow> usu_unhealthy_total m | None \<Rightarrow> of_nat (length (filter (\<lambda>u. \<not> us_healthy u) upstreams)))\<rparr>)"

definition upstreamQualitySuccessRate :: "runtimeUpstreamQualityData option \<Rightarrow> number option" where
  "upstreamQualitySuccessRate quality =
    (case quality of
       None \<Rightarrow> None
     | Some q \<Rightarrow>
         if \<not> ruqda_enabled q \<or> ruqc_connect_attempt_total (ruqda_counters q) = 0 then None
         else Some (of_int (js_round (ruqc_connect_success_total (ruqda_counters q) / ruqc_connect_attempt_total (ruqda_counters q) * 100))))"

type_synonym kindCount = "string \<times> number"

definition countKind :: "upstreamStatus \<Rightarrow> (string, number) js_map \<Rightarrow> (string, number) js_map" where
  "countKind u counted = mset_key counted (us_route_kind u) ((case mget counted (us_route_kind u) of Some n \<Rightarrow> n | None \<Rightarrow> 0) + 1)"

definition upstreamKinds :: "upstreamSummary option \<Rightarrow> upstreamStatus list \<Rightarrow> kindCount list" where
  "upstreamKinds summary upstreams =
    (case summary of
       Some m \<Rightarrow> filter (\<lambda>k. 0 < snd k) [(''Direct'', usu_direct_total m), (''SOCKS4'', usu_socks4_total m),
         (''SOCKS5'', usu_socks5_total m), (''Shadowsocks'', usu_shadowsocks_total m)]
     | None \<Rightarrow> fold countKind upstreams [])"

definition upstreamMeanLatency :: "upstreamStatus list \<Rightarrow> number option" where
  "upstreamMeanLatency upstreams =
    (let measured = List.map_filter us_effective_latency_ms upstreams
     in if measured = [] then None else Some (sum_list measured / of_nat (length measured)))"

datatype cardTone = CardOk | CardMuted | CardError

record upstreamsCardView =
  uc_directOnly :: bool
  uc_healthy :: number
  uc_total :: number
  uc_tone :: cardTone
  uc_kinds :: "kindCount list"
  uc_latencyMs :: "number option"

definition computeUpstreamsCard :: "upstreamsOk \<Rightarrow> upstreamSummary option \<Rightarrow> upstreamsCardView" where
  "computeUpstreamsCard result summary =
    (let total' = (case summary of Some m \<Rightarrow> usu_configured_total m | None \<Rightarrow> uo_healthyTotal result + uo_unhealthyTotal result);
         kinds = upstreamKinds summary (uo_upstreams result)
     in \<lparr>uc_directOnly = (total' = 1 \<and> length kinds = 1 \<and> fst (hd kinds) = ''Direct''), uc_healthy = uo_healthyTotal result, uc_total = total',
         uc_tone = (if total' \<le> uo_healthyTotal result \<and> 0 < total' then CardOk else if total' = 0 then CardMuted else CardError),
         uc_kinds = kinds, uc_latencyMs = upstreamMeanLatency (uo_upstreams result)\<rparr>)"

subsection \<open>Quotas and expiries\<close>

definition QUOTA_WATCH_THRESHOLD :: number where
  "QUOTA_WATCH_THRESHOLD = 8 / 10"

definition EXPIRY_WATCH_MS :: number where
  "EXPIRY_WATCH_MS = 3 * 24 * 60 * 60 * 1000"

definition QUOTA_WATCH_LIMIT :: int where
  "QUOTA_WATCH_LIMIT = 6"

record quotaWatchRow =
  qw_username :: string
  qw_quotaFill :: "number option"
  qw_expiresInMs :: "number option"
  qw_urgency :: number

definition expiryAt :: "(number \<Rightarrow> number) \<Rightarrow> usersTopicUser \<Rightarrow> number option" where
  "expiryAt zone user = (case utu_expiration_rfc3339 user of None \<Rightarrow> None | Some e \<Rightarrow> if e = [] then None else date_parse zone e)"

definition quotaEntryOf :: "(string, usersTopicQuotaEntry) js_map option \<Rightarrow> usersTopicUser \<Rightarrow> usersTopicQuotaEntry option" where
  "quotaEntryOf quota user = Option.bind quota (\<lambda>q. mget q (utu_username user))"

definition quotaFillOf :: "usersTopicQuotaEntry option \<Rightarrow> usersTopicUser \<Rightarrow> number option" where
  "quotaFillOf entry user =
    (let quota = getUserQuota user entry
     in case uq_usedBytes quota of
          None \<Rightarrow> None
        | Some used \<Rightarrow> if isUnlimitedQuota (uq_limitBytes quota) then None else Some (quotaRatio used (uq_limitBytes quota)))"

definition watchRow :: "(number \<Rightarrow> number) \<Rightarrow> (string, usersTopicQuotaEntry) js_map option \<Rightarrow> number \<Rightarrow> usersTopicUser \<Rightarrow> quotaWatchRow option" where
  "watchRow zone quota nowMs user =
    (if \<not> utu_enabled user then None
     else let quotaFill = quotaFillOf (quotaEntryOf quota user) user;
              expiresInMs = map_option (\<lambda>t. t - nowMs) (expiryAt zone user);
              quotaUrgency = (case quotaFill of Some f \<Rightarrow> if QUOTA_WATCH_THRESHOLD \<le> f then Some f else None | None \<Rightarrow> None);
              expiryUrgency = (case expiresInMs of
                  Some ms \<Rightarrow> if ms \<le> EXPIRY_WATCH_MS then Some (1 - max ms 0 / EXPIRY_WATCH_MS) else None | None \<Rightarrow> None)
          in if quotaUrgency = None \<and> expiryUrgency = None then None
             else Some \<lparr>qw_username = utu_username user, qw_quotaFill = quotaFill,
               qw_expiresInMs = (if expiryUrgency = None then None else expiresInMs),
               qw_urgency = max (case quotaUrgency of Some u \<Rightarrow> u | None \<Rightarrow> 0) (case expiryUrgency of Some u \<Rightarrow> u | None \<Rightarrow> 0)\<rparr>)"

definition compareWatch :: "(string \<Rightarrow> string \<Rightarrow> number) \<Rightarrow> quotaWatchRow \<Rightarrow> quotaWatchRow \<Rightarrow> number" where
  "compareWatch collate a b =
    (if qw_urgency b - qw_urgency a \<noteq> 0 then qw_urgency b - qw_urgency a else collate (qw_username a) (qw_username b))"

definition computeQuotaWatch ::
  "(number \<Rightarrow> number) \<Rightarrow> (string \<Rightarrow> string \<Rightarrow> number) \<Rightarrow> usersTopic option \<Rightarrow> number \<Rightarrow> int \<Rightarrow> quotaWatchRow list" where
  "computeQuotaWatch zone collate topic nowMs limit =
    (case topic of
       None \<Rightarrow> []
     | Some t \<Rightarrow> take (nat (max 0 limit)) (sortBy (compareWatch collate) (List.map_filter (watchRow zone (ut_quota t) nowMs) (ut_users t))))"

subsection \<open>Clients that need attention\<close>

datatype attentionSeverity = SevError | SevWarn
datatype limitKind = KQuota | KConnections | KIps

datatype attentionSignal =
    LimitSignal limitKind attentionSeverity number number number
  | ExpirationSignal attentionSeverity number bool
  | RuntimeSignal

fun signalSeverity :: "attentionSignal \<Rightarrow> attentionSeverity" where
  "signalSeverity (LimitSignal k sev current limit r) = sev"
| "signalSeverity (ExpirationSignal sev t expired) = sev"
| "signalSeverity RuntimeSignal = SevWarn"

definition CLIENT_ATTENTION_LIMIT :: int where
  "CLIENT_ATTENTION_LIMIT = 5"

definition CLIENT_LIMIT_WARN_RATIO :: number where
  "CLIENT_LIMIT_WARN_RATIO = 8 / 10"

definition CLIENT_EXPIRY_WARN_MS :: number where
  "CLIENT_EXPIRY_WARN_MS = 7 * 24 * 60 * 60 * 1000"

definition ratioSignal :: "limitKind \<Rightarrow> number \<Rightarrow> number \<Rightarrow> attentionSignal option" where
  "ratioSignal kind current limit =
    (if limit \<le> 0 then None
     else let r = current / limit
          in if r < CLIENT_LIMIT_WARN_RATIO then None
             else Some (LimitSignal kind (if 1 \<le> r then SevError else SevWarn) current limit (of_int (js_round (r * 100)))))"

fun KIND_PRIORITY :: "attentionSignal \<Rightarrow> number" where
  "KIND_PRIORITY (ExpirationSignal sev t expired) = 50"
| "KIND_PRIORITY (LimitSignal KQuota sev c l r) = 40"
| "KIND_PRIORITY (LimitSignal KConnections sev c l r) = 30"
| "KIND_PRIORITY (LimitSignal KIps sev c l r) = 20"
| "KIND_PRIORITY RuntimeSignal = 10"

fun signalRatio :: "attentionSignal \<Rightarrow> number" where
  "signalRatio (LimitSignal k sev c l r) = r"
| "signalRatio _ = 0"

definition signalScore :: "attentionSignal \<Rightarrow> number" where
  "signalScore signal = (if signalSeverity signal = SevError then 1000 else 0) + KIND_PRIORITY signal + signalRatio signal"

definition expirationSignal :: "(number \<Rightarrow> number) \<Rightarrow> usersTopicUser \<Rightarrow> number \<Rightarrow> attentionSignal option" where
  "expirationSignal zone user nowMs =
    (if \<not> utu_enabled user then None
     else case expiryAt zone user of
            None \<Rightarrow> None
          | Some expiresAt \<Rightarrow>
              if expiresAt - nowMs \<le> CLIENT_EXPIRY_WARN_MS
              then Some (ExpirationSignal (if expiresAt \<le> nowMs then SevError else SevWarn) expiresAt (expiresAt \<le> nowMs)) else None)"

definition userSignals :: "(number \<Rightarrow> number) \<Rightarrow> usersTopicUser \<Rightarrow> usersTopicQuotaEntry option \<Rightarrow> number \<Rightarrow> attentionSignal list" where
  "userSignals zone user quota nowMs =
    List.map_filter id
      [expirationSignal zone user nowMs,
       if utu_enabled user \<and> \<not> utu_in_runtime user then Some RuntimeSignal else None,
       Option.bind quota (\<lambda>q. ratioSignal KQuota (utqe_used_bytes q) (utqe_data_quota_bytes q)),
       Option.bind (utu_max_tcp_conns user) (ratioSignal KConnections (utu_current_connections user)),
       Option.bind (utu_max_unique_ips user) (ratioSignal KIps (max (utu_active_unique_ips user) (utu_recent_unique_ips user)))]"

definition signalsForUser :: "(number \<Rightarrow> number) \<Rightarrow> usersTopicUser \<Rightarrow> usersTopicQuotaEntry option \<Rightarrow> number \<Rightarrow> attentionSignal list" where
  "signalsForUser zone user quota nowMs = sortBy (\<lambda>a b. signalScore b - signalScore a) (userSignals zone user quota nowMs)"

record attentionRow =
  ar_username :: string
  ar_severity :: attentionSeverity
  ar_signals :: "attentionSignal list"

record clientConcentration =
  cc_username :: string
  cc_connections :: number
  cc_sharePct :: number

record attentionView =
  av_rows :: "attentionRow list"
  av_count :: nat
  av_top :: "clientConcentration option"

definition attentionRowOf :: "(number \<Rightarrow> number) \<Rightarrow> (string, usersTopicQuotaEntry) js_map option \<Rightarrow> number \<Rightarrow> usersTopicUser \<Rightarrow> attentionRow option" where
  "attentionRowOf zone quota nowMs user =
    (let signals = signalsForUser zone user (quotaEntryOf quota user) nowMs
     in if signals = [] then None
        else Some \<lparr>ar_username = utu_username user, ar_severity = signalSeverity (hd signals), ar_signals = signals\<rparr>)"

definition rowScore :: "attentionRow \<Rightarrow> number" where
  "rowScore row = signalScore (hd (ar_signals row))"

definition compareAttention :: "(string \<Rightarrow> string \<Rightarrow> number) \<Rightarrow> attentionRow \<Rightarrow> attentionRow \<Rightarrow> number" where
  "compareAttention collate a b =
    (if rowScore b - rowScore a \<noteq> 0 then rowScore b - rowScore a else collate (ar_username a) (ar_username b))"

definition compareBusy :: "(string \<Rightarrow> string \<Rightarrow> number) \<Rightarrow> usersTopicUser \<Rightarrow> usersTopicUser \<Rightarrow> number" where
  "compareBusy collate a b =
    (if utu_current_connections b - utu_current_connections a \<noteq> 0 then utu_current_connections b - utu_current_connections a
     else collate (utu_username a) (utu_username b))"

definition topConcentration :: "(string \<Rightarrow> string \<Rightarrow> number) \<Rightarrow> usersTopicUser list \<Rightarrow> clientConcentration option" where
  "topConcentration collate users =
    (let total' = sum_list (map utu_current_connections users)
     in case sortBy (compareBusy collate) (filter (\<lambda>u. 0 < utu_current_connections u) users) of
          [] \<Rightarrow> None
        | busiest # _ \<Rightarrow>
            if 0 < total'
            then Some \<lparr>cc_username = utu_username busiest, cc_connections = utu_current_connections busiest,
                   cc_sharePct = of_int (js_round (utu_current_connections busiest / total' * 100))\<rparr>
            else None)"

definition computeClientAttention ::
  "(number \<Rightarrow> number) \<Rightarrow> (string \<Rightarrow> string \<Rightarrow> number) \<Rightarrow> usersTopicUser list option \<Rightarrow> (string, usersTopicQuotaEntry) js_map option \<Rightarrow>
   number \<Rightarrow> int \<Rightarrow> attentionView" where
  "computeClientAttention zone collate users quota nowMs limit =
    (case users of
       None \<Rightarrow> \<lparr>av_rows = [], av_count = 0, av_top = None\<rparr>
     | Some us \<Rightarrow>
         let rows = sortBy (compareAttention collate) (List.map_filter (attentionRowOf zone quota nowMs) us)
         in \<lparr>av_rows = take (nat (max 0 limit)) rows, av_count = length rows, av_top = topConcentration collate us\<rparr>)"

subsection \<open>The health banner\<close>

datatype pillState = PillOk | PillWarn | PillError | PillMuted

text \<open>\<open>shell/StatusStrip.helpers.ts\<close>; an absent or empty status is unknown.\<close>

definition healthPillState :: "string option \<Rightarrow> pillState" where
  "healthPillState status = (case status of None \<Rightarrow> PillMuted
     | Some v \<Rightarrow> if v = [] then PillMuted else if v = ''ok'' \<or> v = ''healthy'' then PillOk else if v = ''starting'' then PillWarn else PillError)"

definition healthLabel :: "string option \<Rightarrow> dict \<Rightarrow> string" where
  "healthLabel status s = di_text s (case healthPillState status of
     PillMuted \<Rightarrow> ''health.unknown'' | PillOk \<Rightarrow> ''health.ok'' | PillWarn \<Rightarrow> ''health.starting'' | PillError \<Rightarrow> ''health.degraded'')"

text \<open>\<open>reason.trim().toLowerCase().replace(/[\s-]+/g, "_")\<close>: each run of white space and hyphens becomes one underscore. The table of
  reasons is read at its own two keys; the names every object inherits are not reasons of Telemt.\<close>

fun underscores :: "bool \<Rightarrow> string \<Rightarrow> string" where
  "underscores inRun [] = []"
| "underscores inRun (c # cs) =
    (if is_space c \<or> c = CHR ''-'' then (if inRun then underscores True cs else CHR ''_'' # underscores True cs)
     else c # underscores False cs)"

definition reasonToken :: "string \<Rightarrow> string" where
  "reasonToken reason = underscores False (to_lower (trim reason))"

definition readyReasonText :: "string option \<Rightarrow> dict \<Rightarrow> string" where
  "readyReasonText reason s =
    (case reason of
       None \<Rightarrow> di_text s ''pulse.health.noReason''
     | Some r \<Rightarrow>
         if r = [] then di_text s ''pulse.health.noReason''
         else if reasonToken r = ''admission_closed'' then di_text s ''pulse.health.readyReason.admissionClosed''
         else if reasonToken r = ''no_healthy_upstreams'' then di_text s ''pulse.health.readyReason.noHealthyUpstreams''
         else r)"

definition notReadyTone :: "string option \<Rightarrow> pillState" where
  "notReadyTone reason = (if map_option reasonToken reason = Some ''admission_closed'' then PillWarn else PillError)"

definition routeModeValue :: "runtimeGates option \<Rightarrow> dict \<Rightarrow> string option" where
  "routeModeValue gates s = map_option (\<lambda>g. di_text s
     (if \<not> rg_use_middle_proxy g then ''overview.status.routeDirect''
      else if rg_reroute_active g \<or> rg_route_mode g = ''direct'' then ''overview.status.routeFallback''
      else ''overview.status.routeMe'')) gates"

definition isStarting :: "runtimeTopic option \<Rightarrow> bool" where
  "isStarting runtime =
    (let startup = Option.bind (Option.bind runtime rt_gates) (\<lambda>g. if rg_startup_status g = [] then None else Some (rg_startup_status g));
         init = Option.bind (Option.bind runtime rt_initialization) (\<lambda>i. Some (ri_status i))
     in case startup of Some v \<Rightarrow> v \<noteq> ''ready'' | None \<Rightarrow> (case init of Some v \<Rightarrow> v \<noteq> ''ready'' | None \<Rightarrow> False))"

record heroView =
  hv_tone :: pillState
  hv_label :: string
  hv_reason :: "string option"
  hv_uptime :: "string option"
  hv_version :: "string option"
  hv_route :: "string option"

definition heroState :: "statsSnapshot option \<Rightarrow> runtimeTopic option \<Rightarrow> bool \<Rightarrow> bool \<Rightarrow> dict \<Rightarrow> pillState \<times> string \<times> string option" where
  "heroState stats runtime unreachable degraded s =
    (let refused = Option.bind (Option.bind stats ssn_ready) (\<lambda>r. if sr_ready r then None else Some r);
         health = Option.bind (Option.bind stats ssn_health) (\<lambda>h. if sh_status h = [] then None else Some (sh_status h))
     in if unreachable then (PillError, di_text s ''pulse.health.unavailable'', None)
        else if isStarting runtime then (PillWarn, di_text s ''health.starting'', None)
        else case refused of
               Some r \<Rightarrow> (notReadyTone (sr_reason r), di_text s ''pulse.health.limited'', Some (readyReasonText (sr_reason r) s))
             | None \<Rightarrow>
                 if health \<noteq> None \<and> healthPillState health \<noteq> PillOk then (PillWarn, di_text s ''pulse.health.limited'', Some (healthLabel health s))
                 else if degraded then (PillWarn, di_text s ''health.degraded'', None)
                 else if health = None then (PillMuted, di_text s ''health.unknown'', None)
                 else (PillOk, di_text s ''health.ok'', None))"

definition computeHealthHero :: "statsSnapshot option \<Rightarrow> runtimeTopic option \<Rightarrow> bool \<Rightarrow> bool \<Rightarrow> dict \<Rightarrow> heroView option" where
  "computeHealthHero stats runtime unreachable degraded s =
    (if stats = None \<and> \<not> unreachable then None
     else let uptimeSeconds = (case Option.bind stats ssn_uptime_seconds of
                  Some u \<Rightarrow> Some u | None \<Rightarrow> map_option ss_uptime_seconds (Option.bind stats ssn_summary));
              (tone, label, reason) = heroState stats runtime unreachable degraded s
          in Some \<lparr>hv_tone = tone, hv_label = label, hv_reason = reason,
               hv_uptime = map_option (\<lambda>u. formatDurationApprox (u * 1000) s) uptimeSeconds,
               hv_version = Option.bind stats ssn_version, hv_route = routeModeValue (Option.bind runtime rt_gates) s\<rparr>)"

subsection \<open>Diagnostic pages\<close>

text \<open>The counters arrive as a partial record: the two that are read, each present or not (with no record neither is).\<close>

definition connectSuccessPct :: "number option \<Rightarrow> number option \<Rightarrow> number option" where
  "connectSuccessPct attempts successes = (case (attempts, successes) of
     (Some a, Some g) \<Rightarrow> if a = 0 then None else Some (g / a * 100)
   | _ \<Rightarrow> None)"

definition bestLatencyMs :: "upstreamStatus list option \<Rightarrow> number option" where
  "bestLatencyMs upstreams =
    (let measured = List.map_filter us_effective_latency_ms (case upstreams of Some us \<Rightarrow> us | None \<Rightarrow> [])
     in if measured = [] then None else Some (Min (set measured)))"

text \<open>Of the fields only the latency may be \<open>null\<close>; every other field of the statistics wins.\<close>

definition mergeUpstream :: "upstreamStatus \<Rightarrow> upstreamStatus \<Rightarrow> upstreamStatus" where
  "mergeUpstream stats quality = stats\<lparr>us_effective_latency_ms := (case us_effective_latency_ms stats of
     Some v \<Rightarrow> Some v | None \<Rightarrow> us_effective_latency_ms quality)\<rparr>"

definition mergeStep :: "upstreamStatus list \<times> (number, upstreamStatus) js_map \<Rightarrow> upstreamStatus \<Rightarrow> upstreamStatus list \<times> (number, upstreamStatus) js_map" where
  "mergeStep acc upstream =
    (let (merged, byId) = acc
     in (merged @ [case mget byId (us_upstream_id upstream) of None \<Rightarrow> upstream | Some other \<Rightarrow> mergeUpstream upstream other],
         mdel byId (us_upstream_id upstream)))"

definition mergeUpstreams :: "upstreamStatus list option \<Rightarrow> upstreamStatus list option \<Rightarrow> upstreamStatus list" where
  "mergeUpstreams stats quality =
    (let listOf = (\<lambda>v. case v of Some us \<Rightarrow> us | None \<Rightarrow> []);
         byId = fold (\<lambda>u m. mset_key m (us_upstream_id u) u) (listOf quality) [];
         (merged, rest) = foldl mergeStep ([], byId) (listOf stats)
     in merged @ map snd rest)"

datatype meRouteMode = RmMiddle | RmFallback | RmDirect | RmUnknown

definition meRouteMode_of :: "runtimeGates option \<Rightarrow> meWritersData option \<Rightarrow> meRouteMode" where
  "meRouteMode_of gates writers =
    (let direct = (case gates of Some g \<Rightarrow> \<not> rg_use_middle_proxy g \<and> rg_route_mode g = ''direct'' \<and> \<not> rg_reroute_active g | None \<Rightarrow> False);
         fallback = (case gates of Some g \<Rightarrow> rg_reroute_active g \<or> (rg_use_middle_proxy g \<and> to_lower (rg_route_mode g) = ''direct'') | None \<Rightarrow> False);
         middle = (case gates of Some g \<Rightarrow> rg_use_middle_proxy g | None \<Rightarrow> False) \<or> (case writers of Some w \<Rightarrow> mwd_middle_proxy_enabled w | None \<Rightarrow> False)
     in if direct then RmDirect else if fallback then RmFallback else if middle then RmMiddle else RmUnknown)"

definition EVENT_FAMILIES :: "string list" where
  "EVENT_FAMILIES = [''admission'', ''config'', ''api'']"

definition eventFamily :: "string \<Rightarrow> string" where
  "eventFamily eventType = (let head = hd (split_at CHR ''.'' eventType) in if head \<in> set EVENT_FAMILIES then head else ''other'')"

definition orderedEvents :: "runtimeEdgeEventRecord list option \<Rightarrow> runtimeEdgeEventRecord list" where
  "orderedEvents events = sortBy (\<lambda>a b. reer_seq b - reer_seq a) (case events of Some evs \<Rightarrow> evs | None \<Rightarrow> [])"

definition eventTypeCount :: "runtimeEdgeEventRecord list option \<Rightarrow> nat option" where
  "eventTypeCount events = map_option (\<lambda>evs. length (remdups (map reer_event_type evs))) events"

end
