(* ===== verification/Overview_Props.thy ===== *)
theory Overview_Props
  imports Overview User_Props
begin

text \<open>
  What the cards of the overview promise: they name the worst first, leave out only what is no worse, and every
  figure stays inside its scale.
\<close>

subsection \<open>Orders\<close>

text \<open>A figure, largest first, and a name where the figures agree.\<close>

definition byFigure :: "('a \<Rightarrow> number) \<Rightarrow> ('a \<Rightarrow> 'a \<Rightarrow> number) \<Rightarrow> 'a \<Rightarrow> 'a \<Rightarrow> number" where
  "byFigure figure tie a b = (if figure b - figure a \<noteq> 0 then figure b - figure a else tie a b)"

lemma byFigure_nonpos: "byFigure figure tie a b \<le> 0 \<longleftrightarrow> figure b < figure a \<or> (figure b = figure a \<and> tie a b \<le> 0)"
  by (auto simp: byFigure_def)

lemma byFigure_le: "byFigure figure tie a b \<le> 0 \<Longrightarrow> figure b \<le> figure a"
  by (auto simp: byFigure_nonpos)

lemma byFigure_comparator:
  assumes "\<And>a b. \<not> tie a b \<le> 0 \<Longrightarrow> tie b a \<le> 0" "\<And>a b c. tie a b \<le> 0 \<Longrightarrow> tie b c \<le> 0 \<Longrightarrow> tie a c \<le> 0"
  shows "comparator (byFigure figure tie) (\<lambda>_. True)"
proof unfold_locales
  show "byFigure figure tie y x \<le> 0" if "\<not> byFigure figure tie x y \<le> 0" for x y
    using that assms(1) [of x y] unfolding byFigure_nonpos by (metis linorder_neqE)
  show "byFigure figure tie x z \<le> 0" if "byFigure figure tie x y \<le> 0" "byFigure figure tie y z \<le> 0" for x y z
    using that assms(2) [of x y z] unfolding byFigure_nonpos by (metis less_trans)
qed

lemma attention_byFigure: "compareAttention collate = byFigure rowScore (\<lambda>a b. collate (ar_username a) (ar_username b))"
  by (simp add: fun_eq_iff compareAttention_def byFigure_def)

lemma watch_byFigure: "compareWatch collate = byFigure qw_urgency (\<lambda>a b. collate (qw_username a) (qw_username b))"
  by (simp add: fun_eq_iff compareWatch_def byFigure_def)

lemma busy_byFigure: "compareBusy collate = byFigure utu_current_connections (\<lambda>a b. collate (utu_username a) (utu_username b))"
  by (simp add: fun_eq_iff compareBusy_def byFigure_def)

lemma dcs_byFigure:
  "compareDcs = byFigure (\<lambda>dc. coverageSeverity (dcCoverageState dc)) (byFigure rttOr (\<lambda>_ _. 0))"
  by (simp add: fun_eq_iff compareDcs_def byFigure_def Let_def)

interpretation by_score: comparator "\<lambda>a b. signalScore b - signalScore a" "\<lambda>_. True"
  by unfold_locales simp_all

interpretation by_severity: comparator compareDcs "\<lambda>_. True"
  unfolding dcs_byFigure by (intro byFigure_comparator) (auto simp: byFigure_nonpos)

interpretation by_number: comparator "\<lambda>a b :: number. a - b" "\<lambda>_. True"
  by unfold_locales simp_all

context collation
begin

lemma by_name:
  fixes figure :: "'a \<Rightarrow> number" and name :: "'a \<Rightarrow> string"
  shows "comparator (byFigure figure (\<lambda>a b. collate (name a) (name b))) (\<lambda>_. True)"
proof (rule byFigure_comparator)
  show "collate (name b) (name a) \<le> 0" if "\<not> collate (name a) (name b) \<le> 0" for a b
    using that nonneg_flip [of "name a" "name b"] by linarith
  show "collate (name a) (name c) \<le> 0" if "collate (name a) (name b) \<le> 0" "collate (name b) (name c) \<le> 0" for a b c
    using that by (rule trans)
qed

end

sublocale collation \<subseteq> by_attention: comparator "compareAttention collate" "\<lambda>_. True"
  unfolding attention_byFigure by (rule by_name)

sublocale collation \<subseteq> by_urgency: comparator "compareWatch collate" "\<lambda>_. True"
  unfolding watch_byFigure by (rule by_name)

sublocale collation \<subseteq> by_connections: comparator "compareBusy collate" "\<lambda>_. True"
  unfolding busy_byFigure by (rule by_name)

text \<open>What a sorted list loses when it is cut is no better placed than what it keeps.\<close>

lemma cut_order:
  assumes "sorted_wrt R xs" "a \<in> set (take n xs)" "b \<in> set (drop n xs)"
  shows "R a b"
proof -
  have "sorted_wrt R (take n xs @ drop n xs)" using assms(1) by simp
  with assms(2,3) show ?thesis unfolding sorted_wrt_append by blast
qed

subsection \<open>Signals\<close>

lemma js_round_mono: "x \<le> y \<Longrightarrow> js_round x \<le> js_round y"
  by (simp add: js_round_def floor_mono)

lemma js_round_0: "js_round 0 = 0"
  using js_round_of_int [of 0] by simp

lemma js_round_100: "js_round 100 = 100"
  using js_round_of_int [of 100] by simp

lemma percent_round:
  assumes "0 \<le> x" "x \<le> 1"
  shows "0 \<le> js_round (x * 100) \<and> js_round (x * 100) \<le> 100"
  using js_round_mono [of 0 "x * 100"] js_round_mono [of "x * 100" 100] assms by (simp add: js_round_0 js_round_100)

definition soundSignal :: "attentionSignal \<Rightarrow> bool" where
  "soundSignal s \<longleftrightarrow> (if signalSeverity s = SevError then 1000 \<le> signalScore s else signalScore s \<le> 200)"

lemma ratioSignal_sound:
  assumes "ratioSignal kind current limit = Some s"
  shows "soundSignal s"
proof -
  define r where "r = current / limit"
  have s: "s = LimitSignal kind (if 1 \<le> r then SevError else SevWarn) current limit (of_int (js_round (r * 100)))" and r: "8 / 10 \<le> r"
    using assms by (auto simp: ratioSignal_def CLIENT_LIMIT_WARN_RATIO_def r_def Let_def split: if_splits)
  have "0 \<le> js_round (r * 100)" using r js_round_mono [of 0 "r * 100"] by (simp add: js_round_0)
  moreover have "js_round (r * 100) \<le> 100" if "\<not> 1 \<le> r" using that js_round_mono [of "r * 100" 100] by (simp add: js_round_100)
  ultimately show ?thesis unfolding s by (cases kind) (auto simp: soundSignal_def signalScore_def)
qed

lemma map_filter_mem: "y \<in> set (List.map_filter f xs) \<longleftrightarrow> (\<exists>x\<in>set xs. f x = Some y)"
  by (force simp: List.map_filter_def)

lemma some_eq_bind: "Some y = Option.bind m f \<longleftrightarrow> (\<exists>x. m = Some x \<and> f x = Some y)"
  by (cases m) auto

lemma userSignals_sound:
  assumes "s \<in> set (userSignals zone user quota nowMs)"
  shows "soundSignal s"
proof -
  have "expirationSignal zone user nowMs = Some s \<or> s = RuntimeSignal \<or> (\<exists>k c l. ratioSignal k c l = Some s)"
    using assms unfolding userSignals_def map_filter_mem by (auto simp: some_eq_bind split: if_splits)
  then show ?thesis
  proof (elim disjE exE)
    assume "expirationSignal zone user nowMs = Some s"
    then obtain sev t expired where "s = ExpirationSignal sev t expired"
      by (auto simp: expirationSignal_def split: option.splits if_splits)
    then show ?thesis by (cases sev) (simp_all add: soundSignal_def signalScore_def)
  next
    assume "s = RuntimeSignal"
    then show ?thesis by (simp add: soundSignal_def signalScore_def)
  qed (rule ratioSignal_sound)
qed

subsection \<open>Clients\<close>

lemma signals_set: "set (signalsForUser zone user quota nowMs) = set (userSignals zone user quota nowMs)"
  by (simp add: signalsForUser_def)

lemma hd_signal_worst:
  assumes "y \<in> set (userSignals zone user quota nowMs)"
  shows "signalScore y \<le> signalScore (hd (signalsForUser zone user quota nowMs))"
  using by_score.hd_first [of "userSignals zone user quota nowMs" y] assms by (auto simp: signalsForUser_def)

lemma row_of_user:
  assumes "attentionRowOf zone quota nowMs user = Some row"
  shows "ar_username row = utu_username user" "set (ar_signals row) = set (userSignals zone user (quotaEntryOf quota user) nowMs)"
    "ar_severity row = SevError \<longleftrightarrow> (\<exists>y\<in>set (ar_signals row). signalSeverity y = SevError)"
    "ar_severity row = SevError \<longleftrightarrow> 1000 \<le> rowScore row"
proof -
  let ?us = "userSignals zone user (quotaEntryOf quota user) nowMs" and ?ss = "signalsForUser zone user (quotaEntryOf quota user) nowMs"
  have row: "row = \<lparr>ar_username = utu_username user, ar_severity = signalSeverity (hd ?ss), ar_signals = ?ss\<rparr>" "?ss \<noteq> []"
    using assms by (auto simp: attentionRowOf_def Let_def split: if_splits)
  then show "ar_username row = utu_username user" "set (ar_signals row) = set ?us" by (simp_all add: signals_set)
  have hd: "hd ?ss \<in> set ?us" using row(2) signals_set [of zone user "quotaEntryOf quota user" nowMs] by (metis hd_in_set)
  have key: "signalSeverity (hd ?ss) = SevError \<longleftrightarrow> 1000 \<le> signalScore (hd ?ss)"
    using userSignals_sound [OF hd] by (cases "signalSeverity (hd ?ss)") (simp_all add: soundSignal_def)
  have "signalSeverity y = SevError \<Longrightarrow> 1000 \<le> signalScore (hd ?ss)" if "y \<in> set ?us" for y
    using userSignals_sound [OF that] hd_signal_worst [OF that] by (simp add: soundSignal_def)
  with key hd show "ar_severity row = SevError \<longleftrightarrow> (\<exists>y\<in>set (ar_signals row). signalSeverity y = SevError)"
    unfolding row(1) by (auto simp: signals_set)
  show "ar_severity row = SevError \<longleftrightarrow> 1000 \<le> rowScore row" using key by (simp add: row(1) rowScore_def)
qed

lemma length_map_filter: "length (List.map_filter f xs) = length (filter (\<lambda>x. f x \<noteq> None) xs)"
  by (simp add: List.map_filter_def comp_def)

text \<open>The rows of a client list, and the ones a limit leaves out.\<close>

definition attentionRows ::
  "(number \<Rightarrow> number) \<Rightarrow> (string \<Rightarrow> string \<Rightarrow> number) \<Rightarrow> usersTopicUser list \<Rightarrow> (string, usersTopicQuotaEntry) js_map option \<Rightarrow> number \<Rightarrow> attentionRow list" where
  "attentionRows zone collate users quota nowMs = sortBy (compareAttention collate) (List.map_filter (attentionRowOf zone quota nowMs) users)"

context collation
begin

lemma left_out_no_worse:
  assumes "a \<in> set (take n (attentionRows zone collate users quota nowMs))" "b \<in> set (drop n (attentionRows zone collate users quota nowMs))"
  shows "rowScore b \<le> rowScore a"
proof -
  have "compareAttention collate a b \<le> 0"
    using cut_order [OF _ assms] by_attention.sorted unfolding attentionRows_def by blast
  then show ?thesis unfolding attention_byFigure by (rule byFigure_le)
qed

lemma busiest_share:
  assumes "\<forall>u\<in>set users. 0 \<le> utu_current_connections u" "topConcentration collate users = Some c"
  shows "0 \<le> cc_sharePct c \<and> cc_sharePct c \<le> 100 \<and> (\<forall>u\<in>set users. utu_current_connections u \<le> cc_connections c)"
proof -
  let ?busy = "filter (\<lambda>u. 0 < utu_current_connections u) users"
  obtain b where b: "b = hd (sortBy (compareBusy collate) ?busy)" "?busy \<noteq> []" "cc_connections c = utu_current_connections b"
    "cc_sharePct c = of_int (js_round (utu_current_connections b / sum_list (map utu_current_connections users) * 100))"
    "0 < sum_list (map utu_current_connections users)"
  proof (cases "sortBy (compareBusy collate) ?busy")
    case (Cons x xs)
    then have "?busy \<noteq> []" using sortBy_Nil_iff [of "compareBusy collate" ?busy] by (simp del: sortBy_Nil_iff)
    with Cons assms(2) show ?thesis by (intro that [of x]) (auto simp: topConcentration_def Let_def split: if_splits)
  next
    case Nil
    with assms(2) show ?thesis by (simp add: topConcentration_def Let_def del: sortBy_Nil_iff)
  qed
  have mem: "b \<in> set ?busy" using b(1,2) hd_in_set [of "sortBy (compareBusy collate) ?busy"] by simp
  have most: "utu_current_connections u \<le> utu_current_connections b" if "u \<in> set users" for u
  proof (cases "0 < utu_current_connections u")
    case True
    then have "u = b \<or> compareBusy collate b u \<le> 0" using by_connections.hd_first [of ?busy u] that b(1) by auto
    then show ?thesis unfolding busy_byFigure by (auto dest: byFigure_le)
  next
    case False
    with mem show ?thesis by auto
  qed
  let ?share = "utu_current_connections b / sum_list (map utu_current_connections users)"
  have "utu_current_connections b \<le> sum_list (map utu_current_connections users)"
    using mem assms(1) by (intro member_le_sum_list) auto
  then have "0 \<le> ?share" "?share \<le> 1" using b(5) mem by auto
  from percent_round [OF this] b(3,4) most show ?thesis by simp
qed

end

subsection \<open>Quotas and expiries\<close>

lemma watch_row_sound:
  assumes "watchRow zone quota nowMs user = Some row"
  shows "utu_enabled user \<and> qw_username row = utu_username user \<and> 0 \<le> qw_urgency row \<and> qw_urgency row \<le> 1"
proof -
  let ?fill = "quotaFillOf (quotaEntryOf quota user) user" and ?in = "map_option (\<lambda>t. t - nowMs) (expiryAt zone user)"
  define q where "q = (case ?fill of Some f \<Rightarrow> if QUOTA_WATCH_THRESHOLD \<le> f then Some f else None | None \<Rightarrow> None)"
  define e where "e = (case ?in of Some ms \<Rightarrow> if ms \<le> EXPIRY_WATCH_MS then Some (1 - max ms 0 / EXPIRY_WATCH_MS) else None | None \<Rightarrow> None)"
  have fill: "0 \<le> f \<and> f \<le> 1" if "?fill = Some f" for f
    using that by (auto simp: quotaFillOf_def quotaRatio_def Let_def split: option.splits if_splits)
  have "0 \<le> 1 - max ms 0 / EXPIRY_WATCH_MS \<and> 1 - max ms 0 / EXPIRY_WATCH_MS \<le> 1" if "ms \<le> EXPIRY_WATCH_MS" for ms
    using that by (simp add: EXPIRY_WATCH_MS_def max_def)
  then have ok: "0 \<le> max (case q of Some u \<Rightarrow> u | None \<Rightarrow> 0) (case e of Some u \<Rightarrow> u | None \<Rightarrow> 0) \<and>
      max (case q of Some u \<Rightarrow> u | None \<Rightarrow> 0) (case e of Some u \<Rightarrow> u | None \<Rightarrow> 0) \<le> 1"
    using fill by (cases ?fill; cases ?in) (auto simp: q_def e_def)
  have w: "watchRow zone quota nowMs user = (if \<not> utu_enabled user then None else if q = None \<and> e = None then None
      else Some \<lparr>qw_username = utu_username user, qw_quotaFill = ?fill, qw_expiresInMs = (if e = None then None else ?in),
        qw_urgency = max (case q of Some u \<Rightarrow> u | None \<Rightarrow> 0) (case e of Some u \<Rightarrow> u | None \<Rightarrow> 0)\<rparr>)"
    unfolding watchRow_def Let_def q_def e_def by (rule refl)
  have "utu_enabled user" "qw_username row = utu_username user"
    "qw_urgency row = max (case q of Some u \<Rightarrow> u | None \<Rightarrow> 0) (case e of Some u \<Rightarrow> u | None \<Rightarrow> 0)"
    using assms unfolding w by (auto split: if_splits)
  with ok show ?thesis by simp
qed

subsection \<open>Data centres\<close>

lemma worst_dc_first:
  assumes "dc \<in> set dcs" "dcCoverageState dc = ToneError"
  shows "do_attention (computeDcOverview dcs) \<noteq> [] \<and> dcCoverageState (hd (do_attention (computeDcOverview dcs))) = ToneError"
proof -
  let ?l = "sortBy compareDcs (filter needsAttention dcs)"
  have mem: "dc \<in> set (filter needsAttention dcs)" using assms by (simp add: needsAttention_def)
  then have ne: "?l \<noteq> []" by (metis emptyE empty_set sortBy_Nil_iff)
  have "dc = hd ?l \<or> compareDcs (hd ?l) dc \<le> 0" using by_severity.hd_first [OF _ mem] by simp
  then have "coverageSeverity (dcCoverageState dc) \<le> coverageSeverity (dcCoverageState (hd ?l))"
    unfolding dcs_byFigure using byFigure_le by fastforce
  then have "dcCoverageState (hd ?l) = ToneError" using assms(2) by (cases "dcCoverageState (hd ?l)") simp_all
  moreover have "hd (take 3 ?l) = hd ?l" by (rule hd_take) simp
  ultimately show ?thesis using ne by (simp add: computeDcOverview_def Let_def)
qed

lemma p95_covers:
  fixes rtts :: "number list"
  assumes "rtts \<noteq> []"
  defines "i \<equiv> nat (max 0 (\<lceil>of_nat (length rtts) * 95 / 100 :: number\<rceil> - 1))"
  shows "i < length rtts \<and> 95 * length rtts \<le> 100 * length (filter (\<lambda>r. r \<le> sortBy (\<lambda>a b. a - b) rtts ! i) rtts)"
proof -
  let ?n = "length rtts" and ?xs = "sortBy (\<lambda>a b. a - b) rtts" and ?c = "\<lceil>of_nat (length rtts) * 95 / 100 :: number\<rceil>"
  have n: "0 < ?n" using assms(1) by simp
  have "?c \<le> int ?n" by (simp add: ceiling_le_iff)
  moreover have "0 < ?c" using n by simp
  ultimately have i: "i < ?n" "int i + 1 = ?c" unfolding i_def by linarith+
  have sorted: "sorted_wrt (\<lambda>x y. x - y \<le> 0) ?xs" by (rule by_number.sorted) simp
  have le: "x \<le> ?xs ! i" if "x \<in> set (take (Suc i) ?xs)" for x
  proof -
    from that obtain j where "j < Suc i" "x = ?xs ! j" using i(1) by (auto simp: in_set_conv_nth)
    then show ?thesis using sorted_wrt_nth_less [OF sorted, of j i] i(1) by (cases "j = i") auto
  qed
  have "Suc i = length (filter (\<lambda>r. r \<le> ?xs ! i) (take (Suc i) ?xs))" using le i(1) by (simp add: filter_True)
  also have "\<dots> \<le> length (filter (\<lambda>r. r \<le> ?xs ! i) (take (Suc i) ?xs @ drop (Suc i) ?xs))" by (simp only: filter_append length_append)
  also have "\<dots> = size (filter_mset (\<lambda>r. r \<le> ?xs ! i) (mset ?xs))" by (simp only: append_take_drop_id) (metis mset_filter size_mset)
  also have "\<dots> = length (filter (\<lambda>r. r \<le> ?xs ! i) rtts)" by (metis mset_filter mset_sortBy size_mset)
  finally have "Suc i \<le> length (filter (\<lambda>r. r \<le> ?xs ! i) rtts)" .
  then have "100 * Suc i \<le> 100 * length (filter (\<lambda>r. r \<le> ?xs ! i) rtts)" by (rule mult_le_mono2)
  moreover have "(of_nat ?n * 95 / 100 :: number) \<le> of_int ?c" by simp
  then have "(of_nat ?n * 95 / 100 :: number) \<le> of_nat (Suc i)" using i(2) by (metis of_int_of_nat_eq of_nat_Suc of_int_add of_int_1 add.commute)
  then have "95 * ?n \<le> 100 * Suc i" by (simp add: field_simps flip: of_nat_mult of_nat_le_iff)
  ultimately have "95 * ?n \<le> 100 * length (filter (\<lambda>r. r \<le> ?xs ! i) rtts)" by (rule le_trans [rotated])
  with i(1) show ?thesis by simp
qed

context collation
begin

lemma watch_sorted:
  "sorted_wrt (\<lambda>a b. qw_urgency b \<le> qw_urgency a) (computeQuotaWatch zone collate topic nowMs limit)"
proof (cases topic)
  case (Some t)
  let ?l = "sortBy (compareWatch collate) (List.map_filter (watchRow zone (ut_quota t) nowMs) (ut_users t))"
  have "sorted_wrt (\<lambda>a b. compareWatch collate a b \<le> 0) ?l" by (rule by_urgency.sorted) simp
  then have "sorted_wrt (\<lambda>a b. qw_urgency b \<le> qw_urgency a) ?l"
    by (rule sorted_wrt_mono_rel [rotated]) (simp add: watch_byFigure byFigure_le)
  then show ?thesis by (simp add: Some computeQuotaWatch_def sorted_wrt_take)
qed (simp add: computeQuotaWatch_def)

end

lemma watch_rows:
  assumes "r \<in> set (computeQuotaWatch zone collate topic nowMs limit)"
  shows "0 \<le> qw_urgency r \<and> qw_urgency r \<le> 1 \<and>
    (\<exists>t. topic = Some t \<and> (\<exists>u\<in>set (ut_users t). utu_enabled u \<and> utu_username u = qw_username r))"
proof (cases topic)
  case (Some t)
  then have "r \<in> set (List.map_filter (watchRow zone (ut_quota t) nowMs) (ut_users t))"
    using assms by (auto simp: computeQuotaWatch_def dest: in_set_takeD)
  then obtain u where "u \<in> set (ut_users t)" "watchRow zone (ut_quota t) nowMs u = Some r" unfolding map_filter_mem by blast
  with watch_row_sound [of zone "ut_quota t" nowMs u r] Some show ?thesis by auto
qed (use assms in \<open>simp add: computeQuotaWatch_def\<close>)

lemma watch_length: "length (computeQuotaWatch zone collate topic nowMs limit) \<le> nat (max 0 limit)"
  by (simp add: computeQuotaWatch_def split: option.split)

lemma attention_count: "length (attentionRows zone collate users quota nowMs) =
    length (filter (\<lambda>u. userSignals zone u (quotaEntryOf quota u) nowMs \<noteq> []) users)"
proof -
  have "attentionRowOf zone quota nowMs u \<noteq> None \<longleftrightarrow> userSignals zone u (quotaEntryOf quota u) nowMs \<noteq> []" for u
    by (simp add: attentionRowOf_def Let_def signalsForUser_def)
  then show ?thesis by (simp add: attentionRows_def length_map_filter)
qed

lemma attention_row_user:
  assumes "r \<in> set (attentionRows zone collate users quota nowMs)"
  obtains u where "u \<in> set users" "attentionRowOf zone quota nowMs u = Some r"
  using assms unfolding attentionRows_def set_sortBy map_filter_mem by blast

lemma dc_attention:
  "length (do_attention (computeDcOverview dcs)) \<le> 3 \<and> (\<forall>dc\<in>set (do_attention (computeDcOverview dcs)). dc \<in> set dcs \<and> needsAttention dc)"
  by (auto simp: computeDcOverview_def Let_def dest: in_set_takeD)

lemma dc_percentile:
  assumes "do_p95RttMs (computeDcOverview dcs) = Some p"
  shows "95 * length (List.map_filter ds_rtt_ms dcs) \<le> 100 * length (filter (\<lambda>r. r \<le> p) (List.map_filter ds_rtt_ms dcs))"
proof -
  let ?rtts = "List.map_filter ds_rtt_ms dcs"
  have p: "?rtts \<noteq> []" "p = sortBy (\<lambda>a b. a - b) ?rtts ! nat (max 0 (\<lceil>of_nat (length ?rtts) * 95 / 100 :: number\<rceil> - 1))"
    using assms unfolding computeDcOverview_def Let_def by (simp_all split: if_splits)
  show ?thesis unfolding p(2) using p95_covers [OF p(1)] by blast
qed

subsection \<open>The property\<close>

text \<open>C40. The overview names the worst first. For every list of clients, with a browser's collation for the names: the card counts
  exactly the clients with a reason for attention and shows as many of them as fit; each row says error exactly when
  one of its reasons is an error; a client left out scores no higher than one shown, so that no client with an
  error is left out while one with only a warning is shown; the busiest client has the most connections and a
  share between 0 and 100 per cent; the rows on quotas and expiries are of enabled clients, with an urgency from 0 to 1, the
  most urgent first and at most as many as fit; and the card of the data centres shows at most three, all in trouble, one
  without writers first if there is any, and a 95th percentile that at least 95 per cent of the measured
  round trips do not exceed.\<close>

theorem overview_names_worst:
  fixes zone :: "number \<Rightarrow> number" and users :: "usersTopicUser list" and quota topic nowMs limit dcs
  assumes "collation collate"
  defines "rows \<equiv> attentionRows zone collate users quota nowMs"
  defines "view \<equiv> computeClientAttention zone collate (Some users) quota nowMs limit"
  defines "watch \<equiv> computeQuotaWatch zone collate topic nowMs limit"
  defines "dcard \<equiv> computeDcOverview dcs"
  shows "av_count view = length (filter (\<lambda>u. userSignals zone u (quotaEntryOf quota u) nowMs \<noteq> []) users) \<and>
    av_rows view = take (nat (max 0 limit)) rows \<and> mset rows = mset (List.map_filter (attentionRowOf zone quota nowMs) users) \<and>
    (\<forall>r\<in>set rows. ar_severity r = SevError \<longleftrightarrow> (\<exists>y\<in>set (ar_signals r). signalSeverity y = SevError)) \<and>
    (\<forall>a\<in>set (av_rows view). \<forall>b\<in>set (drop (nat (max 0 limit)) rows). rowScore b \<le> rowScore a \<and> (ar_severity b = SevError \<longrightarrow> ar_severity a = SevError)) \<and>
    (\<forall>c. (\<forall>u\<in>set users. 0 \<le> utu_current_connections u) \<and> av_top view = Some c \<longrightarrow>
      0 \<le> cc_sharePct c \<and> cc_sharePct c \<le> 100 \<and> (\<forall>u\<in>set users. utu_current_connections u \<le> cc_connections c)) \<and>
    length watch \<le> nat (max 0 limit) \<and> sorted_wrt (\<lambda>a b. qw_urgency b \<le> qw_urgency a) watch \<and>
    (\<forall>r\<in>set watch. 0 \<le> qw_urgency r \<and> qw_urgency r \<le> 1 \<and>
      (\<exists>t. topic = Some t \<and> (\<exists>u\<in>set (ut_users t). utu_enabled u \<and> utu_username u = qw_username r))) \<and>
    length (do_attention dcard) \<le> 3 \<and> (\<forall>dc\<in>set (do_attention dcard). dc \<in> set dcs \<and> needsAttention dc) \<and>
    ((\<exists>dc\<in>set dcs. ds_alive_writers dc = 0) \<longrightarrow> do_attention dcard \<noteq> [] \<and> ds_alive_writers (hd (do_attention dcard)) = 0) \<and>
    (\<forall>p. do_p95RttMs dcard = Some p \<longrightarrow>
      95 * length (List.map_filter ds_rtt_ms dcs) \<le> 100 * length (filter (\<lambda>r. r \<le> p) (List.map_filter ds_rtt_ms dcs)))"
proof -
  have view: "av_rows view = take (nat (max 0 limit)) rows" "av_count view = length rows" "av_top view = topConcentration collate users"
    by (simp_all add: view_def rows_def computeClientAttention_def attentionRows_def Let_def)
  have rows: "mset rows = mset (List.map_filter (attentionRowOf zone quota nowMs) users)" by (simp add: rows_def attentionRows_def)
  have sev: "ar_severity r = SevError \<longleftrightarrow> (\<exists>y\<in>set (ar_signals r). signalSeverity y = SevError)"
    "ar_severity r = SevError \<longleftrightarrow> 1000 \<le> rowScore r" if "r \<in> set rows" for r
    using that row_of_user unfolding rows_def by (metis attention_row_user)+
  have out: "rowScore b \<le> rowScore a \<and> (ar_severity b = SevError \<longrightarrow> ar_severity a = SevError)"
    if "a \<in> set (av_rows view)" "b \<in> set (drop (nat (max 0 limit)) rows)" for a b
  proof -
    have "rowScore b \<le> rowScore a" using that collation.left_out_no_worse [OF assms(1)] unfolding view(1) rows_def by blast
    moreover have "a \<in> set rows" "b \<in> set rows" using that unfolding view(1) by (auto dest: in_set_takeD in_set_dropD)
    ultimately show ?thesis using sev(2) by auto
  qed
  have dead: "dcCoverageState dc = ToneError \<longleftrightarrow> ds_alive_writers dc = 0" for dc by (simp add: dcCoverageState_def)
  have worst: "do_attention dcard \<noteq> [] \<and> ds_alive_writers (hd (do_attention dcard)) = 0" if "\<exists>dc\<in>set dcs. ds_alive_writers dc = 0"
    using that worst_dc_first unfolding dcard_def dead by blast
  show ?thesis
    using view rows sev(1) out worst collation.busiest_share [OF assms(1), of users] attention_count [of zone collate users quota nowMs]
      watch_length [of zone collate topic nowMs limit] collation.watch_sorted [OF assms(1), of zone topic nowMs limit]
      watch_rows [of _ zone collate topic nowMs limit] dc_attention [of dcs] dc_percentile [of dcs]
    unfolding rows_def watch_def dcard_def by (intro conjI ballI allI impI) (blast | simp)+
qed

definition sampleClient :: usersTopicUser where
  "sampleClient = \<lparr>utu_username = ''bob'', utu_enabled = True, utu_in_runtime = True, utu_user_ad_tag = None, utu_max_tcp_conns = Some 10,
     utu_expiration_rfc3339 = None, utu_data_quota_bytes = None, utu_rate_limit_up_bps = None, utu_rate_limit_down_bps = None,
     utu_max_unique_ips = None, utu_current_connections = 12, utu_active_unique_ips = 0, utu_active_unique_ips_list = None,
     utu_recent_unique_ips = 0, utu_recent_unique_ips_list = None, utu_total_octets = 0, utu_traffic = None,
     utu_links = \<lparr>ulw_classic = [], ulw_secure = [], ulw_tls = [], ulw_tls_domains = []\<rparr>\<rparr>"

text \<open>One client with more connections than it may have.\<close>

theorem overview_names_worst_witness:
  "av_count (computeClientAttention (\<lambda>_. 0) codeCompare (Some [sampleClient]) None 0 5) = 1"
proof -
  have "userSignals (\<lambda>_. 0) sampleClient (quotaEntryOf None sampleClient) 0 \<noteq> []"
    by (simp add: userSignals_def sampleClient_def expirationSignal_def expiryAt_def quotaEntryOf_def ratioSignal_def CLIENT_LIMIT_WARN_RATIO_def List.map_filter_def)
  with overview_names_worst [OF code_units.collation_axioms, of "\<lambda>_. 0" "[sampleClient]" None 0 5 None "[]"]
  show ?thesis by simp
qed

text \<open>Without a summary the composition is counted by the spelling of the routes, which is not the label the card looks for: one direct
  route is not recognised as a direct-only installation.\<close>

lemma direct_only_missed:
  assumes "us_route_kind u = ''direct''"
  shows "\<not> uc_directOnly (computeUpstreamsCard \<lparr>uo_upstreams = [u], uo_healthyTotal = 1, uo_unhealthyTotal = 0\<rparr> None)"
  using assms by (simp add: computeUpstreamsCard_def upstreamKinds_def countKind_def Let_def)

subsection \<open>The banner and the merged list\<close>

text \<open>The banner says that all is well only when Telemt answers, is started, does not refuse clients and reports itself healthy.\<close>

lemma hero_ok_sound:
  assumes "computeHealthHero stats runtime unreachable degraded s = Some v" "hv_tone v = PillOk"
  shows "\<not> unreachable \<and> \<not> degraded \<and> \<not> isStarting runtime \<and> (\<exists>st. stats = Some st \<and>
    (\<forall>r. ssn_ready st = Some r \<longrightarrow> sr_ready r) \<and> (\<exists>h. ssn_health st = Some h \<and> (sh_status h = ''ok'' \<or> sh_status h = ''healthy'')))"
  using assms
  by (auto simp: computeHealthHero_def heroState_def notReadyTone_def healthPillState_def Let_def bind_eq_Some_conv
      split: if_splits option.splits prod.splits bind_splits)

text \<open>Merging keeps every route of the statistics in its order, under its own id.\<close>

lemma mergeStep_id: "map us_upstream_id (fst (mergeStep acc u)) = map us_upstream_id (fst acc) @ [us_upstream_id u]"
  by (simp add: mergeStep_def mergeUpstream_def split: prod.split option.split)

lemma merge_ids_prefix: "map us_upstream_id (fst (foldl mergeStep acc stats)) = map us_upstream_id (fst acc) @ map us_upstream_id stats"
  by (induction stats arbitrary: acc) (simp_all add: mergeStep_id)

end
