(* ===== verification/Spec2Isabelle.thy ===== *)
theory Spec2Isabelle
  imports Sse_Properties Topic_Window Log_Ring Log_Stream_Safety Config_Props Config_Catalog Config_Reload
    Config_Editor Draft_Session Toml_Safety Source_Props Update_Props User_Props Access Problem_Props
    User_Edit_Props Web_Access_Props Web_Close_Props History_Props Locale_Props Webauthn Link_Props
    Panel_Access_Props Counter_Props Api_Client Overview_Props
begin

text \<open>
  Verification of the telemt panel's web client: the logic of \<open>src/web/src\<close>, the TypeScript program
  that runs in the admin's browser. The Go server of the panel and Telemt itself are its environment;
  what they send enters the models as inputs, in any order and with any content of the declared type.

  \<^bold>\<open>How the program is put together.\<close> One realtime client multiplexes the hub's topics over a single
  EventSource and falls back to polling; its snapshots feed the state of the data sources of every page,
  the sliding windows over a topic and the problem list of the dashboard. A second stream client feeds
  the journal. The configuration pages edit a working copy of Telemt's configuration, as an object
  (patch, rebase, preview) or as TOML text (draft session), and follow the reload or update they start.
  The people pages list users, edit their limits and WEB profiles and hand out their connection links. The
  diagnostics close WEB sessions and follow the operation. The tiles of the dashboard read the counter
  history, its cards and its banner summarise what the topics report, and the counters page compares successive
  dumps. The settings change how the panel itself is reached. A store of its own loads the language of the
  interface, an interceptor of the API client reacts to an expired session. Login redirects, passkeys and the
  reading of the API's protection are small but security-relevant pieces on their own.

  \<^bold>\<open>Theories and the code they model.\<close>

  \<^item> \<open>Panel_Prelude\<close>, \<open>Js_String\<close>, \<open>Js_Date\<close>: JavaScript values, maps with insertion order, stable sorting with a
    comparator, strings of 8-bit characters, numerals and the ECMAScript date format. Numbers are
    rationals: the code's numbers are counters, milliseconds and percentages, and no claim depends on the
    rounding of binary fractions. Interfaces: \<open>js_map\<close>, the machines \<open>run\<close> with their invariants, \<open>comparator\<close>.
  \<^item> \<open>Sse_Client\<close> (\<open>realtime/sseClient.ts\<close>, every inner function and listener as a step of one state
    record; timers, sources and requests carry identities, so that a late callback is an event like any
    other), with the frame lemmas of \<open>Sse_Client_Frame\<close>, freshness of snapshots in \<open>Sse_Freshness\<close>, the
    transport invariants in \<open>Sse_Transport\<close> and the properties in \<open>Sse_Properties\<close>.
  \<^item> \<open>Topic_Window\<close> (\<open>realtime/topicWindow.ts\<close>), \<open>Topics\<close> (\<open>realtime/topics.ts\<close>, one record per interface).
  \<^item> \<open>Log_Ring\<close> (\<open>journal/logRing.ts\<close>, \<open>logFilter.helpers.ts\<close>), \<open>Log_Stream\<close> and \<open>Log_Stream_Safety\<close>
    (\<open>journal/logStream.ts\<close>).
  \<^item> \<open>Config_Diff\<close>, \<open>Config_Props\<close>, \<open>Config_Catalog\<close>, \<open>Config_Reload\<close>, \<open>Config_Editor\<close> (\<open>server/config\<close>): comparison,
    PATCH body, three-way rebase, change lists, fields by path, reload policy and stepper, the editor.
  \<^item> \<open>Draft_Session\<close> (\<open>lib/draftSession.ts\<close>, \<open>draftSessionReact.ts\<close>), \<open>Toml_Session\<close> and \<open>Toml_Safety\<close>
    (\<open>server/config/useTomlSettingsSession.ts\<close>).
  \<^item> \<open>Source_State\<close> and \<open>Source_Props\<close> (\<open>pulse/sourceState.ts\<close> with \<open>caps/gateHints.ts\<close>, \<open>pulse/meAvailability.ts\<close>
    and the TLS fingerprints widget).
  \<^item> \<open>Updates\<close> and \<open>Update_Props\<close> (\<open>server/updates\<close>).
  \<^item> \<open>Users\<close>, \<open>User_Forms\<close>, \<open>User_Props\<close> (\<open>people\<close> and \<open>ui/quota.helpers.ts\<close>); \<open>User_Edit\<close> and \<open>User_Edit_Props\<close>
    (\<open>people/UserFormSheet.tsx\<close>: the form state, its controls, both requests and the session around them).
  \<^item> \<open>Web_Access\<close> and \<open>Web_Access_Props\<close> (the editor of \<open>people/WebAccessPanel.tsx\<close> over the draft session).
  \<^item> \<open>Web_Close\<close> and \<open>Web_Close_Props\<close> (\<open>lib/useTelemtOperation.ts\<close>, \<open>pulse/diag/web.helpers.ts\<close>,
    \<open>useWebCloseReport.ts\<close> and the close state of \<open>WebPage.tsx\<close>), with the messages of \<open>Api_Error\<close>
    (\<open>people/apiError.ts\<close>, \<open>i18n/messages.ts\<close>).
  \<^item> \<open>History\<close> and \<open>History_Props\<close> (\<open>pulse/widgets/historyIntervals.helpers.ts\<close>, \<open>statRow.helpers.ts\<close>).
  \<^item> \<open>Locale_Store\<close> and \<open>Locale_Props\<close> (\<open>i18n/store.ts\<close>, \<open>locale.ts\<close>, \<open>loadDictionary.ts\<close>).
  \<^item> \<open>Base64\<close> and \<open>Webauthn\<close> (\<open>auth/webauthn.ts\<close>), \<open>Links\<close> and \<open>Link_Props\<close> (\<open>people/parseLink.ts\<close>,
    \<open>connectionLinks.ts\<close>).
  \<^item> \<open>Panel_Access\<close> and \<open>Panel_Access_Props\<close> (\<open>server/settings/panelAccess.helpers.ts\<close> and the form of
    \<open>PanelAccessForm.tsx\<close>: draft, checks, the three requests and their answers as events of one state).
  \<^item> \<open>Api_Client\<close> (the response interceptor of \<open>lib/api/client.ts\<close>).
  \<^item> \<open>Counters\<close> and \<open>Counter_Props\<close> (\<open>pulse/diag/counters.helpers.ts\<close>, \<open>counters.view.helpers.ts\<close> and the hook of
    \<open>CountersPage.tsx\<close>).
  \<^item> \<open>Overview\<close> and \<open>Overview_Props\<close> (\<open>pulse/widgets\<close>: \<open>dc\<close>, \<open>upstreams\<close>, \<open>quotas\<close>, \<open>onlineNow\<close> and \<open>healthHero\<close> helpers with
    the health functions of \<open>shell/StatusStrip.helpers.ts\<close>; \<open>pulse/diag\<close>: \<open>upstreams\<close>, \<open>me\<close> and \<open>events\<close> helpers).
  \<^item> \<open>Access\<close> (\<open>auth/safeRedirect.ts\<close>, \<open>auth/guards.ts\<close>, \<open>lib/base-path.ts\<close>, \<open>server/security/access.helpers.ts\<close>).
  \<^item> \<open>I18n\<close> (\<open>i18n/plural.ts\<close>), \<open>Problems\<close> and \<open>Problem_Props\<close> (\<open>pulse/widgets/problems.helpers.ts\<close>,
    \<open>mePool.helpers.ts\<close>).

  \<^bold>\<open>What is proved.\<close> Along every history of events the realtime client keeps one source, never loses the
  last way to be woken while somebody listens, never lets a late answer overwrite newer data, never
  piles up timers, polls exactly while it shows that it polls, and after a reset or dispose nothing of
  the old session acts. The log client keeps one source and one reconnect and respects \<open>Retry-After\<close>;
  the journal refines the plain history of entries. Patches carry exactly the edit, rebasing keeps both
  sides, and the change lists are complete. Draft and TOML sessions never lose text, save only what the
  server validated, and ignore late answers. Page states reflect their sources and a failed refresh
  keeps the payload. The update page never steps back and its restart watch ends. The merge patch of a
  user turns the stored user into the edited one; the people list is a sorted permutation with
  consistent counts. The user form stores exactly what it shows and keeps what is typed during a save; the
  editor of WEB profiles sends only valid lists with a current revision and never loses a draft. A bulk close
  selects the sessions shown, its poll ends and its outcome is reported once. The history of a counter is read as
  measured steps and the quality of connections is a percentage. The latest choice of language wins. Bytes
  survive the base64 of a passkey, and the links of a user are sound. Redirects stay inside the application, and the API is called local only when it is.
  The problem list reports a counter exactly when it grew. The panel's own listener is changed only to what the
  server prepared from a checked draft, with plain HTTP confirmed; an expired session leads to the login once; rates are
  measured between readings of one run of the proxy; and the cards of the overview name the worst first.
  Where a comment of the code says more than the code does, the text of the property says so and the property covers what both say.

  \<^bold>\<open>Bounds and termination.\<close> Every model function is total; where the code recurses over values, the
  measure is the size of the value, and no model uses fuel. Time passes by explicit events; the restart watch
  ends after the two minutes of ticks the code allows, the poll of an operation after forty answers.

  \<^bold>\<open>Parameters.\<close> The browser's URL parser, its collation of strings, the local time zone, the locale's
  number formatter, the texts of the dictionaries, the URLs of their modules and the serialisers of links are
  arguments of the definitions that use them. The query library keeps the state of a poll: what it does
  with an answer is a parameter with the documented counters as its contract (\<open>query_contract\<close>).

  \<^bold>\<open>Not modelled.\<close> Rendering (React components and pages), the generated API client and router tree,
  the dictionaries, the globe and geography pages, fixtures and tests. Of the pure code: row builders of the diagnostics
  pages, payload adapters that only rename fields, texts built from characters beyond 8 bits (the dash of a missing
  value is \<open>None\<close> in the models) and the settings helpers for sessions, storage and the location database. The Go
  server is another program.
\<close>

end
